(* ===== verification/Prelude.thy ===== *)
theory Prelude
  imports Main "HOL-Library.Sublist" "HOL-Library.List_Lexorder" "HOL-Library.Char_ord"
begin

text \<open>
  What every component shares: the platform's exceptions as one datatype, the pieces of
  Python's standard library the sources call (\<open>str.strip\<close>, \<open>str.split\<close>, \<open>str.replace\<close>,
  \<open>int\<close>, \<open>str\<close>, \<open>repr\<close>, JSON values, \<open>uuid.UUID\<close>), the keyed tables that stand for the
  ORM's rows, and the rule collections of the library.

  Text is ASCII: a \<open>string\<close> is a list of code points, and the case functions change the
  letters A to Z only.  Instants are integers (microseconds since the epoch, UTC).
\<close>

named_theorems enum_simps \<open>spelling and membership facts of the enumerations\<close>
named_theorems frame_simps \<open>fields that an operation leaves alone\<close>
named_theorems op_defs \<open>the definitions of a component's operations\<close>

section \<open>Exceptions\<close>

text \<open>
  The classes of app/core/exceptions.py and the exceptions of Python, Fernet (\<open>InvalidToken\<close>) and
  FastAPI that the modelled code raises or meets; the argument is the message, for
  \<open>HTTPException\<close> after the status code.
\<close>

datatype error =
    DriverResolutionError string
  | CapabilityError string
  | ApprovalRequiredError string
  | SecretHandlingError string
  | SafetyError string
  | RealApplyDisabledError string
  | ConfigApplyNotAllowedError string
  | NotFoundError string
  | ConflictError string
  | ValueError string
  | TypeError string
  | AttributeError string
  | KeyError string
  | RuntimeError string
  | OSError string
  | TimeoutError string
  | InvalidToken string
  | HTTPException int string

text \<open>\<open>isinstance(exc, SafetyError)\<close>: the class and its two subclasses.\<close>

fun is_safety_error :: "error \<Rightarrow> bool" where
  "is_safety_error (SafetyError _) = True"
| "is_safety_error (RealApplyDisabledError _) = True"
| "is_safety_error (ConfigApplyNotAllowedError _) = True"
| "is_safety_error _ = False"

section \<open>Characters\<close>

text \<open>
  Upper-case letters are the codes 65 to 90: bit 6 set, bit 5 clear and the low five bits
  between 1 and 26.  Lowering sets bit 5.
\<close>

fun is_upper :: "char \<Rightarrow> bool" where
  "is_upper (Char b0 b1 b2 b3 b4 b5 b6 b7) =
     (\<not> b7 \<and> b6 \<and> \<not> b5 \<and> (b0 \<or> b1 \<or> b2 \<or> b3 \<or> b4) \<and> \<not> (b4 \<and> b3 \<and> (b2 \<or> b1 \<and> b0)))"

fun to_lower :: "char \<Rightarrow> char" where
  "to_lower (Char b0 b1 b2 b3 b4 b5 b6 b7) =
     (if is_upper (Char b0 b1 b2 b3 b4 b5 b6 b7) then Char b0 b1 b2 b3 b4 True b6 b7
      else Char b0 b1 b2 b3 b4 b5 b6 b7)"

definition is_lower :: "char \<Rightarrow> bool" where
  "is_lower c \<longleftrightarrow> c \<in> set ''abcdefghijklmnopqrstuvwxyz''"

definition is_digit :: "char \<Rightarrow> bool" where
  "is_digit c \<longleftrightarrow> c \<in> set ''0123456789''"

text \<open>\<open>str.isspace\<close> and \<open>\s\<close>: tab, line feed, vertical tab, form feed, return, the four
  information separators and the blank.\<close>

definition is_space :: "char \<Rightarrow> bool" where
  "is_space c \<longleftrightarrow> c \<in> {CHR '' '', CHR 0x09, CHR 0x0A, CHR 0x0B, CHR 0x0C, CHR 0x0D,
     CHR 0x1C, CHR 0x1D, CHR 0x1E, CHR 0x1F}"

definition is_word :: "char \<Rightarrow> bool" where
  "is_word c \<longleftrightarrow> is_lower (to_lower c) \<or> is_digit c \<or> c = CHR ''_''"

abbreviation newline :: char where "newline \<equiv> CHR 0x0A"

lemma to_lower_idem [simp]: "to_lower (to_lower c) = to_lower c"
  by (cases c) (simp split: if_splits)

lemma to_lower_not_upper [simp]: "\<not> is_upper (to_lower c)"
  by (cases c) simp

section \<open>Strings\<close>

definition casefold :: "string \<Rightarrow> string" where
  "casefold = map to_lower"

definition str_strip :: "string \<Rightarrow> string" where
  "str_strip s = rev (dropWhile is_space (rev (dropWhile is_space s)))"

fun str_join :: "string \<Rightarrow> string list \<Rightarrow> string" where
  "str_join sep [] = []"
| "str_join sep [x] = x"
| "str_join sep (x # y # ys) = x @ sep @ str_join sep (y # ys)"

text \<open>\<open>s.split(c)\<close> for a one-character separator: always at least one field.\<close>

fun split_on :: "char \<Rightarrow> string \<Rightarrow> string list" where
  "split_on c [] = [[]]"
| "split_on c (x # xs) =
     (if x = c then [] # split_on c xs
      else case split_on c xs of [] \<Rightarrow> [[x]] | f # fs \<Rightarrow> (x # f) # fs)"

text \<open>\<open>s.split()\<close>: maximal runs of non-blank characters.\<close>

fun split_words_acc :: "string \<Rightarrow> string \<Rightarrow> string list" where
  "split_words_acc w [] = (if w = [] then [] else [rev w])"
| "split_words_acc w (x # xs) =
     (if is_space x then (if w = [] then split_words_acc [] xs else rev w # split_words_acc [] xs)
      else split_words_acc (x # w) xs)"

definition split_words :: "string \<Rightarrow> string list" where
  "split_words s = split_words_acc [] s"

text \<open>\<open>s.split(maxsplit=1)[1]\<close> for a text with at least two words and no blank at its end.\<close>

definition after_word :: "string \<Rightarrow> string" where
  "after_word s = dropWhile is_space (dropWhile (\<lambda>c. \<not> is_space c) (dropWhile is_space s))"

text \<open>\<open>s.strip(c)\<close> for a one-character argument.\<close>

definition strip_char :: "char \<Rightarrow> string \<Rightarrow> string" where
  "strip_char c s = rev (dropWhile (\<lambda>x. x = c) (rev (dropWhile (\<lambda>x. x = c) s)))"

text \<open>
  \<open>s.splitlines()\<close> and \<open>s.splitlines(keepends=True)\<close>: a line ends at a line feed, a return (the two together are one
  end), a vertical tab, a form feed or one of three information separators.
\<close>

definition is_line_end :: "char \<Rightarrow> bool" where
  "is_line_end c \<longleftrightarrow> c \<in> {CHR 0x0A, CHR 0x0D, CHR 0x0B, CHR 0x0C, CHR 0x1C, CHR 0x1D, CHR 0x1E}"

fun lines_acc :: "string \<Rightarrow> string \<Rightarrow> (string \<times> string) list" where
  "lines_acc w [] = (if w = [] then [] else [(rev w, [])])"
| "lines_acc w [c] = (if is_line_end c then [(rev w, [c])] else [(rev (c # w), [])])"
| "lines_acc w (c # d # cs) =
     (if \<not> is_line_end c then lines_acc (c # w) (d # cs)
      else if c = CHR 0x0D \<and> d = CHR 0x0A then (rev w, [c, d]) # lines_acc [] cs
      else (rev w, [c]) # lines_acc [] (d # cs))"

definition splitlines :: "string \<Rightarrow> string list" where
  "splitlines s = map fst (lines_acc [] s)"

definition splitlines_keep :: "string \<Rightarrow> string list" where
  "splitlines_keep s = map (\<lambda>(l, e). l @ e) (lines_acc [] s)"

text \<open>\<open>xs[n:]\<close>: a negative index counts from the end.\<close>

definition slice_from :: "int \<Rightarrow> 'a list \<Rightarrow> 'a list" where
  "slice_from n xs = drop (nat (if n < 0 then max 0 (int (length xs) + n) else n)) xs"

text \<open>\<open>list(v or [])\<close>, \<open>dict(v or {})\<close> and \<open>v or ""\<close> for an optional value.\<close>

definition or_nil :: "'a list option \<Rightarrow> 'a list" where
  "or_nil v = (case v of None \<Rightarrow> [] | Some xs \<Rightarrow> xs)"

lemma or_nil_simps [simp]: "or_nil None = []" "or_nil (Some xs) = xs"
  by (simp_all add: or_nil_def)

text \<open>\<open>s.replace(old, new)\<close>; the empty pattern matches before every character and at the end.\<close>

fun replace_ne :: "string \<Rightarrow> string \<Rightarrow> string \<Rightarrow> string" where
  "replace_ne old new [] = []"
| "replace_ne old new (c # cs) =
     (if prefix old (c # cs) then new @ replace_ne old new (drop (length old - 1) cs)
      else c # replace_ne old new cs)"

definition str_replace :: "string \<Rightarrow> string \<Rightarrow> string \<Rightarrow> string" where
  "str_replace old new s =
     (if old = [] then new @ concat (map (\<lambda>c. c # new) s) else replace_ne old new s)"

text \<open>\<open>sorted(set(xs))\<close> over strings, in code-point order.\<close>

definition sorted_set :: "string list \<Rightarrow> string list" where
  "sorted_set xs = sort (remdups xs)"

text \<open>The tokens of a comma-separated text: the stripped fields that are not blank.\<close>

definition tokens :: "string list \<Rightarrow> string list" where
  "tokens parts = filter (\<lambda>t. t \<noteq> []) (map str_strip parts)"

lemma set_sorted_set [simp]: "set (sorted_set xs) = set xs"
  by (simp add: sorted_set_def)

lemma sorted_set_Nil_iff [simp]: "sorted_set xs = [] \<longleftrightarrow> xs = []"
  by (metis set_empty set_sorted_set)

lemma sorted_sorted_set [simp]: "sorted (sorted_set xs)"
  by (simp add: sorted_set_def)

lemma distinct_sorted_set [simp]: "distinct (sorted_set xs)"
  by (simp add: sorted_set_def)

lemma split_on_not_Nil [simp]: "split_on c s \<noteq> []"
  by (induction s) (auto split: list.splits)

lemma split_on_absent: "c \<notin> set s \<Longrightarrow> split_on c s = [s]"
  by (induction s) auto

lemma split_on_append: "c \<notin> set s \<Longrightarrow> split_on c (s @ c # t) = s # split_on c t"
  by (induction s) auto

text \<open>Splitting what was joined gives the fields back when no field holds the separator.\<close>

lemma split_on_join:
  "xs \<noteq> [] \<Longrightarrow> \<forall>x\<in>set xs. c \<notin> set x \<Longrightarrow> split_on c (str_join [c] xs) = xs"
proof (induction "[c]" xs rule: str_join.induct)
  case (3 x y ys)
  then show ?case by (simp add: split_on_append)
qed (auto simp: split_on_absent)

lemma str_strip_no_space: "\<forall>c\<in>set s. \<not> is_space c \<Longrightarrow> str_strip s = s"
proof -
  assume a: "\<forall>c\<in>set s. \<not> is_space c"
  then have "dropWhile is_space s = s" by (simp add: dropWhile_eq_self_iff)
  moreover have "dropWhile is_space (rev s) = rev s"
    using a by (metis dropWhile_eq_self_iff hd_in_set rev_is_Nil_conv set_rev)
  ultimately show ?thesis by (simp add: str_strip_def)
qed

end
