(* ===== verification/PyValues.thy ===== *)
theory PyValues
  imports Prelude
begin

text \<open>
  Python values as the sources use them: \<open>str(int)\<close> and \<open>int(str)\<close> with their round trip,
  \<open>repr\<close>, the JSON values of the database's JSON columns and of request payloads, and
  \<open>uuid.UUID\<close> (a 128-bit number) with its text form.  Floating-point JSON numbers do not
  occur in the modelled code and have no constructor.
\<close>

section \<open>Decimal numbers\<close>

definition digit_char :: "nat \<Rightarrow> char" where
  "digit_char d = ''0123456789abcdef'' ! d"

fun digit_val :: "char \<Rightarrow> nat option" where
  "digit_val c = map_of [(CHR ''0'', 0), (CHR ''1'', 1), (CHR ''2'', 2), (CHR ''3'', 3),
     (CHR ''4'', 4), (CHR ''5'', 5), (CHR ''6'', 6), (CHR ''7'', 7), (CHR ''8'', 8),
     (CHR ''9'', 9), (CHR ''a'', 10), (CHR ''b'', 11), (CHR ''c'', 12), (CHR ''d'', 13),
     (CHR ''e'', 14), (CHR ''f'', 15)] (to_lower c)"

fun nat_str :: "nat \<Rightarrow> string" where
  "nat_str n = (if n < 10 then [digit_char n] else nat_str (n div 10) @ [digit_char (n mod 10)])"

declare nat_str.simps [simp del] digit_val.simps [simp del]

definition int_str :: "int \<Rightarrow> string" where
  "int_str i = (if i < 0 then CHR ''-'' # nat_str (nat (- i)) else nat_str (nat i))"

text \<open>
  The digits of \<open>int(text, base)\<close>: single underscores may separate digits, and the
  text may not be empty, start or end with one (\<open>ok\<close> says that the last character was a digit).
\<close>

fun parse_digits :: "nat \<Rightarrow> nat \<Rightarrow> bool \<Rightarrow> string \<Rightarrow> nat option" where
  "parse_digits base acc ok [] = (if ok then Some acc else None)"
| "parse_digits base acc ok (c # cs) =
     (case digit_val c of
        Some d \<Rightarrow> if d < base then parse_digits base (base * acc + d) True cs else None
      | None \<Rightarrow> if c = CHR ''_'' \<and> ok then parse_digits base acc False cs else None)"

fun split_sign :: "string \<Rightarrow> bool \<times> string" where
  "split_sign [] = (False, [])"
| "split_sign (c # cs) =
     (if c = CHR ''-'' then (True, cs) else if c = CHR ''+'' then (False, cs) else (False, c # cs))"

definition signed :: "bool \<Rightarrow> nat \<Rightarrow> int" where
  "signed neg n = (if neg then - int n else int n)"

definition parse_int10 :: "string \<Rightarrow> int option" where
  "parse_int10 s =
     (case split_sign (str_strip s) of (neg, body) \<Rightarrow> map_option (signed neg) (parse_digits 10 0 False body))"

text \<open>\<open>int(text, 16)\<close>: an optional \<open>0x\<close> prefix, after which one underscore may stand.\<close>

definition parse_int16 :: "string \<Rightarrow> int option" where
  "parse_int16 s =
     (case split_sign (str_strip s) of (neg, body) \<Rightarrow>
        map_option (signed neg)
          (if prefix ''0x'' (casefold body) then (if drop 2 body = [] then None else parse_digits 16 0 True (drop 2 body))
           else parse_digits 16 0 False body))"


section \<open>\<open>repr\<close> and \<open>str\<close>\<close>

definition hex2 :: "nat \<Rightarrow> string" where
  "hex2 n = [digit_char (n div 16), digit_char (n mod 16)]"

definition repr_char :: "char \<Rightarrow> char \<Rightarrow> string" where
  "repr_char q c =
     (if c = CHR 0x5C then [CHR 0x5C, CHR 0x5C]
      else if c = q then [CHR 0x5C, q]
      else if c = CHR 0x0A then [CHR 0x5C, CHR ''n'']
      else if c = CHR 0x0D then [CHR 0x5C, CHR ''r'']
      else if c = CHR 0x09 then [CHR 0x5C, CHR ''t'']
      else if of_char c < (32 :: nat) \<or> of_char c = (127 :: nat)
        then [CHR 0x5C, CHR ''x''] @ hex2 (of_char c)
      else [c])"

text \<open>Python quotes with single quotes unless the text has one and no double quote.\<close>

definition repr_str :: "string \<Rightarrow> string" where
  "repr_str s =
     (let q = (if CHR 0x27 \<in> set s \<and> CHR 0x22 \<notin> set s then CHR 0x22 else CHR 0x27)
      in [q] @ concat (map (repr_char q) s) @ [q])"

datatype json =
    JNull
  | JBool bool
  | JInt int
  | JStr string
  | JList "json list"
  | JObj "(string \<times> json) list"

type_synonym jobj = "(string \<times> json) list"

fun py_repr :: "json \<Rightarrow> string" where
  "py_repr JNull = ''None''"
| "py_repr (JBool b) = (if b then ''True'' else ''False'')"
| "py_repr (JInt i) = int_str i"
| "py_repr (JStr s) = repr_str s"
| "py_repr (JList xs) = ''['' @ str_join '', '' (map py_repr xs) @ '']''"
| "py_repr (JObj kvs) = ''{'' @ str_join '', '' (map (\<lambda>(k, v). repr_str k @ '': '' @ py_repr v) kvs) @ ''}''"

fun py_str :: "json \<Rightarrow> string" where
  "py_str (JStr s) = s"
| "py_str j = py_repr j"

fun truthy :: "json \<Rightarrow> bool" where
  "truthy JNull = False"
| "truthy (JBool b) = b"
| "truthy (JInt i) = (i \<noteq> 0)"
| "truthy (JStr s) = (s \<noteq> [])"
| "truthy (JList xs) = (xs \<noteq> [])"
| "truthy (JObj kvs) = (kvs \<noteq> [])"

text \<open>\<open>d.get(key)\<close>: a missing key reads as \<open>None\<close>.\<close>

definition jget :: "jobj \<Rightarrow> string \<Rightarrow> json" where
  "jget d k = (case map_of d k of None \<Rightarrow> JNull | Some v \<Rightarrow> v)"

definition has_key :: "jobj \<Rightarrow> string \<Rightarrow> bool" where
  "has_key d k \<longleftrightarrow> k \<in> set (map fst d)"

definition as_obj :: "json \<Rightarrow> jobj option" where
  "as_obj j = (case j of JObj d \<Rightarrow> Some d | _ \<Rightarrow> None)"

text \<open>\<open>str(value or "")\<close>\<close>

definition str_or_empty :: "json \<Rightarrow> string" where
  "str_or_empty j = (if truthy j then py_str j else [])"

definition or_empty :: "string option \<Rightarrow> string" where
  "or_empty v = (case v of None \<Rightarrow> [] | Some s \<Rightarrow> s)"

fun type_name :: "json \<Rightarrow> string" where
  "type_name JNull = ''NoneType''"
| "type_name (JBool _) = ''bool''"
| "type_name (JInt _) = ''int''"
| "type_name (JStr _) = ''str''"
| "type_name (JList _) = ''list''"
| "type_name (JObj _) = ''dict''"

text \<open>The elements \<open>for item in value\<close> visits.\<close>

definition json_items :: "json \<Rightarrow> error + json list" where
  "json_items j =
     (case j of
        JList xs \<Rightarrow> Inr xs
      | JStr s \<Rightarrow> Inr (map (\<lambda>c. JStr [c]) s)
      | JObj d \<Rightarrow> Inr (map (\<lambda>(k, _). JStr k) d)
      | _ \<Rightarrow> Inl (TypeError (repr_str (type_name j) @ '' object is not iterable'')))"

text \<open>\<open>int(value)\<close>\<close>

fun py_int :: "json \<Rightarrow> error + int" where
  "py_int (JBool b) = Inr (if b then 1 else 0)"
| "py_int (JInt i) = Inr i"
| "py_int (JStr s) =
     (case parse_int10 s of
        None \<Rightarrow> Inl (ValueError (''invalid literal for int() with base 10: '' @ repr_str s))
      | Some i \<Rightarrow> Inr i)"
| "py_int j = Inl (TypeError (''int() argument must be a string, a bytes-like object or a real number, not ''
      @ repr_str (type_name j)))"

text \<open>\<open>str(exc)\<close>: the message, which a \<open>KeyError\<close> shows with \<open>repr\<close>
  and an \<open>HTTPException\<close> after its status code.\<close>

fun err_str :: "error \<Rightarrow> string" where
  "err_str (DriverResolutionError m) = m"
| "err_str (CapabilityError m) = m"
| "err_str (ApprovalRequiredError m) = m"
| "err_str (SecretHandlingError m) = m"
| "err_str (SafetyError m) = m"
| "err_str (RealApplyDisabledError m) = m"
| "err_str (ConfigApplyNotAllowedError m) = m"
| "err_str (NotFoundError m) = m"
| "err_str (ConflictError m) = m"
| "err_str (ValueError m) = m"
| "err_str (TypeError m) = m"
| "err_str (AttributeError m) = m"
| "err_str (KeyError m) = repr_str m"
| "err_str (RuntimeError m) = m"
| "err_str (OSError m) = m"
| "err_str (TimeoutError m) = m"
| "err_str (InvalidToken m) = m"
| "err_str (HTTPException c m) = int_str c @ '': '' @ m"

section \<open>Round trip of decimal numbers\<close>

lemma digit_val_digit_char:
  assumes "d < 10" shows "digit_val (digit_char d) = Some d"
proof -
  have "d \<in> {0, 1, 2, 3, 4, 5, 6, 7, 8, 9}" using assms by auto
  then show ?thesis by (auto simp: digit_char_def digit_val.simps)
qed

lemma digit_char_is_digit: "d < 10 \<Longrightarrow> is_digit (digit_char d)"
  by (auto simp: digit_char_def is_digit_def numeral_eq_Suc less_Suc_eq)

lemma digit_not_special:
  "is_digit c \<Longrightarrow> \<not> is_space c \<and> c \<noteq> CHR ''-'' \<and> c \<noteq> CHR ''+'' \<and> c \<noteq> CHR '','' \<and> c \<noteq> CHR ''_''"
  by (auto simp: is_digit_def is_space_def)

lemma nat_str_digits: "\<forall>c\<in>set (nat_str n). is_digit c"
proof (induction n rule: nat_str.induct)
  case (1 n)
  then show ?case by (subst nat_str.simps) (auto simp: digit_char_is_digit)
qed

lemma nat_str_not_Nil [simp]: "nat_str n \<noteq> []"
  by (subst nat_str.simps) simp

lemma parse_digits_snoc:
  "parse_digits b acc ok s = Some v \<Longrightarrow> digit_val c = Some d \<Longrightarrow> d < b \<Longrightarrow>
   parse_digits b acc ok (s @ [c]) = Some (b * v + d)"
  by (induction b acc ok s rule: parse_digits.induct) (auto split: option.splits if_splits)

lemma parse_digits_nat_str [simp]: "parse_digits 10 0 False (nat_str n) = Some n"
proof (induction n rule: nat_str.induct)
  case (1 n)
  show ?case
  proof (cases "n < 10")
    case True
    then show ?thesis by (subst nat_str.simps) (simp add: digit_val_digit_char)
  next
    case False
    with "1" have "parse_digits 10 0 False (nat_str (n div 10)) = Some (n div 10)" by simp
    from parse_digits_snoc [OF this digit_val_digit_char, of "n mod 10"]
    have "parse_digits 10 0 False (nat_str (n div 10) @ [digit_char (n mod 10)]) = Some n" by simp
    with False show ?thesis by (subst nat_str.simps) simp
  qed
qed

lemma str_strip_nat_str [simp]: "str_strip (nat_str n) = nat_str n"
  using nat_str_digits by (auto intro: str_strip_no_space dest: digit_not_special)

lemma split_sign_nat_str [simp]: "split_sign (nat_str n) = (False, nat_str n)"
proof -
  obtain c cs where eq: "nat_str n = c # cs" by (cases "nat_str n") simp_all
  with nat_str_digits [of n] have "is_digit c" by simp
  with eq show ?thesis by (auto dest: digit_not_special)
qed

lemma int_str_no_space: "\<forall>c\<in>set (int_str i). \<not> is_space c"
proof -
  have "\<not> is_space (CHR ''-'')" by (simp add: is_space_def)
  then show ?thesis using nat_str_digits by (auto simp: int_str_def dest: digit_not_special)
qed

text \<open>\<open>int(str(i)) = i\<close>\<close>

lemma parse_int10_int_str [simp]: "parse_int10 (int_str i) = Some i"
  using str_strip_no_space [OF int_str_no_space [of i]]
  by (cases "i < 0") (simp_all add: parse_int10_def int_str_def signed_def)

lemma py_str_JInt: "py_str (JInt i) = int_str i"
  by simp

end
