(* ===== verification/Uuid.thy ===== *)
theory Uuid
  imports PyValues
begin

text \<open>
  \<open>uuid.UUID\<close>: identifiers are 128-bit numbers, written as 32 hexadecimal digits in groups of
  8, 4, 4, 4 and 12.  Parsing follows the standard library (\<open>urn:\<close>/\<open>uuid:\<close> prefixes, braces
  and hyphens are dropped, 32 digits must remain).  \<open>coerce_uuid\<close> and \<open>optional_uuid\<close> are the
  helpers of app/repositories/__init__.py.
\<close>

type_synonym uuid = nat

fun hex_digits :: "nat \<Rightarrow> nat \<Rightarrow> string" where
  "hex_digits 0 u = []"
| "hex_digits (Suc n) u = hex_digits n (u div 16) @ [digit_char (u mod 16)]"

definition uuid_str :: "uuid \<Rightarrow> string" where
  "uuid_str u =
     (let h = hex_digits 32 u
      in take 8 h @ ''-'' @ take 4 (drop 8 h) @ ''-'' @ take 4 (drop 12 h) @ ''-''
         @ take 4 (drop 16 h) @ ''-'' @ drop 20 h)"

definition strip_braces :: "string \<Rightarrow> string" where
  "strip_braces s = rev (dropWhile (\<lambda>c. c \<in> set ''{}'') (rev (dropWhile (\<lambda>c. c \<in> set ''{}'') s)))"

definition uuid_of_string :: "string \<Rightarrow> uuid option" where
  "uuid_of_string s =
     (let h = str_replace ''-'' [] (strip_braces (str_replace ''uuid:'' [] (str_replace ''urn:'' [] s)))
      in if length h \<noteq> 32 then None
         else case parse_int16 h of
                None \<Rightarrow> None
              | Some i \<Rightarrow> if 0 \<le> i \<and> i < 2 ^ 128 then Some (nat i) else None)"

text \<open>The argument is the text form; an identifier that is already parsed passes unchanged.\<close>

definition coerce_uuid :: "string \<Rightarrow> string \<Rightarrow> error + uuid" where
  "coerce_uuid object_name value =
     (case uuid_of_string value of
        None \<Rightarrow> Inl (NotFoundError (object_name @ '' '' @ value @ '' not found''))
      | Some u \<Rightarrow> Inr u)"

definition optional_uuid :: "string \<Rightarrow> string option \<Rightarrow> error + uuid option" where
  "optional_uuid object_name value =
     (case value of
        None \<Rightarrow> Inr None
      | Some v \<Rightarrow> (case coerce_uuid object_name v of Inl e \<Rightarrow> Inl e | Inr u \<Rightarrow> Inr (Some u)))"

section \<open>Round trip of the text form\<close>

lemma length_hex_digits [simp]: "length (hex_digits n u) = n"
  by (induction n arbitrary: u) simp_all

lemma digit_val_hex:
  assumes "d < 16" shows "digit_val (digit_char d) = Some d"
proof -
  have "list_all (\<lambda>d. digit_val (digit_char d) = Some d) [0..<16]" by code_simp
  with assms show ?thesis by (simp add: list_all_iff)
qed

lemma hex_digits_chars: "set (hex_digits n u) \<subseteq> set ''0123456789abcdef''"
proof (induction n arbitrary: u)
  case (Suc n)
  have "digit_char (u mod 16) \<in> set ''0123456789abcdef''"
    unfolding digit_char_def by (rule nth_mem) simp
  with Suc show ?case by simp
qed simp

lemma parse_digits_hex:
  "u < 16 ^ n \<Longrightarrow> n > 0 \<Longrightarrow> parse_digits 16 0 False (hex_digits n u) = Some u"
proof (induction n arbitrary: u)
  case (Suc n)
  show ?case
  proof (cases "n = 0")
    case True
    with Suc.prems show ?thesis by (simp add: digit_val_hex)
  next
    case False
    from Suc.prems have "u div 16 < 16 ^ n" by (simp add: less_mult_imp_div_less)
    with False have "parse_digits 16 0 False (hex_digits n (u div 16)) = Some (u div 16)"
      using Suc.IH by simp
    from parse_digits_snoc [OF this digit_val_hex, of "u mod 16"] show ?thesis by simp
  qed
qed simp

lemma replace_absent: "old \<noteq> [] \<Longrightarrow> hd old \<notin> set s \<Longrightarrow> str_replace old new s = s"
proof -
  assume "old \<noteq> []" and a: "hd old \<notin> set s"
  then obtain c cs where old: "old = c # cs" by (cases old) auto
  with a have "replace_ne old new s = s" by (induction s) auto
  with old show ?thesis by (simp add: str_replace_def)
qed

lemma replace_char_filter: "str_replace [c] [] s = filter (\<lambda>x. x \<noteq> c) s"
proof -
  have "replace_ne [c] [] s = filter (\<lambda>x. x \<noteq> c) s" by (induction s) auto
  then show ?thesis by (simp add: str_replace_def)
qed

lemma strip_braces_absent:
  assumes "set s \<inter> set ''{}'' = {}" shows "strip_braces s = s"
proof -
  have "dropWhile (\<lambda>c. c \<in> set ''{}'') t = t" if "set t \<inter> set ''{}'' = {}" for t
    using that by (cases t) auto
  from this [OF assms] this [of "rev s"] assms show ?thesis
    by (simp add: strip_braces_def)
qed

lemma hex_no_dash: "set h \<subseteq> set ''0123456789abcdef'' \<Longrightarrow> filter (\<lambda>x. x \<noteq> CHR ''-'') h = h"
  by (auto simp: filter_id_conv)

lemma set_take_hex: "set (take k (hex_digits n u)) \<subseteq> set ''0123456789abcdef''"
  and set_drop_hex: "set (drop k (hex_digits n u)) \<subseteq> set ''0123456789abcdef''"
  by (rule subset_trans [OF set_take_subset hex_digits_chars])
    (rule subset_trans [OF set_drop_subset hex_digits_chars])

lemma filter_uuid_str: "filter (\<lambda>x. x \<noteq> CHR ''-'') (uuid_str u) = hex_digits 32 u"
proof -
  let ?h = "hex_digits 32 u" and ?f = "filter (\<lambda>x. x \<noteq> CHR ''-'')"
  have cut: "?f (take j (drop i ?h)) = take j (drop i ?h)" for i j
    by (rule hex_no_dash) (rule subset_trans [OF set_take_subset set_drop_hex])
  have ends: "?f (take 8 ?h) = take 8 ?h" "?f (drop 20 ?h) = drop 20 ?h"
    by (rule hex_no_dash, rule set_take_hex) (rule hex_no_dash, rule set_drop_hex)
  have step: "take 4 (drop i ?h) @ drop (i + 4) ?h = drop i ?h" for i
    using append_take_drop_id [of 4 "drop i ?h"] by (simp add: add.commute)
  have "?f (uuid_str u) = take 8 ?h @ take 4 (drop 8 ?h) @ take 4 (drop 12 ?h)
      @ take 4 (drop 16 ?h) @ drop 20 ?h"
    by (simp add: uuid_str_def Let_def cut ends)
  also have "\<dots> = ?h"
    using step [of 8] step [of 12] step [of 16] by simp
  finally show ?thesis .
qed

lemma uuid_str_chars: "c \<in> set (uuid_str u) \<Longrightarrow> c = CHR ''-'' \<or> c \<in> set ''0123456789abcdef''"
proof (rule disjCI)
  assume "c \<in> set (uuid_str u)" and neq: "c \<notin> set ''0123456789abcdef''"
  moreover have "c \<notin> set (filter (\<lambda>x. x \<noteq> CHR ''-'') (uuid_str u))"
    unfolding filter_uuid_str using neq hex_digits_chars by blast
  ultimately show "c = CHR ''-''" by simp
qed

lemma two_heads: "length h = Suc (Suc n) \<Longrightarrow> \<exists>a b cs. h = a # b # cs"
  by (auto simp: length_Suc_conv)

lemma hex_char_facts:
  assumes "c \<in> set ''0123456789abcdef''"
  shows "\<not> is_space c" "c \<noteq> CHR ''-''" "c \<noteq> CHR ''+''" "to_lower c \<noteq> CHR ''x''"
proof -
  have "list_all (\<lambda>c. \<not> is_space c \<and> c \<noteq> CHR ''-'' \<and> c \<noteq> CHR ''+'' \<and> to_lower c \<noteq> CHR ''x'')
    ''0123456789abcdef''"
    by (simp add: is_space_def)
  with assms have "\<not> is_space c \<and> c \<noteq> CHR ''-'' \<and> c \<noteq> CHR ''+'' \<and> to_lower c \<noteq> CHR ''x''"
    unfolding list_all_iff by (rule bspec [rotated])
  then show "\<not> is_space c" "c \<noteq> CHR ''-''" "c \<noteq> CHR ''+''" "to_lower c \<noteq> CHR ''x''"
    by (rule conjunct1, simp, simp, simp)
qed

lemma split_sign_hex:
  "a \<in> set ''0123456789abcdef'' \<Longrightarrow> split_sign (a # s) = (False, a # s)"
  using hex_char_facts [of a] by (simp only: split_sign.simps if_False)

lemma no_hex_prefix:
  "b \<in> set ''0123456789abcdef'' \<Longrightarrow> \<not> prefix ''0x'' (casefold (a # b # s))"
  using hex_char_facts(4) [of b] by (simp only: casefold_def list.map Cons_prefix_Cons) auto

lemma parse_int16_hex: "u < 2 ^ 128 \<Longrightarrow> parse_int16 (hex_digits 32 u) = Some (int u)"
proof -
  assume u: "u < 2 ^ 128"
  obtain h where hdef: "h = hex_digits 32 u" by simp
  have chars: "c \<in> set h \<Longrightarrow> c \<in> set ''0123456789abcdef''" for c
    using hex_digits_chars unfolding hdef by (rule subsetD)
  then have strip: "str_strip h = h" by (intro str_strip_no_space ballI hex_char_facts(1))
  obtain a b cs where h: "h = a # b # cs"
    using two_heads [of h 30] by (auto simp: hdef)
  have a: "a \<in> set ''0123456789abcdef''" and b: "b \<in> set ''0123456789abcdef''"
    by (rule chars, simp only: h list.set insert_iff simp_thms)+
  have "parse_digits 16 0 False h = Some u"
    using parse_digits_hex [of u 32] u by (simp add: hdef)
  then have "parse_int16 h = Some (int u)"
    unfolding parse_int16_def strip
    by (simp only: h split_sign_hex [OF a] no_hex_prefix [OF b] prod.case if_False
        option.map signed_def)
  then show ?thesis by (simp only: hdef)
qed

lemma uuid_of_string_str: "u < 2 ^ 128 \<Longrightarrow> uuid_of_string (uuid_str u) = Some u"
proof -
  assume u: "u < 2 ^ 128"
  have "CHR ''u'' \<notin> set (uuid_str u)" "set (uuid_str u) \<inter> set ''{}'' = {}"
    by (auto dest: uuid_str_chars)
  then have "str_replace ''-'' [] (strip_braces (str_replace ''uuid:'' [] (str_replace ''urn:'' [] (uuid_str u))))
      = hex_digits 32 u"
    by (simp add: replace_absent strip_braces_absent replace_char_filter filter_uuid_str)
  with u show ?thesis by (simp add: uuid_of_string_def parse_int16_hex)
qed

end
