(* ===== verification/Tables.thy ===== *)
theory Tables
  imports Uuid
begin

text \<open>
  The ORM's tables: a table is the list of its rows in the order of their creation, a row
  is found by its primary key (\<open>session.get\<close>), changed in place (attribute assignment on the
  object) and added at the end (\<open>session.add\<close> and \<open>flush\<close>).  The locale \<open>row_store\<close> is the
  interface the services use: reads see the last write to the same key, and writes to one key
  leave the others alone.
\<close>

definition get_row :: "('r \<Rightarrow> uuid) \<Rightarrow> uuid \<Rightarrow> 'r list \<Rightarrow> 'r option" where
  "get_row key i rows = find (\<lambda>r. key r = i) rows"

definition upd_row :: "('r \<Rightarrow> uuid) \<Rightarrow> uuid \<Rightarrow> ('r \<Rightarrow> 'r) \<Rightarrow> 'r list \<Rightarrow> 'r list" where
  "upd_row key i f rows = map (\<lambda>r. if key r = i then f r else r) rows"

lemma get_row_key: "get_row key i rows = Some r \<Longrightarrow> key r = i \<and> r \<in> set rows"
  by (auto simp: get_row_def find_Some_iff)

lemma get_row_None: "get_row key i rows = None \<longleftrightarrow> (\<forall>r\<in>set rows. key r \<noteq> i)"
  by (auto simp: get_row_def find_None_iff)

lemma get_upd_row:
  assumes "\<And>r. key (f r) = key r"
  shows "get_row key j (upd_row key i f rows)
         = (if i = j then map_option f (get_row key j rows) else get_row key j rows)"
  by (induction rows) (auto simp: get_row_def upd_row_def assms)

lemma get_row_append:
  "get_row key i (rows @ more) = (case get_row key i rows of None \<Rightarrow> get_row key i more | Some r \<Rightarrow> Some r)"
  by (induction rows) (auto simp: get_row_def)

lemma get_row_single: "get_row key i [r] = (if key r = i then Some r else None)"
  by (simp add: get_row_def)

lemma length_upd_row [simp]: "length (upd_row key i f rows) = length rows"
  by (simp add: upd_row_def)

lemma upd_row_append [simp]: "upd_row key i f (xs @ ys) = upd_row key i f xs @ upd_row key i f ys"
  by (simp add: upd_row_def)

lemma map_upd_row:
  "(\<And>r. g (f r) = g r) \<Longrightarrow> map g (upd_row key i f rows) = map g rows"
  by (simp add: upd_row_def)

locale row_store =
  fixes get :: "'d \<Rightarrow> uuid \<Rightarrow> 'r option"
    and upd :: "uuid \<Rightarrow> ('r \<Rightarrow> 'r) \<Rightarrow> 'd \<Rightarrow> 'd"
    and key :: "'r \<Rightarrow> uuid"
  assumes get_key: "get d i = Some r \<Longrightarrow> key r = i"
    and get_upd: "(\<And>r. key (f r) = key r) \<Longrightarrow>
      get (upd i f d) j = (if i = j then map_option f (get d j) else get d j)"
begin

lemma get_upd_same: "(\<And>r. key (f r) = key r) \<Longrightarrow> get d i = Some r \<Longrightarrow> get (upd i f d) i = Some (f r)"
  by (simp add: get_upd)

lemma get_upd_other: "(\<And>r. key (f r) = key r) \<Longrightarrow> i \<noteq> j \<Longrightarrow> get (upd i f d) j = get d j"
  by (simp add: get_upd)

lemma get_upd_upd:
  "(\<And>r. key (f r) = key r) \<Longrightarrow> (\<And>r. key (g r) = key r) \<Longrightarrow>
   get (upd i g (upd i f d)) j = get (upd i (g \<circ> f) d) j"
  by (simp add: get_upd option.map_comp)

lemma get_upd_defined: "(\<And>r. key (f r) = key r) \<Longrightarrow> get (upd i f d) j = None \<longleftrightarrow> get d j = None"
  by (simp add: get_upd)

end

end
