(* ===== verification/VlanRanges.thy ===== *)
theory VlanRanges
  imports Uuid
begin

text \<open>
  app/utils/vlan_ranges.py: the textual VLAN ranges (\<open>"10,20-22"\<close>).  The set the parser fills
  is the list of the numbers added so far; its sorted form without duplicates is the result.
\<close>

definition parse_vlan_id :: "string \<Rightarrow> error + int" where
  "parse_vlan_id value =
     (case py_int (JStr value) of
        Inl e \<Rightarrow> Inl e
      | Inr vlan_id \<Rightarrow>
          if vlan_id < 1 \<or> vlan_id > 4094
          then Inl (ValueError (''VLAN id out of range: '' @ int_str vlan_id))
          else Inr vlan_id)"

text \<open>One comma-separated token, already stripped and not empty: the numbers it adds.\<close>

definition token_vlans :: "string \<Rightarrow> error + int list" where
  "token_vlans token =
     (if CHR ''-'' \<in> set token then
        (case parse_vlan_id (takeWhile (\<lambda>c. c \<noteq> CHR ''-'') token) of
           Inl e \<Rightarrow> Inl e
         | Inr start \<Rightarrow>
             (case parse_vlan_id (tl (dropWhile (\<lambda>c. c \<noteq> CHR ''-'') token)) of
                Inl e \<Rightarrow> Inl e
              | Inr end' \<Rightarrow>
                  if start > end'
                  then Inl (ValueError (''Invalid VLAN range '' @ repr_str token
                         @ '': start is greater than end''))
                  else Inr [start..end']))
      else (case parse_vlan_id token of Inl e \<Rightarrow> Inl e | Inr v \<Rightarrow> Inr [v]))"

fun parse_parts :: "string list \<Rightarrow> int list \<Rightarrow> error + int list" where
  "parse_parts [] vlans = Inr vlans"
| "parse_parts (part # parts) vlans =
     (let token = str_strip part
      in if token = [] then parse_parts parts vlans
         else case token_vlans token of
                Inl e \<Rightarrow> Inl e
              | Inr vs \<Rightarrow> parse_parts parts (vlans @ vs))"

definition parse_vlan_range :: "string \<Rightarrow> error + int list" where
  "parse_vlan_range value =
     (case parse_parts (split_on (CHR '','') value) [] of
        Inl e \<Rightarrow> Inl e
      | Inr vlans \<Rightarrow> Inr (sort (remdups vlans)))"

definition format_range :: "int \<Rightarrow> int \<Rightarrow> string" where
  "format_range start end' = (if start = end' then int_str start else int_str start @ ''-'' @ int_str end')"

fun format_loop :: "int \<Rightarrow> int \<Rightarrow> int list \<Rightarrow> string list" where
  "format_loop start previous [] = [format_range start previous]"
| "format_loop start previous (vlan # vlans) =
     (if vlan = previous + 1 then format_loop start vlan vlans
      else format_range start previous # format_loop vlan vlan vlans)"

definition format_vlan_range :: "int list \<Rightarrow> string" where
  "format_vlan_range vlans =
     (case sort (remdups vlans) of
        [] \<Rightarrow> []
      | v # vs \<Rightarrow> str_join '','' (format_loop v v vs))"

section \<open>Tokens\<close>

lemma parse_vlan_id_bounds: "parse_vlan_id s = Inr v \<Longrightarrow> 1 \<le> v \<and> v \<le> 4094"
  by (auto simp: parse_vlan_id_def split: sum.splits if_splits)

lemma parse_vlan_id_int_str: "1 \<le> v \<Longrightarrow> v \<le> 4094 \<Longrightarrow> parse_vlan_id (int_str v) = Inr v"
  by (simp add: parse_vlan_id_def)

lemma token_vlans_bounds: "token_vlans t = Inr vs \<Longrightarrow> v \<in> set vs \<Longrightarrow> 1 \<le> v \<and> v \<le> 4094"
  by (force simp: token_vlans_def split: sum.splits if_splits dest!: parse_vlan_id_bounds)

lemma int_str_chars:
  assumes "0 \<le> i" "c \<in> set (int_str i)"
  shows "is_digit c"
  using assms nat_str_digits by (auto simp: int_str_def)

lemma int_str_no:
  assumes "0 \<le> i"
  shows "CHR ''-'' \<notin> set (int_str i)" "CHR '','' \<notin> set (int_str i)"
  using int_str_chars [OF assms] digit_not_special by blast+

lemma format_range_shape:
  assumes "0 \<le> a" "0 \<le> b"
  shows "CHR '','' \<notin> set (format_range a b)" "str_strip (format_range a b) = format_range a b"
        "format_range a b \<noteq> []"
proof -
  show "CHR '','' \<notin> set (format_range a b)"
    using int_str_no [OF assms(1)] int_str_no [OF assms(2)] by (auto simp: format_range_def)
  have "\<not> is_space (CHR ''-'')" by (simp add: is_space_def)
  then show "str_strip (format_range a b) = format_range a b"
    using int_str_no_space by (auto simp: format_range_def intro!: str_strip_no_space)
  show "format_range a b \<noteq> []"
    by (auto simp: format_range_def int_str_def)
qed

lemma split_first_dash:
  assumes "CHR ''-'' \<notin> set s"
  shows "takeWhile (\<lambda>c. c \<noteq> CHR ''-'') (s @ CHR ''-'' # t) = s"
    and "dropWhile (\<lambda>c. c \<noteq> CHR ''-'') (s @ CHR ''-'' # t) = CHR ''-'' # t"
  using assms by (auto simp: takeWhile_tail dropWhile_append3 takeWhile_append2 dropWhile_append2
      intro!: takeWhile_append2 dropWhile_append2)

lemma token_vlans_format_range:
  assumes "1 \<le> a" "a \<le> b" "b \<le> 4094"
  shows "token_vlans (format_range a b) = Inr [a..b]"
proof (cases "a = b")
  case True
  with assms int_str_no(1) [of b] show ?thesis
    by (simp add: token_vlans_def format_range_def parse_vlan_id_int_str)
next
  case False
  have dash: "CHR ''-'' \<notin> set (int_str a)" using assms by (intro int_str_no) simp
  from False assms show ?thesis
    by (simp add: token_vlans_def format_range_def parse_vlan_id_int_str split_first_dash [OF dash])
qed

section \<open>What the parser accepts\<close>

lemma parse_parts_Inr:
  "parse_parts parts acc = Inr vs \<longleftrightarrow>
     (\<forall>t\<in>set (tokens parts). \<exists>us. token_vlans t = Inr us) \<and>
     vs = acc @ concat (map (\<lambda>t. projr (token_vlans t)) (tokens parts))"
  by (induction parts acc rule: parse_parts.induct)
    (auto simp: tokens_def Let_def split: sum.splits)

lemma parse_vlan_range_Inr:
  "parse_vlan_range s = Inr vs \<longleftrightarrow>
     (\<forall>t\<in>set (tokens (split_on (CHR '','') s)). \<exists>us. token_vlans t = Inr us) \<and>
     vs = sort (remdups (concat (map (\<lambda>t. projr (token_vlans t)) (tokens (split_on (CHR '','') s)))))"
proof -
  have "parse_vlan_range s = Inr vs \<longleftrightarrow>
      (\<exists>us. parse_parts (split_on (CHR '','') s) [] = Inr us \<and> vs = sort (remdups us))"
    by (auto simp: parse_vlan_range_def split: sum.splits)
  then show ?thesis by (auto simp: parse_parts_Inr)
qed

section \<open>Formatting\<close>

lemma format_loop_shape:
  "0 \<le> a \<Longrightarrow> 0 \<le> p \<Longrightarrow> \<forall>v\<in>set vs. 0 \<le> v \<Longrightarrow>
   \<forall>t\<in>set (format_loop a p vs). CHR '','' \<notin> set t \<and> str_strip t = t \<and> t \<noteq> []"
  by (induction a p vs rule: format_loop.induct) (simp_all add: format_range_shape)

lemma tokens_format_loop:
  assumes "0 \<le> a" "0 \<le> p" "\<forall>v\<in>set vs. 0 \<le> v"
  shows "tokens (split_on (CHR '','') (str_join '','' (format_loop a p vs))) = format_loop a p vs"
proof -
  note shape = format_loop_shape [OF assms]
  have ne: "format_loop a p vs \<noteq> []" by (induction a p vs rule: format_loop.induct) simp_all
  have "map str_strip (format_loop a p vs) = format_loop a p vs"
    using shape by (simp add: map_idI)
  with shape ne show ?thesis by (simp add: split_on_join tokens_def filter_id_conv)
qed

text \<open>The runs printed by the loop denote the numbers from the start of the open run to the
  last one seen, and those that follow.\<close>

lemma format_loop_vlans:
  assumes "1 \<le> a" "a \<le> p" "p \<le> 4094" "sorted (p # vs)" "distinct (p # vs)" "\<forall>v\<in>set vs. v \<le> 4094"
  shows "(\<forall>t\<in>set (format_loop a p vs). \<exists>us. token_vlans t = Inr us) \<and>
         concat (map (\<lambda>t. projr (token_vlans t)) (format_loop a p vs)) = [a..p] @ vs"
  using assms
proof (induction a p vs rule: format_loop.induct)
  case (1 a p)
  then show ?case by (simp add: token_vlans_format_range)
next
  case (2 a p v vs)
  show ?case
  proof (cases "v = p + 1")
    case True
    with 2 have "[a..p] @ [v] = [a..v]" by (simp add: upto_rec2)
    with True 2 show ?thesis by simp
  next
    case False
    with 2 show ?thesis by (simp add: token_vlans_format_range)
  qed
qed

section \<open>Properties\<close>

lemma sort_remdups_strict: "sorted_wrt (<) (sort (remdups (xs :: int list)))"
  by (simp add: strict_sorted_iff)

text \<open>
  C35: a text is accepted exactly when each of its non-blank comma-separated tokens denotes VLAN
  numbers by itself, and then the result is the strictly increasing list of all numbers
  denoted, each a legal VLAN number (1 to 4094).
\<close>

theorem parse_vlan_range_accepts:
  "parse_vlan_range s = Inr vs \<longleftrightarrow>
     (\<forall>t\<in>set (tokens (split_on (CHR '','') s)). \<exists>us. token_vlans t = Inr us) \<and>
     sorted_wrt (<) vs \<and>
     set vs = (\<Union>t\<in>set (tokens (split_on (CHR '','') s)). set (projr (token_vlans t))) \<and>
     set vs \<subseteq> {1..4094}"
  (is "_ = ?rhs")
proof
  assume a: "parse_vlan_range s = Inr vs"
  let ?ts = "tokens (split_on (CHR '','') s)"
  from a have ok: "\<forall>t\<in>set ?ts. \<exists>us. token_vlans t = Inr us"
    and vs: "vs = sort (remdups (concat (map (\<lambda>t. projr (token_vlans t)) ?ts)))"
    by (simp_all add: parse_vlan_range_Inr)
  then have "set vs \<subseteq> {1..4094}"
    by (auto dest!: bspec dest: token_vlans_bounds)
  with ok vs show ?rhs by (auto simp: sort_remdups_strict)
next
  assume ?rhs
  moreover have "vs = sort (remdups us)" if "set us = set vs" "sorted_wrt (<) vs" for us
    using that by (intro sorted_distinct_set_unique) (simp_all add: strict_sorted_iff)
  ultimately show "parse_vlan_range s = Inr vs" by (simp add: parse_vlan_range_Inr)
qed

text \<open>C35: a concrete text with a range, blanks and a repeated number.\<close>

theorem parse_vlan_range_accepts_witness:
  "parse_vlan_range ''20-22, 10,,21'' = Inr [10, 20, 21, 22] \<and> sorted_wrt (<) [10, 20, 21, 22 :: int]"
proof -
  have "parse_vlan_range ''20-22, 10,,21'' = Inr [10, 20, 21, 22]" by code_simp
  with iffD1 [OF parse_vlan_range_accepts this] show ?thesis by simp
qed

text \<open>
  C36: printing a list of legal VLAN numbers and parsing the text gives the list back, in
  increasing order and without repetitions.
\<close>

theorem parse_format_vlan_range:
  assumes "\<forall>v\<in>set vs. 1 \<le> v \<and> v \<le> 4094"
  shows "parse_vlan_range (format_vlan_range vs) = Inr (sort (remdups vs))"
proof (cases "sort (remdups vs)")
  case Nil
  then have "vs = []" by (metis remdups_eq_nil_iff set_empty set_sort)
  moreover have "parse_vlan_range (format_vlan_range []) = Inr (sort (remdups []))" by code_simp
  ultimately show ?thesis by simp
next
  case (Cons w ws)
  then have mem: "set (w # ws) = set vs" and sorted: "sorted (w # ws)" and dist: "distinct (w # ws)"
    by (metis set_remdups set_sort) (metis Cons sorted_sort, metis Cons distinct_remdups distinct_sort)
  with assms have b: "\<forall>v\<in>set (w # ws). 1 \<le> v \<and> v \<le> 4094" by simp
  then have nonneg: "0 \<le> w" "\<forall>v\<in>set ws. 0 \<le> v" by force+
  have "concat (map (\<lambda>t. projr (token_vlans t)) (format_loop w w ws)) = w # ws"
    and "\<forall>t\<in>set (format_loop w w ws). \<exists>us. token_vlans t = Inr us"
    using format_loop_vlans [of w w ws] b sorted dist by simp_all
  with sorted dist show ?thesis
    by (simp add: parse_vlan_range_Inr format_vlan_range_def Cons tokens_format_loop [OF nonneg(1) nonneg(1) nonneg(2)]
        insort_is_Cons distinct_remdups_id sorted_sort_id)
qed

theorem parse_format_vlan_range_witness:
  "parse_vlan_range (format_vlan_range [12, 10, 11, 4094]) = Inr (sort (remdups [12, 10, 11, 4094]))"
  by (rule parse_format_vlan_range) simp

end
