(* ===== verification/Rbac.thy ===== *)
theory Rbac
  imports Uuid "HOL-Library.Option_ord"
begin

text \<open>
  Role-based access: app/core/rbac.py, the actor of a request (app/api/deps.py,
  \<open>get_current_actor\<close>) and app/services/approval_service.py.  Roles and permissions are the
  members of the two enumerations; a role grants a set of permissions and an actor has those of
  all its roles.
\<close>

section \<open>Roles and permissions\<close>

datatype role =
    Role_viewer | Role_network_operator | Role_operator | Role_network_admin |
    Role_security_admin | Role_auditor | Role_admin | Role_super_admin

datatype permission =
    Perm_read_devices | Perm_read_jobs | Perm_read_backups | Perm_read_audit | Perm_run_job |
    Perm_change_vlan | Perm_change_port | Perm_change_acl | Perm_change_password |
    Perm_manage_credentials | Perm_approve_job | Perm_run_approved_job | Perm_cancel_job |
    Perm_read_lab_validations | Perm_manage_lab_validations | Perm_read_inventory |
    Perm_manage_inventory | Perm_run_discovery | Perm_read_config_backups |
    Perm_manage_config_backups | Perm_run_config_backup | Perm_manage_restore_plans |
    Perm_approve_restore_plans | Perm_read_vlan_workflows | Perm_manage_vlan_workflows |
    Perm_plan_vlan_workflows | Perm_approve_vlan_workflows | Perm_read_change_executions |
    Perm_manage_change_executions | Perm_plan_change_executions | Perm_approve_change_executions |
    Perm_simulate_change_executions | Perm_cancel_change_executions | Perm_read_operator_console |
    Perm_read_observability | Perm_export_audit_reports | Perm_read_driver_runtime |
    Perm_read_credential_metadata | Perm_manage_credential_secrets | Perm_use_credential_secrets |
    Perm_evaluate_lab_apply | Perm_execute_lab_apply

fun role_value :: "role \<Rightarrow> string" where
  "role_value Role_viewer = ''viewer''"
| "role_value Role_network_operator = ''network_operator''"
| "role_value Role_operator = ''operator''"
| "role_value Role_network_admin = ''network_admin''"
| "role_value Role_security_admin = ''security_admin''"
| "role_value Role_auditor = ''auditor''"
| "role_value Role_admin = ''admin''"
| "role_value Role_super_admin = ''super_admin''"

fun permission_value :: "permission \<Rightarrow> string" where
  "permission_value Perm_read_devices = ''read_devices''"
| "permission_value Perm_read_jobs = ''read_jobs''"
| "permission_value Perm_read_backups = ''read_backups''"
| "permission_value Perm_read_audit = ''read_audit''"
| "permission_value Perm_run_job = ''run_job''"
| "permission_value Perm_change_vlan = ''change_vlan''"
| "permission_value Perm_change_port = ''change_port''"
| "permission_value Perm_change_acl = ''change_acl''"
| "permission_value Perm_change_password = ''change_password''"
| "permission_value Perm_manage_credentials = ''manage_credentials''"
| "permission_value Perm_approve_job = ''approve_job''"
| "permission_value Perm_run_approved_job = ''run_approved_job''"
| "permission_value Perm_cancel_job = ''cancel_job''"
| "permission_value Perm_read_lab_validations = ''read_lab_validations''"
| "permission_value Perm_manage_lab_validations = ''manage_lab_validations''"
| "permission_value Perm_read_inventory = ''read_inventory''"
| "permission_value Perm_manage_inventory = ''manage_inventory''"
| "permission_value Perm_run_discovery = ''run_discovery''"
| "permission_value Perm_read_config_backups = ''read_config_backups''"
| "permission_value Perm_manage_config_backups = ''manage_config_backups''"
| "permission_value Perm_run_config_backup = ''run_config_backup''"
| "permission_value Perm_manage_restore_plans = ''manage_restore_plans''"
| "permission_value Perm_approve_restore_plans = ''approve_restore_plans''"
| "permission_value Perm_read_vlan_workflows = ''read_vlan_workflows''"
| "permission_value Perm_manage_vlan_workflows = ''manage_vlan_workflows''"
| "permission_value Perm_plan_vlan_workflows = ''plan_vlan_workflows''"
| "permission_value Perm_approve_vlan_workflows = ''approve_vlan_workflows''"
| "permission_value Perm_read_change_executions = ''read_change_executions''"
| "permission_value Perm_manage_change_executions = ''manage_change_executions''"
| "permission_value Perm_plan_change_executions = ''plan_change_executions''"
| "permission_value Perm_approve_change_executions = ''approve_change_executions''"
| "permission_value Perm_simulate_change_executions = ''simulate_change_executions''"
| "permission_value Perm_cancel_change_executions = ''cancel_change_executions''"
| "permission_value Perm_read_operator_console = ''read_operator_console''"
| "permission_value Perm_read_observability = ''read_observability''"
| "permission_value Perm_export_audit_reports = ''export_audit_reports''"
| "permission_value Perm_read_driver_runtime = ''read_driver_runtime''"
| "permission_value Perm_read_credential_metadata = ''read_credential_metadata''"
| "permission_value Perm_manage_credential_secrets = ''manage_credential_secrets''"
| "permission_value Perm_use_credential_secrets = ''use_credential_secrets''"
| "permission_value Perm_evaluate_lab_apply = ''evaluate_lab_apply''"
| "permission_value Perm_execute_lab_apply = ''execute_lab_apply''"

definition all_roles :: "role list" where
  "all_roles = [
     Role_viewer, Role_network_operator, Role_operator, Role_network_admin, Role_security_admin,
     Role_auditor, Role_admin, Role_super_admin]"

definition all_permissions :: "permission list" where
  "all_permissions = [
     Perm_read_devices, Perm_read_jobs, Perm_read_backups, Perm_read_audit, Perm_run_job,
     Perm_change_vlan, Perm_change_port, Perm_change_acl, Perm_change_password,
     Perm_manage_credentials, Perm_approve_job, Perm_run_approved_job, Perm_cancel_job,
     Perm_read_lab_validations, Perm_manage_lab_validations, Perm_read_inventory,
     Perm_manage_inventory, Perm_run_discovery, Perm_read_config_backups,
     Perm_manage_config_backups, Perm_run_config_backup, Perm_manage_restore_plans,
     Perm_approve_restore_plans, Perm_read_vlan_workflows, Perm_manage_vlan_workflows,
     Perm_plan_vlan_workflows, Perm_approve_vlan_workflows, Perm_read_change_executions,
     Perm_manage_change_executions, Perm_plan_change_executions, Perm_approve_change_executions,
     Perm_simulate_change_executions, Perm_cancel_change_executions, Perm_read_operator_console,
     Perm_read_observability, Perm_export_audit_reports, Perm_read_driver_runtime,
     Perm_read_credential_metadata, Perm_manage_credential_secrets, Perm_use_credential_secrets,
     Perm_evaluate_lab_apply, Perm_execute_lab_apply]"

fun role_permissions :: "role \<Rightarrow> permission set" where
  "role_permissions Role_viewer = {
     Perm_read_devices, Perm_read_jobs, Perm_read_backups, Perm_read_inventory,
     Perm_read_config_backups, Perm_read_vlan_workflows, Perm_read_change_executions,
     Perm_read_operator_console, Perm_read_observability, Perm_read_driver_runtime,
     Perm_read_credential_metadata}"
| "role_permissions Role_network_operator = {
     Perm_read_devices, Perm_read_jobs, Perm_run_job, Perm_read_lab_validations,
     Perm_read_inventory, Perm_run_discovery, Perm_read_config_backups, Perm_run_config_backup,
     Perm_read_vlan_workflows, Perm_plan_vlan_workflows, Perm_read_change_executions,
     Perm_plan_change_executions, Perm_simulate_change_executions, Perm_read_operator_console,
     Perm_read_observability, Perm_read_driver_runtime, Perm_read_credential_metadata}"
| "role_permissions Role_operator = {
     Perm_read_devices, Perm_read_jobs, Perm_run_job}"
| "role_permissions Role_network_admin = {
     Perm_read_devices, Perm_read_jobs, Perm_read_backups, Perm_run_job, Perm_change_vlan,
     Perm_change_port, Perm_approve_job, Perm_cancel_job, Perm_run_approved_job,
     Perm_read_inventory, Perm_manage_inventory, Perm_run_discovery, Perm_read_config_backups,
     Perm_manage_config_backups, Perm_run_config_backup, Perm_manage_restore_plans,
     Perm_read_vlan_workflows, Perm_manage_vlan_workflows, Perm_plan_vlan_workflows,
     Perm_read_change_executions, Perm_manage_change_executions, Perm_plan_change_executions,
     Perm_simulate_change_executions, Perm_cancel_change_executions, Perm_read_operator_console,
     Perm_read_observability, Perm_export_audit_reports, Perm_read_driver_runtime,
     Perm_read_credential_metadata, Perm_manage_credential_secrets, Perm_use_credential_secrets,
     Perm_evaluate_lab_apply, Perm_execute_lab_apply}"
| "role_permissions Role_security_admin = {
     Perm_read_devices, Perm_read_jobs, Perm_run_job, Perm_change_acl, Perm_change_password,
     Perm_manage_credentials, Perm_read_lab_validations, Perm_manage_lab_validations,
     Perm_approve_job, Perm_cancel_job, Perm_read_inventory, Perm_manage_inventory,
     Perm_run_discovery, Perm_read_config_backups, Perm_approve_restore_plans,
     Perm_read_vlan_workflows, Perm_approve_vlan_workflows, Perm_read_change_executions,
     Perm_approve_change_executions, Perm_read_operator_console, Perm_read_observability,
     Perm_export_audit_reports, Perm_read_driver_runtime, Perm_read_credential_metadata,
     Perm_evaluate_lab_apply}"
| "role_permissions Role_auditor = {
     Perm_read_devices, Perm_read_jobs, Perm_read_backups, Perm_read_audit}"
| "role_permissions Role_admin = set all_permissions"
| "role_permissions Role_super_admin = set all_permissions"

record actor =
  username :: string
  roles :: "role set"

definition permissions :: "actor \<Rightarrow> permission set" where
  "permissions a = (\<Union>r\<in>roles a. role_permissions r)"

definition require_permission :: "actor \<Rightarrow> permission \<Rightarrow> error + unit" where
  "require_permission a p =
     (if p \<notin> permissions a
      then Inl (ApprovalRequiredError (''Actor '' @ repr_str (username a)
             @ '' does not have permission '' @ repr_str (permission_value p)))
      else Inr ())"

section \<open>The actor of a request\<close>

text \<open>\<open>Role(value)\<close>\<close>

definition role_of_value :: "string \<Rightarrow> error + role" where
  "role_of_value v =
     (case find (\<lambda>r. role_value r = v) all_roles of
        None \<Rightarrow> Inl (ValueError (repr_str v @ '' is not a valid Role''))
      | Some r \<Rightarrow> Inr r)"

fun add_roles :: "string list \<Rightarrow> role set \<Rightarrow> error + role set" where
  "add_roles [] rs = Inr rs"
| "add_roles (raw_role # rest) rs =
     (let role = str_strip raw_role
      in if role = [] then add_roles rest rs
         else case role_of_value role of
                Inl e \<Rightarrow> Inl e
              | Inr r \<Rightarrow> add_roles rest (insert r rs))"

definition get_current_actor :: "string option \<Rightarrow> string option \<Rightarrow> error + actor" where
  "get_current_actor x_actor x_roles =
     (let name = (case x_actor of None \<Rightarrow> ''system'' | Some n \<Rightarrow> if n = [] then ''system'' else n)
      in case x_roles of
           None \<Rightarrow> Inr \<lparr>username = name, roles = {Role_super_admin}\<rparr>
         | Some raw \<Rightarrow>
             if raw = [] then Inr \<lparr>username = name, roles = {Role_super_admin}\<rparr>
             else case add_roles (split_on (CHR '','') raw) {} of
                    Inl e \<Rightarrow> Inl e
                  | Inr rs \<Rightarrow> Inr \<lparr>username = name, roles = (if rs = {} then {Role_viewer} else rs)\<rparr>)"

text \<open>\<open>ApprovalService.approve\<close>\<close>

record job_approval =
  job_id :: string
  approval_status :: string
  approved_by :: string

definition approve_job :: "actor \<Rightarrow> string \<Rightarrow> error + job_approval" where
  "approve_job a j =
     (case require_permission a Perm_approve_job of
        Inl e \<Rightarrow> Inl e
      | Inr _ \<Rightarrow> Inr \<lparr>job_id = j, approval_status = ''approved'', approved_by = username a\<rparr>)"

section \<open>Facts\<close>

instantiation role :: enum
begin

definition "enum_role = all_roles"
definition "enum_all_role P = list_all P all_roles"
definition "enum_ex_role P = list_ex P all_roles"

instance
proof
  show univ: "(UNIV :: role set) = set enum_class.enum"
  proof (intro set_eqI iffI UNIV_I)
    show "r \<in> set enum_class.enum" for r :: role
      by (cases r) (simp_all add: enum_role_def all_roles_def)
  qed
  show "distinct (enum_class.enum :: role list)" by (simp add: enum_role_def all_roles_def)
  show "enum_class.enum_all P = Ball UNIV P" for P :: "role \<Rightarrow> bool"
    unfolding univ by (simp add: enum_all_role_def enum_role_def list_all_iff)
  show "enum_class.enum_ex P = Bex UNIV P" for P :: "role \<Rightarrow> bool"
    unfolding univ by (simp add: enum_ex_role_def enum_role_def list_ex_iff)
qed

end

lemma all_permissions_UNIV [enum_simps]: "set all_permissions = UNIV"
proof (intro set_eqI iffI UNIV_I)
  show "p \<in> set all_permissions" for p by (cases p) (simp_all add: all_permissions_def)
qed

lemma role_value_inj [enum_simps]: "role_value r = role_value r' \<longleftrightarrow> r = r'"
  by (cases r; cases r') simp_all

lemma permission_granted: "p \<in> permissions a \<longleftrightarrow> (\<exists>r\<in>roles a. p \<in> role_permissions r)"
  by (simp add: permissions_def)

lemma require_permission_Inr [simp]: "require_permission a p = Inr u \<longleftrightarrow> p \<in> permissions a"
  by (simp add: require_permission_def)

lemma require_permission_Inl:
  "require_permission a p = Inl e \<longleftrightarrow> p \<notin> permissions a \<and>
     e = ApprovalRequiredError (''Actor '' @ repr_str (username a)
             @ '' does not have permission '' @ repr_str (permission_value p))"
  by (auto simp: require_permission_def)

lemma require_permission_cases:
  "(case require_permission a p of Inl e \<Rightarrow> Inl e | Inr _ \<Rightarrow> r) = Inr x \<longleftrightarrow> p \<in> permissions a \<and> r = Inr x"
  by (auto simp: require_permission_def)

text \<open>The roles that grant a permission, as a computed list.\<close>

definition granting :: "permission \<Rightarrow> role list" where
  "granting p = filter (\<lambda>r. p \<in> role_permissions r) all_roles"

lemma all_roles_UNIV [enum_simps]: "set all_roles = UNIV"
  by (simp add: UNIV_enum enum_role_def)

lemma permissions_granting: "p \<in> permissions a \<longleftrightarrow> roles a \<inter> set (granting p) \<noteq> {}"
  by (auto simp: permission_granted granting_def all_roles_UNIV)

lemma granting_values:
  "granting Perm_approve_change_executions = [Role_security_admin, Role_admin, Role_super_admin]"
  "granting Perm_execute_lab_apply = [Role_network_admin, Role_admin, Role_super_admin]"
  "granting Perm_approve_job = [Role_network_admin, Role_security_admin, Role_admin, Role_super_admin]"
  by (simp_all add: granting_def all_roles_def all_permissions_UNIV)

section \<open>Properties\<close>

text \<open>
  Separation of duties.  One actor can both approve a change execution and run a lab
  apply only with an administrator role, or by holding the security and the network
  administrator roles together.
\<close>

theorem approve_and_apply_separated:
  "{Perm_approve_change_executions, Perm_execute_lab_apply} \<subseteq> permissions a \<longleftrightarrow>
     Role_admin \<in> roles a \<or> Role_super_admin \<in> roles a \<or>
     {Role_security_admin, Role_network_admin} \<subseteq> roles a"
  by (auto simp: permissions_granting granting_values)

lemma find_role_value [simp]: "find (\<lambda>r'. role_value r' = role_value r) all_roles = Some r"
  by (cases r) (simp_all add: all_roles_def)

lemma role_of_value_Inr: "role_of_value v = Inr r \<longleftrightarrow> v = role_value r"
proof
  assume "role_of_value v = Inr r"
  then have "find (\<lambda>r. role_value r = v) all_roles = Some r"
    by (simp add: role_of_value_def split: option.splits)
  then show "v = role_value r" by (auto simp: find_Some_iff)
qed (simp add: role_of_value_def)

lemma role_of_value_value [simp]: "role_of_value (role_value r) = Inr r"
  by (simp add: role_of_value_Inr)

lemma role_value_not_Nil [simp]: "role_value r \<noteq> []" "[] \<noteq> role_value r"
  by (cases r; simp)+

lemma add_roles_Inr:
  "add_roles parts rs = Inr rs' \<longleftrightarrow>
     set (tokens parts) \<subseteq> range role_value \<and> rs' = rs \<union> {r. role_value r \<in> set (tokens parts)}"
proof (induction parts rs rule: add_roles.induct)
  case (2 raw rest rs)
  show ?case
  proof (cases "role_of_value (str_strip raw)")
    case (Inl e)
    then have "str_strip raw \<notin> range role_value" by (auto simp: role_of_value_def)
    with 2 Inl show ?thesis by (auto simp: tokens_def Let_def)
  next
    case (Inr r)
    then have raw: "str_strip raw = role_value r" by (simp add: role_of_value_Inr)
    have "add_roles rest (insert r rs) = Inr rs' \<longleftrightarrow> set (tokens rest) \<subseteq> range role_value \<and>
        rs' = insert r rs \<union> {r. role_value r \<in> set (tokens rest)}"
      by (rule "2.IH"(2) [OF refl]) (simp_all add: raw)
    then show ?thesis by (auto simp: tokens_def Let_def raw role_value_inj)
  qed
qed (auto simp: tokens_def)

text \<open>
  The actor of a request.  Without a roles header, or with an empty one, the actor
  is a super administrator and holds every permission.  With a header the request is served
  exactly when every name in it is a role; the actor then has the roles named, or the viewer
  role when none is named.
\<close>

theorem get_current_actor_roles:
  "(raw = None \<or> raw = Some [] \<longrightarrow>
      (\<exists>a. get_current_actor who raw = Inr a \<and> roles a = {Role_super_admin} \<and> permissions a = UNIV)) \<and>
   (raw = Some text' \<and> text' \<noteq> [] \<longrightarrow>
      (get_current_actor who raw = Inr a \<longleftrightarrow>
         username a = (if who = None \<or> who = Some [] then ''system'' else the who) \<and>
         set (tokens (split_on (CHR '','') text')) \<subseteq> range role_value \<and>
         roles a = (if tokens (split_on (CHR '','') text') = [] then {Role_viewer}
                    else {r. role_value r \<in> set (tokens (split_on (CHR '','') text'))})))"
proof (intro conjI impI)
  assume "raw = None \<or> raw = Some []"
  then show "\<exists>a. get_current_actor who raw = Inr a \<and> roles a = {Role_super_admin} \<and> permissions a = UNIV"
    by (auto simp: get_current_actor_def Let_def permissions_def all_permissions_UNIV)
next
  assume raw: "raw = Some text' \<and> text' \<noteq> []"
  let ?ts = "tokens (split_on (CHR '','') text')"
  have empty: "set ?ts \<subseteq> range role_value \<Longrightarrow> {r. role_value r \<in> set ?ts} = {} \<longleftrightarrow> ?ts = []"
    by (cases ?ts) auto
  show "get_current_actor who raw = Inr a \<longleftrightarrow>
      username a = (if who = None \<or> who = Some [] then ''system'' else the who) \<and>
      set ?ts \<subseteq> range role_value \<and>
      roles a = (if ?ts = [] then {Role_viewer} else {r. role_value r \<in> set ?ts})"
  proof (cases "add_roles (split_on (CHR '','') text') {}")
    case (Inl e)
    then have "\<not> set ?ts \<subseteq> range role_value"
      using add_roles_Inr [of "split_on (CHR '','') text'" "{}"] by auto
    with Inl raw show ?thesis by (simp add: get_current_actor_def Let_def)
  next
    case (Inr rs)
    then have sub: "set ?ts \<subseteq> range role_value" and rs: "rs = {r. role_value r \<in> set ?ts}"
      by (simp_all add: add_roles_Inr)
    have name: "(case who of None \<Rightarrow> ''system'' | Some n \<Rightarrow> if n = [] then ''system'' else n)
        = (if who = None \<or> who = Some [] then ''system'' else the who)"
      by (cases who) auto
    show ?thesis
      using raw sub empty [OF sub]
      by (cases a) (auto simp: get_current_actor_def Let_def Inr rs name)
  qed
qed

theorem get_current_actor_roles_witness:
  "get_current_actor (Some ''alice'') (Some ''viewer, auditor'')
     = Inr \<lparr>username = ''alice'', roles = {Role_viewer, Role_auditor}\<rparr> \<and>
   (\<exists>a. get_current_actor None None = Inr a \<and> permissions a = UNIV)"
proof
  have ts: "tokens (split_on (CHR '','') ''viewer, auditor'') = [''viewer'', ''auditor'']"
    by (simp add: tokens_def str_strip_def is_space_def)
  have all: "{r. role_value r \<in> set [''viewer'', ''auditor'']} = {Role_viewer, Role_auditor}"
  proof (intro set_eqI)
    show "r \<in> {r. role_value r \<in> set [''viewer'', ''auditor'']} \<longleftrightarrow> r \<in> {Role_viewer, Role_auditor}" for r
      by (cases r) simp_all
  qed
  have "''viewer'' = role_value Role_viewer" "''auditor'' = role_value Role_auditor" by simp_all
  then have "set [''viewer'', ''auditor''] \<subseteq> range role_value" by (metis (no_types, lifting) empty_set insert_subset list.simps(15) rangeI empty_subsetI)
  then show "get_current_actor (Some ''alice'') (Some ''viewer, auditor'')
     = Inr \<lparr>username = ''alice'', roles = {Role_viewer, Role_auditor}\<rparr>"
    using get_current_actor_roles [of "Some ''viewer, auditor''" "Some ''alice''" "''viewer, auditor''"] ts all
    by simp
  show "\<exists>a. get_current_actor None None = Inr a \<and> permissions a = UNIV"
    using get_current_actor_roles [of None None] by auto
qed

end
