(* ===== verification/Regex.thy ===== *)
theory Regex
  imports Uuid
begin

text \<open>
  The part of Python's \<open>re\<close> the sources use: character classes, greedy and lazy repetition of
  a single-character item, alternation, capturing groups, anchors, word boundaries and negative
  look-ahead, with the flags I, M and S.  The matcher is the backtracking one, as a list of
  successes in the order in which the backtracking finds them; \<open>rx_rel\<close> says declaratively
  what a match is, and the two agree.  \<open>rx_search\<close> is \<open>re.search\<close> (leftmost, first success) and
  \<open>rx_subn\<close> is \<open>re.subn\<close>.

  A position is the text read so far (reversed), the text ahead and the captured groups.
\<close>

section \<open>Syntax\<close>

datatype cls =
    CChar char
  | CRange char char
  | CSpace
  | CNotSpace
  | CWord
  | CDigit

text \<open>One character: the dot, or a class, negated or not.\<close>

datatype one = Dot | Cls bool "cls list"

datatype rx =
    REps
  | ROne one
  | RStar bool one
  | RSeq rx rx
  | RAlt rx rx
  | RGroup nat rx
  | RBol
  | REol
  | RWordB
  | RNot rx

record rx_flags =
  ignore_case :: bool
  multiline :: bool
  dotall :: bool

abbreviation no_flags :: rx_flags where
  "no_flags \<equiv> \<lparr>ignore_case = False, multiline = False, dotall = False\<rparr>"

abbreviation flag_i :: rx_flags where
  "flag_i \<equiv> \<lparr>ignore_case = True, multiline = False, dotall = False\<rparr>"

type_synonym captures = "(nat \<times> string) list"
type_synonym position = "string \<times> string \<times> captures"

text \<open>Abbreviations for the common items: \<open>\s\<close>, \<open>\S\<close>, a literal word, \<open>x+\<close>, \<open>x?\<close>, a sequence.\<close>

abbreviation "Blank \<equiv> Cls False [CSpace]"
abbreviation "NonBlank \<equiv> Cls False [CNotSpace]"
abbreviation "Digit \<equiv> Cls False [CDigit]"
abbreviation "RPlus g x \<equiv> RSeq (ROne x) (RStar g x)"
abbreviation "ROpt r \<equiv> RAlt r REps"
abbreviation "AnyOf cs \<equiv> Cls False (map CChar cs)"

fun rseq :: "rx list \<Rightarrow> rx" where
  "rseq [] = REps"
| "rseq [r] = r"
| "rseq (r # q # rs) = RSeq r (rseq (q # rs))"

fun ralt :: "rx list \<Rightarrow> rx" where
  "ralt [] = REps"
| "ralt [r] = r"
| "ralt (r # q # rs) = RAlt r (ralt (q # rs))"

definition rlit :: "string \<Rightarrow> rx" where
  "rlit w = rseq (map (\<lambda>c. ROne (Cls False [CChar c])) w)"

section \<open>Matching one character and the anchors\<close>

definition to_upper :: "char \<Rightarrow> char" where
  "to_upper c = (if is_lower c then char_of (of_char c - 32 :: nat) else c)"

fun cls_has :: "cls \<Rightarrow> char \<Rightarrow> bool" where
  "cls_has (CChar d) c = (c = d)"
| "cls_has (CRange lo hi) c = ((of_char lo :: nat) \<le> of_char c \<and> (of_char c :: nat) \<le> of_char hi)"
| "cls_has CSpace c = is_space c"
| "cls_has CNotSpace c = (\<not> is_space c)"
| "cls_has CWord c = is_word c"
| "cls_has CDigit c = is_digit c"

text \<open>Under the flag I a class accepts a letter when it accepts either case of it.\<close>

fun one_has :: "rx_flags \<Rightarrow> one \<Rightarrow> char \<Rightarrow> bool" where
  "one_has fl Dot c = (dotall fl \<or> c \<noteq> newline)"
| "one_has fl (Cls neg items) c =
     (neg \<noteq> (\<exists>k\<in>set items. cls_has k c \<or>
               ignore_case fl \<and> (cls_has k (to_lower c) \<or> cls_has k (to_upper c))))"

fun head_is :: "(char \<Rightarrow> bool) \<Rightarrow> string \<Rightarrow> bool" where
  "head_is p [] = False"
| "head_is p (c # cs) = p c"

definition at_bol :: "rx_flags \<Rightarrow> string \<Rightarrow> bool" where
  "at_bol fl pre \<longleftrightarrow> pre = [] \<or> multiline fl \<and> head_is (\<lambda>c. c = newline) pre"

definition at_eol :: "rx_flags \<Rightarrow> string \<Rightarrow> bool" where
  "at_eol fl post \<longleftrightarrow> post = [] \<or> post = [newline] \<or> multiline fl \<and> head_is (\<lambda>c. c = newline) post"

definition at_word_boundary :: "string \<Rightarrow> string \<Rightarrow> bool" where
  "at_word_boundary pre post \<longleftrightarrow> head_is is_word pre \<noteq> head_is is_word post"

section \<open>The backtracking matcher\<close>

fun greedy :: "(char \<Rightarrow> bool) \<Rightarrow> captures \<Rightarrow> string \<Rightarrow> string \<Rightarrow> position list" where
  "greedy p caps pre [] = [(pre, [], caps)]"
| "greedy p caps pre (c # cs) =
     (if p c then greedy p caps (c # pre) cs @ [(pre, c # cs, caps)] else [(pre, c # cs, caps)])"

fun lazy :: "(char \<Rightarrow> bool) \<Rightarrow> captures \<Rightarrow> string \<Rightarrow> string \<Rightarrow> position list" where
  "lazy p caps pre [] = [(pre, [], caps)]"
| "lazy p caps pre (c # cs) =
     (pre, c # cs, caps) # (if p c then lazy p caps (c # pre) cs else [])"

text \<open>The text between two positions.\<close>

fun consumed :: "position \<Rightarrow> position \<Rightarrow> string" where
  "consumed (pre, post, caps) (pre', post', caps') = take (length post - length post') post"

fun add_capture :: "nat \<Rightarrow> position \<Rightarrow> position \<Rightarrow> position" where
  "add_capture n s (pre', post', caps') = (pre', post', (n, consumed s (pre', post', caps')) # caps')"

fun rx_run :: "rx_flags \<Rightarrow> rx \<Rightarrow> position \<Rightarrow> position list" where
  "rx_run fl REps s = [s]"
| "rx_run fl (ROne x) (pre, post, caps) =
     (case post of [] \<Rightarrow> [] | c # cs \<Rightarrow> if one_has fl x c then [(c # pre, cs, caps)] else [])"
| "rx_run fl (RStar g x) (pre, post, caps) =
     (if g then greedy (one_has fl x) caps pre post else lazy (one_has fl x) caps pre post)"
| "rx_run fl (RSeq r q) s = concat (map (rx_run fl q) (rx_run fl r s))"
| "rx_run fl (RAlt r q) s = rx_run fl r s @ rx_run fl q s"
| "rx_run fl (RGroup n r) s = map (add_capture n s) (rx_run fl r s)"
| "rx_run fl RBol (pre, post, caps) = (if at_bol fl pre then [(pre, post, caps)] else [])"
| "rx_run fl REol (pre, post, caps) = (if at_eol fl post then [(pre, post, caps)] else [])"
| "rx_run fl RWordB (pre, post, caps) =
     (if at_word_boundary pre post then [(pre, post, caps)] else [])"
| "rx_run fl (RNot r) s = (if rx_run fl r s = [] then [s] else [])"

text \<open>\<open>re.search\<close>: the first success at the leftmost position that has one.\<close>

fun rx_search_from :: "rx_flags \<Rightarrow> rx \<Rightarrow> string \<Rightarrow> string \<Rightarrow> (position \<times> position) option" where
  "rx_search_from fl r pre [] =
     (case rx_run fl r (pre, [], []) of [] \<Rightarrow> None | s # ss \<Rightarrow> Some ((pre, [], []), s))"
| "rx_search_from fl r pre (c # cs) =
     (case rx_run fl r (pre, c # cs, []) of
        [] \<Rightarrow> rx_search_from fl r (c # pre) cs
      | s # ss \<Rightarrow> Some ((pre, c # cs, []), s))"

definition rx_search :: "rx_flags \<Rightarrow> rx \<Rightarrow> string \<Rightarrow> (position \<times> position) option" where
  "rx_search fl r inp = rx_search_from fl r [] inp"

definition rx_found :: "rx_flags \<Rightarrow> rx \<Rightarrow> string \<Rightarrow> bool" where
  "rx_found fl r inp \<longleftrightarrow> rx_search fl r inp \<noteq> None"

text \<open>\<open>re.fullmatch\<close>: the first success that reaches the end.\<close>

definition rx_fullmatch :: "rx_flags \<Rightarrow> rx \<Rightarrow> string \<Rightarrow> bool" where
  "rx_fullmatch fl r inp \<longleftrightarrow> (\<exists>s\<in>set (rx_run fl r ([], inp, [])). fst (snd s) = [])"

section \<open>What a match is\<close>

primrec rx_rel :: "rx_flags \<Rightarrow> rx \<Rightarrow> position \<Rightarrow> position \<Rightarrow> bool" where
  "rx_rel fl REps s s' \<longleftrightarrow> s' = s"
| "rx_rel fl (ROne x) s s' \<longleftrightarrow>
     (\<exists>pre c cs caps. s = (pre, c # cs, caps) \<and> one_has fl x c \<and> s' = (c # pre, cs, caps))"
| "rx_rel fl (RStar g x) s s' \<longleftrightarrow>
     (\<exists>pre w post caps. s = (pre, w @ post, caps) \<and> (\<forall>c\<in>set w. one_has fl x c) \<and>
        s' = (rev w @ pre, post, caps))"
| "rx_rel fl (RSeq r q) s s' \<longleftrightarrow> (\<exists>t. rx_rel fl r s t \<and> rx_rel fl q t s')"
| "rx_rel fl (RAlt r q) s s' \<longleftrightarrow> rx_rel fl r s s' \<or> rx_rel fl q s s'"
| "rx_rel fl (RGroup n r) s s' \<longleftrightarrow> (\<exists>t. rx_rel fl r s t \<and> s' = add_capture n s t)"
| "rx_rel fl RBol s s' \<longleftrightarrow> s' = s \<and> at_bol fl (fst s)"
| "rx_rel fl REol s s' \<longleftrightarrow> s' = s \<and> at_eol fl (fst (snd s))"
| "rx_rel fl RWordB s s' \<longleftrightarrow> s' = s \<and> at_word_boundary (fst s) (fst (snd s))"
| "rx_rel fl (RNot r) s s' \<longleftrightarrow> s' = s \<and> (\<forall>t. \<not> rx_rel fl r s t)"

lemma ex_list: "(\<exists>w. P w) \<longleftrightarrow> P [] \<or> (\<exists>a w. P (a # w))"
  by (metis list.exhaust)

lemma set_greedy:
  "s' \<in> set (greedy p caps pre post) \<longleftrightarrow>
     (\<exists>w v. post = w @ v \<and> (\<forall>c\<in>set w. p c) \<and> s' = (rev w @ pre, v, caps))"
proof (induction p caps pre post arbitrary: s' rule: greedy.induct)
  case (2 p caps pre c cs)
  show ?case
  proof (cases "p c")
    case True
    with 2 show ?thesis by (subst ex_list) auto
  qed (auto simp: Cons_eq_append_conv)
qed simp

lemma set_lazy: "set (lazy p caps pre post) = set (greedy p caps pre post)"
  by (induction p caps pre post rule: lazy.induct) auto

text \<open>The matcher finds a position exactly when the declarative reading allows it.\<close>

lemma rx_run_rel: "s' \<in> set (rx_run fl r s) \<longleftrightarrow> rx_rel fl r s s'"
proof (induction r arbitrary: s s')
  case (ROne x)
  then show ?case by (cases s) (auto split: list.splits)
next
  case (RStar g x)
  then show ?case by (cases s) (auto simp: set_lazy set_greedy)
next
  case (RNot r)
  have "rx_run fl r s = [] \<longleftrightarrow> (\<forall>t. t \<notin> set (rx_run fl r s))" by (cases "rx_run fl r s") auto
  with RNot show ?case by simp
next
  case (RSeq r q)
  then show ?case by (simp only: rx_run.simps rx_rel.simps set_concat set_map) blast
next
  case (RGroup n r)
  then show ?case by (simp only: rx_run.simps rx_rel.simps set_map) blast
next
  case (RAlt r q)
  then show ?case by simp
qed (auto split: if_splits)

text \<open>A match reads on: it leaves a suffix of the text, and what it read is what lies between.\<close>

definition reads :: "position \<Rightarrow> position \<Rightarrow> bool" where
  "reads s s' \<longleftrightarrow> (\<exists>w. fst (snd s) = w @ fst (snd s') \<and> fst s' = rev w @ fst s)"

lemma reads_refl [simp]: "reads s s"
  by (simp add: reads_def)

lemma reads_trans: "reads s t \<Longrightarrow> reads t u \<Longrightarrow> reads s u"
  by (auto simp: reads_def)

lemma reads_add_capture [simp]: "reads s (add_capture n u t) = reads s t"
  by (cases t) (simp add: reads_def)

lemma rx_rel_reads: "rx_rel fl r s s' \<Longrightarrow> reads s s'"
proof (induction r arbitrary: s s')
  case (RSeq r q)
  then obtain t where "rx_rel fl r s t" "rx_rel fl q t s'" by auto
  then show ?case by (rule reads_trans [OF RSeq.IH(1) RSeq.IH(2)])
next
  case (RGroup n r)
  then obtain t where "rx_rel fl r s t" "s' = add_capture n s t" by auto
  with RGroup.IH show ?case by (simp only: reads_add_capture)
qed (auto simp: reads_def)

lemma reads_consumed: "reads s s' \<Longrightarrow> fst (snd s) = consumed s s' @ fst (snd s')"
  by (cases s; cases s') (auto simp: reads_def)

section \<open>Substitution\<close>

text \<open>
  \<open>re.subn\<close>: after a match the scan goes on behind it; after an empty match the next match at
  the same position has to read something (\<open>adv\<close>).  The replacement sees the captures.
\<close>

definition rx_match_here :: "rx_flags \<Rightarrow> rx \<Rightarrow> bool \<Rightarrow> string \<Rightarrow> string \<Rightarrow> position option" where
  "rx_match_here fl r adv pre post =
     find (\<lambda>s. adv \<longrightarrow> fst (snd s) \<noteq> post) (rx_run fl r (pre, post, []))"

lemma rx_match_here_Some:
  "rx_match_here fl r adv pre post = Some s \<Longrightarrow>
     rx_rel fl r (pre, post, []) s \<and> (adv \<longrightarrow> fst (snd s) \<noteq> post)"
  by (auto simp: rx_match_here_def find_Some_iff simp flip: rx_run_rel)

lemma rx_match_here_progress:
  assumes "rx_match_here fl r adv pre post = Some (pre', post', caps)"
  shows "length post' < length post \<or> post' = post \<and> \<not> adv"
proof -
  from rx_match_here_Some [OF assms] have "reads (pre, post, []) (pre', post', caps)"
    and adv: "adv \<longrightarrow> post' \<noteq> post" by (auto dest: rx_rel_reads)
  then obtain w where "post = w @ post'" by (auto simp: reads_def)
  with adv show ?thesis by (cases w) auto
qed

function rx_subn_from ::
  "rx_flags \<Rightarrow> rx \<Rightarrow> (captures \<Rightarrow> string) \<Rightarrow> bool \<Rightarrow> string \<Rightarrow> string \<Rightarrow> string \<times> nat" where
  "rx_subn_from fl r repl adv pre post =
     (case rx_match_here fl r adv pre post of
        Some (pre', post', caps) \<Rightarrow>
          (case rx_subn_from fl r repl (post' = post) pre' post' of
             (out, n) \<Rightarrow> (repl caps @ out, Suc n))
      | None \<Rightarrow>
          (case post of
             [] \<Rightarrow> ([], 0)
           | c # cs \<Rightarrow> (case rx_subn_from fl r repl False (c # pre) cs of (out, n) \<Rightarrow> (c # out, n))))"
  by pat_completeness auto

termination
  by (relation "measures [\<lambda>(fl, r, repl, adv, pre, post). length post,
                          \<lambda>(fl, r, repl, adv, pre, post). if adv then 0 else 1]")
    (auto dest!: rx_match_here_progress)

declare rx_subn_from.simps [simp del]

definition rx_subn :: "rx_flags \<Rightarrow> rx \<Rightarrow> (captures \<Rightarrow> string) \<Rightarrow> string \<Rightarrow> string \<times> nat" where
  "rx_subn fl r repl inp = rx_subn_from fl r repl False [] inp"

definition rx_sub :: "rx_flags \<Rightarrow> rx \<Rightarrow> (captures \<Rightarrow> string) \<Rightarrow> string \<Rightarrow> string" where
  "rx_sub fl r repl inp = fst (rx_subn fl r repl inp)"

text \<open>\<open>match.group(n)\<close>\<close>

definition group_text :: "nat \<Rightarrow> captures \<Rightarrow> string" where
  "group_text n caps = (case map_of caps n of None \<Rightarrow> [] | Some w \<Rightarrow> w)"

section \<open>Searching\<close>

lemma rx_search_from_Some:
  "rx_search_from fl r pre post = Some (s, s') \<Longrightarrow>
     \<exists>u v. post = u @ v \<and> s = (rev u @ pre, v, []) \<and> rx_rel fl r s s' \<and>
       (\<forall>u1 u2. u = u1 @ u2 \<and> u2 \<noteq> [] \<longrightarrow> (\<forall>t. \<not> rx_rel fl r (rev u1 @ pre, u2 @ v, []) t))"
proof (induction fl r pre post rule: rx_search_from.induct)
  case (1 fl r pre)
  then show ?case by (auto simp flip: rx_run_rel split: list.splits)
next
  case (2 fl r pre c cs)
  show ?case
  proof (cases "rx_run fl r (pre, c # cs, [])")
    case Nil
    then have no: "\<not> rx_rel fl r (pre, c # cs, []) t" for t by (simp flip: rx_run_rel)
    from 2 Nil obtain u v where uv: "cs = u @ v" "s = (rev u @ c # pre, v, [])" "rx_rel fl r s s'"
      "\<forall>u1 u2. u = u1 @ u2 \<and> u2 \<noteq> [] \<longrightarrow> (\<forall>t. \<not> rx_rel fl r (rev u1 @ c # pre, u2 @ v, []) t)"
      by auto
    then show ?thesis
      using no by (intro exI [of _ "c # u"] exI [of _ v]) (auto simp: Cons_eq_append_conv)
  next
    case (Cons a list)
    with 2 show ?thesis by (auto simp flip: rx_run_rel)
  qed
qed

lemma all_splits_Cons:
  "(\<forall>u v. c # cs = u @ v \<longrightarrow> P u v) \<longleftrightarrow> P [] (c # cs) \<and> (\<forall>u v. cs = u @ v \<longrightarrow> P (c # u) v)"
  by (auto simp: Cons_eq_append_conv)

lemma rx_search_from_None:
  "rx_search_from fl r pre post = None \<longleftrightarrow>
     (\<forall>u v. post = u @ v \<longrightarrow> (\<forall>t. \<not> rx_rel fl r (rev u @ pre, v, []) t))"
proof (induction fl r pre post rule: rx_search_from.induct)
  case (1 fl r pre)
  show ?case
    by (cases "rx_run fl r (pre, [], [])") (auto simp flip: rx_run_rel)
next
  case (2 fl r pre c cs)
  let ?no = "\<lambda>u v. \<forall>t. \<not> rx_rel fl r (rev u @ pre, v, []) t"
  note split = all_splits_Cons [of c cs ?no]
  show ?case
  proof (cases "rx_run fl r (pre, c # cs, [])")
    case Nil
    then have "\<forall>t. \<not> rx_rel fl r (pre, c # cs, []) t" by (simp flip: rx_run_rel)
    with "2.IH" [OF Nil] Nil show ?thesis unfolding split by simp
  next
    case (Cons a list)
    then have "rx_rel fl r (pre, c # cs, []) a" by (simp flip: rx_run_rel)
    with Cons show ?thesis unfolding split by (cases a) auto
  qed
qed

lemma rx_found_iff:
  "rx_found fl r inp \<longleftrightarrow> (\<exists>u v t. inp = u @ v \<and> rx_rel fl r (rev u, v, []) t)"
  using rx_search_from_None [of fl r "[]" inp] by (auto simp: rx_found_def rx_search_def)

section \<open>Literal words\<close>

lemma rx_rel_rseq:
  "rx_rel fl (rseq []) s s' \<longleftrightarrow> s' = s"
  "rx_rel fl (rseq (r # rs)) s s' \<longleftrightarrow> (\<exists>t. rx_rel fl r s t \<and> rx_rel fl (rseq rs) t s')"
proof -
  show "rx_rel fl (rseq []) s s' \<longleftrightarrow> s' = s" by simp
  show "rx_rel fl (rseq (r # rs)) s s' \<longleftrightarrow> (\<exists>t. rx_rel fl r s t \<and> rx_rel fl (rseq rs) t s')"
  proof (cases rs)
    case Nil
    then show ?thesis unfolding Nil rseq.simps rx_rel.simps by blast
  qed (simp only: rseq.simps rx_rel.simps)
qed

lemma rx_rel_rlit_icase:
  "map to_lower w' = w \<Longrightarrow> ignore_case fl \<Longrightarrow>
   rx_rel fl (rlit w) (pre, w' @ post, caps) (rev w' @ pre, post, caps)"
proof (induction w arbitrary: w' pre)
  case Nil
  then show ?case by (simp add: rlit_def rx_rel_rseq)
next
  case (Cons d w)
  then obtain c v where w': "w' = c # v" "to_lower c = d" "map to_lower v = w" by auto
  from Cons.IH [OF w'(3) Cons.prems(2), of "c # pre"] w' Cons.prems(2)
  show ?case unfolding rlit_def list.map(2) rx_rel_rseq by (intro exI conjI) auto
qed

lemma rx_rel_plus_blank:
  "k \<noteq> [] \<Longrightarrow> \<forall>c\<in>set k. is_space c \<Longrightarrow>
   rx_rel fl (RPlus True Blank) (pre, k @ post, caps) (rev k @ pre, post, caps)"
  by (cases k) (auto intro!: exI)

lemma rx_rel_boundary:
  "head_is is_word pre \<noteq> head_is is_word post \<Longrightarrow> rx_rel fl RWordB (pre, post, caps) (pre, post, caps)"
  by (simp add: at_word_boundary_def)

text \<open>A text where a word stands by itself.\<close>

definition apart :: "string \<Rightarrow> string \<Rightarrow> bool" where
  "apart u v \<longleftrightarrow> (u = [] \<or> \<not> is_word (last u)) \<and> (v = [] \<or> \<not> is_word (hd v))"

lemma head_is_rev: "head_is p (rev u) \<longleftrightarrow> u \<noteq> [] \<and> p (last u)"
  by (cases u rule: rev_cases) auto

lemma head_is_append: "head_is p (u @ v) \<longleftrightarrow> (if u = [] then head_is p v else p (hd u))"
  by (cases u) auto

lemma apart_iff: "apart u v \<longleftrightarrow> \<not> head_is is_word (rev u) \<and> \<not> head_is is_word v"
  using head_is_append [of is_word v "[]"] by (cases "v = []") (auto simp: apart_def head_is_rev)

lemma letter_word: "is_lower (to_lower c) \<Longrightarrow> is_word c" by (simp add: is_word_def)

text \<open>\<open>\bword\b\<close> finds a separate occurrence in any case.\<close>

lemma rx_found_word:
  assumes "casefold w' = w" "w \<noteq> []" "\<forall>c\<in>set w. is_lower c" "apart u v"
  shows "rx_found flag_i (rseq [RWordB, rlit w, RWordB]) (u @ w' @ v)"
proof -
  have letters: "\<forall>c\<in>set w'. is_word c" and ne: "w' \<noteq> []"
    using assms(1-3) by (auto simp: casefold_def letter_word)
  have "rx_rel flag_i (rseq [RWordB, rlit w, RWordB]) (rev u, w' @ v, []) (rev w' @ rev u, v, [])"
    unfolding rx_rel_rseq
  proof (intro exI conjI)
    show "rx_rel flag_i RWordB (rev u, w' @ v, []) (rev u, w' @ v, [])"
      using assms(4) letters ne by (intro rx_rel_boundary) (auto simp: apart_iff head_is_append)
    show "rx_rel flag_i (rlit w) (rev u, w' @ v, []) (rev w' @ rev u, v, [])"
      using assms(1) by (intro rx_rel_rlit_icase) (simp_all add: casefold_def)
    show "rx_rel flag_i RWordB (rev w' @ rev u, v, []) (rev w' @ rev u, v, [])"
      using assms(4) letters ne
      by (intro rx_rel_boundary) (auto simp: apart_iff head_is_append hd_rev)
  qed (rule refl)
  then show ?thesis unfolding rx_found_iff by blast
qed

text \<open>\<open>\ba\s+b\b\<close> finds two words with blanks between them.\<close>

lemma rx_found_two_words:
  assumes "casefold a' = a" "casefold b' = b" "a \<noteq> []" "b \<noteq> []" "is_lower (hd a)" "is_lower (last b)"
    "k \<noteq> []" "\<forall>c\<in>set k. is_space c" "apart u v"
  shows "rx_found flag_i (rseq [RWordB, rlit a, RPlus True Blank, rlit b, RWordB]) (u @ a' @ k @ b' @ v)"
proof -
  have ne: "a' \<noteq> []" "b' \<noteq> []" using assms(1-4) by (auto simp: casefold_def)
  then have "to_lower (hd a') = hd a" "to_lower (last b') = last b"
    using assms(1,2) by (auto simp: casefold_def hd_map last_map)
  with assms(5,6) have w: "is_word (hd a')" "is_word (last b')" by (simp_all add: letter_word)
  have "rx_rel flag_i (rseq [RWordB, rlit a, RPlus True Blank, rlit b, RWordB])
      (rev u, a' @ k @ b' @ v, []) (rev b' @ rev k @ rev a' @ rev u, v, [])"
    unfolding rx_rel_rseq
  proof (intro exI conjI)
    show "rx_rel flag_i RWordB (rev u, a' @ k @ b' @ v, []) (rev u, a' @ k @ b' @ v, [])"
      using assms(9) ne w by (intro rx_rel_boundary) (auto simp: apart_iff head_is_append)
    show "rx_rel flag_i (rlit a) (rev u, a' @ k @ b' @ v, []) (rev a' @ rev u, k @ b' @ v, [])"
      using assms(1) by (intro rx_rel_rlit_icase) (simp_all add: casefold_def)
    show "rx_rel flag_i (RPlus True Blank) (rev a' @ rev u, k @ b' @ v, []) (rev k @ rev a' @ rev u, b' @ v, [])"
      by (intro rx_rel_plus_blank assms)
    show "rx_rel flag_i (rlit b) (rev k @ rev a' @ rev u, b' @ v, []) (rev b' @ rev k @ rev a' @ rev u, v, [])"
      using assms(2) by (intro rx_rel_rlit_icase) (simp_all add: casefold_def)
    show "rx_rel flag_i RWordB (rev b' @ rev k @ rev a' @ rev u, v, []) (rev b' @ rev k @ rev a' @ rev u, v, [])"
      using assms(9) ne w
      by (intro rx_rel_boundary) (auto simp: apart_iff head_is_append hd_rev)
  qed (rule refl)
  then show ?thesis unfolding rx_found_iff by blast
qed

end
