(* ===== verification/TransportStrategy.thy ===== *)
theory TransportStrategy
  imports PyValues Uuid
begin

text \<open>
  app/core/transport_strategy.py: the enumerations of transports, driver capabilities and
  device families, the static runtime profile of a family and the decision made for a device,
  with the JSON objects both are shown as.  Record fields carry the prefix \<open>pf_\<close> for the
  profile and \<open>td_\<close> for the decision.
\<close>

section \<open>Enumerations\<close>

datatype transport_kind =
    TK_netmiko | TK_paramiko | TK_custom_cli | TK_icmp_only | TK_unsupported

fun transport_value :: "transport_kind \<Rightarrow> string" where
  "transport_value TK_netmiko = ''netmiko''"
| "transport_value TK_paramiko = ''paramiko''"
| "transport_value TK_custom_cli = ''custom_cli''"
| "transport_value TK_icmp_only = ''icmp_only''"
| "transport_value TK_unsupported = ''unsupported''"

datatype driver_capability =
    DC_read_only | DC_config_staging | DC_commit_or_save | DC_rollback_prepare |
    DC_prompt_detection | DC_privilege_mode | DC_config_mode | DC_candidate_config |
    DC_supports_dry_run | DC_supports_real_apply | DC_requires_lab_certification

fun capability_value :: "driver_capability \<Rightarrow> string" where
  "capability_value DC_read_only = ''read_only''"
| "capability_value DC_config_staging = ''config_staging''"
| "capability_value DC_commit_or_save = ''commit_or_save''"
| "capability_value DC_rollback_prepare = ''rollback_prepare''"
| "capability_value DC_prompt_detection = ''prompt_detection''"
| "capability_value DC_privilege_mode = ''privilege_mode''"
| "capability_value DC_config_mode = ''config_mode''"
| "capability_value DC_candidate_config = ''candidate_config''"
| "capability_value DC_supports_dry_run = ''supports_dry_run''"
| "capability_value DC_supports_real_apply = ''supports_real_apply''"
| "capability_value DC_requires_lab_certification = ''requires_lab_certification''"

definition all_capabilities :: "driver_capability list" where
  "all_capabilities = [
     DC_read_only, DC_config_staging, DC_commit_or_save, DC_rollback_prepare, DC_prompt_detection,
     DC_privilege_mode, DC_config_mode, DC_candidate_config, DC_supports_dry_run,
     DC_supports_real_apply, DC_requires_lab_certification]"

lemma all_capabilities_UNIV [enum_simps]: "set all_capabilities = UNIV"
proof (intro set_eqI iffI UNIV_I)
  show "x \<in> set all_capabilities" for x by (cases x) (simp_all add: all_capabilities_def)
qed

datatype device_family =
    DF_cisco_ios | DF_cisco_nxos | DF_cisco_asa | DF_huawei_vrp | DF_hpe_comware |
    DF_hpe_procurve | DF_aruba_os_switch | DF_qtech | DF_eltex | DF_bulat | DF_dell_os |
    DF_limited_web | DF_non_switch | DF_generic_ssh | DF_icmp | DF_unknown

fun family_value :: "device_family \<Rightarrow> string" where
  "family_value DF_cisco_ios = ''cisco_ios''"
| "family_value DF_cisco_nxos = ''cisco_nxos''"
| "family_value DF_cisco_asa = ''cisco_asa''"
| "family_value DF_huawei_vrp = ''huawei_vrp''"
| "family_value DF_hpe_comware = ''hpe_comware''"
| "family_value DF_hpe_procurve = ''hpe_procurve''"
| "family_value DF_aruba_os_switch = ''aruba_os_switch''"
| "family_value DF_qtech = ''qtech''"
| "family_value DF_eltex = ''eltex''"
| "family_value DF_bulat = ''bulat''"
| "family_value DF_dell_os = ''dell_os''"
| "family_value DF_limited_web = ''limited_web''"
| "family_value DF_non_switch = ''non_switch''"
| "family_value DF_generic_ssh = ''generic_ssh''"
| "family_value DF_icmp = ''icmp''"
| "family_value DF_unknown = ''unknown''"

definition all_families :: "device_family list" where
  "all_families = [
     DF_cisco_ios, DF_cisco_nxos, DF_cisco_asa, DF_huawei_vrp, DF_hpe_comware, DF_hpe_procurve,
     DF_aruba_os_switch, DF_qtech, DF_eltex, DF_bulat, DF_dell_os, DF_limited_web, DF_non_switch,
     DF_generic_ssh, DF_icmp, DF_unknown]"

lemma all_families_UNIV [enum_simps]: "set all_families = UNIV"
proof (intro set_eqI iffI UNIV_I)
  show "x \<in> set all_families" for x by (cases x) (simp_all add: all_families_def)
qed

lemma family_value_inj [enum_simps]: "family_value f = family_value g \<longleftrightarrow> f = g"
  by (cases f) (cases g; simp)+

text \<open>\<open>sorted(capability.value for capability in capabilities)\<close>\<close>

definition capability_values :: "driver_capability set \<Rightarrow> string list" where
  "capability_values cs = sort (map capability_value (filter (\<lambda>c. c \<in> cs) all_capabilities))"

definition json_opt :: "string option \<Rightarrow> json" where
  "json_opt v = (case v of None \<Rightarrow> JNull | Some s \<Rightarrow> JStr s)"

section \<open>The runtime profile\<close>

record 'rx profile =
  pf_vendor :: string
  pf_family :: device_family
  pf_preferred_transport :: transport_kind
  pf_capabilities :: "driver_capability set"
  pf_driver_name :: string
  pf_model_pattern :: "'rx option"
  pf_platform_pattern :: "'rx option"
  pf_fallback_transport :: "transport_kind option"
  pf_real_apply_certified :: bool
  pf_lab_certified :: bool
  pf_config_apply_supported :: bool
  pf_read_only_supported :: bool
  pf_unsupported_reason :: "string option"
  pf_notes :: "string option"

text \<open>The patterns' source text is the argument \<open>src\<close>: compiled patterns do not print.\<close>

definition profile_to_safe_dict :: "('rx \<Rightarrow> string) \<Rightarrow> 'rx profile \<Rightarrow> jobj" where
  "profile_to_safe_dict src p = [
     (''vendor'', JStr (pf_vendor p)),
     (''family'', JStr (family_value (pf_family p))),
     (''model_pattern'', json_opt (map_option src (pf_model_pattern p))),
     (''platform_pattern'', json_opt (map_option src (pf_platform_pattern p))),
     (''preferred_transport'', JStr (transport_value (pf_preferred_transport p))),
     (''fallback_transport'', json_opt (map_option transport_value (pf_fallback_transport p))),
     (''capabilities'', JList (map JStr (capability_values (pf_capabilities p)))),
     (''driver_name'', JStr (pf_driver_name p)),
     (''real_apply_certified'', JBool (pf_real_apply_certified p)),
     (''lab_certified'', JBool (pf_lab_certified p)),
     (''config_apply_supported'', JBool (pf_config_apply_supported p)),
     (''read_only_supported'', JBool (pf_read_only_supported p)),
     (''unsupported_reason'', json_opt (pf_unsupported_reason p)),
     (''notes'', json_opt (pf_notes p))]"

section \<open>The decision for a device\<close>

record transport_decision =
  td_vendor :: string
  td_family :: device_family
  td_selected_transport :: transport_kind
  td_driver_name :: string
  td_capabilities :: "driver_capability set"
  td_config_apply_allowed :: bool
  td_real_apply_certified :: bool
  td_read_only_allowed :: bool
  td_safety_warnings :: "string list"
  td_device_id :: "string option"
  td_hostname :: "string option"
  td_model :: "string option"
  td_platform :: "string option"
  td_fallback_transport :: "transport_kind option"
  td_unsupported_reason :: "string option"

definition decision_to_safe_dict :: "transport_decision \<Rightarrow> jobj" where
  "decision_to_safe_dict d = [
     (''device_id'', json_opt (td_device_id d)),
     (''hostname'', json_opt (td_hostname d)),
     (''vendor'', JStr (td_vendor d)),
     (''model'', json_opt (td_model d)),
     (''platform'', json_opt (td_platform d)),
     (''family'', JStr (family_value (td_family d))),
     (''selected_transport'', JStr (transport_value (td_selected_transport d))),
     (''fallback_transport'', json_opt (map_option transport_value (td_fallback_transport d))),
     (''driver_name'', JStr (td_driver_name d)),
     (''capabilities'', JList (map JStr (capability_values (td_capabilities d)))),
     (''config_apply_allowed'', JBool (td_config_apply_allowed d)),
     (''real_apply_certified'', JBool (td_real_apply_certified d)),
     (''read_only_allowed'', JBool (td_read_only_allowed d)),
     (''unsupported_reason'', json_opt (td_unsupported_reason d)),
     (''safety_warnings'', JList (map JStr (td_safety_warnings d)))]"

end
