(* ===== verification/VendorContracts.thy ===== *)
theory VendorContracts
  imports TransportStrategy Masking
begin

text \<open>
  app/core/vendor_driver_contracts.py: what each device family's driver may do.  A contract
  names the operations the family supports and forbids, the command templates, the prompts and
  errors to expect and the commands that are never sent.  The contracts are the entries of the
  table \<open>VENDOR_DRIVER_CONTRACTS\<close>, one definition each, with the defaults of the data class
  written out; record fields carry the prefix \<open>vc_\<close>.  The regular expressions are those of
  the source, as terms of \<open>Regex\<close>.
\<close>

section \<open>Enumerations\<close>

datatype vendor_operation =
    VO_read_backup | VO_password_change | VO_vlan_create | VO_vlan_assign_port |
    VO_port_description | VO_port_enable_disable | VO_acl_update

fun operation_value :: "vendor_operation \<Rightarrow> string" where
  "operation_value VO_read_backup = ''read_backup''"
| "operation_value VO_password_change = ''password_change''"
| "operation_value VO_vlan_create = ''vlan_create''"
| "operation_value VO_vlan_assign_port = ''vlan_assign_port''"
| "operation_value VO_port_description = ''port_description''"
| "operation_value VO_port_enable_disable = ''port_enable_disable''"
| "operation_value VO_acl_update = ''acl_update''"

definition all_operations :: "vendor_operation list" where
  "all_operations = [
     VO_read_backup, VO_password_change, VO_vlan_create, VO_vlan_assign_port, VO_port_description,
     VO_port_enable_disable, VO_acl_update]"

lemma all_operations_UNIV [enum_simps]: "set all_operations = UNIV"
proof (intro set_eqI iffI UNIV_I)
  show "x \<in> set all_operations" for x by (cases x) (simp_all add: all_operations_def)
qed

datatype execution_mode =
    EM_read_only | EM_dry_run | EM_simulation | EM_lab_apply | EM_production_apply

fun mode_value :: "execution_mode \<Rightarrow> string" where
  "mode_value EM_read_only = ''read_only''"
| "mode_value EM_dry_run = ''dry_run''"
| "mode_value EM_simulation = ''simulation''"
| "mode_value EM_lab_apply = ''lab_apply''"
| "mode_value EM_production_apply = ''production_apply''"

definition all_modes :: "execution_mode list" where
  "all_modes = [
     EM_read_only, EM_dry_run, EM_simulation, EM_lab_apply, EM_production_apply]"

lemma all_modes_UNIV [enum_simps]: "set all_modes = UNIV"
proof (intro set_eqI iffI UNIV_I)
  show "x \<in> set all_modes" for x by (cases x) (simp_all add: all_modes_def)
qed

datatype apply_support_level =
    AL_unsupported | AL_read_only_only | AL_dry_run_only | AL_lab_apply_candidate |
    AL_lab_apply_certified | AL_production_candidate | AL_production_certified

fun level_value :: "apply_support_level \<Rightarrow> string" where
  "level_value AL_unsupported = ''unsupported''"
| "level_value AL_read_only_only = ''read_only_only''"
| "level_value AL_dry_run_only = ''dry_run_only''"
| "level_value AL_lab_apply_candidate = ''lab_apply_candidate''"
| "level_value AL_lab_apply_certified = ''lab_apply_certified''"
| "level_value AL_production_candidate = ''production_candidate''"
| "level_value AL_production_certified = ''production_certified''"

text \<open>\<open>VendorOperation(value)\<close>\<close>

definition operation_of_value :: "string \<Rightarrow> error + vendor_operation" where
  "operation_of_value v =
     (case find (\<lambda>p. operation_value p = v) all_operations of
        None \<Rightarrow> Inl (ValueError (repr_str v @ '' is not a valid VendorOperation''))
      | Some p \<Rightarrow> Inr p)"

section \<open>Contracts\<close>

record contract =
  vc_family :: device_family
  vc_driver_name :: string
  vc_preferred_transport :: transport_kind
  vc_fallback_transport :: "transport_kind option"
  vc_supported_operations :: "vendor_operation set"
  vc_forbidden_operations :: "vendor_operation set"
  vc_read_only_commands :: "string list"
  vc_config_command_templates :: "(vendor_operation \<times> string list) list"
  vc_save_or_commit_commands :: "string list"
  vc_rollback_strategy :: string
  vc_prompt_patterns :: "rx list"
  vc_error_patterns :: "rx list"
  vc_forbidden_command_patterns :: "rx list"
  vc_read_only_setup_commands :: "string list"
  vc_requires_enable :: bool
  vc_requires_config_mode :: bool
  vc_supports_candidate_config :: bool
  vc_supports_commit :: bool
  vc_supports_save :: bool
  vc_supports_rollback :: bool
  vc_lab_certified :: bool
  vc_production_certified :: bool
  vc_apply_support_level :: apply_support_level
  vc_notes :: "string option"

definition supports_operation :: "contract \<Rightarrow> vendor_operation \<Rightarrow> bool" where
  "supports_operation c p \<longleftrightarrow> p \<in> vc_supported_operations c \<and> p \<notin> vc_forbidden_operations c"

text \<open>\<open>any(re.search(pattern, command, re.IGNORECASE) ...)\<close>\<close>

definition blocks_command :: "contract \<Rightarrow> string \<Rightarrow> bool" where
  "blocks_command c command \<longleftrightarrow> list_ex (\<lambda>r. rx_found flag_i r command) (vc_forbidden_command_patterns c)"

definition COMMON_FORBIDDEN_COMMAND_PATTERNS :: "rx list" where
  "COMMON_FORBIDDEN_COMMAND_PATTERNS =
      [rseq [RWordB, rlit ''erase'', blanks, rlit ''startup-config'', RWordB],
       rseq [RWordB, rlit ''erase'', blanks, rlit ''running-config'', RWordB],
       rseq [RWordB, rlit ''reload'', RWordB],
       rseq [RWordB, rlit ''format'', RWordB],
       rseq [RWordB, rlit ''delete'', blanks, rlit ''flash:''],
       rseq [RWordB, rlit ''copy'', blanks, RNot (rseq [rlit ''running-config'', blanks, rlit ''startup-config'', RWordB]), RStar True Dot, blanks, rlit ''startup-config'', RWordB]]"

definition READ_BACKUP_ONLY :: "vendor_operation set" where
  "READ_BACKUP_ONLY = {VO_read_backup}"

definition COMMON_LAB_CANDIDATE_OPS :: "vendor_operation set" where
  "COMMON_LAB_CANDIDATE_OPS = {VO_read_backup, VO_password_change, VO_vlan_create,
     VO_vlan_assign_port, VO_port_description, VO_port_enable_disable, VO_acl_update}"

definition contract_cisco_ios :: contract where
  "contract_cisco_ios = \<lparr>
     vc_family = DF_cisco_ios,
     vc_driver_name = ''CiscoIOSDriver'',
     vc_preferred_transport = TK_netmiko,
     vc_fallback_transport = Some TK_paramiko,
     vc_supported_operations = COMMON_LAB_CANDIDATE_OPS,
     vc_forbidden_operations = {},
     vc_read_only_commands = [''show running-config''],
     vc_config_command_templates = [(VO_password_change, [''configure terminal'', ''username {username} privilege {level} secret {password}'', ''end'', ''write memory'']),
       (VO_vlan_create, [''configure terminal'', ''vlan {vlan_id}'', ''name {name}'', ''end'', ''write memory'']),
       (VO_vlan_assign_port, [''configure terminal'', ''interface {interface}'', ''switchport mode access'', ''switchport access vlan {vlan_id}'', ''end'', ''write memory''])],
     vc_save_or_commit_commands = [''write memory''],
     vc_rollback_strategy = ''preview_required'',
     vc_prompt_patterns = [rseq [RPlus True (Cls False [CWord, CChar (CHR ''.''), CChar (CHR ''-''), CChar (CHR ''(''), CChar (CHR '')'')]), ROne (Cls False [CChar (CHR ''>''), CChar (CHR ''#'')]), maybe_blanks, REol],
       rseq [ROne (Cls False [CChar (CHR ''>''), CChar (CHR ''#'')]), maybe_blanks, REol]],
     vc_error_patterns = [rlit ''% Invalid'',
       rlit ''% Incomplete'',
       rlit ''% Ambiguous''],
     vc_forbidden_command_patterns = COMMON_FORBIDDEN_COMMAND_PATTERNS,
     vc_read_only_setup_commands = [],
     vc_requires_enable = True,
     vc_requires_config_mode = True,
     vc_supports_candidate_config = False,
     vc_supports_commit = False,
     vc_supports_save = True,
     vc_supports_rollback = True,
     vc_lab_certified = False,
     vc_production_certified = False,
     vc_apply_support_level = AL_lab_apply_candidate,
     vc_notes = Some ''Cisco IOS can be a lab-only candidate; production certification is intentionally false.''\<rparr>"

definition contract_cisco_nxos :: contract where
  "contract_cisco_nxos = \<lparr>
     vc_family = DF_cisco_nxos,
     vc_driver_name = ''CiscoNXOSDriver'',
     vc_preferred_transport = TK_netmiko,
     vc_fallback_transport = Some TK_paramiko,
     vc_supported_operations = COMMON_LAB_CANDIDATE_OPS,
     vc_forbidden_operations = {},
     vc_read_only_commands = [''show running-config''],
     vc_config_command_templates = [],
     vc_save_or_commit_commands = [''copy running-config startup-config''],
     vc_rollback_strategy = ''preview_required'',
     vc_prompt_patterns = [rseq [ROne (Cls False [CChar (CHR ''>''), CChar (CHR ''#'')]), maybe_blanks, REol]],
     vc_error_patterns = [rlit ''% Invalid''],
     vc_forbidden_command_patterns = COMMON_FORBIDDEN_COMMAND_PATTERNS,
     vc_read_only_setup_commands = [],
     vc_requires_enable = False,
     vc_requires_config_mode = True,
     vc_supports_candidate_config = False,
     vc_supports_commit = False,
     vc_supports_save = True,
     vc_supports_rollback = False,
     vc_lab_certified = False,
     vc_production_certified = False,
     vc_apply_support_level = AL_lab_apply_candidate,
     vc_notes = Some ''NX-OS strategy exists for lab readiness; explicit templates should be added before execution.''\<rparr>"

definition contract_cisco_asa :: contract where
  "contract_cisco_asa = \<lparr>
     vc_family = DF_cisco_asa,
     vc_driver_name = ''CiscoASADriver'',
     vc_preferred_transport = TK_netmiko,
     vc_fallback_transport = Some TK_custom_cli,
     vc_supported_operations = {VO_read_backup},
     vc_forbidden_operations = COMMON_LAB_CANDIDATE_OPS - READ_BACKUP_ONLY,
     vc_read_only_commands = [''show running-config''],
     vc_config_command_templates = [],
     vc_save_or_commit_commands = [''write memory''],
     vc_rollback_strategy = ''unsupported_without_profile'',
     vc_prompt_patterns = [rseq [ROne (Cls False [CChar (CHR ''>''), CChar (CHR ''#'')]), maybe_blanks, REol]],
     vc_error_patterns = [rlit ''ERROR''],
     vc_forbidden_command_patterns = COMMON_FORBIDDEN_COMMAND_PATTERNS,
     vc_read_only_setup_commands = [],
     vc_requires_enable = False,
     vc_requires_config_mode = True,
     vc_supports_candidate_config = False,
     vc_supports_commit = False,
     vc_supports_save = True,
     vc_supports_rollback = False,
     vc_lab_certified = False,
     vc_production_certified = False,
     vc_apply_support_level = AL_dry_run_only,
     vc_notes = Some ''ASA config apply remains dry-run only until explicit templates are certified.''\<rparr>"

definition contract_huawei_vrp :: contract where
  "contract_huawei_vrp = \<lparr>
     vc_family = DF_huawei_vrp,
     vc_driver_name = ''HuaweiVRPDriver'',
     vc_preferred_transport = TK_netmiko,
     vc_fallback_transport = Some TK_paramiko,
     vc_supported_operations = COMMON_LAB_CANDIDATE_OPS,
     vc_forbidden_operations = {},
     vc_read_only_commands = [''display current-configuration''],
     vc_config_command_templates = [(VO_password_change, [''system-view'', ''local-user {username} password irreversible-cipher {password}'', ''local-user {username} privilege level {level}'', ''quit'', ''save force'']),
       (VO_vlan_create, [''system-view'', ''vlan {vlan_id}'', ''description {name}'', ''quit'', ''save force''])],
     vc_save_or_commit_commands = [''save force''],
     vc_rollback_strategy = ''preview_required'',
     vc_prompt_patterns = [rseq [rlit ''<'', RPlus True (Cls True [CChar (CHR ''>''), CChar (CHR 0x0D), CChar (CHR 0x0A)]), rlit ''>'', maybe_blanks, REol],
       rseq [rlit ''['', RPlus True (Cls True [CChar (CHR '']''), CChar (CHR 0x0D), CChar (CHR 0x0A)]), rlit '']'', maybe_blanks, REol],
       rseq [RPlus True (Cls False [CWord, CChar (CHR ''.''), CChar (CHR ''-''), CChar (CHR ''(''), CChar (CHR '')'')]), ROne (Cls False [CChar (CHR ''>''), CChar (CHR ''#'')]), maybe_blanks, REol],
       rseq [ROne (Cls False [CChar (CHR ''>''), CChar (CHR '']'')]), maybe_blanks, REol]],
     vc_error_patterns = [rlit ''Error:'',
       rlit ''Unrecognized command''],
     vc_forbidden_command_patterns = COMMON_FORBIDDEN_COMMAND_PATTERNS @ [rseq [RWordB, rlit ''reset saved-configuration'', RWordB]],
     vc_read_only_setup_commands = [],
     vc_requires_enable = False,
     vc_requires_config_mode = True,
     vc_supports_candidate_config = False,
     vc_supports_commit = False,
     vc_supports_save = True,
     vc_supports_rollback = False,
     vc_lab_certified = False,
     vc_production_certified = False,
     vc_apply_support_level = AL_lab_apply_candidate,
     vc_notes = None\<rparr>"

definition contract_hpe_comware :: contract where
  "contract_hpe_comware = \<lparr>
     vc_family = DF_hpe_comware,
     vc_driver_name = ''HPComwareDriver'',
     vc_preferred_transport = TK_netmiko,
     vc_fallback_transport = Some TK_custom_cli,
     vc_supported_operations = COMMON_LAB_CANDIDATE_OPS,
     vc_forbidden_operations = {},
     vc_read_only_commands = [''display current-configuration''],
     vc_config_command_templates = [(VO_vlan_create, [''system-view'', ''vlan {vlan_id}'', ''name {name}'', ''quit'', ''save force'']),
       (VO_vlan_assign_port, [''system-view'', ''interface {interface}'', ''port link-type access'', ''port access vlan {vlan_id}'', ''quit'', ''save force''])],
     vc_save_or_commit_commands = [''save force''],
     vc_rollback_strategy = ''preview_required'',
     vc_prompt_patterns = [rseq [rlit ''<'', RPlus True (Cls True [CChar (CHR ''>''), CChar (CHR 0x0D), CChar (CHR 0x0A)]), rlit ''>'', maybe_blanks, REol],
       rseq [rlit ''['', RPlus True (Cls True [CChar (CHR '']''), CChar (CHR 0x0D), CChar (CHR 0x0A)]), rlit '']'', maybe_blanks, REol],
       rseq [RPlus True (Cls False [CWord, CChar (CHR ''.''), CChar (CHR ''-''), CChar (CHR ''(''), CChar (CHR '')'')]), ROne (Cls False [CChar (CHR ''>''), CChar (CHR ''#'')]), maybe_blanks, REol],
       rseq [ROne (Cls False [CChar (CHR ''>''), CChar (CHR '']'')]), maybe_blanks, REol]],
     vc_error_patterns = [rlit ''Error:'',
       rlit ''Wrong parameter''],
     vc_forbidden_command_patterns = COMMON_FORBIDDEN_COMMAND_PATTERNS @ [rseq [RWordB, rlit ''reset saved-configuration'', RWordB]],
     vc_read_only_setup_commands = [''screen-length disable'', ''screen-length 0 temporary''],
     vc_requires_enable = False,
     vc_requires_config_mode = True,
     vc_supports_candidate_config = False,
     vc_supports_commit = False,
     vc_supports_save = True,
     vc_supports_rollback = False,
     vc_lab_certified = False,
     vc_production_certified = False,
     vc_apply_support_level = AL_lab_apply_candidate,
     vc_notes = None\<rparr>"

definition contract_hpe_procurve :: contract where
  "contract_hpe_procurve = \<lparr>
     vc_family = DF_hpe_procurve,
     vc_driver_name = ''HPEProCurveDriver'',
     vc_preferred_transport = TK_netmiko,
     vc_fallback_transport = Some TK_custom_cli,
     vc_supported_operations = COMMON_LAB_CANDIDATE_OPS,
     vc_forbidden_operations = {},
     vc_read_only_commands = [''show running-config''],
     vc_config_command_templates = [(VO_vlan_create, [''configure terminal'', ''vlan {vlan_id}'', ''name {name}'', ''exit'', ''write memory'']),
       (VO_vlan_assign_port, [''configure terminal'', ''vlan {vlan_id}'', ''untagged {interface}'', ''exit'', ''write memory''])],
     vc_save_or_commit_commands = [''write memory''],
     vc_rollback_strategy = ''preview_required'',
     vc_prompt_patterns = [rseq [ROne (Cls False [CChar (CHR ''>''), CChar (CHR ''#'')]), maybe_blanks, REol]],
     vc_error_patterns = [rlit ''Invalid'',
       rlit ''Incomplete''],
     vc_forbidden_command_patterns = COMMON_FORBIDDEN_COMMAND_PATTERNS,
     vc_read_only_setup_commands = [],
     vc_requires_enable = False,
     vc_requires_config_mode = True,
     vc_supports_candidate_config = False,
     vc_supports_commit = False,
     vc_supports_save = True,
     vc_supports_rollback = False,
     vc_lab_certified = False,
     vc_production_certified = False,
     vc_apply_support_level = AL_lab_apply_candidate,
     vc_notes = None\<rparr>"

definition contract_aruba_os_switch :: contract where
  "contract_aruba_os_switch = \<lparr>
     vc_family = DF_aruba_os_switch,
     vc_driver_name = ''HPEProCurveDriver'',
     vc_preferred_transport = TK_netmiko,
     vc_fallback_transport = Some TK_custom_cli,
     vc_supported_operations = COMMON_LAB_CANDIDATE_OPS,
     vc_forbidden_operations = {},
     vc_read_only_commands = [''show running-config''],
     vc_config_command_templates = [],
     vc_save_or_commit_commands = [''write memory''],
     vc_rollback_strategy = ''preview_required'',
     vc_prompt_patterns = [rseq [ROne (Cls False [CChar (CHR ''>''), CChar (CHR ''#'')]), maybe_blanks, REol]],
     vc_error_patterns = [rlit ''Invalid''],
     vc_forbidden_command_patterns = COMMON_FORBIDDEN_COMMAND_PATTERNS,
     vc_read_only_setup_commands = [],
     vc_requires_enable = False,
     vc_requires_config_mode = True,
     vc_supports_candidate_config = False,
     vc_supports_commit = False,
     vc_supports_save = True,
     vc_supports_rollback = False,
     vc_lab_certified = False,
     vc_production_certified = False,
     vc_apply_support_level = AL_lab_apply_candidate,
     vc_notes = None\<rparr>"

definition contract_qtech :: contract where
  "contract_qtech = \<lparr>
     vc_family = DF_qtech,
     vc_driver_name = ''QtechQswDriver'',
     vc_preferred_transport = TK_custom_cli,
     vc_fallback_transport = Some TK_paramiko,
     vc_supported_operations = READ_BACKUP_ONLY,
     vc_forbidden_operations = COMMON_LAB_CANDIDATE_OPS - READ_BACKUP_ONLY,
     vc_read_only_commands = [''show running-config''],
     vc_config_command_templates = [],
     vc_save_or_commit_commands = [],
     vc_rollback_strategy = ''unsupported_until_certified'',
     vc_prompt_patterns = [rseq [RPlus True (Cls False [CWord, CChar (CHR ''.''), CChar (CHR ''-''), CChar (CHR ''(''), CChar (CHR '')'')]), ROne (Cls False [CChar (CHR ''>''), CChar (CHR ''#'')]), maybe_blanks, REol],
       rseq [ROne (Cls False [CChar (CHR ''>''), CChar (CHR ''#'')]), maybe_blanks, REol]],
     vc_error_patterns = [rlit ''Error'',
       rlit ''%''],
     vc_forbidden_command_patterns = COMMON_FORBIDDEN_COMMAND_PATTERNS,
     vc_read_only_setup_commands = [''terminal length 0''],
     vc_requires_enable = False,
     vc_requires_config_mode = True,
     vc_supports_candidate_config = False,
     vc_supports_commit = False,
     vc_supports_save = True,
     vc_supports_rollback = False,
     vc_lab_certified = False,
     vc_production_certified = False,
     vc_apply_support_level = AL_read_only_only,
     vc_notes = Some ''QTECH is explicitly classified, but config apply remains blocked until templates are certified.''\<rparr>"

definition contract_dell_os :: contract where
  "contract_dell_os = \<lparr>
     vc_family = DF_dell_os,
     vc_driver_name = ''DellPowerConnectDriver'',
     vc_preferred_transport = TK_netmiko,
     vc_fallback_transport = Some TK_custom_cli,
     vc_supported_operations = COMMON_LAB_CANDIDATE_OPS,
     vc_forbidden_operations = {},
     vc_read_only_commands = [''show running-config''],
     vc_config_command_templates = [(VO_vlan_create, [''configure'', ''vlan database'', ''vlan {vlan_id}'', ''exit'', ''interface vlan {vlan_id}'', ''name {name}'', ''exit'', ''copy running-config startup-config''])],
     vc_save_or_commit_commands = [''copy running-config startup-config''],
     vc_rollback_strategy = ''preview_required'',
     vc_prompt_patterns = [rseq [RPlus True (Cls False [CWord, CChar (CHR ''.''), CChar (CHR ''-'')]), ROne (Cls False [CChar (CHR ''>''), CChar (CHR ''#'')]), maybe_blanks, REol],
       rseq [ROne (Cls False [CChar (CHR ''>''), CChar (CHR ''#'')]), maybe_blanks, REol]],
     vc_error_patterns = [rlit ''Invalid'',
       rlit ''%''],
     vc_forbidden_command_patterns = COMMON_FORBIDDEN_COMMAND_PATTERNS,
     vc_read_only_setup_commands = [],
     vc_requires_enable = False,
     vc_requires_config_mode = True,
     vc_supports_candidate_config = False,
     vc_supports_commit = False,
     vc_supports_save = True,
     vc_supports_rollback = False,
     vc_lab_certified = False,
     vc_production_certified = False,
     vc_apply_support_level = AL_lab_apply_candidate,
     vc_notes = None\<rparr>"

definition contract_limited_web :: contract where
  "contract_limited_web = \<lparr>
     vc_family = DF_limited_web,
     vc_driver_name = ''LimitedWebInventoryDriver'',
     vc_preferred_transport = TK_unsupported,
     vc_fallback_transport = None,
     vc_supported_operations = {},
     vc_forbidden_operations = COMMON_LAB_CANDIDATE_OPS,
     vc_read_only_commands = [],
     vc_config_command_templates = [],
     vc_save_or_commit_commands = [],
     vc_rollback_strategy = ''unsupported'',
     vc_prompt_patterns = [],
     vc_error_patterns = [],
     vc_forbidden_command_patterns = COMMON_FORBIDDEN_COMMAND_PATTERNS,
     vc_read_only_setup_commands = [],
     vc_requires_enable = False,
     vc_requires_config_mode = False,
     vc_supports_candidate_config = False,
     vc_supports_commit = False,
     vc_supports_save = False,
     vc_supports_rollback = False,
     vc_lab_certified = False,
     vc_production_certified = False,
     vc_apply_support_level = AL_unsupported,
     vc_notes = Some ''Limited web-managed or unmanaged devices are inventory-only in local lab mode.''\<rparr>"

definition contract_non_switch :: contract where
  "contract_non_switch = \<lparr>
     vc_family = DF_non_switch,
     vc_driver_name = ''NonSwitchInventoryDriver'',
     vc_preferred_transport = TK_unsupported,
     vc_fallback_transport = None,
     vc_supported_operations = {},
     vc_forbidden_operations = COMMON_LAB_CANDIDATE_OPS,
     vc_read_only_commands = [],
     vc_config_command_templates = [],
     vc_save_or_commit_commands = [],
     vc_rollback_strategy = ''unsupported'',
     vc_prompt_patterns = [],
     vc_error_patterns = [],
     vc_forbidden_command_patterns = COMMON_FORBIDDEN_COMMAND_PATTERNS,
     vc_read_only_setup_commands = [],
     vc_requires_enable = False,
     vc_requires_config_mode = False,
     vc_supports_candidate_config = False,
     vc_supports_commit = False,
     vc_supports_save = False,
     vc_supports_rollback = False,
     vc_lab_certified = False,
     vc_production_certified = False,
     vc_apply_support_level = AL_unsupported,
     vc_notes = Some ''Non-switch/security appliance inventory records cannot run switch CLI operations.''\<rparr>"

definition contract_eltex :: contract where
  "contract_eltex = \<lparr>
     vc_family = DF_eltex,
     vc_driver_name = ''EltexMESDriver'',
     vc_preferred_transport = TK_custom_cli,
     vc_fallback_transport = Some TK_paramiko,
     vc_supported_operations = READ_BACKUP_ONLY,
     vc_forbidden_operations = COMMON_LAB_CANDIDATE_OPS - READ_BACKUP_ONLY,
     vc_read_only_commands = [''show running-config''],
     vc_config_command_templates = [],
     vc_save_or_commit_commands = [],
     vc_rollback_strategy = ''unsupported_until_certified'',
     vc_prompt_patterns = [rseq [RPlus True (Cls False [CWord, CChar (CHR ''.''), CChar (CHR ''-''), CChar (CHR ''(''), CChar (CHR '')'')]), ROne (Cls False [CChar (CHR ''>''), CChar (CHR ''#'')]), maybe_blanks, REol],
       rseq [ROne (Cls False [CChar (CHR ''>''), CChar (CHR ''#'')]), maybe_blanks, REol]],
     vc_error_patterns = [rlit ''Error''],
     vc_forbidden_command_patterns = COMMON_FORBIDDEN_COMMAND_PATTERNS,
     vc_read_only_setup_commands = [''terminal datadump''],
     vc_requires_enable = False,
     vc_requires_config_mode = True,
     vc_supports_candidate_config = False,
     vc_supports_commit = False,
     vc_supports_save = True,
     vc_supports_rollback = False,
     vc_lab_certified = False,
     vc_production_certified = False,
     vc_apply_support_level = AL_read_only_only,
     vc_notes = Some ''Eltex apply remains blocked until explicit custom CLI templates are certified.''\<rparr>"

definition contract_bulat :: contract where
  "contract_bulat = \<lparr>
     vc_family = DF_bulat,
     vc_driver_name = ''BulatBSDriver'',
     vc_preferred_transport = TK_custom_cli,
     vc_fallback_transport = Some TK_paramiko,
     vc_supported_operations = READ_BACKUP_ONLY,
     vc_forbidden_operations = COMMON_LAB_CANDIDATE_OPS - READ_BACKUP_ONLY,
     vc_read_only_commands = [''show running-config''],
     vc_config_command_templates = [],
     vc_save_or_commit_commands = [],
     vc_rollback_strategy = ''unsupported_until_certified'',
     vc_prompt_patterns = [rseq [ROne (Cls False [CChar (CHR ''>''), CChar (CHR ''#'')]), maybe_blanks, REol]],
     vc_error_patterns = [rlit ''Error''],
     vc_forbidden_command_patterns = COMMON_FORBIDDEN_COMMAND_PATTERNS,
     vc_read_only_setup_commands = [],
     vc_requires_enable = False,
     vc_requires_config_mode = True,
     vc_supports_candidate_config = False,
     vc_supports_commit = False,
     vc_supports_save = True,
     vc_supports_rollback = False,
     vc_lab_certified = False,
     vc_production_certified = False,
     vc_apply_support_level = AL_read_only_only,
     vc_notes = Some ''Bulat apply remains blocked until explicit custom CLI templates are certified.''\<rparr>"

definition contract_generic_ssh :: contract where
  "contract_generic_ssh = \<lparr>
     vc_family = DF_generic_ssh,
     vc_driver_name = ''GenericSSHDriver'',
     vc_preferred_transport = TK_paramiko,
     vc_fallback_transport = Some TK_custom_cli,
     vc_supported_operations = READ_BACKUP_ONLY,
     vc_forbidden_operations = COMMON_LAB_CANDIDATE_OPS - READ_BACKUP_ONLY,
     vc_read_only_commands = [''show running-config''],
     vc_config_command_templates = [],
     vc_save_or_commit_commands = [],
     vc_rollback_strategy = ''unsupported'',
     vc_prompt_patterns = [rseq [ROne (Cls False [CChar (CHR ''>''), CChar (CHR ''#'')]), maybe_blanks, REol]],
     vc_error_patterns = [rlit ''Error''],
     vc_forbidden_command_patterns = COMMON_FORBIDDEN_COMMAND_PATTERNS,
     vc_read_only_setup_commands = [],
     vc_requires_enable = False,
     vc_requires_config_mode = True,
     vc_supports_candidate_config = False,
     vc_supports_commit = False,
     vc_supports_save = True,
     vc_supports_rollback = False,
     vc_lab_certified = False,
     vc_production_certified = False,
     vc_apply_support_level = AL_read_only_only,
     vc_notes = Some ''GenericSSH is read-only/dry-run only and cannot config apply.''\<rparr>"

definition contract_icmp :: contract where
  "contract_icmp = \<lparr>
     vc_family = DF_icmp,
     vc_driver_name = ''ReadOnlyICMPDriver'',
     vc_preferred_transport = TK_icmp_only,
     vc_fallback_transport = None,
     vc_supported_operations = {},
     vc_forbidden_operations = COMMON_LAB_CANDIDATE_OPS,
     vc_read_only_commands = [],
     vc_config_command_templates = [],
     vc_save_or_commit_commands = [],
     vc_rollback_strategy = ''unsupported'',
     vc_prompt_patterns = [],
     vc_error_patterns = [],
     vc_forbidden_command_patterns = COMMON_FORBIDDEN_COMMAND_PATTERNS,
     vc_read_only_setup_commands = [],
     vc_requires_enable = False,
     vc_requires_config_mode = False,
     vc_supports_candidate_config = False,
     vc_supports_commit = False,
     vc_supports_save = False,
     vc_supports_rollback = False,
     vc_lab_certified = False,
     vc_production_certified = False,
     vc_apply_support_level = AL_read_only_only,
     vc_notes = Some ''ICMP is health-only; no CLI config operations are possible.''\<rparr>"

definition contract_unknown :: contract where
  "contract_unknown = \<lparr>
     vc_family = DF_unknown,
     vc_driver_name = ''UnsupportedDriver'',
     vc_preferred_transport = TK_unsupported,
     vc_fallback_transport = None,
     vc_supported_operations = {},
     vc_forbidden_operations = COMMON_LAB_CANDIDATE_OPS,
     vc_read_only_commands = [],
     vc_config_command_templates = [],
     vc_save_or_commit_commands = [],
     vc_rollback_strategy = ''unsupported'',
     vc_prompt_patterns = [],
     vc_error_patterns = [],
     vc_forbidden_command_patterns = COMMON_FORBIDDEN_COMMAND_PATTERNS,
     vc_read_only_setup_commands = [],
     vc_requires_enable = False,
     vc_requires_config_mode = False,
     vc_supports_candidate_config = False,
     vc_supports_commit = False,
     vc_supports_save = False,
     vc_supports_rollback = False,
     vc_lab_certified = False,
     vc_production_certified = False,
     vc_apply_support_level = AL_unsupported,
     vc_notes = Some ''Unknown devices fail closed.''\<rparr>"

definition VENDOR_DRIVER_CONTRACTS :: "(device_family \<times> contract) list" where
  "VENDOR_DRIVER_CONTRACTS = [
     (DF_cisco_ios, contract_cisco_ios),
     (DF_cisco_nxos, contract_cisco_nxos),
     (DF_cisco_asa, contract_cisco_asa),
     (DF_huawei_vrp, contract_huawei_vrp),
     (DF_hpe_comware, contract_hpe_comware),
     (DF_hpe_procurve, contract_hpe_procurve),
     (DF_aruba_os_switch, contract_aruba_os_switch),
     (DF_qtech, contract_qtech),
     (DF_dell_os, contract_dell_os),
     (DF_limited_web, contract_limited_web),
     (DF_non_switch, contract_non_switch),
     (DF_eltex, contract_eltex),
     (DF_bulat, contract_bulat),
     (DF_generic_ssh, contract_generic_ssh),
     (DF_icmp, contract_icmp),
     (DF_unknown, contract_unknown)]"

definition get_vendor_driver_contract :: "device_family \<Rightarrow> contract" where
  "get_vendor_driver_contract f =
     (case map_of VENDOR_DRIVER_CONTRACTS f of None \<Rightarrow> contract_unknown | Some c \<Rightarrow> c)"

text \<open>Every family has an entry, so the lookups of \<open>list_vendor_driver_contracts\<close> succeed.\<close>

definition list_vendor_driver_contracts :: "contract list" where
  "list_vendor_driver_contracts = map (\<lambda>f. the (map_of VENDOR_DRIVER_CONTRACTS f)) all_families"

lemmas contract_defs =
  contract_cisco_ios_def contract_cisco_nxos_def contract_cisco_asa_def contract_huawei_vrp_def
  contract_hpe_comware_def contract_hpe_procurve_def contract_aruba_os_switch_def
  contract_qtech_def contract_dell_os_def contract_limited_web_def contract_non_switch_def
  contract_eltex_def contract_bulat_def contract_generic_ssh_def contract_icmp_def
  contract_unknown_def

lemma get_contract [simp]:
  "get_vendor_driver_contract DF_cisco_ios = contract_cisco_ios"
  "get_vendor_driver_contract DF_cisco_nxos = contract_cisco_nxos"
  "get_vendor_driver_contract DF_cisco_asa = contract_cisco_asa"
  "get_vendor_driver_contract DF_huawei_vrp = contract_huawei_vrp"
  "get_vendor_driver_contract DF_hpe_comware = contract_hpe_comware"
  "get_vendor_driver_contract DF_hpe_procurve = contract_hpe_procurve"
  "get_vendor_driver_contract DF_aruba_os_switch = contract_aruba_os_switch"
  "get_vendor_driver_contract DF_qtech = contract_qtech"
  "get_vendor_driver_contract DF_dell_os = contract_dell_os"
  "get_vendor_driver_contract DF_limited_web = contract_limited_web"
  "get_vendor_driver_contract DF_non_switch = contract_non_switch"
  "get_vendor_driver_contract DF_eltex = contract_eltex"
  "get_vendor_driver_contract DF_bulat = contract_bulat"
  "get_vendor_driver_contract DF_generic_ssh = contract_generic_ssh"
  "get_vendor_driver_contract DF_icmp = contract_icmp"
  "get_vendor_driver_contract DF_unknown = contract_unknown"
  by (simp_all add: get_vendor_driver_contract_def VENDOR_DRIVER_CONTRACTS_def)

lemma COMMON_LAB_CANDIDATE_OPS_UNIV [simp]: "COMMON_LAB_CANDIDATE_OPS = UNIV"
proof (intro set_eqI iffI UNIV_I)
  show "p \<in> COMMON_LAB_CANDIDATE_OPS" for p
    by (cases p) (simp_all add: COMMON_LAB_CANDIDATE_OPS_def)
qed

lemma READ_BACKUP_ONLY_iff [simp]: "p \<in> READ_BACKUP_ONLY \<longleftrightarrow> p = VO_read_backup"
  by (simp add: READ_BACKUP_ONLY_def)

lemma common_patterns_everywhere:
  "set COMMON_FORBIDDEN_COMMAND_PATTERNS \<subseteq> set (vc_forbidden_command_patterns (get_vendor_driver_contract f))"
  by (cases f; simp add: contract_defs subset_insertI)

lemma blocks_common:
  "r \<in> set COMMON_FORBIDDEN_COMMAND_PATTERNS \<Longrightarrow> rx_found flag_i r command \<Longrightarrow>
   blocks_command (get_vendor_driver_contract f) command"
  using common_patterns_everywhere by (auto simp: blocks_command_def list_ex_iff)

section \<open>Properties\<close>

text \<open>
  Every contract fails closed.  It is filed under its own family, is certified neither
  for the lab nor for production, partitions the operations into supported and forbidden ones,
  has command templates for supported write operations only, and supports an operation other
  than reading a backup only for the families that are lab-apply candidates.
\<close>

theorem contracts_fail_closed:
  "vc_family (get_vendor_driver_contract f) = f \<and>
   \<not> vc_lab_certified (get_vendor_driver_contract f) \<and>
   \<not> vc_production_certified (get_vendor_driver_contract f) \<and>
   vc_apply_support_level (get_vendor_driver_contract f)
     \<notin> {AL_lab_apply_certified, AL_production_candidate, AL_production_certified} \<and>
   (p \<in> vc_supported_operations (get_vendor_driver_contract f) \<longleftrightarrow>
      p \<notin> vc_forbidden_operations (get_vendor_driver_contract f)) \<and>
   (map_of (vc_config_command_templates (get_vendor_driver_contract f)) p \<noteq> None \<longrightarrow>
      supports_operation (get_vendor_driver_contract f) p \<and> p \<noteq> VO_read_backup) \<and>
   (supports_operation (get_vendor_driver_contract f) p \<longrightarrow> p = VO_read_backup \<or>
      vc_apply_support_level (get_vendor_driver_contract f) = AL_lab_apply_candidate)"
  by (cases f; simp add: contract_defs supports_operation_def)

text \<open>C22 at the Huawei contract and an operation it has a template for.\<close>

theorem contracts_fail_closed_witness:
  "map_of (vc_config_command_templates (get_vendor_driver_contract DF_huawei_vrp)) VO_vlan_create \<noteq> None \<and>
   supports_operation (get_vendor_driver_contract DF_huawei_vrp) VO_vlan_create \<and>
   vc_apply_support_level (get_vendor_driver_contract DF_huawei_vrp) = AL_lab_apply_candidate"
proof -
  have "map_of (vc_config_command_templates (get_vendor_driver_contract DF_huawei_vrp)) VO_vlan_create \<noteq> None"
    by (simp add: contract_huawei_vrp_def)
  with contracts_fail_closed [of DF_huawei_vrp VO_vlan_create] show ?thesis by auto
qed

text \<open>
  Destructive commands are blocked for every family.  A command in which \<open>reload\<close> or
  \<open>format\<close> stands as a word of its own, or \<open>erase\<close> is followed by the startup or running
  configuration, in any capitalisation, is blocked whatever surrounds it.
\<close>

theorem destructive_commands_blocked:
  assumes "apart u v"
    and "casefold w \<in> {''reload'', ''format''} \<or>
         (\<exists>a k b. w = a @ k @ b \<and> casefold a = ''erase'' \<and> k \<noteq> [] \<and> (\<forall>c\<in>set k. is_space c) \<and>
                  casefold b \<in> {''startup-config'', ''running-config''})"
  shows "blocks_command (get_vendor_driver_contract f) (u @ w @ v)"
proof -
  note pat = blocks_common [unfolded COMMON_FORBIDDEN_COMMAND_PATTERNS_def]
  consider (word) x where "casefold w = x" "x \<in> {''reload'', ''format''}"
    | (erase) a k b x where "w = a @ k @ b" "casefold a = ''erase''" "k \<noteq> []" "\<forall>c\<in>set k. is_space c"
        "casefold b = x" "x \<in> {''startup-config'', ''running-config''}"
    using assms(2) by blast
  then show ?thesis
  proof cases
    case word
    then have "rx_found flag_i (rseq [RWordB, rlit x, RWordB]) (u @ w @ v)"
      using assms(1) by (intro rx_found_word) (auto simp: is_lower_def)
    then show ?thesis by (rule pat [rotated]) (use word(2) in auto)
  next
    case erase
    have "rx_found flag_i (rseq [RWordB, rlit ''erase'', blanks, rlit x, RWordB]) (u @ a @ k @ b @ v)"
      by (rule rx_found_two_words [OF erase(2,5)])
        (use erase assms(1) in \<open>auto simp: is_lower_def\<close>)
    then have "rx_found flag_i (rseq [RWordB, rlit ''erase'', blanks, rlit x, RWordB]) (u @ w @ v)"
      by (simp only: erase(1) append_assoc)
    then show ?thesis by (rule pat [rotated]) (use erase(6) in auto)
  qed
qed

theorem destructive_commands_blocked_witness:
  "blocks_command (get_vendor_driver_contract DF_cisco_ios) ''do Erase  startup-config'' \<and>
   blocks_command (get_vendor_driver_contract DF_unknown) ''RELOAD in 5''"
proof
  have "\<exists>a k b. ''Erase  startup-config'' = a @ k @ b \<and> casefold a = ''erase'' \<and> k \<noteq> [] \<and>
      (\<forall>c\<in>set k. is_space c) \<and> casefold b \<in> {''startup-config'', ''running-config''}"
    by (rule exI [of _ "''Erase''"], rule exI [of _ "''  ''"], rule exI [of _ "''startup-config''"])
      (simp add: casefold_def is_space_def)
  then show "blocks_command (get_vendor_driver_contract DF_cisco_ios) ''do Erase  startup-config''"
    using destructive_commands_blocked [of "''do ''" "[]" "''Erase  startup-config''" DF_cisco_ios]
    by (simp add: apart_def is_word_def is_lower_def is_digit_def)
  show "blocks_command (get_vendor_driver_contract DF_unknown) ''RELOAD in 5''"
    using destructive_commands_blocked [of "[]" "'' in 5''" "''RELOAD''" DF_unknown]
    by (simp add: apart_def casefold_def is_word_def is_lower_def is_digit_def)
qed
end
