(* ===== verification/CapabilityMatrix.thy ===== *)
theory CapabilityMatrix
  imports TransportStrategy Masking
begin

text \<open>
  app/services/driver_capability_matrix.py: the runtime profiles of the device families and the
  decision which profile a device gets.  A device is matched by the words in its vendor, model
  and platform, then by the family or driver it names, then by the profiles' patterns;
  whatever is left is unsupported.
\<close>

section \<open>The runtime profiles\<close>

definition READ_ONLY :: "driver_capability set" where
  "READ_ONLY = {DC_read_only, DC_supports_dry_run}"

definition CLI_PLANNING :: "driver_capability set" where
  "CLI_PLANNING = {DC_read_only, DC_prompt_detection, DC_privilege_mode, DC_config_mode,
     DC_config_staging, DC_commit_or_save, DC_rollback_prepare, DC_supports_dry_run,
     DC_requires_lab_certification}"

definition CUSTOM_CLI_PLANNING :: "driver_capability set" where
  "CUSTOM_CLI_PLANNING = {DC_read_only, DC_prompt_detection, DC_privilege_mode,
     DC_config_staging, DC_supports_dry_run, DC_requires_lab_certification}"

definition profile_cisco_ios :: "rx profile" where
  "profile_cisco_ios = \<lparr>
     pf_vendor = ''Cisco'',
     pf_family = DF_cisco_ios,
     pf_preferred_transport = TK_netmiko,
     pf_capabilities = CLI_PLANNING,
     pf_driver_name = ''CiscoIOSDriver'',
     pf_model_pattern = Some (RGroup 1 (ralt [rlit ''catalyst'', rlit ''cat2960'', rlit ''37xx'', rlit ''ios''])),
     pf_platform_pattern = Some (RGroup 1 (ralt [rlit ''ios'', rlit ''cisco_ios''])),
     pf_fallback_transport = Some TK_paramiko,
     pf_real_apply_certified = False,
     pf_lab_certified = False,
     pf_config_apply_supported = True,
     pf_read_only_supported = True,
     pf_unsupported_reason = None,
     pf_notes = Some ''Cisco IOS has a mature Netmiko profile; real apply still requires lab certification and global enablement.''\<rparr>"

definition profile_cisco_nxos :: "rx profile" where
  "profile_cisco_nxos = \<lparr>
     pf_vendor = ''Cisco'',
     pf_family = DF_cisco_nxos,
     pf_preferred_transport = TK_netmiko,
     pf_capabilities = CLI_PLANNING,
     pf_driver_name = ''CiscoNXOSDriver'',
     pf_model_pattern = Some (RGroup 1 (ralt [rlit ''nx-os'', rlit ''nxos'', rlit ''nexus''])),
     pf_platform_pattern = Some (RGroup 1 (ralt [rlit ''nx-os'', rlit ''nxos'', rlit ''cisco_nxos''])),
     pf_fallback_transport = Some TK_paramiko,
     pf_real_apply_certified = False,
     pf_lab_certified = False,
     pf_config_apply_supported = True,
     pf_read_only_supported = True,
     pf_unsupported_reason = None,
     pf_notes = Some ''NX-OS is represented for strategy decisions; no first-party write driver is enabled in this stage.''\<rparr>"

definition profile_cisco_asa :: "rx profile" where
  "profile_cisco_asa = \<lparr>
     pf_vendor = ''Cisco'',
     pf_family = DF_cisco_asa,
     pf_preferred_transport = TK_netmiko,
     pf_capabilities = CLI_PLANNING,
     pf_driver_name = ''CiscoASADriver'',
     pf_model_pattern = Some (RGroup 1 (ralt [rlit ''asa'', rlit ''adaptive security appliance''])),
     pf_platform_pattern = Some (RGroup 1 (ralt [rlit ''asa'', rlit ''cisco_asa''])),
     pf_fallback_transport = Some TK_custom_cli,
     pf_real_apply_certified = False,
     pf_lab_certified = False,
     pf_config_apply_supported = True,
     pf_read_only_supported = True,
     pf_unsupported_reason = None,
     pf_notes = Some ''ASA may require profile-specific CLI handling; real apply remains uncertified.''\<rparr>"

definition profile_huawei_vrp :: "rx profile" where
  "profile_huawei_vrp = \<lparr>
     pf_vendor = ''Huawei'',
     pf_family = DF_huawei_vrp,
     pf_preferred_transport = TK_netmiko,
     pf_capabilities = CLI_PLANNING,
     pf_driver_name = ''HuaweiVRPDriver'',
     pf_model_pattern = Some (RGroup 1 (ralt [rseq [RGroup 2 (ralt [RBol, ROne Blank]), RGroup 3 (ralt [rlit ''s17'', rlit ''s23'', rlit ''s24'', rlit ''s57'', rlit ''s67'']), RStar True Digit], rlit ''ce68'', rlit ''vrp''])),
     pf_platform_pattern = Some (RGroup 1 (ralt [rlit ''vrp'', rlit ''huawei_vrp''])),
     pf_fallback_transport = Some TK_paramiko,
     pf_real_apply_certified = False,
     pf_lab_certified = False,
     pf_config_apply_supported = True,
     pf_read_only_supported = True,
     pf_unsupported_reason = None,
     pf_notes = Some ''Huawei VRP prefers Netmiko when the model is profiled; Paramiko/custom CLI remains the fallback path.''\<rparr>"

definition profile_limited_web :: "rx profile" where
  "profile_limited_web = \<lparr>
     pf_vendor = ''HPE'',
     pf_family = DF_limited_web,
     pf_preferred_transport = TK_unsupported,
     pf_capabilities = {},
     pf_driver_name = ''LimitedWebInventoryDriver'',
     pf_model_pattern = Some (ralt [rseq [ROpt (RGroup 1 (rseq [rlit ''hpe'', maybe_blanks])), RGroup 2 (ralt [rlit ''1620'', rlit ''1820'', rlit ''1905''])], rseq [rlit ''des'', ROpt (ROne (Cls False [CChar (CHR ''-''), CSpace])), rlit ''1100''], rlit ''limited web'', rlit ''unmanaged'']),
     pf_platform_pattern = Some (RGroup 1 (ralt [rlit ''limited_web'', rlit ''unmanaged''])),
     pf_fallback_transport = None,
     pf_real_apply_certified = False,
     pf_lab_certified = False,
     pf_config_apply_supported = False,
     pf_read_only_supported = False,
     pf_unsupported_reason = Some ''Limited web-managed or unmanaged devices are inventory-only in Excel lab mode.'',
     pf_notes = Some ''No CLI backup or config apply is attempted for limited web/unmanaged devices.''\<rparr>"

definition profile_hpe_comware :: "rx profile" where
  "profile_hpe_comware = \<lparr>
     pf_vendor = ''HPE'',
     pf_family = DF_hpe_comware,
     pf_preferred_transport = TK_netmiko,
     pf_capabilities = CLI_PLANNING,
     pf_driver_name = ''HPComwareDriver'',
     pf_model_pattern = Some (RGroup 1 (ralt [rlit ''1910'', rlit ''1920'', rlit ''1950'', rlit ''5130'', rlit ''s4210'', rlit ''s5500'', rlit ''3com s4210'', rlit ''3com s5500'', rlit ''comware''])),
     pf_platform_pattern = Some (RGroup 1 (ralt [rlit ''comware'', rlit ''hp_comware''])),
     pf_fallback_transport = Some TK_custom_cli,
     pf_real_apply_certified = False,
     pf_lab_certified = False,
     pf_config_apply_supported = True,
     pf_read_only_supported = True,
     pf_unsupported_reason = None,
     pf_notes = Some ''Comware-like HPE/3Com devices can use Netmiko where profiled; legacy prompt behavior may need custom CLI.''\<rparr>"

definition profile_hpe_procurve :: "rx profile" where
  "profile_hpe_procurve = \<lparr>
     pf_vendor = ''HPE'',
     pf_family = DF_hpe_procurve,
     pf_preferred_transport = TK_netmiko,
     pf_capabilities = CLI_PLANNING,
     pf_driver_name = ''HPEProCurveDriver'',
     pf_model_pattern = Some (RGroup 1 (ralt [rlit ''2510'', rlit ''2530'', rlit ''procurve''])),
     pf_platform_pattern = Some (RGroup 1 (ralt [rlit ''procurve'', rlit ''hp_procurve''])),
     pf_fallback_transport = Some TK_custom_cli,
     pf_real_apply_certified = False,
     pf_lab_certified = False,
     pf_config_apply_supported = True,
     pf_read_only_supported = True,
     pf_unsupported_reason = None,
     pf_notes = Some ''ProCurve/ArubaOS-Switch strategy prefers Netmiko with custom CLI fallback for legacy prompts.''\<rparr>"

definition profile_aruba_os_switch :: "rx profile" where
  "profile_aruba_os_switch = \<lparr>
     pf_vendor = ''Aruba'',
     pf_family = DF_aruba_os_switch,
     pf_preferred_transport = TK_netmiko,
     pf_capabilities = CLI_PLANNING,
     pf_driver_name = ''HPEProCurveDriver'',
     pf_model_pattern = Some (RGroup 1 (ralt [rlit ''aruba'', rlit ''arubaos'', rlit ''aruba os-switch''])),
     pf_platform_pattern = Some (RGroup 1 (ralt [rlit ''aruba_os_switch'', rlit ''arubaos_switch''])),
     pf_fallback_transport = Some TK_custom_cli,
     pf_real_apply_certified = False,
     pf_lab_certified = False,
     pf_config_apply_supported = True,
     pf_read_only_supported = True,
     pf_unsupported_reason = None,
     pf_notes = Some ''ArubaOS-Switch is aligned with the ProCurve-style runtime strategy.''\<rparr>"

definition profile_qtech :: "rx profile" where
  "profile_qtech = \<lparr>
     pf_vendor = ''QTECH'',
     pf_family = DF_qtech,
     pf_preferred_transport = TK_custom_cli,
     pf_capabilities = READ_ONLY,
     pf_driver_name = ''QtechQswDriver'',
     pf_model_pattern = Some (RGroup 1 (rseq [rlit ''qsw'', ROpt (ROne (Cls False [CChar (CHR ''-''), CSpace])), RGroup 2 (ralt [rlit ''4610'', rlit ''3750''])])),
     pf_platform_pattern = Some (RGroup 1 (ralt [rlit ''qtech'', rlit ''qsw''])),
     pf_fallback_transport = Some TK_paramiko,
     pf_real_apply_certified = False,
     pf_lab_certified = False,
     pf_config_apply_supported = False,
     pf_read_only_supported = True,
     pf_unsupported_reason = Some ''QTECH config apply is blocked until templates are explicitly certified.'',
     pf_notes = Some ''QTECH inventory/runtime classification is explicit; only read-only backup/dry-run metadata is allowed now.''\<rparr>"

definition profile_dell_os :: "rx profile" where
  "profile_dell_os = \<lparr>
     pf_vendor = ''Dell'',
     pf_family = DF_dell_os,
     pf_preferred_transport = TK_netmiko,
     pf_capabilities = CLI_PLANNING,
     pf_driver_name = ''DellPowerConnectDriver'',
     pf_model_pattern = Some (RGroup 1 (rlit ''powerconnect'')),
     pf_platform_pattern = Some (RGroup 1 (ralt [rlit ''dell'', rlit ''powerconnect''])),
     pf_fallback_transport = Some TK_custom_cli,
     pf_real_apply_certified = False,
     pf_lab_certified = False,
     pf_config_apply_supported = True,
     pf_read_only_supported = True,
     pf_unsupported_reason = None,
     pf_notes = Some ''Dell PowerConnect can use Netmiko where supported, with custom CLI fallback.''\<rparr>"

definition profile_eltex :: "rx profile" where
  "profile_eltex = \<lparr>
     pf_vendor = ''Eltex'',
     pf_family = DF_eltex,
     pf_preferred_transport = TK_custom_cli,
     pf_capabilities = CUSTOM_CLI_PLANNING,
     pf_driver_name = ''EltexMESDriver'',
     pf_model_pattern = Some (RGroup 1 (ralt [rlit ''mes2324'', rlit ''mes2348'', rlit ''mes2448''])),
     pf_platform_pattern = Some (RGroup 1 (ralt [rlit ''eltex'', rlit ''mes''])),
     pf_fallback_transport = Some TK_paramiko,
     pf_real_apply_certified = False,
     pf_lab_certified = False,
     pf_config_apply_supported = False,
     pf_read_only_supported = True,
     pf_unsupported_reason = Some ''Eltex destructive apply requires confirmed device templates and lab certification.'',
     pf_notes = Some ''Eltex is intentionally custom-cli/Paramiko first, not generic Netmiko by default.''\<rparr>"

definition profile_bulat :: "rx profile" where
  "profile_bulat = \<lparr>
     pf_vendor = ''Bulat'',
     pf_family = DF_bulat,
     pf_preferred_transport = TK_custom_cli,
     pf_capabilities = CUSTOM_CLI_PLANNING,
     pf_driver_name = ''BulatBSDriver'',
     pf_model_pattern = Some (RGroup 1 (ralt [rlit ''bs2500'', rlit ''bs6300'', rseq [rlit ''bk'', ROpt (ROne (Cls False [CChar (CHR ''-''), CSpace])), rlit ''a837'']])),
     pf_platform_pattern = Some (RGroup 1 (ralt [rlit ''bulat'', rlit ''bs''])),
     pf_fallback_transport = Some TK_paramiko,
     pf_real_apply_certified = False,
     pf_lab_certified = False,
     pf_config_apply_supported = False,
     pf_read_only_supported = True,
     pf_unsupported_reason = Some ''Bulat destructive apply requires confirmed custom CLI templates and lab certification.'',
     pf_notes = Some ''Bulat uses first-party custom CLI strategy until certified templates exist.''\<rparr>"

definition profile_non_switch :: "rx profile" where
  "profile_non_switch = \<lparr>
     pf_vendor = ''SecurityCode'',
     pf_family = DF_non_switch,
     pf_preferred_transport = TK_unsupported,
     pf_capabilities = {},
     pf_driver_name = ''NonSwitchInventoryDriver'',
     pf_model_pattern = Some (RGroup 1 (ralt [rlit ''securitycode'', rseq [rlit ''continent'', ROpt (ROne (Cls False [CChar (CHR ''-''), CSpace])), rlit ''500''], rlit ''security appliance'', rseq [rlit ''non'', ROpt (ROne (Cls False [CChar (CHR ''-''), CSpace])), rlit ''switch'']])),
     pf_platform_pattern = Some (RGroup 1 (ralt [rlit ''non_switch'', rlit ''security_appliance''])),
     pf_fallback_transport = None,
     pf_real_apply_certified = False,
     pf_lab_certified = False,
     pf_config_apply_supported = False,
     pf_read_only_supported = False,
     pf_unsupported_reason = Some ''Non-switch/security appliance inventory records are not CLI switch targets.'',
     pf_notes = Some ''Security appliances are retained for inventory context but never receive backup or config commands.''\<rparr>"

definition profile_generic_ssh :: "rx profile" where
  "profile_generic_ssh = \<lparr>
     pf_vendor = ''Generic'',
     pf_family = DF_generic_ssh,
     pf_preferred_transport = TK_paramiko,
     pf_capabilities = READ_ONLY,
     pf_driver_name = ''GenericSSHDriver'',
     pf_model_pattern = Some (RGroup 1 (ralt [rlit ''unknown product'', rlit ''unknown snmp product'', rlit ''generic'', rlit ''genericssh''])),
     pf_platform_pattern = Some (RGroup 1 (ralt [rlit ''generic'', rlit ''ssh''])),
     pf_fallback_transport = Some TK_custom_cli,
     pf_real_apply_certified = False,
     pf_lab_certified = False,
     pf_config_apply_supported = False,
     pf_read_only_supported = True,
     pf_unsupported_reason = Some ''Generic SSH cannot perform destructive apply until a vendor/model profile is explicitly certified.'',
     pf_notes = Some ''Generic SSH is discovery/read-only or dry-run only.''\<rparr>"

definition profile_icmp :: "rx profile" where
  "profile_icmp = \<lparr>
     pf_vendor = ''ICMP'',
     pf_family = DF_icmp,
     pf_preferred_transport = TK_icmp_only,
     pf_capabilities = {DC_read_only},
     pf_driver_name = ''ReadOnlyICMPDriver'',
     pf_model_pattern = Some (RGroup 1 (ralt [rlit ''icmp'', rlit ''icmp-only''])),
     pf_platform_pattern = Some (RGroup 1 (ralt [rlit ''icmp'', rlit ''icmp-only''])),
     pf_fallback_transport = None,
     pf_real_apply_certified = False,
     pf_lab_certified = False,
     pf_config_apply_supported = False,
     pf_read_only_supported = True,
     pf_unsupported_reason = Some ''ICMP-only devices support health/readiness checks only; config operations are unsupported.'',
     pf_notes = Some ''ICMP devices never receive CLI sessions.''\<rparr>"

definition RUNTIME_PROFILES :: "rx profile list" where
  "RUNTIME_PROFILES = [
     profile_cisco_ios,
     profile_cisco_nxos,
     profile_cisco_asa,
     profile_huawei_vrp,
     profile_limited_web,
     profile_hpe_comware,
     profile_hpe_procurve,
     profile_aruba_os_switch,
     profile_qtech,
     profile_dell_os,
     profile_eltex,
     profile_bulat,
     profile_non_switch,
     profile_generic_ssh,
     profile_icmp]"

definition UNSUPPORTED_PROFILE :: "rx profile" where
  "UNSUPPORTED_PROFILE = \<lparr>
     pf_vendor = ''Unknown'',
     pf_family = DF_unknown,
     pf_preferred_transport = TK_unsupported,
     pf_capabilities = {},
     pf_driver_name = ''UnsupportedDriver'',
     pf_model_pattern = None,
     pf_platform_pattern = None,
     pf_fallback_transport = None,
     pf_real_apply_certified = False,
     pf_lab_certified = False,
     pf_config_apply_supported = False,
     pf_read_only_supported = False,
     pf_unsupported_reason = Some ''No safe vendor/model/platform runtime profile matched this device.'',
     pf_notes = Some ''Unknown devices fail closed until inventory is normalized and certified.''\<rparr>"

definition DRIVER_NAME_TO_FAMILY :: "(string \<times> device_family) list" where
  "DRIVER_NAME_TO_FAMILY = [
     (''CiscoIOSDriver'', DF_cisco_ios),
     (''HuaweiVRPDriver'', DF_huawei_vrp),
     (''HPComwareDriver'', DF_hpe_comware),
     (''HPEProCurveDriver'', DF_hpe_procurve),
     (''DellPowerConnectDriver'', DF_dell_os),
     (''QtechQswDriver'', DF_qtech),
     (''EltexMESDriver'', DF_eltex),
     (''BulatBSDriver'', DF_bulat),
     (''LimitedWebInventoryDriver'', DF_limited_web),
     (''NonSwitchInventoryDriver'', DF_non_switch),
     (''GenericSSHDriver'', DF_generic_ssh),
     (''ReadOnlyICMPDriver'', DF_icmp)]"

lemmas profile_defs =
  profile_cisco_ios_def profile_cisco_nxos_def profile_cisco_asa_def profile_huawei_vrp_def profile_limited_web_def profile_hpe_comware_def profile_hpe_procurve_def profile_aruba_os_switch_def profile_qtech_def profile_dell_os_def profile_eltex_def profile_bulat_def profile_non_switch_def profile_generic_ssh_def profile_icmp_def

section \<open>Matching\<close>

definition normalize :: "string option \<Rightarrow> string" where
  "normalize value = casefold (str_strip (case value of None \<Rightarrow> [] | Some v \<Rightarrow> v))"

text \<open>The values that are not empty are normalised and joined.\<close>

definition matches_pattern :: "rx option \<Rightarrow> string option list \<Rightarrow> bool" where
  "matches_pattern pattern values =
     (case pattern of
        None \<Rightarrow> False
      | Some r \<Rightarrow>
          (let haystack = str_join '' '' (map normalize (filter (\<lambda>v. v \<noteq> None \<and> v \<noteq> Some []) values))
           in haystack \<noteq> [] \<and> rx_found flag_i r haystack))"

definition list_profiles :: "rx profile list \<Rightarrow> rx profile list" where
  "list_profiles profiles = profiles @ [UNSUPPORTED_PROFILE]"

text \<open>The argument is the family's value, which a \<open>DeviceFamily\<close> is replaced by.\<close>

definition get_profile :: "rx profile list \<Rightarrow> string \<Rightarrow> rx profile option" where
  "get_profile profiles family = find (\<lambda>p. family_value (pf_family p) = family) (list_profiles profiles)"

definition profile_or_unsupported :: "rx profile list \<Rightarrow> device_family \<Rightarrow> rx profile" where
  "profile_or_unsupported profiles f =
     (case get_profile profiles (family_value f) of None \<Rightarrow> UNSUPPORTED_PROFILE | Some p \<Rightarrow> p)"

definition by_patterns :: "rx profile list \<Rightarrow> string \<Rightarrow> string option \<Rightarrow> string option \<Rightarrow> rx profile" where
  "by_patterns profiles vendor model platform =
     (case find (\<lambda>p. matches_pattern (pf_model_pattern p) [Some vendor, model] \<or>
                     matches_pattern (pf_platform_pattern p) [platform]) profiles of
        None \<Rightarrow> UNSUPPORTED_PROFILE
      | Some p \<Rightarrow> p)"

definition by_driver_name ::
  "rx profile list \<Rightarrow> string \<Rightarrow> string option \<Rightarrow> string option \<Rightarrow> string option \<Rightarrow> rx profile" where
  "by_driver_name profiles vendor model platform driver_name =
     (case Option.bind (Option.bind driver_name (map_of DRIVER_NAME_TO_FAMILY))
             (\<lambda>f. get_profile profiles (family_value f)) of
        Some p \<Rightarrow> p
      | None \<Rightarrow> by_patterns profiles vendor model platform)"

definition match_profile ::
  "rx profile list \<Rightarrow> string \<Rightarrow> string option \<Rightarrow> string option \<Rightarrow> string option \<Rightarrow> string option \<Rightarrow>
   rx profile" where
  "match_profile profiles vendor model platform driver_name family =
     (let words = normalize (Some (vendor @ '' '' @ or_empty model @ '' '' @ or_empty platform));
          v = normalize (Some vendor);
          m = normalize model
      in if sublist ''icmp'' words then profile_or_unsupported profiles DF_icmp
         else if v \<in> {''unknown'', ''n/a'', ''na'', ''not known'', ''unidentified''}
                 \<or> prefix ''unknown '' v \<or> prefix ''snmp unknown'' v
                 \<or> m \<in> {''unknown'', ''unknown product'', ''unknown snmp product''}
              then UNSUPPORTED_PROFILE
         else if sublist ''unknown product'' words \<or> sublist ''unknown snmp product'' words
              then UNSUPPORTED_PROFILE
         else if sublist ''securitycode'' words \<or> sublist ''continent'' words
              then profile_or_unsupported profiles DF_non_switch
         else if sublist ''des1100'' words \<or> sublist ''des-1100'' words
              then profile_or_unsupported profiles DF_limited_web
         else if sublist ''generic'' words then profile_or_unsupported profiles DF_generic_ssh
         else case Option.bind family (get_profile profiles) of
                Some p \<Rightarrow> p
              | None \<Rightarrow> by_driver_name profiles vendor model platform driver_name)"

section \<open>The decision\<close>

definition warnings_for :: "rx profile \<Rightarrow> string list" where
  "warnings_for p =
     [''Real device apply is disabled globally; this stage is decision/read-only only.'']
     @ (if pf_family p = DF_generic_ssh
        then [''Generic SSH cannot perform destructive apply until explicitly certified.''] else [])
     @ (if pf_family p \<in> {DF_bulat, DF_eltex}
        then [family_value (pf_family p)
              @ '' config apply is blocked until confirmed templates and lab certification exist.''] else [])
     @ (if pf_family p = DF_qtech
        then [''QTECH config apply is blocked until explicit templates and lab certification exist.''] else [])
     @ (if pf_family p = DF_limited_web
        then [''Limited web/unmanaged devices are inventory-only and cannot run CLI backup or config operations.''] else [])
     @ (if pf_family p = DF_non_switch
        then [''Non-switch/security appliance records are inventory-only and cannot run switch CLI operations.''] else [])
     @ (if pf_family p = DF_icmp
        then [''ICMP-only devices are health/readiness only and cannot run config operations.''] else [])
     @ (if pf_family p = DF_unknown
        then [''Unknown devices fail closed until a supported runtime profile is selected.''] else [])
     @ (if pf_config_apply_supported p \<and> \<not> pf_real_apply_certified p
        then [''Profile can model config staging, but real apply is not certified.''] else [])"

definition str_or :: "string option \<Rightarrow> string \<Rightarrow> string" where
  "str_or v d = (case v of None \<Rightarrow> d | Some s \<Rightarrow> if s = [] then d else s)"

definition decide ::
  "rx profile list \<Rightarrow> string \<Rightarrow> string option \<Rightarrow> string option \<Rightarrow> string option \<Rightarrow> string option \<Rightarrow>
   string option \<Rightarrow> string option \<Rightarrow> transport_decision" where
  "decide profiles vendor model platform driver_name family device_id hostname =
     (let p = match_profile profiles vendor model platform driver_name family
      in \<lparr>td_vendor = str_or (Some vendor) (pf_vendor p),
          td_family = pf_family p,
          td_selected_transport = pf_preferred_transport p,
          td_driver_name = str_or driver_name (pf_driver_name p),
          td_capabilities = pf_capabilities p,
          td_config_apply_allowed = False,
          td_real_apply_certified = False,
          td_read_only_allowed = pf_read_only_supported p,
          td_safety_warnings = warnings_for p,
          td_device_id = device_id,
          td_hostname = hostname,
          td_model = model,
          td_platform = platform,
          td_fallback_transport = pf_fallback_transport p,
          td_unsupported_reason = pf_unsupported_reason p\<rparr>)"

section \<open>Facts\<close>

lemma get_profile_mem:
  "get_profile profiles v = Some p \<Longrightarrow> p \<in> set (list_profiles profiles) \<and> family_value (pf_family p) = v"
  by (auto simp: get_profile_def find_Some_iff)

lemma by_patterns_mem: "by_patterns profiles vendor model platform \<in> set (list_profiles profiles)"
  by (auto simp: by_patterns_def list_profiles_def find_Some_iff split: option.splits)

lemma if_in: "x \<in> A \<Longrightarrow> y \<in> A \<Longrightarrow> (if b then x else y) \<in> A"
  by simp

lemma match_profile_mem:
  "match_profile profiles vendor model platform driver_name family \<in> set (list_profiles profiles)"
proof -
  have u: "UNSUPPORTED_PROFILE \<in> set (list_profiles profiles)" by (simp add: list_profiles_def)
  then have d: "profile_or_unsupported profiles f \<in> set (list_profiles profiles)" for f
    by (auto simp: profile_or_unsupported_def dest: get_profile_mem split: option.splits)
  have n: "by_driver_name profiles vendor model platform driver_name \<in> set (list_profiles profiles)"
    using by_patterns_mem
    by (auto simp: by_driver_name_def bind_eq_Some_conv dest: get_profile_mem split: option.splits)
  have g: "(case Option.bind family (get_profile profiles) of Some p \<Rightarrow> p
      | None \<Rightarrow> by_driver_name profiles vendor model platform driver_name) \<in> set (list_profiles profiles)"
    using n by (auto simp: bind_eq_Some_conv dest: get_profile_mem split: option.splits)
  show ?thesis unfolding match_profile_def Let_def
    by (rule if_in [OF d if_in [OF u if_in [OF u if_in [OF d if_in [OF d if_in [OF d g]]]]]])
qed

text \<open>What the static table says of every profile.\<close>

definition profile_safe :: "rx profile \<Rightarrow> bool" where
  "profile_safe p \<longleftrightarrow>
     \<not> pf_real_apply_certified p \<and> \<not> pf_lab_certified p \<and>
     (pf_read_only_supported p \<longleftrightarrow> pf_preferred_transport p \<noteq> TK_unsupported) \<and>
     (pf_read_only_supported p \<longleftrightarrow> DC_read_only \<in> pf_capabilities p) \<and>
     (\<not> pf_config_apply_supported p \<longleftrightarrow> pf_unsupported_reason p \<noteq> None) \<and>
     (pf_preferred_transport p = TK_unsupported \<longleftrightarrow>
        pf_family p \<in> {DF_limited_web, DF_non_switch, DF_unknown}) \<and>
     (pf_preferred_transport p = TK_icmp_only \<longleftrightarrow> pf_family p = DF_icmp) \<and>
     DC_supports_real_apply \<notin> pf_capabilities p"

lemma runtime_profiles_safe: "p \<in> set (list_profiles RUNTIME_PROFILES) \<Longrightarrow> profile_safe p"
proof -
  have "list_all profile_safe (list_profiles RUNTIME_PROFILES)"
    by (simp add: list_profiles_def RUNTIME_PROFILES_def profile_safe_def profile_defs
        UNSUPPORTED_PROFILE_def CLI_PLANNING_def CUSTOM_CLI_PLANNING_def READ_ONLY_def)
  then show "p \<in> set (list_profiles RUNTIME_PROFILES) \<Longrightarrow> profile_safe p" by (simp add: list_all_iff)
qed

lemma get_profile_values:
  "get_profile RUNTIME_PROFILES ''icmp'' = Some profile_icmp"
  "get_profile RUNTIME_PROFILES ''non_switch'' = Some profile_non_switch"
  "get_profile RUNTIME_PROFILES ''limited_web'' = Some profile_limited_web"
  "get_profile RUNTIME_PROFILES ''generic_ssh'' = Some profile_generic_ssh"
  by (simp_all add: get_profile_def list_profiles_def RUNTIME_PROFILES_def profile_defs)

text \<open>
  The family that a device's own words force on it, whatever family or driver is asked for: the first row of the table
  one of whose words occurs.
\<close>

definition unnamed :: "string \<Rightarrow> string option \<Rightarrow> bool" where
  "unnamed vendor model \<longleftrightarrow>
     normalize (Some vendor) \<in> {''unknown'', ''n/a'', ''na'', ''not known'', ''unidentified''} \<or>
     prefix ''unknown '' (normalize (Some vendor)) \<or> prefix ''snmp unknown'' (normalize (Some vendor)) \<or>
     normalize model \<in> {''unknown'', ''unknown product'', ''unknown snmp product''}"

definition stated_family :: "string \<Rightarrow> string option \<Rightarrow> string option \<Rightarrow> device_family option" where
  "stated_family vendor model platform =
     (let said = (\<lambda>w. sublist w (normalize (Some (vendor @ '' '' @ or_empty model @ '' '' @ or_empty platform))))
      in map_option snd (find fst
        [(said ''icmp'', DF_icmp),
         (unnamed vendor model \<or> said ''unknown product'' \<or> said ''unknown snmp product'', DF_unknown),
         (said ''securitycode'' \<or> said ''continent'', DF_non_switch),
         (said ''des1100'' \<or> said ''des-1100'', DF_limited_web),
         (said ''generic'', DF_generic_ssh)]))"

definition fits :: "string \<Rightarrow> string option \<Rightarrow> string option \<Rightarrow> rx profile \<Rightarrow> bool" where
  "fits vendor model platform p \<longleftrightarrow>
     matches_pattern (pf_model_pattern p) [Some vendor, model] \<or> matches_pattern (pf_platform_pattern p) [platform]"

lemma first_row:
  "map_option snd (find fst ((b, f) # rows)) = (if b then Some f else map_option snd (find fst rows))"
  "map_option snd (find fst []) = None"
  by simp_all

lemma match_stated:
  assumes "stated_family vendor model platform = Some f"
  shows "pf_family (match_profile RUNTIME_PROFILES vendor model platform driver_name family) = f"
proof -
  obtain ws where ws: "ws = normalize (Some (vendor @ '' '' @ or_empty model @ '' '' @ or_empty platform))" by simp
  show ?thesis
    using assms unfolding stated_family_def match_profile_def unnamed_def profile_or_unsupported_def Let_def
      family_value.simps get_profile_values option.case first_row ws [symmetric]
    by (auto simp: profile_icmp_def profile_non_switch_def profile_limited_web_def profile_generic_ssh_def
        UNSUPPORTED_PROFILE_def split: if_split_asm)
qed

lemma match_unstated:
  assumes "stated_family vendor model platform = None"
  shows "match_profile profiles vendor model platform driver_name family =
    (case Option.bind family (get_profile profiles) of
       Some p \<Rightarrow> p
     | None \<Rightarrow> by_driver_name profiles vendor model platform driver_name)"
proof -
  obtain ws where ws: "ws = normalize (Some (vendor @ '' '' @ or_empty model @ '' '' @ or_empty platform))" by simp
  show ?thesis
    using assms unfolding stated_family_def match_profile_def unnamed_def Let_def first_row ws [symmetric]
    by (simp split: if_split_asm)
qed

lemma listed_profile:
  assumes "p \<in> set (list_profiles RUNTIME_PROFILES)"
  shows "get_profile RUNTIME_PROFILES (family_value (pf_family p)) = Some p"
proof -
  have "list_all (\<lambda>p. get_profile RUNTIME_PROFILES (family_value (pf_family p)) = Some p) (list_profiles RUNTIME_PROFILES)"
    by (simp add: get_profile_def list_profiles_def RUNTIME_PROFILES_def profile_defs UNSUPPORTED_PROFILE_def)
  with assms show ?thesis by (simp add: list_all_iff)
qed

lemma driver_families_listed:
  assumes "map_of DRIVER_NAME_TO_FAMILY n = Some f"
  shows "\<exists>p. get_profile RUNTIME_PROFILES (family_value f) = Some p \<and> pf_family p = f"
proof -
  have "list_all (\<lambda>(n, f). f \<in> pf_family ` set (list_profiles RUNTIME_PROFILES)) DRIVER_NAME_TO_FAMILY"
    by (simp add: DRIVER_NAME_TO_FAMILY_def list_profiles_def RUNTIME_PROFILES_def profile_defs)
  with map_of_SomeD [OF assms] obtain p where "p \<in> set (list_profiles RUNTIME_PROFILES)" "f = pf_family p"
    by (fastforce simp: list_all_iff)
  with listed_profile show ?thesis by blast
qed

lemma by_driver_family:
  "pf_family (by_driver_name RUNTIME_PROFILES vendor model platform driver_name) =
    (case Option.bind driver_name (map_of DRIVER_NAME_TO_FAMILY) of
       Some f \<Rightarrow> f
     | None \<Rightarrow> (case find (fits vendor model platform) RUNTIME_PROFILES of Some p \<Rightarrow> pf_family p | None \<Rightarrow> DF_unknown))"
proof (cases "Option.bind driver_name (map_of DRIVER_NAME_TO_FAMILY)")
  case None
  have "find (\<lambda>p. matches_pattern (pf_model_pattern p) [Some vendor, model] \<or> matches_pattern (pf_platform_pattern p) [platform])
      = find (fits vendor model platform)" by (rule arg_cong [of _ _ find]) (simp add: fits_def fun_eq_iff)
  with None show ?thesis
    by (simp add: by_driver_name_def by_patterns_def UNSUPPORTED_PROFILE_def split: option.split)
next
  case (Some f)
  then obtain n where "driver_name = Some n" "map_of DRIVER_NAME_TO_FAMILY n = Some f" by (cases driver_name) auto
  with driver_families_listed [of n f] show ?thesis by (auto simp: by_driver_name_def)
qed

lemma chosen_family:
  "case stated_family vendor model platform of
     Some f \<Rightarrow> pf_family (match_profile RUNTIME_PROFILES vendor model platform driver_name family) = f
   | None \<Rightarrow>
       if \<exists>q\<in>set (list_profiles RUNTIME_PROFILES). family = Some (family_value (pf_family q))
       then family = Some (family_value (pf_family (match_profile RUNTIME_PROFILES vendor model platform driver_name family)))
       else (case Option.bind driver_name (map_of DRIVER_NAME_TO_FAMILY) of
               Some f \<Rightarrow> pf_family (match_profile RUNTIME_PROFILES vendor model platform driver_name family) = f
             | None \<Rightarrow> (case find (fits vendor model platform) RUNTIME_PROFILES of
                 Some q \<Rightarrow> pf_family (match_profile RUNTIME_PROFILES vendor model platform driver_name family) = pf_family q
               | None \<Rightarrow> pf_family (match_profile RUNTIME_PROFILES vendor model platform driver_name family) = DF_unknown))"
proof (cases "stated_family vendor model platform")
  case None
  show ?thesis
  proof (cases "\<exists>q\<in>set (list_profiles RUNTIME_PROFILES). family = Some (family_value (pf_family q))")
    case True
    then obtain q where "q \<in> set (list_profiles RUNTIME_PROFILES)" "family = Some (family_value (pf_family q))" by blast
    with listed_profile show ?thesis by (auto simp: None match_unstated)
  next
    case False
    then have "get_profile RUNTIME_PROFILES a = None" if "family = Some a" for a
      using that get_profile_mem [of RUNTIME_PROFILES a] by (cases "get_profile RUNTIME_PROFILES a") auto
    then have "Option.bind family (get_profile RUNTIME_PROFILES) = None" by (cases family) simp_all
    with False show ?thesis by (simp add: None match_unstated by_driver_family split: option.split)
  qed
qed (simp add: match_stated)

section \<open>Properties\<close>

text \<open>
  C33: the decision fails closed.  Whatever a device calls itself, the decision takes family, transports, capabilities,
  read access and reason from one listed profile, allows no configuration apply and certifies none; the three
  inventory-only families get the unsupported transport, no read access and a stated reason.  Which profile is fixed:
  the one its own words force on it; failing those, the family asked for when it is listed; failing that, the
  family of the driver asked for; and else the first profile that fits, or the unsupported one.
\<close>

theorem decide_fails_closed:
  "let d = decide RUNTIME_PROFILES vendor model platform driver_name family device_id hostname;
       listed = set (list_profiles RUNTIME_PROFILES)
   in (\<exists>p\<in>listed. td_family d = pf_family p \<and> td_selected_transport d = pf_preferred_transport p \<and>
         td_fallback_transport d = pf_fallback_transport p \<and> td_capabilities d = pf_capabilities p \<and>
         td_read_only_allowed d = pf_read_only_supported p \<and> td_unsupported_reason d = pf_unsupported_reason p) \<and>
     (case stated_family vendor model platform of
        Some f \<Rightarrow> td_family d = f
      | None \<Rightarrow>
          if \<exists>p\<in>listed. family = Some (family_value (pf_family p)) then family = Some (family_value (td_family d))
          else (case Option.bind driver_name (map_of DRIVER_NAME_TO_FAMILY) of
                  Some f \<Rightarrow> td_family d = f
                | None \<Rightarrow> (case find (fits vendor model platform) RUNTIME_PROFILES of
                             Some p \<Rightarrow> td_family d = pf_family p
                           | None \<Rightarrow> td_family d = DF_unknown))) \<and>
     \<not> td_config_apply_allowed d \<and> \<not> td_real_apply_certified d \<and>
     DC_supports_real_apply \<notin> td_capabilities d \<and>
     (td_selected_transport d = TK_unsupported \<longleftrightarrow> td_family d \<in> {DF_limited_web, DF_non_switch, DF_unknown}) \<and>
     (td_read_only_allowed d \<longleftrightarrow> td_selected_transport d \<noteq> TK_unsupported) \<and>
     (td_read_only_allowed d \<longleftrightarrow> DC_read_only \<in> td_capabilities d) \<and>
     (td_selected_transport d = TK_icmp_only \<longleftrightarrow> td_family d = DF_icmp) \<and>
     (td_family d \<in> {DF_limited_web, DF_non_switch, DF_unknown, DF_icmp, DF_generic_ssh, DF_eltex, DF_bulat, DF_qtech}
        \<longrightarrow> td_unsupported_reason d \<noteq> None)"
proof -
  let ?named = "{DF_limited_web, DF_non_switch, DF_unknown, DF_icmp, DF_generic_ssh, DF_eltex, DF_bulat, DF_qtech}"
  let ?listed = "set (list_profiles RUNTIME_PROFILES)"
  obtain p where p: "p = match_profile RUNTIME_PROFILES vendor model platform driver_name family" by simp
  then have mem: "p \<in> ?listed" by (simp only: match_profile_mem)
  then have safe: "profile_safe p" by (rule runtime_profiles_safe)
  have "list_all (\<lambda>p. pf_family p \<in> ?named \<longrightarrow> pf_unsupported_reason p \<noteq> None) (list_profiles RUNTIME_PROFILES)"
    by (simp add: list_profiles_def RUNTIME_PROFILES_def profile_defs UNSUPPORTED_PROFILE_def)
  with mem have reason: "pf_family p \<in> ?named \<longrightarrow> pf_unsupported_reason p \<noteq> None"
    unfolding list_all_iff by blast
  have choice: "case stated_family vendor model platform of
      Some f \<Rightarrow> pf_family p = f
    | None \<Rightarrow>
        if \<exists>q\<in>?listed. family = Some (family_value (pf_family q)) then family = Some (family_value (pf_family p))
        else (case Option.bind driver_name (map_of DRIVER_NAME_TO_FAMILY) of
                Some f \<Rightarrow> pf_family p = f
              | None \<Rightarrow> (case find (fits vendor model platform) RUNTIME_PROFILES of
                           Some q \<Rightarrow> pf_family p = pf_family q
                         | None \<Rightarrow> pf_family p = DF_unknown))"
    unfolding p by (rule chosen_family)
  from safe reason choice mem show ?thesis
    unfolding decide_def Let_def profile_safe_def p [symmetric] transport_decision.simps by blast
qed

theorem decide_fails_closed_witness:
  "let d = decide RUNTIME_PROFILES ''Cisco'' (Some ''ICMP-only'') None (Some ''CiscoIOSDriver'') (Some ''cisco_ios'') None None in
     \<not> td_config_apply_allowed d \<and> td_family d = DF_icmp \<and> td_unsupported_reason d \<noteq> None"
proof -
  have "stated_family ''Cisco'' (Some ''ICMP-only'') None = Some DF_icmp" by code_simp
  with decide_fails_closed [of "''Cisco''" "Some ''ICMP-only''" None "Some ''CiscoIOSDriver''" "Some ''cisco_ios''" None None]
  show ?thesis by (simp add: Let_def)
qed

end
