(* ===== verification/CommandTemplates.thy ===== *)
theory CommandTemplates
  imports VendorContracts
begin

text \<open>
  app/services/vendor_command_templates.py: rendering a vendor's command templates with the
  request's parameters, checking a command plan against them, and the hashes that bind a plan.
  SHA-256 and HMAC-SHA-256 of the UTF-8 text are parameters, and so is the order in which
  Python visits the set of placeholder names.
\<close>

section \<open>Rendered commands\<close>

definition SECRET_PLACEHOLDERS :: "string set" where
  "SECRET_PLACEHOLDERS = {''password'', ''secret'', ''new_password'', ''enable_password''}"

record rendered_command =
  command :: string
  secret :: bool

definition redacted :: "rendered_command \<Rightarrow> string" where
  "redacted r = mask_secrets [] (command r)"

definition to_safe_dict :: "rendered_command \<Rightarrow> jobj" where
  "to_safe_dict r =
     [(''command'', JStr (if secret r then redacted r else mask_secrets [] (command r))),
      (''secret'', JBool (secret r))]"

text \<open>The entries of a command plan: a rendered command, a JSON object or a text.\<close>

datatype plan_item = Rendered rendered_command | DictItem jobj | TextItem string

definition item_text :: "jobj \<Rightarrow> string" where
  "item_text d = str_or_empty (jget d ''command'')"

fun hash_line :: "plan_item \<Rightarrow> string" where
  "hash_line (Rendered r) = (if secret r then redacted r else mask_secrets [] (command r))"
| "hash_line (DictItem d) = mask_secrets [] (item_text d)"
| "hash_line (TextItem t) = mask_secrets [] t"

definition command_hash :: "(string \<Rightarrow> string) \<Rightarrow> plan_item list \<Rightarrow> string" where
  "command_hash sha commands = sha (str_join [newline] (map hash_line commands))"

fun private_line :: "plan_item \<Rightarrow> string" where
  "private_line (Rendered r) = command r"
| "private_line (DictItem d) = item_text d"
| "private_line (TextItem t) = t"

fun item_secret :: "plan_item \<Rightarrow> bool" where
  "item_secret (Rendered r) = secret r"
| "item_secret (DictItem d) = truthy (jget d ''secret'')"
| "item_secret (TextItem _) = False"

definition private_command_hash ::
  "(string \<Rightarrow> string) \<Rightarrow> (string \<Rightarrow> string \<Rightarrow> string) \<Rightarrow> string option \<Rightarrow> plan_item list \<Rightarrow> error + string" where
  "private_command_hash sha hmac secret_key commands =
     (let payload = str_join [newline] (map private_line commands)
      in if list_ex item_secret commands
         then (case secret_key of
                 None \<Rightarrow> Inl (SafetyError ''NCP_SECRET_KEY is required to bind secret-bearing dry-run command plans'')
               | Some k \<Rightarrow>
                   if k = [] then Inl (SafetyError ''NCP_SECRET_KEY is required to bind secret-bearing dry-run command plans'')
                   else Inr (hmac k payload))
         else Inr (sha payload))"

section \<open>Templates\<close>

text \<open>
  \<open>template.format(**parameters)\<close> for the templates of the contracts, whose replacement fields are
  plain names: the value is formatted with \<open>str\<close>.
\<close>

fun format_template :: "jobj \<Rightarrow> string \<Rightarrow> error + string" where
  "format_template d [] = Inr []"
| "format_template d (c # cs) =
     (if c = CHR ''{'' then
        (let name = takeWhile (\<lambda>x. x \<noteq> CHR ''}'') cs
         in case map_of d name of
              None \<Rightarrow> Inl (KeyError name)
            | Some v \<Rightarrow>
                (case format_template d (drop (Suc (length name)) cs) of
                   Inl e \<Rightarrow> Inl e
                 | Inr rest \<Rightarrow> Inr (py_str v @ rest)))
      else (case format_template d cs of Inl e \<Rightarrow> Inl e | Inr rest \<Rightarrow> Inr (c # rest)))"

definition holds_secret :: "string \<Rightarrow> bool" where
  "holds_secret template \<longleftrightarrow> (\<exists>p\<in>SECRET_PLACEHOLDERS. sublist (''{'' @ p @ ''}'') template)"

fun render_all :: "jobj \<Rightarrow> string list \<Rightarrow> error + rendered_command list" where
  "render_all d [] = Inr []"
| "render_all d (t # ts) =
     (case format_template d t of
        Inl e \<Rightarrow> Inl e
      | Inr text' \<Rightarrow>
          (case render_all d ts of
             Inl e \<Rightarrow> Inl e
           | Inr rs \<Rightarrow> Inr (\<lparr>command = text', secret = holds_secret t\<rparr> # rs)))"

section \<open>Parameter validation\<close>

fun required_parameters :: "vendor_operation \<Rightarrow> string list" where
  "required_parameters VO_password_change = [''username'', ''password'', ''level'']"
| "required_parameters VO_vlan_create = [''vlan_id'', ''name'']"
| "required_parameters VO_vlan_assign_port = [''interface'', ''vlan_id'']"
| "required_parameters _ = []"

definition missing_parameters :: "vendor_operation \<Rightarrow> jobj \<Rightarrow> string list" where
  "missing_parameters p d = sorted_set (filter (\<lambda>k. \<not> has_key d k) (required_parameters p))"

definition check_vlan_id :: "jobj \<Rightarrow> error + unit" where
  "check_vlan_id d =
     (case map_of d ''vlan_id'' of
        None \<Rightarrow> Inr ()
      | Some v \<Rightarrow>
          (case py_int v of
             Inl e \<Rightarrow> Inl e
           | Inr i \<Rightarrow> if i < 1 \<or> i > 4094 then Inl (SafetyError ''VLAN ID must be in range 1..4094'')
                      else Inr ()))"

definition check_level :: "jobj \<Rightarrow> error + unit" where
  "check_level d =
     (case map_of d ''level'' of
        None \<Rightarrow> Inr ()
      | Some v \<Rightarrow>
          (case py_int v of
             Inl e \<Rightarrow> Inl (SafetyError ''Privilege level must be an integer'')
           | Inr i \<Rightarrow> if i < 0 \<or> i > 15 then Inl (SafetyError ''Privilege level must be in range 0..15'')
                      else Inr ()))"

definition unsafe_char :: "char \<Rightarrow> bool" where
  "unsafe_char c \<longleftrightarrow> c \<in> {CHR 0x0D, CHR 0x0A, CHR '';'', CHR ''&'', CHR ''|'', CHR 0x60, CHR ''$''}"

fun check_characters :: "jobj \<Rightarrow> error + unit" where
  "check_characters [] = Inr ()"
| "check_characters ((k, v) # d) =
     (case v of
        JStr s \<Rightarrow> if list_ex unsafe_char s
                  then Inl (SafetyError (''Unsafe shell/control character in parameter '' @ k))
                  else check_characters d
      | _ \<Rightarrow> check_characters d)"

definition validate_parameters :: "vendor_operation \<Rightarrow> jobj \<Rightarrow> error + unit" where
  "validate_parameters p d =
     (if missing_parameters p d \<noteq> []
      then Inl (SafetyError (''Missing required command template parameter(s): ''
             @ str_join '', '' (missing_parameters p d)))
      else case check_vlan_id d of
             Inl e \<Rightarrow> Inl e
           | Inr _ \<Rightarrow>
               (case check_level d of
                  Inl e \<Rightarrow> Inl e
                | Inr _ \<Rightarrow> check_characters d))"

section \<open>The service\<close>

definition render :: "device_family \<Rightarrow> string \<Rightarrow> jobj \<Rightarrow> error + rendered_command list" where
  "render f operation parameters =
     (case operation_of_value operation of
        Inl e \<Rightarrow> Inl e
      | Inr p \<Rightarrow>
          (let c = get_vendor_driver_contract f
           in if \<not> supports_operation c p
              then Inl (ConfigApplyNotAllowedError (family_value f @ '' does not support operation '' @ operation_value p))
              else if p = VO_read_backup
              then Inr (map (\<lambda>t. \<lparr>command = t, secret = False\<rparr>) (vc_read_only_commands c))
              else case map_of (vc_config_command_templates c) p of
                     None \<Rightarrow> Inl (ConfigApplyNotAllowedError (family_value f
                               @ '' has no certified template for operation '' @ operation_value p))
                   | Some templates \<Rightarrow>
                       if templates = []
                       then Inl (ConfigApplyNotAllowedError (family_value f
                               @ '' has no certified template for operation '' @ operation_value p))
                       else case validate_parameters p parameters of
                              Inl e \<Rightarrow> Inl e
                            | Inr _ \<Rightarrow>
                                (case render_all parameters templates of
                                   Inl e \<Rightarrow> Inl e
                                 | Inr rendered \<Rightarrow>
                                     if list_ex (\<lambda>r. blocks_command c (command r)) rendered
                                     then Inl (SafetyError (''Template for '' @ family_value f @ ''/''
                                            @ operation_value p @ '' rendered forbidden command(s)''))
                                     else Inr rendered)))"

fun redact_values :: "string list \<Rightarrow> jobj \<Rightarrow> string \<Rightarrow> string" where
  "redact_values [] d t = t"
| "redact_values (k # ks) d t =
     redact_values ks d (if truthy (jget d k) then str_replace (py_str (jget d k)) ''<redacted>'' t else t)"

definition matches_rendered_command :: "string list \<Rightarrow> jobj \<Rightarrow> string \<Rightarrow> string \<Rightarrow> bool" where
  "matches_rendered_command order d actual expected \<longleftrightarrow>
     actual = expected \<or> mask_secrets [] actual = mask_secrets [] (redact_values order d expected)"

text \<open>Only rendered commands and objects have the text of a command: a plain text has no \<open>get\<close>.\<close>

fun plan_command :: "plan_item \<Rightarrow> error + string" where
  "plan_command (Rendered r) = Inr (command r)"
| "plan_command (DictItem d) = Inr (item_text d)"
| "plan_command (TextItem _) = Inl (AttributeError (repr_str ''str'' @ '' object has no attribute '' @ repr_str ''get''))"

fun plan_texts :: "plan_item list \<Rightarrow> error + string list" where
  "plan_texts [] = Inr []"
| "plan_texts (x # xs) =
     (case plan_command x of
        Inl e \<Rightarrow> Inl e
      | Inr t \<Rightarrow> (case plan_texts xs of Inl e \<Rightarrow> Inl e | Inr ts \<Rightarrow> Inr (t # ts)))"

fun plan_errors :: "string list \<Rightarrow> device_family \<Rightarrow> jobj \<Rightarrow> nat \<Rightarrow> (string \<times> string) list \<Rightarrow> string list" where
  "plan_errors order f d i [] = []"
| "plan_errors order f d i ((actual, expected) # rest) =
     (if matches_rendered_command order d actual expected then []
      else [''Command '' @ nat_str i @ '' does not match the vendor template for '' @ family_value f])
     @ plan_errors order f d (Suc i) rest"

definition validate_command_plan ::
  "string list \<Rightarrow> device_family \<Rightarrow> string \<Rightarrow> jobj \<Rightarrow> plan_item list \<Rightarrow> error + string list" where
  "validate_command_plan order f operation parameters command_plan =
     (case render f operation parameters of
        Inl e \<Rightarrow> Inl e
      | Inr expected \<Rightarrow>
          (case plan_texts command_plan of
             Inl e \<Rightarrow> Inl e
           | Inr actual \<Rightarrow>
               if length actual \<noteq> length expected
               then Inr [''Command plan length does not match vendor template'']
               else Inr (plan_errors order f parameters 1 (zip actual (map command expected)))))"

definition safe_command_plan :: "rendered_command list \<Rightarrow> jobj list" where
  "safe_command_plan commands = map to_safe_dict commands"

section \<open>Facts\<close>

lemma operation_of_value_Inr: "operation_of_value v = Inr p \<Longrightarrow> operation_value p = v"
  by (auto simp: operation_of_value_def find_Some_iff split: option.splits)

lemma operation_of_value_value [simp]: "operation_of_value (operation_value p) = Inr p"
  by (cases p) (simp_all add: operation_of_value_def all_operations_def)

text \<open>The branches of a successful rendering.\<close>

lemma render_Inr:
  assumes "render f operation d = Inr rs"
  obtains (backup) "operation = operation_value VO_read_backup"
      "supports_operation (get_vendor_driver_contract f) VO_read_backup"
      "rs = map (\<lambda>t. \<lparr>command = t, secret = False\<rparr>) (vc_read_only_commands (get_vendor_driver_contract f))"
  | (config) p templates where "operation = operation_value p" "p \<noteq> VO_read_backup"
      "supports_operation (get_vendor_driver_contract f) p"
      "map_of (vc_config_command_templates (get_vendor_driver_contract f)) p = Some templates" "templates \<noteq> []"
      "validate_parameters p d = Inr ()" "render_all d templates = Inr rs"
      "\<forall>r\<in>set rs. \<not> blocks_command (get_vendor_driver_contract f) (command r)"
proof -
  let ?c = "get_vendor_driver_contract f"
  from assms obtain p where p: "operation_of_value operation = Inr p"
    by (auto simp: render_def split: sum.splits)
  note pv = operation_of_value_Inr [OF p]
  from assms p have sup: "supports_operation ?c p" by (simp add: render_def Let_def split: if_splits)
  show ?thesis
  proof (cases "p = VO_read_backup")
    case True
    with assms p sup have "rs = map (\<lambda>t. \<lparr>command = t, secret = False\<rparr>) (vc_read_only_commands ?c)"
      by (simp add: render_def Let_def)
    then show ?thesis by (rule backup [rotated 2]) (use pv True sup in simp_all)
  next
    case False
    from assms p False obtain templates where "map_of (vc_config_command_templates ?c) p = Some templates" "templates \<noteq> []"
      "validate_parameters p d = Inr ()" "render_all d templates = Inr rs"
      "\<not> list_ex (\<lambda>r. blocks_command ?c (command r)) rs"
      by (simp add: render_def Let_def split: if_splits option.splits sum.splits)
    then show ?thesis by (intro config [OF pv [symmetric] False sup]) (simp_all add: list_ex_iff)
  qed
qed

lemma render_all_each:
  "render_all d ts = Inr rs \<Longrightarrow>
   list_all2 (\<lambda>t r. format_template d t = Inr (command r) \<and> (secret r \<longleftrightarrow> holds_secret t)) ts rs"
  by (induction d ts arbitrary: rs rule: render_all.induct) (auto split: sum.splits)

lemma read_only_not_blocked:
  assumes "t \<in> set (vc_read_only_commands (get_vendor_driver_contract f))"
  shows "\<not> blocks_command (get_vendor_driver_contract f) t"
proof -
  let ?all = "COMMON_FORBIDDEN_COMMAND_PATTERNS @ [rseq [RWordB, rlit ''reset saved-configuration'', RWordB]]"
  have t: "t \<in> set [''show running-config'', ''display current-configuration'']"
    using assms by (cases f) (simp_all add: contract_defs)
  have sub: "set (vc_forbidden_command_patterns (get_vendor_driver_contract f)) \<subseteq> set ?all"
    by (cases f) (simp_all add: contract_defs subset_insertI)
  have "list_all (\<lambda>t. list_all (\<lambda>r. \<not> rx_found flag_i r t) ?all)
      [''show running-config'', ''display current-configuration'']"
    by code_simp
  then show ?thesis using t sub unfolding blocks_command_def list_ex_iff list_all_iff by blast
qed

lemma check_characters_Inr:
  "check_characters d = Inr u \<longleftrightarrow> (\<forall>k s. (k, JStr s) \<in> set d \<longrightarrow> \<not> list_ex unsafe_char s)"
  by (induction d rule: check_characters.induct) (auto split: json.splits)

lemma validate_parameters_Inr:
  "validate_parameters p d = Inr u \<longleftrightarrow>
     missing_parameters p d = [] \<and> check_vlan_id d = Inr () \<and> check_level d = Inr () \<and>
     check_characters d = Inr ()"
  by (auto simp: validate_parameters_def split: sum.splits)

lemma check_vlan_id_Inr:
  "check_vlan_id d = Inr u \<longleftrightarrow> (\<forall>v. map_of d ''vlan_id'' = Some v \<longrightarrow> (\<exists>i. py_int v = Inr i \<and> 1 \<le> i \<and> i \<le> 4094))"
  by (auto simp: check_vlan_id_def split: option.splits sum.splits if_splits)

lemma check_level_Inr:
  "check_level d = Inr u \<longleftrightarrow> (\<forall>v. map_of d ''level'' = Some v \<longrightarrow> (\<exists>i. py_int v = Inr i \<and> 0 \<le> i \<and> i \<le> 15))"
  by (auto simp: check_level_def split: option.splits sum.splits if_splits)

text \<open>What a rendered text is made of: the template's characters and the values' texts.\<close>

lemma format_template_chars:
  "format_template d t = Inr s \<Longrightarrow> c \<in> set s \<Longrightarrow> c \<in> set t \<or> (\<exists>k v. (k, v) \<in> set d \<and> c \<in> set (py_str v))"
proof (induction d t arbitrary: s rule: format_template.induct)
  case (2 d x cs)
  let ?name = "takeWhile (\<lambda>y. y \<noteq> CHR ''}'') cs"
  show ?case
  proof (cases "x = CHR ''{''")
    case True
    with 2 obtain v rest where v: "map_of d ?name = Some v"
      and rest: "format_template d (drop (Suc (length ?name)) cs) = Inr rest" and s: "s = py_str v @ rest"
      by (auto simp: Let_def split: option.splits sum.splits)
    from s 2(4) consider "c \<in> set (py_str v)" | "c \<in> set rest" by auto
    then show ?thesis
    proof cases
      case 1
      with map_of_SomeD [OF v] show ?thesis by blast
    next
      case r: 2
      from "2.IH"(1) [OF True refl v rest r] show ?thesis by (auto dest: in_set_dropD)
    qed
  next
    case False
    with 2 show ?thesis by (auto split: sum.splits)
  qed
qed simp

lemma render_all_chars:
  "render_all d ts = Inr rs \<Longrightarrow> r \<in> set rs \<Longrightarrow> c \<in> set (command r) \<Longrightarrow>
   (\<exists>t\<in>set ts. c \<in> set t) \<or> (\<exists>k v. (k, v) \<in> set d \<and> c \<in> set (py_str v))"
proof (induction d ts arbitrary: rs rule: render_all.induct)
  case (2 d t ts)
  then show ?case
    using format_template_chars [of d t] by (fastforce split: sum.splits)
qed simp

lemma template_characters:
  "map_of (vc_config_command_templates (get_vendor_driver_contract f)) p = Some ts \<Longrightarrow> t \<in> set ts \<Longrightarrow>
   \<not> list_ex unsafe_char t"
proof -
  have "list_all (\<lambda>(p, ts). list_all (\<lambda>t. \<not> list_ex unsafe_char t) ts)
      (vc_config_command_templates (get_vendor_driver_contract f))"
    by (cases f) (simp_all add: contract_defs unsafe_char_def)
  then show "map_of (vc_config_command_templates (get_vendor_driver_contract f)) p = Some ts \<Longrightarrow>
      t \<in> set ts \<Longrightarrow> ?thesis"
    by (fastforce simp: list_all_iff dest!: map_of_SomeD)
qed

fun scalar :: "json \<Rightarrow> bool" where
  "scalar (JList _) = False"
| "scalar (JObj _) = False"
| "scalar _ = True"

lemma unsafe_not_digit: "is_digit c \<Longrightarrow> \<not> unsafe_char c"
  by (auto simp: is_digit_def unsafe_char_def)

lemma int_str_safe: "c \<in> set (int_str i) \<Longrightarrow> \<not> unsafe_char c"
proof -
  assume "c \<in> set (int_str i)"
  then have "c = CHR ''-'' \<or> is_digit c"
    using nat_str_digits by (auto simp: int_str_def split: if_splits)
  moreover have "\<not> unsafe_char (CHR ''-'')" by (simp add: unsafe_char_def)
  ultimately show ?thesis using unsafe_not_digit by blast
qed

lemma scalar_characters:
  "scalar v \<Longrightarrow> \<forall>s. v = JStr s \<longrightarrow> \<not> list_ex unsafe_char s \<Longrightarrow> c \<in> set (py_str v) \<Longrightarrow> \<not> unsafe_char c"
proof (cases v)
  case (JInt i)
  then show "c \<in> set (py_str v) \<Longrightarrow> \<not> unsafe_char c" using int_str_safe by simp
qed (auto simp: list_ex_iff unsafe_char_def split: if_splits)

section \<open>Properties\<close>

text \<open>
  C32: what is rendered may be sent.  When rendering succeeds, the family supports the operation, no command is one the
  family's contract blocks, and the commands are those of the contract in its order: the read-only commands for a
  backup, otherwise one per template of the operation, formatted with the parameters and marked secret when the
  template holds a secret.  For an operation that writes, the VLAN number lies in 1 to 4094, the privilege level in
  0 to 15, no required parameter is missing and no text parameter holds a line break or shell character.
\<close>

theorem render_safe:
  assumes "render f operation d = Inr rs"
  shows "\<exists>p. operation = operation_value p \<and> supports_operation (get_vendor_driver_contract f) p \<and>
     list_all (\<lambda>r. \<not> blocks_command (get_vendor_driver_contract f) (command r)) rs \<and>
     (if p = VO_read_backup
      then map command rs = vc_read_only_commands (get_vendor_driver_contract f) \<and> list_all (\<lambda>r. \<not> secret r) rs
      else
        (\<exists>templates. map_of (vc_config_command_templates (get_vendor_driver_contract f)) p = Some templates \<and>
           templates \<noteq> [] \<and>
           list_all2 (\<lambda>t r. format_template d t = Inr (command r) \<and> (secret r \<longleftrightarrow> holds_secret t)) templates rs) \<and>
        list_all (has_key d) (required_parameters p) \<and>
        (\<forall>v. map_of d ''vlan_id'' = Some v \<longrightarrow> (\<exists>i. py_int v = Inr i \<and> 1 \<le> i \<and> i \<le> 4094)) \<and>
        (\<forall>v. map_of d ''level'' = Some v \<longrightarrow> (\<exists>i. py_int v = Inr i \<and> 0 \<le> i \<and> i \<le> 15)) \<and>
        (\<forall>k s. (k, JStr s) \<in> set d \<longrightarrow> \<not> list_ex unsafe_char s))"
  using assms
proof (cases rule: render_Inr)
  case backup
  then show ?thesis
    by (intro exI [of _ VO_read_backup]) (auto simp: read_only_not_blocked list_all_iff comp_def)
next
  case (config p templates)
  have "missing_parameters p d = []" "check_vlan_id d = Inr ()" "check_level d = Inr ()"
    "check_characters d = Inr ()"
    using config(6) by (simp_all add: validate_parameters_Inr)
  moreover have "list_all (has_key d) (required_parameters p)"
    using \<open>missing_parameters p d = []\<close> by (auto simp: missing_parameters_def filter_empty_conv list_all_iff)
  ultimately show ?thesis
    using config(1-5) render_all_each [OF config(7)] config(8)
    by (intro exI [of _ p]) (auto simp: check_vlan_id_Inr check_level_Inr check_characters_Inr list_all_iff)
qed

text \<open>
  C38: no shell or control character reaches a device through a scalar parameter.  When every
  parameter is a text, a number, a truth value or null, no rendered command holds a carriage
  return, line feed, semicolon, ampersand, bar, backquote or dollar sign.
\<close>

theorem render_no_unsafe_characters:
  assumes "render f operation d = Inr rs" "\<forall>(k, v)\<in>set d. scalar v" "r \<in> set rs"
  shows "\<not> list_ex unsafe_char (command r)"
  using assms(1)
proof (cases rule: render_Inr)
  case backup
  have "t \<in> set (vc_read_only_commands (get_vendor_driver_contract f)) \<Longrightarrow> \<not> list_ex unsafe_char t" for t
    by (cases f) (auto simp: contract_defs unsafe_char_def)
  with backup assms(3) show ?thesis by auto
next
  case (config p templates)
  show ?thesis
    unfolding list_ex_iff
  proof
    assume "\<exists>c\<in>set (command r). unsafe_char c"
    then obtain c where c: "c \<in> set (command r)" "unsafe_char c" by blast
    from render_all_chars [OF config(7) assms(3) c(1)] show False
    proof (elim disjE bexE exE conjE)
      fix t assume "t \<in> set templates" "c \<in> set t"
      with template_characters [OF config(4)] c(2) show False by (auto simp: list_ex_iff)
    next
      fix k v assume kv: "(k, v) \<in> set d" "c \<in> set (py_str v)"
      with assms(2) have "scalar v" by auto
      moreover have "\<forall>s. v = JStr s \<longrightarrow> \<not> list_ex unsafe_char s"
        using config(6) kv(1) by (auto simp: validate_parameters_Inr check_characters_Inr)
      ultimately show False using scalar_characters kv(2) c(2) by blast
    qed
  qed
qed

definition vlan_parameters :: jobj where
  "vlan_parameters = [(''vlan_id'', JStr ''120''), (''name'', JStr ''users'')]"

definition vlan_commands :: "rendered_command list" where
  "vlan_commands = map (\<lambda>t. \<lparr>command = t, secret = False\<rparr>)
     [''configure terminal'', ''vlan 120'', ''name users'', ''end'', ''write memory'']"

lemma vlan_rendered: "render DF_cisco_ios ''vlan_create'' vlan_parameters = Inr vlan_commands"
  by code_simp

theorem render_safe_witness:
  "list_all (\<lambda>r. \<not> blocks_command (get_vendor_driver_contract DF_cisco_ios) (command r)) vlan_commands \<and>
   supports_operation (get_vendor_driver_contract DF_cisco_ios) VO_vlan_create \<and>
   list_all2 (\<lambda>t r. format_template vlan_parameters t = Inr (command r) \<and> (secret r \<longleftrightarrow> holds_secret t))
     (the (map_of (vc_config_command_templates (get_vendor_driver_contract DF_cisco_ios)) VO_vlan_create)) vlan_commands"
proof -
  have only: "p = VO_vlan_create" if "''vlan_create'' = operation_value p" for p using that by (cases p) simp_all
  from render_safe [OF vlan_rendered] obtain p where p: "''vlan_create'' = operation_value p"
    and rest: "supports_operation (get_vendor_driver_contract DF_cisco_ios) p"
      "list_all (\<lambda>r. \<not> blocks_command (get_vendor_driver_contract DF_cisco_ios) (command r)) vlan_commands"
      "p = VO_read_backup \<or> (\<exists>ts. map_of (vc_config_command_templates (get_vendor_driver_contract DF_cisco_ios)) p = Some ts \<and>
         list_all2 (\<lambda>t r. format_template vlan_parameters t = Inr (command r) \<and> (secret r \<longleftrightarrow> holds_secret t)) ts vlan_commands)"
    by (auto split: if_splits)
  from only [OF p] rest show ?thesis by (auto)
qed

theorem render_no_unsafe_characters_witness:
  "\<not> list_ex unsafe_char (command \<lparr>command = ''vlan 120'', secret = False\<rparr>)"
  by (rule render_no_unsafe_characters [OF vlan_rendered])
    (simp_all add: vlan_parameters_def vlan_commands_def)

text \<open>
  The check looks at text parameters only: a JSON list is rendered with \<open>str\<close> and carries the
  semicolon of its element into the command.
\<close>

theorem render_list_parameter_unchecked:
  "\<exists>rs. render DF_cisco_ios ''vlan_create''
          [(''vlan_id'', JInt 120), (''name'', JList [JStr ''a;shutdown''])] = Inr rs \<and>
        list_ex (\<lambda>r. list_ex unsafe_char (command r)) rs"
proof -
  let ?d = "[(''vlan_id'', JInt 120), (''name'', JList [JStr ''a;shutdown''])]"
  let ?rs = "projr (render DF_cisco_ios ''vlan_create'' ?d)"
  have "render DF_cisco_ios ''vlan_create'' ?d = Inr ?rs \<and> list_ex (\<lambda>r. list_ex unsafe_char (command r)) ?rs"
    by code_simp
  then show ?thesis by blast
qed

lemma plan_errors_Nil_iff:
  "plan_errors order f d i ps = [] \<longleftrightarrow> (\<forall>(a, e)\<in>set ps. matches_rendered_command order d a e)"
  by (induction order f d i ps rule: plan_errors.induct) auto

lemma plan_errors_zip:
  "length xs = length ys \<Longrightarrow>
   plan_errors order f d i (zip xs ys) = [] \<longleftrightarrow>
     (\<forall>j<length ys. matches_rendered_command order d (xs ! j) (ys ! j))"
  by (auto simp: plan_errors_Nil_iff set_zip)

text \<open>What a validation without errors means, which the safety kernel's plan gate rests on.\<close>

lemma validate_command_plan_clean:
  "validate_command_plan order f operation d plan = Inr [] \<longleftrightarrow>
     (\<exists>rs ts. render f operation d = Inr rs \<and> plan_texts plan = Inr ts \<and> length ts = length rs \<and>
        (\<forall>j<length rs. matches_rendered_command order d (ts ! j) (command (rs ! j))))"
  by (auto simp: validate_command_plan_def plan_errors_zip split: sum.splits)

text \<open>
  The redaction of a rendered command goes by the words of the template: of a password that
  holds a blank, what follows the blank stays readable.
\<close>

theorem redaction_stops_at_blank:
  "\<exists>r\<in>set (projr (render DF_cisco_ios ''password_change''
        [(''username'', JStr ''admin''), (''level'', JInt 15), (''password'', JStr ''open sesame'')])).
     secret r \<and> sublist ''sesame'' (redacted r)"
proof -
  have "list_ex (\<lambda>r. secret r \<and> sublist ''sesame'' (redacted r))
     (projr (render DF_cisco_ios ''password_change''
        [(''username'', JStr ''admin''), (''level'', JInt 15), (''password'', JStr ''open sesame'')]))"
    by code_simp
  then show ?thesis by (simp only: list_ex_iff)
qed

end
