(* ===== verification/TransportRuntime.thy ===== *)
theory TransportRuntime
  imports CapabilityMatrix
begin

text \<open>
  app/services/transport_runtime.py: the sessions of the safety-only runtime.  An adapter keeps
  the decision it was made for, the credentials and whether it is connected; its operations
  return what they raise or the value, and the new adapter.  Whether an optional package is
  installed (\<open>importlib.util.find_spec\<close>) is a parameter.
\<close>

section \<open>Adapters\<close>

record credentials =
  rc_username :: string
  rc_password :: "string option"
  rc_enable_password :: "string option"

definition credentials_repr :: "credentials \<Rightarrow> string" where
  "credentials_repr c = ''RuntimeCredentials(username='' @ repr_str (rc_username c)
     @ '', password=<redacted>, enable_password=<redacted>)''"

text \<open>The class of an adapter.\<close>

datatype adapter_class = NetmikoAdapter | ParamikoAdapter | CustomCliAdapter | IcmpAdapter | UnsupportedAdapter

record adapter =
  ad_class :: adapter_class
  ad_decision :: transport_decision
  ad_credentials :: "credentials option"
  ad_connected :: bool

fun adapter_name :: "adapter_class \<Rightarrow> string" where
  "adapter_name NetmikoAdapter = ''netmiko''"
| "adapter_name ParamikoAdapter = ''paramiko''"
| "adapter_name CustomCliAdapter = ''custom_cli''"
| "adapter_name IcmpAdapter = ''icmp_only''"
| "adapter_name UnsupportedAdapter = ''unsupported''"

fun class_name :: "adapter_class \<Rightarrow> string" where
  "class_name NetmikoAdapter = ''NetmikoTransportAdapter''"
| "class_name ParamikoAdapter = ''ParamikoTransportAdapter''"
| "class_name CustomCliAdapter = ''CustomCliTransportAdapter''"
| "class_name IcmpAdapter = ''IcmpTransportAdapter''"
| "class_name UnsupportedAdapter = ''UnsupportedTransportAdapter''"

definition adapter_repr :: "adapter \<Rightarrow> string" where
  "adapter_repr a = class_name (ad_class a) @ ''(transport=''
     @ repr_str (transport_value (td_selected_transport (ad_decision a)))
     @ '', driver='' @ repr_str (td_driver_name (ad_decision a)) @ '')''"

definition block_real_session :: "adapter \<Rightarrow> string \<Rightarrow> error" where
  "block_real_session a action = RealApplyDisabledError (adapter_name (ad_class a) @ '' '' @ action
     @ '' is not executed by the safety-only runtime'')"

definition block_config_operation :: "adapter \<Rightarrow> string \<Rightarrow> error" where
  "block_config_operation a action = ConfigApplyNotAllowedError (adapter_name (ad_class a)
     @ '' config-changing operation blocked: '' @ action)"

definition connect :: "adapter \<Rightarrow> (error + unit) \<times> adapter" where
  "connect a =
     (if ad_class a = UnsupportedAdapter
      then (Inl (RealApplyDisabledError (str_or (td_unsupported_reason (ad_decision a))
              ''Unsupported runtime profile cannot open sessions'')), a)
      else (Inr (), a\<lparr>ad_connected := True\<rparr>))"

definition close :: "adapter \<Rightarrow> (error + unit) \<times> adapter" where
  "close a = (Inr (), a\<lparr>ad_connected := False\<rparr>)"

definition detect_prompt :: "adapter \<Rightarrow> (error + string) \<times> adapter" where
  "detect_prompt a = (Inl (block_real_session a ''prompt detection''), a)"

definition run_show :: "string \<Rightarrow> adapter \<Rightarrow> (error + string) \<times> adapter" where
  "run_show c a =
     (if ad_class a = IcmpAdapter
      then (Inl (block_config_operation a ''CLI command on ICMP-only device''), a)
      else (Inl (block_real_session a (''read-only command '' @ repr_str c)), a))"

definition enter_privileged_mode :: "adapter \<Rightarrow> (error + unit) \<times> adapter" where
  "enter_privileged_mode a = (Inl (block_config_operation a ''enter privileged mode''), a)"

definition enter_config_mode :: "adapter \<Rightarrow> (error + unit) \<times> adapter" where
  "enter_config_mode a = (Inl (block_config_operation a ''enter config mode''), a)"

definition stage_config :: "string list \<Rightarrow> adapter \<Rightarrow> (error + unit) \<times> adapter" where
  "stage_config cs a =
     (Inl (block_config_operation a (''stage config commands count='' @ nat_str (length cs))), a)"

definition commit_or_save :: "adapter \<Rightarrow> (error + unit) \<times> adapter" where
  "commit_or_save a = (Inl (block_config_operation a ''commit or save''), a)"

definition rollback_prepare :: "adapter \<Rightarrow> (error + string) \<times> adapter" where
  "rollback_prepare a = (Inl (block_config_operation a ''rollback preparation''), a)"

definition get_capabilities :: "adapter \<Rightarrow> driver_capability set" where
  "get_capabilities a = (if ad_class a = UnsupportedAdapter then {} else td_capabilities (ad_decision a))"

definition optional_dependency_available :: "(string \<Rightarrow> bool) \<Rightarrow> adapter \<Rightarrow> bool" where
  "optional_dependency_available find_spec a =
     (case ad_class a of
        NetmikoAdapter \<Rightarrow> find_spec ''netmiko''
      | ParamikoAdapter \<Rightarrow> find_spec ''paramiko''
      | _ \<Rightarrow> True)"

text \<open>\<open>NetmikoTransportAdapter.device_type\<close>\<close>

definition device_type :: "adapter \<Rightarrow> string" where
  "device_type a =
     (case map_of [(''CiscoIOSDriver'', ''cisco_ios''), (''CiscoNXOSDriver'', ''cisco_nxos''),
        (''CiscoASADriver'', ''cisco_asa''), (''HuaweiVRPDriver'', ''huawei_vrp''),
        (''HPComwareDriver'', ''hp_comware''), (''HPEProCurveDriver'', ''hp_procurve''),
        (''DellPowerConnectDriver'', ''dell_powerconnect'')] (td_driver_name (ad_decision a)) of
        Some t \<Rightarrow> t
      | None \<Rightarrow> family_value (td_family (ad_decision a)))"

section \<open>The runtime\<close>

text \<open>The attributes of a device as \<open>str(getattr(device, ..., "") or "")\<close>.\<close>

record device_view =
  dv_vendor :: string
  dv_model :: string
  dv_platform :: string
  dv_driver_name :: string
  dv_id :: string
  dv_hostname :: "string option"

definition none_if_empty :: "string \<Rightarrow> string option" where
  "none_if_empty s = (if s = [] then None else Some s)"

definition decide_transport :: "rx profile list \<Rightarrow> device_view \<Rightarrow> transport_decision" where
  "decide_transport profiles v =
     decide profiles (dv_vendor v) (Some (dv_model v)) (Some (dv_platform v))
       (none_if_empty (dv_driver_name v)) None (none_if_empty (dv_id v)) (dv_hostname v)"

fun adapter_class_of :: "transport_kind \<Rightarrow> adapter_class" where
  "adapter_class_of TK_netmiko = NetmikoAdapter"
| "adapter_class_of TK_paramiko = ParamikoAdapter"
| "adapter_class_of TK_custom_cli = CustomCliAdapter"
| "adapter_class_of TK_icmp_only = IcmpAdapter"
| "adapter_class_of TK_unsupported = UnsupportedAdapter"

definition assert_config_apply_blocked :: "transport_decision \<Rightarrow> error" where
  "assert_config_apply_blocked d = ConfigApplyNotAllowedError (''Config apply is blocked for ''
     @ td_driver_name d @ ''; config_apply_allowed='' @ py_str (JBool (td_config_apply_allowed d))
     @ '', real_apply_certified='' @ py_str (JBool (td_real_apply_certified d)))"

definition create_session :: "transport_decision \<Rightarrow> credentials option \<Rightarrow> string \<Rightarrow> error + adapter" where
  "create_session d creds mode =
     (if mode \<noteq> ''read_only'' then Inl (assert_config_apply_blocked d)
      else Inr \<lparr>ad_class = adapter_class_of (td_selected_transport d), ad_decision = d,
                ad_credentials = creds, ad_connected = False\<rparr>)"

definition supports_read_only :: "transport_decision \<Rightarrow> bool" where
  "supports_read_only d \<longleftrightarrow> td_read_only_allowed d \<and> DC_read_only \<in> td_capabilities d"

definition supports_config_staging :: "transport_decision \<Rightarrow> bool" where
  "supports_config_staging d \<longleftrightarrow> DC_config_staging \<in> td_capabilities d \<and> td_config_apply_allowed d"

section \<open>Sequences of calls\<close>

text \<open>The calls a client can make on a session, and what each returns (its text, if any).\<close>

datatype session_call =
    Connect | Close | DetectPrompt | RunShow string | EnterPrivileged | EnterConfig
  | StageConfig "string list" | CommitOrSave | RollbackPrepare

fun map_result :: "('a \<Rightarrow> 'b) \<Rightarrow> (error + 'a) \<times> adapter \<Rightarrow> (error + 'b) \<times> adapter" where
  "map_result f (Inl e, a) = (Inl e, a)"
| "map_result f (Inr x, a) = (Inr (f x), a)"

fun perform :: "session_call \<Rightarrow> adapter \<Rightarrow> (error + string) \<times> adapter" where
  "perform Connect a = map_result (\<lambda>_. []) (connect a)"
| "perform Close a = map_result (\<lambda>_. []) (close a)"
| "perform DetectPrompt a = detect_prompt a"
| "perform (RunShow c) a = run_show c a"
| "perform EnterPrivileged a = map_result (\<lambda>_. []) (enter_privileged_mode a)"
| "perform EnterConfig a = map_result (\<lambda>_. []) (enter_config_mode a)"
| "perform (StageConfig cs) a = map_result (\<lambda>_. []) (stage_config cs a)"
| "perform CommitOrSave a = map_result (\<lambda>_. []) (commit_or_save a)"
| "perform RollbackPrepare a = rollback_prepare a"

fun perform_all :: "session_call list \<Rightarrow> adapter \<Rightarrow> (error + string) list \<times> adapter" where
  "perform_all [] a = ([], a)"
| "perform_all (c # cs) a =
     (case perform c a of (r, a') \<Rightarrow> case perform_all cs a' of (rs, a'') \<Rightarrow> (r # rs, a''))"

lemmas session_defs [op_defs] =
  connect_def close_def detect_prompt_def run_show_def enter_privileged_mode_def
  enter_config_mode_def stage_config_def commit_or_save_def rollback_prepare_def

lemma perform_frame [frame_simps]:
  "ad_class (snd (perform c a)) = ad_class a" "ad_decision (snd (perform c a)) = ad_decision a"
  by (cases c; simp add: op_defs)+

lemma perform_outcome:
  "fst (perform c a) = Inr t \<Longrightarrow> t = [] \<and> (c = Close \<or> c = Connect \<and> ad_class a \<noteq> UnsupportedAdapter)"
  by (cases c) (auto simp: op_defs split: if_splits)

lemma perform_connected:
  "ad_connected (snd (perform c a)) \<Longrightarrow> ad_connected a \<or> ad_class a \<noteq> UnsupportedAdapter"
  by (cases c) (auto simp: op_defs split: if_splits)

lemma perform_all_frame [frame_simps]:
  "ad_class (snd (perform_all cs a)) = ad_class a \<and> ad_decision (snd (perform_all cs a)) = ad_decision a"
  by (induction cs arbitrary: a) (simp_all add: frame_simps case_prod_unfold)

lemma perform_all_results:
  "length (fst (perform_all cs a)) = length cs \<and>
   (\<forall>i<length cs. \<forall>t. fst (perform_all cs a) ! i = Inr t \<longrightarrow>
      t = [] \<and> (cs ! i = Close \<or> cs ! i = Connect \<and> ad_class a \<noteq> UnsupportedAdapter))"
proof (induction cs arbitrary: a)
  case (Cons c cs)
  show ?case
    using Cons.IH [of "snd (perform c a)"] perform_outcome [of c a]
    by (auto simp: case_prod_unfold nth_Cons frame_simps split: nat.splits)
qed simp

lemma perform_all_connected:
  "ad_connected (snd (perform_all cs a)) \<Longrightarrow> ad_connected a \<or> ad_class a \<noteq> UnsupportedAdapter"
proof (induction cs arbitrary: a)
  case (Cons c cs)
  then show ?case
    using perform_connected [of c a] Cons.IH [of "snd (perform c a)"]
    by (auto simp: case_prod_unfold frame_simps)
qed simp

section \<open>Properties\<close>

text \<open>
  No session of the safety-only runtime runs anything.  A session is created for the
  read-only mode only; and whatever sequence of calls is then made on it, the only calls that
  do not raise are opening (never for the unsupported transport, which stays unconnected) and
  closing, and no call ever returns output of a device.
\<close>

theorem sessions_execute_nothing:
  "(mode \<noteq> ''read_only'' \<longrightarrow> (\<exists>m. create_session d creds mode = Inl (ConfigApplyNotAllowedError m))) \<and>
   (create_session d creds mode = Inr a \<longrightarrow>
      mode = ''read_only'' \<and>
      length (fst (perform_all cs a)) = length cs \<and>
      (\<forall>i<length cs. \<forall>t. fst (perform_all cs a) ! i = Inr t \<longrightarrow>
         t = [] \<and> (cs ! i = Close \<or> cs ! i = Connect \<and> td_selected_transport d \<noteq> TK_unsupported)) \<and>
      (ad_connected (snd (perform_all cs a)) \<longrightarrow> td_selected_transport d \<noteq> TK_unsupported))"
proof -
  have cls: "adapter_class_of k = UnsupportedAdapter \<longleftrightarrow> k = TK_unsupported" for k
    by (cases k) simp_all
  show ?thesis
    using perform_all_results [of cs a] perform_all_connected [of cs a]
    by (auto simp: create_session_def assert_config_apply_blocked_def cls split: if_splits)
qed

theorem sessions_execute_nothing_witness:
  "\<exists>a. create_session (decide RUNTIME_PROFILES ''ICMP'' None None None None None None) None ''read_only'' = Inr a \<and>
       length (fst (perform_all [Connect, RunShow ''show version'', Close] a)) = 3 \<and>
       (\<forall>t. fst (perform_all [Connect, RunShow ''show version'', Close] a) ! 1 \<noteq> Inr t)"
proof -
  let ?d = "decide RUNTIME_PROFILES ''ICMP'' None None None None None None"
  let ?cs = "[Connect, RunShow ''show version'', Close]"
  obtain a where a: "create_session ?d None ''read_only'' = Inr a"
    by (simp add: create_session_def)
  from a sessions_execute_nothing [of "''read_only''" ?d None a ?cs]
  have "length (fst (perform_all ?cs a)) = 3 \<and> (\<forall>t. fst (perform_all ?cs a) ! 1 \<noteq> Inr t)"
    by auto
  with a show ?thesis by blast
qed

end
