(* ===== verification/Actions.thy ===== *)
theory Actions
  imports Tables
begin

text \<open>
  Operations on the database: an action takes the state and returns what was raised or the
  result, and the state as flushed so far.  \<open>committed\<close> is the request scope of
  app/api/deps.py (\<open>get_db\<close>): an exception rolls the session back.  \<open>triple P m Q\<close> says that
  from a state with \<open>P\<close> an action that returns does so in a state with \<open>Q\<close>.
\<close>

type_synonym ('s, 'a) action = "'s \<Rightarrow> (error + 'a) \<times> 's"

definition ret :: "'a \<Rightarrow> ('s, 'a) action" where
  "ret x s = (Inr x, s)"

definition raise :: "error \<Rightarrow> ('s, 'a) action" where
  "raise e s = (Inl e, s)"

definition andThen :: "('s, 'a) action \<Rightarrow> ('a \<Rightarrow> ('s, 'b) action) \<Rightarrow> ('s, 'b) action" where
  "andThen m f s = (case m s of (Inl e, s') \<Rightarrow> (Inl e, s') | (Inr x, s') \<Rightarrow> f x s')"

text \<open>Reading the state, possibly raising; writing it.\<close>

definition asks :: "('s \<Rightarrow> 'a) \<Rightarrow> ('s, 'a) action" where
  "asks f s = (Inr (f s), s)"

definition query :: "('s \<Rightarrow> error + 'a) \<Rightarrow> ('s, 'a) action" where
  "query f s = (f s, s)"

definition change :: "('s \<Rightarrow> 's) \<Rightarrow> ('s, unit) action" where
  "change f s = (Inr (), f s)"

definition unless :: "bool \<Rightarrow> error \<Rightarrow> ('s, unit) action" where
  "unless b e = (if b then ret () else raise e)"

fun for_each :: "('a \<Rightarrow> ('s, 'b) action) \<Rightarrow> 'a list \<Rightarrow> ('s, 'b list) action" where
  "for_each f [] = ret []"
| "for_each f (x # xs) = andThen (f x) (\<lambda>y. andThen (for_each f xs) (\<lambda>ys. ret (y # ys)))"

definition committed :: "('s, 'a) action \<Rightarrow> ('s, 'a) action" where
  "committed m s = (case m s of (Inl e, s') \<Rightarrow> (Inl e, s) | (Inr x, s') \<Rightarrow> (Inr x, s'))"

section \<open>Outcomes\<close>

lemma ret_Inr [simp]: "ret x s = (Inr y, s') \<longleftrightarrow> y = x \<and> s' = s"
  by (auto simp: ret_def)

lemma raise_Inr [simp]: "raise e s \<noteq> (Inr y, s')"
  by (simp add: raise_def)

lemma andThen_Inr:
  "andThen m f s = (Inr y, s') \<longleftrightarrow> (\<exists>x t. m s = (Inr x, t) \<and> f x t = (Inr y, s'))"
  by (auto simp: andThen_def split: prod.splits sum.splits)

lemma asks_Inr [simp]: "asks f s = (Inr y, s') \<longleftrightarrow> y = f s \<and> s' = s"
  by (auto simp: asks_def)

lemma query_Inr [simp]: "query f s = (Inr y, s') \<longleftrightarrow> f s = Inr y \<and> s' = s"
  by (auto simp: query_def)

lemma change_Inr [simp]: "change f s = (Inr y, s') \<longleftrightarrow> s' = f s"
  by (auto simp: change_def)

lemma unless_Inr [simp]: "unless b e s = (Inr y, s') \<longleftrightarrow> b \<and> s' = s"
  by (auto simp: unless_def)

lemma committed_Inr: "committed m s = (Inr x, s') \<longleftrightarrow> m s = (Inr x, s')"
  by (auto simp: committed_def split: prod.splits sum.splits)

lemma committed_Inl: "committed m s = (Inl e, s') \<Longrightarrow> s' = s"
  by (auto simp: committed_def split: prod.splits sum.splits)

lemma committed_state: "snd (committed m s) = (case m s of (Inr x, s') \<Rightarrow> s' | (Inl e, _) \<Rightarrow> s)"
  by (auto simp: committed_def split: prod.splits sum.splits)

section \<open>Triples\<close>

definition triple :: "('s \<Rightarrow> bool) \<Rightarrow> ('s, 'a) action \<Rightarrow> ('a \<Rightarrow> 's \<Rightarrow> bool) \<Rightarrow> bool" where
  "triple P m Q \<longleftrightarrow> (\<forall>s x s'. P s \<longrightarrow> m s = (Inr x, s') \<longrightarrow> Q x s')"

lemma tripleI: "(\<And>s x s'. P s \<Longrightarrow> m s = (Inr x, s') \<Longrightarrow> Q x s') \<Longrightarrow> triple P m Q"
  by (simp add: triple_def)

lemma tripleD: "triple P m Q \<Longrightarrow> P s \<Longrightarrow> m s = (Inr x, s') \<Longrightarrow> Q x s'"
  by (simp add: triple_def)

lemma triple_weaken: "triple P m Q \<Longrightarrow> (\<And>s. P' s \<Longrightarrow> P s) \<Longrightarrow> (\<And>x s. Q x s \<Longrightarrow> Q' x s) \<Longrightarrow> triple P' m Q'"
  by (force simp: triple_def)

lemma triple_ret: "(\<And>s. P s \<Longrightarrow> Q x s) \<Longrightarrow> triple P (ret x) Q"
  by (auto simp: triple_def)

lemma triple_raise: "triple P (raise e) Q"
  by (simp add: triple_def)

lemma triple_unless: "(\<And>s. P s \<Longrightarrow> b \<Longrightarrow> Q () s) \<Longrightarrow> triple P (unless b e) Q"
  by (simp add: triple_def)

lemma triple_andThen:
  "triple P m R \<Longrightarrow> (\<And>x. triple (R x) (f x) Q) \<Longrightarrow> triple P (andThen m f) Q"
  by (fastforce simp: triple_def andThen_Inr)

lemma triple_asks: "(\<And>s. P s \<Longrightarrow> Q (f s) s) \<Longrightarrow> triple P (asks f) Q"
  by (auto simp: triple_def)

lemma triple_query: "(\<And>s x. P s \<Longrightarrow> f s = Inr x \<Longrightarrow> Q x s) \<Longrightarrow> triple P (query f) Q"
  by (auto simp: triple_def)

lemma triple_change: "(\<And>s. P s \<Longrightarrow> Q () (f s)) \<Longrightarrow> triple P (change f) Q"
  by (auto simp: triple_def)

text \<open>What holds before and after every element holds around the loop.\<close>

lemma triple_for_each:
  assumes "\<And>x. x \<in> set xs \<Longrightarrow> triple P (f x) (\<lambda>_. P)"
  shows "triple P (for_each f xs) (\<lambda>_. P)"
  using assms
proof (induction xs)
  case (Cons x xs)
  then show ?case
    by (auto intro!: triple_andThen [where R = "\<lambda>_. P"] triple_ret)
qed (simp add: triple_ret)

text \<open>Properties of the state that an action keeps.\<close>

definition keeps :: "('s \<Rightarrow> 'b) \<Rightarrow> ('s, 'a) action \<Rightarrow> bool" where
  "keeps f m \<longleftrightarrow> (\<forall>s. f (snd (m s)) = f s)"

lemma keeps_andThen: "keeps f m \<Longrightarrow> (\<And>x. keeps f (g x)) \<Longrightarrow> keeps f (andThen m g)"
  by (auto simp: keeps_def andThen_def split: prod.splits sum.splits) (metis snd_conv)+

lemma keeps_basic [simp]:
  "keeps f (ret x)" "keeps f (raise e)" "keeps f (asks g)" "keeps f (query h)" "keeps f (unless b e)"
  by (simp_all add: keeps_def ret_def raise_def asks_def query_def unless_def)

lemma keeps_change: "(\<And>s. f (g s) = f s) \<Longrightarrow> keeps f (change g)"
  by (simp add: keeps_def change_def)

lemma keeps_for_each: "(\<And>x. keeps f (g x)) \<Longrightarrow> keeps f (for_each g xs)"
  by (induction xs) (auto intro!: keeps_andThen)

end
