(* ===== verification/Db.thy ===== *)
theory Db
  imports Actions
begin

text \<open>
  The database: date-times, the rows of the ORM classes of app/db/models (one record per class,
  one field per column, with a prefix per class) and the state that holds the tables.  New
  rows get the next identifier of a counter where the code draws a random UUID, so that
  identifiers are never drawn twice.  A table lists its rows in the order of their creation.
\<close>

section \<open>Date-times\<close>

text \<open>
  An instant is the number of microseconds since the epoch.  The database may give a column
  back without its time zone; \<open>comparable_datetime\<close> reads such a value as UTC.
\<close>

datatype datetime = Naive int | Aware int

fun instant :: "datetime \<Rightarrow> int" where
  "instant (Naive t) = t"
| "instant (Aware t) = t"

definition comparable_datetime :: "datetime \<Rightarrow> datetime" where
  "comparable_datetime v = (case v of Naive t \<Rightarrow> Aware t | Aware t \<Rightarrow> Aware t)"

abbreviation second :: int where "second \<equiv> 1000000"
abbreviation hour :: int where "hour \<equiv> 3600 * second"

text \<open>The calendar date (year, month, day) of a day number counted from 1970-01-01.\<close>

definition civil_from_days :: "int \<Rightarrow> int \<times> int \<times> int" where
  "civil_from_days n =
     (let z = n + 719468;
          era = z div 146097;
          doe = z mod 146097;
          yoe = (doe - doe div 1460 + doe div 36524 - doe div 146096) div 365;
          doy = doe - (365 * yoe + yoe div 4 - yoe div 100);
          mp = (5 * doy + 2) div 153;
          d = doy - (153 * mp + 2) div 5 + 1;
          m = (if mp < 10 then mp + 3 else mp - 9);
          y = yoe + era * 400 + (if m \<le> 2 then 1 else 0)
      in (y, m, d))"

definition pad :: "nat \<Rightarrow> int \<Rightarrow> string" where
  "pad w i = replicate (w - length (int_str i)) (CHR ''0'') @ int_str i"

definition isoformat :: "datetime \<Rightarrow> string" where
  "isoformat v =
     (let t = instant v;
          us = t mod second;
          s = t div second;
          (y, m, d) = civil_from_days (s div 86400);
          r = s mod 86400
      in pad 4 y @ ''-'' @ pad 2 m @ ''-'' @ pad 2 d @ ''T'' @ pad 2 (r div 3600) @ '':''
         @ pad 2 (r div 60 mod 60) @ '':'' @ pad 2 (r mod 60)
         @ (if us = 0 then [] else ''.'' @ pad 6 us)
         @ (case v of Naive _ \<Rightarrow> [] | Aware _ \<Rightarrow> ''+00:00''))"

text \<open>The Gregorian calendar on some days with a leap year, a century and a day before the epoch.\<close>

lemma civil_from_days_values:
  "civil_from_days 0 = (1970, 1, 1)" "civil_from_days (- 1) = (1969, 12, 31)"
  "civil_from_days 11016 = (2000, 2, 29)" "civil_from_days 47541 = (2100, 3, 1)"
  by code_simp+

lemma isoformat_values:
  "isoformat (Naive 0) = ''1970-01-01T00:00:00''"
  "isoformat (Aware 90061000001) = ''1970-01-02T01:01:01.000001+00:00''"
  by code_simp+

definition iso_opt :: "datetime option \<Rightarrow> json" where
  "iso_opt v = (case v of None \<Rightarrow> JNull | Some t \<Rightarrow> JStr (isoformat t))"

definition uuid_opt :: "uuid option \<Rightarrow> json" where
  "uuid_opt v = (case v of None \<Rightarrow> JNull | Some u \<Rightarrow> JStr (uuid_str u))"

definition str_opt :: "string option \<Rightarrow> json" where
  "str_opt v = (case v of None \<Rightarrow> JNull | Some s \<Rightarrow> JStr s)"

definition obj_opt :: "jobj option \<Rightarrow> json" where
  "obj_opt v = (case v of None \<Rightarrow> JNull | Some d \<Rightarrow> JObj d)"

section \<open>Rows\<close>

text \<open>\<open>Device\<close>\<close>

record device =
  dev_id :: uuid
  dev_hostname :: "string option"
  dev_ip_address :: string
  dev_management_ip :: "string option"
  dev_vendor :: string
  dev_model :: string
  dev_normalized_vendor :: "string option"
  dev_normalized_model :: "string option"
  dev_platform :: string
  dev_os_version :: "string option"
  dev_serial_number :: "string option"
  dev_site :: "string option"
  dev_location :: "string option"
  dev_rack :: "string option"
  dev_role :: "string option"
  dev_transport_type :: string
  dev_driver_name :: string
  dev_driver_resolution_status :: string
  dev_credential_assignment_status :: string
  dev_status :: string
  dev_discovery_status :: string
  dev_discovery_last_checked_at :: "datetime option"
  dev_discovery_error :: "string option"
  dev_tags :: jobj
  dev_capabilities :: jobj
  dev_last_seen :: "datetime option"
  dev_last_seen_at :: "datetime option"
  dev_created_at :: datetime
  dev_updated_at :: datetime

text \<open>\<open>Job\<close>\<close>

record job =
  jb_id :: uuid
  jb_job_type :: string
  jb_status :: string
  jb_requested_by :: string
  jb_approved_by :: "string option"
  jb_approval_status :: string
  jb_dry_run :: jobj
  jb_input_payload :: jobj
  jb_created_at :: datetime
  jb_approved_at :: "datetime option"
  jb_started_at :: "datetime option"
  jb_finished_at :: "datetime option"

text \<open>\<open>JobTask\<close>\<close>

record job_task =
  jt_id :: uuid
  jt_job_id :: uuid
  jt_device_id :: uuid
  jt_status :: string
  jt_attempt :: int
  jt_commands :: "string list"
  jt_dry_run_device :: jobj
  jt_sanitized_output :: "string option"
  jt_error :: "string option"
  jt_backup_id :: "uuid option"
  jt_started_at :: "datetime option"
  jt_finished_at :: "datetime option"

text \<open>\<open>ConfigBackupJob\<close>\<close>

record backup_job =
  bj_id :: uuid
  bj_name :: string
  bj_description :: "string option"
  bj_scope_type :: string
  bj_scope_filter :: "jobj option"
  bj_status :: string
  bj_requested_by :: "string option"
  bj_started_at :: "datetime option"
  bj_finished_at :: "datetime option"
  bj_total_devices :: int
  bj_successful_devices :: int
  bj_failed_devices :: int
  bj_skipped_devices :: int
  bj_error_summary :: "string option"
  bj_created_at :: datetime
  bj_updated_at :: datetime

text \<open>\<open>ConfigSnapshot\<close>\<close>

record snapshot =
  sn_id :: uuid
  sn_device_id :: uuid
  sn_backup_job_id :: "uuid option"
  sn_source :: string
  sn_config_type :: string
  sn_config_text :: string
  sn_config_hash :: string
  sn_sanitized :: bool
  sn_collection_method :: string
  sn_collected_at :: datetime
  sn_created_at :: datetime
  sn_metadata :: "jobj option"

text \<open>\<open>ConfigBackupJobItem\<close>\<close>

record backup_item =
  bi_id :: uuid
  bi_job_id :: uuid
  bi_device_id :: uuid
  bi_status :: string
  bi_snapshot_id :: "uuid option"
  bi_error_message :: "string option"
  bi_started_at :: "datetime option"
  bi_finished_at :: "datetime option"
  bi_created_at :: datetime

text \<open>\<open>VlanChangeRequest\<close>\<close>

record vlan_request =
  vr_id :: uuid
  vr_title :: string
  vr_description :: "string option"
  vr_status :: string
  vr_requested_by :: "string option"
  vr_scope_type :: string
  vr_scope_filter :: "jobj option"
  vr_vlan_id :: int
  vr_vlan_name :: "string option"
  vr_operation :: string
  vr_dry_run_required :: bool
  vr_backup_required :: bool
  vr_lab_validation_required :: bool
  vr_approval_required :: bool
  vr_risk_level :: string
  vr_risk_summary :: "jobj option"
  vr_created_at :: datetime
  vr_updated_at :: datetime
  vr_submitted_at :: "datetime option"
  vr_approved_at :: "datetime option"
  vr_approved_by :: "string option"
  vr_rejected_at :: "datetime option"
  vr_rejected_by :: "string option"
  vr_completed_at :: "datetime option"
  vr_error_summary :: "string option"

text \<open>\<open>VlanChangeDevice\<close>\<close>

record vlan_device =
  vd_id :: uuid
  vd_request_id :: uuid
  vd_device_id :: uuid
  vd_status :: string
  vd_driver_name :: "string option"
  vd_vendor :: "string option"
  vd_model :: "string option"
  vd_backup_snapshot_id :: "uuid option"
  vd_lab_validation_id :: "uuid option"
  vd_validation_errors :: "(string list) option"
  vd_validation_warnings :: "(string list) option"
  vd_planned_commands :: "(string list) option"
  vd_rollback_commands :: "(string list) option"
  vd_impact_summary :: "jobj option"
  vd_created_at :: datetime
  vd_updated_at :: datetime

text \<open>\<open>LabDriverValidation\<close>\<close>

record lab_validation =
  lv_id :: uuid
  lv_vendor :: string
  lv_platform :: "string option"
  lv_model_pattern :: "string option"
  lv_driver_name :: string
  lv_capability :: string
  lv_status :: string
  lv_validated_by :: "string option"
  lv_validated_at :: "datetime option"
  lv_expires_at :: "datetime option"
  lv_lab_environment :: "string option"
  lv_evidence_summary :: "string option"
  lv_transcript_id :: "uuid option"
  lv_created_at :: datetime
  lv_updated_at :: datetime

text \<open>\<open>DeviceLock\<close>\<close>

record device_lock =
  dl_device_id :: uuid
  dl_job_id :: uuid
  dl_locked_by :: string
  dl_locked_at :: datetime
  dl_expires_at :: datetime

text \<open>\<open>CredentialSecret\<close>\<close>

record credential_secret =
  sec_id :: uuid
  sec_name :: string
  sec_username :: string
  sec_encrypted_payload :: string
  sec_auth_type :: string
  sec_purpose :: "string option"
  sec_version :: int
  sec_active :: bool
  sec_metadata :: "jobj option"
  sec_created_by :: "string option"
  sec_updated_by :: "string option"
  sec_created_at :: datetime
  sec_updated_at :: datetime
  sec_rotated_at :: "datetime option"
  sec_disabled_at :: "datetime option"

text \<open>\<open>AuditLog\<close>\<close>

record audit_log =
  al_id :: uuid
  al_actor :: string
  al_action :: string
  al_object_type :: string
  al_object_id :: string
  al_device_id :: "uuid option"
  al_job_id :: "uuid option"
  al_before :: "jobj option"
  al_after :: "jobj option"
  al_extra_metadata :: jobj
  al_created_at :: datetime

text \<open>\<open>ChangeExecution\<close>\<close>

record change_execution =
  ce_id :: uuid
  ce_title :: string
  ce_description :: "string option"
  ce_status :: string
  ce_mode :: string
  ce_requested_by :: "string option"
  ce_change_type :: string
  ce_source_type :: string
  ce_source_id :: "uuid option"
  ce_risk_level :: string
  ce_risk_summary :: "jobj option"
  ce_requires_approval :: bool
  ce_requires_lab_validation :: bool
  ce_requires_fresh_backup :: bool
  ce_created_at :: datetime
  ce_updated_at :: datetime
  ce_submitted_at :: "datetime option"
  ce_approved_at :: "datetime option"
  ce_approved_by :: "string option"
  ce_rejected_at :: "datetime option"
  ce_rejected_by :: "string option"
  ce_started_at :: "datetime option"
  ce_completed_at :: "datetime option"
  ce_cancelled_at :: "datetime option"
  ce_error_summary :: "string option"

text \<open>\<open>ChangeExecutionStep\<close>\<close>

record change_step =
  st_id :: uuid
  st_execution_id :: uuid
  st_step_order :: int
  st_name :: string
  st_step_type :: string
  st_status :: string
  st_depends_on :: "(int list) option"
  st_target_type :: "string option"
  st_target_id :: "uuid option"
  st_device_id :: "uuid option"
  st_planned_action :: "jobj option"
  st_dry_run_output :: "jobj option"
  st_risk_level :: "string option"
  st_started_at :: "datetime option"
  st_completed_at :: "datetime option"
  st_error_summary :: "string option"
  st_created_at :: datetime
  st_updated_at :: datetime

text \<open>\<open>ChangeExecutionLock\<close>\<close>

record change_lock =
  lk_id :: uuid
  lk_execution_id :: uuid
  lk_lock_type :: string
  lk_target_type :: string
  lk_target_id :: "uuid option"
  lk_device_id :: "uuid option"
  lk_status :: string
  lk_reason :: "string option"
  lk_created_at :: datetime
  lk_released_at :: "datetime option"

text \<open>\<open>ChangeExecutionApproval\<close>\<close>

record change_approval =
  ap_id :: uuid
  ap_execution_id :: uuid
  ap_status :: string
  ap_requested_by :: "string option"
  ap_approved_by :: "string option"
  ap_rejected_by :: "string option"
  ap_comment :: "string option"
  ap_created_at :: datetime
  ap_decided_at :: "datetime option"

text \<open>\<open>ChangeExecutionAuditEvent\<close>\<close>

record change_event =
  ev_id :: uuid
  ev_execution_id :: uuid
  ev_step_id :: "uuid option"
  ev_device_id :: "uuid option"
  ev_event_type :: string
  ev_actor :: "string option"
  ev_message :: string
  ev_metadata :: "jobj option"
  ev_created_at :: datetime

text \<open>\<open>LabValidationTranscript\<close>\<close>

record lab_transcript =
  lt_id :: uuid
  lt_validation_id :: "uuid option"
  lt_filename :: string
  lt_content_type :: string
  lt_sanitized_text :: string
  lt_sha256 :: string
  lt_created_at :: datetime

text \<open>\<open>LabValidationChecklistItem\<close>\<close>

record checklist_item =
  li_id :: uuid
  li_validation_id :: uuid
  li_item_key :: string
  li_description :: string
  li_status :: string
  li_notes :: "string option"
  li_created_at :: datetime
  li_updated_at :: datetime

text \<open>\<open>VlanChangeApproval\<close>\<close>

record vlan_approval =
  va_id :: uuid
  va_request_id :: uuid
  va_status :: string
  va_requested_by :: "string option"
  va_approved_by :: "string option"
  va_rejected_by :: "string option"
  va_comment :: "string option"
  va_created_at :: datetime
  va_decided_at :: "datetime option"

text \<open>\<open>VlanChangeAuditEvent\<close>\<close>

record vlan_event =
  ve_id :: uuid
  ve_request_id :: uuid
  ve_device_id :: "uuid option"
  ve_event_type :: string
  ve_actor :: "string option"
  ve_message :: string
  ve_metadata :: "jobj option"
  ve_created_at :: datetime

text \<open>\<open>ConfigSnapshotDiff\<close>\<close>

record snapshot_diff =
  sd_id :: uuid
  sd_device_id :: uuid
  sd_from_snapshot_id :: uuid
  sd_to_snapshot_id :: uuid
  sd_diff_text :: string
  sd_diff_hash :: string
  sd_change_summary :: "jobj option"
  sd_created_at :: datetime

text \<open>\<open>ConfigRestorePlan\<close>\<close>

record restore_plan =
  rs_id :: uuid
  rs_device_id :: uuid
  rs_target_snapshot_id :: uuid
  rs_status :: string
  rs_requested_by :: "string option"
  rs_plan_text :: string
  rs_risk_level :: string
  rs_warnings :: "(string list) option"
  rs_created_at :: datetime
  rs_approved_at :: "datetime option"
  rs_approved_by :: "string option"

text \<open>\<open>Credential\<close>\<close>

record credential =
  cr_id :: uuid
  cr_name :: string
  cr_username :: string
  cr_encrypted_password :: string
  cr_encrypted_enable_password :: "string option"
  cr_auth_type :: string
  cr_created_at :: datetime
  cr_updated_at :: datetime

text \<open>\<open>CredentialAssignment\<close>\<close>

record credential_assignment =
  ca_id :: uuid
  ca_credential_id :: uuid
  ca_device_id :: "uuid option"
  ca_vendor :: "string option"
  ca_site :: "string option"
  ca_priority :: int
  ca_created_at :: datetime

text \<open>\<open>PasswordRolloutBatch\<close>\<close>

record rollout_batch =
  rb_id :: uuid
  rb_job_id :: uuid
  rb_batch_index :: int
  rb_batch_size :: int
  rb_status :: string
  rb_created_at :: datetime
  rb_started_at :: "datetime option"
  rb_finished_at :: "datetime option"

text \<open>\<open>PasswordRolloutBatchTask\<close>\<close>

record rollout_task =
  rk_id :: uuid
  rk_batch_id :: uuid
  rk_job_task_id :: uuid
  rk_status :: string
  rk_created_at :: datetime
  rk_started_at :: "datetime option"
  rk_finished_at :: "datetime option"

text \<open>\<open>PasswordChangeSecret\<close>\<close>

record password_secret =
  ps_id :: uuid
  ps_job_id :: uuid
  ps_encrypted_new_password :: string
  ps_created_at :: datetime
  ps_expires_at :: "datetime option"

text \<open>\<open>ConfigBackupModel\<close>\<close>

record config_backup =
  cb_id :: uuid
  cb_device_id :: uuid
  cb_job_task_id :: "uuid option"
  cb_config_text :: string
  cb_config_hash :: string
  cb_created_at :: datetime
  cb_created_by :: string

text \<open>\<open>ConfigBackupSchedule\<close>\<close>

record backup_schedule =
  bc_id :: uuid
  bc_name :: string
  bc_description :: "string option"
  bc_enabled :: bool
  bc_scope_type :: string
  bc_scope_filter :: "jobj option"
  bc_cron_expression :: string
  bc_timezone :: string
  bc_retention_days :: int
  bc_max_snapshots_per_device :: "int option"
  bc_last_run_at :: "datetime option"
  bc_next_run_at :: "datetime option"
  bc_created_by :: "string option"
  bc_created_at :: datetime
  bc_updated_at :: datetime

text \<open>\<open>InventoryImportBatch\<close>\<close>

record import_batch =
  ib_id :: uuid
  ib_filename :: "string option"
  ib_source_type :: string
  ib_status :: string
  ib_requested_by :: "string option"
  ib_total_rows :: int
  ib_valid_rows :: int
  ib_invalid_rows :: int
  ib_created_devices :: int
  ib_updated_devices :: int
  ib_skipped_rows :: int
  ib_error_summary :: "string option"
  ib_created_at :: datetime
  ib_finished_at :: "datetime option"

text \<open>\<open>InventoryImportRow\<close>\<close>

record import_row =
  ir_id :: uuid
  ir_batch_id :: uuid
  ir_row_index :: int
  ir_raw_data :: jobj
  ir_normalized_data :: "jobj option"
  ir_status :: string
  ir_error_message :: "string option"
  ir_device_id :: "uuid option"
  ir_created_at :: datetime

section \<open>The state\<close>

record db =
  db_next_id :: uuid
  t_device :: "device list"
  t_job :: "job list"
  t_job_task :: "job_task list"
  t_backup_job :: "backup_job list"
  t_snapshot :: "snapshot list"
  t_backup_item :: "backup_item list"
  t_vlan_request :: "vlan_request list"
  t_vlan_device :: "vlan_device list"
  t_lab_validation :: "lab_validation list"
  t_device_lock :: "device_lock list"
  t_credential_secret :: "credential_secret list"
  t_audit_log :: "audit_log list"
  t_change_execution :: "change_execution list"
  t_change_step :: "change_step list"
  t_change_lock :: "change_lock list"
  t_change_approval :: "change_approval list"
  t_change_event :: "change_event list"
  t_lab_transcript :: "lab_transcript list"
  t_checklist_item :: "checklist_item list"
  t_vlan_approval :: "vlan_approval list"
  t_vlan_event :: "vlan_event list"
  t_snapshot_diff :: "snapshot_diff list"
  t_restore_plan :: "restore_plan list"
  t_credential :: "credential list"
  t_credential_assignment :: "credential_assignment list"
  t_rollout_batch :: "rollout_batch list"
  t_rollout_task :: "rollout_task list"
  t_password_secret :: "password_secret list"
  t_config_backup :: "config_backup list"
  t_backup_schedule :: "backup_schedule list"
  t_import_batch :: "import_batch list"
  t_import_row :: "import_row list"

text \<open>The database with no rows; identifiers are handed out from 100 on.\<close>

definition empty_db :: db where
  "empty_db = \<lparr>db_next_id = 100, t_device = [], t_job = [], t_job_task = [], t_backup_job = [], t_snapshot = [], t_backup_item =
     [], t_vlan_request = [], t_vlan_device = [], t_lab_validation = [], t_device_lock = [],
     t_credential_secret = [], t_audit_log = [], t_change_execution = [], t_change_step = [],
     t_change_lock = [], t_change_approval = [], t_change_event = [], t_lab_transcript = [],
     t_checklist_item = [], t_vlan_approval = [], t_vlan_event = [], t_snapshot_diff = [],
     t_restore_plan = [], t_credential = [], t_credential_assignment = [], t_rollout_batch = [],
     t_rollout_task = [], t_password_secret = [], t_config_backup = [], t_backup_schedule = [],
     t_import_batch = [], t_import_row = []\<rparr>"

abbreviation find_device :: "db \<Rightarrow> uuid \<Rightarrow> device option" where
  "find_device d i \<equiv> get_row dev_id i (t_device d)"

abbreviation find_job :: "db \<Rightarrow> uuid \<Rightarrow> job option" where
  "find_job d i \<equiv> get_row jb_id i (t_job d)"

abbreviation find_job_task :: "db \<Rightarrow> uuid \<Rightarrow> job_task option" where
  "find_job_task d i \<equiv> get_row jt_id i (t_job_task d)"

abbreviation find_backup_job :: "db \<Rightarrow> uuid \<Rightarrow> backup_job option" where
  "find_backup_job d i \<equiv> get_row bj_id i (t_backup_job d)"

abbreviation find_snapshot :: "db \<Rightarrow> uuid \<Rightarrow> snapshot option" where
  "find_snapshot d i \<equiv> get_row sn_id i (t_snapshot d)"

abbreviation find_backup_item :: "db \<Rightarrow> uuid \<Rightarrow> backup_item option" where
  "find_backup_item d i \<equiv> get_row bi_id i (t_backup_item d)"

abbreviation find_vlan_request :: "db \<Rightarrow> uuid \<Rightarrow> vlan_request option" where
  "find_vlan_request d i \<equiv> get_row vr_id i (t_vlan_request d)"

abbreviation find_vlan_device :: "db \<Rightarrow> uuid \<Rightarrow> vlan_device option" where
  "find_vlan_device d i \<equiv> get_row vd_id i (t_vlan_device d)"

abbreviation find_lab_validation :: "db \<Rightarrow> uuid \<Rightarrow> lab_validation option" where
  "find_lab_validation d i \<equiv> get_row lv_id i (t_lab_validation d)"

abbreviation find_device_lock :: "db \<Rightarrow> uuid \<Rightarrow> device_lock option" where
  "find_device_lock d i \<equiv> get_row dl_device_id i (t_device_lock d)"

abbreviation find_credential_secret :: "db \<Rightarrow> uuid \<Rightarrow> credential_secret option" where
  "find_credential_secret d i \<equiv> get_row sec_id i (t_credential_secret d)"

abbreviation find_audit_log :: "db \<Rightarrow> uuid \<Rightarrow> audit_log option" where
  "find_audit_log d i \<equiv> get_row al_id i (t_audit_log d)"

abbreviation find_change_execution :: "db \<Rightarrow> uuid \<Rightarrow> change_execution option" where
  "find_change_execution d i \<equiv> get_row ce_id i (t_change_execution d)"

abbreviation find_change_step :: "db \<Rightarrow> uuid \<Rightarrow> change_step option" where
  "find_change_step d i \<equiv> get_row st_id i (t_change_step d)"

abbreviation find_change_lock :: "db \<Rightarrow> uuid \<Rightarrow> change_lock option" where
  "find_change_lock d i \<equiv> get_row lk_id i (t_change_lock d)"

abbreviation find_change_approval :: "db \<Rightarrow> uuid \<Rightarrow> change_approval option" where
  "find_change_approval d i \<equiv> get_row ap_id i (t_change_approval d)"

abbreviation find_change_event :: "db \<Rightarrow> uuid \<Rightarrow> change_event option" where
  "find_change_event d i \<equiv> get_row ev_id i (t_change_event d)"

abbreviation find_lab_transcript :: "db \<Rightarrow> uuid \<Rightarrow> lab_transcript option" where
  "find_lab_transcript d i \<equiv> get_row lt_id i (t_lab_transcript d)"

abbreviation find_checklist_item :: "db \<Rightarrow> uuid \<Rightarrow> checklist_item option" where
  "find_checklist_item d i \<equiv> get_row li_id i (t_checklist_item d)"

abbreviation find_vlan_approval :: "db \<Rightarrow> uuid \<Rightarrow> vlan_approval option" where
  "find_vlan_approval d i \<equiv> get_row va_id i (t_vlan_approval d)"

abbreviation find_vlan_event :: "db \<Rightarrow> uuid \<Rightarrow> vlan_event option" where
  "find_vlan_event d i \<equiv> get_row ve_id i (t_vlan_event d)"

abbreviation find_snapshot_diff :: "db \<Rightarrow> uuid \<Rightarrow> snapshot_diff option" where
  "find_snapshot_diff d i \<equiv> get_row sd_id i (t_snapshot_diff d)"

abbreviation find_restore_plan :: "db \<Rightarrow> uuid \<Rightarrow> restore_plan option" where
  "find_restore_plan d i \<equiv> get_row rs_id i (t_restore_plan d)"

abbreviation find_credential :: "db \<Rightarrow> uuid \<Rightarrow> credential option" where
  "find_credential d i \<equiv> get_row cr_id i (t_credential d)"

abbreviation find_credential_assignment :: "db \<Rightarrow> uuid \<Rightarrow> credential_assignment option" where
  "find_credential_assignment d i \<equiv> get_row ca_id i (t_credential_assignment d)"

abbreviation find_rollout_batch :: "db \<Rightarrow> uuid \<Rightarrow> rollout_batch option" where
  "find_rollout_batch d i \<equiv> get_row rb_id i (t_rollout_batch d)"

abbreviation find_rollout_task :: "db \<Rightarrow> uuid \<Rightarrow> rollout_task option" where
  "find_rollout_task d i \<equiv> get_row rk_id i (t_rollout_task d)"

abbreviation find_password_secret :: "db \<Rightarrow> uuid \<Rightarrow> password_secret option" where
  "find_password_secret d i \<equiv> get_row ps_id i (t_password_secret d)"

abbreviation find_config_backup :: "db \<Rightarrow> uuid \<Rightarrow> config_backup option" where
  "find_config_backup d i \<equiv> get_row cb_id i (t_config_backup d)"

abbreviation find_backup_schedule :: "db \<Rightarrow> uuid \<Rightarrow> backup_schedule option" where
  "find_backup_schedule d i \<equiv> get_row bc_id i (t_backup_schedule d)"

abbreviation find_import_batch :: "db \<Rightarrow> uuid \<Rightarrow> import_batch option" where
  "find_import_batch d i \<equiv> get_row ib_id i (t_import_batch d)"

abbreviation find_import_row :: "db \<Rightarrow> uuid \<Rightarrow> import_row option" where
  "find_import_row d i \<equiv> get_row ir_id i (t_import_row d)"

text \<open>\<open>uuid.uuid4()\<close>\<close>

definition fresh_id :: "(db, uuid) action" where
  "fresh_id d = (Inr (db_next_id d), d\<lparr>db_next_id := db_next_id d + 1\<rparr>)"

text \<open>
  Arguments of type \<open>str | UUID\<close> (app/repositories/__init__.py): a parsed identifier passes, a text
  is parsed.
\<close>

datatype ref = RefId uuid | RefText string

fun ref_str :: "ref \<Rightarrow> string" where
  "ref_str (RefId u) = uuid_str u"
| "ref_str (RefText s) = s"

fun coerce_ref :: "string \<Rightarrow> ref \<Rightarrow> error + uuid" where
  "coerce_ref object_name (RefId u) = Inr u"
| "coerce_ref object_name (RefText s) = coerce_uuid object_name s"

definition optional_ref :: "string \<Rightarrow> ref option \<Rightarrow> error + uuid option" where
  "optional_ref object_name r =
     (case r of
        None \<Rightarrow> Inr None
      | Some v \<Rightarrow> (case coerce_ref object_name v of Inl e \<Rightarrow> Inl e | Inr u \<Rightarrow> Inr (Some u)))"

text \<open>\<open>coerce_uuid\<close>, \<open>session.get\<close> and the error when there is no row.\<close>

definition get_by_ref :: "(db \<Rightarrow> uuid \<Rightarrow> 'r option) \<Rightarrow> string \<Rightarrow> ref \<Rightarrow> (db, 'r) action" where
  "get_by_ref look object_name r =
     query (\<lambda>d. case coerce_ref object_name r of
                  Inl e \<Rightarrow> Inl e
                | Inr i \<Rightarrow> (case look d i of
                            None \<Rightarrow> Inl (NotFoundError (object_name @ '' '' @ ref_str r @ '' not found''))
                          | Some row \<Rightarrow> Inr row))"

lemma fresh_id_Inr [simp]:
  "fresh_id s = (Inr i, s') \<longleftrightarrow> i = db_next_id s \<and> s' = s\<lparr>db_next_id := db_next_id s + 1\<rparr>"
  by (auto simp: fresh_id_def)

lemma get_by_ref_Inr:
  "get_by_ref look name r s = (Inr row, s') \<longleftrightarrow>
     s' = s \<and> (\<exists>i. coerce_ref name r = Inr i \<and> look s i = Some row)"
  by (auto simp: get_by_ref_def split: sum.splits option.splits)

lemma get_by_ref_state [simp]: "snd (get_by_ref look name r s) = s"
  by (simp add: get_by_ref_def query_def)

text \<open>A text that an identifier prints as leads to the row of that identifier.\<close>

lemma coerce_ref_text: "u < 2 ^ 128 \<Longrightarrow> coerce_ref name (RefText (uuid_str u)) = Inr u"
  by (simp add: coerce_uuid_def uuid_of_string_str)

text \<open>
  Ordering by a column; rows with equal keys keep their order, and rows without a value come last.
\<close>

definition by_time :: "('r \<Rightarrow> datetime) \<Rightarrow> 'r list \<Rightarrow> 'r list" where
  "by_time created rows = sort_key (\<lambda>r. instant (created r)) rows"

definition order_by_opt :: "('r \<Rightarrow> string option) \<Rightarrow> 'r list \<Rightarrow> 'r list" where
  "order_by_opt col rows = sort_key (\<lambda>r. or_empty (col r)) (filter (\<lambda>r. col r \<noteq> None) rows) @ filter (\<lambda>r. col r = None) rows"

end
