(* ===== verification/Endpoints.thy ===== *)
theory Endpoints
  imports Rbac Db
begin

text \<open>
  What the endpoints of app/api/v1 share: the session of a request (app/api/deps.py), the permission check
  at the start of every handler, and the exception handlers of app/main.py.
\<close>

text \<open>
  \<open>endpoint\<close> is what every handler does before it calls the service (the permission) and what
  \<open>get_db\<close> does around it (commit or roll back).
\<close>

definition endpoint :: "permission \<Rightarrow> actor \<Rightarrow> (db, 'a) action \<Rightarrow> (db, 'a) action" where
  "endpoint p a m = committed (andThen (query (\<lambda>_. require_permission a p)) (\<lambda>_. m))"

text \<open>\<open>try: ... except NotFoundError as exc: raise HTTPException(...)\<close> and the like: an exception is turned into another.\<close>

definition catching :: "(error \<Rightarrow> error) \<Rightarrow> ('s, 'a) action \<Rightarrow> ('s, 'a) action" where
  "catching f m s = (case m s of (Inl e, s') \<Rightarrow> (Inl (f e), s') | (Inr x, s') \<Rightarrow> (Inr x, s'))"

fun not_found_404 :: "error \<Rightarrow> error" where
  "not_found_404 (NotFoundError m) = HTTPException 404 m"
| "not_found_404 e = e"

fun safety_409 :: "error \<Rightarrow> error" where
  "safety_409 e = (if is_safety_error e then HTTPException 409 (err_str e) else e)"

text \<open>The status code of the reply to an exception; 500 when no handler is registered.\<close>

fun status_code :: "error \<Rightarrow> int" where
  "status_code (ApprovalRequiredError _) = 403"
| "status_code (ConflictError _) = 409"
| "status_code (NotFoundError _) = 404"
| "status_code (HTTPException c _) = c"
| "status_code e = (if is_safety_error e then 409 else 500)"

lemma catching_Inr [simp]: "catching f m s = (Inr x, s') \<longleftrightarrow> m s = (Inr x, s')"
  by (auto simp: catching_def split: prod.splits sum.splits)

lemma endpoint_Inr: "endpoint p a m s = (Inr x, s') \<longleftrightarrow> p \<in> permissions a \<and> m s = (Inr x, s')"
  by (auto simp: endpoint_def committed_Inr andThen_Inr)

lemma endpoint_Inl: "endpoint p a m s = (Inl e, s') \<Longrightarrow> s' = s"
  by (auto simp: endpoint_def dest: committed_Inl)

end
