(* ===== verification/HeaderActors.thy ===== *)
theory HeaderActors
  imports Rbac
begin

text \<open>
  The actors of the endpoints that insist on the \<open>X-Actor\<close> and \<open>X-Roles\<close> headers: credential vault, lab
  apply, driver runtime, observability and operator console (app/api/v1).  Unlike
  \<open>get_current_actor\<close> they grant nothing to a request without headers.
\<close>

text \<open>What the five have in common: the messages, and what an unknown role name raises.\<close>

definition header_actor ::
  "string \<Rightarrow> string \<Rightarrow> (error \<Rightarrow> error) \<Rightarrow> string option \<Rightarrow> string option \<Rightarrow> error + actor" where
  "header_actor no_headers no_role bad_role x_actor x_roles =
     (case (x_actor, x_roles) of
        (Some name, Some raw) \<Rightarrow>
          if name = [] \<or> raw = [] then Inl (ApprovalRequiredError no_headers)
          else (case add_roles (split_on (CHR '','') raw) {} of
                  Inl e \<Rightarrow> Inl (bad_role e)
                | Inr rs \<Rightarrow> if rs = {} then Inl (ApprovalRequiredError no_role)
                           else Inr \<lparr>username = name, roles = rs\<rparr>)
      | _ \<Rightarrow> Inl (ApprovalRequiredError no_headers))"

definition get_credential_vault_actor :: "string option \<Rightarrow> string option \<Rightarrow> error + actor" where
  "get_credential_vault_actor =
     header_actor ''Credential vault endpoints require an authenticated actor and role''
       ''Credential vault endpoints require at least one role''
       (\<lambda>e. ApprovalRequiredError ''Credential vault endpoints require valid actor roles'')"

definition get_lab_apply_actor :: "string option \<Rightarrow> string option \<Rightarrow> error + actor" where
  "get_lab_apply_actor =
     header_actor ''Lab apply endpoints require an authenticated actor and role''
       ''Lab apply endpoints require at least one role''
       (\<lambda>e. ApprovalRequiredError ''Lab apply endpoints require valid actor roles'')"

definition get_driver_runtime_actor :: "string option \<Rightarrow> string option \<Rightarrow> error + actor" where
  "get_driver_runtime_actor =
     header_actor ''Driver runtime endpoints require authenticated actor headers''
       ''Driver runtime endpoints require at least one role'' (\<lambda>e. e)"

definition get_observability_actor :: "string option \<Rightarrow> string option \<Rightarrow> error + actor" where
  "get_observability_actor =
     header_actor ''Observability endpoints require authenticated actor headers''
       ''Observability endpoints require at least one role'' (\<lambda>e. e)"

definition get_operator_console_actor :: "string option \<Rightarrow> string option \<Rightarrow> error + actor" where
  "get_operator_console_actor =
     header_actor ''Operator console requires authenticated actor headers''
       ''Operator console requires at least one role'' (\<lambda>e. e)"

lemmas header_actor_defs = get_credential_vault_actor_def get_lab_apply_actor_def get_driver_runtime_actor_def
  get_observability_actor_def get_operator_console_actor_def

lemma header_actor_Inr:
  "header_actor m m' f x_actor x_roles = Inr a \<longleftrightarrow>
     (\<exists>raw. x_roles = Some raw \<and> raw \<noteq> [] \<and> x_actor = Some (username a) \<and> username a \<noteq> [] \<and>
        set (tokens (split_on (CHR '','') raw)) \<subseteq> range role_value \<and>
        roles a = {r. role_value r \<in> set (tokens (split_on (CHR '','') raw))} \<and> roles a \<noteq> {})"
proof (cases x_roles)
  case (Some raw)
  let ?parts = "split_on (CHR '','') raw"
  show ?thesis
  proof (cases "add_roles ?parts {}")
    case (Inl e)
    then have "\<not> set (tokens ?parts) \<subseteq> range role_value" using add_roles_Inr [of ?parts "{}"] by auto
    with Inl Some show ?thesis by (auto simp: header_actor_def split: option.splits)
  next
    case (Inr rs)
    then have "set (tokens ?parts) \<subseteq> range role_value" "rs = {r. role_value r \<in> set (tokens ?parts)}"
      by (simp_all add: add_roles_Inr)
    with Inr Some show ?thesis by (cases a) (auto simp: header_actor_def split: option.splits)
  qed
qed (auto simp: header_actor_def split: option.splits)

text \<open>
  The endpoints with their own actor grant exactly what the headers say: a request is let in if and
  only if both headers are there and not empty, every role named is a role and at least one is named; the
  actor then has the header's name and exactly the named roles.  The five endpoint groups agree on it.
\<close>

theorem header_actors_exact:
  assumes "get \<in> {get_credential_vault_actor, get_lab_apply_actor, get_driver_runtime_actor,
             get_observability_actor, get_operator_console_actor}"
  shows "get x_actor x_roles = Inr a \<longleftrightarrow>
     (\<exists>raw. x_roles = Some raw \<and> raw \<noteq> [] \<and> x_actor = Some (username a) \<and> username a \<noteq> [] \<and>
        set (tokens (split_on (CHR '','') raw)) \<subseteq> range role_value \<and>
        roles a = {r. role_value r \<in> set (tokens (split_on (CHR '','') raw))} \<and> roles a \<noteq> {})"
  using assms by (auto simp: header_actor_defs header_actor_Inr)

theorem header_actors_exact_witness:
  "get_lab_apply_actor (Some ''ann'') (Some ''network_admin'') = Inr \<lparr>username = ''ann'', roles = {Role_network_admin}\<rparr>"
proof -
  have eq: "{r. role_value r = ''network_admin''} = {Role_network_admin}"
  proof -
    have "role_value r = ''network_admin'' \<longleftrightarrow> r = Role_network_admin" for r by (cases r) simp_all
    then show ?thesis by simp
  qed
  have "tokens (split_on (CHR '','') ''network_admin'') = [''network_admin'']" by code_simp
  moreover have "''network_admin'' \<in> range role_value" by (rule range_eqI [of _ _ Role_network_admin]) simp
  ultimately show ?thesis by (subst header_actors_exact) (simp_all add: eq)
qed

end
