(* ===== verification/LabValidations.thy ===== *)
theory LabValidations
  imports Db
begin

text \<open>
  app/repositories/lab_validations.py: the lab validations of drivers, and the matching of a
  device's model against a validation's pattern.  \<open>fnmatch.fnmatch\<close> of the standard library is
  modelled as its translation reads: \<open>*\<close>, \<open>?\<close>, bracketed sets with ranges and \<open>!\<close>, everything
  else literally, case-sensitive on POSIX.
\<close>

section \<open>Shell patterns\<close>

datatype glob = GAny | GOne | GSet bool "(char \<times> char) list" | GChar char

text \<open>The items of a bracketed set, as inclusive ranges; a range the wrong way round is empty.\<close>

fun set_items :: "string \<Rightarrow> (char \<times> char) list" where
  "set_items (a # m # b # cs) =
     (if m = CHR ''-'' then (a, b) # set_items cs else (a, a) # set_items (m # b # cs))"
| "set_items (a # cs) = (a, a) # set_items cs"
| "set_items [] = []"

text \<open>The text of a set that opens just before \<open>cs\<close>, and what follows its closing bracket.\<close>

definition bracket :: "string \<Rightarrow> (string \<times> string) option" where
  "bracket cs =
     (let skip = (case cs of
                    [] \<Rightarrow> 0
                  | c # r \<Rightarrow> if c = CHR ''!'' then (case r of d # _ \<Rightarrow> if d = CHR '']'' then 2 else 1 | [] \<Rightarrow> 1)
                            else if c = CHR '']'' then 1 else 0);
          body = takeWhile (\<lambda>c. c \<noteq> CHR '']'') (drop skip cs)
      in if skip + length body < length cs
         then Some (take (skip + length body) cs, drop (Suc (skip + length body)) cs) else None)"

definition glob_set :: "string \<Rightarrow> glob" where
  "glob_set stuff =
     (case stuff of
        c # r \<Rightarrow> if c = CHR ''!'' then GSet True (set_items r) else GSet False (set_items stuff)
      | [] \<Rightarrow> GSet False [])"

lemma bracket_shorter: "bracket cs = Some (stuff, rest) \<Longrightarrow> length rest < Suc (length cs)"
  by (auto simp: bracket_def Let_def split: if_splits)

function glob_parse :: "string \<Rightarrow> glob list" where
  "glob_parse [] = []"
| "glob_parse (c # cs) =
     (if c = CHR ''*'' then GAny # glob_parse cs
      else if c = CHR ''?'' then GOne # glob_parse cs
      else if c = CHR ''['' then
        (case bracket cs of
           None \<Rightarrow> GChar c # glob_parse cs
         | Some (stuff, rest) \<Rightarrow> glob_set stuff # glob_parse rest)
      else GChar c # glob_parse cs)"
  by pat_completeness auto

termination
  by (relation "measure length") (auto dest: bracket_shorter)

fun glob_one :: "glob \<Rightarrow> char \<Rightarrow> bool" where
  "glob_one GAny c = False"
| "glob_one GOne c = True"
| "glob_one (GSet neg items) c =
     (neg \<noteq> (\<exists>(lo, hi)\<in>set items. (of_char lo :: nat) \<le> of_char c \<and> (of_char c :: nat) \<le> of_char hi))"
| "glob_one (GChar d) c = (c = d)"

fun glob_match :: "glob list \<Rightarrow> string \<Rightarrow> bool" where
  "glob_match [] s = (s = [])"
| "glob_match (GAny # gs) [] = glob_match gs []"
| "glob_match (GAny # gs) (c # cs) = (glob_match gs (c # cs) \<or> glob_match (GAny # gs) cs)"
| "glob_match (g # gs) [] = False"
| "glob_match (g # gs) (c # cs) = (glob_one g c \<and> glob_match gs cs)"

definition fnmatch :: "string \<Rightarrow> string \<Rightarrow> bool" where
  "fnmatch name pat = glob_match (glob_parse pat) name"

section \<open>Matching a model\<close>

definition normalize_match_value :: "string \<Rightarrow> string" where
  "normalize_match_value value = str_join '' '' (split_words (str_strip (casefold value)))"

definition model_matches :: "string option \<Rightarrow> string \<Rightarrow> bool" where
  "model_matches pattern model =
     (case pattern of
        None \<Rightarrow> True
      | Some p \<Rightarrow> if str_strip p = [] then True
                  else fnmatch (normalize_match_value model) (normalize_match_value p))"

section \<open>The repository\<close>

definition upd_lab_validation :: "uuid \<Rightarrow> (lab_validation \<Rightarrow> lab_validation) \<Rightarrow> db \<Rightarrow> db" where
  "upd_lab_validation i f d = d\<lparr>t_lab_validation := upd_row lv_id i f (t_lab_validation d)\<rparr>"

definition create_lab_validation ::
  "int \<Rightarrow> string \<Rightarrow> string \<Rightarrow> string \<Rightarrow> string option \<Rightarrow> string option \<Rightarrow> string option \<Rightarrow> string option \<Rightarrow>
   datetime option \<Rightarrow> (db, lab_validation) action" where
  "create_lab_validation now vendor driver_name capability platform model_pattern lab_environment
     evidence_summary expires_at =
     andThen fresh_id (\<lambda>i.
       let v = \<lparr>lv_id = i, lv_vendor = vendor, lv_platform = platform, lv_model_pattern = model_pattern,
          lv_driver_name = driver_name, lv_capability = capability, lv_status = ''pending'',
          lv_validated_by = None, lv_validated_at = None, lv_expires_at = expires_at,
          lv_lab_environment = lab_environment, lv_evidence_summary = evidence_summary,
          lv_transcript_id = None, lv_created_at = Aware now, lv_updated_at = Aware now\<rparr>
       in andThen (change (\<lambda>d. d\<lparr>t_lab_validation := t_lab_validation d @ [v]\<rparr>)) (\<lambda>_. ret v))"

definition get_lab_validation :: "ref \<Rightarrow> (db, lab_validation) action" where
  "get_lab_validation = get_by_ref find_lab_validation ''Lab validation''"

definition matches_filter :: "string option \<Rightarrow> string \<Rightarrow> bool" where
  "matches_filter wanted value \<longleftrightarrow> wanted = None \<or> wanted = Some value"

definition list_lab_validations ::
  "string option \<Rightarrow> string option \<Rightarrow> string option \<Rightarrow> string option \<Rightarrow> db \<Rightarrow> lab_validation list" where
  "list_lab_validations vendor driver_name capability status d =
     rev (sort_key (\<lambda>v. instant (lv_created_at v))
       (filter (\<lambda>v. matches_filter vendor (lv_vendor v) \<and> matches_filter driver_name (lv_driver_name v) \<and>
                   matches_filter capability (lv_capability v) \<and> matches_filter status (lv_status v))
          (t_lab_validation d)))"

definition unexpired :: "int \<Rightarrow> lab_validation \<Rightarrow> bool" where
  "unexpired now v = (case lv_expires_at v of
     None \<Rightarrow> True | Some t \<Rightarrow> \<not> instant (comparable_datetime t) \<le> now)"

definition find_approved ::
  "int \<Rightarrow> string \<Rightarrow> string \<Rightarrow> string \<Rightarrow> string \<Rightarrow> db \<Rightarrow> lab_validation option" where
  "find_approved now vendor model driver_name capability d =
     find (\<lambda>v. normalize_match_value (lv_vendor v) = normalize_match_value vendor \<and>
              unexpired now v \<and> model_matches (lv_model_pattern v) model)
       (list_lab_validations None (Some driver_name) (Some capability) (Some ''approved'') d)"

definition matching_approved_candidates ::
  "string \<Rightarrow> string \<Rightarrow> string option \<Rightarrow> db \<Rightarrow> lab_validation list" where
  "matching_approved_candidates vendor driver_name capability d =
     filter (\<lambda>v. normalize_match_value (lv_vendor v) = normalize_match_value vendor)
       (list_lab_validations None (Some driver_name) capability (Some ''approved'') d)"

text \<open>An assignment to a validation; the flush sets \<open>updated_at\<close> (\<open>onupdate\<close>).\<close>

definition update_lab_validation ::
  "int \<Rightarrow> ref \<Rightarrow> (lab_validation \<Rightarrow> lab_validation) \<Rightarrow> (db, lab_validation) action" where
  "update_lab_validation now r f =
     (let g = (\<lambda>v. (f v)\<lparr>lv_updated_at := Aware now\<rparr>)
      in andThen (get_lab_validation r) (\<lambda>v.
         andThen (change (upd_lab_validation (lv_id v) g)) (\<lambda>_. ret (g v))))"

definition mark_approved ::
  "int \<Rightarrow> ref \<Rightarrow> string \<Rightarrow> string option \<Rightarrow> datetime option \<Rightarrow> (db, lab_validation) action" where
  "mark_approved now r validated_by evidence_summary expires_at =
     update_lab_validation now r (\<lambda>v. v\<lparr>lv_status := ''approved'', lv_validated_by := Some validated_by,
       lv_validated_at := Some (Aware now),
       lv_expires_at := (if expires_at \<noteq> None then expires_at else lv_expires_at v),
       lv_evidence_summary := (if evidence_summary \<noteq> None then evidence_summary else lv_evidence_summary v)\<rparr>)"

definition mark_rejected :: "int \<Rightarrow> ref \<Rightarrow> string \<Rightarrow> string option \<Rightarrow> (db, lab_validation) action" where
  "mark_rejected now r validated_by evidence_summary =
     update_lab_validation now r (\<lambda>v. v\<lparr>lv_status := ''rejected'', lv_validated_by := Some validated_by,
       lv_validated_at := Some (Aware now),
       lv_evidence_summary := (if evidence_summary \<noteq> None then evidence_summary else lv_evidence_summary v)\<rparr>)"

definition mark_expired :: "int \<Rightarrow> ref \<Rightarrow> (db, lab_validation) action" where
  "mark_expired now r =
     update_lab_validation now r (\<lambda>v. v\<lparr>lv_status := ''expired'', lv_expires_at := Some (Aware now)\<rparr>)"

definition update_transcript :: "int \<Rightarrow> ref \<Rightarrow> ref option \<Rightarrow> (db, lab_validation) action" where
  "update_transcript now r transcript =
     andThen (get_lab_validation r) (\<lambda>_.
     andThen (query (\<lambda>_. optional_ref ''Lab validation transcript'' transcript)) (\<lambda>t.
       update_lab_validation now r (\<lambda>v. v\<lparr>lv_transcript_id := t\<rparr>)))"

section \<open>The table as a row store\<close>

interpretation lab_table: row_store find_lab_validation upd_lab_validation lv_id
  by unfold_locales (auto simp: upd_lab_validation_def get_upd_row dest: get_row_key)

section \<open>Facts\<close>

lemma glob_match_append_any: "glob_match (map GChar p @ [GAny]) s \<longleftrightarrow> prefix p s"
proof (induction p arbitrary: s)
  case Nil
  have "glob_match [GAny] t" for t by (induction t) auto
  then show ?case by simp
next
  case (Cons a p)
  then show ?case by (cases s) auto
qed

lemma glob_match_literal: "glob_match (map GChar p) s \<longleftrightarrow> s = p"
proof (induction p arbitrary: s)
  case (Cons a p)
  then show ?case by (cases s) auto
qed simp

lemma glob_parse_literal:
  "set p \<inter> set ''*?['' = {} \<Longrightarrow> glob_parse (p @ q) = map GChar p @ glob_parse q"
  by (induction p) auto

lemma find_approved_iff:
  "find_approved now vendor model driver capability d = None \<longleftrightarrow>
     (\<forall>v\<in>set (t_lab_validation d). \<not> (lv_status v = ''approved'' \<and> lv_driver_name v = driver \<and>
        lv_capability v = capability \<and> unexpired now v \<and>
        normalize_match_value (lv_vendor v) = normalize_match_value vendor \<and>
        model_matches (lv_model_pattern v) model))"
  by (auto simp: find_approved_def find_None_iff list_lab_validations_def matches_filter_def)

lemma find_Some_mem: "find P xs = Some x \<Longrightarrow> x \<in> set xs \<and> P x"
  by (auto simp: find_Some_iff)

lemma find_approved_Some:
  "find_approved now vendor model driver capability d = Some v \<Longrightarrow>
     v \<in> set (t_lab_validation d) \<and> lv_status v = ''approved'' \<and> lv_driver_name v = driver \<and>
     lv_capability v = capability \<and> unexpired now v \<and>
     normalize_match_value (lv_vendor v) = normalize_match_value vendor \<and>
     model_matches (lv_model_pattern v) model"
  by (auto simp: find_approved_def list_lab_validations_def matches_filter_def dest!: find_Some_mem)

lemma update_lab_validation_row:
  assumes "update_lab_validation now r f s = (Inr v, s')" "\<And>v. lv_id (f v) = lv_id v"
  obtains i w where "coerce_ref ''Lab validation'' r = Inr i" "find_lab_validation s i = Some w"
    "v = (f w)\<lparr>lv_updated_at := Aware now\<rparr>" "find_lab_validation s' i = Some v"
    "\<And>j. j \<noteq> i \<Longrightarrow> find_lab_validation s' j = find_lab_validation s j"
proof -
  let ?g = "\<lambda>v. (f v)\<lparr>lv_updated_at := Aware now\<rparr>"
  from assms(1) obtain i w where i: "coerce_ref ''Lab validation'' r = Inr i"
    and w: "find_lab_validation s i = Some w" and v: "v = ?g w"
    and s': "s' = upd_lab_validation (lv_id w) ?g s"
    by (auto simp: update_lab_validation_def get_lab_validation_def andThen_Inr get_by_ref_Inr Let_def)
  have key: "lv_id w = i" using w by (rule lab_table.get_key)
  have g: "\<And>v. lv_id (?g v) = lv_id v" using assms(2) by simp
  from lab_table.get_upd_same [OF g w] have "find_lab_validation s' i = Some v"
    by (simp add: s' key v)
  moreover have "j \<noteq> i \<Longrightarrow> find_lab_validation s' j = find_lab_validation s j" for j
    using lab_table.get_upd_other [OF g, of i j s] by (simp add: s' key)
  ultimately show ?thesis using that i w v by blast
qed

section \<open>Properties\<close>

text \<open>
  An approved validation is found exactly when there is one: \<open>find_approved\<close> answers with a
  stored validation that is approved, not expired, of the driver and capability asked for, of
  the same vendor up to case and blanks and whose pattern matches the model; and it answers
  nothing only when no stored validation is all of that.
\<close>

theorem find_approved_exact:
  "(case find_approved now vendor model driver capability d of
      Some v \<Rightarrow> v \<in> set (t_lab_validation d) \<and> lv_status v = ''approved'' \<and> unexpired now v \<and>
         lv_driver_name v = driver \<and> lv_capability v = capability \<and>
         normalize_match_value (lv_vendor v) = normalize_match_value vendor \<and>
         model_matches (lv_model_pattern v) model
    | None \<Rightarrow> (\<nexists>v. v \<in> set (t_lab_validation d) \<and> lv_status v = ''approved'' \<and> unexpired now v \<and>
         lv_driver_name v = driver \<and> lv_capability v = capability \<and>
         normalize_match_value (lv_vendor v) = normalize_match_value vendor \<and>
         model_matches (lv_model_pattern v) model))"
  using find_approved_Some [of now vendor model driver capability d]
    find_approved_iff [of now vendor model driver capability d]
  by (auto split: option.splits)

text \<open>
  How a model pattern reads.  No pattern, or a blank one, matches every model; a pattern
  without wildcard characters matches the models equal to it up to case and blanks; and one
  that ends in its only wildcard, a star, matches the models that begin with the rest.
\<close>

theorem model_matches_patterns:
  "model_matches None m \<and>
   (str_strip p = [] \<longrightarrow> model_matches (Some p) m) \<and>
   (str_strip p \<noteq> [] \<and> set (normalize_match_value p) \<inter> set ''*?['' = {} \<longrightarrow>
      (model_matches (Some p) m \<longleftrightarrow> normalize_match_value m = normalize_match_value p)) \<and>
   (str_strip p \<noteq> [] \<and> normalize_match_value p = q @ ''*'' \<and> set q \<inter> set ''*?['' = {} \<longrightarrow>
      (model_matches (Some p) m \<longleftrightarrow> prefix q (normalize_match_value m)))"
  using glob_parse_literal [of "normalize_match_value p" "[]"] glob_parse_literal [of q "''*''"]
  by (auto simp: model_matches_def fnmatch_def glob_match_literal glob_match_append_any)

theorem model_matches_patterns_witness:
  "model_matches (Some ''WS-C2960*'') ''ws-c2960  x'' \<and> \<not> model_matches (Some ''S5700'') ''S6700''"
proof
  have n: "normalize_match_value ''WS-C2960*'' = ''ws-c2960'' @ ''*''"
    "normalize_match_value ''ws-c2960  x'' = ''ws-c2960 x''" by code_simp+
  have strip: "str_strip ''WS-C2960*'' \<noteq> []" by code_simp
  show "model_matches (Some ''WS-C2960*'') ''ws-c2960  x''"
    using model_matches_patterns [of "''ws-c2960  x''" "''WS-C2960*''" "''ws-c2960''"] n strip by simp
  have n: "normalize_match_value ''S5700'' = ''s5700''" "normalize_match_value ''S6700'' = ''s6700''"
    by code_simp+
  have strip: "str_strip ''S5700'' \<noteq> []" by code_simp
  show "\<not> model_matches (Some ''S5700'') ''S6700''"
    using model_matches_patterns [of "''S6700''" "''S5700''"] n strip by simp
qed

end
