(* ===== verification/Progress.thy ===== *)
theory Progress
  imports Actions
begin

text \<open>
  Relations between the state before and after an action that hold whether it returns or raises.
  The locale \<open>progress\<close> is the interface: the relation is a preorder, and then whatever is built
  from steps within it is within it.
\<close>

definition within :: "('s \<Rightarrow> 's \<Rightarrow> bool) \<Rightarrow> ('s, 'a) action \<Rightarrow> bool" where
  "within le m \<longleftrightarrow> (\<forall>s. le s (snd (m s)))"

lemma withinD: "within le m \<Longrightarrow> m s = (x, s') \<Longrightarrow> le s s'"
  by (metis within_def snd_conv)

lemma within_change: "(\<And>s. le s (f s)) \<Longrightarrow> within le (change f)"
  by (simp add: within_def change_def)

lemma within_weaken: "within le m \<Longrightarrow> (\<And>s s'. le s s' \<Longrightarrow> le' s s') \<Longrightarrow> within le' m"
  by (simp add: within_def)

locale progress =
  fixes le :: "'s \<Rightarrow> 's \<Rightarrow> bool"
  assumes le_refl: "le s s"
    and le_trans: "le s t \<Longrightarrow> le t u \<Longrightarrow> le s u"
begin

lemma within_basic:
  "within le (ret x)" "within le (raise e)" "within le (asks g)" "within le (query h)" "within le (unless b e)"
  by (simp_all add: within_def ret_def raise_def asks_def query_def unless_def le_refl)

lemma within_andThen: "within le m \<Longrightarrow> (\<And>x. within le (f x)) \<Longrightarrow> within le (andThen m f)"
  by (force simp: within_def andThen_def le_refl split: prod.splits sum.splits intro: le_trans)

lemma within_for_each: "(\<And>x. within le (f x)) \<Longrightarrow> within le (for_each f xs)"
  by (induction xs) (auto intro!: within_andThen within_basic)

lemma within_committed: "within le m \<Longrightarrow> within le (committed m)"
  by (auto simp: within_def committed_def le_refl split: prod.splits sum.splits dest: spec [of _ "_ :: 's"])
    (metis snd_conv)

lemma within_if: "within le m \<Longrightarrow> within le m' \<Longrightarrow> within le (if b then m else m')"
  by simp

lemma within_option: "within le m \<Longrightarrow> (\<And>x. within le (f x)) \<Longrightarrow> within le (case o' of None \<Rightarrow> m | Some x \<Rightarrow> f x)"
  by (cases o') auto

lemmas within_intros = within_basic within_andThen within_for_each within_committed within_if within_option

end

section \<open>More rules for triples and tables\<close>

lemma triple_if: "(b \<Longrightarrow> triple P m Q) \<Longrightarrow> (\<not> b \<Longrightarrow> triple P m' Q) \<Longrightarrow> triple P (if b then m else m') Q"
  by simp

lemma triple_unless_then: "(b \<Longrightarrow> triple P (f ()) Q) \<Longrightarrow> triple P (andThen (unless b e) f) Q"
  by (force simp: triple_def andThen_Inr)

lemma triple_seq: "triple P m (\<lambda>_. P) \<Longrightarrow> (\<And>x. triple P (f x) Q) \<Longrightarrow> triple P (andThen m f) Q"
  by (rule triple_andThen)

lemma triple_pull: "(C \<Longrightarrow> triple P m Q) \<Longrightarrow> triple (\<lambda>s. P s \<and> C) m Q"
  by (auto simp: triple_def)

lemma upd_row_keys:
  assumes "\<And>r. key (f r) = key r"
  shows "(\<forall>r\<in>set (upd_row key i f rows). P (key r)) \<longleftrightarrow> (\<forall>r\<in>set rows. P (key r))"
  using map_upd_row [of key f key i rows, OF assms] by (metis (no_types, lifting) image_eqI image_iff list.set_map)

end
