(* ===== verification/ReportSanitizer.thy ===== *)
theory ReportSanitizer
  imports Masking PyValues "HOL-Library.Multiset"
begin

text \<open>
  app/services/report_sanitizer.py: what may leave the platform in reports, exports and vault
  metadata.  A value under a key that names a secret is replaced by the mask; every text is masked.
\<close>

section \<open>Keys\<close>

text \<open>The four key tables.\<close>

definition SAFE_EXACT_KEYS :: "string list" where
  "SAFE_EXACT_KEYS = [''credential_status'', ''credential_summary'', ''invalid_credentials'', ''password_change'',
     ''password_changes'', ''password_rollout'', ''password_rollouts'', ''valid_credentials'',
     ''workflow_counts_by_type'', ''workflow_summary'']"

definition SAFE_COMPACT_KEYS :: "string list" where
  "SAFE_COMPACT_KEYS = [''passwordchange'', ''passwordchanges'', ''passwordrollout'', ''passwordrollouts'']"

definition SECRET_EXACT_KEYS :: "string list" where
  "SECRET_EXACT_KEYS = [''api_key'', ''apikey'', ''auth'', ''authorization'', ''backup_content'', ''candidate_config'',
     ''command_output'', ''config_text'', ''credential'', ''credentials'', ''pass'', ''passwd'', ''password'',
     ''private_key'', ''raw_config'', ''running_config'', ''secret'', ''startup_config'', ''token'']"

definition SECRET_COMPACT_KEYS :: "string list" where
  "SECRET_COMPACT_KEYS = [''apikey'', ''backupcontent'', ''candidateconfig'', ''commandoutput'', ''configtext'',
     ''privatekey'', ''rawconfig'', ''runningconfig'', ''startupconfig'']"

definition key_char :: "char \<Rightarrow> bool" where
  "key_char c \<longleftrightarrow> is_lower c \<or> is_digit c"

text \<open>The substitution for \<open>([a-z0-9])([A-Z])\<close>: an underscore between the two characters of every match.\<close>

fun camel_split :: "string \<Rightarrow> string" where
  "camel_split (a # b # s) =
     (if key_char a \<and> is_upper b then a # CHR ''_'' # b # camel_split s else a # camel_split (b # s))"
| "camel_split s = s"

text \<open>\<open>re.split(r"[^a-z0-9]+", text)\<close>, without the empty pieces; \<open>acc\<close> is the piece being read, reversed.\<close>

fun key_pieces :: "string \<Rightarrow> string \<Rightarrow> string list" where
  "key_pieces acc [] = (if acc = [] then [] else [rev acc])"
| "key_pieces acc (c # s) =
     (if key_char c then key_pieces (c # acc) s
      else (if acc = [] then [] else [rev acc]) @ key_pieces [] s)"

definition key_tokens :: "string \<Rightarrow> string list" where
  "key_tokens key = key_pieces [] (casefold (camel_split key))"

definition is_secret_key :: "string \<Rightarrow> bool" where
  "is_secret_key key =
     (let normalized = casefold key;
          compact = filter key_char normalized;
          ts = set (key_tokens key)
      in if normalized \<in> set SAFE_EXACT_KEYS then False
         else if compact \<in> set SAFE_COMPACT_KEYS then False
         else if normalized \<in> set SECRET_EXACT_KEYS then True
         else if compact \<in> set SECRET_COMPACT_KEYS then True
         else if ts \<inter> {''pass'', ''passwd'', ''password'', ''secret'', ''token''} \<noteq> {} then True
         else if {''api'', ''key''} \<subseteq> ts \<or> ''apikey'' \<in> ts then True
         else if {''private'', ''key''} \<subseteq> ts \<or> ''privatekey'' \<in> ts then True
         else if ''config'' \<in> ts \<and> ts \<inter> {''raw'', ''text'', ''running'', ''startup'', ''candidate''} \<noteq> {} then True
         else if {''command'', ''output''} \<subseteq> ts then True
         else if ''backup'' \<in> ts \<and> ts \<inter> {''content'', ''config'', ''raw''} \<noteq> {} then True
         else if ''credential'' \<in> ts \<and>
              ts \<inter> {''password'', ''secret'', ''token'', ''material'', ''encrypted'', ''private''} \<noteq> {} then True
         else if ts \<inter> {''auth'', ''authorization''} \<noteq> {} \<and>
              ts \<inter> {''password'', ''secret'', ''token'', ''key'', ''material'', ''header''} \<noteq> {} then True
         else False)"

section \<open>Values\<close>

text \<open>
  \<open>sanitize_export_value\<close> without a key, on JSON values; \<open>masked_entry\<close> is the call with a key, and
  an object's entries come out in the order of their keys.
\<close>

fun sanitize_export_value :: "json \<Rightarrow> json" where
  "sanitize_export_value (JObj d) =
     JObj (sort_key fst (map (\<lambda>(k, v). (k, if is_secret_key k then JStr MASK else sanitize_export_value v)) d))"
| "sanitize_export_value (JList xs) = JList (map sanitize_export_value xs)"
| "sanitize_export_value (JStr s) = JStr (mask_secrets [] s)"
| "sanitize_export_value v = v"

definition masked_entry :: "string \<Rightarrow> json \<Rightarrow> json" where
  "masked_entry k v = (if is_secret_key k then JStr MASK else sanitize_export_value v)"

definition sanitize_report_metadata :: "jobj option \<Rightarrow> jobj" where
  "sanitize_report_metadata metadata =
     (case metadata of None \<Rightarrow> [] | Some d \<Rightarrow> sort_key fst (map (\<lambda>(k, v). (k, masked_entry k v)) d))"

definition sanitize_audit_metadata :: "jobj option \<Rightarrow> jobj" where
  "sanitize_audit_metadata = sanitize_report_metadata"

definition sanitize_record :: "jobj \<Rightarrow> jobj" where
  "sanitize_record d = map (\<lambda>(k, v). (k, masked_entry k v)) (sort_key fst d)"

definition sanitize_sequence :: "jobj list \<Rightarrow> jobj list" where
  "sanitize_sequence = map sanitize_record"

section \<open>Facts\<close>

text \<open>
  A value in which, at every depth, every secret key holds the mask and every other text is one
  that \<open>mask_secrets\<close> returned.
\<close>

fun guarded :: "json \<Rightarrow> bool" where
  "guarded (JObj d) \<longleftrightarrow> list_all (\<lambda>(k, v). if is_secret_key k then v = JStr MASK else guarded v) d"
| "guarded (JList xs) \<longleftrightarrow> list_all guarded xs"
| "guarded (JStr s) \<longleftrightarrow> s \<in> range (mask_secrets [])"
| "guarded _ \<longleftrightarrow> True"

lemma guarded_sanitized: "guarded (sanitize_export_value v)"
  by (induction v) (auto simp: list_all_iff)

lemma guarded_entry: "is_secret_key k \<Longrightarrow> masked_entry k v = JStr MASK" "\<not> is_secret_key k \<Longrightarrow> guarded (masked_entry k v)"
  by (simp_all add: masked_entry_def guarded_sanitized)

lemma sort_key_keys: "map f (sort_key f xs) = sort (map f xs)"
  by (metis mset_map mset_sort properties_for_sort sorted_sort_key)

lemma key_pieces_append:
  "\<not> key_char c \<Longrightarrow> key_pieces acc (xs @ c # ys) = key_pieces acc xs @ key_pieces [] ys"
  by (induction xs arbitrary: acc) auto

lemma key_pieces_word: "\<forall>c\<in>set w. key_char c \<Longrightarrow> key_pieces acc w = (if acc = [] \<and> w = [] then [] else [rev acc @ w])"
  by (induction w arbitrary: acc) auto

lemma upper_not_key: "is_upper c \<Longrightarrow> \<not> key_char c"
  by (cases c) (auto simp: key_char_def is_lower_def is_digit_def)

lemma camel_split_sep:
  "\<not> is_upper c \<Longrightarrow> \<not> key_char c \<Longrightarrow> camel_split (p @ c # ys) = camel_split p @ c # camel_split ys"
  by (induction p rule: camel_split.induct) (simp, (cases ys; simp)+)

lemma camel_split_lower: "\<forall>c\<in>set w. key_char c \<Longrightarrow> camel_split w = w"
  by (induction w rule: camel_split.induct) (auto dest: upper_not_key)

definition secret_words :: "string list" where
  "secret_words = [''pass'', ''passwd'', ''password'', ''secret'', ''token'']"

lemma secret_words_lower: "w \<in> set secret_words \<Longrightarrow> \<forall>c\<in>set w. key_char c"
  by (auto simp: secret_words_def key_char_def is_lower_def)

lemma casefold_keys: "\<forall>c\<in>set w. key_char c \<Longrightarrow> casefold w = w"
proof (induction w)
  case (Cons c w)
  then have "\<not> is_upper c" using upper_not_key by auto
  then have "to_lower c = c" by (cases c) auto
  with Cons show ?case by (simp add: casefold_def)
qed (simp add: casefold_def)

lemma to_lower_sep: "\<not> is_upper c \<Longrightarrow> to_lower c = c"
  by (cases c) auto

text \<open>No safe key ends in a secret word.\<close>

lemma safe_not_secret: "list_all (\<lambda>k. list_all (\<lambda>w. \<not> suffix w k) secret_words) (SAFE_EXACT_KEYS @ SAFE_COMPACT_KEYS)"
  by code_simp

lemma word_is_token:
  assumes "w \<in> set secret_words" "\<not> key_char c" "\<not> is_upper c"
  shows "w \<in> set (key_tokens (p @ c # w))"
proof -
  note w = secret_words_lower [OF assms(1)]
  have "key_tokens (p @ c # w) = key_pieces [] (casefold (camel_split p) @ c # w)"
    using assms(2,3) casefold_keys [OF w] to_lower_sep
    by (simp add: key_tokens_def camel_split_sep camel_split_lower [OF w]) (simp add: casefold_def)
  also have "\<dots> = key_pieces [] (casefold (camel_split p)) @ key_pieces [] w"
    using assms(2) by (rule key_pieces_append)
  finally have tokens: "key_tokens (p @ c # w) = \<dots>" .
  have "w \<noteq> []" using assms(1) by (auto simp: secret_words_def)
  with key_pieces_word [OF w, of "[]"] tokens show ?thesis by simp
qed

lemma safe_keys_end:
  "w \<in> set secret_words \<Longrightarrow> suffix w k \<Longrightarrow> k \<notin> set SAFE_EXACT_KEYS \<and> k \<notin> set SAFE_COMPACT_KEYS"
  using safe_not_secret by (auto simp: list_all_iff)

section \<open>Properties\<close>

text \<open>
  Report metadata leave the platform sanitized.  Every input key stays, the keys come out
  sorted, and in the result, at every depth, a key that names a secret holds the mask and every
  other text is one that went through \<open>mask_secrets\<close>.
\<close>

theorem report_metadata_guarded:
  "map fst (sanitize_report_metadata (Some d)) = sort (map fst d) \<and>
   guarded (JObj (sanitize_report_metadata (Some d)))"
proof -
  have "map fst (map (\<lambda>(k, v). (k, masked_entry k v)) d) = map fst d" by (induction d) auto
  then have "map fst (sanitize_report_metadata (Some d)) = sort (map fst d)"
    by (simp only: sanitize_report_metadata_def option.case sort_key_keys)
  moreover have "guarded (JObj (sanitize_report_metadata (Some d)))"
    using guarded_entry by (auto simp: sanitize_report_metadata_def list_all_iff)
  ultimately show ?thesis by simp
qed

text \<open>
  A key of at least two words whose last word is pass, passwd, password, secret or token is
  a secret key, whatever stands before the separator; no safe-key exception applies to it.
\<close>

theorem secret_word_suffix:
  assumes "w \<in> set secret_words" "\<not> key_char c" "\<not> is_upper c"
  shows "is_secret_key (p @ c # w)"
proof -
  note w = secret_words_lower [OF assms(1)]
  let ?key = "p @ c # w"
  have fold: "casefold ?key = casefold p @ to_lower c # w"
    using casefold_keys [OF w] by (simp add: casefold_def)
  have "suffix w (casefold ?key)" "suffix w (filter key_char (casefold ?key))"
    unfolding fold using w by (auto simp: suffix_def filter_id_conv)
  then have safe: "casefold ?key \<notin> set SAFE_EXACT_KEYS" "filter key_char (casefold ?key) \<notin> set SAFE_COMPACT_KEYS"
    using safe_keys_end [OF assms(1)] by blast+
  have "set (key_tokens ?key) \<inter> {''pass'', ''passwd'', ''password'', ''secret'', ''token''} \<noteq> {}"
    using word_is_token [OF assms] assms(1) by (auto simp: secret_words_def)
  then show ?thesis unfolding is_secret_key_def Let_def using safe by (simp only: if_False if_True) simp
qed

theorem secret_word_suffix_witness:
  "is_secret_key (''radius shared'' @ CHR ''-'' # ''secret'') \<and> is_secret_key (''admin'' @ CHR ''_'' # ''password'')
   \<and> \<not> is_secret_key ''password_rollout''"
proof (intro conjI)
  show "is_secret_key (''radius shared'' @ CHR ''-'' # ''secret'')" "is_secret_key (''admin'' @ CHR ''_'' # ''password'')"
    by (rule secret_word_suffix; simp add: secret_words_def key_char_def is_lower_def is_digit_def)+
  show "\<not> is_secret_key ''password_rollout''" by code_simp
qed

end
