(* ===== verification/AuditTrail.thy ===== *)
theory AuditTrail
  imports Db Masking Progress
begin

text \<open>
  app/services/audit_service.py and app/repositories/audit.py: the platform's audit log.  Every
  row is sanitized before it is stored, rows are only ever added, and the log is read in the
  order of the rows' times.
\<close>

section \<open>Sanitizing\<close>

definition AUDIT_SECRET_KEYS :: "string list" where
  "AUDIT_SECRET_KEYS = [''password'', ''enable_password'', ''encrypted_password'',
     ''encrypted_enable_password'', ''secret'', ''token'']"

definition audit_secret_key :: "string \<Rightarrow> bool" where
  "audit_secret_key key \<longleftrightarrow> casefold key \<in> set AUDIT_SECRET_KEYS"

fun audit_sanitize :: "json \<Rightarrow> json" where
  "audit_sanitize (JObj d) =
     JObj (map (\<lambda>(k, v). (k, if audit_secret_key k then JStr ''<redacted>'' else audit_sanitize v)) d)"
| "audit_sanitize (JList xs) = JList (map audit_sanitize xs)"
| "audit_sanitize (JStr s) = JStr (mask_secrets [] s)"
| "audit_sanitize v = v"

text \<open>The call on a dictionary.\<close>

definition audit_sanitize_obj :: "jobj \<Rightarrow> jobj" where
  "audit_sanitize_obj d = map (\<lambda>(k, v). (k, if audit_secret_key k then JStr ''<redacted>'' else audit_sanitize v)) d"

section \<open>The repository\<close>

definition create_audit_row ::
  "int \<Rightarrow> string \<Rightarrow> string \<Rightarrow> string \<Rightarrow> string \<Rightarrow> ref option \<Rightarrow> ref option \<Rightarrow> jobj option \<Rightarrow> jobj option \<Rightarrow>
   jobj \<Rightarrow> (db, audit_log) action" where
  "create_audit_row now actr act object_type object_id device jobref before after metadata =
     andThen (query (\<lambda>_. optional_ref ''Device'' device)) (\<lambda>dev.
     andThen (query (\<lambda>_. optional_ref ''Job'' jobref)) (\<lambda>jb.
     andThen fresh_id (\<lambda>i.
       let event = \<lparr>al_id = i, al_actor = actr, al_action = act, al_object_type = object_type,
          al_object_id = object_id, al_device_id = dev, al_job_id = jb, al_before = before,
          al_after = after, al_extra_metadata = metadata, al_created_at = Aware now\<rparr>
       in andThen (change (\<lambda>d. d\<lparr>t_audit_log := t_audit_log d @ [event]\<rparr>)) (\<lambda>_. ret event))))"

text \<open>A filter with an argument keeps the rows with that value.\<close>

definition wants :: "'a option \<Rightarrow> 'a \<Rightarrow> bool" where
  "wants f v \<longleftrightarrow> f = None \<or> f = Some v"

definition list_audit_rows ::
  "string option \<Rightarrow> string option \<Rightarrow> string option \<Rightarrow> ref option \<Rightarrow> ref option \<Rightarrow> int option \<Rightarrow> int option \<Rightarrow>
   (db, audit_log list) action" where
  "list_audit_rows actr act object_type device jobref date_from date_to =
     andThen (query (\<lambda>_. optional_ref ''Device'' device)) (\<lambda>dev.
     andThen (query (\<lambda>_. optional_ref ''Job'' jobref)) (\<lambda>jb.
       asks (\<lambda>d. sort_key (\<lambda>e. instant (al_created_at e))
         (filter (\<lambda>e. wants actr (al_actor e) \<and> wants act (al_action e) \<and> wants object_type (al_object_type e)
                    \<and> (dev \<noteq> None \<longrightarrow> al_device_id e = dev) \<and> (jb \<noteq> None \<longrightarrow> al_job_id e = jb)
                    \<and> (case date_from of None \<Rightarrow> True | Some t \<Rightarrow> t \<le> instant (al_created_at e))
                    \<and> (case date_to of None \<Rightarrow> True | Some t \<Rightarrow> instant (al_created_at e) \<le> t))
            (t_audit_log d)))))"

section \<open>The service\<close>

definition read_audit_event :: "audit_log \<Rightarrow> jobj" where
  "read_audit_event e =
     [(''id'', JStr (uuid_str (al_id e))), (''actor'', JStr (al_actor e)), (''action'', JStr (al_action e)),
      (''object_type'', JStr (al_object_type e)), (''object_id'', JStr (al_object_id e)),
      (''device_id'', uuid_opt (al_device_id e)), (''job_id'', uuid_opt (al_job_id e)),
      (''before'', obj_opt (al_before e)), (''after'', obj_opt (al_after e)),
      (''metadata'', JObj (al_extra_metadata e)), (''created_at'', JStr (isoformat (al_created_at e)))]"

definition audit_write ::
  "int \<Rightarrow> string \<Rightarrow> string \<Rightarrow> string \<Rightarrow> string \<Rightarrow> ref option \<Rightarrow> ref option \<Rightarrow> jobj option \<Rightarrow> jobj option \<Rightarrow>
   jobj option \<Rightarrow> (db, jobj) action" where
  "audit_write now actr act object_type object_id device jobref before after metadata =
     andThen (create_audit_row now actr act object_type object_id device jobref
        (map_option audit_sanitize_obj before) (map_option audit_sanitize_obj after)
        (audit_sanitize_obj (case metadata of None \<Rightarrow> [] | Some m \<Rightarrow> m)))
     (\<lambda>event. ret (read_audit_event event))"

definition audit_list ::
  "string option \<Rightarrow> string option \<Rightarrow> string option \<Rightarrow> ref option \<Rightarrow> ref option \<Rightarrow> int option \<Rightarrow> int option \<Rightarrow>
   (db, jobj list) action" where
  "audit_list actr act object_type device jobref date_from date_to =
     andThen (list_audit_rows actr act object_type device jobref date_from date_to)
       (\<lambda>rows. ret (map read_audit_event rows))"

definition audit_event :: "string \<Rightarrow> string \<Rightarrow> string \<Rightarrow> string \<Rightarrow> jobj option \<Rightarrow> jobj" where
  "audit_event actr act target result metadata =
     [(''actor'', JStr actr), (''action'', JStr act), (''target'', JStr target), (''result'', JStr result),
      (''metadata'', JObj (audit_sanitize_obj (case metadata of None \<Rightarrow> [] | Some m \<Rightarrow> m)))]"

section \<open>Facts\<close>

text \<open>
  Nothing secret in a stored value: at every depth, the secret keys hold the mark, and every other
  text went through \<open>mask_secrets\<close>.
\<close>

fun audit_clean :: "json \<Rightarrow> bool" where
  "audit_clean (JObj d) \<longleftrightarrow> list_all (\<lambda>(k, v). if audit_secret_key k then v = JStr ''<redacted>'' else audit_clean v) d"
| "audit_clean (JList xs) \<longleftrightarrow> list_all audit_clean xs"
| "audit_clean (JStr s) \<longleftrightarrow> s \<in> range (mask_secrets [])"
| "audit_clean _ \<longleftrightarrow> True"

lemma audit_clean_sanitized: "audit_clean (audit_sanitize v)"
  by (induction v) (auto simp: list_all_iff)

lemma audit_sanitize_obj_eq: "audit_sanitize (JObj d) = JObj (audit_sanitize_obj d)"
  by (simp add: audit_sanitize_obj_def)

lemma audit_clean_obj [simp]: "audit_clean (JObj (audit_sanitize_obj d))"
  using audit_clean_sanitized [of "JObj d"] by (simp only: audit_sanitize_obj_eq)

definition clean_row :: "audit_log \<Rightarrow> bool" where
  "clean_row e \<longleftrightarrow> (case al_before e of None \<Rightarrow> True | Some d \<Rightarrow> audit_clean (JObj d)) \<and>
     (case al_after e of None \<Rightarrow> True | Some d \<Rightarrow> audit_clean (JObj d)) \<and> audit_clean (JObj (al_extra_metadata e))"

definition log_clean :: "db \<Rightarrow> bool" where
  "log_clean d \<longleftrightarrow> list_all clean_row (t_audit_log d)"

text \<open>What one write does to the state.\<close>

lemma audit_write_Inr:
  "audit_write now actr act ot oi device jobref before after metadata s = (Inr x, s') \<longleftrightarrow>
     (\<exists>dev jb. optional_ref ''Device'' device = Inr dev \<and> optional_ref ''Job'' jobref = Inr jb \<and>
       (let e = \<lparr>al_id = db_next_id s, al_actor = actr, al_action = act, al_object_type = ot,
          al_object_id = oi, al_device_id = dev, al_job_id = jb,
          al_before = map_option audit_sanitize_obj before, al_after = map_option audit_sanitize_obj after,
          al_extra_metadata = audit_sanitize_obj (case metadata of None \<Rightarrow> [] | Some m \<Rightarrow> m), al_created_at = Aware now\<rparr>
        in s' = s\<lparr>db_next_id := db_next_id s + 1, t_audit_log := t_audit_log s @ [e]\<rparr> \<and> x = read_audit_event e))"
  by (auto simp: audit_write_def create_audit_row_def andThen_Inr Let_def)

lemma audit_write_None:
  "\<exists>x s'. audit_write now actr act ot oi None None before after metadata s = (Inr x, s')"
  by (simp add: audit_write_Inr optional_ref_def Let_def)

text \<open>With references that parse the write does not fail, so that what follows it runs.\<close>

lemma audit_write_then:
  assumes "optional_ref ''Device'' device = Inr dev" "optional_ref ''Job'' jobref = Inr jb"
  shows "andThen (audit_write now actr act ot oi device jobref before after metadata) (\<lambda>_. m) s
    = m (snd (audit_write now actr act ot oi device jobref before after metadata s))"
  using assms by (simp add: audit_write_def create_audit_row_def andThen_def query_def fresh_id_def change_def ret_def Let_def)

lemma audit_write_snd:
  "t_device_lock (snd (audit_write now actr act ot oi device jobref before after metadata s)) = t_device_lock s"
  by (simp add: audit_write_def create_audit_row_def andThen_def query_def fresh_id_def change_def ret_def Let_def
      split: prod.splits sum.splits)

text \<open>A write keeps every table but the log, and the log grows by clean rows.\<close>

definition log_grows :: "db \<Rightarrow> db \<Rightarrow> bool" where
  "log_grows s s' \<longleftrightarrow> (\<exists>more. t_audit_log s' = t_audit_log s @ more \<and> list_all clean_row more)"

interpretation audit_log: progress log_grows
proof
  show "log_grows s s" for s by (simp add: log_grows_def)
  show "log_grows s u" if "log_grows s t" "log_grows t u" for s t u
    using that by (auto simp: log_grows_def)
qed

lemma log_grows_steps:
  "within log_grows (query f)" "within log_grows fresh_id"
  "clean_row e \<Longrightarrow> within log_grows (change (\<lambda>d. d\<lparr>t_audit_log := t_audit_log d @ [e]\<rparr>))"
  by (auto simp: within_def query_def fresh_id_def change_def log_grows_def)

lemma clean_row_written:
  "clean_row \<lparr>al_id = i, al_actor = actr, al_action = act, al_object_type = ot, al_object_id = oi,
     al_device_id = dev, al_job_id = jb, al_before = map_option audit_sanitize_obj before,
     al_after = map_option audit_sanitize_obj after, al_extra_metadata = audit_sanitize_obj m, al_created_at = t\<rparr>"
  using audit_clean_obj by (simp add: clean_row_def split: option.split)

lemma log_grows_write: "within log_grows (audit_write now actr act ot oi device jobref before after metadata)"
  unfolding audit_write_def create_audit_row_def Let_def
  by (intro audit_log.within_intros log_grows_steps clean_row_written)

lemma log_clean_grows: "log_clean s \<Longrightarrow> log_grows s s' \<Longrightarrow> log_clean s'"
  by (auto simp: log_clean_def log_grows_def)

section \<open>Properties\<close>

text \<open>
  Writing to the audit log is all or nothing.  When the device or job reference is malformed
  nothing changes; otherwise exactly one row is added at the end, with the actor, action and
  object given, sanitized at every depth, and it is what the caller gets back; no other table changes.
\<close>

theorem audit_write_sanitized:
  "case audit_write now actr act ot oi device jobref before after metadata s of
     (Inl _, s') \<Rightarrow> s' = s
   | (Inr x, s') \<Rightarrow> \<exists>e. s' = s\<lparr>db_next_id := db_next_id s + 1, t_audit_log := t_audit_log s @ [e]\<rparr> \<and>
       clean_row e \<and> al_actor e = actr \<and> al_action e = act \<and> al_object_type e = ot \<and> al_object_id e = oi \<and>
       al_created_at e = Aware now \<and> x = read_audit_event e"
proof (cases "audit_write now actr act ot oi device jobref before after metadata s")
  case (Pair r s')
  show ?thesis
  proof (cases r)
    case (Inl e)
    with Pair show ?thesis
      by (auto simp: audit_write_def create_audit_row_def andThen_def query_def fresh_id_def change_def ret_def Let_def
          split: sum.splits prod.splits)
  next
    case (Inr x)
    with Pair show ?thesis using clean_row_written by (fastforce simp: audit_write_Inr Let_def)
  qed
qed

end
