(* ===== verification/DeviceLocks.thy ===== *)
theory DeviceLocks
  imports AuditTrail
begin

text \<open>
  app/services/lock_service.py and app/repositories/locks.py: leases on devices.  A lease is a row
  of \<open>device_locks\<close>, whose primary key is the device; it holds until its expiry time and an
  expired one is replaced.  \<open>lease_table\<close> is the interface of the table that the service needs.
\<close>

locale lease_table =
  fixes look :: "'d \<Rightarrow> uuid \<Rightarrow> 'r option"
    and put :: "'r \<Rightarrow> 'd \<Rightarrow> 'd"
    and drop :: "uuid \<Rightarrow> 'd \<Rightarrow> 'd"
    and key :: "'r \<Rightarrow> uuid"
  assumes look_key: "look d i = Some r \<Longrightarrow> key r = i"
    and look_put: "look d (key r) = None \<Longrightarrow> look (put r d) i = (if i = key r then Some r else look d i)"
    and look_drop: "look (drop j d) i = (if i = j then None else look d i)"
begin

lemma look_replace: "look (put r (drop (key r) d)) i = (if i = key r then Some r else look d i)"
  by (simp add: look_put look_drop)

lemma drop_put: "look d (key r) = None \<Longrightarrow> look (drop (key r) (put r d)) i = look d i"
  by (simp add: look_put look_drop)

end

section \<open>The repository\<close>

definition put_lock :: "device_lock \<Rightarrow> db \<Rightarrow> db" where
  "put_lock l d = d\<lparr>t_device_lock := t_device_lock d @ [l]\<rparr>"

definition drop_lock :: "uuid \<Rightarrow> db \<Rightarrow> db" where
  "drop_lock i d = d\<lparr>t_device_lock := filter (\<lambda>l. dl_device_id l \<noteq> i) (t_device_lock d)\<rparr>"

definition get_lock :: "ref \<Rightarrow> (db, device_lock option) action" where
  "get_lock device =
     query (\<lambda>d. case coerce_ref ''Device'' device of Inl e \<Rightarrow> Inl e | Inr i \<Rightarrow> Inr (find_device_lock d i))"

definition create_lock_row :: "ref \<Rightarrow> ref \<Rightarrow> string \<Rightarrow> datetime \<Rightarrow> datetime \<Rightarrow> (db, device_lock) action" where
  "create_lock_row device jobref locked_by locked_at expires_at =
     andThen (query (\<lambda>_. coerce_ref ''Device'' device)) (\<lambda>dev.
     andThen (query (\<lambda>_. coerce_ref ''Job'' jobref)) (\<lambda>jb.
       let l = \<lparr>dl_device_id = dev, dl_job_id = jb, dl_locked_by = locked_by, dl_locked_at = locked_at,
                dl_expires_at = expires_at\<rparr>
       in andThen (change (put_lock l)) (\<lambda>_. ret l)))"

definition delete_lock_row :: "device_lock \<Rightarrow> (db, unit) action" where
  "delete_lock_row l = change (drop_lock (dl_device_id l))"

section \<open>The service\<close>

record in_memory_lock =
  ml_device_id :: string
  ml_job_id :: string
  ml_locked_by :: string
  ml_expires_at :: datetime

definition lock_acquire :: "int \<Rightarrow> ref \<Rightarrow> ref \<Rightarrow> string \<Rightarrow> int \<Rightarrow> (db, in_memory_lock) action" where
  "lock_acquire now device jobref actr ttl_seconds =
     andThen (get_lock device) (\<lambda>existing.
     andThen (case existing of
        None \<Rightarrow> ret ()
      | Some l \<Rightarrow>
          if instant (comparable_datetime (dl_expires_at l)) > now
          then raise (RuntimeError (''Device '' @ ref_str device @ '' is already locked''))
          else delete_lock_row l) (\<lambda>_.
     andThen (create_lock_row device jobref actr (Aware now) (Aware (now + ttl_seconds * second))) (\<lambda>stored.
     andThen (audit_write now actr ''device.locked'' ''device_lock'' (ref_str device) (Some device) (Some jobref)
        None (Some [(''expires_at'', JStr (isoformat (dl_expires_at stored)))]) None) (\<lambda>_.
     ret \<lparr>ml_device_id = uuid_str (dl_device_id stored), ml_job_id = uuid_str (dl_job_id stored),
          ml_locked_by = dl_locked_by stored, ml_expires_at = comparable_datetime (dl_expires_at stored)\<rparr>))))"

definition lock_release :: "int \<Rightarrow> ref \<Rightarrow> string \<Rightarrow> (db, unit) action" where
  "lock_release now device actr =
     andThen (get_lock device) (\<lambda>existing.
       case existing of
         None \<Rightarrow> ret ()
       | Some l \<Rightarrow>
           andThen (audit_write now actr ''device.unlocked'' ''device_lock'' (ref_str device) (Some device)
              (Some (RefText (uuid_str (dl_job_id l))))
              (Some [(''locked_by'', JStr (dl_locked_by l)), (''expires_at'', JStr (isoformat (dl_expires_at l)))])
              None None) (\<lambda>_.
           delete_lock_row l))"

definition is_locked :: "int \<Rightarrow> ref \<Rightarrow> (db, bool) action" where
  "is_locked now device =
     andThen (get_lock device) (\<lambda>existing.
       case existing of
         None \<Rightarrow> ret False
       | Some l \<Rightarrow>
           if instant (comparable_datetime (dl_expires_at l)) \<le> now
           then andThen (delete_lock_row l) (\<lambda>_. ret False)
           else ret True)"

section \<open>The table as a lease table\<close>

lemma get_row_filter:
  "get_row key i (filter (\<lambda>l. key l \<noteq> j) rows) = (if i = j then None else get_row key i rows)"
  by (induction rows) (auto simp: get_row_def)

interpretation leases: lease_table find_device_lock put_lock drop_lock dl_device_id
proof
  show "dl_device_id r = i" if "find_device_lock d i = Some r" for d i r
    using that by (auto dest: get_row_key)
  show "find_device_lock (put_lock r d) i = (if i = dl_device_id r then Some r else find_device_lock d i)"
    if "find_device_lock d (dl_device_id r) = None" for d r i
    using that by (auto simp: put_lock_def get_row_append) (auto simp: get_row_def split: option.splits)
  show "find_device_lock (drop_lock j d) i = (if i = j then None else find_device_lock d i)" for j d i
    by (simp add: drop_lock_def get_row_filter)
qed

section \<open>What the service does to a device's lease\<close>

lemma andThen_ret: "andThen (ret x) f s = f x s"
  and andThen_raise: "andThen (raise e) f' s = (Inl e, s)"
  and andThen_change: "andThen (change g) f'' s = f'' () (g s)"
  by (simp_all add: andThen_def ret_def raise_def change_def)

text \<open>The lease on a device that holds at a time.\<close>

definition holder :: "int \<Rightarrow> uuid \<Rightarrow> db \<Rightarrow> device_lock option" where
  "holder now i d =
     (case find_device_lock d i of
        None \<Rightarrow> None
      | Some l \<Rightarrow> if now < instant (dl_expires_at l) then Some l else None)"

lemma comparable_aware [simp]: "comparable_datetime (Aware t) = Aware t"
  by (simp add: comparable_datetime_def)

lemma instant_comparable [simp]: "instant (comparable_datetime t) = instant t"
  by (cases t) (simp_all add: comparable_datetime_def)

lemma holder_audit [simp]: "find_device_lock (s\<lparr>db_next_id := n, t_audit_log := es\<rparr>) i = find_device_lock s i"
  by simp

text \<open>A text that is an identifier's is also read back when the audit row refers to it.\<close>

lemma optional_ref_Some: "coerce_ref n r = Inr i \<Longrightarrow> optional_ref n (Some r) = Inr (Some i)"
  by (simp add: optional_ref_def)

lemma absent_lock: "find_device_lock s i = None \<Longrightarrow> drop_lock i s = s"
proof -
  assume "find_device_lock s i = None"
  then have "filter (\<lambda>l. dl_device_id l \<noteq> i) (t_device_lock s) = t_device_lock s"
    by (auto simp: get_row_None filter_id_conv)
  then show ?thesis by (simp add: drop_lock_def)
qed

lemma acquire_outcome:
  assumes "coerce_ref ''Device'' device = Inr i" "coerce_ref ''Job'' jobref = Inr j"
  shows "lock_acquire now device jobref actr ttl s =
    (case holder now i s of
       Some l \<Rightarrow> (Inl (RuntimeError (''Device '' @ ref_str device @ '' is already locked'')), s)
     | None \<Rightarrow>
         let l = \<lparr>dl_device_id = i, dl_job_id = j, dl_locked_by = actr, dl_locked_at = Aware now,
                  dl_expires_at = Aware (now + ttl * second)\<rparr>;
             t = put_lock l (drop_lock i s)
         in (Inr \<lparr>ml_device_id = uuid_str i, ml_job_id = uuid_str j, ml_locked_by = actr,
                  ml_expires_at = Aware (now + ttl * second)\<rparr>,
             snd (audit_write now actr ''device.locked'' ''device_lock'' (ref_str device) (Some device) (Some jobref)
               None (Some [(''expires_at'', JStr (isoformat (Aware (now + ttl * second))))]) None t)))"
proof -
  note parsed = optional_ref_Some [OF assms(1)] optional_ref_Some [OF assms(2)]
  have get: "andThen (get_lock device) f s = f (find_device_lock s i) s" for f :: "device_lock option \<Rightarrow> (db, 'a) action"
    by (simp add: andThen_def get_lock_def query_def assms)
  have create: "andThen (create_lock_row device jobref actr a b) f t
    = f \<lparr>dl_device_id = i, dl_job_id = j, dl_locked_by = actr, dl_locked_at = a, dl_expires_at = b\<rparr>
        (put_lock \<lparr>dl_device_id = i, dl_job_id = j, dl_locked_by = actr, dl_locked_at = a, dl_expires_at = b\<rparr> t)"
    for a b t and f :: "device_lock \<Rightarrow> (db, 'a) action"
    by (simp add: andThen_def create_lock_row_def query_def assms Let_def change_def ret_def)
  show ?thesis
  proof (cases "find_device_lock s i")
    case None
    then show ?thesis
      by (simp add: lock_acquire_def get holder_def andThen_ret create audit_write_then [OF parsed] absent_lock ret_def)
  next
    case (Some l)
    with leases.look_key [OF Some] show ?thesis
      by (simp add: lock_acquire_def get holder_def andThen_raise andThen_change delete_lock_row_def create
          audit_write_then [OF parsed] ret_def raise_def Let_def)
  qed
qed

section \<open>Runs of the service\<close>

datatype lock_request =
    AcquireLock ref ref string int
  | ReleaseLock ref string
  | AskLocked ref

text \<open>One call at a time, and what it leaves behind (the caller keeps the session).\<close>

fun lock_step :: "int \<times> lock_request \<Rightarrow> db \<Rightarrow> db" where
  "lock_step (now, AcquireLock device jobref actr ttl) s = snd (lock_acquire now device jobref actr ttl s)"
| "lock_step (now, ReleaseLock device actr) s = snd (lock_release now device actr s)"
| "lock_step (now, AskLocked device) s = snd (is_locked now device s)"

definition lock_run :: "(int \<times> lock_request) list \<Rightarrow> db \<Rightarrow> db" where
  "lock_run qs s = fold lock_step qs s"

text \<open>A step that is not a release of the device, before the lease on it expires.\<close>

fun spares :: "uuid \<Rightarrow> int \<Rightarrow> int \<times> lock_request \<Rightarrow> bool" where
  "spares i expiry (now, q) \<longleftrightarrow> now < expiry \<and>
     (case q of ReleaseLock device _ \<Rightarrow> coerce_ref ''Device'' device \<noteq> Inr i | _ \<Rightarrow> True)"

lemma find_audit_write [simp]:
  "find_device_lock (snd (audit_write now actr act ot oi device jobref before after metadata s)) i = find_device_lock s i"
  by (simp add: audit_write_snd)

text \<open>Leases other than the one of the device a call is about stay.\<close>

text \<open>A step about one device leaves the leases of the others.\<close>

fun lock_device :: "lock_request \<Rightarrow> ref" where
  "lock_device (AcquireLock device _ _ _) = device"
| "lock_device (ReleaseLock device _) = device"
| "lock_device (AskLocked device) = device"

lemma put_lock_other: "dl_device_id l \<noteq> i \<Longrightarrow> find_device_lock (put_lock l s) i = find_device_lock s i"
  by (auto simp: put_lock_def get_row_append) (auto simp: get_row_def split: option.splits)

lemma create_lock_row_other:
  "coerce_ref ''Device'' device \<noteq> Inr i \<Longrightarrow>
   find_device_lock (snd (create_lock_row device jobref actr a b s)) i = find_device_lock s i"
  by (auto simp: create_lock_row_def andThen_def query_def change_def ret_def Let_def put_lock_other split: sum.splits)

lemma snd_andThen: "snd (andThen m f s) = (case fst (m s) of Inl e \<Rightarrow> snd (m s) | Inr x \<Rightarrow> snd (f x (snd (m s))))"
  by (simp add: andThen_def split: prod.splits sum.splits)

lemma get_lock_state [simp]: "snd (get_lock r s) = s" "fst (get_lock r s) =
    (case coerce_ref ''Device'' r of Inl e \<Rightarrow> Inl e | Inr i \<Rightarrow> Inr (find_device_lock s i))"
  by (simp_all add: get_lock_def query_def)

lemma delete_lock_row_state [simp]: "snd (delete_lock_row l s) = drop_lock (dl_device_id l) s" "fst (delete_lock_row l s) = Inr ()"
  by (simp_all add: delete_lock_row_def change_def)

lemma basic_state [simp]: "snd (ret x s) = s" "snd (raise e s) = s" "fst (ret x s) = Inr x" "fst (raise e s) = Inl e"
  by (simp_all add: ret_def raise_def)

lemma lock_step_other:
  assumes "coerce_ref ''Device'' (lock_device q) \<noteq> Inr i"
  shows "find_device_lock (lock_step (now, q) s) i = find_device_lock s i"
  using assms
  by (cases q) (auto simp: lock_acquire_def lock_release_def is_locked_def snd_andThen leases.look_drop
      create_lock_row_other dest: leases.look_key split: sum.splits option.splits)

text \<open>
  A step about the device itself, before its lease expires: an acquisition fails, a question is
  answered with yes.
\<close>

lemma lock_step_held:
  assumes "find_device_lock s i = Some l" "now < instant (dl_expires_at l)"
    and "coerce_ref ''Device'' (lock_device q) = Inr i" "\<And>device actr. q \<noteq> ReleaseLock device actr"
  shows "lock_step (now, q) s = s"
  using assms
  by (cases q) (auto simp: lock_acquire_def is_locked_def snd_andThen)

lemma lock_step_spared:
  assumes "find_device_lock s i = Some l" "spares i (instant (dl_expires_at l)) q"
  shows "find_device_lock (lock_step q s) i = Some l"
proof -
  obtain now r where q: "q = (now, r)" by (cases q)
  show ?thesis
  proof (cases "coerce_ref ''Device'' (lock_device r) = Inr i")
    case True
    with assms have "lock_step (now, r) s = s" unfolding q by (intro lock_step_held) auto
    with assms show ?thesis unfolding q by simp
  next
    case False
    with assms lock_step_other show ?thesis unfolding q by simp
  qed
qed

lemma lock_run_spared:
  "find_device_lock s i = Some l \<Longrightarrow> list_all (spares i (instant (dl_expires_at l))) qs \<Longrightarrow>
   find_device_lock (lock_run qs s) i = Some l"
  unfolding lock_run_def by (induction qs arbitrary: s) (simp_all add: lock_step_spared del: lock_step.simps)

text \<open>One row per device, the table's primary key.\<close>

definition one_lease_each :: "db \<Rightarrow> bool" where
  "one_lease_each s \<longleftrightarrow> distinct (map dl_device_id (t_device_lock s))"

lemma one_lease_put: "one_lease_each s \<Longrightarrow> find_device_lock s (dl_device_id l) = None \<Longrightarrow> one_lease_each (put_lock l s)"
  by (auto simp: one_lease_each_def put_lock_def get_row_None)

lemma one_lease_drop: "one_lease_each s \<Longrightarrow> one_lease_each (drop_lock i s)"
  by (simp add: one_lease_each_def drop_lock_def distinct_map inj_on_def)

lemma one_lease_audit [simp]:
  "one_lease_each (snd (audit_write now actr act ot oi device jobref before after metadata s)) = one_lease_each s"
  by (simp add: one_lease_each_def audit_write_snd)

lemma one_lease_create:
  "one_lease_each s \<Longrightarrow> (\<And>i. coerce_ref ''Device'' device = Inr i \<Longrightarrow> find_device_lock s i = None) \<Longrightarrow>
   one_lease_each (snd (create_lock_row device jobref actr a b s))"
  by (auto simp: create_lock_row_def andThen_def query_def change_def ret_def Let_def one_lease_put split: sum.splits)

lemma one_lease_step: "one_lease_each s \<Longrightarrow> one_lease_each (lock_step q s)"
  by (cases q; cases "snd q")
    (auto simp: lock_acquire_def lock_release_def is_locked_def snd_andThen leases.look_drop one_lease_drop
      intro!: one_lease_create dest: leases.look_key split: sum.splits option.splits)

lemma one_lease_run: "one_lease_each s \<Longrightarrow> one_lease_each (lock_run qs s)"
  unfolding lock_run_def by (induction qs arbitrary: s) (simp_all add: one_lease_step del: lock_step.simps)

text \<open>What a successful acquisition and a release leave.\<close>

lemma acquired:
  assumes "lock_acquire now device jobref actr ttl s = (Inr x, s')" "coerce_ref ''Device'' device = Inr i"
  shows "\<exists>j. find_device_lock s' i = Some \<lparr>dl_device_id = i, dl_job_id = j, dl_locked_by = actr,
           dl_locked_at = Aware now, dl_expires_at = Aware (now + ttl * second)\<rparr>"
proof (cases "coerce_ref ''Job'' jobref")
  case (Inl e)
  with assms show ?thesis
    by (auto simp: lock_acquire_def get_lock_def create_lock_row_def delete_lock_row_def andThen_Inr split: option.splits if_splits)
next
  case (Inr j)
  with assms acquire_outcome [OF assms(2) Inr, of now actr ttl s] show ?thesis
    by (auto simp: Let_def put_lock_def drop_lock_def get_row_append get_row_filter split: option.splits)
      (auto simp: get_row_def)
qed

section \<open>Properties\<close>

text \<open>
  C5: A device lease excludes every other.  After an acquisition, whatever calls follow other than a
  release of that device, every acquisition of it before the lease's expiry fails with the "already
  locked" error, changes nothing, and the device is reported as locked.
\<close>

theorem lease_exclusive:
  assumes "lock_acquire t0 device jobref actr ttl s = (Inr x, s1)" "coerce_ref ''Device'' device = Inr i"
    and "list_all (spares i (t0 + ttl * second)) qs" "now < t0 + ttl * second"
    and "coerce_ref ''Device'' device' = Inr i"
  shows "lock_acquire now device' jobref' actr' ttl' (lock_run qs s1)
      = (Inl (RuntimeError (''Device '' @ ref_str device' @ '' is already locked'')), lock_run qs s1) \<and>
    is_locked now device' (lock_run qs s1) = (Inr True, lock_run qs s1)"
proof -
  from acquired [OF assms(1,2)] obtain l where
    l: "find_device_lock s1 i = Some l" "dl_expires_at l = Aware (t0 + ttl * second)" by auto
  then have "find_device_lock (lock_run qs s1) i = Some l"
    using assms(3) by (intro lock_run_spared) simp_all
  then show ?thesis
    using assms(4,5) l(2) by (simp add: lock_acquire_def is_locked_def andThen_def get_lock_def query_def raise_def ret_def)
qed

theorem lease_exclusive_witness:
  "lock_acquire 10 (RefId 1) (RefId 4) ''second'' 60
     (lock_run [(5, AcquireLock (RefId 1) (RefId 3) ''third'' 60), (6, AskLocked (RefId 1)), (7, ReleaseLock (RefId 2) ''first'')]
        (snd (lock_acquire 0 (RefId 1) (RefId 2) ''first'' 900 empty_db)))
   = (Inl (RuntimeError (''Device '' @ ref_str (RefId 1) @ '' is already locked'')),
     lock_run [(5, AcquireLock (RefId 1) (RefId 3) ''third'' 60), (6, AskLocked (RefId 1)), (7, ReleaseLock (RefId 2) ''first'')]
        (snd (lock_acquire 0 (RefId 1) (RefId 2) ''first'' 900 empty_db)))"
proof -
  have ids: "coerce_ref ''Device'' (RefId 1) = Inr 1" "coerce_ref ''Job'' (RefId 2) = Inr 2" by simp_all
  have "\<exists>x. lock_acquire 0 (RefId 1) (RefId 2) ''first'' 900 empty_db
      = (Inr x, snd (lock_acquire 0 (RefId 1) (RefId 2) ''first'' 900 empty_db))"
    unfolding acquire_outcome [OF ids] by (simp add: holder_def empty_db_def get_row_def Let_def)
  then obtain x where "lock_acquire 0 (RefId 1) (RefId 2) ''first'' 900 empty_db
      = (Inr x, snd (lock_acquire 0 (RefId 1) (RefId 2) ''first'' 900 empty_db))" ..
  from lease_exclusive [OF this ids(1), of _ 10 "RefId 1" "RefId 4" "''second''" 60] show ?thesis by simp
qed

text \<open>
  With well-formed references, an acquisition succeeds exactly when no lease on the device is
  unexpired (a free device and an expired lease alike); it then holds the lease in the caller's name
  until the time asked for, and every other device's lease is as it was.
\<close>

theorem lease_obtainable:
  assumes "coerce_ref ''Device'' device = Inr i" "coerce_ref ''Job'' jobref = Inr j"
  shows "((\<exists>x s'. lock_acquire now device jobref actr ttl s = (Inr x, s')) \<longleftrightarrow> holder now i s = None) \<and>
   (\<forall>x s'. lock_acquire now device jobref actr ttl s = (Inr x, s') \<longrightarrow>
     find_device_lock s' i = Some \<lparr>dl_device_id = i, dl_job_id = j, dl_locked_by = actr,
         dl_locked_at = Aware now, dl_expires_at = Aware (now + ttl * second)\<rparr> \<and>
     (\<forall>k. k \<noteq> i \<longrightarrow> find_device_lock s' k = find_device_lock s k))"
proof (cases "holder now i s")
  case None
  define l where "l = \<lparr>dl_device_id = i, dl_job_id = j, dl_locked_by = actr, dl_locked_at = Aware now,
      dl_expires_at = Aware (now + ttl * second)\<rparr>"
  have "dl_device_id l = i" by (simp add: l_def)
  with leases.look_replace [where r = l and d = s] have "find_device_lock (put_lock l (drop_lock i s)) k
      = (if k = i then Some l else find_device_lock s k)" for k by metis
  with acquire_outcome [OF assms, of now actr ttl s] None show ?thesis
    by (auto simp: Let_def l_def)
next
  case (Some l)
  with acquire_outcome [OF assms, of now actr ttl s] show ?thesis by simp
qed

theorem lease_obtainable_witness:
  "\<exists>x s'. lock_acquire 1000 (RefId 1) (RefId 2) ''first'' 900
     (put_lock \<lparr>dl_device_id = 1, dl_job_id = 7, dl_locked_by = ''old'', dl_locked_at = Naive 0, dl_expires_at = Naive 1000\<rparr>
        empty_db) = (Inr x, s')"
proof -
  have ids: "coerce_ref ''Device'' (RefId 1) = Inr 1" "coerce_ref ''Job'' (RefId 2) = Inr 2" by simp_all
  show ?thesis
    by (rule lease_obtainable [OF ids, THEN conjunct1, THEN iffD2])
      (simp add: holder_def put_lock_def empty_db_def get_row_def)
qed

text \<open>
  The table never holds two leases for one device, whatever calls are made from an empty
  database.
\<close>

theorem one_lease_per_device:
  "distinct (map dl_device_id (t_device_lock (lock_run qs empty_db)))"
  using one_lease_run [of empty_db qs] by (simp add: one_lease_each_def empty_db_def)

end
