(* ===== verification/PurePaths.thy ===== *)
theory PurePaths
  imports Prelude
begin

text \<open>
  \<open>pathlib.PurePosixPath\<close> and \<open>PureWindowsPath\<close> of the standard library (Python 3.12) as far as the sources use
  them: whether a path is absolute, and its parts.
\<close>

definition posix_absolute :: "string \<Rightarrow> bool" where
  "posix_absolute p \<longleftrightarrow> prefix ''/'' p"

definition relative_parts :: "char \<Rightarrow> string \<Rightarrow> string list" where
  "relative_parts sep p = filter (\<lambda>x. x \<noteq> [] \<and> x \<noteq> ''.'') (split_on sep p)"

text \<open>The root comes first in the parts; two leading slashes stay, three or more are one.\<close>

definition posix_parts :: "string \<Rightarrow> string list" where
  "posix_parts p =
     (if \<not> prefix ''/'' p then []
      else if prefix ''//'' p \<and> \<not> prefix ''///'' p then [''//''] else [''/'']) @ relative_parts (CHR ''/'') p"

text \<open>\<open>ntpath.splitroot\<close>: drive, root and the rest of a path whose slashes are turned.\<close>

abbreviation backslash :: char where "backslash \<equiv> CHR 0x5C"

definition turn_slashes :: "string \<Rightarrow> string" where
  "turn_slashes p = map (\<lambda>c. if c = CHR ''/'' then backslash else c) p"

fun cut_at :: "char \<Rightarrow> string \<Rightarrow> (string \<times> string) option" where
  "cut_at sep [] = None"
| "cut_at sep (c # s) =
     (if c = sep then Some ([], s) else map_option (\<lambda>(a, b). (c # a, b)) (cut_at sep s))"

definition unc_prefix :: string where
  "unc_prefix = [backslash, backslash, CHR ''?'', backslash, CHR ''u'', CHR ''n'', CHR ''c'', backslash]"

definition splitroot :: "string \<Rightarrow> string \<times> string \<times> string" where
  "splitroot p =
     (if prefix [backslash] p then
        if prefix [backslash, backslash] p then
          let start = (if casefold (take 8 p) = unc_prefix then 8 else 2)
          in case cut_at backslash (drop start p) of
               None \<Rightarrow> (p, [], [])
             | Some (server, rest) \<Rightarrow>
                 (case cut_at backslash rest of
                    None \<Rightarrow> (p, [], [])
                  | Some (share, rel) \<Rightarrow> (take start p @ server @ [backslash] @ share, [backslash], rel))
        else ([], [backslash], drop 1 p)
      else if 2 \<le> length p \<and> p ! 1 = CHR '':'' then
        if prefix [backslash] (drop 2 p) then (take 2 p, [backslash], drop 3 p) else (take 2 p, [], drop 2 p)
      else ([], [], p))"

text \<open>A share without a path below it has the root all the same.\<close>

definition windows_root :: "string \<Rightarrow> string \<times> string \<times> string" where
  "windows_root p =
     (case splitroot (turn_slashes p) of
        (drive, root, rel) \<Rightarrow>
          if root = [] \<and> prefix [backslash] drive \<and> last drive \<noteq> backslash then
            let parts = split_on backslash drive
            in if length parts = 4 \<and> parts ! 2 \<notin> {[], ''?'', ''.'', ''?.''} \<or> length parts = 6
               then (drive, [backslash], rel) else (drive, root, rel)
          else (drive, root, rel))"

definition windows_absolute :: "string \<Rightarrow> bool" where
  "windows_absolute p = (case windows_root p of (drive, root, _) \<Rightarrow> drive \<noteq> [] \<and> root \<noteq> [])"

definition windows_parts :: "string \<Rightarrow> string list" where
  "windows_parts p =
     (case windows_root p of
        (drive, root, rel) \<Rightarrow>
          (if drive = [] \<and> root = [] then [] else [drive @ root]) @ relative_parts backslash rel)"

lemma path_values:
  "windows_absolute (''C:'' @ [backslash] @ ''cfg'')" "windows_absolute ''C:/cfg''" "\<not> windows_absolute ''C:cfg''"
  "\<not> windows_absolute ''/cfg''" "windows_absolute ''//host/share''" "\<not> windows_absolute ''cfg/a.txt''"
  "windows_parts ''C:../x'' = [''C:'', ''..'', ''x'']" "posix_parts ''a/./b//..'' = [''a'', ''b'', ''..'']"
  by code_simp+

end
