(* ===== verification/Vault.thy ===== *)
theory Vault
  imports AuditTrail ReportSanitizer Config HeaderActors Endpoints
begin

text \<open>
  The credential vault: app/services/credential_vault_service.py, app/repositories/credential_vault.py,
  app/core/secret_crypto.py, app/core/crypto.py, the payloads of app/schemas/credential_vault.py and the endpoints
  of app/api/v1/credential_vault.py.
  Fernet is a parameter: \<open>enc key nonce text\<close> is the token written for a text (the nonce
  stands for the random bytes and the clock in it), \<open>dec key token\<close> is what reading it gives, \<open>None\<close>
  for the \<open>InvalidToken\<close> exception.
\<close>

type_synonym encryption = "string \<Rightarrow> nat \<Rightarrow> string \<Rightarrow> string"
type_synonym decryption = "string \<Rightarrow> string \<Rightarrow> string option"

section \<open>Ciphers\<close>

text \<open>\<open>FernetCredentialCipher\<close>: a cipher is known by its key.\<close>

definition fernet_cipher :: "string \<Rightarrow> error + string" where
  "fernet_cipher key =
     (if length key < 16 then Inl (SecretHandlingError ''Encryption key must be at least 16 characters'') else Inr key)"

definition cipher_encrypt :: "encryption \<Rightarrow> string \<Rightarrow> nat \<Rightarrow> string \<Rightarrow> error + string" where
  "cipher_encrypt enc key nonce value =
     (if value = [] then Inl (SecretHandlingError ''Refusing to encrypt an empty credential'')
      else Inr (enc key nonce value))"

definition cipher_decrypt :: "decryption \<Rightarrow> string \<Rightarrow> string \<Rightarrow> error + string" where
  "cipher_decrypt dec key value =
     (if value = [] then Inl (SecretHandlingError ''Refusing to decrypt an empty credential'')
      else case dec key value of None \<Rightarrow> Inl (InvalidToken []) | Some v \<Rightarrow> Inr v)"

text \<open>\<open>SecretCrypto\<close>\<close>

definition secret_crypto :: "settings \<Rightarrow> error + string" where
  "secret_crypto cfg =
     (case secret_key cfg of
        Some (c # k) \<Rightarrow> fernet_cipher (c # k)
      | _ \<Rightarrow> Inl (SecretHandlingError ''NCP_SECRET_KEY is required for credential vault secret storage''))"

section \<open>The repository\<close>

definition upd_secret :: "uuid \<Rightarrow> (credential_secret \<Rightarrow> credential_secret) \<Rightarrow> db \<Rightarrow> db" where
  "upd_secret i f d = d\<lparr>t_credential_secret := upd_row sec_id i f (t_credential_secret d)\<rparr>"

definition create_secret_row ::
  "int \<Rightarrow> string \<Rightarrow> string \<Rightarrow> string \<Rightarrow> string \<Rightarrow> string option \<Rightarrow> jobj option \<Rightarrow> string option \<Rightarrow>
   (db, credential_secret) action" where
  "create_secret_row now name user payload auth_type purpose metadata actr =
     andThen fresh_id (\<lambda>i.
       let r = \<lparr>sec_id = i, sec_name = name, sec_username = user, sec_encrypted_payload = payload,
          sec_auth_type = auth_type, sec_purpose = purpose, sec_version = 1, sec_active = True,
          sec_metadata = metadata, sec_created_by = actr, sec_updated_by = actr, sec_created_at = Aware now,
          sec_updated_at = Aware now, sec_rotated_at = None, sec_disabled_at = None\<rparr>
       in andThen (change (\<lambda>d. d\<lparr>t_credential_secret := t_credential_secret d @ [r]\<rparr>)) (\<lambda>_. ret r))"

definition get_secret_row :: "ref \<Rightarrow> (db, credential_secret) action" where
  "get_secret_row = get_by_ref find_credential_secret ''Credential secret''"

definition list_secret_rows :: "bool option \<Rightarrow> db \<Rightarrow> credential_secret list" where
  "list_secret_rows active d =
     sort_key (\<lambda>r. - instant (sec_created_at r)) (sort_key sec_name
       (filter (\<lambda>r. active = None \<or> active = Some (sec_active r)) (t_credential_secret d)))"

text \<open>The assignments of \<open>rotate\<close>, \<open>update_metadata\<close> and \<open>disable\<close> to the row, and the call around them.\<close>

definition rotate_row :: "int \<Rightarrow> string \<Rightarrow> string option \<Rightarrow> credential_secret \<Rightarrow> credential_secret" where
  "rotate_row now payload actr r = r\<lparr>sec_encrypted_payload := payload, sec_version := sec_version r + 1,
     sec_rotated_at := Some (Aware now), sec_updated_at := Aware now, sec_updated_by := actr, sec_active := True,
     sec_disabled_at := None\<rparr>"

definition update_metadata_row ::
  "int \<Rightarrow> string option \<Rightarrow> string option \<Rightarrow> string option \<Rightarrow> jobj option \<Rightarrow> string option \<Rightarrow>
   credential_secret \<Rightarrow> credential_secret" where
  "update_metadata_row now name user purpose metadata actr r =
     r\<lparr>sec_name := (case name of None \<Rightarrow> sec_name r | Some n \<Rightarrow> n),
       sec_username := (case user of None \<Rightarrow> sec_username r | Some u \<Rightarrow> u),
       sec_purpose := (if purpose = None then sec_purpose r else purpose),
       sec_metadata := (if metadata = None then sec_metadata r else metadata),
       sec_updated_at := Aware now, sec_updated_by := actr\<rparr>"

definition disable_row :: "int \<Rightarrow> string option \<Rightarrow> credential_secret \<Rightarrow> credential_secret" where
  "disable_row now actr r = r\<lparr>sec_active := False, sec_disabled_at := Some (Aware now), sec_updated_at := Aware now,
     sec_updated_by := actr\<rparr>"

definition change_secret_row :: "ref \<Rightarrow> (credential_secret \<Rightarrow> credential_secret) \<Rightarrow> (db, credential_secret) action" where
  "change_secret_row i f =
     andThen (get_secret_row i) (\<lambda>r.
     andThen (change (upd_secret (sec_id r) f)) (\<lambda>_. ret (f r)))"

section \<open>The service\<close>

record secret_create =
  sc_name :: string
  sc_username :: string
  sc_secret :: string
  sc_auth_type :: string
  sc_purpose :: "string option"
  sc_metadata :: jobj

record secret_update =
  su_name :: "string option"
  su_username :: "string option"
  su_purpose :: "string option"
  su_metadata :: "jobj option"

record secret_read =
  sr_id :: string
  sr_name :: string
  sr_username :: string
  sr_auth_type :: string
  sr_purpose :: "string option"
  sr_version :: int
  sr_active :: bool
  sr_has_secret :: bool
  sr_metadata :: jobj
  sr_created_by :: "string option"
  sr_updated_by :: "string option"
  sr_created_at :: string
  sr_updated_at :: string
  sr_rotated_at :: "string option"
  sr_disabled_at :: "string option"

record use_check =
  uc_id :: string
  uc_usable :: bool
  uc_reasons :: "string list"

definition read_secret :: "credential_secret \<Rightarrow> secret_read" where
  "read_secret r = \<lparr>sr_id = uuid_str (sec_id r), sr_name = sec_name r, sr_username = sec_username r,
     sr_auth_type = sec_auth_type r, sr_purpose = sec_purpose r, sr_version = sec_version r, sr_active = sec_active r,
     sr_has_secret = True, sr_metadata = sanitize_report_metadata (sec_metadata r), sr_created_by = sec_created_by r,
     sr_updated_by = sec_updated_by r, sr_created_at = isoformat (sec_created_at r),
     sr_updated_at = isoformat (sec_updated_at r), sr_rotated_at = map_option isoformat (sec_rotated_at r),
     sr_disabled_at = map_option isoformat (sec_disabled_at r)\<rparr>"

definition audit_secret_metadata :: "credential_secret \<Rightarrow> jobj" where
  "audit_secret_metadata r =
     [(''name'', JStr (sec_name r)), (''username'', JStr (sec_username r)), (''auth_type'', JStr (sec_auth_type r)),
      (''purpose'', str_opt (sec_purpose r)), (''version'', JInt (sec_version r)), (''active'', JBool (sec_active r)),
      (''has_secret'', JBool True), (''metadata'', JObj (sanitize_report_metadata (sec_metadata r)))]"

text \<open>The audit row and the reply with which every change of a secret ends.\<close>

definition audited_secret :: "int \<Rightarrow> string \<Rightarrow> string \<Rightarrow> credential_secret \<Rightarrow> (db, secret_read) action" where
  "audited_secret now actr act stored =
     andThen (audit_write now actr (''credential_vault.secret.'' @ act) ''credential_secret'' (uuid_str (sec_id stored))
        None None None (Some (audit_secret_metadata stored)) None) (\<lambda>_. ret (read_secret stored))"

definition vault_create :: "encryption \<Rightarrow> settings \<Rightarrow> int \<Rightarrow> nat \<Rightarrow> secret_create \<Rightarrow> string \<Rightarrow> (db, secret_read) action" where
  "vault_create enc cfg now nonce p actr =
     andThen (query (\<lambda>_. secret_crypto cfg)) (\<lambda>key.
     let metadata = sanitize_report_metadata (Some (sc_metadata p)) in
     andThen (query (\<lambda>_. cipher_encrypt enc key nonce (sc_secret p))) (\<lambda>payload.
     andThen (create_secret_row now (sc_name p) (sc_username p) payload (sc_auth_type p) (sc_purpose p)
        (Some metadata) (Some actr)) (\<lambda>stored.
     audited_secret now actr ''created'' stored)))"

definition vault_list :: "bool option \<Rightarrow> (db, secret_read list) action" where
  "vault_list active = asks (\<lambda>d. map read_secret (list_secret_rows active d))"

definition vault_get :: "ref \<Rightarrow> (db, secret_read) action" where
  "vault_get i = andThen (get_secret_row i) (\<lambda>r. ret (read_secret r))"

definition vault_update :: "int \<Rightarrow> ref \<Rightarrow> secret_update \<Rightarrow> string \<Rightarrow> (db, secret_read) action" where
  "vault_update now i p actr =
     andThen (change_secret_row i (update_metadata_row now (su_name p) (su_username p) (su_purpose p)
        (case su_metadata p of None \<Rightarrow> None | Some m \<Rightarrow> Some (sanitize_report_metadata (Some m))) (Some actr))) (\<lambda>stored.
     audited_secret now actr ''metadata_updated'' stored)"

definition vault_rotate :: "encryption \<Rightarrow> settings \<Rightarrow> int \<Rightarrow> nat \<Rightarrow> ref \<Rightarrow> string \<Rightarrow> string \<Rightarrow> (db, secret_read) action" where
  "vault_rotate enc cfg now nonce i secret actr =
     andThen (query (\<lambda>_. secret_crypto cfg)) (\<lambda>key.
     andThen (query (\<lambda>_. cipher_encrypt enc key nonce secret)) (\<lambda>payload.
     andThen (change_secret_row i (rotate_row now payload (Some actr))) (\<lambda>stored.
     audited_secret now actr ''rotated'' stored)))"

definition vault_disable :: "int \<Rightarrow> ref \<Rightarrow> string \<Rightarrow> (db, secret_read) action" where
  "vault_disable now i actr =
     andThen (change_secret_row i (disable_row now (Some actr))) (\<lambda>stored.
     audited_secret now actr ''disabled'' stored)"

definition check_usable :: "settings \<Rightarrow> ref \<Rightarrow> (db, use_check) action" where
  "check_usable cfg i d =
     (case get_secret_row i d of
        (Inl e, _) \<Rightarrow> (Inr \<lparr>uc_id = ref_str i, uc_usable = False, uc_reasons = [err_str e]\<rparr>, d)
      | (Inr r, _) \<Rightarrow>
          let reasons = (if \<not> sec_active r then [''Credential secret is disabled''] else [])
                @ (if secret_key cfg = None \<or> secret_key cfg = Some []
                   then [''NCP_SECRET_KEY is required to use credential secrets''] else [])
          in (Inr \<lparr>uc_id = uuid_str (sec_id r), uc_usable = (reasons = []), uc_reasons = reasons\<rparr>, d))"

definition decrypt_for_execution_after_safety :: "decryption \<Rightarrow> settings \<Rightarrow> ref \<Rightarrow> (db, string) action" where
  "decrypt_for_execution_after_safety dec cfg i =
     andThen (get_secret_row i) (\<lambda>r.
     andThen (unless (sec_active r) (SecretHandlingError ''Credential secret is disabled'')) (\<lambda>_.
     query (\<lambda>_. case secret_crypto cfg of
                  Inl e \<Rightarrow> Inl e
                | Inr key \<Rightarrow> cipher_decrypt dec key (sec_encrypted_payload r))))"

section \<open>The endpoints\<close>

fun secret_409 :: "error \<Rightarrow> error" where
  "secret_409 (SecretHandlingError m) = HTTPException 409 m"
| "secret_409 e = e"

text \<open>The actor from the headers, the permission, the call; an empty secret does not fit its schema.\<close>

definition vault_endpoint ::
  "permission \<Rightarrow> string option \<Rightarrow> string option \<Rightarrow> (string \<Rightarrow> (db, 'a) action) \<Rightarrow> (db, 'a) action" where
  "vault_endpoint perm x_actor x_roles m =
     andThen (query (\<lambda>_. get_credential_vault_actor x_actor x_roles)) (\<lambda>a. endpoint perm a (m (username a)))"

definition nonempty_secret :: "string \<Rightarrow> (db, 'a) action \<Rightarrow> (db, 'a) action" where
  "nonempty_secret v m = (if v = [] then raise (HTTPException 422 ''Unprocessable Entity'') else m)"

definition api_create_secret ::
  "encryption \<Rightarrow> settings \<Rightarrow> int \<Rightarrow> nat \<Rightarrow> secret_create \<Rightarrow> string option \<Rightarrow> string option \<Rightarrow> (db, secret_read) action" where
  "api_create_secret enc cfg now nonce p x_actor x_roles =
     nonempty_secret (sc_secret p) (vault_endpoint Perm_manage_credential_secrets x_actor x_roles (\<lambda>actr.
       catching secret_409 (vault_create enc cfg now nonce p actr)))"

definition api_list_secrets :: "bool option \<Rightarrow> string option \<Rightarrow> string option \<Rightarrow> (db, secret_read list) action" where
  "api_list_secrets active x_actor x_roles =
     vault_endpoint Perm_read_credential_metadata x_actor x_roles (\<lambda>_. vault_list active)"

definition api_get_secret_metadata :: "string \<Rightarrow> string option \<Rightarrow> string option \<Rightarrow> (db, secret_read) action" where
  "api_get_secret_metadata i x_actor x_roles =
     vault_endpoint Perm_read_credential_metadata x_actor x_roles (\<lambda>_. vault_get (RefText i))"

definition api_update_secret_metadata ::
  "int \<Rightarrow> string \<Rightarrow> secret_update \<Rightarrow> string option \<Rightarrow> string option \<Rightarrow> (db, secret_read) action" where
  "api_update_secret_metadata now i p x_actor x_roles =
     vault_endpoint Perm_manage_credential_secrets x_actor x_roles (vault_update now (RefText i) p)"

definition api_rotate_secret ::
  "encryption \<Rightarrow> settings \<Rightarrow> int \<Rightarrow> nat \<Rightarrow> string \<Rightarrow> string \<Rightarrow> string option \<Rightarrow> string option \<Rightarrow> (db, secret_read) action" where
  "api_rotate_secret enc cfg now nonce i v x_actor x_roles =
     nonempty_secret v (vault_endpoint Perm_manage_credential_secrets x_actor x_roles (\<lambda>actr.
       catching secret_409 (vault_rotate enc cfg now nonce (RefText i) v actr)))"

definition api_disable_secret :: "int \<Rightarrow> string \<Rightarrow> string option \<Rightarrow> string option \<Rightarrow> (db, secret_read) action" where
  "api_disable_secret now i x_actor x_roles =
     vault_endpoint Perm_manage_credential_secrets x_actor x_roles (vault_disable now (RefText i))"

definition api_check_secret_usable :: "settings \<Rightarrow> string \<Rightarrow> string option \<Rightarrow> string option \<Rightarrow> (db, use_check) action" where
  "api_check_secret_usable cfg i x_actor x_roles =
     vault_endpoint Perm_use_credential_secrets x_actor x_roles (\<lambda>_. check_usable cfg (RefText i))"

section \<open>The table\<close>

interpretation secret_table: row_store find_credential_secret upd_secret sec_id
  by unfold_locales (auto simp: upd_secret_def get_upd_row dest: get_row_key)

lemma row_ids [simp]:
  "sec_id (rotate_row now payload actr r) = sec_id r" "sec_id (update_metadata_row now n u p m actr r) = sec_id r"
  "sec_id (disable_row now actr r) = sec_id r"
  by (simp_all add: rotate_row_def update_metadata_row_def disable_row_def)

lemma row_payloads [simp]:
  "sec_encrypted_payload (rotate_row now payload actr r) = payload" "sec_active (rotate_row now payload actr r)"
  "sec_encrypted_payload (update_metadata_row now n u p m actr r) = sec_encrypted_payload r"
  "sec_active (update_metadata_row now n u p m actr r) = sec_active r"
  "sec_encrypted_payload (disable_row now actr r) = sec_encrypted_payload r" "\<not> sec_active (disable_row now actr r)"
  by (simp_all add: rotate_row_def update_metadata_row_def disable_row_def)

section \<open>Requests\<close>

datatype vault_request =
    CreateSecret nat secret_create
  | UpdateSecret string secret_update
  | RotateSecret nat string string
  | DisableSecret string

fun vault_serve :: "encryption \<Rightarrow> settings \<Rightarrow> int \<Rightarrow> string \<Rightarrow> vault_request \<Rightarrow> (db, secret_read) action" where
  "vault_serve enc cfg now actr (CreateSecret nonce p) = committed (vault_create enc cfg now nonce p actr)"
| "vault_serve enc cfg now actr (UpdateSecret i p) = committed (vault_update now (RefText i) p actr)"
| "vault_serve enc cfg now actr (RotateSecret nonce i v) = committed (vault_rotate enc cfg now nonce (RefText i) v actr)"
| "vault_serve enc cfg now actr (DisableSecret i) = committed (vault_disable now (RefText i) actr)"

definition vault_run :: "encryption \<Rightarrow> settings \<Rightarrow> (int \<times> string \<times> vault_request) list \<Rightarrow> db \<Rightarrow> db" where
  "vault_run enc cfg qs s = fold (\<lambda>(now, actr, q) d. snd (vault_serve enc cfg now actr q d)) qs s"

section \<open>The vault as a key ring\<close>

text \<open>What the vault promises: a secret and whether it is enabled, for every identifier.\<close>

type_synonym keyring = "uuid \<rightharpoonup> string \<times> bool"

definition keyring_of :: "decryption \<Rightarrow> string \<Rightarrow> db \<Rightarrow> keyring" where
  "keyring_of dec key d i =
     (case find_credential_secret d i of
        None \<Rightarrow> None
      | Some r \<Rightarrow> (case dec key (sec_encrypted_payload r) of None \<Rightarrow> None | Some p \<Rightarrow> Some (p, sec_active r)))"

inductive keyring_step :: "keyring \<Rightarrow> vault_request \<Rightarrow> keyring \<Rightarrow> bool" where
  created: "m i = None \<Longrightarrow> sc_secret p \<noteq> [] \<Longrightarrow> keyring_step m (CreateSecret n p) (m(i \<mapsto> (sc_secret p, True)))"
| rotated: "coerce_ref ''Credential secret'' (RefText i) = Inr u \<Longrightarrow> m u = Some (old, b) \<Longrightarrow> v \<noteq> [] \<Longrightarrow>
    keyring_step m (RotateSecret n i v) (m(u \<mapsto> (v, True)))"
| disabled: "coerce_ref ''Credential secret'' (RefText i) = Inr u \<Longrightarrow> m u = Some (p, b) \<Longrightarrow>
    keyring_step m (DisableSecret i) (m(u \<mapsto> (p, False)))"
| described: "coerce_ref ''Credential secret'' (RefText i) = Inr u \<Longrightarrow> m u = Some (p, b) \<Longrightarrow>
    keyring_step m (UpdateSecret i d) m"

text \<open>The settings and the cipher the vault runs with: a key of 16 characters or more, a cipher that reads back.\<close>

definition working_cipher :: "encryption \<Rightarrow> decryption \<Rightarrow> settings \<Rightarrow> string \<Rightarrow> bool" where
  "working_cipher enc dec cfg key \<longleftrightarrow> secret_key cfg = Some key \<and> 16 \<le> length key \<and>
     (\<forall>n v. enc key n v \<noteq> [] \<and> dec key (enc key n v) = Some v)"

text \<open>Every stored payload is a token of the cipher, and identifiers are drawn once.\<close>

definition vault_ok :: "encryption \<Rightarrow> string \<Rightarrow> db \<Rightarrow> bool" where
  "vault_ok enc key d \<longleftrightarrow> (\<forall>r\<in>set (t_credential_secret d).
     sec_id r < db_next_id d \<and> (\<exists>n v. v \<noteq> [] \<and> sec_encrypted_payload r = enc key n v))"

lemma working_crypto: "working_cipher enc dec cfg key \<Longrightarrow> secret_crypto cfg = Inr key"
  by (cases key) (auto simp: working_cipher_def secret_crypto_def fernet_cipher_def)

lemma vault_ok_audited:
  "vault_ok enc key s \<Longrightarrow> audited_secret now actr act stored s = (Inr x, s') \<Longrightarrow>
   vault_ok enc key s' \<and> t_credential_secret s' = t_credential_secret s \<and> x = read_secret stored"
  by (fastforce simp: audited_secret_def andThen_Inr audit_write_Inr Let_def vault_ok_def)

lemma vault_ok_row:
  assumes "vault_ok enc key s" "\<And>r. sec_id (f r) = sec_id r"
    and "\<And>r. r \<in> set (t_credential_secret s) \<Longrightarrow> \<exists>n v. v \<noteq> [] \<and> sec_encrypted_payload (f r) = enc key n v"
  shows "vault_ok enc key (upd_secret i f s)"
  using assms by (auto simp: vault_ok_def upd_secret_def upd_row_def)

lemma keyring_of_audited: "t_credential_secret s' = t_credential_secret s \<Longrightarrow> keyring_of dec key s' = keyring_of dec key s"
  by (rule ext) (simp add: keyring_of_def)

lemma change_secret_row_Inr:
  "change_secret_row (RefText i) f s = (Inr r', s') \<longleftrightarrow>
   (\<exists>u r. coerce_ref ''Credential secret'' (RefText i) = Inr u \<and> find_credential_secret s u = Some r \<and>
      r' = f r \<and> s' = upd_secret u f s)"
  by (auto simp: change_secret_row_def andThen_Inr get_secret_row_def get_by_ref_Inr dest: get_row_key)

lemma known_secret:
  assumes "working_cipher enc dec cfg key" "vault_ok enc key s" "find_credential_secret s u = Some r"
  obtains p where "keyring_of dec key s u = Some (p, sec_active r)" "dec key (sec_encrypted_payload r) = Some p"
proof -
  from assms(3) have "r \<in> set (t_credential_secret s)" by (auto dest: get_row_key)
  with assms(1,2) obtain p where "dec key (sec_encrypted_payload r) = Some p"
    by (fastforce simp: working_cipher_def vault_ok_def)
  with assms(3) that show ?thesis by (simp add: keyring_of_def)
qed

lemma keyring_of_append:
  assumes "find_credential_secret s (sec_id r) = None" "dec key (sec_encrypted_payload r) = Some p"
    and "t_credential_secret s' = t_credential_secret s @ [r]"
  shows "keyring_of dec key s' = (keyring_of dec key s)(sec_id r \<mapsto> (p, sec_active r))"
proof (rule ext)
  fix j
  show "keyring_of dec key s' j = ((keyring_of dec key s)(sec_id r \<mapsto> (p, sec_active r))) j"
    using assms(2,3) assms(1) by (cases "j = sec_id r") (auto simp: keyring_of_def get_row_append get_row_single split: option.splits)
qed

lemma keyring_of_upd:
  assumes "\<And>r. sec_id (f r) = sec_id r" "find_credential_secret s u = Some r"
    and "dec key (sec_encrypted_payload (f r)) = Some p"
  shows "keyring_of dec key (upd_secret u f s) = (keyring_of dec key s)(u \<mapsto> (p, sec_active (f r)))"
  using assms by (intro ext) (simp add: keyring_of_def secret_table.get_upd)

lemma fresh_secret: "vault_ok enc key s \<Longrightarrow> find_credential_secret s (db_next_id s) = None"
  by (auto simp: vault_ok_def get_row_None)

lemma create_refines:
  assumes "working_cipher enc dec cfg key" "vault_ok enc key s" "vault_create enc cfg now n p actr s = (Inr x, s')"
  shows "vault_ok enc key s' \<and> keyring_step (keyring_of dec key s) (CreateSecret n p) (keyring_of dec key s')"
proof -
  define r where "r = \<lparr>sec_id = db_next_id s, sec_name = sc_name p, sec_username = sc_username p,
      sec_encrypted_payload = enc key n (sc_secret p), sec_auth_type = sc_auth_type p, sec_purpose = sc_purpose p,
      sec_version = 1, sec_active = True, sec_metadata = Some (sanitize_report_metadata (Some (sc_metadata p))),
      sec_created_by = Some actr, sec_updated_by = Some actr, sec_created_at = Aware now, sec_updated_at = Aware now,
      sec_rotated_at = None, sec_disabled_at = None\<rparr>"
  define s1 where "s1 = s\<lparr>db_next_id := db_next_id s + 1, t_credential_secret := t_credential_secret s @ [r]\<rparr>"
  from assms(3) have sec: "sc_secret p \<noteq> []" and run: "audited_secret now actr ''created'' r s1 = (Inr x, s')"
    by (auto simp: vault_create_def andThen_Inr working_crypto [OF assms(1)] cipher_encrypt_def create_secret_row_def
        Let_def r_def s1_def split: if_splits)
  have r: "sec_id r = db_next_id s" "sec_encrypted_payload r = enc key n (sc_secret p)" "sec_active r"
    by (simp_all add: r_def)
  have read: "dec key (enc key n (sc_secret p)) = Some (sc_secret p)" using assms(1) by (simp add: working_cipher_def)
  have "vault_ok enc key s1"
    using assms(2) sec r by (auto simp: vault_ok_def s1_def less_Suc_eq)
  from vault_ok_audited [OF this run] have ok: "vault_ok enc key s'" "t_credential_secret s' = t_credential_secret s @ [r]"
    by (simp_all add: s1_def)
  have "keyring_of dec key s' = (keyring_of dec key s)(db_next_id s \<mapsto> (sc_secret p, True))"
    using keyring_of_append [where r = r and s = s and s' = s' and dec = dec and key = key and p = "sc_secret p"]
      fresh_secret [OF assms(2)] r read ok(2) by simp
  moreover have "keyring_of dec key s (db_next_id s) = None"
    using fresh_secret [OF assms(2)] by (simp add: keyring_of_def)
  ultimately show ?thesis using ok(1) sec keyring_step.created by metis
qed

lemma row_refines:
  assumes "working_cipher enc dec cfg key" "vault_ok enc key s" "change_secret_row (RefText i) f s = (Inr r', t)"
    and "audited_secret now actr act r' t = (Inr x, s')" "\<And>r. sec_id (f r) = sec_id r"
    and "\<And>r. sec_encrypted_payload (f r) \<in> {sec_encrypted_payload r} \<union> {enc key n v |n v. v \<noteq> []}"
  obtains u r p where "coerce_ref ''Credential secret'' (RefText i) = Inr u" "find_credential_secret s u = Some r"
    "keyring_of dec key s u = Some (p, sec_active r)" "dec key (sec_encrypted_payload r) = Some p" "vault_ok enc key s'"
    "\<And>q. dec key (sec_encrypted_payload (f r)) = Some q \<Longrightarrow>
       keyring_of dec key s' = (keyring_of dec key s)(u \<mapsto> (q, sec_active (f r)))"
proof -
  from assms(3) obtain u r where u: "coerce_ref ''Credential secret'' (RefText i) = Inr u" "find_credential_secret s u = Some r"
    and t: "t = upd_secret u f s" by (auto simp: change_secret_row_Inr)
  from known_secret [OF assms(1,2) u(2)] obtain p where
    p: "keyring_of dec key s u = Some (p, sec_active r)" "dec key (sec_encrypted_payload r) = Some p" by blast
  have "vault_ok enc key t" unfolding t
  proof (rule vault_ok_row [OF assms(2,5)])
    fix r assume "r \<in> set (t_credential_secret s)"
    with assms(2) have "\<exists>n v. v \<noteq> [] \<and> sec_encrypted_payload r = enc key n v" by (simp add: vault_ok_def)
    with assms(6) [of r] show "\<exists>n v. v \<noteq> [] \<and> sec_encrypted_payload (f r) = enc key n v" by fastforce
  qed
  from vault_ok_audited [OF this assms(4)] have ok: "vault_ok enc key s'" "t_credential_secret s' = t_credential_secret t"
    by simp_all
  have "keyring_of dec key s' = (keyring_of dec key s)(u \<mapsto> (q, sec_active (f r)))"
    if "dec key (sec_encrypted_payload (f r)) = Some q" for q
  proof -
    have "keyring_of dec key (upd_secret u f s) = (keyring_of dec key s)(u \<mapsto> (q, sec_active (f r)))"
      by (rule keyring_of_upd) (rule assms(5), rule u(2), rule that)
    with keyring_of_audited [OF ok(2)] show ?thesis by (simp add: t)
  qed
  with u p ok(1) that show ?thesis by blast
qed

lemma rotate_refines:
  assumes "working_cipher enc dec cfg key" "vault_ok enc key s" "vault_rotate enc cfg now n (RefText i) v actr s = (Inr x, s')"
  shows "vault_ok enc key s' \<and> keyring_step (keyring_of dec key s) (RotateSecret n i v) (keyring_of dec key s')"
proof -
  let ?f = "rotate_row now (enc key n v) (Some actr)"
  from assms(3) obtain r' t where v: "v \<noteq> []" and runs: "change_secret_row (RefText i) ?f s = (Inr r', t)"
    "audited_secret now actr ''rotated'' r' t = (Inr x, s')"
    by (auto simp: vault_rotate_def andThen_Inr working_crypto [OF assms(1)] cipher_encrypt_def split: if_splits)
  have read: "dec key (enc key n v) = Some v" using assms(1) by (simp add: working_cipher_def)
  show ?thesis
  proof (rule row_refines [OF assms(1,2) runs])
    show "sec_encrypted_payload (?f r) \<in> {sec_encrypted_payload r} \<union> {enc key n v |n v. v \<noteq> []}" for r using v by auto
  next
    fix u r p
    assume u: "coerce_ref ''Credential secret'' (RefText i) = Inr u" "keyring_of dec key s u = Some (p, sec_active r)"
      and ok: "vault_ok enc key s'"
      and upd: "\<And>q. dec key (sec_encrypted_payload (?f r)) = Some q \<Longrightarrow>
        keyring_of dec key s' = (keyring_of dec key s)(u \<mapsto> (q, sec_active (?f r)))"
    from upd [of v] read have "keyring_of dec key s' = (keyring_of dec key s)(u \<mapsto> (v, True))" by simp
    with ok keyring_step.rotated [where m = "keyring_of dec key s", OF u v] show ?thesis by simp
  qed simp
qed

lemma disable_refines:
  assumes "working_cipher enc dec cfg key" "vault_ok enc key s" "vault_disable now (RefText i) actr s = (Inr x, s')"
  shows "vault_ok enc key s' \<and> keyring_step (keyring_of dec key s) (DisableSecret i) (keyring_of dec key s')"
proof -
  let ?f = "disable_row now (Some actr)"
  from assms(3) obtain r' t where runs: "change_secret_row (RefText i) ?f s = (Inr r', t)"
    "audited_secret now actr ''disabled'' r' t = (Inr x, s')"
    by (auto simp: vault_disable_def andThen_Inr)
  show ?thesis
  proof (rule row_refines [OF assms(1,2) runs])
    fix u r p
    assume u: "coerce_ref ''Credential secret'' (RefText i) = Inr u" "keyring_of dec key s u = Some (p, sec_active r)"
      and ok: "vault_ok enc key s'" and read: "dec key (sec_encrypted_payload r) = Some p"
      and upd: "\<And>q. dec key (sec_encrypted_payload (?f r)) = Some q \<Longrightarrow>
        keyring_of dec key s' = (keyring_of dec key s)(u \<mapsto> (q, sec_active (?f r)))"
    from upd [of p] read have "keyring_of dec key s' = (keyring_of dec key s)(u \<mapsto> (p, False))" by simp
    with ok keyring_step.disabled [where m = "keyring_of dec key s", OF u] show ?thesis by simp
  qed simp_all
qed

lemma update_refines:
  assumes "working_cipher enc dec cfg key" "vault_ok enc key s" "vault_update now (RefText i) p actr s = (Inr x, s')"
  shows "vault_ok enc key s' \<and> keyring_step (keyring_of dec key s) (UpdateSecret i p) (keyring_of dec key s')"
proof -
  let ?f = "update_metadata_row now (su_name p) (su_username p) (su_purpose p)
     (case su_metadata p of None \<Rightarrow> None | Some m \<Rightarrow> Some (sanitize_report_metadata (Some m))) (Some actr)"
  from assms(3) obtain r' t where runs: "change_secret_row (RefText i) ?f s = (Inr r', t)"
    "audited_secret now actr ''metadata_updated'' r' t = (Inr x, s')"
    by (auto simp: vault_update_def andThen_Inr)
  show ?thesis
  proof (rule row_refines [OF assms(1,2) runs])
    fix u r q
    assume u: "coerce_ref ''Credential secret'' (RefText i) = Inr u" "keyring_of dec key s u = Some (q, sec_active r)"
      and ok: "vault_ok enc key s'" and read: "dec key (sec_encrypted_payload r) = Some q"
      and upd: "\<And>q. dec key (sec_encrypted_payload (?f r)) = Some q \<Longrightarrow>
        keyring_of dec key s' = (keyring_of dec key s)(u \<mapsto> (q, sec_active (?f r)))"
    from upd [of q] read u(2) have "keyring_of dec key s' = keyring_of dec key s" by (simp add: fun_upd_idem)
    with ok keyring_step.described [where m = "keyring_of dec key s", OF u] show ?thesis by simp
  qed simp_all
qed

lemma serve_refines:
  assumes "working_cipher enc dec cfg key" "vault_ok enc key s" "vault_serve enc cfg now actr q s = (Inr x, s')"
  shows "vault_ok enc key s' \<and> keyring_step (keyring_of dec key s) q (keyring_of dec key s')"
proof (cases q)
  case (CreateSecret n p)
  with assms create_refines show ?thesis by (simp add: committed_Inr)
next
  case (UpdateSecret i p)
  with assms(3) update_refines [OF assms(1,2)] show ?thesis by (simp add: committed_Inr)
next
  case (RotateSecret n i v)
  with assms(3) rotate_refines [OF assms(1,2)] show ?thesis by (simp add: committed_Inr)
next
  case (DisableSecret i)
  with assms(3) disable_refines [OF assms(1,2)] show ?thesis by (simp add: committed_Inr)
qed

lemma serve_refused: "vault_serve enc cfg now actr q s = (Inl e, s') \<Longrightarrow> s' = s"
  by (cases q) (auto dest: committed_Inl)

lemma vault_run_ok:
  "working_cipher enc dec cfg key \<Longrightarrow> vault_ok enc key s \<Longrightarrow> vault_ok enc key (vault_run enc cfg qs s)"
proof (induction qs arbitrary: s)
  case (Cons q qs)
  obtain now actr r where q: "q = (now, actr, r)" by (cases q)
  obtain x s' where run: "vault_serve enc cfg now actr r s = (x, s')" by (cases "vault_serve enc cfg now actr r s")
  have "vault_ok enc key s'"
  proof (cases x)
    case (Inl e)
    with run Cons.prems(2) show ?thesis by (auto dest: serve_refused)
  next
    case (Inr y)
    with run serve_refines [OF Cons.prems] show ?thesis by blast
  qed
  with Cons.IH [OF Cons.prems(1) this] q run show ?case by (simp add: vault_run_def)
qed (simp add: vault_run_def)

lemma vault_ok_empty: "vault_ok enc key empty_db"
  by (simp add: vault_ok_def empty_db_def)

section \<open>Properties\<close>

text \<open>An example for the witnesses: a cipher that only marks its tokens, and a run of two requests.\<close>

definition toy_enc :: encryption where
  "toy_enc key n v = CHR ''t'' # v"

definition toy_dec :: decryption where
  "toy_dec key t = (case t of [] \<Rightarrow> None | _ # v \<Rightarrow> Some v)"

definition toy_settings :: settings where
  "toy_settings = default_settings\<lparr>secret_key := Some ''0123456789abcdef''\<rparr>"

definition toy_secret :: secret_create where
  "toy_secret = \<lparr>sc_name = ''core'', sc_username = ''admin'', sc_secret = ''hunter2'', sc_auth_type = ''password'',
     sc_purpose = None, sc_metadata = []\<rparr>"

definition toy_run :: "(int \<times> string \<times> vault_request) list" where
  "toy_run = [(5, ''ann'', CreateSecret 0 toy_secret)]"

lemma toy_working: "working_cipher toy_enc toy_dec toy_settings ''0123456789abcdef''"
  by (simp add: working_cipher_def toy_settings_def toy_enc_def toy_dec_def)

lemma toy_keyring: "keyring_of toy_dec ''0123456789abcdef'' (vault_run toy_enc toy_settings toy_run empty_db) 100 = Some (''hunter2'', True)"
  by (simp add: vault_run_def toy_run_def vault_create_def committed_def andThen_def query_def
      working_crypto [OF toy_working] cipher_encrypt_def toy_secret_def toy_enc_def create_secret_row_def fresh_id_def
      change_def ret_def audited_secret_def audit_write_def create_audit_row_def optional_ref_def empty_db_def Let_def
      keyring_of_def get_row_def toy_dec_def)

text \<open>
  C4: The vault implements the key ring.  With a usable key, a request on a vault that was filled by requests
  either fails and changes nothing, or takes the key ring (the secret and the enabled flag of every identifier)
  one step: a new enabled secret under an unused identifier, a secret replaced and enabled, a known secret
  disabled, or no change for new metadata.
\<close>

theorem vault_refines_keyring:
  assumes "working_cipher enc dec cfg key" "s = vault_run enc cfg qs empty_db"
  shows "case vault_serve enc cfg now actr q s of
       (Inl _, s') \<Rightarrow> s' = s
     | (Inr _, s') \<Rightarrow> keyring_step (keyring_of dec key s) q (keyring_of dec key s')"
proof -
  from vault_run_ok [OF assms(1) vault_ok_empty] assms(2) have "vault_ok enc key s" by simp
  with serve_refines [OF assms(1)] serve_refused show ?thesis
    by (fastforce split: prod.splits sum.splits)
qed

theorem vault_refines_keyring_witness:
  "case vault_serve toy_enc toy_settings 6 ''bob'' (DisableSecret (uuid_str 100)) (vault_run toy_enc toy_settings toy_run empty_db) of
       (Inl _, s') \<Rightarrow> s' = vault_run toy_enc toy_settings toy_run empty_db
     | (Inr _, s') \<Rightarrow>
         keyring_step (keyring_of toy_dec ''0123456789abcdef'' (vault_run toy_enc toy_settings toy_run empty_db))
           (DisableSecret (uuid_str 100)) (keyring_of toy_dec ''0123456789abcdef'' s')"
  by (rule vault_refines_keyring [OF toy_working refl])

text \<open>
  A secret can be taken out exactly as it was last put in, and only while it is enabled: after any run
  of requests, decrypting returns a text if and only if the key ring holds that text, enabled, under
  the identifier given.
\<close>

theorem vault_decrypts:
  assumes "working_cipher enc dec cfg key" "s = vault_run enc cfg qs empty_db"
    and "coerce_ref ''Credential secret'' i = Inr u"
  shows "decrypt_for_execution_after_safety dec cfg i s = (Inr p, s) \<longleftrightarrow> keyring_of dec key s u = Some (p, True)"
proof -
  from vault_run_ok [OF assms(1) vault_ok_empty] assms(2) have ok: "vault_ok enc key s" by simp
  have payload: "sec_encrypted_payload r \<noteq> []" if "find_credential_secret s u = Some r" for r
    using assms(1) ok get_row_key [OF that] by (fastforce simp: vault_ok_def working_cipher_def)
  show ?thesis
    using payload assms(3)
    by (auto simp: decrypt_for_execution_after_safety_def andThen_Inr get_secret_row_def get_by_ref_Inr
        working_crypto [OF assms(1)] cipher_decrypt_def keyring_of_def split: option.splits)
qed

theorem vault_decrypts_witness:
  "decrypt_for_execution_after_safety toy_dec toy_settings (RefId 100) (vault_run toy_enc toy_settings toy_run empty_db)
     = (Inr ''hunter2'', vault_run toy_enc toy_settings toy_run empty_db)"
  using vault_decrypts [OF toy_working refl, of "RefId 100" 100] toy_keyring by simp

text \<open>
  The vault stores and returns nothing of a secret but its token: requests that differ only in the
  secret, when the cipher writes the same token for both, have the same result and leave the same state.
\<close>

theorem vault_hides_secret:
  assumes "\<And>key. enc key n v = enc key n v'" "v \<noteq> []" "v' \<noteq> []"
  shows "vault_serve enc cfg now actr (CreateSecret n (p\<lparr>sc_secret := v\<rparr>))
       = vault_serve enc cfg now actr (CreateSecret n (p\<lparr>sc_secret := v'\<rparr>)) \<and>
     vault_serve enc cfg now actr (RotateSecret n i v) = vault_serve enc cfg now actr (RotateSecret n i v')"
proof -
  have "cipher_encrypt enc key n v = cipher_encrypt enc key n v'" for key
    using assms by (simp add: cipher_encrypt_def)
  then show ?thesis by (simp add: vault_create_def vault_rotate_def Let_def)
qed

theorem vault_hides_secret_witness:
  "vault_serve (\<lambda>_ _ _. ''token'') toy_settings 5 ''ann'' (CreateSecret 0 (toy_secret\<lparr>sc_secret := ''hunter2''\<rparr>))
     = vault_serve (\<lambda>_ _ _. ''token'') toy_settings 5 ''ann'' (CreateSecret 0 (toy_secret\<lparr>sc_secret := ''letmein''\<rparr>))"
  by (rule vault_hides_secret [where v = "''hunter2''" and v' = "''letmein''", THEN conjunct1]) simp_all

end
