(* ===== verification/LabValidationService.thy ===== *)
theory LabValidationService
  imports LabValidations Masking Config Endpoints
begin

text \<open>
  app/services/lab_validation_service.py with the transcript and checklist repositories
  (app/repositories/lab_validation_transcripts.py, lab_validation_checklists.py), the payloads of
  app/schemas/lab_validation.py and the endpoints of app/api/v1/lab_validations.py.  The hash of a
  transcript is a parameter.
\<close>

section \<open>Transcripts and checklists\<close>

definition create_sanitized_transcript ::
  "int \<Rightarrow> string \<Rightarrow> string \<Rightarrow> string \<Rightarrow> string \<Rightarrow> ref option \<Rightarrow> (db, lab_transcript) action" where
  "create_sanitized_transcript now filename content_type sanitized_text' sha validation =
     andThen (query (\<lambda>_. optional_ref ''Lab validation'' validation)) (\<lambda>v.
     andThen fresh_id (\<lambda>i.
       let t = \<lparr>lt_id = i, lt_validation_id = v, lt_filename = filename, lt_content_type = content_type,
                lt_sanitized_text = sanitized_text', lt_sha256 = sha, lt_created_at = Aware now\<rparr>
       in andThen (change (\<lambda>d. d\<lparr>t_lab_transcript := t_lab_transcript d @ [t]\<rparr>)) (\<lambda>_. ret t)))"

definition get_transcript :: "ref \<Rightarrow> (db, lab_transcript) action" where
  "get_transcript = get_by_ref find_lab_transcript ''Lab validation transcript''"

definition transcripts_for :: "uuid \<Rightarrow> db \<Rightarrow> lab_transcript list" where
  "transcripts_for v d =
     sort_key (\<lambda>t. - instant (lt_created_at t)) (filter (\<lambda>t. lt_validation_id t = Some v) (t_lab_transcript d))"

definition create_checklist_item :: "int \<Rightarrow> uuid \<Rightarrow> string \<times> string \<Rightarrow> (db, checklist_item) action" where
  "create_checklist_item now v item =
     andThen fresh_id (\<lambda>i.
       let c = \<lparr>li_id = i, li_validation_id = v, li_item_key = fst item, li_description = snd item,
                li_status = ''pending'', li_notes = None, li_created_at = Aware now, li_updated_at = Aware now\<rparr>
       in andThen (change (\<lambda>d. d\<lparr>t_checklist_item := t_checklist_item d @ [c]\<rparr>)) (\<lambda>_. ret c))"

definition create_items :: "int \<Rightarrow> ref \<Rightarrow> (string \<times> string) list \<Rightarrow> (db, checklist_item list) action" where
  "create_items now validation items =
     andThen (query (\<lambda>_. coerce_ref ''Lab validation'' validation)) (\<lambda>v. for_each (create_checklist_item now v) items)"

definition get_checklist_item :: "ref \<Rightarrow> (db, checklist_item) action" where
  "get_checklist_item = get_by_ref find_checklist_item ''Lab validation checklist item''"

definition checklist_for :: "uuid \<Rightarrow> db \<Rightarrow> checklist_item list" where
  "checklist_for v d =
     sort_key (\<lambda>c. instant (li_created_at c)) (sort_key li_id (filter (\<lambda>c. li_validation_id c = v) (t_checklist_item d)))"

definition upd_checklist_item :: "uuid \<Rightarrow> (checklist_item \<Rightarrow> checklist_item) \<Rightarrow> db \<Rightarrow> db" where
  "upd_checklist_item i f d = d\<lparr>t_checklist_item := upd_row li_id i f (t_checklist_item d)\<rparr>"

definition update_item_status :: "int \<Rightarrow> ref \<Rightarrow> string \<Rightarrow> string option \<Rightarrow> (db, checklist_item) action" where
  "update_item_status now item status' notes =
     (let f = (\<lambda>c. c\<lparr>li_status := status', li_notes := (if notes \<noteq> None then notes else li_notes c),
                 li_updated_at := Aware now\<rparr>)
      in andThen (get_checklist_item item) (\<lambda>c.
         andThen (change (upd_checklist_item (li_id c) f)) (\<lambda>_. ret (f c))))"

section \<open>Payloads and replies\<close>

record validation_create =
  vp_vendor :: string
  vp_platform :: "string option"
  vp_model_pattern :: "string option"
  vp_driver_name :: string
  vp_capability :: string
  vp_lab_environment :: "string option"
  vp_evidence_summary :: "string option"
  vp_expires_at :: "datetime option"

definition VALIDATION_CAPABILITIES :: "string list" where
  "VALIDATION_CAPABILITIES = [''vlan_change'', ''password_change'', ''acl_change'', ''port_change'', ''config_backup'']"

definition check_validation_payload :: "validation_create \<Rightarrow> bool" where
  "check_validation_payload p \<longleftrightarrow> vp_vendor p \<noteq> [] \<and> vp_driver_name p \<noteq> [] \<and>
     vp_capability p \<in> set VALIDATION_CAPABILITIES"

definition CHECKLIST_STATUSES :: "string list" where
  "CHECKLIST_STATUSES = [''pending'', ''passed'', ''failed'', ''skipped'']"

record transcript_read =
  tr_id :: string
  tr_validation_id :: "string option"
  tr_filename :: string
  tr_content_type :: string
  tr_sha256 :: string
  tr_created_at :: string
  tr_sanitized_preview :: string

record checklist_read =
  cl_id :: string
  cl_validation_id :: string
  cl_item_key :: string
  cl_description :: string
  cl_status :: string
  cl_notes :: "string option"
  cl_created_at :: string
  cl_updated_at :: string

record validation_read =
  vl_row :: jobj
  vl_transcripts :: "transcript_read list"
  vl_checklist :: "checklist_read list"

definition read_transcript :: "lab_transcript \<Rightarrow> transcript_read" where
  "read_transcript t = \<lparr>tr_id = uuid_str (lt_id t), tr_validation_id = map_option uuid_str (lt_validation_id t),
     tr_filename = lt_filename t, tr_content_type = lt_content_type t, tr_sha256 = lt_sha256 t,
     tr_created_at = isoformat (lt_created_at t), tr_sanitized_preview = take 500 (lt_sanitized_text t)\<rparr>"

definition read_checklist_item :: "checklist_item \<Rightarrow> checklist_read" where
  "read_checklist_item c = \<lparr>cl_id = uuid_str (li_id c), cl_validation_id = uuid_str (li_validation_id c),
     cl_item_key = li_item_key c, cl_description = li_description c, cl_status = li_status c, cl_notes = li_notes c,
     cl_created_at = isoformat (li_created_at c), cl_updated_at = isoformat (li_updated_at c)\<rparr>"

text \<open>The columns of the row, and the children when they are asked for.\<close>

definition validation_columns :: "lab_validation \<Rightarrow> jobj" where
  "validation_columns v =
     [(''id'', JStr (uuid_str (lv_id v))), (''vendor'', JStr (lv_vendor v)), (''platform'', str_opt (lv_platform v)),
      (''model_pattern'', str_opt (lv_model_pattern v)), (''driver_name'', JStr (lv_driver_name v)),
      (''capability'', JStr (lv_capability v)), (''status'', JStr (lv_status v)),
      (''validated_by'', str_opt (lv_validated_by v)), (''validated_at'', iso_opt (lv_validated_at v)),
      (''expires_at'', iso_opt (lv_expires_at v)), (''lab_environment'', str_opt (lv_lab_environment v)),
      (''evidence_summary'', str_opt (lv_evidence_summary v)), (''transcript_id'', uuid_opt (lv_transcript_id v)),
      (''created_at'', JStr (isoformat (lv_created_at v))), (''updated_at'', JStr (isoformat (lv_updated_at v)))]"

definition read_validation :: "bool \<Rightarrow> lab_validation \<Rightarrow> db \<Rightarrow> validation_read" where
  "read_validation include_children v d = \<lparr>vl_row = validation_columns v,
     vl_transcripts = (if include_children then map read_transcript (transcripts_for (lv_id v) d) else []),
     vl_checklist = (if include_children then map read_checklist_item (checklist_for (lv_id v) d) else [])\<rparr>"

section \<open>The service\<close>

definition build_default_checklist :: "string \<Rightarrow> (string \<times> string) list" where
  "build_default_checklist capability =
     (if capability = ''password_change'' then
        [(''connect_lab_device'', ''Connect to lab device''),
         (''verify_current_credential'', ''Verify current credential works''),
         (''render_masked_plan'', ''Render masked command plan''),
         (''apply_password_lab'', ''Apply password change in isolated lab''),
         (''verify_new_credential'', ''Verify new credential works''),
         (''verify_old_credential'', ''Verify old credential no longer works, if safe''),
         (''save_after_verification'', ''Save config only after verification''),
         (''reboot_reconnect_check'', ''Run reboot/reconnect check, if lab permits''),
         (''confirm_transcript_sanitized'', ''Confirm transcript sanitized''),
         (''document_rollback'', ''Confirm rollback procedure documented'')]
      else if capability = ''vlan_change'' then
        [(''connect_lab_device'', ''Connect to lab device''), (''create_vlan'', ''Create VLAN''),
         (''assign_test_port'', ''Assign VLAN to test port''), (''verify_running_config'', ''Verify running config''),
         (''verify_idempotent_rerun'', ''Verify idempotent re-run''), (''rollback_vlan'', ''Rollback VLAN''),
         (''confirm_transcript_sanitized'', ''Confirm transcript sanitized'')]
      else
        [(''connect'', ''Connect''), (''dry_run'', ''Dry-run''), (''apply_lab'', ''Apply in lab''),
         (''verify'', ''Verify''), (''rollback'', ''Rollback''), (''sanitize_transcript'', ''Sanitize transcript'')])"

definition create_validation_request :: "int \<Rightarrow> validation_create \<Rightarrow> (db, validation_read) action" where
  "create_validation_request now p =
     andThen (create_lab_validation now (vp_vendor p) (vp_driver_name p) (vp_capability p) (vp_platform p)
        (vp_model_pattern p) (vp_lab_environment p) (vp_evidence_summary p) (vp_expires_at p)) (\<lambda>v.
     andThen (create_items now (RefText (uuid_str (lv_id v))) (build_default_checklist (vp_capability p))) (\<lambda>_.
     asks (read_validation True v)))"

definition attach_sanitized_transcript ::
  "(string \<Rightarrow> string) \<Rightarrow> int \<Rightarrow> string \<Rightarrow> string \<Rightarrow> string \<Rightarrow> string \<Rightarrow> (db, transcript_read) action" where
  "attach_sanitized_transcript sha now validation filename content_type raw_text =
     andThen (get_lab_validation (RefText validation)) (\<lambda>_.
     let s = sanitize_transcript sha raw_text in
     andThen (create_sanitized_transcript now filename content_type (sanitized_text s) (sha256 s)
        (Some (RefText validation))) (\<lambda>t.
     andThen (update_transcript now (RefText validation) (Some (RefId (lt_id t)))) (\<lambda>_.
     ret (read_transcript t))))"

definition approve_validation ::
  "int \<Rightarrow> string \<Rightarrow> string option \<Rightarrow> datetime option \<Rightarrow> string \<Rightarrow> (db, validation_read) action" where
  "approve_validation now validation evidence_summary expires_at actr =
     andThen (mark_approved now (RefText validation) actr evidence_summary expires_at) (\<lambda>v. asks (read_validation True v))"

definition reject_validation :: "int \<Rightarrow> string \<Rightarrow> string option \<Rightarrow> string \<Rightarrow> (db, validation_read) action" where
  "reject_validation now validation evidence_summary actr =
     andThen (mark_rejected now (RefText validation) actr evidence_summary) (\<lambda>v. asks (read_validation True v))"

definition expire_validation :: "int \<Rightarrow> string \<Rightarrow> (db, validation_read) action" where
  "expire_validation now validation =
     andThen (mark_expired now (RefText validation)) (\<lambda>v. asks (read_validation True v))"

definition list_validations ::
  "string option \<Rightarrow> string option \<Rightarrow> string option \<Rightarrow> string option \<Rightarrow> (db, validation_read list) action" where
  "list_validations vendor driver_name capability status' =
     asks (\<lambda>d. map (\<lambda>v. read_validation False v d) (list_lab_validations vendor driver_name capability status' d))"

definition get_validation :: "string \<Rightarrow> (db, validation_read) action" where
  "get_validation validation = andThen (get_lab_validation (RefText validation)) (\<lambda>v. asks (read_validation True v))"

definition get_checklist :: "string \<Rightarrow> (db, checklist_read list) action" where
  "get_checklist validation =
     andThen (get_lab_validation (RefText validation)) (\<lambda>v. asks (\<lambda>d. map read_checklist_item (checklist_for (lv_id v) d)))"

definition update_checklist_item :: "int \<Rightarrow> string \<Rightarrow> string \<Rightarrow> string \<Rightarrow> string option \<Rightarrow> (db, checklist_read) action" where
  "update_checklist_item now validation item status' notes =
     andThen (get_lab_validation (RefText validation)) (\<lambda>_.
     andThen (get_checklist_item (RefText item)) (\<lambda>c.
     andThen (unless (uuid_str (li_validation_id c) = validation)
        (SafetyError ''Checklist item does not belong to this lab validation'')) (\<lambda>_.
     andThen (update_item_status now (RefText item) status' notes) (\<lambda>c.
     ret (read_checklist_item c)))))"

definition assert_real_apply_allowed ::
  "settings \<Rightarrow> int \<Rightarrow> string \<Rightarrow> string \<Rightarrow> string \<Rightarrow> string \<Rightarrow> db \<Rightarrow> error + unit" where
  "assert_real_apply_allowed cfg now vendor model driver_name capability d =
     (if \<not> allow_real_device_apply cfg
      then Inl (SafetyError ''Real device apply is disabled by NCP_ALLOW_REAL_DEVICE_APPLY=false'')
      else if find_approved now vendor model driver_name capability d \<noteq> None then Inr ()
      else let candidates = matching_approved_candidates vendor driver_name None d;
               capable = filter (\<lambda>v. lv_capability v = capability) candidates;
               non_expired = filter (unexpired now) capable
           in if candidates = []
              then Inl (SafetyError ''No approved lab validation exists for this vendor and driver'')
              else if capable = []
              then Inl (SafetyError (''Capability '' @ repr_str capability @ '' is not lab validated for driver '' @ repr_str driver_name))
              else if non_expired = [] then Inl (SafetyError ''Approved lab validation is expired'')
              else if \<not> list_ex (\<lambda>v. model_matches (lv_model_pattern v) model) non_expired
              then Inl (SafetyError ''No approved lab validation matches this device model'')
              else Inl (SafetyError ''No approved lab validation found for destructive real apply''))"

section \<open>The endpoints\<close>

text \<open>A body that does not fit its schema is answered with 422 before the handler runs.\<close>

definition fits :: "bool \<Rightarrow> ('s, 'a) action \<Rightarrow> ('s, 'a) action" where
  "fits ok m = (if ok then m else raise (HTTPException 422 ''Unprocessable Entity''))"

definition api_create_lab_validation :: "int \<Rightarrow> validation_create \<Rightarrow> actor \<Rightarrow> (db, validation_read) action" where
  "api_create_lab_validation now p a =
     fits (check_validation_payload p)
       (endpoint Perm_manage_lab_validations a (create_validation_request now p))"

definition api_list_lab_validations ::
  "string option \<Rightarrow> string option \<Rightarrow> string option \<Rightarrow> string option \<Rightarrow> actor \<Rightarrow> (db, validation_read list) action" where
  "api_list_lab_validations vendor driver_name capability status' a =
     endpoint Perm_read_lab_validations a (list_validations vendor driver_name capability status')"

definition api_get_lab_validation :: "string \<Rightarrow> actor \<Rightarrow> (db, validation_read) action" where
  "api_get_lab_validation i a = endpoint Perm_read_lab_validations a (catching not_found_404 (get_validation i))"

definition api_attach_lab_transcript ::
  "(string \<Rightarrow> string) \<Rightarrow> int \<Rightarrow> string \<Rightarrow> string \<Rightarrow> string \<Rightarrow> string \<Rightarrow> actor \<Rightarrow> (db, transcript_read) action" where
  "api_attach_lab_transcript sha now i filename content_type raw_text a =
     fits (filename \<noteq> [] \<and> content_type \<noteq> [] \<and> raw_text \<noteq> [])
       (endpoint Perm_manage_lab_validations a
         (catching not_found_404 (attach_sanitized_transcript sha now i filename content_type raw_text)))"

definition api_approve_lab_validation ::
  "int \<Rightarrow> string \<Rightarrow> string option \<Rightarrow> datetime option \<Rightarrow> actor \<Rightarrow> (db, validation_read) action" where
  "api_approve_lab_validation now i evidence_summary expires_at a =
     endpoint Perm_manage_lab_validations a
       (catching not_found_404 (approve_validation now i evidence_summary expires_at (username a)))"

definition api_reject_lab_validation :: "int \<Rightarrow> string \<Rightarrow> string option \<Rightarrow> actor \<Rightarrow> (db, validation_read) action" where
  "api_reject_lab_validation now i evidence_summary a =
     endpoint Perm_manage_lab_validations a
       (catching not_found_404 (reject_validation now i evidence_summary (username a)))"

definition api_expire_lab_validation :: "int \<Rightarrow> string \<Rightarrow> actor \<Rightarrow> (db, validation_read) action" where
  "api_expire_lab_validation now i a =
     endpoint Perm_manage_lab_validations a (catching not_found_404 (expire_validation now i))"

definition api_get_lab_checklist :: "string \<Rightarrow> actor \<Rightarrow> (db, checklist_read list) action" where
  "api_get_lab_checklist i a = endpoint Perm_read_lab_validations a (catching not_found_404 (get_checklist i))"

definition api_update_lab_checklist_item ::
  "int \<Rightarrow> string \<Rightarrow> string \<Rightarrow> string \<Rightarrow> string option \<Rightarrow> actor \<Rightarrow> (db, checklist_read) action" where
  "api_update_lab_checklist_item now i item status' notes a =
     fits (status' \<in> set CHECKLIST_STATUSES)
       (endpoint Perm_manage_lab_validations a
         (catching (\<lambda>e. safety_409 (not_found_404 e)) (update_checklist_item now i item status' notes)))"

section \<open>The gate in front of real changes\<close>

text \<open>
  C40: The gate before a real change passes if and only if the flag is set and some stored validation is
  approved, unexpired and for this driver and capability, with a vendor and a model pattern that match; otherwise
  the error is one of five, and the catch-all message at the end of the code is never the one.
\<close>

theorem real_apply_gate:
  "(assert_real_apply_allowed cfg now vendor model driver capability d = Inr () \<longleftrightarrow>
     allow_real_device_apply cfg \<and>
     (\<exists>v\<in>set (t_lab_validation d). lv_status v = ''approved'' \<and> lv_driver_name v = driver \<and>
        lv_capability v = capability \<and> unexpired now v \<and>
        normalize_match_value (lv_vendor v) = normalize_match_value vendor \<and> model_matches (lv_model_pattern v) model)) \<and>
   assert_real_apply_allowed cfg now vendor model driver capability d
     \<noteq> Inl (SafetyError ''No approved lab validation found for destructive real apply'')"
proof -
  let ?found = "find_approved now vendor model driver capability d"
  let ?P = "\<lambda>v. lv_status v = ''approved'' \<and> lv_driver_name v = driver \<and> lv_capability v = capability \<and>
    unexpired now v \<and> normalize_match_value (lv_vendor v) = normalize_match_value vendor \<and>
    model_matches (lv_model_pattern v) model"
  let ?capable = "filter (\<lambda>v. lv_capability v = capability) (matching_approved_candidates vendor driver None d)"
  have found: "?found \<noteq> None \<longleftrightarrow> (\<exists>v\<in>set (t_lab_validation d). ?P v)"
    unfolding find_approved_iff by blast
  have "list_ex (\<lambda>v. model_matches (lv_model_pattern v) model) (filter (unexpired now) ?capable) \<longrightarrow>
      (\<exists>v\<in>set (t_lab_validation d). ?P v)"
    by (auto simp: list_ex_iff matching_approved_candidates_def list_lab_validations_def matches_filter_def)
  with found show ?thesis
    by (auto simp: assert_real_apply_allowed_def Let_def)
qed

end
