(* ===== verification/SafetyKernel.thy ===== *)
theory SafetyKernel
  imports Vault LabValidationService CapabilityMatrix CommandTemplates Rbac PurePaths
begin

text \<open>
  app/services/apply_safety_kernel.py and the schemas of app/schemas/lab_apply.py: the fifteen gates before any
  command goes to a device.  \<open>evaluate\<close> runs the gates in the code's order over a verdict (reasons,
  warnings, satisfied and denied gates).  The hash function and the iteration order of the secret
  placeholders are the parameters of \<open>CommandTemplates\<close>.
\<close>

definition REQUIRED_GATES :: "string list" where
  "REQUIRED_GATES = [''execution_mode'', ''environment_flags'', ''lab_device'', ''device_allowlist'',
     ''vendor_contract'', ''runtime_decision'', ''credential_reference'', ''fresh_backup'', ''lab_validation'',
     ''approval'', ''simulation_hash'', ''command_safety'', ''rollback_plan'', ''device_lock'', ''actor_permission'']"

section \<open>Requests and decisions\<close>

record lab_command =
  lc_command :: string
  lc_secret :: bool

record lab_apply_request =
  la_device_id :: string
  la_operation :: vendor_operation
  la_execution_mode :: execution_mode
  la_credential_ref :: "string option"
  la_command_parameters :: jobj
  la_command_plan :: "lab_command list"
  la_rollback_plan :: "lab_command list"
  la_backup_snapshot_id :: "string option"
  la_lab_validation_id :: "string option"
  la_approval_id :: "string option"
  la_approval_status :: "string option"
  la_dry_run_hash :: "string option"
  la_simulation_hash :: "string option"
  la_lock_id :: "string option"
  la_allow_lab_candidate :: bool
  la_use_fake_transport :: bool

record safety_decision =
  ad_allowed :: bool
  ad_reasons :: "string list"
  ad_warnings :: "string list"
  ad_required_gates :: "string list"
  ad_satisfied_gates :: "string list"
  ad_denied_gates :: "string list"
  ad_command_hash :: "string option"
  ad_simulation_hash :: "string option"
  ad_lab_only :: bool
  ad_production_allowed :: bool
  ad_driver_family :: "string option"
  ad_selected_transport :: "string option"
  ad_safe_command_plan :: "lab_command list"

record safety_evaluation =
  ae_decision :: safety_decision
  ae_device :: "device option"
  ae_transport_decision :: "transport_decision option"
  ae_internal_commands :: "rendered_command list"

record verdict =
  vt_reasons :: "string list"
  vt_warnings :: "string list"
  vt_satisfied :: "string list"
  vt_denied :: "string list"

definition deny :: "string \<Rightarrow> string \<Rightarrow> verdict \<Rightarrow> verdict" where
  "deny gate reason v = v\<lparr>vt_denied := (if gate \<in> set (vt_denied v) then vt_denied v else vt_denied v @ [gate]),
     vt_reasons := vt_reasons v @ [reason]\<rparr>"

definition satisfy :: "string \<Rightarrow> verdict \<Rightarrow> verdict" where
  "satisfy gate v = v\<lparr>vt_satisfied := vt_satisfied v @ [gate]\<rparr>"

definition warn :: "string \<Rightarrow> verdict \<Rightarrow> verdict" where
  "warn w v = v\<lparr>vt_warnings := vt_warnings v @ [w]\<rparr>"

text \<open>\<open>if ok: satisfied.append(gate) else: self._deny(gate, reason, ...)\<close>\<close>

definition settle :: "string \<Rightarrow> bool \<Rightarrow> string \<Rightarrow> verdict \<Rightarrow> verdict" where
  "settle gate ok reason v = (if ok then satisfy gate v else deny gate reason v)"

section \<open>What the gates look at\<close>

text \<open>\<open>uuid.UUID(str(value))\<close> and the row, \<open>None\<close> for a malformed or unknown identifier.\<close>

definition by_text :: "(db \<Rightarrow> uuid \<Rightarrow> 'r option) \<Rightarrow> string \<Rightarrow> db \<Rightarrow> 'r option" where
  "by_text look t d = (case uuid_of_string t of None \<Rightarrow> None | Some i \<Rightarrow> look d i)"

definition get_lab_device :: "lab_apply_request \<Rightarrow> db \<Rightarrow> device option" where
  "get_lab_device p d = by_text find_device (la_device_id p) d"

definition folded :: "string option \<Rightarrow> string" where
  "folded s = casefold (case s of None \<Rightarrow> [] | Some t \<Rightarrow> t)"

definition is_lab_device :: "device \<Rightarrow> bool" where
  "is_lab_device dev \<longleftrightarrow> jget (dev_tags dev) ''lab'' = JBool True \<or>
     casefold (str_or_empty (jget (dev_tags dev) ''environment'')) = ''lab'' \<or>
     folded (dev_site dev) = ''lab'' \<or> folded (dev_location dev) = ''lab''"

definition allowlist_items :: "settings \<Rightarrow> string list" where
  "allowlist_items cfg = tokens (split_on (CHR '','') (lab_device_allowlist cfg))"

definition is_allowlisted :: "settings \<Rightarrow> device \<Rightarrow> bool" where
  "is_allowlisted cfg dev \<longleftrightarrow> set (allowlist_items cfg) \<inter>
     {uuid_str (dev_id dev), or_empty (dev_hostname dev), or_empty (dev_management_ip dev), dev_ip_address dev} \<noteq> {}"

definition bound_lock :: "lab_apply_request \<Rightarrow> device option \<Rightarrow> db \<Rightarrow> change_lock option" where
  "bound_lock p device d =
     (case (device, la_lock_id p) of
        (Some dev, Some t) \<Rightarrow>
          if t = [] then None
          else (case by_text find_change_lock t d of
                  None \<Rightarrow> None
                | Some l \<Rightarrow>
                    if lk_device_id l \<noteq> Some (dev_id dev) then None
                    else if lk_status l \<noteq> ''reserved'' \<or> lk_lock_type l \<noteq> ''device'' then None
                    else if lk_target_type l \<noteq> ''device'' then None
                    else if lk_target_id l \<noteq> None \<and> lk_target_id l \<noteq> Some (dev_id dev) then None
                    else Some l)
      | _ \<Rightarrow> None)"

definition backup_metadata_marks_incomplete :: "jobj \<Rightarrow> bool" where
  "backup_metadata_marks_incomplete m \<longleftrightarrow>
     list_ex (\<lambda>k. has_key m k \<and> jget m k = JBool False) [''complete'', ''backup_complete''] \<or>
     list_ex (\<lambda>k. jget m k = JBool True)
       [''incomplete'', ''backup_incomplete'', ''paging_incomplete'', ''paging_marker_detected''] \<or>
     casefold (str_or_empty (if truthy (jget m ''status'') then jget m ''status'' else jget m ''result''))
       \<in> {''failed'', ''incomplete'', ''partial'', ''paged''}"

definition unsafe_path :: "string \<Rightarrow> bool" where
  "unsafe_path p \<longleftrightarrow> posix_absolute p \<or> windows_absolute p \<or> ''..'' \<in> set (posix_parts p) \<union> set (windows_parts p)"

definition metadata_has_unsafe_path :: "jobj \<Rightarrow> bool" where
  "metadata_has_unsafe_path m \<longleftrightarrow>
     list_ex (\<lambda>k. case jget m k of JStr t \<Rightarrow> t \<noteq> [] \<and> unsafe_path t | _ \<Rightarrow> False)
       [''config_path'', ''path'', ''file_path'', ''backup_path'']"

text \<open>\<open>datetime.now(timezone.utc) - timedelta(hours=max(0, h))\<close>\<close>

definition hours_ago :: "int \<Rightarrow> int \<Rightarrow> int" where
  "hours_ago now h = now - max 0 h * hour"

definition backup_satisfied :: "settings \<Rightarrow> int \<Rightarrow> lab_apply_request \<Rightarrow> device option \<Rightarrow> db \<Rightarrow> bool" where
  "backup_satisfied cfg now p device d =
     (case (device, la_backup_snapshot_id p) of
        (Some dev, Some t) \<Rightarrow>
          (case by_text find_snapshot t d of
             None \<Rightarrow> False
           | Some sn \<Rightarrow>
               let metadata = (case sn_metadata sn of None \<Rightarrow> [] | Some m \<Rightarrow> m)
               in sn_device_id sn = dev_id dev \<and> sn_sanitized sn \<and> str_strip (sn_config_text sn) \<noteq> [] \<and>
                  str_strip (sn_config_hash sn) \<noteq> [] \<and>
                  \<not> instant (comparable_datetime (sn_collected_at sn)) \<le> hours_ago now (lab_backup_max_age_hours cfg) \<and>
                  \<not> backup_metadata_marks_incomplete metadata \<and> \<not> metadata_has_unsafe_path metadata)
      | _ \<Rightarrow> False)"

definition lab_validation_satisfied ::
  "int \<Rightarrow> lab_apply_request \<Rightarrow> device option \<Rightarrow> transport_decision option \<Rightarrow> db \<Rightarrow> bool" where
  "lab_validation_satisfied now p device decision d =
     (case (device, decision, la_lab_validation_id p) of
        (Some dev, Some td, Some t) \<Rightarrow>
          (case by_text find_lab_validation t d of
             None \<Rightarrow> False
           | Some v \<Rightarrow>
               lv_status v = ''approved'' \<and> unexpired now v \<and>
               normalize_match_value (lv_vendor v) = normalize_match_value (dev_vendor dev) \<and>
               lv_driver_name v = td_driver_name td \<and> model_matches (lv_model_pattern v) (dev_model dev) \<and>
               lv_capability v \<in> {operation_value (la_operation p), ''lab_apply'', ''config_apply'', ''vlan_management'',
                 ''password_change''})
      | _ \<Rightarrow> False)"

definition metadata_matches :: "jobj \<Rightarrow> string \<Rightarrow> string \<Rightarrow> bool" where
  "metadata_matches m k expected =
     (case jget m k of JList xs \<Rightarrow> expected \<in> set (map py_str xs) | v \<Rightarrow> str_or_empty v = expected)"

definition metadata_list :: "jobj \<Rightarrow> string \<Rightarrow> string list" where
  "metadata_list m k = (case jget m k of JList xs \<Rightarrow> map py_str xs | _ \<Rightarrow> [])"

definition option_items :: "'a option list \<Rightarrow> 'a list" where
  "option_items xs = concat (map (\<lambda>x. case x of None \<Rightarrow> [] | Some y \<Rightarrow> [y]) xs)"

definition step_metadata_bound :: "change_step \<Rightarrow> string \<Rightarrow> string \<Rightarrow> bool \<Rightarrow> string list option \<Rightarrow> bool" where
  "step_metadata_bound st operation hash require_rollback rollback_commands =
     (let sources = option_items [st_planned_action st, st_dry_run_output st];
          binding = filter (\<lambda>m. list_ex (has_key m)
            [''operation'', ''command_hash'', ''simulation_hash'', ''dry_run_hash'', ''rollback_commands'']) sources
      in binding \<noteq> [] \<and>
         list_all (\<lambda>m. metadata_matches m ''operation'' operation \<and>
           list_ex (\<lambda>k. metadata_matches m k hash) [''command_hash'', ''simulation_hash'', ''dry_run_hash''] \<and>
           (require_rollback \<longrightarrow> metadata_list m ''rollback_commands'' \<noteq> [] \<and>
              rollback_commands = Some (metadata_list m ''rollback_commands''))) binding)"

definition execution_has_bound_step ::
  "uuid \<Rightarrow> uuid \<Rightarrow> string \<Rightarrow> string \<Rightarrow> bool \<Rightarrow> string list option \<Rightarrow> db \<Rightarrow> bool" where
  "execution_has_bound_step execution_id device_id operation hash require_rollback rollback_commands d =
     list_ex (\<lambda>st. st_execution_id st = execution_id \<and> st_device_id st = Some device_id \<and>
        step_metadata_bound st operation hash require_rollback rollback_commands) (t_change_step d)"

definition approval_satisfied ::
  "settings \<Rightarrow> int \<Rightarrow> lab_apply_request \<Rightarrow> device option \<Rightarrow> change_lock option \<Rightarrow> string option \<Rightarrow> db \<Rightarrow> bool" where
  "approval_satisfied cfg now p device lock hash d =
     (case (device, lock, la_approval_id p, hash) of
        (Some dev, Some l, Some t, Some h) \<Rightarrow>
          t \<noteq> [] \<and> h \<noteq> [] \<and>
          (case by_text find_change_approval t d of
             None \<Rightarrow> False
           | Some a \<Rightarrow>
               ap_execution_id a = lk_execution_id l \<and> ap_status a = ''approved'' \<and>
               (case ap_decided_at a of
                  None \<Rightarrow> False
                | Some t \<Rightarrow>
                    or_empty (ap_approved_by a) \<noteq> [] \<and>
                    \<not> instant (comparable_datetime t) \<le> hours_ago now (lab_approval_max_age_hours cfg)) \<and>
               execution_has_bound_step (lk_execution_id l) (dev_id dev) (operation_value (la_operation p)) h
                 False None d)
      | _ \<Rightarrow> False)"

definition rollback_satisfied ::
  "lab_apply_request \<Rightarrow> device option \<Rightarrow> change_lock option \<Rightarrow> string option \<Rightarrow> db \<Rightarrow> bool" where
  "rollback_satisfied p device lock hash d =
     (if la_operation p = VO_read_backup then True
      else case (device, lock, hash) of
             (Some dev, Some l, Some h) \<Rightarrow>
               h \<noteq> [] \<and> la_rollback_plan p \<noteq> [] \<and>
               execution_has_bound_step (lk_execution_id l) (dev_id dev) (operation_value (la_operation p)) h
                 True (Some (map lc_command (la_rollback_plan p))) d
           | _ \<Rightarrow> False)"

section \<open>The command plan\<close>

definition plan_entry :: "lab_command \<Rightarrow> plan_item" where
  "plan_entry c = DictItem [(''command'', JStr (lc_command c)), (''secret'', JBool (lc_secret c))]"

definition as_rendered :: "lab_command \<Rightarrow> rendered_command" where
  "as_rendered c = \<lparr>command = lc_command c, secret = lc_secret c\<rparr>"

definition command_plan :: "string list \<Rightarrow> lab_apply_request \<Rightarrow> device_family \<Rightarrow> rendered_command list \<times> string list" where
  "command_plan order p family =
     (if la_command_plan p \<noteq> [] then
        let actual = map as_rendered (la_command_plan p)
        in case validate_command_plan order family (operation_value (la_operation p)) (la_command_parameters p)
                  (map plan_entry (la_command_plan p)) of
             Inl e \<Rightarrow> ([], [err_str e])
           | Inr errors \<Rightarrow>
               (actual, errors @ map (\<lambda>_. ''Forbidden command detected for '' @ family_value family)
                  (filter (\<lambda>c. blocks_command (get_vendor_driver_contract family) (command c)) actual))
      else case render family (operation_value (la_operation p)) (la_command_parameters p) of
             Inl e \<Rightarrow> ([], [err_str e])
           | Inr commands \<Rightarrow> (commands, []))"

definition safe_command :: "rendered_command \<Rightarrow> lab_command" where
  "safe_command c = \<lparr>lc_command = (if secret c then redacted c else mask_secrets [] (command c)), lc_secret = secret c\<rparr>"

section \<open>The gates\<close>

definition gate_execution_mode :: "lab_apply_request \<Rightarrow> verdict \<Rightarrow> verdict" where
  "gate_execution_mode p v =
     (let v = settle ''execution_mode'' (la_execution_mode p = EM_lab_apply)
           (mode_value (la_execution_mode p) @ '' is denied; only lab_apply can send commands'') v
      in if la_execution_mode p = EM_production_apply
         then deny ''execution_mode'' ''production_apply is denied in this PR'' v else v)"

definition gate_environment_flags :: "settings \<Rightarrow> verdict \<Rightarrow> verdict" where
  "gate_environment_flags cfg v =
     (let v = (if \<not> allow_real_device_apply cfg
           then deny ''environment_flags'' ''NCP_ALLOW_REAL_DEVICE_APPLY must be true for lab apply'' v else v);
          v = (if \<not> lab_real_apply_enabled cfg
           then deny ''environment_flags'' ''NCP_LAB_REAL_APPLY_ENABLED must be true for lab apply'' v else v);
          v = (if production_real_apply_enabled cfg
           then deny ''environment_flags'' ''NCP_PRODUCTION_REAL_APPLY_ENABLED must remain false'' v else v)
      in if ''environment_flags'' \<notin> set (vt_denied v) then satisfy ''environment_flags'' v else v)"

definition gate_device :: "settings \<Rightarrow> lab_apply_request \<Rightarrow> device option \<Rightarrow> verdict \<Rightarrow> verdict" where
  "gate_device cfg p device v =
     (case device of
        None \<Rightarrow>
          deny ''device_allowlist'' ''Missing device prevents allowlist verification''
            (deny ''lab_device'' (''Device '' @ repr_str (la_device_id p) @ '' was not found'') v)
      | Some dev \<Rightarrow>
          settle ''device_allowlist'' (is_allowlisted cfg dev)
            (''Device '' @ uuid_str (dev_id dev) @ '' is not in NCP_LAB_DEVICE_ALLOWLIST'')
            (settle ''lab_device'' (is_lab_device dev)
              (''Device '' @ uuid_str (dev_id dev) @ '' is not explicitly tagged as lab'') v))"

definition device_decision :: "rx profile list \<Rightarrow> device \<Rightarrow> transport_decision" where
  "device_decision profiles dev =
     decide profiles (dev_vendor dev) (Some (dev_model dev)) (Some (dev_platform dev))
       (if dev_driver_name dev = [] then None else Some (dev_driver_name dev)) None
       (Some (uuid_str (dev_id dev))) (dev_hostname dev)"

definition decided_family :: "transport_decision option \<Rightarrow> device_family" where
  "decided_family decision = (case decision of None \<Rightarrow> DF_unknown | Some td \<Rightarrow> td_family td)"

definition gate_vendor_contract :: "lab_apply_request \<Rightarrow> device_family \<Rightarrow> verdict \<Rightarrow> verdict" where
  "gate_vendor_contract p family v =
     (let c = get_vendor_driver_contract family;
          v = (if vc_production_certified c
               then warn ''Unexpected production certification detected; production apply still denied'' v else v)
      in if vc_apply_support_level c = AL_lab_apply_certified then satisfy ''vendor_contract'' v
         else if vc_apply_support_level c = AL_lab_apply_candidate \<and> la_allow_lab_candidate p
         then warn (family_value family
                @ '' uses lab_apply_candidate contract; explicit allow_lab_candidate was provided'')
                (satisfy ''vendor_contract'' v)
         else deny ''vendor_contract''
                (family_value family @ '' is not lab-apply certified/candidate for this request'') v)"

definition gate_runtime_decision :: "transport_decision option \<Rightarrow> verdict \<Rightarrow> verdict" where
  "gate_runtime_decision decision v =
     (case decision of
        None \<Rightarrow> deny ''runtime_decision'' ''No runtime decision is available'' v
      | Some td \<Rightarrow>
          if td_selected_transport td \<in> {TK_unsupported, TK_icmp_only}
          then deny ''runtime_decision'' (transport_value (td_selected_transport td) @ '' cannot config apply'') v
          else if td_family td \<in> {DF_unknown, DF_icmp, DF_generic_ssh}
          then deny ''runtime_decision'' (family_value (td_family td) @ '' cannot config apply'') v
          else if td_family td \<in> {DF_eltex, DF_bulat} \<and> \<not> vc_lab_certified (get_vendor_driver_contract (td_family td))
          then deny ''runtime_decision''
                 (family_value (td_family td) @ '' apply remains blocked until explicit lab certification'') v
          else satisfy ''runtime_decision'' v)"

text \<open>\<open>check_usable\<close> only reads, so that its result is all that matters.\<close>

definition usable_check :: "settings \<Rightarrow> string \<Rightarrow> db \<Rightarrow> use_check" where
  "usable_check cfg r d =
     (case fst (check_usable cfg (RefText r) d) of
        Inr c \<Rightarrow> c | Inl e \<Rightarrow> \<lparr>uc_id = r, uc_usable = False, uc_reasons = [err_str e]\<rparr>)"

definition gate_credential :: "settings \<Rightarrow> lab_apply_request \<Rightarrow> permission set \<Rightarrow> db \<Rightarrow> verdict \<Rightarrow> verdict" where
  "gate_credential cfg p perms d v =
     (let cred = or_empty (la_credential_ref p)
      in if cred = [] then deny ''credential_reference'' ''Credential reference is required'' v
         else if Perm_use_credential_secrets \<in> perms
         then let check = usable_check cfg cred d
              in settle ''credential_reference'' (uc_usable check)
                   (str_join ''; '' (if uc_reasons check = [] then [''Credential reference is required''] else uc_reasons check)) v
         else deny ''credential_reference''
                ''Actor must have use_credential_secrets permission to use credential references'' v)"

definition missing_permissions :: "permission set \<Rightarrow> string list" where
  "missing_permissions perms =
     map permission_value (filter (\<lambda>q. q \<notin> perms) [Perm_execute_lab_apply, Perm_use_credential_secrets])"

definition gate_permissions :: "permission set \<Rightarrow> verdict \<Rightarrow> verdict" where
  "gate_permissions perms v =
     settle ''actor_permission'' (missing_permissions perms = [])
       (''Actor must have required lab apply permission(s): '' @ str_join '', '' (missing_permissions perms)) v"

definition hash_matches :: "lab_apply_request \<Rightarrow> string option \<Rightarrow> bool" where
  "hash_matches p hash =
     (case hash of
        None \<Rightarrow> False
      | Some h \<Rightarrow> h \<noteq> [] \<and> la_simulation_hash p = Some h \<and> (la_dry_run_hash p = None \<or> la_dry_run_hash p = Some h))"

section \<open>The evaluation\<close>

text \<open>The plan of a request: the commands and the errors; without a decision neither.\<close>

definition decided_plan ::
  "string list \<Rightarrow> lab_apply_request \<Rightarrow> transport_decision option \<Rightarrow> rendered_command list \<times> string list" where
  "decided_plan order p decision =
     (case decision of None \<Rightarrow> ([], []) | Some td \<Rightarrow> command_plan order p (td_family td))"

definition computed_hash :: "(string \<Rightarrow> string) \<Rightarrow> rendered_command list \<Rightarrow> string option" where
  "computed_hash sha commands = (if commands = [] then None else Some (command_hash sha (map Rendered commands)))"

definition run_gates ::
  "(string \<Rightarrow> string) \<Rightarrow> string list \<Rightarrow> settings \<Rightarrow> int \<Rightarrow> lab_apply_request \<Rightarrow> permission set \<Rightarrow> db \<Rightarrow>
   device option \<Rightarrow> transport_decision option \<Rightarrow> verdict" where
  "run_gates sha order cfg now p perms d device decision =
     (let lock = bound_lock p device d;
          errors = snd (decided_plan order p decision);
          hash = computed_hash sha (fst (decided_plan order p decision));
          v = \<lparr>vt_reasons = [], vt_warnings = [], vt_satisfied = [], vt_denied = []\<rparr>;
          v = gate_execution_mode p v;
          v = gate_environment_flags cfg v;
          v = gate_device cfg p device v;
          v = gate_vendor_contract p (decided_family decision) v;
          v = gate_runtime_decision decision v;
          v = gate_credential cfg p perms d v;
          v = settle ''fresh_backup'' (backup_satisfied cfg now p device d)
                ''A sanitized config snapshot for this device is required'' v;
          v = settle ''lab_validation'' (lab_validation_satisfied now p device decision d)
                ''An approved matching lab validation is required'' v;
          v = settle ''command_safety'' (errors = []) (str_join ''; '' errors) v;
          v = settle ''simulation_hash'' (hash_matches p hash)
                ''Simulation/dry-run hash must match the current sanitized command plan'' v;
          v = settle ''approval'' (approval_satisfied cfg now p device lock hash d)
                ''Persisted approved change approval bound to this device, lock, and command plan is required'' v;
          v = settle ''rollback_plan'' (rollback_satisfied p device lock hash d)
                ''Persisted rollback preview bound to this device and command hash is required'' v;
          v = settle ''device_lock'' (lock \<noteq> None)
                ''A reserved per-device lock bound to the current change execution is required'' v
      in gate_permissions perms v)"

definition evaluate ::
  "(string \<Rightarrow> string) \<Rightarrow> string list \<Rightarrow> rx profile list \<Rightarrow> settings \<Rightarrow> int \<Rightarrow> lab_apply_request \<Rightarrow> permission set \<Rightarrow> db \<Rightarrow>
   safety_evaluation" where
  "evaluate sha order profiles cfg now p perms d =
     (let device = get_lab_device p d;
          decision = map_option (device_decision profiles) device;
          commands = fst (decided_plan order p decision);
          v = run_gates sha order cfg now p perms d device decision;
          denied = filter (\<lambda>g. g \<in> set (vt_denied v)) REQUIRED_GATES
      in \<lparr>ae_decision =
            \<lparr>ad_allowed = (denied = [] \<and> vt_reasons v = []),
             ad_reasons = sorted_set (vt_reasons v),
             ad_warnings = vt_warnings v @ (case decision of None \<Rightarrow> [] | Some td \<Rightarrow> td_safety_warnings td),
             ad_required_gates = REQUIRED_GATES,
             ad_satisfied_gates = filter (\<lambda>g. g \<in> set (vt_satisfied v) \<and> g \<notin> set denied) REQUIRED_GATES,
             ad_denied_gates = denied,
             ad_command_hash = computed_hash sha commands,
             ad_simulation_hash = la_simulation_hash p,
             ad_lab_only = True,
             ad_production_allowed = False,
             ad_driver_family = Some (family_value (decided_family decision)),
             ad_selected_transport = map_option (\<lambda>td. transport_value (td_selected_transport td)) decision,
             ad_safe_command_plan = map safe_command commands\<rparr>,
          ae_device = device, ae_transport_decision = decision, ae_internal_commands = commands\<rparr>)"

section \<open>What the gates do to the verdict\<close>

text \<open>The gates settled between two verdicts, each with its outcome.\<close>

definition settles :: "(string \<times> bool) list \<Rightarrow> verdict \<Rightarrow> verdict \<Rightarrow> bool" where
  "settles gs v v' \<longleftrightarrow>
     set (vt_denied v') = set (vt_denied v) \<union> {g. (g, False) \<in> set gs} \<and>
     set (vt_satisfied v') = set (vt_satisfied v) \<union> {g. (g, True) \<in> set gs} \<and>
     (vt_reasons v' = [] \<longleftrightarrow> vt_reasons v = [] \<and> list_all snd gs)"

lemma settles_trans: "settles gs v v' \<Longrightarrow> settles hs v' v'' \<Longrightarrow> settles (gs @ hs) v v''"
  by (auto simp: settles_def)

lemma settles_settle: "settles [(gate, ok)] v (settle gate ok reason v)"
  by (auto simp: settles_def settle_def deny_def satisfy_def)

lemma settles_deny: "settles [(gate, False)] v (deny gate reason v)"
  by (auto simp: settles_def deny_def)

lemma settles_satisfy: "settles [(gate, True)] v (satisfy gate v)"
  by (auto simp: settles_def satisfy_def)

lemma settles_outcome:
  "\<not> ok \<Longrightarrow> settles [(gate, ok)] v (deny gate reason v)" "ok \<Longrightarrow> settles [(gate, ok)] v (satisfy gate v)"
  by (simp_all add: settles_deny settles_satisfy)

lemma settles_again: "settles [(gate, False)] v v' \<Longrightarrow> settles [(gate, False)] v (deny gate reason v')"
  by (auto simp: settles_def deny_def)

lemma settles_warn: "settles gs (warn w v) v' \<Longrightarrow> settles gs v v'" "settles gs v v' \<Longrightarrow> settles gs v (warn w v')"
  by (auto simp: settles_def warn_def)

definition flags_set :: "settings \<Rightarrow> bool" where
  "flags_set cfg \<longleftrightarrow> allow_real_device_apply cfg \<and> lab_real_apply_enabled cfg \<and> \<not> production_real_apply_enabled cfg"

definition contract_admits :: "lab_apply_request \<Rightarrow> device_family \<Rightarrow> bool" where
  "contract_admits p family \<longleftrightarrow>
     (let level = vc_apply_support_level (get_vendor_driver_contract family)
      in level = AL_lab_apply_certified \<or> level = AL_lab_apply_candidate \<and> la_allow_lab_candidate p)"

definition runtime_admits :: "transport_decision option \<Rightarrow> bool" where
  "runtime_admits decision \<longleftrightarrow>
     (case decision of
        None \<Rightarrow> False
      | Some td \<Rightarrow> td_selected_transport td \<notin> {TK_unsupported, TK_icmp_only} \<and>
          td_family td \<notin> {DF_unknown, DF_icmp, DF_generic_ssh} \<and>
          (td_family td \<in> {DF_eltex, DF_bulat} \<longrightarrow> vc_lab_certified (get_vendor_driver_contract (td_family td))))"

definition credential_admits :: "settings \<Rightarrow> lab_apply_request \<Rightarrow> permission set \<Rightarrow> db \<Rightarrow> bool" where
  "credential_admits cfg p perms d \<longleftrightarrow> or_empty (la_credential_ref p) \<noteq> [] \<and>
     Perm_use_credential_secrets \<in> perms \<and> uc_usable (usable_check cfg (or_empty (la_credential_ref p)) d)"

lemma settles_execution_mode: "settles [(''execution_mode'', la_execution_mode p = EM_lab_apply)] v (gate_execution_mode p v)"
  by (auto simp: gate_execution_mode_def Let_def settle_def intro: settles_again settles_deny settles_satisfy)

lemma settles_environment_flags:
  assumes "''environment_flags'' \<notin> set (vt_denied v)"
  shows "settles [(''environment_flags'', flags_set cfg)] v (gate_environment_flags cfg v)"
  using assms
  by (cases "allow_real_device_apply cfg"; cases "lab_real_apply_enabled cfg"; cases "production_real_apply_enabled cfg")
    (simp_all add: gate_environment_flags_def flags_set_def Let_def settles_def deny_def satisfy_def)

lemma settles_device:
  "settles [(''lab_device'', \<exists>dev. device = Some dev \<and> is_lab_device dev),
     (''device_allowlist'', \<exists>dev. device = Some dev \<and> is_allowlisted cfg dev)] v (gate_device cfg p device v)"
proof (cases device)
  case None
  then show ?thesis
    using settles_trans [OF settles_deny [of "''lab_device''" v] settles_deny [of "''device_allowlist''"]]
    by (simp add: gate_device_def)
next
  case (Some dev)
  then show ?thesis
    using settles_trans [OF settles_settle [of "''lab_device''" _ v] settles_settle [of "''device_allowlist''"]]
    by (simp add: gate_device_def)
qed

lemma settles_vendor_contract: "settles [(''vendor_contract'', contract_admits p family)] v (gate_vendor_contract p family v)"
proof -
  define c where "c = get_vendor_driver_contract family"
  have admit: "settles [(''vendor_contract'', contract_admits p family)] w
     (if vc_apply_support_level c = AL_lab_apply_certified then satisfy ''vendor_contract'' w
      else if vc_apply_support_level c = AL_lab_apply_candidate \<and> la_allow_lab_candidate p
      then warn r (satisfy ''vendor_contract'' w) else deny ''vendor_contract'' r' w)" for w r r'
    unfolding contract_admits_def c_def [symmetric] Let_def
    by (cases "vc_apply_support_level c = AL_lab_apply_certified";
        cases "vc_apply_support_level c = AL_lab_apply_candidate \<and> la_allow_lab_candidate p")
      (simp_all add: settles_outcome settles_warn(2) del: de_Morgan_conj not_imp)
  show ?thesis
    unfolding gate_vendor_contract_def c_def [symmetric] Let_def
    by (cases "vc_production_certified c") (simp_all only: if_True if_False settles_warn(1) [OF admit] admit)
qed

lemma settles_runtime_decision: "settles [(''runtime_decision'', runtime_admits decision)] v (gate_runtime_decision decision v)"
proof (cases decision)
  case (Some td)
  let ?a = "td_selected_transport td \<in> {TK_unsupported, TK_icmp_only}"
  let ?b = "td_family td \<in> {DF_unknown, DF_icmp, DF_generic_ssh}"
  let ?c = "td_family td \<in> {DF_eltex, DF_bulat} \<and> \<not> vc_lab_certified (get_vendor_driver_contract (td_family td))"
  have admits: "runtime_admits decision \<longleftrightarrow> \<not> ?a \<and> \<not> ?b \<and> \<not> ?c" by (simp only: Some runtime_admits_def option.case) blast
  have "settles [(''runtime_decision'', \<not> ?a \<and> \<not> ?b \<and> \<not> ?c)] v (gate_runtime_decision (Some td) v)"
    unfolding gate_runtime_decision_def option.case by (cases ?a; cases ?b; cases ?c) (simp_all only: if_True if_False simp_thms settles_outcome)
  then show ?thesis unfolding admits unfolding Some .
qed (simp add: gate_runtime_decision_def runtime_admits_def settles_deny)

lemma settles_credential: "settles [(''credential_reference'', credential_admits cfg p perms d)] v (gate_credential cfg p perms d v)"
proof -
  let ?cred = "or_empty (la_credential_ref p)"
  consider (none) "?cred = []" | (banned) "?cred \<noteq> []" "Perm_use_credential_secrets \<notin> perms"
    | (checked) "?cred \<noteq> []" "Perm_use_credential_secrets \<in> perms" by blast
  then show ?thesis
  proof cases
    case checked
    then have "credential_admits cfg p perms d = uc_usable (usable_check cfg ?cred d)" by (simp add: credential_admits_def)
    with checked settles_settle show ?thesis by (simp only: gate_credential_def Let_def if_False if_True)
  qed (simp_all add: gate_credential_def credential_admits_def settles_deny)
qed

lemma settles_permissions:
  "settles [(''actor_permission'', {Perm_execute_lab_apply, Perm_use_credential_secrets} \<subseteq> perms)] v (gate_permissions perms v)"
proof -
  have missing: "{Perm_execute_lab_apply, Perm_use_credential_secrets} \<subseteq> perms \<longleftrightarrow> missing_permissions perms = []"
    by (auto simp: missing_permissions_def)
  show ?thesis unfolding gate_permissions_def missing by (rule settles_settle)
qed

text \<open>All gates, in the order of the code.\<close>

definition gate_conditions ::
  "(string \<Rightarrow> string) \<Rightarrow> string list \<Rightarrow> settings \<Rightarrow> int \<Rightarrow> lab_apply_request \<Rightarrow> permission set \<Rightarrow> db \<Rightarrow>
   device option \<Rightarrow> transport_decision option \<Rightarrow> (string \<times> bool) list" where
  "gate_conditions sha order cfg now p perms d device decision =
     (let lock = bound_lock p device d;
          hash = computed_hash sha (fst (decided_plan order p decision))
      in [(''execution_mode'', la_execution_mode p = EM_lab_apply), (''environment_flags'', flags_set cfg),
          (''lab_device'', \<exists>dev. device = Some dev \<and> is_lab_device dev),
          (''device_allowlist'', \<exists>dev. device = Some dev \<and> is_allowlisted cfg dev),
          (''vendor_contract'', contract_admits p (decided_family decision)),
          (''runtime_decision'', runtime_admits decision), (''credential_reference'', credential_admits cfg p perms d),
          (''fresh_backup'', backup_satisfied cfg now p device d),
          (''lab_validation'', lab_validation_satisfied now p device decision d),
          (''command_safety'', snd (decided_plan order p decision) = []), (''simulation_hash'', hash_matches p hash),
          (''approval'', approval_satisfied cfg now p device lock hash d),
          (''rollback_plan'', rollback_satisfied p device lock hash d), (''device_lock'', lock \<noteq> None),
          (''actor_permission'', {Perm_execute_lab_apply, Perm_use_credential_secrets} \<subseteq> perms)])"

lemma settles_Cons:
  "settles [g] v v' \<Longrightarrow> settles hs v' v'' \<Longrightarrow> settles (g # hs) v v''"
  "settles [g, h] v v' \<Longrightarrow> settles hs v' v'' \<Longrightarrow> settles (g # h # hs) v v''"
  using settles_trans by fastforce+

lemma settles_all:
  "settles (gate_conditions sha order cfg now p perms d device decision)
     \<lparr>vt_reasons = [], vt_warnings = [], vt_satisfied = [], vt_denied = []\<rparr>
     (run_gates sha order cfg now p perms d device decision)"
proof -
  have flags: "''environment_flags'' \<notin> set (vt_denied (gate_execution_mode p
      \<lparr>vt_reasons = [], vt_warnings = [], vt_satisfied = [], vt_denied = []\<rparr>))"
    by (auto simp: gate_execution_mode_def Let_def settle_def deny_def satisfy_def)
  show ?thesis
    unfolding run_gates_def gate_conditions_def Let_def
    apply (rule settles_Cons(1) [OF settles_execution_mode])
    apply (rule settles_Cons(1) [OF settles_environment_flags [OF flags]])
    apply (rule settles_Cons(2) [OF settles_device])
    apply (rule settles_Cons(1) [OF settles_vendor_contract])
    apply (rule settles_Cons(1) [OF settles_runtime_decision])
    apply (rule settles_Cons(1) [OF settles_credential])
    apply (rule settles_Cons(1) [OF settles_settle], rule settles_Cons(1) [OF settles_settle])
    apply (rule settles_Cons(1) [OF settles_settle], rule settles_Cons(1) [OF settles_settle])
    apply (rule settles_Cons(1) [OF settles_settle], rule settles_Cons(1) [OF settles_settle])
    apply (rule settles_Cons(1) [OF settles_settle], rule settles_permissions)
    done
qed

section \<open>Properties\<close>

text \<open>The conditions of a request, for the device it names.\<close>

definition request_conditions ::
  "(string \<Rightarrow> string) \<Rightarrow> string list \<Rightarrow> settings \<Rightarrow> int \<Rightarrow> lab_apply_request \<Rightarrow> permission set \<Rightarrow> db \<Rightarrow> (string \<times> bool) list" where
  "request_conditions sha order cfg now p perms d =
     (let device = get_lab_device p d
      in gate_conditions sha order cfg now p perms d device (map_option (device_decision RUNTIME_PROFILES) device))"

lemma condition_gates: "map fst (gate_conditions sha order cfg now p perms d device decision) =
    [''execution_mode'', ''environment_flags'', ''lab_device'', ''device_allowlist'', ''vendor_contract'',
     ''runtime_decision'', ''credential_reference'', ''fresh_backup'', ''lab_validation'', ''command_safety'',
     ''simulation_hash'', ''approval'', ''rollback_plan'', ''device_lock'', ''actor_permission'']"
  by (simp add: gate_conditions_def Let_def)

lemma condition_gates_required: "set (map fst (gate_conditions sha order cfg now p perms d device decision)) = set REQUIRED_GATES"
  "distinct (map fst (gate_conditions sha order cfg now p perms d device decision))"
  unfolding condition_gates by (auto simp: REQUIRED_GATES_def)

lemma condition_outcome:
  assumes "g \<in> set REQUIRED_GATES"
  shows "(g, False) \<in> set (request_conditions sha order cfg now p perms d) \<longleftrightarrow>
    (g, True) \<notin> set (request_conditions sha order cfg now p perms d)"
proof -
  let ?gs = "request_conditions sha order cfg now p perms d"
  have gates: "set (map fst ?gs) = set REQUIRED_GATES" "distinct (map fst ?gs)"
    unfolding request_conditions_def Let_def by (rule condition_gates_required)+
  from assms have "g \<in> fst ` set ?gs" by (simp only: gates(1) [symmetric] set_map)
  then obtain b where b: "(g, b) \<in> set ?gs" by (auto simp: image_iff)
  with gates(2) have "(g, b') \<in> set ?gs \<longleftrightarrow> b' = b" for b' by (auto dest: eq_key_imp_eq_value)
  then show ?thesis by (cases b) auto
qed

text \<open>
  C2: The decision lists each of the fifteen gates exactly once, as satisfied when its condition holds and
  as denied when it does not, in the fixed order; the request is allowed when and only when no
  gate is denied, and the decision is never for production.
\<close>

theorem gates_partitioned:
  "let dec = ae_decision (evaluate sha order RUNTIME_PROFILES cfg now p perms d);
       holds = (\<lambda>g. (g, True) \<in> set (request_conditions sha order cfg now p perms d))
   in ad_satisfied_gates dec = filter holds REQUIRED_GATES \<and>
      ad_denied_gates dec = filter (\<lambda>g. \<not> holds g) REQUIRED_GATES \<and>
      (ad_allowed dec \<longleftrightarrow> ad_denied_gates dec = []) \<and> ad_lab_only dec \<and> \<not> ad_production_allowed dec"
proof -
  let ?gs = "request_conditions sha order cfg now p perms d"
  let ?v = "run_gates sha order cfg now p perms d (get_lab_device p d)
    (map_option (device_decision RUNTIME_PROFILES) (get_lab_device p d))"
  let ?holds = "\<lambda>g. (g, True) \<in> set ?gs"
  from settles_all [of sha order cfg now p perms d "get_lab_device p d" "map_option (device_decision RUNTIME_PROFILES) (get_lab_device p d)"]
  have v: "set (vt_denied ?v) = {g. (g, False) \<in> set ?gs}" "set (vt_satisfied ?v) = {g. ?holds g}"
    "vt_reasons ?v = [] \<longleftrightarrow> list_all snd ?gs"
    by (simp_all add: settles_def request_conditions_def Let_def)
  have denied: "filter (\<lambda>g. g \<in> set (vt_denied ?v)) REQUIRED_GATES = filter (\<lambda>g. \<not> ?holds g) REQUIRED_GATES"
    using condition_outcome by (intro filter_cong refl) (simp add: v(1))
  have satisfied: "filter (\<lambda>g. g \<in> set (vt_satisfied ?v) \<and> g \<notin> set (filter (\<lambda>g. \<not> ?holds g) REQUIRED_GATES)) REQUIRED_GATES
      = filter ?holds REQUIRED_GATES"
    by (intro filter_cong refl) (auto simp: v(2))
  have gates: "fst ` set ?gs = set REQUIRED_GATES"
    using condition_gates_required(1) unfolding request_conditions_def Let_def set_map .
  have reasons: "vt_reasons ?v = []" if all: "filter (\<lambda>g. \<not> ?holds g) REQUIRED_GATES = []"
    unfolding v(3) list_all_iff
  proof
    fix x assume x: "x \<in> set ?gs"
    then have "fst x \<in> set REQUIRED_GATES" unfolding gates [symmetric] by (rule imageI)
    with all condition_outcome have no: "(fst x, False) \<notin> set ?gs" unfolding filter_empty_conv by blast
    show "snd x"
    proof (rule ccontr)
      assume "\<not> snd x"
      then have "x = (fst x, False)" by (simp add: prod_eq_iff)
      with x no show False by metis
    qed
  qed
  show ?thesis
    unfolding Let_def evaluate_def safety_evaluation.simps safety_decision.simps denied satisfied
    using reasons by (simp only: simp_thms) blast
qed

lemma allowed_conditions:
  "ad_allowed (ae_decision (evaluate sha order RUNTIME_PROFILES cfg now p perms d)) \<longleftrightarrow>
     list_all snd (request_conditions sha order cfg now p perms d)"
proof -
  let ?gs = "request_conditions sha order cfg now p perms d"
  let ?v = "run_gates sha order cfg now p perms d (get_lab_device p d)
    (map_option (device_decision RUNTIME_PROFILES) (get_lab_device p d))"
  from settles_all [of sha order cfg now p perms d "get_lab_device p d" "map_option (device_decision RUNTIME_PROFILES) (get_lab_device p d)"]
  have v: "set (vt_denied ?v) = {g. (g, False) \<in> set ?gs}" "vt_reasons ?v = [] \<longleftrightarrow> list_all snd ?gs"
    by (simp_all add: settles_def request_conditions_def Let_def)
  have "filter (\<lambda>g. g \<in> set (vt_denied ?v)) REQUIRED_GATES = []" if "list_all snd ?gs"
    using that by (auto simp: v(1) filter_empty_conv list_all_iff)
  then show ?thesis
    unfolding evaluate_def Let_def safety_evaluation.simps safety_decision.simps v(2) by blast
qed

text \<open>
  C1: A request is allowed if and only if every gate's condition holds: lab mode, the three flags, a known
  device that is tagged as lab and on the allowlist, a contract and a runtime decision that admit its
  family, a usable credential, a fresh sanitized backup, a matching lab validation, a plan without errors whose hash is
  the simulated one, a persisted approval and rollback preview for it, a reserved lock and both permissions.
\<close>

theorem allowed_exactly:
  "ad_allowed (ae_decision (evaluate sha order RUNTIME_PROFILES cfg now p perms d)) \<longleftrightarrow>
   (\<exists>dev td lock commands hash.
      la_execution_mode p = EM_lab_apply \<and>
      allow_real_device_apply cfg \<and> lab_real_apply_enabled cfg \<and> \<not> production_real_apply_enabled cfg \<and>
      get_lab_device p d = Some dev \<and> is_lab_device dev \<and> is_allowlisted cfg dev \<and>
      td = device_decision RUNTIME_PROFILES dev \<and> contract_admits p (td_family td) \<and> runtime_admits (Some td) \<and>
      credential_admits cfg p perms d \<and> backup_satisfied cfg now p (Some dev) d \<and>
      lab_validation_satisfied now p (Some dev) (Some td) d \<and>
      command_plan order p (td_family td) = (commands, []) \<and> commands \<noteq> [] \<and>
      hash = command_hash sha (map Rendered commands) \<and> hash_matches p (Some hash) \<and>
      bound_lock p (Some dev) d = Some lock \<and> approval_satisfied cfg now p (Some dev) (Some lock) (Some hash) d \<and>
      rollback_satisfied p (Some dev) (Some lock) (Some hash) d \<and>
      Perm_execute_lab_apply \<in> perms \<and> Perm_use_credential_secrets \<in> perms)"
proof (cases "get_lab_device p d")
  case None
  then show ?thesis
    by (simp add: allowed_conditions request_conditions_def gate_conditions_def Let_def)
next
  case (Some dev)
  define td where "td = device_decision RUNTIME_PROFILES dev"
  obtain commands errors where plan: "command_plan order p (td_family td) = (commands, errors)"
    by (cases "command_plan order p (td_family td)")
  have "hash_matches p (computed_hash sha commands) \<longleftrightarrow>
      commands \<noteq> [] \<and> hash_matches p (Some (command_hash sha (map Rendered commands)))"
    by (simp add: computed_hash_def hash_matches_def)
  moreover have "computed_hash sha commands = Some (command_hash sha (map Rendered commands))" if "commands \<noteq> []"
    using that by (simp add: computed_hash_def)
  ultimately show ?thesis
    unfolding allowed_conditions request_conditions_def gate_conditions_def Let_def Some
      list.pred_inject prod.sel option.map td_def [symmetric] decided_plan_def decided_family_def option.case plan flags_set_def
    by (cases "bound_lock p (Some dev) d"; cases "commands = []") (auto simp: plan [unfolded td_def] td_def)
qed

lemma rendered_not_blocked:
  "render f operation params = Inr rs \<Longrightarrow> r \<in> set rs \<Longrightarrow> \<not> blocks_command (get_vendor_driver_contract f) (command r)"
  by (erule render_Inr) (auto simp: read_only_not_blocked)

lemma command_plan_vetted:
  assumes "command_plan order p f = (commands, [])" "commands \<noteq> []"
  obtains expected where "render f (operation_value (la_operation p)) (la_command_parameters p) = Inr expected"
    "length commands = length expected"
    "\<And>j. j < length commands \<Longrightarrow>
       matches_rendered_command order (la_command_parameters p) (command (commands ! j)) (command (expected ! j))"
    "\<And>c. c \<in> set commands \<Longrightarrow> \<not> blocks_command (get_vendor_driver_contract f) (command c)"
proof (cases "la_command_plan p = []")
  case True
  with assms(1) have r: "render f (operation_value (la_operation p)) (la_command_parameters p) = Inr commands"
    by (auto simp: command_plan_def split: sum.splits)
  show ?thesis
    by (rule that [OF r]) (simp_all add: matches_rendered_command_def rendered_not_blocked [OF r])
next
  case False
  let ?plan = "map plan_entry (la_command_plan p)"
  have texts: "plan_texts (map plan_entry cs) = Inr (map (\<lambda>c. command (as_rendered c)) cs)" for cs
    by (induction cs) (simp_all add: plan_entry_def as_rendered_def item_text_def str_or_empty_def jget_def)
  from False assms have clean: "validate_command_plan order f (operation_value (la_operation p)) (la_command_parameters p) ?plan = Inr []"
    and commands: "commands = map as_rendered (la_command_plan p)"
    and blocked: "filter (\<lambda>c. blocks_command (get_vendor_driver_contract f) (command c)) commands = []"
    by (auto simp: command_plan_def Let_def split: sum.splits)
  from clean obtain expected where r: "render f (operation_value (la_operation p)) (la_command_parameters p) = Inr expected"
    and len: "length commands = length expected"
    and agree: "\<And>j. j < length commands \<Longrightarrow>
      matches_rendered_command order (la_command_parameters p) (command (commands ! j)) (command (expected ! j))"
    by (auto simp: validate_command_plan_clean texts commands)
  show ?thesis
  proof (rule that [OF r len agree])
    show "\<not> blocks_command (get_vendor_driver_contract f) (command c)" if "c \<in> set commands" for c
      using blocked that unfolding filter_empty_conv by blast
  qed
qed

text \<open>
  C39: What an allowed request would send is the vendor template's rendering: as many commands, each
  equal to the rendered one or equal to it up to redaction, and none that the family's contract blocks,
  whether the plan came with the request or was rendered here.
\<close>

theorem allowed_plan_vetted:
  assumes "ad_allowed (ae_decision (evaluate sha order RUNTIME_PROFILES cfg now p perms d))"
  shows "let ev = evaluate sha order RUNTIME_PROFILES cfg now p perms d;
             family = decided_family (ae_transport_decision ev)
         in ae_internal_commands ev \<noteq> [] \<and>
            (\<exists>expected. render family (operation_value (la_operation p)) (la_command_parameters p) = Inr expected \<and>
              list_all2 (\<lambda>c e. matches_rendered_command order (la_command_parameters p) (command c) (command e))
                (ae_internal_commands ev) expected) \<and>
            \<not> list_ex (\<lambda>c. blocks_command (get_vendor_driver_contract family) (command c)) (ae_internal_commands ev)"
proof -
  from assms obtain dev where dev: "get_lab_device p d = Some dev"
    and gates: "list_all snd (gate_conditions sha order cfg now p perms d (Some dev) (Some (device_decision RUNTIME_PROFILES dev)))"
    unfolding allowed_conditions request_conditions_def Let_def
    by (cases "get_lab_device p d") (auto simp: gate_conditions_def Let_def)
  define f where "f = td_family (device_decision RUNTIME_PROFILES dev)"
  obtain commands errors where plan: "command_plan order p f = (commands, errors)" by (cases "command_plan order p f")
  from gates have "errors = []" "commands \<noteq> []"
    unfolding gate_conditions_def Let_def decided_plan_def option.case f_def [symmetric] plan
    by (auto simp: computed_hash_def hash_matches_def)
  with plan obtain expected where "render f (operation_value (la_operation p)) (la_command_parameters p) = Inr expected"
    "length commands = length expected"
    "\<And>j. j < length commands \<Longrightarrow>
       matches_rendered_command order (la_command_parameters p) (command (commands ! j)) (command (expected ! j))"
    "\<And>c. c \<in> set commands \<Longrightarrow> \<not> blocks_command (get_vendor_driver_contract f) (command c)"
    using command_plan_vetted by blast
  with \<open>commands \<noteq> []\<close> show ?thesis
    by (simp add: evaluate_def Let_def dev decided_plan_def decided_family_def f_def [symmetric] plan list_all2_conv_all_nth list_ex_iff)
qed

text \<open>
  Of the capabilities that the lab validation API can record, password_change is the only one the
  kernel's lab validation gate accepts, and it accepts it for every operation: a validation of VLAN changes never
  opens the gate for a VLAN operation.
\<close>

theorem lab_gate_capability:
  assumes "lab_validation_satisfied now p (Some dev) (Some td) d" "la_lab_validation_id p = Some t"
    and "by_text find_lab_validation t d = Some v" "lv_capability v \<in> set VALIDATION_CAPABILITIES"
  shows "lv_capability v = ''password_change''"
  using assms by (cases "la_operation p") (auto simp: lab_validation_satisfied_def VALIDATION_CAPABILITIES_def)

section \<open>An allowed request\<close>

text \<open>
  An example for the witnesses: one lab device with everything a VLAN change needs, the lab validation
  being for password changes.
\<close>

definition ex_settings :: settings where
  "ex_settings = default_settings\<lparr>secret_key := Some ''0123456789abcdef'', allow_real_device_apply := True,
     lab_real_apply_enabled := True, lab_device_allowlist := ''lab-sw1''\<rparr>"

definition ex_device :: device where
  "ex_device = \<lparr>dev_id = 1, dev_hostname = Some ''lab-sw1'', dev_ip_address = ''192.0.2.1'', dev_management_ip = None,
     dev_vendor = ''cisco'', dev_model = ''c2960'', dev_normalized_vendor = None, dev_normalized_model = None,
     dev_platform = ''ios'', dev_os_version = None, dev_serial_number = None, dev_site = None, dev_location = None,
     dev_rack = None, dev_role = None, dev_transport_type = ''ssh'', dev_driver_name = ''CiscoIOSDriver'',
     dev_driver_resolution_status = ''resolved'', dev_credential_assignment_status = ''assigned'',
     dev_status = ''active'', dev_discovery_status = ''unknown'', dev_discovery_last_checked_at = None,
     dev_discovery_error = None, dev_tags = [(''lab'', JBool True)], dev_capabilities = [], dev_last_seen = None,
     dev_last_seen_at = None, dev_created_at = Aware 0, dev_updated_at = Aware 0\<rparr>"

definition ex_secret :: credential_secret where
  "ex_secret = \<lparr>sec_id = 2, sec_name = ''lab'', sec_username = ''admin'', sec_encrypted_payload = ''token'',
     sec_auth_type = ''password'', sec_purpose = None, sec_version = 1, sec_active = True, sec_metadata = None,
     sec_created_by = None, sec_updated_by = None, sec_created_at = Aware 0, sec_updated_at = Aware 0,
     sec_rotated_at = None, sec_disabled_at = None\<rparr>"

definition ex_snapshot :: snapshot where
  "ex_snapshot = \<lparr>sn_id = 3, sn_device_id = 1, sn_backup_job_id = None, sn_source = ''manual'', sn_config_type = ''running'',
     sn_config_text = ''hostname lab-sw1'', sn_config_hash = ''abc'', sn_sanitized = True, sn_collection_method = ''ssh'',
     sn_collected_at = Aware 0, sn_created_at = Aware 0, sn_metadata = None\<rparr>"

definition ex_validation :: lab_validation where
  "ex_validation = \<lparr>lv_id = 4, lv_vendor = ''Cisco'', lv_platform = None, lv_model_pattern = Some ''c29*'',
     lv_driver_name = ''CiscoIOSDriver'', lv_capability = ''password_change'', lv_status = ''approved'',
     lv_validated_by = Some ''sec'', lv_validated_at = Some (Aware 0), lv_expires_at = None, lv_lab_environment = None,
     lv_evidence_summary = None, lv_transcript_id = None, lv_created_at = Aware 0, lv_updated_at = Aware 0\<rparr>"

definition ex_lock :: change_lock where
  "ex_lock = \<lparr>lk_id = 5, lk_execution_id = 8, lk_lock_type = ''device'', lk_target_type = ''device'', lk_target_id = Some 1,
     lk_device_id = Some 1, lk_status = ''reserved'', lk_reason = None, lk_created_at = Aware 0, lk_released_at = None\<rparr>"

definition ex_approval :: change_approval where
  "ex_approval = \<lparr>ap_id = 6, ap_execution_id = 8, ap_status = ''approved'', ap_requested_by = None,
     ap_approved_by = Some ''sec'', ap_rejected_by = None, ap_comment = None, ap_created_at = Aware 0,
     ap_decided_at = Some (Aware 0)\<rparr>"

definition ex_step :: change_step where
  "ex_step = \<lparr>st_id = 7, st_execution_id = 8, st_step_order = 1, st_name = ''vlan'', st_step_type = ''vlan_change'',
     st_status = ''planned'', st_depends_on = None, st_target_type = None, st_target_id = None, st_device_id = Some 1,
     st_planned_action = Some [(''operation'', JStr ''vlan_create''), (''command_hash'', JStr ''h''),
       (''rollback_commands'', JList [JStr ''no vlan 120''])],
     st_dry_run_output = None, st_risk_level = None, st_started_at = None, st_completed_at = None,
     st_error_summary = None, st_created_at = Aware 0, st_updated_at = Aware 0\<rparr>"

definition ex_db :: db where
  "ex_db = empty_db\<lparr>t_device := [ex_device], t_credential_secret := [ex_secret], t_snapshot := [ex_snapshot],
     t_lab_validation := [ex_validation], t_change_lock := [ex_lock], t_change_approval := [ex_approval],
     t_change_step := [ex_step]\<rparr>"

definition ex_request :: lab_apply_request where
  "ex_request = \<lparr>la_device_id = uuid_str 1, la_operation = VO_vlan_create, la_execution_mode = EM_lab_apply,
     la_credential_ref = Some (uuid_str 2), la_command_parameters = vlan_parameters, la_command_plan = [],
     la_rollback_plan = [\<lparr>lc_command = ''no vlan 120'', lc_secret = False\<rparr>], la_backup_snapshot_id = Some (uuid_str 3),
     la_lab_validation_id = Some (uuid_str 4), la_approval_id = Some (uuid_str 6), la_approval_status = None,
     la_dry_run_hash = None, la_simulation_hash = Some ''h'', la_lock_id = Some (uuid_str 5),
     la_allow_lab_candidate = True, la_use_fake_transport = True\<rparr>"

abbreviation ex_hash :: "string \<Rightarrow> string" where "ex_hash \<equiv> \<lambda>_. ''h''"
abbreviation ex_permissions :: "permission set" where
  "ex_permissions \<equiv> {Perm_execute_lab_apply, Perm_use_credential_secrets}"

lemma ex_by_text [simp]: "n < 2 ^ 128 \<Longrightarrow> by_text look (uuid_str n) d = look d n"
  by (simp add: by_text_def uuid_of_string_str)

lemma ex_get_device: "get_lab_device ex_request ex_db = Some ex_device"
  by (simp add: get_lab_device_def ex_request_def ex_db_def ex_device_def get_row_def)

lemma ex_decision:
  "td_family (device_decision RUNTIME_PROFILES ex_device) = DF_cisco_ios \<and>
   td_driver_name (device_decision RUNTIME_PROFILES ex_device) = ''CiscoIOSDriver'' \<and>
   td_selected_transport (device_decision RUNTIME_PROFILES ex_device) = TK_netmiko"
  by code_simp

lemma ex_rows:
  "find_snapshot ex_db 3 = Some ex_snapshot" "find_lab_validation ex_db 4 = Some ex_validation"
  "find_change_lock ex_db 5 = Some ex_lock" "find_change_approval ex_db 6 = Some ex_approval"
  "find_credential_secret ex_db 2 = Some ex_secret" "t_change_step ex_db = [ex_step]"
  by (simp_all add: ex_db_def get_row_def ex_snapshot_def ex_validation_def ex_lock_def ex_approval_def ex_secret_def)

lemma ex_bound_lock: "bound_lock ex_request (Some ex_device) ex_db = Some ex_lock"
  by (simp add: bound_lock_def ex_request_def ex_rows ex_device_def ex_lock_def) (simp add: uuid_str_def Let_def)

lemma ex_plan: "command_plan order ex_request DF_cisco_ios = (vlan_commands, [])"
  using vlan_rendered by (simp add: command_plan_def ex_request_def)

lemma ex_allowlisted: "is_allowlisted ex_settings ex_device"
  by code_simp

lemma ex_backup: "backup_satisfied ex_settings 5 ex_request (Some ex_device) ex_db"
  by (simp add: backup_satisfied_def ex_request_def ex_rows) (simp add: ex_snapshot_def ex_device_def ex_settings_def
      default_settings_def hours_ago_def backup_metadata_marks_incomplete_def metadata_has_unsafe_path_def jget_def has_key_def
      str_or_empty_def str_strip_def is_space_def casefold_def comparable_datetime_def)

lemma ex_lab_validation:
  "lab_validation_satisfied 5 ex_request (Some ex_device) (Some (device_decision RUNTIME_PROFILES ex_device)) ex_db"
proof -
  have "normalize_match_value ''Cisco'' = normalize_match_value ''cisco''" "model_matches (Some ''c29*'') ''c2960''"
    by code_simp+
  then show ?thesis
    by (simp add: lab_validation_satisfied_def ex_request_def ex_rows ex_decision)
      (simp add: ex_validation_def ex_device_def unexpired_def)
qed

lemma ex_approved: "approval_satisfied ex_settings 5 ex_request (Some ex_device) (Some ex_lock) (Some ''h'') ex_db"
  by (simp add: approval_satisfied_def ex_request_def ex_rows) (simp add: ex_approval_def ex_lock_def ex_device_def
      ex_settings_def default_settings_def hours_ago_def execution_has_bound_step_def ex_rows ex_step_def or_empty_def
      step_metadata_bound_def option_items_def metadata_matches_def metadata_list_def jget_def has_key_def
      str_or_empty_def comparable_datetime_def uuid_str_def Let_def)

lemma ex_rollback: "rollback_satisfied ex_request (Some ex_device) (Some ex_lock) (Some ''h'') ex_db"
  by (simp add: rollback_satisfied_def ex_request_def ex_lock_def ex_device_def execution_has_bound_step_def ex_rows
      ex_step_def step_metadata_bound_def option_items_def metadata_matches_def metadata_list_def jget_def has_key_def
      str_or_empty_def)

lemma ex_credential: "credential_admits ex_settings ex_request ex_permissions ex_db"
proof -
  have "uuid_str 2 \<noteq> []" by (simp add: uuid_str_def Let_def)
  moreover have "get_secret_row (RefText (uuid_str 2)) ex_db = (Inr ex_secret, ex_db)"
    by (simp add: get_secret_row_def get_by_ref_def query_def coerce_ref_text ex_rows del: coerce_ref.simps)
  ultimately show ?thesis
    by (simp add: credential_admits_def ex_request_def or_empty_def usable_check_def check_usable_def)
      (simp add: ex_secret_def ex_settings_def)
qed

lemma ex_allowed:
  "ad_allowed (ae_decision (evaluate ex_hash order RUNTIME_PROFILES ex_settings 5 ex_request ex_permissions ex_db))"
proof -
  have lab: "is_lab_device ex_device" by (simp add: is_lab_device_def ex_device_def jget_def)
  have flags: "flags_set ex_settings" by (simp add: flags_set_def ex_settings_def default_settings_def)
  have contract: "contract_admits ex_request DF_cisco_ios"
    by (simp add: contract_admits_def ex_request_def contract_defs Let_def)
  have runtime: "runtime_admits (Some (device_decision RUNTIME_PROFILES ex_device))"
    by (simp add: runtime_admits_def ex_decision)
  have hash: "computed_hash ex_hash vlan_commands = Some ''h''" "hash_matches ex_request (Some ''h'')"
    by (simp_all add: computed_hash_def vlan_commands_def command_hash_def hash_matches_def ex_request_def)
  have mode: "la_execution_mode ex_request = EM_lab_apply" by (simp add: ex_request_def)
  show ?thesis
    unfolding allowed_conditions request_conditions_def gate_conditions_def Let_def ex_get_device option.map
      decided_plan_def decided_family_def option.case
    by (simp add: ex_decision ex_plan hash mode flags lab ex_allowlisted contract runtime ex_credential ex_backup
        ex_lab_validation ex_bound_lock ex_approved ex_rollback)
qed

theorem allowed_plan_vetted_witness:
  "let ev = evaluate ex_hash [] RUNTIME_PROFILES ex_settings 5 ex_request ex_permissions ex_db;
       family = decided_family (ae_transport_decision ev)
   in ae_internal_commands ev \<noteq> [] \<and>
      (\<exists>expected. render family (operation_value (la_operation ex_request)) (la_command_parameters ex_request) = Inr expected \<and>
        list_all2 (\<lambda>c e. matches_rendered_command [] (la_command_parameters ex_request) (command c) (command e))
          (ae_internal_commands ev) expected) \<and>
      \<not> list_ex (\<lambda>c. blocks_command (get_vendor_driver_contract family) (command c)) (ae_internal_commands ev)"
  by (rule allowed_plan_vetted [OF ex_allowed])

theorem lab_gate_capability_witness:
  "lv_capability ex_validation = ''password_change'' \<and> la_operation ex_request = VO_vlan_create"
proof
  have "la_lab_validation_id ex_request = Some (uuid_str 4)" by (simp add: ex_request_def)
  moreover have "by_text find_lab_validation (uuid_str 4) ex_db = Some ex_validation" by (simp add: ex_rows)
  moreover have "lv_capability ex_validation \<in> set VALIDATION_CAPABILITIES"
    by (simp add: ex_validation_def VALIDATION_CAPABILITIES_def)
  ultimately show "lv_capability ex_validation = ''password_change''" by (rule lab_gate_capability [OF ex_lab_validation])
  show "la_operation ex_request = VO_vlan_create" by (simp add: ex_request_def)
qed

end
