(* ===== verification/LabApply.thy ===== *)
theory LabApply
  imports SafetyKernel TransportRuntime HeaderActors Endpoints
begin

text \<open>
  app/services/lab_apply_service.py, fake_lab_transport.py and lab_transport_factory.py, with the endpoints of
  app/api/v1/lab_apply.py: what happens with a request after the gates.  The runner that talks to a
  real device (real_lab_apply_runner.py, a network session) is the parameter \<open>run_real\<close>: what it
  raises or returns for an evaluation and credentials.
\<close>

section \<open>The fake transport\<close>

record fake_transport =
  ft_transport_kind :: string
  ft_connected :: bool
  ft_executed_commands :: "lab_command list"

definition fake_connect :: "fake_transport \<Rightarrow> fake_transport" where
  "fake_connect t = t\<lparr>ft_connected := True\<rparr>"

definition fake_execute :: "rendered_command list \<Rightarrow> fake_transport \<Rightarrow> lab_command list \<times> fake_transport" where
  "fake_execute commands t =
     (let t = (if \<not> ft_connected t then fake_connect t else t);
          t = t\<lparr>ft_executed_commands := map safe_command commands\<rparr>
      in (ft_executed_commands t, t))"

definition fake_close :: "fake_transport \<Rightarrow> fake_transport" where
  "fake_close t = t\<lparr>ft_connected := False\<rparr>"

section \<open>The transport factory\<close>

definition assert_allowed :: "safety_decision \<Rightarrow> error + unit" where
  "assert_allowed dec =
     (if ad_allowed dec then Inr ()
      else Inl (SafetyError ''Lab transport cannot be created until Apply Safety Kernel allows the request''))"

definition create_fake_transport :: "safety_evaluation \<Rightarrow> error + fake_transport" where
  "create_fake_transport ev =
     (case assert_allowed (ae_decision ev) of
        Inl e \<Rightarrow> Inl e
      | Inr _ \<Rightarrow>
          (case ae_transport_decision ev of
             None \<Rightarrow> Inl (SafetyError ''Cannot create lab transport without runtime decision'')
           | Some td \<Rightarrow> Inr \<lparr>ft_transport_kind = transport_value (td_selected_transport td), ft_connected = False,
                             ft_executed_commands = []\<rparr>))"

definition create_runtime_adapter :: "safety_evaluation \<Rightarrow> credentials option \<Rightarrow> error + adapter" where
  "create_runtime_adapter ev creds =
     (case assert_allowed (ae_decision ev) of
        Inl e \<Rightarrow> Inl e
      | Inr _ \<Rightarrow>
          (case ae_transport_decision ev of
             None \<Rightarrow> Inl (SafetyError ''Cannot create lab runtime adapter without runtime decision'')
           | Some td \<Rightarrow> create_session td creds ''read_only''))"

section \<open>The service\<close>

record command_result =
  cx_command :: string
  cx_output :: string
  cx_success :: bool
  cx_error :: "string option"
  cx_secret :: bool

record real_result =
  rr_executed :: bool
  rr_transport_kind :: string
  rr_command_count :: int
  rr_commands :: "lab_command list"
  rr_outputs :: "command_result list"
  rr_failed :: bool
  rr_error :: "string option"

record lab_apply_response =
  lr_decision :: safety_decision
  lr_executed :: bool
  lr_fake_transport :: bool
  lr_transport_kind :: "string option"
  lr_command_count :: int
  lr_executed_commands :: "lab_command list"
  lr_audit :: jobj

type_synonym real_runner = "safety_evaluation \<Rightarrow> credentials \<Rightarrow> error + real_result"

definition strings_json :: "string list \<Rightarrow> json" where
  "strings_json xs = JList (map JStr xs)"

definition command_json :: "lab_command \<Rightarrow> json" where
  "command_json c = JObj [(''command'', JStr (lc_command c)), (''secret'', JBool (lc_secret c))]"

definition result_json :: "command_result \<Rightarrow> json" where
  "result_json r = JObj [(''command'', JStr (cx_command r)), (''output'', JStr (cx_output r)),
     (''success'', JBool (cx_success r)), (''error'', str_opt (cx_error r)), (''secret'', JBool (cx_secret r))]"

definition safe_audit_payload :: "lab_apply_request \<Rightarrow> lab_command list \<Rightarrow> jobj" where
  "safe_audit_payload p commands =
     [(''result'', JStr ''fake_success''), (''operation'', JStr (operation_value (la_operation p))),
      (''device_id'', JStr (la_device_id p)), (''command_count'', JInt (int (length commands))),
      (''commands'', JList (map command_json commands))]"

text \<open>The response of a request that ran nothing.\<close>

definition not_executed :: "safety_decision \<Rightarrow> bool \<Rightarrow> jobj \<Rightarrow> lab_apply_response" where
  "not_executed dec fake audit = \<lparr>lr_decision = dec, lr_executed = False, lr_fake_transport = fake,
     lr_transport_kind = ad_selected_transport dec, lr_command_count = 0, lr_executed_commands = [], lr_audit = audit\<rparr>"

text \<open>
  The \<open>try\<close> block around the real runner: the error and the secret that was read by then, or the result.
\<close>

definition attempt_real ::
  "decryption \<Rightarrow> settings \<Rightarrow> real_runner \<Rightarrow> lab_apply_request \<Rightarrow> safety_evaluation \<Rightarrow> db \<Rightarrow>
   (error \<times> string option) + real_result" where
  "attempt_real dec cfg run_real p ev d =
     (let i = RefText (or_empty (la_credential_ref p))
      in case fst (vault_get i d) of
           Inl e \<Rightarrow> Inl (e, None)
         | Inr metadata \<Rightarrow>
             (case fst (decrypt_for_execution_after_safety dec cfg i d) of
                Inl e \<Rightarrow> Inl (e, None)
              | Inr secret' \<Rightarrow>
                  (case run_real ev \<lparr>rc_username = sr_username metadata, rc_password = Some secret', rc_enable_password = None\<rparr> of
                     Inl e \<Rightarrow> Inl (e, Some secret')
                   | Inr result \<Rightarrow> Inr result)))"

definition execute_real ::
  "decryption \<Rightarrow> settings \<Rightarrow> real_runner \<Rightarrow> int \<Rightarrow> lab_apply_request \<Rightarrow> string \<Rightarrow> safety_evaluation \<Rightarrow>
   (db, lab_apply_response) action" where
  "execute_real dec cfg run_real now p actr ev =
     (let decision = ae_decision ev
      in andThen (asks (attempt_real dec cfg run_real p ev)) (\<lambda>attempt.
           case attempt of
             Inl (e, secret') \<Rightarrow>
               (let safe_error = mask_secrets (case secret' of None \<Rightarrow> [] | Some v \<Rightarrow> if v = [] then [] else [v]) (err_str e)
                in andThen (audit_write now actr ''lab_apply.real_execute_failed'' ''device'' (la_device_id p) None None None None
                     (Some [(''operation'', JStr (operation_value (la_operation p))),
                            (''transport_kind'', str_opt (ad_selected_transport decision)),
                            (''error'', JStr safe_error)])) (\<lambda>_.
                   ret (not_executed decision False [(''result'', JStr ''failed''), (''error'', JStr safe_error)])))
           | Inr result \<Rightarrow>
               andThen (audit_write now actr ''lab_apply.real_execute'' ''device'' (la_device_id p) None None None None
                 (Some [(''operation'', JStr (operation_value (la_operation p))),
                        (''transport_kind'', JStr (rr_transport_kind result)),
                        (''command_count'', JInt (rr_command_count result)), (''failed'', JBool (rr_failed result)),
                        (''error'', str_opt (rr_error result)),
                        (''outputs'', JList (map result_json (rr_outputs result)))])) (\<lambda>_.
               ret \<lparr>lr_decision = decision, lr_executed = rr_executed result, lr_fake_transport = False,
                    lr_transport_kind = Some (rr_transport_kind result), lr_command_count = rr_command_count result,
                    lr_executed_commands = rr_commands result,
                    lr_audit = [(''result'', JStr (if rr_executed result then ''success'' else ''failed'')),
                      (''outputs'', JList (map result_json (rr_outputs result))), (''error'', str_opt (rr_error result))]\<rparr>)))"

definition execute_fake ::
  "int \<Rightarrow> lab_apply_request \<Rightarrow> string \<Rightarrow> safety_evaluation \<Rightarrow> (db, lab_apply_response) action" where
  "execute_fake now p actr ev =
     andThen (query (\<lambda>_. create_fake_transport ev)) (\<lambda>transport.
     case fake_execute (ae_internal_commands ev) transport of
       (executed, transport) \<Rightarrow>
         let transport = fake_close transport in
         andThen (audit_write now actr ''lab_apply.fake_execute'' ''device'' (la_device_id p) None None None None
           (Some [(''operation'', JStr (operation_value (la_operation p))), (''fake_transport'', JBool True),
                  (''transport_kind'', JStr (ft_transport_kind transport)),
                  (''command_count'', JInt (int (length executed))),
                  (''commands'', JList (map command_json executed))])) (\<lambda>_.
         ret \<lparr>lr_decision = ae_decision ev, lr_executed = True, lr_fake_transport = True,
              lr_transport_kind = Some (ft_transport_kind transport), lr_command_count = int (length executed),
              lr_executed_commands = executed, lr_audit = safe_audit_payload p executed\<rparr>))"

definition lab_execute ::
  "(string \<Rightarrow> string) \<Rightarrow> string list \<Rightarrow> decryption \<Rightarrow> real_runner \<Rightarrow> settings \<Rightarrow> int \<Rightarrow> lab_apply_request \<Rightarrow> string \<Rightarrow>
   permission set \<Rightarrow> (db, lab_apply_response) action" where
  "lab_execute sha order dec run_real cfg now p actr perms =
     andThen (asks (evaluate sha order RUNTIME_PROFILES cfg now p perms)) (\<lambda>ev.
       if \<not> ad_allowed (ae_decision ev)
       then ret (not_executed (ae_decision ev) (la_use_fake_transport p)
              [(''result'', JStr ''denied''), (''reasons'', strings_json (ad_reasons (ae_decision ev)))])
       else if \<not> la_use_fake_transport p then execute_real dec cfg run_real now p actr ev
       else execute_fake now p actr ev)"

definition lab_evaluate ::
  "(string \<Rightarrow> string) \<Rightarrow> string list \<Rightarrow> settings \<Rightarrow> int \<Rightarrow> lab_apply_request \<Rightarrow> permission set \<Rightarrow>
   (db, safety_decision) action" where
  "lab_evaluate sha order cfg now p perms =
     asks (\<lambda>d. ae_decision (evaluate sha order RUNTIME_PROFILES cfg now p perms d))"

section \<open>The endpoints\<close>

definition api_evaluate_lab_apply ::
  "(string \<Rightarrow> string) \<Rightarrow> string list \<Rightarrow> settings \<Rightarrow> int \<Rightarrow> lab_apply_request \<Rightarrow> string option \<Rightarrow> string option \<Rightarrow>
   (db, safety_decision) action" where
  "api_evaluate_lab_apply sha order cfg now p x_actor x_roles =
     andThen (query (\<lambda>_. get_lab_apply_actor x_actor x_roles)) (\<lambda>a.
       endpoint Perm_evaluate_lab_apply a (lab_evaluate sha order cfg now p (permissions a)))"

definition api_execute_lab_apply ::
  "(string \<Rightarrow> string) \<Rightarrow> string list \<Rightarrow> decryption \<Rightarrow> real_runner \<Rightarrow> settings \<Rightarrow> int \<Rightarrow> lab_apply_request \<Rightarrow> string option \<Rightarrow>
   string option \<Rightarrow> (db, lab_apply_response) action" where
  "api_execute_lab_apply sha order dec run_real cfg now p x_actor x_roles =
     andThen (query (\<lambda>_. get_lab_apply_actor x_actor x_roles)) (\<lambda>a.
       endpoint Perm_execute_lab_apply a (lab_execute sha order dec run_real cfg now p (username a) (permissions a)))"

section \<open>Facts\<close>

text \<open>One audit row and nothing else.\<close>

definition one_audit_row :: "string \<Rightarrow> string \<Rightarrow> db \<Rightarrow> db \<Rightarrow> bool" where
  "one_audit_row actr act s s' \<longleftrightarrow> (\<exists>e. s' = s\<lparr>db_next_id := db_next_id s + 1, t_audit_log := t_audit_log s @ [e]\<rparr> \<and>
     clean_row e \<and> al_actor e = actr \<and> al_action e = act)"

lemma audited_ret:
  "\<exists>s'. andThen (audit_write now actr act ot oi None None before after metadata) (\<lambda>_. ret x) s = (Inr x, s') \<and>
     one_audit_row actr act s s'"
proof -
  let ?w = "audit_write now actr act ot oi None None before after metadata"
  obtain y s' where w: "?w s = (Inr y, s')" using audit_write_None by blast
  let ?row = "\<lambda>dev jb. \<lparr>al_id = db_next_id s, al_actor = actr, al_action = act, al_object_type = ot, al_object_id = oi,
    al_device_id = dev, al_job_id = jb, al_before = map_option audit_sanitize_obj before,
    al_after = map_option audit_sanitize_obj after,
    al_extra_metadata = audit_sanitize_obj (case metadata of None \<Rightarrow> [] | Some m \<Rightarrow> m), al_created_at = Aware now\<rparr>"
  from w obtain dev jb where "s' = s\<lparr>db_next_id := db_next_id s + 1, t_audit_log := t_audit_log s @ [?row dev jb]\<rparr>"
    by (auto simp: audit_write_Inr Let_def)
  then have "one_audit_row actr act s s'"
    unfolding one_audit_row_def using clean_row_written by (intro exI [of _ "?row dev jb"]) simp
  moreover from w have "andThen ?w (\<lambda>_. ret x) s = (Inr x, s')" by (simp add: andThen_def ret_def)
  ultimately show ?thesis by blast
qed

lemma execute_real_outcome:
  "\<exists>r s' act. execute_real dec cfg run_real now p actr ev s = (Inr r, s') \<and> one_audit_row actr act s s' \<and>
     lr_decision r = ae_decision ev"
proof (cases "attempt_real dec cfg run_real p ev s")
  case (Inl failed)
  then show ?thesis
    using audited_ret by (cases failed) (fastforce simp: execute_real_def andThen_def [of "asks f" for f] asks_def Let_def not_executed_def)
next
  case (Inr result)
  then show ?thesis
    using audited_ret by (fastforce simp: execute_real_def andThen_def [of "asks f" for f] asks_def Let_def)
qed

lemma create_fake_transport_allowed:
  "ad_allowed (ae_decision ev) \<Longrightarrow> ae_transport_decision ev = Some td \<Longrightarrow>
   create_fake_transport ev = Inr \<lparr>ft_transport_kind = transport_value (td_selected_transport td), ft_connected = False,
     ft_executed_commands = []\<rparr>"
  by (simp add: create_fake_transport_def assert_allowed_def)

lemma execute_fake_outcome:
  assumes "ad_allowed (ae_decision ev)" "ae_transport_decision ev = Some td"
  shows "\<exists>r s'. execute_fake now p actr ev s = (Inr r, s') \<and> one_audit_row actr ''lab_apply.fake_execute'' s s' \<and>
     lr_decision r = ae_decision ev \<and> lr_executed r \<and> lr_fake_transport r \<and>
     lr_executed_commands r = map safe_command (ae_internal_commands ev)"
  using audited_ret
  by (fastforce simp: execute_fake_def create_fake_transport_allowed [OF assms] andThen_def [of "query f" for f] query_def
      fake_execute_def fake_connect_def fake_close_def Let_def)

lemma allowed_has_decision:
  "ad_allowed (ae_decision (evaluate sha order RUNTIME_PROFILES cfg now p perms d)) \<Longrightarrow>
   \<exists>td. ae_transport_decision (evaluate sha order RUNTIME_PROFILES cfg now p perms d) = Some td"
proof -
  assume "ad_allowed (ae_decision (evaluate sha order RUNTIME_PROFILES cfg now p perms d))"
  then obtain dev where "get_lab_device p d = Some dev"
    unfolding allowed_conditions request_conditions_def Let_def
    by (cases "get_lab_device p d") (auto simp: gate_conditions_def Let_def)
  then show ?thesis by (simp add: evaluate_def Let_def)
qed

lemma lab_execute_step:
  "lab_execute sha order dec run_real cfg now p actr perms s =
     (let ev = evaluate sha order RUNTIME_PROFILES cfg now p perms s
      in if \<not> ad_allowed (ae_decision ev)
         then (Inr (not_executed (ae_decision ev) (la_use_fake_transport p)
              [(''result'', JStr ''denied''), (''reasons'', strings_json (ad_reasons (ae_decision ev)))]), s)
         else if \<not> la_use_fake_transport p then execute_real dec cfg run_real now p actr ev s
         else execute_fake now p actr ev s)"
  by (simp add: lab_execute_def andThen_def asks_def ret_def Let_def)

section \<open>Properties\<close>

text \<open>
  C3: A lab apply request never fails, and what it does depends on the kernel alone.  Denied, it runs no
  command and changes nothing.  Allowed, it adds exactly one sanitized audit row in the actor's name and changes
  nothing else in the database; with the fake transport the response then holds the masked form of every command.
\<close>

theorem lab_execute_gated:
  "\<exists>r s'. lab_execute sha order dec run_real cfg now p actr perms s = (Inr r, s') \<and>
     (let ev = evaluate sha order RUNTIME_PROFILES cfg now p perms s
      in lr_decision r = ae_decision ev \<and>
         (if ad_allowed (ae_decision ev)
          then (\<exists>act. one_audit_row actr act s s') \<and>
            (la_use_fake_transport p \<longrightarrow> lr_executed r \<and> lr_executed_commands r = map safe_command (ae_internal_commands ev))
          else s' = s \<and> \<not> lr_executed r \<and> lr_executed_commands r = []))"
proof -
  define ev where "ev = evaluate sha order RUNTIME_PROFILES cfg now p perms s"
  consider (denied) "\<not> ad_allowed (ae_decision ev)" | (real) "ad_allowed (ae_decision ev)" "\<not> la_use_fake_transport p"
    | (fake) "ad_allowed (ae_decision ev)" "la_use_fake_transport p" by blast
  then show ?thesis
  proof cases
    case fake
    then obtain td where "ae_transport_decision ev = Some td" using allowed_has_decision unfolding ev_def by blast
    from execute_fake_outcome [OF fake(1) this, of now p actr s] fake show ?thesis
      unfolding lab_execute_step Let_def ev_def [symmetric] by auto
  next
    case real
    with execute_real_outcome [of dec cfg run_real now p actr ev s] show ?thesis
      unfolding lab_execute_step Let_def ev_def [symmetric] by auto
  next
    case denied
    then show ?thesis unfolding lab_execute_step Let_def ev_def [symmetric] by (simp add: not_executed_def)
  qed
qed

theorem lab_execute_gated_witness:
  "\<exists>r s'. lab_execute ex_hash [] toy_dec (\<lambda>_ _. Inl (RuntimeError ''down'')) ex_settings 5 ex_request ''ann'' ex_permissions
       ex_db = (Inr r, s') \<and> lr_executed r \<and> (\<exists>act. one_audit_row ''ann'' act ex_db s')"
proof -
  have "la_use_fake_transport ex_request" by (simp add: ex_request_def)
  then show ?thesis
    using lab_execute_gated [of ex_hash "[]" toy_dec "\<lambda>_ _. Inl (RuntimeError ''down'')" ex_settings 5 ex_request "''ann''"
        ex_permissions ex_db] ex_allowed
    by (auto simp: Let_def)
qed

text \<open>
  The runner that talks to devices is out of reach unless the kernel allows the request and the
  fake transport is turned off: otherwise the reply and the state are the same whatever the runner does.
\<close>

theorem runner_needs_allowance:
  assumes "\<not> ad_allowed (ae_decision (evaluate sha order RUNTIME_PROFILES cfg now p perms s)) \<or> la_use_fake_transport p"
  shows "lab_execute sha order dec run_real cfg now p actr perms s = lab_execute sha order dec run_real' cfg now p actr perms s"
  using assms by (auto simp: lab_execute_step Let_def)

theorem runner_needs_allowance_witness:
  "lab_execute ex_hash [] toy_dec (\<lambda>_ _. Inl (RuntimeError ''down'')) ex_settings 5 ex_request ''ann'' ex_permissions ex_db
   = lab_execute ex_hash [] toy_dec (\<lambda>_ _. Inl (TimeoutError ''late'')) ex_settings 5 ex_request ''ann'' ex_permissions ex_db"
  by (rule runner_needs_allowance) (simp add: ex_request_def)

text \<open>
  When the runner fails after the credential was decrypted, the reply carries the masked text of the
  error, in which the credential does not occur even if the error quotes it (for a credential
  without angle brackets that is no piece of the word in the mask).
\<close>

theorem failed_run_hides_secret:
  assumes "attempt_real dec cfg run_real p ev s = Inl (e, Some v)"
    and "v \<noteq> []" "CHR ''<'' \<notin> set v" "CHR ''>'' \<notin> set v" "\<not> sublist v ''redacted''"
  shows "\<exists>r s' t. execute_real dec cfg run_real now p actr ev s = (Inr r, s') \<and> \<not> lr_executed r \<and>
     lr_audit r = [(''result'', JStr ''failed''), (''error'', JStr t)] \<and> t = mask_secrets [v] (err_str e) \<and> \<not> sublist v t"
proof -
  have "\<not> sublist v (mask_secrets [v] (err_str e))"
    unfolding mask_secrets_def SECRET_PATTERNS_def
    using assms(2-5) by (intro mask_patterns_hidden mask_explicit_hidden) simp_all
  moreover obtain s' where "execute_real dec cfg run_real now p actr ev s
    = (Inr (not_executed (ae_decision ev) False
        [(''result'', JStr ''failed''), (''error'', JStr (mask_secrets [v] (err_str e)))]), s')"
    using audited_ret assms(1,2)
    by (fastforce simp: execute_real_def andThen_def [of "asks f" for f] asks_def Let_def)
  ultimately show ?thesis by (auto simp: not_executed_def)
qed

theorem failed_run_hides_secret_witness:
  "\<exists>r s' t. execute_real toy_dec ex_settings (\<lambda>_ c. Inl (RuntimeError (''login refused for '' @ or_empty (rc_password c))))
       5 ex_request ''ann''
       (evaluate ex_hash [] RUNTIME_PROFILES ex_settings 5 ex_request ex_permissions ex_db) ex_db = (Inr r, s') \<and> \<not> lr_executed r \<and>
     lr_audit r = [(''result'', JStr ''failed''), (''error'', JStr t)] \<and>
     t = mask_secrets [''oken''] (err_str (RuntimeError ''login refused for oken'')) \<and> \<not> sublist ''oken'' t"
proof -
  have row: "get_secret_row (RefText (uuid_str 2)) ex_db = (Inr ex_secret, ex_db)"
    by (simp add: get_secret_row_def get_by_ref_def query_def coerce_ref_text ex_rows del: coerce_ref.simps)
  have "attempt_real toy_dec ex_settings (\<lambda>_ c. Inl (RuntimeError (''login refused for '' @ or_empty (rc_password c)))) ex_request
      (evaluate ex_hash [] RUNTIME_PROFILES ex_settings 5 ex_request ex_permissions ex_db) ex_db
      = Inl (RuntimeError ''login refused for oken'', Some ''oken'')"
    by (simp add: attempt_real_def ex_request_def or_empty_def vault_get_def decrypt_for_execution_after_safety_def andThen_def
        row ret_def unless_def query_def)
      (simp add: ex_secret_def secret_crypto_def ex_settings_def fernet_cipher_def cipher_decrypt_def toy_dec_def)
  then show ?thesis by (rule failed_run_hides_secret) (simp_all add: sublist_code)
qed

end
