(* ===== verification/ChangeRepository.thy ===== *)
theory ChangeRepository
  imports Db
begin

text \<open>
  app/repositories/change_executions.py, and the lookups of the other repositories the
  change-execution services use.  Every action gets the clock's reading \<open>now\<close>; rows are found,
  changed in place and added as the session does.
\<close>

section \<open>Changing rows\<close>

definition upd_execution :: "uuid \<Rightarrow> (change_execution \<Rightarrow> change_execution) \<Rightarrow> db \<Rightarrow> db" where
  "upd_execution i f d = d\<lparr>t_change_execution := upd_row ce_id i f (t_change_execution d)\<rparr>"

definition upd_step :: "uuid \<Rightarrow> (change_step \<Rightarrow> change_step) \<Rightarrow> db \<Rightarrow> db" where
  "upd_step i f d = d\<lparr>t_change_step := upd_row st_id i f (t_change_step d)\<rparr>"

definition upd_lock :: "uuid \<Rightarrow> (change_lock \<Rightarrow> change_lock) \<Rightarrow> db \<Rightarrow> db" where
  "upd_lock i f d = d\<lparr>t_change_lock := upd_row lk_id i f (t_change_lock d)\<rparr>"

definition upd_approval :: "uuid \<Rightarrow> (change_approval \<Rightarrow> change_approval) \<Rightarrow> db \<Rightarrow> db" where
  "upd_approval i f d = d\<lparr>t_change_approval := upd_row ap_id i f (t_change_approval d)\<rparr>"

section \<open>Executions\<close>

definition create_execution_row ::
  "int \<Rightarrow> string \<Rightarrow> string \<Rightarrow> string \<Rightarrow> string \<Rightarrow> string option \<Rightarrow> string option \<Rightarrow> ref option \<Rightarrow>
   bool \<Rightarrow> bool \<Rightarrow> bool \<Rightarrow> (db, change_execution) action" where
  "create_execution_row now title change_type source_type mode description requested_by source_id
     requires_approval requires_lab requires_backup =
     andThen (query (\<lambda>_. optional_ref ''Change source'' source_id)) (\<lambda>src.
     andThen fresh_id (\<lambda>i.
       let e = \<lparr>ce_id = i, ce_title = title, ce_description = description, ce_status = ''draft'',
          ce_mode = mode, ce_requested_by = requested_by, ce_change_type = change_type,
          ce_source_type = source_type, ce_source_id = src, ce_risk_level = ''medium'',
          ce_risk_summary = None, ce_requires_approval = requires_approval,
          ce_requires_lab_validation = requires_lab, ce_requires_fresh_backup = requires_backup,
          ce_created_at = Aware now, ce_updated_at = Aware now, ce_submitted_at = None,
          ce_approved_at = None, ce_approved_by = None, ce_rejected_at = None,
          ce_rejected_by = None, ce_started_at = None, ce_completed_at = None,
          ce_cancelled_at = None, ce_error_summary = None\<rparr>
       in andThen (change (\<lambda>d. d\<lparr>t_change_execution := t_change_execution d @ [e]\<rparr>)) (\<lambda>_. ret e)))"

definition get_execution :: "ref \<Rightarrow> (db, change_execution) action" where
  "get_execution = get_by_ref find_change_execution ''Change execution''"

definition list_executions :: "string option \<Rightarrow> db \<Rightarrow> change_execution list" where
  "list_executions status d = rev (by_time ce_created_at
     (filter (\<lambda>e. status = None \<or> status = Some (ce_status e)) (t_change_execution d)))"

text \<open>The attribute assignments of \<open>update_execution_status\<close>.\<close>

definition with_status ::
  "int \<Rightarrow> string \<Rightarrow> string option \<Rightarrow> string option \<Rightarrow> change_execution \<Rightarrow> change_execution" where
  "with_status now status actor error_summary e =
     (let e = e\<lparr>ce_status := status, ce_updated_at := Aware now\<rparr>;
          e = (if status = ''pending_approval'' then e\<lparr>ce_submitted_at := Some (Aware now)\<rparr> else e);
          e = (if status = ''approved'' then e\<lparr>ce_approved_at := Some (Aware now), ce_approved_by := actor\<rparr> else e);
          e = (if status = ''rejected'' then e\<lparr>ce_rejected_at := Some (Aware now), ce_rejected_by := actor\<rparr> else e);
          e = (if status = ''simulating'' then e\<lparr>ce_started_at := Some (Aware now)\<rparr> else e);
          e = (if status \<in> {''simulated'', ''completed'', ''failed''} then e\<lparr>ce_completed_at := Some (Aware now)\<rparr> else e);
          e = (if status = ''cancelled'' then e\<lparr>ce_cancelled_at := Some (Aware now)\<rparr> else e)
      in if error_summary = None then e else e\<lparr>ce_error_summary := error_summary\<rparr>)"

definition update_execution_status ::
  "int \<Rightarrow> ref \<Rightarrow> string \<Rightarrow> string option \<Rightarrow> string option \<Rightarrow> (db, change_execution) action" where
  "update_execution_status now r status actor error_summary =
     andThen (get_execution r) (\<lambda>e.
     andThen (change (upd_execution (ce_id e) (with_status now status actor error_summary))) (\<lambda>_.
       ret (with_status now status actor error_summary e)))"

definition update_execution_risk ::
  "int \<Rightarrow> ref \<Rightarrow> string \<Rightarrow> jobj option \<Rightarrow> (db, change_execution) action" where
  "update_execution_risk now r risk_level risk_summary =
     andThen (get_execution r) (\<lambda>e.
       let f = (\<lambda>e. e\<lparr>ce_risk_level := risk_level, ce_risk_summary := risk_summary, ce_updated_at := Aware now\<rparr>)
       in andThen (change (upd_execution (ce_id e) f)) (\<lambda>_. ret (f e)))"

section \<open>Steps\<close>

text \<open>A planned step as the plan service hands it over.\<close>

record step_plan =
  pl_order :: int
  pl_name :: string
  pl_step_type :: string
  pl_status :: string
  pl_depends_on :: "int list"
  pl_target_type :: "string option"
  pl_target_id :: "ref option"
  pl_device_id :: "ref option"
  pl_planned_action :: jobj
  pl_risk_level :: "string option"

definition create_step :: "int \<Rightarrow> uuid \<Rightarrow> step_plan \<Rightarrow> (db, change_step) action" where
  "create_step now execution_id p =
     andThen (query (\<lambda>_. optional_ref ''Change execution target'' (pl_target_id p))) (\<lambda>target.
     andThen (query (\<lambda>_. optional_ref ''Device'' (pl_device_id p))) (\<lambda>device.
     andThen fresh_id (\<lambda>i.
       let s = \<lparr>st_id = i, st_execution_id = execution_id, st_step_order = pl_order p,
          st_name = pl_name p, st_step_type = pl_step_type p,
          st_status = (if pl_status p = [] then ''pending'' else pl_status p),
          st_depends_on = Some (pl_depends_on p), st_target_type = pl_target_type p,
          st_target_id = target, st_device_id = device,
          st_planned_action = Some (pl_planned_action p), st_dry_run_output = None,
          st_risk_level = pl_risk_level p, st_started_at = None, st_completed_at = None,
          st_error_summary = None, st_created_at = Aware now, st_updated_at = Aware now\<rparr>
       in andThen (change (\<lambda>d. d\<lparr>t_change_step := t_change_step d @ [s]\<rparr>)) (\<lambda>_. ret s))))"

definition create_steps :: "int \<Rightarrow> ref \<Rightarrow> step_plan list \<Rightarrow> (db, change_step list) action" where
  "create_steps now r steps =
     andThen (query (\<lambda>_. coerce_ref ''Change execution'' r)) (\<lambda>i. for_each (create_step now i) steps)"

definition get_step :: "ref \<Rightarrow> (db, change_step) action" where
  "get_step = get_by_ref find_change_step ''Change execution step''"

text \<open>\<open>order_by(step_order, created_at)\<close>\<close>

definition steps_of :: "db \<Rightarrow> uuid \<Rightarrow> change_step list" where
  "steps_of d i = sort_key st_step_order
     (by_time st_created_at (filter (\<lambda>s. st_execution_id s = i) (t_change_step d)))"

definition get_steps :: "ref \<Rightarrow> (db, change_step list) action" where
  "get_steps r = query (\<lambda>d. case coerce_ref ''Change execution'' r of
     Inl e \<Rightarrow> Inl e | Inr i \<Rightarrow> Inr (steps_of d i))"

definition with_step_status :: "int \<Rightarrow> string \<Rightarrow> string option \<Rightarrow> change_step \<Rightarrow> change_step" where
  "with_step_status now status error_summary s =
     (let s = s\<lparr>st_status := status, st_updated_at := Aware now\<rparr>;
          s = (if status = ''running'' then s\<lparr>st_started_at := Some (Aware now)\<rparr> else s);
          s = (if status \<in> {''simulated'', ''blocked'', ''failed'', ''cancelled'', ''skipped''}
               then s\<lparr>st_completed_at := Some (Aware now)\<rparr> else s)
      in if error_summary = None then s else s\<lparr>st_error_summary := error_summary\<rparr>)"

definition update_step_status :: "int \<Rightarrow> ref \<Rightarrow> string \<Rightarrow> string option \<Rightarrow> (db, change_step) action" where
  "update_step_status now r status error_summary =
     andThen (get_step r) (\<lambda>s.
     andThen (change (upd_step (st_id s) (with_step_status now status error_summary))) (\<lambda>_.
       ret (with_step_status now status error_summary s)))"

definition with_output :: "int \<Rightarrow> jobj \<Rightarrow> string \<Rightarrow> change_step \<Rightarrow> change_step" where
  "with_output now dry_run_output status s =
     s\<lparr>st_dry_run_output := Some dry_run_output, st_status := status,
       st_completed_at := Some (Aware now), st_updated_at := Aware now\<rparr>"

definition update_step_output :: "int \<Rightarrow> ref \<Rightarrow> jobj \<Rightarrow> string \<Rightarrow> (db, change_step) action" where
  "update_step_output now r dry_run_output status =
     andThen (get_step r) (\<lambda>s.
     andThen (change (upd_step (st_id s) (with_output now dry_run_output status))) (\<lambda>_.
       ret (with_output now dry_run_output status s)))"

section \<open>Locks\<close>

record lock_plan =
  lp_lock_type :: string
  lp_target_type :: string
  lp_target_id :: "ref option"
  lp_device_id :: "ref option"
  lp_status :: string
  lp_reason :: "string option"

definition create_lock :: "int \<Rightarrow> uuid \<Rightarrow> lock_plan \<Rightarrow> (db, change_lock) action" where
  "create_lock now execution_id p =
     andThen (query (\<lambda>_. optional_ref ''Lock target'' (lp_target_id p))) (\<lambda>target.
     andThen (query (\<lambda>_. optional_ref ''Device'' (lp_device_id p))) (\<lambda>device.
     andThen fresh_id (\<lambda>i.
       let l = \<lparr>lk_id = i, lk_execution_id = execution_id, lk_lock_type = lp_lock_type p,
          lk_target_type = lp_target_type p, lk_target_id = target, lk_device_id = device,
          lk_status = (if lp_status p = [] then ''reserved'' else lp_status p),
          lk_reason = lp_reason p, lk_created_at = Aware now, lk_released_at = None\<rparr>
       in andThen (change (\<lambda>d. d\<lparr>t_change_lock := t_change_lock d @ [l]\<rparr>)) (\<lambda>_. ret l))))"

definition create_locks :: "int \<Rightarrow> ref \<Rightarrow> lock_plan list \<Rightarrow> (db, change_lock list) action" where
  "create_locks now r locks =
     andThen (query (\<lambda>_. coerce_ref ''Change execution'' r)) (\<lambda>i. for_each (create_lock now i) locks)"

definition locks_of :: "db \<Rightarrow> uuid \<Rightarrow> change_lock list" where
  "locks_of d i = by_time lk_created_at (filter (\<lambda>l. lk_execution_id l = i) (t_change_lock d))"

definition get_locks :: "ref \<Rightarrow> (db, change_lock list) action" where
  "get_locks r = query (\<lambda>d. case coerce_ref ''Change execution'' r of
     Inl e \<Rightarrow> Inl e | Inr i \<Rightarrow> Inr (locks_of d i))"

text \<open>The condition of the statement \<open>find_reserved_lock\<close> builds; \<open>None\<close> adds no condition.\<close>

definition conflicting :: "string \<Rightarrow> string \<Rightarrow> uuid \<Rightarrow> uuid option \<Rightarrow> uuid option \<Rightarrow> change_lock \<Rightarrow> bool" where
  "conflicting lock_type target_type execution_id target device l \<longleftrightarrow>
     lk_lock_type l = lock_type \<and> lk_target_type l = target_type \<and> lk_status l = ''reserved'' \<and>
     lk_execution_id l \<noteq> execution_id \<and>
     (target = None \<or> lk_target_id l = target) \<and> (device = None \<or> lk_device_id l = device)"

definition find_reserved_lock ::
  "db \<Rightarrow> string \<Rightarrow> string \<Rightarrow> uuid \<Rightarrow> uuid option \<Rightarrow> uuid option \<Rightarrow> change_lock option" where
  "find_reserved_lock d lock_type target_type execution_id target device =
     (case rev (by_time lk_created_at
             (filter (conflicting lock_type target_type execution_id target device) (t_change_lock d))) of
        [] \<Rightarrow> None | l # _ \<Rightarrow> Some l)"

definition release_row :: "int \<Rightarrow> change_lock \<Rightarrow> change_lock" where
  "release_row now l =
     (if lk_status l = ''reserved'' then l\<lparr>lk_status := ''released'', lk_released_at := Some (Aware now)\<rparr> else l)"

definition release_locks_row :: "int \<Rightarrow> ref \<Rightarrow> (db, change_lock list) action" where
  "release_locks_row now r =
     andThen (get_locks r) (\<lambda>locks.
     andThen (for_each (\<lambda>l. change (upd_lock (lk_id l) (release_row now))) locks) (\<lambda>_.
       ret (map (release_row now) locks)))"

section \<open>Approvals\<close>

definition create_approval :: "int \<Rightarrow> ref \<Rightarrow> string option \<Rightarrow> (db, change_approval) action" where
  "create_approval now r requested_by =
     andThen (query (\<lambda>_. coerce_ref ''Change execution'' r)) (\<lambda>i.
     andThen fresh_id (\<lambda>n.
       let a = \<lparr>ap_id = n, ap_execution_id = i, ap_status = ''pending'', ap_requested_by = requested_by,
          ap_approved_by = None, ap_rejected_by = None, ap_comment = None,
          ap_created_at = Aware now, ap_decided_at = None\<rparr>
       in andThen (change (\<lambda>d. d\<lparr>t_change_approval := t_change_approval d @ [a]\<rparr>)) (\<lambda>_. ret a)))"

definition latest_approval :: "db \<Rightarrow> uuid \<Rightarrow> change_approval option" where
  "latest_approval d i =
     (case rev (by_time ap_created_at (filter (\<lambda>a. ap_execution_id a = i) (t_change_approval d))) of
        [] \<Rightarrow> None | a # _ \<Rightarrow> Some a)"

definition latest_or_new_approval :: "int \<Rightarrow> ref \<Rightarrow> (db, change_approval) action" where
  "latest_or_new_approval now r =
     andThen (query (\<lambda>_. coerce_ref ''Change execution'' r)) (\<lambda>i.
     andThen (asks (\<lambda>d. latest_approval d i)) (\<lambda>found.
       case found of Some a \<Rightarrow> ret a | None \<Rightarrow> create_approval now r None))"

definition approve_row :: "int \<Rightarrow> string \<Rightarrow> string option \<Rightarrow> change_approval \<Rightarrow> change_approval" where
  "approve_row now actor comment' a =
     a\<lparr>ap_status := ''approved'', ap_approved_by := Some actor, ap_comment := comment',
       ap_decided_at := Some (Aware now)\<rparr>"

definition reject_row :: "int \<Rightarrow> string \<Rightarrow> string option \<Rightarrow> change_approval \<Rightarrow> change_approval" where
  "reject_row now actor comment' a =
     a\<lparr>ap_status := ''rejected'', ap_rejected_by := Some actor, ap_comment := comment',
       ap_decided_at := Some (Aware now)\<rparr>"

definition approve_execution_row :: "int \<Rightarrow> ref \<Rightarrow> string \<Rightarrow> string option \<Rightarrow> (db, change_approval) action" where
  "approve_execution_row now r actor comment' =
     andThen (latest_or_new_approval now r) (\<lambda>a.
     andThen (change (upd_approval (ap_id a) (approve_row now actor comment'))) (\<lambda>_.
     andThen (update_execution_status now r ''approved'' (Some actor) None) (\<lambda>_.
       ret (approve_row now actor comment' a))))"

definition reject_execution_row :: "int \<Rightarrow> ref \<Rightarrow> string \<Rightarrow> string option \<Rightarrow> (db, change_approval) action" where
  "reject_execution_row now r actor comment' =
     andThen (latest_or_new_approval now r) (\<lambda>a.
     andThen (change (upd_approval (ap_id a) (reject_row now actor comment'))) (\<lambda>_.
     andThen (update_execution_status now r ''rejected'' (Some actor) None) (\<lambda>_.
       ret (reject_row now actor comment' a))))"

section \<open>Audit events\<close>

definition add_audit_event ::
  "int \<Rightarrow> ref \<Rightarrow> string \<Rightarrow> string \<Rightarrow> string option \<Rightarrow> ref option \<Rightarrow> ref option \<Rightarrow> jobj option \<Rightarrow>
   (db, change_event) action" where
  "add_audit_event now r event_type message actor step_id device_id metadata =
     andThen (query (\<lambda>_. coerce_ref ''Change execution'' r)) (\<lambda>i.
     andThen (query (\<lambda>_. optional_ref ''Change execution step'' step_id)) (\<lambda>step.
     andThen (query (\<lambda>_. optional_ref ''Device'' device_id)) (\<lambda>device.
     andThen fresh_id (\<lambda>n.
       let v = \<lparr>ev_id = n, ev_execution_id = i, ev_step_id = step, ev_device_id = device,
          ev_event_type = event_type, ev_actor = actor, ev_message = message,
          ev_metadata = metadata, ev_created_at = Aware now\<rparr>
       in andThen (change (\<lambda>d. d\<lparr>t_change_event := t_change_event d @ [v]\<rparr>)) (\<lambda>_. ret v)))))"

definition list_audit_events :: "ref \<Rightarrow> (db, change_event list) action" where
  "list_audit_events r = query (\<lambda>d. case coerce_ref ''Change execution'' r of
     Inl e \<Rightarrow> Inl e
   | Inr i \<Rightarrow> Inr (by_time ev_created_at (filter (\<lambda>v. ev_execution_id v = i) (t_change_event d))))"

end
