(* ===== verification/ChangeValidation.thy ===== *)
theory ChangeValidation
  imports ChangeRepository LabValidations
begin

text \<open>
  app/services/change_execution_validation_service.py: the checks behind every transition of a
  change execution.  They read the database only.  A check is given the execution's row, which
  the code fetches anew by its id in each of them.
\<close>

section \<open>Lookups of other repositories\<close>

text \<open>\<open>VlanWorkflowRepository.get_request\<close>, \<open>JobRepository.get\<close>, \<open>ConfigBackupRepository.get_job\<close>,
  \<open>DeviceInventoryRepository.get\<close>: the identifier is parsed already.\<close>

definition require_row :: "(db \<Rightarrow> uuid \<Rightarrow> 'r option) \<Rightarrow> string \<Rightarrow> db \<Rightarrow> uuid \<Rightarrow> error + 'r" where
  "require_row look object_name d i =
     (case look d i of
        None \<Rightarrow> Inl (NotFoundError (object_name @ '' '' @ uuid_str i @ '' not found''))
      | Some row \<Rightarrow> Inr row)"

definition get_vlan_request :: "db \<Rightarrow> uuid \<Rightarrow> error + vlan_request" where
  "get_vlan_request = require_row find_vlan_request ''VLAN change request''"

definition get_job :: "db \<Rightarrow> uuid \<Rightarrow> error + job" where
  "get_job = require_row find_job ''Job''"

definition get_backup_job :: "db \<Rightarrow> uuid \<Rightarrow> error + backup_job" where
  "get_backup_job = require_row find_backup_job ''Config backup job''"

definition get_device :: "db \<Rightarrow> uuid \<Rightarrow> error + device" where
  "get_device = require_row find_device ''Device''"

definition request_devices :: "db \<Rightarrow> uuid \<Rightarrow> vlan_device list" where
  "request_devices d i = by_time vd_created_at (filter (\<lambda>r. vd_request_id r = i) (t_vlan_device d))"

definition tasks_by_job :: "db \<Rightarrow> uuid \<Rightarrow> job_task list" where
  "tasks_by_job d i = filter (\<lambda>t. jt_job_id t = i) (t_job_task d)"

definition job_items :: "db \<Rightarrow> uuid \<Rightarrow> backup_item list" where
  "job_items d i = by_time bi_created_at (filter (\<lambda>t. bi_job_id t = i) (t_backup_item d))"

text \<open>Ordered by collection time, creation time and identifier, all descending.\<close>

definition snapshots_for_device :: "db \<Rightarrow> uuid \<Rightarrow> snapshot list" where
  "snapshots_for_device d i = rev (sort_key (\<lambda>s. instant (sn_collected_at s))
     (by_time sn_created_at (sort_key sn_id (filter (\<lambda>s. sn_device_id s = i) (t_snapshot d)))))"

definition latest_snapshot :: "db \<Rightarrow> uuid \<Rightarrow> snapshot option" where
  "latest_snapshot d i = (case snapshots_for_device d i of [] \<Rightarrow> None | s # _ \<Rightarrow> Some s)"

fun traverse :: "('a \<Rightarrow> error + 'b) \<Rightarrow> 'a list \<Rightarrow> error + 'b list" where
  "traverse f [] = Inr []"
| "traverse f (x # xs) =
     (case f x of
        Inl e \<Rightarrow> Inl e
      | Inr y \<Rightarrow> (case traverse f xs of Inl e \<Rightarrow> Inl e | Inr ys \<Rightarrow> Inr (y # ys)))"

section \<open>The source of an execution\<close>

datatype source =
    PlainSource
  | VlanSource vlan_request
  | JobSource job
  | BackupSource backup_job

definition source_object :: "db \<Rightarrow> change_execution \<Rightarrow> error + source" where
  "source_object d e =
     (if ce_source_type e \<in> {''manual'', ''composite''} then Inr PlainSource
      else case ce_source_id e of
             None \<Rightarrow> Inl (NotFoundError ''Change execution source_id is required'')
           | Some i \<Rightarrow>
               if ce_source_type e = ''vlan_workflow''
               then (case get_vlan_request d i of Inl x \<Rightarrow> Inl x | Inr r \<Rightarrow> Inr (VlanSource r))
               else if ce_source_type e = ''password_rollout''
               then (case get_job d i of Inl x \<Rightarrow> Inl x | Inr r \<Rightarrow> Inr (JobSource r))
               else if ce_source_type e = ''config_backup_job''
               then (case get_backup_job d i of Inl x \<Rightarrow> Inl x | Inr r \<Rightarrow> Inr (BackupSource r))
               else Inl (NotFoundError (''Unsupported change execution source_type '' @ ce_source_type e)))"

text \<open>Every failure of \<open>source_object\<close> is a \<open>NotFoundError\<close>, which all callers catch.\<close>

definition target_devices :: "db \<Rightarrow> change_execution \<Rightarrow> error + device list" where
  "target_devices d e =
     (case source_object d e of
        Inl _ \<Rightarrow> Inr []
      | Inr PlainSource \<Rightarrow> Inr []
      | Inr (VlanSource r) \<Rightarrow> traverse (\<lambda>row. get_device d (vd_device_id row)) (request_devices d (vr_id r))
      | Inr (JobSource j) \<Rightarrow> traverse (\<lambda>t. get_device d (jt_device_id t)) (tasks_by_job d (jb_id j))
      | Inr (BackupSource j) \<Rightarrow> traverse (\<lambda>t. get_device d (bi_device_id t)) (job_items d (bj_id j)))"

definition source_summary :: "db \<Rightarrow> change_execution \<Rightarrow> jobj" where
  "source_summary d e =
     (case source_object d e of
        Inl x \<Rightarrow> [(''source_type'', JStr (ce_source_type e)), (''exists'', JBool False), (''error'', JStr (err_str x))]
      | Inr (VlanSource r) \<Rightarrow>
          [(''source_type'', JStr (ce_source_type e)), (''exists'', JBool True), (''status'', JStr (vr_status r)),
           (''operation'', JStr (vr_operation r)), (''vlan_id'', JInt (vr_vlan_id r))]
      | Inr (JobSource j) \<Rightarrow>
          [(''source_type'', JStr (ce_source_type e)), (''exists'', JBool True), (''status'', JStr (jb_status j)),
           (''approval_status'', JStr (jb_approval_status j)), (''job_type'', JStr (jb_job_type j))]
      | Inr (BackupSource j) \<Rightarrow>
          [(''source_type'', JStr (ce_source_type e)), (''exists'', JBool True), (''status'', JStr (bj_status j))]
      | Inr PlainSource \<Rightarrow>
          [(''source_type'', JStr (ce_source_type e)), (''exists'', JBool True), (''status'', JStr ''unknown'')])"

section \<open>The checks\<close>

definition validate_mode :: "change_execution \<Rightarrow> string list" where
  "validate_mode e =
     (if ce_mode e \<noteq> ''simulation''
      then [''Unsupported change execution mode '' @ ce_mode e @ ''; only simulation is allowed''] else [])"

definition validate_source_exists :: "db \<Rightarrow> change_execution \<Rightarrow> string list" where
  "validate_source_exists d e = (case source_object d e of Inl x \<Rightarrow> [err_str x] | Inr _ \<Rightarrow> [])"

definition validate_source_ready :: "db \<Rightarrow> change_execution \<Rightarrow> string list" where
  "validate_source_ready d e =
     (case source_object d e of
        Inl x \<Rightarrow> [err_str x]
      | Inr PlainSource \<Rightarrow> []
      | Inr (VlanSource r) \<Rightarrow>
          if vr_status r \<in> {''blocked'', ''rejected'', ''cancelled'', ''failed'', ''expired''}
          then [''VLAN workflow source is not executable in status '' @ vr_status r]
          else if vr_status r \<notin> {''ready'', ''approved''}
          then [''VLAN workflow source must be ready or approved, got '' @ vr_status r] else []
      | Inr (JobSource j) \<Rightarrow>
          (if jb_job_type j \<noteq> ''password_change''
           then [''Password rollout source must reference password_change job, got '' @ jb_job_type j] else [])
          @ (if jb_status j \<in> {''cancelled'', ''failed'', ''rejected''}
             then [''Password rollout source is blocked in status '' @ jb_status j] else [])
          @ (if jb_approval_status j \<noteq> ''approved'' \<and> jb_status j \<notin> {''approved'', ''succeeded''}
             then [''Password rollout source must be approved before orchestration simulation''] else [])
      | Inr (BackupSource j) \<Rightarrow>
          if bj_status j \<in> {''cancelled'', ''failed''}
          then [''Config backup source is blocked in status '' @ bj_status j] else [])"

text \<open>The freshness bound of the service's constructor: 24 hours.\<close>

definition freshness :: int where "freshness = 24 * hour"

definition backup_error :: "int \<Rightarrow> db \<Rightarrow> device \<Rightarrow> string list" where
  "backup_error now d dev =
     (case latest_snapshot d (dev_id dev) of
        None \<Rightarrow> [''Device '' @ uuid_str (dev_id dev) @ '' has no config snapshot'']
      | Some s \<Rightarrow>
          if instant (comparable_datetime (sn_collected_at s)) < now - freshness
          then [''Device '' @ uuid_str (dev_id dev) @ '' latest config snapshot is stale''] else [])"

definition validate_fresh_backups :: "int \<Rightarrow> db \<Rightarrow> change_execution \<Rightarrow> error + string list" where
  "validate_fresh_backups now d e =
     (if \<not> ce_requires_fresh_backup e then Inr []
      else case target_devices d e of
             Inl x \<Rightarrow> Inl x
           | Inr devs \<Rightarrow> Inr (concat (map (backup_error now d) devs)))"

definition required_capabilities :: "db \<Rightarrow> change_execution \<Rightarrow> string list" where
  "required_capabilities d e =
     (if ce_change_type e = ''password_change'' then [''password_change'']
      else if ce_change_type e = ''vlan_change'' then
        (case ce_source_id e of
           Some i \<Rightarrow>
             if ce_source_type e = ''vlan_workflow''
             then (case get_vlan_request d i of
                     Inr r \<Rightarrow> [vr_operation r, ''vlan_management'', ''vlan_change'']
                   | Inl _ \<Rightarrow> [''vlan_management'', ''vlan_change''])
             else [''vlan_management'', ''vlan_change'']
         | None \<Rightarrow> [''vlan_management'', ''vlan_change''])
      else if ce_change_type e = ''config_backup'' then [''config_backup'', ''backup_collection'']
      else [''change_execution''])"

definition lab_validated :: "int \<Rightarrow> db \<Rightarrow> string list \<Rightarrow> device \<Rightarrow> bool" where
  "lab_validated now d capabilities dev \<longleftrightarrow>
     list_ex (\<lambda>c. find_approved now (dev_vendor dev) (dev_model dev) (dev_driver_name dev) c d \<noteq> None) capabilities"

definition validate_lab_validations :: "int \<Rightarrow> db \<Rightarrow> change_execution \<Rightarrow> error + string list" where
  "validate_lab_validations now d e =
     (if \<not> ce_requires_lab_validation e then Inr []
      else case target_devices d e of
             Inl x \<Rightarrow> Inl x
           | Inr devs \<Rightarrow>
               Inr (concat (map (\<lambda>dev.
                 if lab_validated now d (required_capabilities d e) dev then []
                 else [''Device '' @ uuid_str (dev_id dev) @ '' has no approved lab validation for ''
                       @ str_join '', '' (required_capabilities d e)]) devs)))"

definition validate_approval_requirements :: "change_execution \<Rightarrow> string list" where
  "validate_approval_requirements e =
     (if \<not> ce_requires_approval e then []
      else if ce_status e \<in> {''approved'', ''ready'', ''simulating'', ''simulated''} then []
      else [''Execution requires approval before ready/simulation''])"

definition device_conflict :: "db \<Rightarrow> change_execution \<Rightarrow> device \<Rightarrow> bool" where
  "device_conflict d e dev \<longleftrightarrow>
     find_reserved_lock d ''device'' ''device'' (ce_id e) (Some (dev_id dev)) (Some (dev_id dev)) \<noteq> None"

definition source_conflict :: "db \<Rightarrow> change_execution \<Rightarrow> uuid \<Rightarrow> bool" where
  "source_conflict d e src \<longleftrightarrow>
     find_reserved_lock d ''workflow'' (ce_source_type e) (ce_id e) (Some src) None \<noteq> None"

definition validate_locks :: "db \<Rightarrow> change_execution \<Rightarrow> error + string list" where
  "validate_locks d e =
     (case target_devices d e of
        Inl x \<Rightarrow> Inl x
      | Inr devs \<Rightarrow>
          Inr (concat (map (\<lambda>dev. if device_conflict d e dev
                 then [''Device '' @ uuid_str (dev_id dev) @ '' already has reserved orchestration lock''] else []) devs)
               @ (case ce_source_id e of
                    None \<Rightarrow> []
                  | Some i \<Rightarrow> if source_conflict d e i
                      then [''Source workflow '' @ uuid_str i @ '' already has reserved orchestration lock''] else [])))"

definition has_required_locks :: "db \<Rightarrow> change_execution \<Rightarrow> device list \<Rightarrow> bool" where
  "has_required_locks d e devs \<longleftrightarrow>
     (let locks = locks_of d (ce_id e);
          reserved = map lk_device_id (filter (\<lambda>l. lk_status l = ''reserved'' \<and> lk_lock_type l = ''device'') locks)
      in list_all (\<lambda>dev. Some (dev_id dev) \<in> set reserved) devs \<and>
         (ce_source_id e = None \<or>
          list_ex (\<lambda>l. lk_status l = ''reserved'' \<and> lk_lock_type l = ''workflow'' \<and>
                      lk_target_id l = ce_source_id e) locks))"

section \<open>The report\<close>

record validation_report =
  rp_execution :: change_execution
  rp_target_device_ids :: "uuid list"
  rp_errors :: "string list"
  rp_warnings :: "string list"
  rp_source_summary :: jobj
  rp_backup_required :: bool
  rp_lab_validation_required :: bool
  rp_approval_required :: bool
  rp_can_submit :: bool
  rp_can_mark_ready :: bool

text \<open>The checks in the order of the code; the first that raises ends the report.\<close>

definition all_errors :: "int \<Rightarrow> db \<Rightarrow> change_execution \<Rightarrow> error + string list" where
  "all_errors now d e =
     (case validate_fresh_backups now d e of
        Inl x \<Rightarrow> Inl x
      | Inr backups \<Rightarrow>
          (case validate_lab_validations now d e of
             Inl x \<Rightarrow> Inl x
           | Inr labs \<Rightarrow>
               (case validate_locks d e of
                  Inl x \<Rightarrow> Inl x
                | Inr locks \<Rightarrow>
                    Inr (validate_mode e @ validate_source_exists d e @ validate_source_ready d e
                         @ backups @ labs @ locks))))"

definition build_report :: "int \<Rightarrow> db \<Rightarrow> change_execution \<Rightarrow> error + validation_report" where
  "build_report now d e =
     (case target_devices d e of
        Inl x \<Rightarrow> Inl x
      | Inr devs \<Rightarrow>
          (case all_errors now d e of
             Inl x \<Rightarrow> Inl x
           | Inr errors \<Rightarrow>
               Inr \<lparr>rp_execution = e,
                    rp_target_device_ids = map dev_id devs,
                    rp_errors = sorted_set errors,
                    rp_warnings = (if devs = []
                      then [''Execution has no target devices; simulation will only validate source metadata''] else []),
                    rp_source_summary = source_summary d e,
                    rp_backup_required = ce_requires_fresh_backup e,
                    rp_lab_validation_required = ce_requires_lab_validation e,
                    rp_approval_required = ce_requires_approval e,
                    rp_can_submit = (errors = [] \<and> ce_status e \<in> {''draft'', ''validated'', ''blocked''}),
                    rp_can_mark_ready = (errors = [] \<and> steps_of d (ce_id e) \<noteq> [] \<and>
                      has_required_locks d e devs \<and>
                      (\<not> ce_requires_approval e \<or> ce_status e = ''approved''))\<rparr>))"

definition build_validation_report :: "int \<Rightarrow> ref \<Rightarrow> (db, validation_report) action" where
  "build_validation_report now r =
     andThen (get_execution r) (\<lambda>e. query (\<lambda>d. build_report now d e))"

text \<open>\<open>validate_execution\<close>: the outcome is recorded and the report built again.\<close>

definition validate_execution :: "int \<Rightarrow> ref \<Rightarrow> string option \<Rightarrow> (db, validation_report) action" where
  "validate_execution now r actor =
     andThen (build_validation_report now r) (\<lambda>report.
     andThen (if rp_errors report \<noteq> []
        then andThen (update_execution_status now r ''blocked'' None (Some (str_join ''; '' (take 5 (rp_errors report))))) (\<lambda>_.
             andThen (add_audit_event now r ''blocked'' ''Change execution blocked by validation'' actor None None
                        (Some [(''errors'', JList (map JStr (rp_errors report)))])) (\<lambda>_. ret ()))
        else andThen (update_execution_status now r ''validated'' None None) (\<lambda>_.
             andThen (add_audit_event now r ''validated'' ''Change execution validated'' actor None None None) (\<lambda>_. ret ()))) (\<lambda>_.
       build_validation_report now r))"

section \<open>Rows as responses\<close>

definition read_execution :: "change_execution \<Rightarrow> jobj" where
  "read_execution e = [
     (''id'', JStr (uuid_str (ce_id e))), (''title'', JStr (ce_title e)),
     (''description'', str_opt (ce_description e)), (''status'', JStr (ce_status e)),
     (''mode'', JStr (ce_mode e)), (''requested_by'', str_opt (ce_requested_by e)),
     (''change_type'', JStr (ce_change_type e)), (''source_type'', JStr (ce_source_type e)),
     (''source_id'', uuid_opt (ce_source_id e)), (''risk_level'', JStr (ce_risk_level e)),
     (''risk_summary'', obj_opt (ce_risk_summary e)),
     (''requires_approval'', JBool (ce_requires_approval e)),
     (''requires_lab_validation'', JBool (ce_requires_lab_validation e)),
     (''requires_fresh_backup'', JBool (ce_requires_fresh_backup e)),
     (''created_at'', JStr (isoformat (ce_created_at e))), (''updated_at'', JStr (isoformat (ce_updated_at e))),
     (''submitted_at'', iso_opt (ce_submitted_at e)), (''approved_at'', iso_opt (ce_approved_at e)),
     (''approved_by'', str_opt (ce_approved_by e)), (''rejected_at'', iso_opt (ce_rejected_at e)),
     (''rejected_by'', str_opt (ce_rejected_by e)), (''started_at'', iso_opt (ce_started_at e)),
     (''completed_at'', iso_opt (ce_completed_at e)), (''cancelled_at'', iso_opt (ce_cancelled_at e)),
     (''error_summary'', str_opt (ce_error_summary e))]"

definition read_step :: "change_step \<Rightarrow> jobj" where
  "read_step s = [
     (''id'', JStr (uuid_str (st_id s))), (''execution_id'', JStr (uuid_str (st_execution_id s))),
     (''step_order'', JInt (st_step_order s)), (''name'', JStr (st_name s)),
     (''step_type'', JStr (st_step_type s)), (''status'', JStr (st_status s)),
     (''depends_on'', JList (case st_depends_on s of None \<Rightarrow> [] | Some ds \<Rightarrow> map JInt ds)),
     (''target_type'', str_opt (st_target_type s)), (''target_id'', uuid_opt (st_target_id s)),
     (''device_id'', uuid_opt (st_device_id s)),
     (''planned_action'', JObj (case st_planned_action s of None \<Rightarrow> [] | Some d \<Rightarrow> d)),
     (''dry_run_output'', JObj (case st_dry_run_output s of None \<Rightarrow> [] | Some d \<Rightarrow> d)),
     (''risk_level'', str_opt (st_risk_level s)), (''started_at'', iso_opt (st_started_at s)),
     (''completed_at'', iso_opt (st_completed_at s)), (''error_summary'', str_opt (st_error_summary s)),
     (''created_at'', JStr (isoformat (st_created_at s))), (''updated_at'', JStr (isoformat (st_updated_at s)))]"

definition read_lock :: "change_lock \<Rightarrow> jobj" where
  "read_lock l = [
     (''id'', JStr (uuid_str (lk_id l))), (''execution_id'', JStr (uuid_str (lk_execution_id l))),
     (''lock_type'', JStr (lk_lock_type l)), (''target_type'', JStr (lk_target_type l)),
     (''target_id'', uuid_opt (lk_target_id l)), (''device_id'', uuid_opt (lk_device_id l)),
     (''status'', JStr (lk_status l)), (''reason'', str_opt (lk_reason l)),
     (''created_at'', JStr (isoformat (lk_created_at l))), (''released_at'', iso_opt (lk_released_at l))]"

definition read_audit_event :: "change_event \<Rightarrow> jobj" where
  "read_audit_event v = [
     (''id'', JStr (uuid_str (ev_id v))), (''execution_id'', JStr (uuid_str (ev_execution_id v))),
     (''step_id'', uuid_opt (ev_step_id v)), (''device_id'', uuid_opt (ev_device_id v)),
     (''event_type'', JStr (ev_event_type v)), (''actor'', str_opt (ev_actor v)),
     (''message'', JStr (ev_message v)),
     (''metadata'', JObj (case ev_metadata v of None \<Rightarrow> [] | Some d \<Rightarrow> d)),
     (''created_at'', JStr (isoformat (ev_created_at v)))]"

end
