(* ===== verification/ChangePlan.thy ===== *)
theory ChangePlan
  imports ChangeValidation
begin

text \<open>
  app/services/change_execution_plan_service.py: the graph of simulation steps built from the
  source of an execution, and the summaries of it.  A plan is the list of steps with their
  order numbers and the orders they depend on.
\<close>

section \<open>Steps\<close>

text \<open>\<open>_step\<close> with its defaults; \<open>bare_step\<close> is a call with an order, a name, a type and dependencies.\<close>

definition bare_step :: "int \<Rightarrow> string \<Rightarrow> string \<Rightarrow> int list \<Rightarrow> step_plan" where
  "bare_step order name step_type depends_on =
     \<lparr>pl_order = order, pl_name = name, pl_step_type = step_type, pl_status = ''pending'',
      pl_depends_on = depends_on, pl_target_type = None, pl_target_id = None, pl_device_id = None,
      pl_planned_action = [], pl_risk_level = None\<rparr>"

definition base_steps :: "bool \<Rightarrow> step_plan list" where
  "base_steps include_rollback =
     [bare_step 1 ''Validate source workflow'' ''validate_source'' [],
      bare_step 2 ''Check fresh backup dependency'' ''check_backup'' [1],
      bare_step 3 ''Check lab validation dependency'' ''check_lab_validation'' [2],
      bare_step 4 ''Check orchestration locks'' ''check_locks'' [3],
      bare_step 5 ''Build source dry-run plan'' ''build_plan'' [4]]
     @ (if include_rollback
        then [bare_step 6 ''Build rollback summary'' ''build_rollback'' [5],
              bare_step 7 ''Approval gate'' ''approval_gate'' [6]]
        else [bare_step 6 ''Approval gate'' ''approval_gate'' [5]])"

definition finalize_step :: "int \<Rightarrow> int list \<Rightarrow> step_plan" where
  "finalize_step order depends_on = bare_step order ''Finalize simulation'' ''finalize'' depends_on"

text \<open>A loop over rows that numbers its steps upwards.\<close>

fun numbered :: "int \<Rightarrow> (int \<Rightarrow> 'r \<Rightarrow> step_plan) \<Rightarrow> 'r list \<Rightarrow> step_plan list" where
  "numbered order f [] = []"
| "numbered order f (r # rs) = f order r # numbered (order + 1) f rs"

text \<open>The rows' steps and the final step, which depends on all of them.\<close>

definition fan_out :: "int \<Rightarrow> (int \<Rightarrow> 'r \<Rightarrow> step_plan) \<Rightarrow> 'r list \<Rightarrow> step_plan list" where
  "fan_out first f rows =
     (let last' = first + int (length rows)
      in numbered first f rows @ [finalize_step last' [first..last' - 1]])"

section \<open>Plans by source\<close>

definition json_strings :: "(string list) option \<Rightarrow> json" where
  "json_strings v = JList (case v of None \<Rightarrow> [] | Some xs \<Rightarrow> map JStr xs)"

definition vlan_step :: "vlan_request \<Rightarrow> int \<Rightarrow> vlan_device \<Rightarrow> step_plan" where
  "vlan_step r order row =
     \<lparr>pl_order = order, pl_name = ''Simulate VLAN change on device '' @ uuid_str (vd_device_id row),
      pl_step_type = ''simulate_vlan_change'', pl_status = ''pending'', pl_depends_on = [7],
      pl_target_type = Some ''vlan_workflow_device'', pl_target_id = Some (RefId (vd_id row)),
      pl_device_id = Some (RefId (vd_device_id row)),
      pl_planned_action = [(''operation'', JStr (vr_operation r)), (''vlan_id'', JInt (vr_vlan_id r)),
        (''vlan_name'', str_opt (vr_vlan_name r)),
        (''planned_commands'', json_strings (vd_planned_commands row)),
        (''rollback_commands'', json_strings (vd_rollback_commands row))],
      pl_risk_level = Some (vr_risk_level r)\<rparr>"

definition build_vlan_steps :: "db \<Rightarrow> change_execution \<Rightarrow> error + step_plan list" where
  "build_vlan_steps d e =
     (case ce_source_id e of
        None \<Rightarrow> Inr (base_steps True)
      | Some i \<Rightarrow>
          (case get_vlan_request d i of
             Inl x \<Rightarrow> Inl x
           | Inr r \<Rightarrow> Inr (base_steps True @ fan_out 8 (vlan_step r) (request_devices d (vr_id r)))))"

definition password_step :: "job \<Rightarrow> int \<Rightarrow> job_task \<Rightarrow> step_plan" where
  "password_step j order t =
     \<lparr>pl_order = order, pl_name = ''Simulate password change on device '' @ uuid_str (jt_device_id t),
      pl_step_type = ''simulate_password_change'', pl_status = ''pending'', pl_depends_on = [6],
      pl_target_type = Some ''job_task'', pl_target_id = Some (RefId (jt_id t)),
      pl_device_id = Some (RefId (jt_device_id t)),
      pl_planned_action = [(''job_id'', JStr (uuid_str (jb_id j))),
        (''username'', jget (jb_input_payload j) ''username''),
        (''commands'', JList (map JStr (jt_commands t))),
        (''device'', JObj [(''driver'', jget (jt_dry_run_device t) ''driver''),
                         (''ip_address'', jget (jt_dry_run_device t) ''ip_address'')])],
      pl_risk_level = Some ''high''\<rparr>"

definition build_password_steps :: "db \<Rightarrow> change_execution \<Rightarrow> error + step_plan list" where
  "build_password_steps d e =
     (case ce_source_id e of
        None \<Rightarrow> Inr (base_steps False)
      | Some i \<Rightarrow>
          (case get_job d i of
             Inl x \<Rightarrow> Inl x
           | Inr j \<Rightarrow> Inr (base_steps False @ fan_out 7 (password_step j) (tasks_by_job d (jb_id j)))))"

definition backup_step :: "backup_job \<Rightarrow> int \<Rightarrow> backup_item \<Rightarrow> step_plan" where
  "backup_step j order t =
     \<lparr>pl_order = order,
      pl_name = ''Simulate config backup dependency for device '' @ uuid_str (bi_device_id t),
      pl_step_type = ''simulate_config_backup'', pl_status = ''pending'', pl_depends_on = [6],
      pl_target_type = Some ''config_backup_job_item'', pl_target_id = Some (RefId (bi_id t)),
      pl_device_id = Some (RefId (bi_device_id t)),
      pl_planned_action = [(''job_id'', JStr (uuid_str (bj_id j))), (''status'', JStr (bi_status t)),
        (''collection'', JStr ''not_started_by_orchestrator'')],
      pl_risk_level = Some ''low''\<rparr>"

definition build_config_backup_steps :: "db \<Rightarrow> change_execution \<Rightarrow> error + step_plan list" where
  "build_config_backup_steps d e =
     (case ce_source_id e of
        None \<Rightarrow> Inr (base_steps False)
      | Some i \<Rightarrow>
          (case get_backup_job d i of
             Inl x \<Rightarrow> Inl x
           | Inr j \<Rightarrow> Inr (base_steps False @ fan_out 7 (backup_step j) (job_items d (bj_id j)))))"

definition build_composite_steps :: "change_execution \<Rightarrow> step_plan list" where
  "build_composite_steps e =
     base_steps False
     @ [(bare_step 7 ''Simulate composite change placeholder'' ''simulate_device_change'' [6])
          \<lparr>pl_planned_action := [(''source_type'', JStr (ce_source_type e)), (''simulation_only'', JBool True)]\<rparr>,
        finalize_step 8 [7]]"

definition build_steps_for_source :: "db \<Rightarrow> change_execution \<Rightarrow> error + step_plan list" where
  "build_steps_for_source d e =
     (if ce_source_type e = ''vlan_workflow'' then build_vlan_steps d e
      else if ce_source_type e = ''password_rollout'' then build_password_steps d e
      else if ce_source_type e = ''config_backup_job'' then build_config_backup_steps d e
      else if ce_source_type e = ''composite'' then Inr (build_composite_steps e)
      else Inr (base_steps False @ [finalize_step 8 [7]]))"

definition build_execution_plan :: "int \<Rightarrow> ref \<Rightarrow> string option \<Rightarrow> (db, jobj list) action" where
  "build_execution_plan now r actor =
     andThen (get_execution r) (\<lambda>e.
     andThen (asks (\<lambda>d. steps_of d (ce_id e))) (\<lambda>present.
       if present \<noteq> [] then ret (map read_step present)
       else
         andThen (query (\<lambda>d. build_steps_for_source d e)) (\<lambda>steps.
         andThen (create_steps now (RefId (ce_id e)) steps) (\<lambda>_.
         andThen (add_audit_event now (RefId (ce_id e)) ''step_planned'' ''Simulation step graph planned'' actor
                    None None (Some [(''step_count'', JInt (int (length steps))), (''simulation_only'', JBool True)])) (\<lambda>_.
           asks (\<lambda>d. map read_step (steps_of d (ce_id e))))))))"

section \<open>Summaries\<close>

definition build_dependency_graph :: "ref \<Rightarrow> (db, jobj) action" where
  "build_dependency_graph r =
     andThen (get_steps r) (\<lambda>steps.
       ret [(''execution_id'', JStr (ref_str r)),
            (''nodes'', JList (map (\<lambda>s. JObj [(''order'', JInt (st_step_order s)), (''name'', JStr (st_name s)),
               (''step_type'', JStr (st_step_type s)),
               (''depends_on'', JList (case st_depends_on s of None \<Rightarrow> [] | Some ds \<Rightarrow> map JInt ds))]) steps))])"

definition has_rollback :: "vlan_device \<Rightarrow> bool" where
  "has_rollback row \<longleftrightarrow> (case vd_rollback_commands row of None \<Rightarrow> False | Some cs \<Rightarrow> cs \<noteq> [])"

definition build_rollback_summary :: "ref \<Rightarrow> (db, jobj) action" where
  "build_rollback_summary r =
     andThen (get_execution r) (\<lambda>e.
       case ce_source_id e of
         None \<Rightarrow> ret [(''available'', JBool False),
           (''reason'', JStr ''Rollback summary is source-specific and currently available for VLAN workflow'')]
       | Some i \<Rightarrow>
           if ce_source_type e \<noteq> ''vlan_workflow''
           then ret [(''available'', JBool False),
             (''reason'', JStr ''Rollback summary is source-specific and currently available for VLAN workflow'')]
           else query (\<lambda>d. case get_vlan_request d i of
                  Inl x \<Rightarrow> Inl x
                | Inr q \<Rightarrow> Inr [(''available'', JBool True), (''source_type'', JStr (ce_source_type e)),
                    (''devices_with_rollback'', JInt (int (length (filter has_rollback (request_devices d (vr_id q)))))),
                    (''device_count'', JInt (int (length (request_devices d (vr_id q)))))]))"

section \<open>The graph of a plan\<close>

text \<open>The orders are 1, 2, ... and every dependency is an earlier step.\<close>

definition well_numbered :: "step_plan list \<Rightarrow> bool" where
  "well_numbered ps \<longleftrightarrow> map pl_order ps = [1..int (length ps)]"

definition depends_backwards :: "step_plan list \<Rightarrow> bool" where
  "depends_backwards ps \<longleftrightarrow> (\<forall>p\<in>set ps. set (pl_depends_on p) \<subseteq> {1..<pl_order p})"

lemma numbered_length [simp]: "length (numbered k f rows) = length rows"
  by (induction k f rows rule: numbered.induct) auto

lemma numbered_orders:
  "(\<And>k r. pl_order (f k r) = k) \<Longrightarrow> map pl_order (numbered k f rows) = [k..k + int (length rows) - 1]"
proof (induction k f rows rule: numbered.induct)
  case (2 k f r rs)
  then have "map pl_order (numbered (k + 1) f rs) = [k + 1..k + 1 + int (length rs) - 1]" by blast
  then show ?case using "2.prems" by (simp add: upto_rec1 algebra_simps)
qed simp

lemma numbered_mem: "p \<in> set (numbered k f rows) \<Longrightarrow> \<exists>j r. k \<le> j \<and> r \<in> set rows \<and> p = f j r"
proof (induction k f rows rule: numbered.induct)
  case (2 k f r rs)
  show ?case
  proof (cases "p = f k r")
    case True
    then show ?thesis by (intro exI [of _ k] exI [of _ r]) simp
  next
    case False
    with 2 obtain j r' where "k + 1 \<le> j" "r' \<in> set rs" "p = f j r'" by auto
    then show ?thesis by (intro exI [of _ j] exI [of _ r']) simp
  qed
qed simp

lemma base_steps_facts:
  "map pl_order (base_steps True) = [1..7]" "map pl_order (base_steps False) = [1..6]"
  "p \<in> set (base_steps b) \<Longrightarrow> set (pl_depends_on p) \<subseteq> {1..<pl_order p}"
  "length (base_steps True) = 7" "length (base_steps False) = 6"
  by (auto simp: base_steps_def bare_step_def upto_rec1 split: if_splits)

text \<open>A base of \<open>n\<close> steps followed by a fan that depends on its last step is well formed.\<close>

lemma fan_out_graph:
  assumes "\<And>k r. pl_order (f k r) = k" "\<And>k r. pl_depends_on (f k r) = [n]" "1 \<le> n"
    "map pl_order base = [1..n]" "\<And>p. p \<in> set base \<Longrightarrow> set (pl_depends_on p) \<subseteq> {1..<pl_order p}"
  shows "well_numbered (base @ fan_out (n + 1) f rows)" "depends_backwards (base @ fan_out (n + 1) f rows)"
proof -
  let ?m = "int (length rows)"
  have "length (map pl_order base) = length [1..n]" by (simp only: assms(4))
  then have len: "int (length base) = n" using assms(3) by simp
  have "map pl_order (base @ fan_out (n + 1) f rows) = [1..n] @ [n + 1..n + ?m] @ [n + ?m + 1]"
    using assms(4) numbered_orders [of f "n + 1" rows, OF assms(1)]
    by (simp add: fan_out_def finalize_step_def bare_step_def Let_def algebra_simps)
  also have "\<dots> = [1..n + ?m + 1]"
  proof -
    have "[1..n + ?m] = [1..n] @ [n + 1..n + ?m]" using assms(3) by (intro upto_split2) simp_all
    moreover have "[1..n + ?m + 1] = [1..n + ?m] @ [n + ?m + 1]"
      using assms(3) upto_rec2 [of 1 "n + ?m + 1"] by simp
    ultimately show ?thesis by (simp only: append_assoc)
  qed
  finally show "well_numbered (base @ fan_out (n + 1) f rows)"
    by (simp add: well_numbered_def fan_out_def Let_def len algebra_simps)
  have "set (pl_depends_on p) \<subseteq> {1..<pl_order p}" if "p \<in> set (numbered (n + 1) f rows)" for p
    using numbered_mem [OF that] assms(1-3) by auto
  moreover have "set (pl_depends_on (finalize_step (n + 1 + ?m) [n + 1..n + ?m])) \<subseteq> {1..<n + 1 + ?m}"
    using assms(3) by (auto simp: finalize_step_def bare_step_def)
  ultimately show "depends_backwards (base @ fan_out (n + 1) f rows)"
    using assms(5)
    by (auto simp: depends_backwards_def fan_out_def Let_def finalize_step_def bare_step_def algebra_simps)
qed

lemma base_steps_graph: "well_numbered (base_steps b)" "depends_backwards (base_steps b)"
  using base_steps_facts by (cases b; auto simp: well_numbered_def depends_backwards_def)+

lemma fan_out_base:
  "(\<And>k r. pl_order (f k r) = k) \<Longrightarrow> (\<And>k r. pl_depends_on (f k r) = [7]) \<Longrightarrow>
     well_numbered (base_steps True @ fan_out 8 f rows) \<and> depends_backwards (base_steps True @ fan_out 8 f rows)"
  "(\<And>k r. pl_order (g k r) = k) \<Longrightarrow> (\<And>k r. pl_depends_on (g k r) = [6]) \<Longrightarrow>
     well_numbered (base_steps False @ fan_out 7 g rows') \<and> depends_backwards (base_steps False @ fan_out 7 g rows')"
  using fan_out_graph [of f 7 "base_steps True" rows] fan_out_graph [of g 6 "base_steps False" rows']
    base_steps_facts by auto

section \<open>Properties\<close>

text \<open>An execution for the examples.\<close>

definition sample_execution :: change_execution where
  "sample_execution = \<lparr>ce_id = 1, ce_title = ''core uplink'', ce_description = None, ce_status = ''draft'',
     ce_mode = ''simulation'', ce_requested_by = Some ''alice'', ce_change_type = ''composite'',
     ce_source_type = ''composite'', ce_source_id = None, ce_risk_level = ''medium'', ce_risk_summary = None,
     ce_requires_approval = True, ce_requires_lab_validation = True, ce_requires_fresh_backup = True,
     ce_created_at = Aware 0, ce_updated_at = Aware 0, ce_submitted_at = None, ce_approved_at = None,
     ce_approved_by = None, ce_rejected_at = None, ce_rejected_by = None, ce_started_at = None,
     ce_completed_at = None, ce_cancelled_at = None, ce_error_summary = None\<rparr>"

text \<open>
  C34: the plan of a VLAN workflow, a password rollout, a backup job or a composite change is a
  well-formed graph: its steps are numbered 1, 2, 3 and so on without gaps, and every
  dependency names an earlier step of the plan, so that the plan has no cycle and can be
  carried out in order, however many devices the source has.
\<close>

theorem plan_is_acyclic:
  assumes "build_steps_for_source d e = Inr ps"
    and "ce_source_type e \<in> {''vlan_workflow'', ''password_rollout'', ''config_backup_job'', ''composite''}"
  shows "well_numbered ps \<and> depends_backwards ps"
proof -
  let ?good = "\<lambda>ps. well_numbered ps \<and> depends_backwards ps"
  have vlan: "?good (base_steps True @ fan_out 8 (vlan_step r) rows)" for r rows
    by (rule fan_out_base(1)) (simp_all add: vlan_step_def)
  have password: "?good (base_steps False @ fan_out 7 (password_step j) rows)" for j rows
    by (rule fan_out_base(2)) (simp_all add: password_step_def)
  have backup: "?good (base_steps False @ fan_out 7 (backup_step b) rows)" for b rows
    by (rule fan_out_base(2)) (simp_all add: backup_step_def)
  have composite: "well_numbered (build_composite_steps e) \<and> depends_backwards (build_composite_steps e)"
    by (auto simp: build_composite_steps_def base_steps_def bare_step_def finalize_step_def well_numbered_def
        depends_backwards_def upto_rec1)
  from assms consider "build_vlan_steps d e = Inr ps" | "build_password_steps d e = Inr ps"
    | "build_config_backup_steps d e = Inr ps" | "ps = build_composite_steps e"
    by (auto simp: build_steps_for_source_def split: if_splits)
  then show ?thesis
    using vlan password backup base_steps_graph composite
    by cases (auto simp: build_vlan_steps_def build_password_steps_def build_config_backup_steps_def
        split: option.splits sum.splits)
qed

theorem plan_is_acyclic_witness:
  "well_numbered (build_composite_steps sample_execution) \<and> depends_backwards (build_composite_steps sample_execution)"
  by (rule plan_is_acyclic [where e = sample_execution])
    (simp_all add: build_steps_for_source_def sample_execution_def)

text \<open>
  The plan of a manual change is not: its final step is number 8 and depends on a step 7 that
  the plan does not have.
\<close>

theorem manual_plan_dangling:
  "\<exists>ps. build_steps_for_source d (sample_execution\<lparr>ce_source_type := ''manual''\<rparr>) = Inr ps \<and>
        \<not> well_numbered ps \<and>
        (\<exists>p\<in>set ps. \<not> set (pl_depends_on p) \<subseteq> set (map pl_order ps))"
  by (auto simp: build_steps_for_source_def sample_execution_def base_steps_def bare_step_def
      finalize_step_def well_numbered_def upto_rec1)

end
