(* ===== verification/ChangeSimulation.thy ===== *)
theory ChangeSimulation
  imports ChangePlan Masking
begin

text \<open>
  app/services/change_execution_simulation_service.py: the walk over the steps of a ready
  execution.  Every step's output is a JSON object computed from the row; nothing here opens a
  session to a device.
\<close>

section \<open>Reading a planned action\<close>

text \<open>\<open>mask_command_list([str(command) for command in planned_action.get(key, [])])\<close>\<close>

definition masked_commands :: "jobj \<Rightarrow> string \<Rightarrow> error + json" where
  "masked_commands d k =
     (case (case map_of d k of None \<Rightarrow> Inr [] | Some v \<Rightarrow> json_items v) of
        Inl e \<Rightarrow> Inl e
      | Inr xs \<Rightarrow> Inr (JList (map JStr (mask_command_list [] (map py_str xs)))))"

text \<open>\<open>dict(step.planned_action or {})\<close>\<close>

definition action_of :: "change_step \<Rightarrow> jobj" where
  "action_of s = (case st_planned_action s of None \<Rightarrow> [] | Some d \<Rightarrow> d)"

section \<open>Outputs\<close>

definition simulate_vlan_step :: "change_step \<Rightarrow> error + jobj" where
  "simulate_vlan_step s =
     (case masked_commands (action_of s) ''planned_commands'' of
        Inl e \<Rightarrow> Inl e
      | Inr commands \<Rightarrow>
          (case masked_commands (action_of s) ''rollback_commands'' of
             Inl e \<Rightarrow> Inl e
           | Inr rollback_commands \<Rightarrow>
               Inr [(''simulation_only'', JBool True), (''would_execute'', JBool False),
                    (''change_type'', JStr ''vlan_change''), (''device_id'', uuid_opt (st_device_id s)),
                    (''operation'', jget (action_of s) ''operation''),
                    (''vlan_id'', jget (action_of s) ''vlan_id''),
                    (''vlan_name'', jget (action_of s) ''vlan_name''),
                    (''planned_commands'', commands), (''rollback_commands'', rollback_commands),
                    (''warnings'', JList [JStr ''Commands are dry-run text only; no transport is opened''])]))"

definition simulate_password_step :: "change_step \<Rightarrow> error + jobj" where
  "simulate_password_step s =
     (case masked_commands (action_of s) ''commands'' of
        Inl e \<Rightarrow> Inl e
      | Inr commands \<Rightarrow>
          Inr [(''simulation_only'', JBool True), (''would_execute'', JBool False),
               (''change_type'', JStr ''password_change''), (''device_id'', uuid_opt (st_device_id s)),
               (''job_id'', jget (action_of s) ''job_id''), (''username'', jget (action_of s) ''username''),
               (''commands'', commands), (''secret_values'', JStr ''omitted''),
               (''warnings'', JList [JStr ''Password value is never returned by simulation output''])])"

definition simulate_backup_step :: "change_step \<Rightarrow> jobj" where
  "simulate_backup_step s =
     [(''simulation_only'', JBool True), (''would_execute'', JBool False),
      (''change_type'', JStr ''config_backup''), (''device_id'', uuid_opt (st_device_id s)),
      (''job_id'', jget (action_of s) ''job_id''), (''source_status'', jget (action_of s) ''status''),
      (''collection'', JStr ''not_started_by_change_execution_orchestrator'')]"

definition simulate_finalize_step :: "change_step list \<Rightarrow> jobj" where
  "simulate_finalize_step steps =
     [(''simulation_only'', JBool True), (''would_execute'', JBool False),
      (''summary'', JStr ''Simulation timeline completed without device changes''),
      (''prior_step_count'', JInt (int (length (filter (\<lambda>s. st_step_type s \<noteq> ''finalize'') steps))))]"

definition simulate_other_step :: "change_step \<Rightarrow> jobj" where
  "simulate_other_step s =
     [(''step_type'', JStr (st_step_type s)), (''would_execute'', JBool False),
      (''simulation_only'', JBool True),
      (''summary'', JStr (st_name s @ '' checked in simulation timeline''))]"

definition step_output :: "db \<Rightarrow> change_step \<Rightarrow> error + jobj" where
  "step_output d s =
     (if st_step_type s = ''simulate_vlan_change'' then simulate_vlan_step s
      else if st_step_type s = ''simulate_password_change'' then simulate_password_step s
      else if st_step_type s = ''simulate_config_backup'' then Inr (simulate_backup_step s)
      else if st_step_type s = ''finalize'' then Inr (simulate_finalize_step (steps_of d (st_execution_id s)))
      else Inr (simulate_other_step s))"

section \<open>The walk\<close>

text \<open>
  The row object stays the same while its status is set to running, so the output is computed
  from the row as it then stands.
\<close>

definition simulate_step :: "int \<Rightarrow> ref \<Rightarrow> (db, change_step) action" where
  "simulate_step now r =
     andThen (get_step r) (\<lambda>s.
       if st_status s = ''simulated'' then ret s
       else if st_status s \<in> {''blocked'', ''failed'', ''cancelled''} then ret s
       else
         andThen (update_step_status now (RefId (st_id s)) ''running'' None) (\<lambda>s.
         andThen (query (\<lambda>d. step_output d s)) (\<lambda>output.
         andThen (update_step_output now (RefId (st_id s)) output ''simulated'') (\<lambda>updated.
         andThen (add_audit_event now (RefId (st_execution_id updated)) ''step_simulated''
                    (''Step '' @ int_str (st_step_order updated) @ '' simulated'') None
                    (Some (RefId (st_id updated))) (map_option RefId (st_device_id updated))
                    (Some [(''step_type'', JStr (st_step_type updated))])) (\<lambda>_.
           ret updated)))))"

record simulation_report =
  sr_execution :: change_execution
  sr_steps :: "change_step list"
  sr_simulated_step_count :: int
  sr_blocked_step_count :: int
  sr_failed_step_count :: int
  sr_warnings :: "string list"

definition count_status :: "string \<Rightarrow> change_step list \<Rightarrow> int" where
  "count_status status steps = int (length (filter (\<lambda>s. st_status s = status) steps))"

definition build_simulation_report :: "ref \<Rightarrow> (db, simulation_report) action" where
  "build_simulation_report r =
     andThen (get_execution r) (\<lambda>e.
     andThen (asks (\<lambda>d. steps_of d (ce_id e))) (\<lambda>steps.
       ret \<lparr>sr_execution = e, sr_steps = steps,
            sr_simulated_step_count = count_status ''simulated'' steps,
            sr_blocked_step_count = count_status ''blocked'' steps,
            sr_failed_step_count = count_status ''failed'' steps,
            sr_warnings = (if ce_status e \<notin> {''ready'', ''simulating'', ''simulated''}
              then [''Execution status '' @ ce_status e @ '' has not reached simulation-ready state''] else [])\<rparr>))"

definition simulate_execution :: "int \<Rightarrow> ref \<Rightarrow> string option \<Rightarrow> (db, simulation_report) action" where
  "simulate_execution now r actor =
     andThen (get_execution r) (\<lambda>e.
     andThen (unless (ce_status e \<noteq> ''simulated'')
                (ConflictError ''Change execution has already been simulated'')) (\<lambda>_.
     andThen (unless (ce_status e = ''ready'')
                (ConflictError (''Change execution simulation requires ready status, got '' @ ce_status e))) (\<lambda>_.
     andThen (asks (\<lambda>d. steps_of d (ce_id e))) (\<lambda>steps.
     andThen (unless (steps \<noteq> []) (ConflictError ''Change execution has no planned steps'')) (\<lambda>_.
     andThen (update_execution_status now (RefId (ce_id e)) ''simulating'' None None) (\<lambda>_.
     andThen (add_audit_event now (RefId (ce_id e)) ''simulation_started'' ''Change execution simulation started''
                actor None None None) (\<lambda>_.
     andThen (for_each (\<lambda>s. simulate_step now (RefText (uuid_str (st_id s)))) steps) (\<lambda>_.
     andThen (update_execution_status now (RefId (ce_id e)) ''simulated'' None None) (\<lambda>simulated.
     andThen (add_audit_event now (RefId (ce_id e)) ''simulation_completed'' ''Change execution simulation completed''
                actor None None
                (Some [(''step_count'', JInt (int (length steps))), (''mode'', JStr ''simulation'')])) (\<lambda>_.
       build_simulation_report (RefText (uuid_str (ce_id simulated)))))))))))))"

section \<open>What an output says\<close>

text \<open>Every output marks itself as simulation only, and says that nothing would be executed.\<close>

definition harmless :: "jobj \<Rightarrow> bool" where
  "harmless d \<longleftrightarrow> jget d ''would_execute'' = JBool False \<and> jget d ''simulation_only'' = JBool True"

lemma step_output_harmless: "step_output d s = Inr out \<Longrightarrow> harmless out"
  by (auto simp: step_output_def simulate_vlan_step_def simulate_password_step_def simulate_backup_step_def
      simulate_finalize_step_def simulate_other_step_def harmless_def jget_def split: sum.splits if_splits)

text \<open>The commands in an output are masked texts of the planned commands.\<close>

lemma masked_commands_Inr:
  "masked_commands d k = Inr j \<Longrightarrow> \<exists>xs. j = JList (map (\<lambda>x. JStr (mask_secrets [] (py_str x))) xs)"
  by (auto simp: masked_commands_def mask_command_list_def comp_def split: sum.splits option.splits)

end
