(* ===== verification/ChangeService.thy ===== *)
theory ChangeService
  imports ChangeSimulation Rbac
begin

text \<open>
  app/services/change_execution_service.py and the endpoints of app/api/v1/change_executions.py:
  the life of a change execution from its creation to its simulation.  A request names an
  execution by the text of its path; it runs with the permission its endpoint asks for, in one
  database session that is committed when the handler returns and rolled back when it raises.
\<close>

section \<open>Creation and reading\<close>

text \<open>\<open>ChangeExecutionCreate\<close>, and what its literals and its validator let through.\<close>

record create_payload =
  cp_title :: string
  cp_description :: "string option"
  cp_mode :: string
  cp_change_type :: string
  cp_source_type :: string
  cp_source_id :: "string option"
  cp_requires_approval :: bool
  cp_requires_lab_validation :: bool
  cp_requires_fresh_backup :: bool

definition check_payload :: "create_payload \<Rightarrow> error + create_payload" where
  "check_payload p =
     (if cp_mode p \<noteq> ''simulation'' then Inl (ValueError ''Change execution mode must be simulation'')
      else if cp_change_type p \<notin> {''password_change'', ''vlan_change'', ''config_backup'', ''composite''}
      then Inl (ValueError ''change_type'')
      else if cp_source_type p \<notin> {''password_rollout'', ''vlan_workflow'', ''config_backup_job'', ''manual'', ''composite''}
      then Inl (ValueError ''source_type'')
      else Inr p)"

definition create_execution :: "int \<Rightarrow> create_payload \<Rightarrow> string \<Rightarrow> (db, jobj) action" where
  "create_execution now p actor =
     andThen (create_execution_row now (cp_title p) (cp_change_type p) (cp_source_type p) (cp_mode p)
                (cp_description p) (Some actor) (map_option RefText (cp_source_id p))
                (cp_requires_approval p) (cp_requires_lab_validation p) (cp_requires_fresh_backup p)) (\<lambda>e.
     andThen (add_audit_event now (RefId (ce_id e)) ''created'' ''Change execution created'' (Some actor) None None
                (Some [(''change_type'', JStr (ce_change_type e)), (''source_type'', JStr (ce_source_type e)),
                       (''mode'', JStr (ce_mode e))])) (\<lambda>_.
       ret (read_execution e)))"

definition list_all_executions :: "(db, jobj list) action" where
  "list_all_executions = asks (\<lambda>d. map read_execution (list_executions None d))"

definition get_execution_read :: "ref \<Rightarrow> (db, jobj) action" where
  "get_execution_read r = andThen (get_execution r) (\<lambda>e. ret (read_execution e))"

definition get_steps_read :: "ref \<Rightarrow> (db, jobj list) action" where
  "get_steps_read r = andThen (get_steps r) (\<lambda>steps. ret (map read_step steps))"

definition get_locks_read :: "ref \<Rightarrow> (db, jobj list) action" where
  "get_locks_read r = andThen (get_locks r) (\<lambda>locks. ret (map read_lock locks))"

definition list_audit_events_read :: "ref \<Rightarrow> (db, jobj list) action" where
  "list_audit_events_read r = andThen (list_audit_events r) (\<lambda>vs. ret (map read_audit_event vs))"

section \<open>Planning and approval\<close>

definition build_plan :: "int \<Rightarrow> ref \<Rightarrow> string option \<Rightarrow> (db, jobj list) action" where
  "build_plan now r actor =
     andThen (build_validation_report now r) (\<lambda>report.
     andThen (unless (rp_errors report = [])
                (ConflictError ''Cannot build change execution plan with validation errors'')) (\<lambda>_.
       build_execution_plan now r actor))"

definition submit_for_approval :: "int \<Rightarrow> ref \<Rightarrow> string \<Rightarrow> (db, jobj) action" where
  "submit_for_approval now r actor =
     andThen (get_execution r) (\<lambda>e.
     andThen (build_validation_report now r) (\<lambda>report.
     andThen (unless (rp_errors report = [])
                (ConflictError ''Cannot submit change execution with validation errors'')) (\<lambda>_.
     andThen (asks (\<lambda>d. steps_of d (ce_id e))) (\<lambda>steps.
     andThen (unless (steps \<noteq> [])
                (ConflictError ''Cannot submit change execution before simulation plan is built'')) (\<lambda>_.
       if \<not> ce_requires_approval e
       then andThen (update_execution_status now (RefId (ce_id e)) ''approved'' (Some actor) None) (\<lambda>approved.
            andThen (add_audit_event now (RefId (ce_id e)) ''approved'' ''Approval skipped by execution policy''
                       (Some actor) None None None) (\<lambda>_.
              ret (read_execution approved)))
       else andThen (create_approval now (RefId (ce_id e)) (Some actor)) (\<lambda>_.
            andThen (update_execution_status now (RefId (ce_id e)) ''pending_approval'' (Some actor) None) (\<lambda>pending.
            andThen (add_audit_event now (RefId (ce_id e)) ''approval_requested'' ''Change execution approval requested''
                       (Some actor) None None None) (\<lambda>_.
              ret (read_execution pending)))))))))"

definition approve_execution :: "int \<Rightarrow> ref \<Rightarrow> string option \<Rightarrow> string \<Rightarrow> (db, jobj) action" where
  "approve_execution now r comment' actor =
     andThen (get_execution r) (\<lambda>e.
       if ce_status e = ''ready'' then ret (read_execution e)
       else
         andThen (unless (ce_status e = ''pending_approval'')
                    (ConflictError (''Cannot approve change execution from status '' @ ce_status e))) (\<lambda>_.
         andThen (approve_execution_row now (RefId (ce_id e)) actor comment') (\<lambda>_.
         andThen (add_audit_event now (RefId (ce_id e)) ''approved'' ''Change execution approved''
                    (Some actor) None None None) (\<lambda>_.
           get_execution_read (RefId (ce_id e))))))"

definition reject_execution :: "int \<Rightarrow> ref \<Rightarrow> string option \<Rightarrow> string \<Rightarrow> (db, jobj) action" where
  "reject_execution now r comment' actor =
     andThen (get_execution r) (\<lambda>e.
     andThen (unless (ce_status e = ''pending_approval'')
                (ConflictError (''Cannot reject change execution from status '' @ ce_status e))) (\<lambda>_.
     andThen (reject_execution_row now (RefId (ce_id e)) actor comment') (\<lambda>_.
     andThen (add_audit_event now (RefId (ce_id e)) ''rejected'' ''Change execution rejected''
                (Some actor) None None None) (\<lambda>_.
       get_execution_read (RefId (ce_id e))))))"

section \<open>Locks and readiness\<close>

definition device_lock_plan :: "device \<Rightarrow> lock_plan" where
  "device_lock_plan dev =
     \<lparr>lp_lock_type = ''device'', lp_target_type = ''device'', lp_target_id = Some (RefId (dev_id dev)),
      lp_device_id = Some (RefId (dev_id dev)), lp_status = ''reserved'',
      lp_reason = Some ''simulation orchestration reservation''\<rparr>"

definition source_lock_plan :: "change_execution \<Rightarrow> lock_plan list" where
  "source_lock_plan e =
     (case ce_source_id e of
        None \<Rightarrow> []
      | Some i \<Rightarrow> [\<lparr>lp_lock_type = ''workflow'', lp_target_type = ce_source_type e,
          lp_target_id = Some (RefId i), lp_device_id = None, lp_status = ''reserved'',
          lp_reason = Some ''source workflow simulation reservation''\<rparr>])"

definition reserve_locks :: "int \<Rightarrow> ref \<Rightarrow> string option \<Rightarrow> (db, jobj list) action" where
  "reserve_locks now r actor =
     andThen (get_execution r) (\<lambda>e.
     andThen (unless (ce_status e \<in> {''approved'', ''ready''})
                (ConflictError (''Cannot reserve change execution locks from status '' @ ce_status e))) (\<lambda>_.
     andThen (query (\<lambda>d. validate_locks d e)) (\<lambda>conflicts.
       if conflicts \<noteq> []
       then andThen (add_audit_event now (RefId (ce_id e)) ''lock_blocked'' ''Change execution lock reservation blocked''
                       actor None None (Some [(''errors'', JList (map JStr conflicts))])) (\<lambda>_.
              raise (ConflictError (str_join ''; '' conflicts)))
       else
         andThen (asks (\<lambda>d. locks_of d (ce_id e))) (\<lambda>present.
           if present \<noteq> [] then ret (map read_lock present)
           else
             andThen (query (\<lambda>d. target_devices d e)) (\<lambda>devs.
             andThen (create_locks now (RefId (ce_id e)) (map device_lock_plan devs @ source_lock_plan e)) (\<lambda>created.
             andThen (add_audit_event now (RefId (ce_id e)) ''lock_reserved'' ''Change execution orchestration locks reserved''
                        actor None None (Some [(''lock_count'', JInt (int (length created)))])) (\<lambda>_.
               ret (map read_lock created))))))))"

definition release_locks :: "int \<Rightarrow> ref \<Rightarrow> string option \<Rightarrow> (db, jobj list) action" where
  "release_locks now r actor =
     andThen (release_locks_row now r) (\<lambda>locks.
     andThen (add_audit_event now r ''cancelled'' ''Change execution orchestration locks released''
                actor None None (Some [(''lock_count'', JInt (int (length locks)))])) (\<lambda>_.
       ret (map read_lock locks)))"

definition mark_ready :: "int \<Rightarrow> ref \<Rightarrow> string option \<Rightarrow> (db, jobj) action" where
  "mark_ready now r actor =
     andThen (get_execution r) (\<lambda>e.
     andThen (unless (ce_status e \<in> {''approved'', ''ready''})
                (ConflictError (''Cannot mark change execution ready from status '' @ ce_status e))) (\<lambda>_.
     andThen (build_validation_report now r) (\<lambda>report.
     andThen (unless (rp_errors report = [])
                (ConflictError ''Cannot mark change execution ready with validation errors'')) (\<lambda>_.
     andThen (asks (\<lambda>d. steps_of d (ce_id e))) (\<lambda>steps.
     andThen (unless (steps \<noteq> [])
                (ConflictError ''Cannot mark change execution ready without planned steps'')) (\<lambda>_.
     andThen (unless (rp_can_mark_ready report)
                (ConflictError ''Cannot mark change execution ready until locks, backups, lab validation, and approval gates pass'')) (\<lambda>_.
     andThen (update_execution_status now (RefId (ce_id e)) ''ready'' actor None) (\<lambda>ready.
     andThen (add_audit_event now (RefId (ce_id e)) ''validated'' ''Change execution marked ready for simulation''
                actor None None None) (\<lambda>_.
       ret (read_execution ready))))))))))"

definition cancel_execution :: "int \<Rightarrow> ref \<Rightarrow> string \<Rightarrow> (db, jobj) action" where
  "cancel_execution now r actor =
     andThen (get_execution r) (\<lambda>e.
       if ce_status e \<in> {''simulated'', ''completed'', ''cancelled''} then ret (read_execution e)
       else
         andThen (release_locks_row now (RefId (ce_id e))) (\<lambda>_.
         andThen (update_execution_status now (RefId (ce_id e)) ''cancelled'' (Some actor) None) (\<lambda>cancelled.
         andThen (add_audit_event now (RefId (ce_id e)) ''cancelled'' ''Change execution cancelled''
                    (Some actor) None None None) (\<lambda>_.
           ret (read_execution cancelled)))))"

record full_report =
  fr_execution :: jobj
  fr_validation :: validation_report
  fr_simulation :: simulation_report
  fr_locks :: "jobj list"
  fr_audit_events :: "jobj list"

definition get_full_report :: "int \<Rightarrow> ref \<Rightarrow> (db, full_report) action" where
  "get_full_report now r =
     andThen (get_execution_read r) (\<lambda>e.
     andThen (build_validation_report now r) (\<lambda>validation.
     andThen (build_simulation_report r) (\<lambda>simulation.
     andThen (get_locks_read r) (\<lambda>locks.
     andThen (list_audit_events_read r) (\<lambda>events.
       ret \<lparr>fr_execution = e, fr_validation = validation, fr_simulation = simulation,
            fr_locks = locks, fr_audit_events = events\<rparr>)))))"

end
