(* ===== verification/ChangeRequests.thy ===== *)
theory ChangeRequests
  imports ChangeService Endpoints
begin

text \<open>
  app/api/v1/change_executions.py: one definition per endpoint, the requests as a datatype and
  \<open>serve\<close>, which answers one request of an actor.
\<close>

definition api_create_execution :: "int \<Rightarrow> create_payload \<Rightarrow> actor \<Rightarrow> (db, jobj) action" where
  "api_create_execution now p a =
     andThen (query (\<lambda>_. check_payload p)) (\<lambda>p.
       endpoint Perm_manage_change_executions a (create_execution now p (username a)))"

definition api_list_executions :: "actor \<Rightarrow> (db, jobj list) action" where
  "api_list_executions a = endpoint Perm_read_change_executions a list_all_executions"

definition api_get_execution :: "string \<Rightarrow> actor \<Rightarrow> (db, jobj) action" where
  "api_get_execution i a = endpoint Perm_read_change_executions a (get_execution_read (RefText i))"

definition api_validate_execution :: "int \<Rightarrow> string \<Rightarrow> actor \<Rightarrow> (db, validation_report) action" where
  "api_validate_execution now i a =
     endpoint Perm_plan_change_executions a (validate_execution now (RefText i) (Some (username a)))"

definition api_get_validation_report :: "int \<Rightarrow> string \<Rightarrow> actor \<Rightarrow> (db, validation_report) action" where
  "api_get_validation_report now i a =
     endpoint Perm_read_change_executions a (build_validation_report now (RefText i))"

definition api_build_plan :: "int \<Rightarrow> string \<Rightarrow> actor \<Rightarrow> (db, jobj list) action" where
  "api_build_plan now i a = endpoint Perm_plan_change_executions a (build_plan now (RefText i) (Some (username a)))"

definition api_get_plan :: "string \<Rightarrow> actor \<Rightarrow> (db, jobj list) action" where
  "api_get_plan i a = endpoint Perm_read_change_executions a (get_steps_read (RefText i))"

definition api_submit_for_approval :: "int \<Rightarrow> string \<Rightarrow> actor \<Rightarrow> (db, jobj) action" where
  "api_submit_for_approval now i a =
     endpoint Perm_manage_change_executions a (submit_for_approval now (RefText i) (username a))"

definition api_approve_execution :: "int \<Rightarrow> string \<Rightarrow> string option \<Rightarrow> actor \<Rightarrow> (db, jobj) action" where
  "api_approve_execution now i comment' a =
     endpoint Perm_approve_change_executions a (approve_execution now (RefText i) comment' (username a))"

definition api_reject_execution :: "int \<Rightarrow> string \<Rightarrow> string option \<Rightarrow> actor \<Rightarrow> (db, jobj) action" where
  "api_reject_execution now i comment' a =
     endpoint Perm_approve_change_executions a (reject_execution now (RefText i) comment' (username a))"

definition api_reserve_locks :: "int \<Rightarrow> string \<Rightarrow> actor \<Rightarrow> (db, jobj list) action" where
  "api_reserve_locks now i a =
     endpoint Perm_plan_change_executions a (reserve_locks now (RefText i) (Some (username a)))"

definition api_mark_ready :: "int \<Rightarrow> string \<Rightarrow> actor \<Rightarrow> (db, jobj) action" where
  "api_mark_ready now i a =
     endpoint Perm_manage_change_executions a (mark_ready now (RefText i) (Some (username a)))"

definition api_simulate_execution :: "int \<Rightarrow> string \<Rightarrow> actor \<Rightarrow> (db, simulation_report) action" where
  "api_simulate_execution now i a =
     endpoint Perm_simulate_change_executions a (simulate_execution now (RefText i) (Some (username a)))"

definition api_cancel_execution :: "int \<Rightarrow> string \<Rightarrow> actor \<Rightarrow> (db, jobj) action" where
  "api_cancel_execution now i a =
     endpoint Perm_cancel_change_executions a (cancel_execution now (RefText i) (username a))"

definition api_get_simulation_report :: "string \<Rightarrow> actor \<Rightarrow> (db, simulation_report) action" where
  "api_get_simulation_report i a = endpoint Perm_read_change_executions a (build_simulation_report (RefText i))"

definition api_get_audit :: "string \<Rightarrow> actor \<Rightarrow> (db, jobj list) action" where
  "api_get_audit i a = endpoint Perm_read_change_executions a (list_audit_events_read (RefText i))"

definition api_get_locks :: "string \<Rightarrow> actor \<Rightarrow> (db, jobj list) action" where
  "api_get_locks i a = endpoint Perm_read_change_executions a (get_locks_read (RefText i))"

definition api_get_report :: "int \<Rightarrow> string \<Rightarrow> actor \<Rightarrow> (db, full_report) action" where
  "api_get_report now i a = endpoint Perm_read_change_executions a (get_full_report now (RefText i))"

section \<open>Requests\<close>

datatype change_request =
    CreateExecution create_payload
  | ListExecutions
  | GetExecution string
  | ValidateExecution string
  | GetValidationReport string
  | BuildPlan string
  | GetPlan string
  | SubmitForApproval string
  | ApproveExecution string "string option"
  | RejectExecution string "string option"
  | ReserveLocks string
  | MarkReady string
  | SimulateExecution string
  | CancelExecution string
  | GetSimulationReport string
  | GetAudit string
  | GetLocks string
  | GetReport string

datatype response =
    RObject jobj
  | RObjects "jobj list"
  | RValidation validation_report
  | RSimulation simulation_report
  | RFull full_report

definition answer :: "('a \<Rightarrow> response) \<Rightarrow> (db, 'a) action \<Rightarrow> (db, response) action" where
  "answer f m = andThen m (\<lambda>x. ret (f x))"

fun serve :: "int \<Rightarrow> actor \<Rightarrow> change_request \<Rightarrow> (db, response) action" where
  "serve now a (CreateExecution p) = answer RObject (api_create_execution now p a)"
| "serve now a ListExecutions = answer RObjects (api_list_executions a)"
| "serve now a (GetExecution i) = answer RObject (api_get_execution i a)"
| "serve now a (ValidateExecution i) = answer RValidation (api_validate_execution now i a)"
| "serve now a (GetValidationReport i) = answer RValidation (api_get_validation_report now i a)"
| "serve now a (BuildPlan i) = answer RObjects (api_build_plan now i a)"
| "serve now a (GetPlan i) = answer RObjects (api_get_plan i a)"
| "serve now a (SubmitForApproval i) = answer RObject (api_submit_for_approval now i a)"
| "serve now a (ApproveExecution i c) = answer RObject (api_approve_execution now i c a)"
| "serve now a (RejectExecution i c) = answer RObject (api_reject_execution now i c a)"
| "serve now a (ReserveLocks i) = answer RObjects (api_reserve_locks now i a)"
| "serve now a (MarkReady i) = answer RObject (api_mark_ready now i a)"
| "serve now a (SimulateExecution i) = answer RSimulation (api_simulate_execution now i a)"
| "serve now a (CancelExecution i) = answer RObject (api_cancel_execution now i a)"
| "serve now a (GetSimulationReport i) = answer RSimulation (api_get_simulation_report i a)"
| "serve now a (GetAudit i) = answer RObjects (api_get_audit i a)"
| "serve now a (GetLocks i) = answer RObjects (api_get_locks i a)"
| "serve now a (GetReport i) = answer RFull (api_get_report now i a)"

fun needed_permission :: "change_request \<Rightarrow> permission" where
  "needed_permission (CreateExecution _) = Perm_manage_change_executions"
| "needed_permission (ValidateExecution _) = Perm_plan_change_executions"
| "needed_permission (BuildPlan _) = Perm_plan_change_executions"
| "needed_permission (SubmitForApproval _) = Perm_manage_change_executions"
| "needed_permission (ApproveExecution _ _) = Perm_approve_change_executions"
| "needed_permission (RejectExecution _ _) = Perm_approve_change_executions"
| "needed_permission (ReserveLocks _) = Perm_plan_change_executions"
| "needed_permission (MarkReady _) = Perm_manage_change_executions"
| "needed_permission (SimulateExecution _) = Perm_simulate_change_executions"
| "needed_permission (CancelExecution _) = Perm_cancel_change_executions"
| "needed_permission _ = Perm_read_change_executions"

text \<open>What a request does to the database when it is served: the service's operation.\<close>

definition service :: "int \<Rightarrow> actor \<Rightarrow> change_request \<Rightarrow> (db, response) action" where
  "service now a q =
     (case q of
        CreateExecution p \<Rightarrow> answer RObject (create_execution now p (username a))
      | ListExecutions \<Rightarrow> answer RObjects list_all_executions
      | GetExecution i \<Rightarrow> answer RObject (get_execution_read (RefText i))
      | ValidateExecution i \<Rightarrow> answer RValidation (validate_execution now (RefText i) (Some (username a)))
      | GetValidationReport i \<Rightarrow> answer RValidation (build_validation_report now (RefText i))
      | BuildPlan i \<Rightarrow> answer RObjects (build_plan now (RefText i) (Some (username a)))
      | GetPlan i \<Rightarrow> answer RObjects (get_steps_read (RefText i))
      | SubmitForApproval i \<Rightarrow> answer RObject (submit_for_approval now (RefText i) (username a))
      | ApproveExecution i c \<Rightarrow> answer RObject (approve_execution now (RefText i) c (username a))
      | RejectExecution i c \<Rightarrow> answer RObject (reject_execution now (RefText i) c (username a))
      | ReserveLocks i \<Rightarrow> answer RObjects (reserve_locks now (RefText i) (Some (username a)))
      | MarkReady i \<Rightarrow> answer RObject (mark_ready now (RefText i) (Some (username a)))
      | SimulateExecution i \<Rightarrow> answer RSimulation (simulate_execution now (RefText i) (Some (username a)))
      | CancelExecution i \<Rightarrow> answer RObject (cancel_execution now (RefText i) (username a))
      | GetSimulationReport i \<Rightarrow> answer RSimulation (build_simulation_report (RefText i))
      | GetAudit i \<Rightarrow> answer RObjects (list_audit_events_read (RefText i))
      | GetLocks i \<Rightarrow> answer RObjects (get_locks_read (RefText i))
      | GetReport i \<Rightarrow> answer RFull (get_full_report now (RefText i)))"

lemma check_payload_Inr: "check_payload p = Inr q \<Longrightarrow> q = p"
  by (auto simp: check_payload_def split: if_splits)

lemmas api_defs = api_create_execution_def api_list_executions_def api_get_execution_def
  api_validate_execution_def api_get_validation_report_def api_build_plan_def api_get_plan_def
  api_submit_for_approval_def api_approve_execution_def api_reject_execution_def
  api_reserve_locks_def api_mark_ready_def api_simulate_execution_def api_cancel_execution_def
  api_get_simulation_report_def api_get_audit_def api_get_locks_def api_get_report_def

text \<open>A served request needs the permission and has run the operation; a refused one changes nothing.\<close>

lemma serve_Inr:
  assumes "serve now a q s = (Inr x, s')"
  shows "needed_permission q \<in> permissions a" "service now a q s = (Inr x, s')"
proof -
  show "needed_permission q \<in> permissions a"
    using assms by (cases q) (auto simp: api_defs answer_def andThen_Inr endpoint_Inr)
  show "service now a q s = (Inr x, s')"
    using assms by (cases q) (auto simp: api_defs answer_def andThen_Inr endpoint_Inr service_def
        dest!: check_payload_Inr)
qed

lemma answer_Inl: "answer f m s = (Inl e, s') \<longleftrightarrow> m s = (Inl e, s')"
  by (auto simp: answer_def andThen_def ret_def split: prod.splits sum.splits)

lemma serve_Inl: "serve now a q s = (Inl e, s') \<Longrightarrow> s' = s"
  by (cases q) (auto simp: api_defs answer_Inl andThen_def query_def split: sum.splits dest: endpoint_Inl)

end
