(* ===== verification/ChangeLifecycle.thy ===== *)
theory ChangeLifecycle
  imports ChangeRequests Progress
begin

text \<open>
  The life of change executions as an abstract machine whose labels are the requests of the API, and the proof that
  every answered request is the one move of its label.  The machine knows of each execution its status, whether it
  requires approval and whether it has an approved approval; \<open>life_of\<close> reads this off the database.
\<close>

section \<open>The machine\<close>

datatype life = Life (l_status: string) (l_requires: bool) (l_approved: bool)

text \<open>The execution a request is about, when it can move one.\<close>

fun mover_of :: "change_request \<Rightarrow> string option" where
  "mover_of (ValidateExecution i) = Some i"
| "mover_of (SubmitForApproval i) = Some i"
| "mover_of (ApproveExecution i _) = Some i"
| "mover_of (RejectExecution i _) = Some i"
| "mover_of (MarkReady i) = Some i"
| "mover_of (SimulateExecution i) = Some i"
| "mover_of (CancelExecution i) = Some i"
| "mover_of _ = None"

text \<open>The guard and the effect of each request on the execution it is about, when it is answered without an error.\<close>

fun goes_to :: "life \<Rightarrow> string \<Rightarrow> life" where
  "goes_to (Life s r b) st = Life st r b"

fun move :: "change_request \<Rightarrow> life \<Rightarrow> life \<Rightarrow> bool" where
  "move (ValidateExecution _) l l' \<longleftrightarrow> l' = goes_to l ''validated'' \<or> l' = goes_to l ''blocked''"
| "move (SubmitForApproval _) l l' \<longleftrightarrow> l' = goes_to l (if l_requires l then ''pending_approval'' else ''approved'')"
| "move (ApproveExecution _ _) l l' \<longleftrightarrow>
     l_status l = ''pending_approval'' \<and> l' = Life ''approved'' (l_requires l) True \<or> l_status l = ''ready'' \<and> l' = l"
| "move (RejectExecution _ _) l l' \<longleftrightarrow>
     l_status l = ''pending_approval'' \<and> l_status l' = ''rejected'' \<and> l_requires l' = l_requires l \<and>
     (l_approved l' \<longrightarrow> l_approved l)"
| "move (MarkReady _) l l' \<longleftrightarrow> (l_status l = ''approved'' \<or> l_status l = ''ready'') \<and> l' = goes_to l ''ready''"
| "move (SimulateExecution _) l l' \<longleftrightarrow> l_status l = ''ready'' \<and> l' = goes_to l ''simulated''"
| "move (CancelExecution _) l l' \<longleftrightarrow>
     l' = (if l_status l \<in> {''simulated'', ''completed'', ''cancelled''} then l else goes_to l ''cancelled'')"
| "move _ l l' \<longleftrightarrow> False"

text \<open>What an answered request does to all executions: creation adds a draft, a mover moves its execution, no other moves.\<close>

inductive answered :: "change_request \<Rightarrow> (uuid \<Rightarrow> life option) \<Rightarrow> (uuid \<Rightarrow> life option) \<Rightarrow> bool" where
  create: "m i = None \<Longrightarrow> answered (CreateExecution p) m (m(i \<mapsto> Life ''draft'' (cp_requires_approval p) b))"
| step: "mover_of q = Some t \<Longrightarrow> coerce_uuid ''Change execution'' t = Inr i \<Longrightarrow> m i = Some l \<Longrightarrow> move q l l' \<Longrightarrow>
    answered q m (m(i \<mapsto> l'))"
| stay: "mover_of q = None \<Longrightarrow> (\<And>p. q \<noteq> CreateExecution p) \<Longrightarrow> answered q m m"

inductive_cases answeredE: "answered q m m'"

text \<open>What the machine guarantees: behind a required approval there is one.\<close>

definition gated :: "life \<Rightarrow> bool" where
  "gated l \<longleftrightarrow> (l_requires l \<and> l_status l \<in> {''approved'', ''ready'', ''simulating'', ''simulated''} \<longrightarrow> l_approved l)"

lemma move_gated: "move q l l' \<Longrightarrow> gated l \<Longrightarrow> gated l'"
proof (induction q l l' rule: move.induct)
  case (1 i l l')
  then show ?case by (cases l) (auto simp: gated_def)
next
  case (2 i l l')
  then show ?case by (cases l) (simp add: gated_def)
next
  case (3 i c l l')
  from 3(1) have "l' = Life ''approved'' (l_requires l) True \<or> l' = l" by simp blast
  with 3(2) show ?case by (elim disjE) (simp_all add: gated_def)
next
  case (4 i c l l')
  then show ?case by (simp add: gated_def)
next
  case (5 i l l')
  then show ?case by (cases l) (simp add: gated_def, elim conjE disjE; simp)
next
  case (6 i l l')
  then show ?case by (cases l) (simp add: gated_def)
next
  case (7 i l l')
  then show ?case by (cases l) (simp add: gated_def)
qed simp_all

lemma answered_gated:
  assumes "answered q m m'" "\<And>i l. m i = Some l \<Longrightarrow> gated l" "m' i = Some l"
  shows "gated l"
  using assms by cases (auto simp: gated_def dest: move_gated split: if_splits)

section \<open>Reading the machine off the database\<close>

definition has_approval :: "db \<Rightarrow> uuid \<Rightarrow> bool" where
  "has_approval d i \<longleftrightarrow> (\<exists>a\<in>set (t_change_approval d). ap_execution_id a = i \<and> ap_status a = ''approved'')"

definition life_of :: "db \<Rightarrow> uuid \<Rightarrow> life option" where
  "life_of d i =
     map_option (\<lambda>e. Life (ce_status e) (ce_requires_approval e) (has_approval d i)) (find_change_execution d i)"

text \<open>Identifiers in use are below the next one, and no two approvals share one.\<close>

definition ids_used :: "db \<Rightarrow> bool" where
  "ids_used d \<longleftrightarrow> (\<forall>e\<in>set (t_change_execution d). ce_id e < db_next_id d) \<and>
     (\<forall>a\<in>set (t_change_approval d). ap_id a < db_next_id d) \<and> distinct (map ap_id (t_change_approval d))"

definition lives :: "(uuid \<Rightarrow> life option) \<Rightarrow> db \<Rightarrow> bool" where
  "lives m d \<longleftrightarrow> ids_used d \<and> life_of d = m"

section \<open>Operations that leave executions and approvals alone\<close>

definition aside :: "db \<Rightarrow> db \<Rightarrow> bool" where
  "aside s s' \<longleftrightarrow> t_change_execution s' = t_change_execution s \<and>
     t_change_approval s' = t_change_approval s \<and> db_next_id s \<le> db_next_id s'"

interpretation aside: progress aside
  by unfold_locales (auto simp: aside_def)

text \<open>Reads are within every preorder.\<close>

lemma get_by_ref_aside: "within aside (get_by_ref look name r)"
  by (simp add: get_by_ref_def aside.within_basic)

lemma fresh_id_aside: "within aside fresh_id"
  by (simp add: within_def fresh_id_def aside_def)

lemma change_aside:
  "within aside (change (upd_step i f))" "within aside (change (upd_lock i f'))"
  "within aside (change (\<lambda>d. d\<lparr>t_change_step := t_change_step d @ g\<rparr>))"
  "within aside (change (\<lambda>d. d\<lparr>t_change_lock := t_change_lock d @ h\<rparr>))"
  "within aside (change (\<lambda>d. d\<lparr>t_change_event := t_change_event d @ k\<rparr>))"
  by (auto intro!: within_change simp: aside_def upd_step_def upd_lock_def)

lemmas repository_reads = get_execution_def get_step_def get_steps_def get_locks_def

lemma add_audit_event_aside: "within aside (add_audit_event now r ty msg a st dev md)"
  unfolding add_audit_event_def Let_def
  by (intro aside.within_intros fresh_id_aside change_aside)

lemma create_steps_aside: "within aside (create_steps now r ps)"
  unfolding create_steps_def create_step_def Let_def
  by (intro aside.within_intros fresh_id_aside change_aside)

lemma create_locks_aside: "within aside (create_locks now r ps)"
  unfolding create_locks_def create_lock_def Let_def
  by (intro aside.within_intros fresh_id_aside change_aside)

lemma release_locks_row_aside: "within aside (release_locks_row now r)"
  unfolding release_locks_row_def get_locks_def
  by (intro aside.within_intros change_aside)

lemma simulate_step_aside: "within aside (simulate_step now r)"
  unfolding simulate_step_def update_step_status_def update_step_output_def get_step_def Let_def
  by (intro aside.within_intros get_by_ref_aside change_aside add_audit_event_aside)

lemma build_validation_report_aside: "within aside (build_validation_report now r)"
  unfolding build_validation_report_def get_execution_def
  by (intro aside.within_intros get_by_ref_aside)

lemma build_plan_aside: "within aside (build_plan now r a)"
  unfolding build_plan_def build_execution_plan_def get_execution_def
  by (intro aside.within_intros get_by_ref_aside build_validation_report_aside create_steps_aside
      add_audit_event_aside)

lemma reserve_locks_aside: "within aside (reserve_locks now r a)"
  unfolding reserve_locks_def get_execution_def
  by (intro aside.within_intros get_by_ref_aside create_locks_aside add_audit_event_aside)

lemma build_simulation_report_aside: "within aside (build_simulation_report r)"
  unfolding build_simulation_report_def get_execution_def
  by (intro aside.within_intros get_by_ref_aside)

lemma reads_aside:
  "within aside list_all_executions" "within aside (get_execution_read r)" "within aside (get_steps_read r)"
  "within aside (get_locks_read r)" "within aside (list_audit_events_read r)" "within aside (get_full_report now r)"
  unfolding list_all_executions_def get_execution_read_def get_steps_read_def get_locks_read_def
    list_audit_events_read_def list_audit_events_def get_full_report_def repository_reads
  by (intro aside.within_intros get_by_ref_aside build_validation_report_aside build_simulation_report_aside)+

section \<open>Operations on executions and approvals\<close>

lemma aside_life: "aside s s' \<Longrightarrow> life_of s' = life_of s"
  by (rule ext) (simp add: aside_def life_of_def has_approval_def)

lemma aside_lives: "aside s s' \<Longrightarrow> lives m s \<Longrightarrow> lives m s'"
  by (auto simp: lives_def aside_life ids_used_def) (auto simp: aside_def)

lemma aside_find: "aside s s' \<Longrightarrow> find_change_execution s' i = find_change_execution s i"
  by (simp add: aside_def)

interpretation executions: row_store find_change_execution upd_execution ce_id
  by unfold_locales (auto simp: upd_execution_def get_upd_row dest: get_row_key)

lemma with_status_fields [simp]:
  "ce_id (with_status now st a err e) = ce_id e"
  "ce_status (with_status now st a err e) = st"
  "ce_requires_approval (with_status now st a err e) = ce_requires_approval e"
  by (simp_all add: with_status_def Let_def)

lemma upd_execution_ids: "ids_used (upd_execution i (with_status now st a err) s) \<longleftrightarrow> ids_used s"
  by (simp add: ids_used_def upd_execution_def upd_row_keys [where key = ce_id and P = "\<lambda>x. x < db_next_id s"])

lemma get_execution_Inr:
  "get_execution r s = (Inr e, s') \<longleftrightarrow> s' = s \<and> (\<exists>i. coerce_ref ''Change execution'' r = Inr i \<and> find_change_execution s i = Some e)"
  by (simp add: get_execution_def get_by_ref_Inr)

lemma found_key: "find_change_execution s i = Some e \<Longrightarrow> ce_id e = i"
  by (rule executions.get_key)

lemma get_execution_found:
  "get_execution r s = (Inr e, s') \<Longrightarrow> s' = s \<and> find_change_execution s (ce_id e) = Some e"
  by (auto simp: get_execution_Inr dest: found_key)

text \<open>An assignment of a status changes the life of the one execution.\<close>

lemma update_status_effect:
  assumes "update_execution_status now r st a err s = (Inr e', s')"
  obtains e where "get_execution r s = (Inr e, s)" "find_change_execution s (ce_id e) = Some e"
    "life_of s' = (life_of s)(ce_id e \<mapsto> Life st (ce_requires_approval e) (has_approval s (ce_id e)))"
    "ids_used s' \<longleftrightarrow> ids_used s" "find_change_execution s' (ce_id e) = Some e'" "ce_status e' = st"
    "ce_id e' = ce_id e" "ce_requires_approval e' = ce_requires_approval e"
proof -
  let ?f = "with_status now st a err"
  from assms(1) obtain e t where e: "get_execution r s = (Inr e, t)" and e': "e' = ?f e"
    and s': "s' = upd_execution (ce_id e) ?f t"
    by (auto simp: update_execution_status_def andThen_Inr)
  have t: "t = s" using e by (simp add: get_execution_found)
  note e = e [unfolded t] and s' = s' [unfolded t]
  note found = get_execution_found [OF e, THEN conjunct2]
  have upd: "find_change_execution s' j = (if ce_id e = j then Some e' else find_change_execution s j)" for j
    by (cases "ce_id e = j") (use found e' in \<open>auto simp: s' executions.get_upd\<close>)
  have app: "t_change_approval s' = t_change_approval s" by (simp add: s' upd_execution_def)
  have "life_of s' = (life_of s)(ce_id e \<mapsto> Life st (ce_requires_approval e) (has_approval s (ce_id e)))"
    by (rule ext) (auto simp: life_of_def upd has_approval_def app e')
  then show ?thesis using e found upd by (intro that) (simp_all add: s' upd_execution_ids e')
qed

lemma life_of_found:
  "find_change_execution s i = Some e \<Longrightarrow> life_of s i = Some (Life (ce_status e) (ce_requires_approval e) (has_approval s i))"
  by (simp add: life_of_def)

lemma set_status:
  assumes "update_execution_status now r st a err s = (Inr e', s')" "lives m s"
  obtains e b where "coerce_ref ''Change execution'' r = Inr (ce_id e)" "find_change_execution s (ce_id e) = Some e"
    "m (ce_id e) = Some (Life (ce_status e) (ce_requires_approval e) b)"
    "lives (m(ce_id e \<mapsto> Life st (ce_requires_approval e) b)) s'" "find_change_execution s' (ce_id e) = Some e'"
    "ce_status e' = st" "ce_id e' = ce_id e" "ce_requires_approval e' = ce_requires_approval e"
  using assms(1)
proof (rule update_status_effect)
  fix e assume e: "get_execution r s = (Inr e, s)" "find_change_execution s (ce_id e) = Some e"
    and rest: "life_of s' = (life_of s)(ce_id e \<mapsto> Life st (ce_requires_approval e) (has_approval s (ce_id e)))"
      "ids_used s' \<longleftrightarrow> ids_used s" "find_change_execution s' (ce_id e) = Some e'" "ce_status e' = st" "ce_id e' = ce_id e"
      "ce_requires_approval e' = ce_requires_approval e"
  from e(1) have "coerce_ref ''Change execution'' r = Inr (ce_id e)" by (auto simp: get_execution_Inr dest: found_key)
  then show ?thesis
    by (rule that) (use e(2) rest life_of_found [OF e(2)] assms(2) in \<open>auto simp: lives_def\<close>)
qed

lemma create_execution_row_lives:
  assumes "create_execution_row now t ct st md ds rq src ra rl rb s = (Inr e, s')" "lives m s"
  shows "m (ce_id e) = None \<and> (\<exists>b. lives (m(ce_id e \<mapsto> Life ''draft'' ra b)) s')"
proof -
  from assms(1) have e: "ce_id e = db_next_id s" "ce_status e = ''draft''" "ce_requires_approval e = ra"
    and s': "s' = s\<lparr>db_next_id := db_next_id s + 1, t_change_execution := t_change_execution s @ [e]\<rparr>"
    by (auto simp: create_execution_row_def andThen_Inr Let_def)
  from assms(2) have ids: "ids_used s" and m: "life_of s = m" by (simp_all add: lives_def)
  from ids have fresh: "find_change_execution s (ce_id e) = None"
    by (auto simp: get_row_None ids_used_def e)
  have "life_of s' = m(ce_id e \<mapsto> Life ''draft'' ra (has_approval s (ce_id e)))"
  proof (rule ext)
    fix j
    show "life_of s' j = (m(ce_id e \<mapsto> Life ''draft'' ra (has_approval s (ce_id e)))) j"
      using fresh e by (auto simp: m [symmetric] life_of_def s' get_row_append has_approval_def get_row_single split: option.splits)
  qed
  moreover have "m (ce_id e) = None" by (simp add: m [symmetric] life_of_def fresh)
  moreover have "ids_used s'" using ids by (auto simp: ids_used_def s' e less_Suc_eq)
  ultimately show ?thesis by (auto simp: lives_def)
qed

text \<open>Approvals: a new one is pending, and deciding one concerns its execution only.\<close>

lemma create_approval_lives:
  assumes "create_approval now r rq s = (Inr a, s')" "lives m s"
  shows "lives m s'" "t_change_execution s' = t_change_execution s" "a \<in> set (t_change_approval s')"
    "coerce_ref ''Change execution'' r = Inr (ap_execution_id a)"
proof -
  from assms(1) have a: "ap_id a = db_next_id s" "ap_status a = ''pending''"
      "coerce_ref ''Change execution'' r = Inr (ap_execution_id a)"
    and s': "s' = s\<lparr>db_next_id := db_next_id s + 1, t_change_approval := t_change_approval s @ [a]\<rparr>"
    by (auto simp: create_approval_def andThen_Inr Let_def)
  have "life_of s' = life_of s" by (rule ext) (auto simp: life_of_def s' has_approval_def a)
  moreover have "ids_used s \<Longrightarrow> ids_used s'" by (auto simp: ids_used_def s' a less_Suc_eq)
  ultimately show "lives m s'" using assms(2) by (simp add: lives_def)
qed (use assms(1) in \<open>auto simp: create_approval_def andThen_Inr Let_def\<close>)

lemma latest_approval_Some:
  assumes "latest_approval d i = Some a"
  shows "a \<in> set (t_change_approval d) \<and> ap_execution_id a = i"
proof -
  from assms obtain l where "rev (by_time ap_created_at (filter (\<lambda>a. ap_execution_id a = i) (t_change_approval d))) = a # l"
    by (auto simp: latest_approval_def split: list.splits)
  then have "a \<in> set (rev (by_time ap_created_at (filter (\<lambda>a. ap_execution_id a = i) (t_change_approval d))))"
    by simp
  then show ?thesis by (simp add: by_time_def)
qed

lemma latest_or_new_approval_lives:
  assumes "latest_or_new_approval now (RefId i) s = (Inr a, s')" "lives m s"
  shows "lives m s'" "t_change_execution s' = t_change_execution s" "a \<in> set (t_change_approval s')"
    "ap_execution_id a = i"
  using assms create_approval_lives [of now "RefId i" None s a s' m]
  by (auto simp: latest_or_new_approval_def andThen_Inr dest: latest_approval_Some split: option.splits)

lemma upd_approval_facts:
  assumes "ids_used s" "a \<in> set (t_change_approval s)" "\<And>a. ap_id (f a) = ap_id a"
    "\<And>a. ap_execution_id (f a) = ap_execution_id a"
  shows "ids_used (upd_approval (ap_id a) f s)"
    "j \<noteq> ap_execution_id a \<Longrightarrow> has_approval (upd_approval (ap_id a) f s) j = has_approval s j"
    "ap_status (f a) = ''approved'' \<Longrightarrow> has_approval (upd_approval (ap_id a) f s) (ap_execution_id a)"
    "ap_status (f a) \<noteq> ''approved'' \<Longrightarrow> has_approval (upd_approval (ap_id a) f s) j \<Longrightarrow> has_approval s j"
proof -
  have inj: "b = a" if "b \<in> set (t_change_approval s)" "ap_id b = ap_id a" for b
    using assms(1,2) that by (auto simp: ids_used_def distinct_map inj_on_def)
  show "ids_used (upd_approval (ap_id a) f s)"
    using assms(1) by (simp add: ids_used_def upd_approval_def map_upd_row assms(3)
        upd_row_keys [where key = ap_id and P = "\<lambda>x. x < db_next_id s"])
  show "has_approval (upd_approval (ap_id a) f s) j = has_approval s j" if "j \<noteq> ap_execution_id a"
    using that inj by (fastforce simp: has_approval_def upd_approval_def upd_row_def assms(4))
  show "has_approval (upd_approval (ap_id a) f s) (ap_execution_id a)" if "ap_status (f a) = ''approved''"
    unfolding has_approval_def
    by (rule bexI [of _ "f a"]) (use that assms(2) in \<open>auto simp: assms(4) upd_approval_def upd_row_def\<close>)
  show "has_approval s j" if "ap_status (f a) \<noteq> ''approved''" "has_approval (upd_approval (ap_id a) f s) j"
    using that inj by (auto simp: has_approval_def upd_approval_def upd_row_def split: if_splits)
qed

text \<open>Deciding the approval and then setting the status.\<close>

lemma decide_lives:
  assumes "update_execution_status now (RefId i) st act err (upd_approval (ap_id a) f s) = (Inr e', s')"
    "lives m s" "a \<in> set (t_change_approval s)" "ap_execution_id a = i"
    "\<And>a. ap_id (f a) = ap_id a" "\<And>a. ap_execution_id (f a) = ap_execution_id a"
    "find_change_execution s i = Some e"
  shows "\<exists>b b'. m i = Some (Life (ce_status e) (ce_requires_approval e) b) \<and>
    lives (m(i \<mapsto> Life st (ce_requires_approval e) b')) s' \<and>
    (ap_status (f a) = ''approved'' \<longrightarrow> b') \<and> (ap_status (f a) \<noteq> ''approved'' \<longrightarrow> b' \<longrightarrow> b)"
  using assms(1)
proof (rule update_status_effect)
  let ?t = "upd_approval (ap_id a) f s"
  from assms(2) have ids: "ids_used s" and m: "life_of s = m" by (simp_all add: lives_def)
  note facts = upd_approval_facts [OF ids assms(3,5,6)]
  have same: "find_change_execution ?t j = find_change_execution s j" for j by (simp add: upd_approval_def)
  fix e0 assume e0: "get_execution (RefId i) ?t = (Inr e0, ?t)"
    and life: "life_of s' = (life_of ?t)(ce_id e0 \<mapsto> Life st (ce_requires_approval e0) (has_approval ?t (ce_id e0)))"
    and ids': "ids_used s' \<longleftrightarrow> ids_used ?t"
  from e0 assms(7) have [simp]: "e0 = e" by (simp add: get_execution_Inr same)
  have i: "ce_id e = i" by (rule found_key [OF assms(7)])
  have "life_of s' = m(i \<mapsto> Life st (ce_requires_approval e) (has_approval ?t i))"
    unfolding life m [symmetric] using facts(2) by (auto simp: fun_eq_iff life_of_def same i assms(4))
  moreover have "m i = Some (Life (ce_status e) (ce_requires_approval e) (has_approval s i))"
    using life_of_found [OF assms(7)] by (simp add: m)
  ultimately show ?thesis using ids' facts(1,3) facts(4) [of i] assms(4) by (auto simp: lives_def)
qed

section \<open>The services\<close>

text \<open>
  \<open>stands m t e\<close>: the machine is at \<open>m\<close>, and the execution that \<open>t\<close> names has the row \<open>e\<close>.  \<open>replied q m\<close>: the machine has
  made the move of \<open>q\<close> since \<open>m\<close>.
\<close>

definition stands :: "(uuid \<Rightarrow> life option) \<Rightarrow> string \<Rightarrow> change_execution \<Rightarrow> db \<Rightarrow> bool" where
  "stands m t e s \<longleftrightarrow> lives m s \<and> find_change_execution s (ce_id e) = Some e \<and>
     coerce_uuid ''Change execution'' t = Inr (ce_id e)"

definition replied :: "change_request \<Rightarrow> (uuid \<Rightarrow> life option) \<Rightarrow> db \<Rightarrow> bool" where
  "replied q m s \<longleftrightarrow> ids_used s \<and> answered q m (life_of s)"

lemma repliedI: "answered q m m' \<Longrightarrow> lives m' s \<Longrightarrow> replied q m s"
  by (auto simp: replied_def lives_def)

lemma replied_ret: "triple (replied q m) (ret x) (\<lambda>_. replied q m)"
  by (rule triple_ret)

lemma aside_replied: "within aside act \<Longrightarrow> triple (replied q m) act (\<lambda>_. replied q m)"
  by (rule tripleI) (auto simp: replied_def aside_life ids_used_def dest!: withinD; auto simp: aside_def)

lemma aside_at: "within aside act \<Longrightarrow> triple (lives m) act (\<lambda>_. lives m)"
  by (rule tripleI) (blast intro: aside_lives dest: withinD)

lemma aside_stands: "within aside act \<Longrightarrow> triple (stands m t e) act (\<lambda>_. stands m t e)"
  by (rule tripleI) (auto simp: stands_def aside_find intro: aside_lives dest!: withinD)

lemma stands_get: "triple (lives m) (get_execution (RefText t)) (\<lambda>e. stands m t e)"
  by (rule tripleI) (auto simp: stands_def get_execution_Inr dest: found_key)

lemma set_status_id:
  "update_execution_status now (RefId (ce_id e)) st a err s = (Inr e', s') \<Longrightarrow> stands m t e s \<Longrightarrow>
   \<exists>b. m (ce_id e) = Some (Life (ce_status e) (ce_requires_approval e) b) \<and>
     lives (m(ce_id e \<mapsto> Life st (ce_requires_approval e) b)) s'"
  by (erule set_status [where m = m]) (auto simp: stands_def)

lemma stands_life:
  "stands m t e s \<Longrightarrow> \<exists>b. m (ce_id e) = Some (Life (ce_status e) (ce_requires_approval e) b)"
  using life_of_found [where s = s and i = "ce_id e"] by (auto simp: stands_def lives_def)

text \<open>A request that leaves its execution as it is, when the machine lets it.\<close>

lemma stands_ret:
  assumes "mover_of q = Some t"
    "\<And>b. move q (Life (ce_status e) (ce_requires_approval e) b) (Life (ce_status e) (ce_requires_approval e) b)"
  shows "triple (stands m t e) (ret x) (\<lambda>_. replied q m)"
proof (rule triple_ret)
  fix s assume s: "stands m t e s"
  obtain b where b: "m (ce_id e) = Some (Life (ce_status e) (ce_requires_approval e) b)" using stands_life [OF s] by blast
  note move = assms(2) [of b]
  from answered.step [where m = m and i = "ce_id e", OF assms(1) _ b move] s have "answered q m m" by (simp add: stands_def fun_upd_idem b)
  then show "replied q m s" using s by (auto simp: stands_def intro: repliedI)
qed

text \<open>A request that sets the status.\<close>

lemma stands_status:
  assumes "mover_of q = Some t"
    "\<And>b. move q (Life (ce_status e) (ce_requires_approval e) b) (Life st (ce_requires_approval e) b)"
  shows "triple (stands m t e) (update_execution_status now (RefId (ce_id e)) st a err) (\<lambda>_. replied q m)"
proof (rule tripleI)
  fix s e' s' assume s: "stands m t e s" and up: "update_execution_status now (RefId (ce_id e)) st a err s = (Inr e', s')"
  from set_status_id [OF up s] obtain b where "m (ce_id e) = Some (Life (ce_status e) (ce_requires_approval e) b)"
    "lives (m(ce_id e \<mapsto> Life st (ce_requires_approval e) b)) s'" by blast
  with answered.step [OF assms(1) _ _ assms(2)] s show "replied q m s'" by (auto simp: stands_def intro: repliedI)
qed

lemma check_status:
  assumes "st \<in> {''validated'', ''blocked''}"
  shows "triple (lives m) (update_execution_status now (RefText t) st a err) (\<lambda>_. replied (ValidateExecution t) m)"
proof (rule tripleI)
  fix s e' s' assume "lives m s" "update_execution_status now (RefText t) st a err s = (Inr e', s')"
  from this(2,1) show "replied (ValidateExecution t) m s'"
  proof (rule set_status)
    fix e b assume "coerce_ref ''Change execution'' (RefText t) = Inr (ce_id e)"
      and b: "m (ce_id e) = Some (Life (ce_status e) (ce_requires_approval e) b)"
      and l: "lives (m(ce_id e \<mapsto> Life st (ce_requires_approval e) b)) s'"
    then have i: "coerce_uuid ''Change execution'' t = Inr (ce_id e)" by simp
    have "move (ValidateExecution t) (Life (ce_status e) (ce_requires_approval e) b) (Life st (ce_requires_approval e) b)"
      using assms by auto
    from answered.step [where m = m and i = "ce_id e", OF _ i b this] l show ?thesis by (auto intro: repliedI)
  qed
qed

lemma create_execution_replied:
  "triple (lives m) (create_execution now p a) (\<lambda>_. replied (CreateExecution p) m)"
proof -
  have "triple (lives m) (create_execution_row now t ct st md ds rq src (cp_requires_approval p) rl rb) (\<lambda>_. replied (CreateExecution p) m)"
    for t ct st md ds rq src rl rb
    by (rule tripleI) (auto dest!: create_execution_row_lives intro: repliedI answered.create)
  then show ?thesis
    unfolding create_execution_def
    by (rule triple_andThen) (intro triple_seq replied_ret aside_replied add_audit_event_aside)
qed

lemma validate_execution_replied:
  "triple (lives m) (validate_execution now (RefText t) a) (\<lambda>_. replied (ValidateExecution t) m)"
  unfolding validate_execution_def
  apply (rule triple_seq [OF aside_at [OF build_validation_report_aside]])
  apply (rule triple_andThen [where R = "\<lambda>_. replied (ValidateExecution t) m"])
   apply (rule triple_if)
    apply (rule triple_andThen [OF check_status], simp)
    apply (intro triple_seq replied_ret aside_replied add_audit_event_aside)
   apply (rule triple_andThen [OF check_status], simp)
   apply (intro triple_seq replied_ret aside_replied add_audit_event_aside)
  apply (intro triple_seq replied_ret aside_replied add_audit_event_aside build_validation_report_aside)
  done

lemma pending_stands:
  "triple (stands m t e) (create_approval now (RefId (ce_id e)) rq) (\<lambda>_. stands m t e)"
  by (rule tripleI) (auto simp: stands_def dest: create_approval_lives(1,2))

lemma submit_replied:
  "triple (lives m) (submit_for_approval now (RefText t) a) (\<lambda>_. replied (SubmitForApproval t) m)"
  unfolding submit_for_approval_def
  apply (rule triple_andThen [OF stands_get])
  apply (rule triple_seq [OF aside_stands [OF build_validation_report_aside]])
  apply (rule triple_unless_then)
  apply (rule triple_seq [OF aside_stands [OF aside.within_basic(3)]])
  apply (rule triple_unless_then)
  apply (rule triple_if)
   apply (rule triple_andThen [OF stands_status [where q = "SubmitForApproval t"]], simp, simp)
   apply (intro triple_seq replied_ret aside_replied add_audit_event_aside)
  apply (rule triple_seq [OF pending_stands])
  apply (rule triple_andThen [OF stands_status [where q = "SubmitForApproval t"]], simp, simp)
  apply (intro triple_seq replied_ret aside_replied add_audit_event_aside)
  done

lemma decide_replied:
  assumes "\<And>a. ap_id (f a) = ap_id a" "\<And>a. ap_execution_id (f a) = ap_execution_id a" "mover_of q = Some t"
    "\<And>a b b'. (ap_status (f a) = ''approved'' \<longrightarrow> b') \<Longrightarrow> (ap_status (f a) \<noteq> ''approved'' \<longrightarrow> b' \<longrightarrow> b) \<Longrightarrow>
       move q (Life (ce_status e) (ce_requires_approval e) b) (Life st (ce_requires_approval e) b')"
  shows "triple (stands m t e)
     (andThen (latest_or_new_approval now (RefId (ce_id e))) (\<lambda>a.
      andThen (change (upd_approval (ap_id a) f)) (\<lambda>_.
      andThen (update_execution_status now (RefId (ce_id e)) st act None) (\<lambda>_. ret (f a))))) (\<lambda>_. replied q m)"
proof (rule tripleI)
  fix s x s'
  assume s: "stands m t e s" and "andThen (latest_or_new_approval now (RefId (ce_id e))) (\<lambda>a.
      andThen (change (upd_approval (ap_id a) f)) (\<lambda>_.
      andThen (update_execution_status now (RefId (ce_id e)) st act None) (\<lambda>_. ret (f a)))) s = (Inr x, s')"
  then obtain a s1 e' where a: "latest_or_new_approval now (RefId (ce_id e)) s = (Inr a, s1)"
    and up: "update_execution_status now (RefId (ce_id e)) st act None (upd_approval (ap_id a) f s1) = (Inr e', s')"
    by (auto simp: andThen_Inr)
  from s have on: "lives m s" and found: "find_change_execution s (ce_id e) = Some e"
    and t: "coerce_uuid ''Change execution'' t = Inr (ce_id e)"
    by (simp_all add: stands_def)
  note app = latest_or_new_approval_lives [OF a on]
  from decide_lives [OF up app(1,3,4) assms(1,2), of e] found app(2) obtain b b' where
    l: "m (ce_id e) = Some (Life (ce_status e) (ce_requires_approval e) b)"
      "lives (m(ce_id e \<mapsto> Life st (ce_requires_approval e) b')) s'"
    and b: "ap_status (f a) = ''approved'' \<longrightarrow> b'" "ap_status (f a) \<noteq> ''approved'' \<longrightarrow> b' \<longrightarrow> b" by auto
  note move = assms(4) [OF b]
  from answered.step [where m = m and i = "ce_id e", OF assms(3) t l(1) move] l(2) show "replied q m s'"
    by (rule repliedI)
qed

lemma approve_replied:
  "triple (lives m) (approve_execution now (RefText t) c a) (\<lambda>_. replied (ApproveExecution t c) m)"
  unfolding approve_execution_def approve_execution_row_def
  apply (rule triple_andThen [OF stands_get])
  apply (rule triple_if)
   apply (rule stands_ret; simp)
  apply (rule triple_unless_then)
  apply (rule triple_andThen [OF decide_replied [where q = "ApproveExecution t c"]])
      apply (simp_all add: approve_row_def)
  apply (intro triple_seq aside_replied add_audit_event_aside reads_aside)
  done

lemma reject_replied:
  "triple (lives m) (reject_execution now (RefText t) c a) (\<lambda>_. replied (RejectExecution t c) m)"
  unfolding reject_execution_def reject_execution_row_def
  apply (rule triple_andThen [OF stands_get])
  apply (rule triple_unless_then)
  apply (rule triple_andThen [OF decide_replied [where q = "RejectExecution t c"]])
      apply (simp_all add: reject_row_def)
  apply (intro triple_seq aside_replied add_audit_event_aside reads_aside)
  done

lemma mark_ready_replied: "triple (lives m) (mark_ready now (RefText t) a) (\<lambda>_. replied (MarkReady t) m)"
  unfolding mark_ready_def
  apply (rule triple_andThen [OF stands_get])
  apply (rule triple_unless_then)
  apply (rule triple_seq [OF aside_stands [OF build_validation_report_aside]])
  apply (rule triple_unless_then)
  apply (rule triple_seq [OF aside_stands [OF aside.within_basic(3)]])
  apply (intro triple_unless_then)
  apply (rule triple_andThen [OF stands_status [where q = "MarkReady t"]], simp, simp)
  apply (intro triple_seq replied_ret aside_replied add_audit_event_aside)
  done

lemma cancel_replied: "triple (lives m) (cancel_execution now (RefText t) a) (\<lambda>_. replied (CancelExecution t) m)"
  unfolding cancel_execution_def
  apply (rule triple_andThen [OF stands_get])
  apply (rule triple_if)
   apply (rule stands_ret; simp)
  apply (rule triple_seq [OF aside_stands [OF release_locks_row_aside]])
  apply (rule triple_andThen [OF stands_status [where q = "CancelExecution t"]], simp, simp)
  apply (intro triple_seq replied_ret aside_replied add_audit_event_aside)
  done

text \<open>While it is simulated an execution has a status that no answer shows.\<close>

definition simulating :: "(uuid \<Rightarrow> life option) \<Rightarrow> string \<Rightarrow> uuid \<Rightarrow> db \<Rightarrow> bool" where
  "simulating m t i s \<longleftrightarrow> (\<exists>r b. m i = Some (Life ''ready'' r b) \<and> lives (m(i \<mapsto> Life ''simulating'' r b)) s) \<and>
     coerce_uuid ''Change execution'' t = Inr i"

lemma simulating_aside: "within aside act \<Longrightarrow> triple (simulating m t i) act (\<lambda>_. simulating m t i)"
  by (rule tripleI) (auto simp: simulating_def intro: aside_lives dest: withinD)

lemma simulating_start:
  assumes "ce_status e = ''ready''"
  shows "triple (stands m t e) (update_execution_status now (RefId (ce_id e)) ''simulating'' a err) (\<lambda>_. simulating m t (ce_id e))"
proof (rule tripleI)
  fix s e' s' assume s: "stands m t e s" and up: "update_execution_status now (RefId (ce_id e)) ''simulating'' a err s = (Inr e', s')"
  from set_status_id [OF up s] obtain b where "m (ce_id e) = Some (Life (ce_status e) (ce_requires_approval e) b)"
    "lives (m(ce_id e \<mapsto> Life ''simulating'' (ce_requires_approval e) b)) s'" by blast
  with s assms show "simulating m t (ce_id e) s'" by (auto simp: stands_def simulating_def)
qed

lemma simulating_finish:
  "triple (simulating m t i) (update_execution_status now (RefId i) ''simulated'' a err) (\<lambda>_. replied (SimulateExecution t) m)"
proof (rule tripleI)
  fix s e' s' assume "simulating m t i s" and up: "update_execution_status now (RefId i) ''simulated'' a err s = (Inr e', s')"
  then obtain r b where m: "m i = Some (Life ''ready'' r b)" "lives (m(i \<mapsto> Life ''simulating'' r b)) s"
    and t: "coerce_uuid ''Change execution'' t = Inr i" by (auto simp: simulating_def)
  from up m(2) have "lives (m(i \<mapsto> Life ''simulated'' r b)) s'" by (rule set_status) auto
  moreover have "move (SimulateExecution t) (Life ''ready'' r b) (Life ''simulated'' r b)" by simp
  from answered.step [where m = m and i = i, OF _ t m(1) this]
  have "answered (SimulateExecution t) m (m(i \<mapsto> Life ''simulated'' r b))" by simp
  ultimately show "replied (SimulateExecution t) m s'" by (blast intro: repliedI)
qed

lemma simulate_replied:
  "triple (lives m) (simulate_execution now (RefText t) a) (\<lambda>_. replied (SimulateExecution t) m)"
  unfolding simulate_execution_def
  apply (rule triple_andThen [OF stands_get])
  apply (intro triple_unless_then)
  apply (rule triple_seq [OF aside_stands [OF aside.within_basic(3)]])
  apply (rule triple_unless_then)
  apply (rule triple_andThen [OF simulating_start], assumption)
  apply (rule triple_seq [OF simulating_aside [OF add_audit_event_aside]])
  apply (rule triple_seq [OF simulating_aside [OF aside.within_for_each [OF simulate_step_aside]]])
  apply (rule triple_andThen [OF simulating_finish])
  apply (intro triple_seq aside_replied add_audit_event_aside build_simulation_report_aside)
  done

section \<open>Requests and runs\<close>

text \<open>A request that moves nothing is answered where the machine stands.\<close>

lemma stay_replied:
  assumes "mover_of q = None" "\<And>p. q \<noteq> CreateExecution p" "within aside act"
  shows "triple (lives m) act (\<lambda>_. replied q m)"
proof (rule tripleI)
  fix s x s' assume "lives m s" "act s = (Inr x, s')"
  then have "lives m s'" by (blast intro: aside_lives dest: withinD [OF assms(3)])
  with answered.stay [OF assms(1,2)] show "replied q m s'" by (blast intro: repliedI)
qed

lemma answer_replied: "triple P act (\<lambda>_. replied q m) \<Longrightarrow> triple P (answer f act) (\<lambda>_. replied q m)"
  unfolding answer_def by (erule triple_andThen) (rule replied_ret)

lemma service_replied: "triple (lives m) (service now a q) (\<lambda>_. replied q m)"
  by (cases q) (simp_all add: service_def answer_replied stay_replied
      create_execution_replied validate_execution_replied submit_replied approve_replied
      reject_replied mark_ready_replied simulate_replied cancel_replied
      build_plan_aside reserve_locks_aside build_validation_report_aside build_simulation_report_aside reads_aside)

text \<open>An error changes nothing, and an answer is the move of the request.\<close>

lemma serve_answered:
  assumes "ids_used s"
  shows "case serve now a q s of
      (Inl _, s') \<Rightarrow> s' = s
    | (Inr _, s') \<Rightarrow> answered q (life_of s) (life_of s') \<and> ids_used s'"
proof (cases "serve now a q s")
  case (Pair r s')
  show ?thesis
  proof (cases r)
    case (Inl e)
    with Pair serve_Inl [of now a q s e s'] show ?thesis by simp
  next
    case (Inr x)
    have "lives (life_of s) s" using assms by (simp add: lives_def)
    from tripleD [OF service_replied this serve_Inr(2) [OF Pair [unfolded Inr]]] Pair Inr show ?thesis
      by (simp add: replied_def)
  qed
qed

text \<open>What a sequence of requests, each with its time and actor, leaves behind.\<close>

fun served :: "(int \<times> actor \<times> change_request) list \<Rightarrow> db \<Rightarrow> db" where
  "served [] s = s"
| "served ((now, a, q) # qs) s = served qs (snd (serve now a q s))"

lemma serve_ids: "ids_used s \<Longrightarrow> ids_used (snd (serve now a q s))"
  using serve_answered [where s = s and now = now and a = a and q = q] by (auto split: prod.splits sum.splits)

lemma serve_gated:
  assumes "ids_used s" "\<And>i l. life_of s i = Some l \<Longrightarrow> gated l" "life_of (snd (serve now a q s)) i = Some l"
  shows "gated l"
  using serve_answered [where now = now and a = a and q = q, OF assms(1)] assms(2,3)
  by (auto dest: answered_gated split: prod.splits sum.splits)

lemma served_ids: "ids_used s \<Longrightarrow> ids_used (served qs s)"
  by (induction qs s rule: served.induct) (auto intro: serve_ids)

lemma served_gated:
  "ids_used s \<Longrightarrow> \<forall>i l. life_of s i = Some l \<longrightarrow> gated l \<Longrightarrow> life_of (served qs s) i = Some l \<Longrightarrow> gated l"
proof (induction qs s rule: served.induct)
  case (2 now a q qs s)
  then show ?case using serve_ids [of s now a q] serve_gated [of s now a q] by auto
qed simp

end
