(* ===== verification/ChangeRuns.thy ===== *)
theory ChangeRuns
  imports ChangeLifecycle
begin

text \<open>
  What holds of every run of requests against the change-execution API, with an example run
  that takes a composite change from its creation to its simulation.
\<close>

section \<open>An example run\<close>

definition admin_actor :: actor where
  "admin_actor = \<lparr>username = ''root'', roles = {Role_admin}\<rparr>"

definition composite_payload :: create_payload where
  "composite_payload = \<lparr>cp_title = ''core uplink'', cp_description = None, cp_mode = ''simulation'',
     cp_change_type = ''composite'', cp_source_type = ''composite'', cp_source_id = None,
     cp_requires_approval = True, cp_requires_lab_validation = True, cp_requires_fresh_backup = True\<rparr>"

definition first_id :: string where
  "first_id = uuid_str 100"

definition sample_requests :: "change_request list" where
  "sample_requests = [CreateExecution composite_payload, ValidateExecution first_id, BuildPlan first_id,
     SubmitForApproval first_id, ApproveExecution first_id None, ReserveLocks first_id, MarkReady first_id,
     SimulateExecution first_id]"

definition sample_run :: "(int \<times> actor \<times> change_request) list" where
  "sample_run = map (\<lambda>q. (0, admin_actor, q)) sample_requests"

lemma first_uuid: "coerce_uuid name first_id = Inr 100"
  using coerce_ref_text [of 100 name] by (simp add: first_id_def)

lemma admin_permissions: "p \<in> permissions admin_actor"
  by (simp add: permissions_def admin_actor_def all_permissions_UNIV)

lemmas action_simps = andThen_def ret_def raise_def asks_def query_def change_def unless_def answer_def

lemmas request_simps = api_defs endpoint_def committed_def action_simps admin_permissions first_uuid
  require_permission_def Let_def optional_ref_def fresh_id_def get_by_ref_def

lemmas row_simps = create_execution_row_def get_execution_def update_execution_status_def with_status_def
  upd_execution_def upd_step_def upd_approval_def upd_row_def get_row_def add_audit_event_def steps_of_def
  get_step_def create_steps_def create_step_def create_approval_def latest_or_new_approval_def
  latest_approval_def approve_execution_row_def approve_row_def locks_of_def by_time_def
  create_locks_def update_step_status_def with_step_status_def update_step_output_def with_output_def

lemmas check_simps = build_validation_report_def build_report_def target_devices_def source_object_def
  all_errors_def validate_fresh_backups_def validate_lab_validations_def validate_locks_def
  validate_mode_def validate_source_exists_def validate_source_ready_def has_required_locks_def

lemmas service_simps = check_payload_def create_execution_def validate_execution_def build_plan_def
  build_execution_plan_def build_steps_for_source_def build_composite_steps_def base_steps_def
  bare_step_def finalize_step_def submit_for_approval_def approve_execution_def get_execution_read_def
  reserve_locks_def source_lock_plan_def mark_ready_def

lemmas sample_simps = sample_run_def sample_requests_def composite_payload_def empty_db_def

lemma sample_run_ready:
  "\<exists>e. find_change_execution (served (take 7 sample_run) empty_db) 100 = Some e \<and>
       ce_requires_approval e \<and> ce_status e = ''ready''"
  by (simp add: sample_simps request_simps row_simps check_simps service_simps)

section \<open>Reading requests\<close>

interpretation unchanged: progress "(=) :: db \<Rightarrow> db \<Rightarrow> bool"
  by unfold_locales auto

lemma reads_unchanged:
  "within (=) (build_validation_report now r)" "within (=) (build_simulation_report r)"
  "within (=) list_all_executions" "within (=) (get_execution_read r)" "within (=) (get_steps_read r)"
  "within (=) (get_locks_read r)" "within (=) (list_audit_events_read r)" "within (=) (get_full_report now r)"
  unfolding get_full_report_def build_validation_report_def build_simulation_report_def list_all_executions_def
    get_execution_read_def get_steps_read_def get_locks_read_def list_audit_events_read_def
    list_audit_events_def repository_reads get_by_ref_def
  by (intro unchanged.within_intros)+

lemma read_service_unchanged:
  "needed_permission q = Perm_read_change_executions \<Longrightarrow> within (=) (service now a q)"
  by (cases q) (simp_all add: service_def answer_def unchanged.within_andThen unchanged.within_basic reads_unchanged)

section \<open>Properties\<close>

text \<open>
  C10: no request changes the database without its permission.  A request that is refused, that
  fails at any point or that only reads leaves every table as it was; any other needs an actor
  whose roles grant the permission of its endpoint.
\<close>

theorem requests_need_permission:
  "snd (serve now a q s) = s \<or>
   needed_permission q \<in> permissions a \<and> needed_permission q \<noteq> Perm_read_change_executions \<and>
   (\<exists>x. fst (serve now a q s) = Inr x)"
proof (cases "serve now a q s")
  case (Pair r s')
  show ?thesis
  proof (cases r)
    case (Inl e)
    with Pair show ?thesis using serve_Inl [of now a q s e s'] by simp
  next
    case (Inr x)
    note ok = serve_Inr [OF Pair [unfolded Inr]]
    show ?thesis
    proof (cases "needed_permission q = Perm_read_change_executions")
      case True
      have "s = s'" by (rule withinD [OF read_service_unchanged [OF True] ok(2)])
      with Pair have "snd (serve now a q s) = s" by (metis snd_conv)
      then show ?thesis ..
    qed (simp add: Pair Inr ok(1))
  qed
qed

text \<open>
  C9: the requests follow the life cycle, each by its own move.  In whatever state a run of requests has led to, a
  request that fails changes nothing, and one that is answered makes exactly the move that the abstract machine has for
  it: creation adds a draft; the execution that a validation, submission, approval, rejection, readiness, simulation or
  cancellation names, and no other, goes from a status in which this request is allowed to the status it leads to; and
  the other requests move nothing.  So an execution is approved only by an approval while it is pending, or by a
  submission when it requires none, ready only out of approved or ready, and simulated only out of ready.
\<close>

theorem requests_follow_lifecycle:
  assumes "ids_used s"
  shows "case serve now a q (served qs s) of
      (Inl _, s') \<Rightarrow> s' = served qs s
    | (Inr _, s') \<Rightarrow> answered q (life_of (served qs s)) (life_of s') \<and> ids_used s'"
  by (rule serve_answered [OF served_ids [OF assms]])

lemma empty_ids: "ids_used empty_db"
  by (simp add: ids_used_def empty_db_def)

lemma sample_run_cancelled:
  "\<exists>x. fst (serve 0 admin_actor (CancelExecution first_id) (served (take 7 sample_run) empty_db)) = Inr x"
  by (simp add: sample_simps request_simps row_simps check_simps service_simps cancel_execution_def release_locks_row_def
      get_locks_def upd_lock_def)

theorem requests_follow_lifecycle_witness:
  "\<exists>l. life_of (served (take 7 sample_run) empty_db) 100 = Some l \<and> l_status l = ''ready'' \<and>
     life_of (snd (serve 0 admin_actor (CancelExecution first_id) (served (take 7 sample_run) empty_db))) 100
       = Some (goes_to l ''cancelled'')"
proof -
  let ?s = "served (take 7 sample_run) empty_db"
  obtain x s' where run: "serve 0 admin_actor (CancelExecution first_id) ?s = (Inr x, s')"
    using sample_run_cancelled by (metis prod.collapse)
  have "answered (CancelExecution first_id) (life_of ?s) (life_of s')"
    using requests_follow_lifecycle [OF empty_ids, where now = 0 and a = admin_actor and q = "CancelExecution first_id"
        and qs = "take 7 sample_run"] unfolding run by simp
  then obtain l l' where l: "life_of ?s 100 = Some l" "move (CancelExecution first_id) l l'"
    "life_of s' = (life_of ?s)(100 \<mapsto> l')"
    by (rule answeredE) (simp_all add: first_uuid)
  moreover have "l_status l = ''ready''" using l(1) sample_run_ready by (auto simp: life_of_def)
  ultimately show ?thesis unfolding run by simp
qed

text \<open>
  C6: nothing that requires approval gets past it.  In a database in which every such execution
  that is approved, ready, being simulated or simulated has an approved approval, this stays
  so whatever requests come in.
\<close>

theorem approval_before_readiness:
  assumes "ids_used s" "\<forall>i l. life_of s i = Some l \<longrightarrow> gated l"
    and "find_change_execution (served qs s) i = Some e" "ce_requires_approval e"
    and "ce_status e \<in> {''approved'', ''ready'', ''simulating'', ''simulated''}"
  shows "\<exists>a\<in>set (t_change_approval (served qs s)). ap_execution_id a = i \<and> ap_status a = ''approved''"
proof -
  have "gated (Life (ce_status e) (ce_requires_approval e) (has_approval (served qs s) i))"
    by (rule served_gated [OF assms(1,2) life_of_found [OF assms(3)]])
  with assms(4,5) show ?thesis by (auto simp: gated_def has_approval_def)
qed

theorem approval_before_readiness_witness:
  "\<exists>a\<in>set (t_change_approval (served (take 7 sample_run) empty_db)).
     ap_execution_id a = 100 \<and> ap_status a = ''approved''"
proof -
  have empty: "\<forall>i l. life_of empty_db i = Some l \<longrightarrow> gated l"
    by (simp add: life_of_def empty_db_def get_row_def)
  from sample_run_ready obtain e where
    e: "find_change_execution (served (take 7 sample_run) empty_db) 100 = Some e"
      "ce_requires_approval e" "ce_status e = ''ready''" by blast
  show ?thesis by (rule approval_before_readiness [OF empty_ids empty e(1,2)]) (simp add: e(3))
qed

end
