(* ===== verification/ChangeLocks.thy ===== *)
theory ChangeLocks
  imports ChangeRuns
begin

text \<open>
  The reservations of change executions exclude each other, and the audit trail of change
  executions only grows: two invariants of every run of requests.
\<close>

section \<open>The audit trail\<close>

definition trail_grows :: "db \<Rightarrow> db \<Rightarrow> bool" where
  "trail_grows s s' \<longleftrightarrow> prefix (t_change_event s) (t_change_event s')"

interpretation trail: progress trail_grows
  by unfold_locales (auto simp: trail_grows_def)

lemma trail_basic:
  "within trail_grows (get_by_ref look name r)" "within trail_grows fresh_id"
  "within trail_grows (change (upd_execution i fe))" "within trail_grows (change (upd_step i fs))"
  "within trail_grows (change (upd_lock i fl))" "within trail_grows (change (upd_approval i fa))"
  "within trail_grows (change (\<lambda>d. d\<lparr>t_change_execution := t_change_execution d @ es\<rparr>))"
  "within trail_grows (change (\<lambda>d. d\<lparr>t_change_step := t_change_step d @ ss\<rparr>))"
  "within trail_grows (change (\<lambda>d. d\<lparr>t_change_lock := t_change_lock d @ ls\<rparr>))"
  "within trail_grows (change (\<lambda>d. d\<lparr>t_change_approval := t_change_approval d @ ps\<rparr>))"
  "within trail_grows (change (\<lambda>d. d\<lparr>t_change_event := t_change_event d @ vs\<rparr>))"
  by (auto simp: within_def get_by_ref_def query_def fresh_id_def change_def trail_grows_def
      upd_execution_def upd_step_def upd_lock_def upd_approval_def)

lemmas repository_defs = get_execution_def get_step_def get_steps_def get_locks_def list_audit_events_def
  create_execution_row_def update_execution_status_def create_steps_def
  update_step_status_def update_step_output_def create_locks_def release_locks_row_def
  create_approval_def latest_or_new_approval_def approve_execution_row_def reject_execution_row_def
  add_audit_event_def

lemmas operation_defs = create_execution_def list_all_executions_def get_execution_read_def get_steps_read_def
  get_locks_read_def list_audit_events_read_def build_plan_def build_execution_plan_def
  submit_for_approval_def approve_execution_def reject_execution_def reserve_locks_def mark_ready_def
  cancel_execution_def get_full_report_def build_validation_report_def validate_execution_def
  simulate_execution_def build_simulation_report_def

lemma create_row_trail:
  "within trail_grows (create_step now i p)" "within trail_grows (create_lock now i p')"
  unfolding create_step_def create_lock_def Let_def by (intro trail.within_intros trail_basic)+

lemma service_trail: "within trail_grows (service now a q)"
  by (cases q; simp only: service_def change_request.case answer_def operation_defs simulate_step_def repository_defs Let_def;
      intro trail.within_intros trail_basic create_row_trail)

section \<open>Reservations\<close>

text \<open>What a lock row is about, apart from its status.\<close>

definition same_lock :: "change_lock \<Rightarrow> change_lock \<Rightarrow> bool" where
  "same_lock l l' \<longleftrightarrow> lk_execution_id l = lk_execution_id l' \<and> lk_lock_type l = lk_lock_type l' \<and>
     lk_target_type l = lk_target_type l' \<and> lk_target_id l = lk_target_id l' \<and> lk_device_id l = lk_device_id l'"

text \<open>No new reservations: every lock was there, and a reserved one was reserved.\<close>

definition eased :: "db \<Rightarrow> db \<Rightarrow> bool" where
  "eased s s' \<longleftrightarrow> (\<forall>l'\<in>set (t_change_lock s'). \<exists>l\<in>set (t_change_lock s). same_lock l l' \<and>
     (lk_status l' = ''reserved'' \<longrightarrow> lk_status l = ''reserved''))"

interpretation eased: progress eased
proof
  show "eased s s" for s by (auto simp: eased_def same_lock_def)
  show "eased s u" if "eased s t" "eased t u" for s t u
    unfolding eased_def
  proof
    fix l' assume "l' \<in> set (t_change_lock u)"
    with that(2) obtain k where k: "k \<in> set (t_change_lock t)" "same_lock k l'"
      "lk_status l' = ''reserved'' \<longrightarrow> lk_status k = ''reserved''" by (auto simp: eased_def)
    with that(1) obtain l where "l \<in> set (t_change_lock s)" "same_lock l k"
      "lk_status k = ''reserved'' \<longrightarrow> lk_status l = ''reserved''" by (auto simp: eased_def)
    with k show "\<exists>l\<in>set (t_change_lock s). same_lock l l' \<and> (lk_status l' = ''reserved'' \<longrightarrow> lk_status l = ''reserved'')"
      by (auto simp: same_lock_def)
  qed
qed

lemma release_row_facts:
  "same_lock l (release_row now l)" "lk_status (release_row now l) = ''reserved'' \<longleftrightarrow> False"
  by (auto simp: release_row_def same_lock_def)

lemma eased_basic:
  "within eased (get_by_ref look name r)" "within eased fresh_id"
  "within eased (change (upd_execution i fe))" "within eased (change (upd_step i fs))"
  "within eased (change (upd_lock i (release_row now)))" "within eased (change (upd_approval i fa))"
  "within eased (change (\<lambda>d. d\<lparr>t_change_execution := t_change_execution d @ es\<rparr>))"
  "within eased (change (\<lambda>d. d\<lparr>t_change_step := t_change_step d @ ss\<rparr>))"
  "within eased (change (\<lambda>d. d\<lparr>t_change_approval := t_change_approval d @ ps\<rparr>))"
  "within eased (change (\<lambda>d. d\<lparr>t_change_event := t_change_event d @ vs\<rparr>))"
  using release_row_facts
  by (auto simp: within_def get_by_ref_def query_def fresh_id_def change_def eased_def
      upd_execution_def upd_step_def upd_lock_def upd_row_def upd_approval_def same_lock_def)

lemma create_step_eased: "within eased (create_step now i p)"
  unfolding create_step_def Let_def by (intro eased.within_intros eased_basic)

lemma service_eased: "(\<nexists>i. q = ReserveLocks i) \<Longrightarrow> within eased (service now a q)"
  by (cases q; simp only: service_def change_request.case answer_def operation_defs simulate_step_def repository_defs Let_def;
      (intro eased.within_intros eased_basic create_step_eased)?) simp_all

section \<open>Exclusion\<close>

definition well_shaped :: "change_lock \<Rightarrow> bool" where
  "well_shaped l \<longleftrightarrow>
     lk_lock_type l = ''device'' \<and> lk_target_type l = ''device'' \<and> lk_device_id l \<noteq> None \<and>
       lk_target_id l = lk_device_id l \<or>
     lk_lock_type l = ''workflow'' \<and> lk_device_id l = None \<and> lk_target_id l \<noteq> None"

definition same_target :: "change_lock \<Rightarrow> change_lock \<Rightarrow> bool" where
  "same_target l l' \<longleftrightarrow> lk_lock_type l = lk_lock_type l' \<and> lk_target_type l = lk_target_type l' \<and>
     lk_target_id l = lk_target_id l'"

definition reserved :: "change_lock \<Rightarrow> bool" where
  "reserved l \<longleftrightarrow> lk_status l = ''reserved''"

definition exclusive :: "db \<Rightarrow> bool" where
  "exclusive d \<longleftrightarrow> (\<forall>l\<in>set (t_change_lock d). well_shaped l) \<and>
     (\<forall>l\<in>set (t_change_lock d). \<forall>l'\<in>set (t_change_lock d).
        reserved l \<and> reserved l' \<and> same_target l l' \<longrightarrow> lk_execution_id l = lk_execution_id l')"

lemma eased_exclusive:
  assumes "eased s s'" "exclusive s"
  shows "exclusive s'"
proof -
  have old: "\<exists>l\<in>set (t_change_lock s). same_lock l l' \<and> (reserved l' \<longrightarrow> reserved l)"
    if "l' \<in> set (t_change_lock s')" for l'
    using assms(1) that by (auto simp: eased_def reserved_def)
  have "well_shaped l'" if l': "l' \<in> set (t_change_lock s')" for l'
  proof -
    from old [OF l'] obtain l where l: "l \<in> set (t_change_lock s)" "same_lock l l'" by blast
    from l(1) assms(2) have "well_shaped l" by (simp add: exclusive_def)
    with l(2) show ?thesis by (simp add: well_shaped_def same_lock_def)
  qed
  moreover have "lk_execution_id l' = lk_execution_id k'"
    if l': "l' \<in> set (t_change_lock s')" and k': "k' \<in> set (t_change_lock s')"
      and res: "reserved l'" "reserved k'" "same_target l' k'" for l' k'
  proof -
    from old [OF l'] res(1) obtain l where l: "l \<in> set (t_change_lock s)" "same_lock l l'" "reserved l" by blast
    from old [OF k'] res(2) obtain k where k: "k \<in> set (t_change_lock s)" "same_lock k k'" "reserved k" by blast
    from l k res(3) have "same_target l k" by (auto simp: same_target_def same_lock_def)
    with l(1,3) k(1,3) assms(2) have "lk_execution_id l = lk_execution_id k"
      unfolding exclusive_def by blast
    with l k show ?thesis by (simp add: same_lock_def)
  qed
  ultimately show ?thesis unfolding exclusive_def by blast
qed

lemma find_reserved_lock_None:
  "find_reserved_lock d lt tt e t dev = None \<longleftrightarrow> (\<forall>l\<in>set (t_change_lock d). \<not> conflicting lt tt e t dev l)"
proof -
  let ?xs = "rev (by_time lk_created_at (filter (conflicting lt tt e t dev) (t_change_lock d)))"
  have "find_reserved_lock d lt tt e t dev = None \<longleftrightarrow> set ?xs = {}"
    by (simp add: find_reserved_lock_def split: list.split)
  also have "set ?xs = {l \<in> set (t_change_lock d). conflicting lt tt e t dev l}" by (simp add: by_time_def)
  finally show ?thesis by auto
qed

text \<open>The rows that \<open>create_locks\<close> adds for the plans of \<open>reserve_locks\<close>.\<close>

definition lock_of_plan :: "uuid \<Rightarrow> lock_plan \<Rightarrow> change_lock \<Rightarrow> bool" where
  "lock_of_plan i p l \<longleftrightarrow> lk_execution_id l = i \<and> lk_lock_type l = lp_lock_type p \<and>
     lk_target_type l = lp_target_type p \<and> map_option RefId (lk_target_id l) = lp_target_id p \<and>
     map_option RefId (lk_device_id l) = lp_device_id p"

definition parsed_plan :: "lock_plan \<Rightarrow> bool" where
  "parsed_plan p \<longleftrightarrow> lp_target_id p \<in> insert None (range (Some \<circ> RefId)) \<and>
     lp_device_id p \<in> insert None (range (Some \<circ> RefId))"

lemma optional_ref_parsed:
  "optional_ref n None = Inr u \<longleftrightarrow> u = None" "optional_ref n (Some (RefId x)) = Inr u \<longleftrightarrow> u = Some x"
  by (auto simp: optional_ref_def)

lemma create_locks_rows:
  "for_each (create_lock now i) ps s = (Inr ls, s') \<Longrightarrow> \<forall>p\<in>set ps. parsed_plan p \<Longrightarrow>
     t_change_lock s' = t_change_lock s @ ls \<and> (\<forall>l\<in>set ls. \<exists>p\<in>set ps. lock_of_plan i p l)"
proof (induction ps arbitrary: s ls)
  case (Cons p ps)
  then obtain l s1 ks where l: "create_lock now i p s = (Inr l, s1)"
    and ks: "for_each (create_lock now i) ps s1 = (Inr ks, s')" "ls = l # ks"
    by (auto simp: andThen_Inr)
  from l Cons.prems(2) have "t_change_lock s1 = t_change_lock s @ [l]" "lock_of_plan i p l"
    by (auto simp: create_lock_def andThen_Inr Let_def lock_of_plan_def parsed_plan_def
        optional_ref_parsed)
  with Cons.IH [OF ks(1)] ks(2) Cons.prems(2) show ?case by auto
qed simp

lemma reserve_plans:
  "p \<in> set (map device_lock_plan devs @ source_lock_plan e) \<Longrightarrow> parsed_plan p"
  "lock_of_plan i (device_lock_plan dev) l \<Longrightarrow> well_shaped l \<and> lk_lock_type l = ''device'' \<and> lk_device_id l = Some (dev_id dev)"
  "p \<in> set (source_lock_plan e) \<Longrightarrow> lock_of_plan i p l \<Longrightarrow> well_shaped l \<and> lk_lock_type l = ''workflow'' \<and>
     lk_target_type l = ce_source_type e \<and> lk_target_id l = ce_source_id e"
  by (cases "ce_source_id e";
      auto simp: parsed_plan_def device_lock_plan_def source_lock_plan_def lock_of_plan_def well_shaped_def)+

lemma validate_locks_Nil:
  assumes "validate_locks d e = Inr []" "target_devices d e = Inr devs"
  shows "dev \<in> set devs \<Longrightarrow> \<not> device_conflict d e dev" "ce_source_id e = Some i \<Longrightarrow> \<not> source_conflict d e i"
  using assms by (auto simp: validate_locks_def split: if_splits)

lemma validate_locks_free:
  assumes "validate_locks d e = Inr []" "target_devices d e = Inr devs" "l \<in> set (t_change_lock d)" "reserved l"
    "lk_execution_id l \<noteq> ce_id e" "well_shaped l"
  shows "dev \<in> set devs \<Longrightarrow> \<not> (lk_lock_type l = ''device'' \<and> lk_device_id l = Some (dev_id dev))"
    "ce_source_id e = Some i \<Longrightarrow> \<not> (lk_lock_type l = ''workflow'' \<and> lk_target_type l = ce_source_type e \<and> lk_target_id l = Some i)"
proof -
  show "\<not> (lk_lock_type l = ''device'' \<and> lk_device_id l = Some (dev_id dev))" if "dev \<in> set devs"
    using validate_locks_Nil(1) [OF assms(1,2) that] assms(3-6)
    by (auto simp: device_conflict_def find_reserved_lock_None conflicting_def reserved_def well_shaped_def)
  show "\<not> (lk_lock_type l = ''workflow'' \<and> lk_target_type l = ce_source_type e \<and> lk_target_id l = Some i)"
    if "ce_source_id e = Some i"
    using validate_locks_Nil(2) [OF assms(1,2) that] assms(3-6)
    by (auto simp: source_conflict_def find_reserved_lock_None conflicting_def reserved_def)
qed

lemma reserve_locks_exclusive:
  assumes "reserve_locks now r a s = (Inr x, s')" "exclusive s"
  shows "exclusive s'"
proof -
  from assms(1) obtain e conflicts where e: "get_execution r s = (Inr e, s)"
    and conflicts: "validate_locks s e = Inr conflicts"
    and free: "conflicts = []"
    and rest: "locks_of s (ce_id e) \<noteq> [] \<and> s' = s \<or>
       (\<exists>devs ls s1 v. target_devices s e = Inr devs \<and>
          create_locks now (RefId (ce_id e)) (map device_lock_plan devs @ source_lock_plan e) s = (Inr ls, s1) \<and>
          add_audit_event now (RefId (ce_id e)) ''lock_reserved'' ''Change execution orchestration locks reserved''
            a None None (Some [(''lock_count'', JInt (int (length ls)))]) s1 = (Inr v, s'))"
    by (auto simp: reserve_locks_def andThen_Inr get_execution_Inr split: if_splits)
  from rest show ?thesis
  proof (elim disjE exE conjE)
    fix devs ls s1 v
    assume devs: "target_devices s e = Inr devs"
      and ls: "create_locks now (RefId (ce_id e)) (map device_lock_plan devs @ source_lock_plan e) s = (Inr ls, s1)"
      and v: "add_audit_event now (RefId (ce_id e)) ''lock_reserved'' ''Change execution orchestration locks reserved''
            a None None (Some [(''lock_count'', JInt (int (length ls)))]) s1 = (Inr v, s')"
    have parsed: "\<forall>p\<in>set (map device_lock_plan devs @ source_lock_plan e). parsed_plan p"
      using reserve_plans(1) by blast
    from ls have loop: "for_each (create_lock now (ce_id e)) (map device_lock_plan devs @ source_lock_plan e) s = (Inr ls, s1)"
      by (simp add: create_locks_def andThen_Inr)
    note locks = create_locks_rows [OF loop parsed, THEN conjunct1]
      and plans = create_locks_rows [OF loop parsed, THEN conjunct2]
    have new: "well_shaped l \<and> lk_execution_id l = ce_id e" if "l \<in> set ls" for l
    proof -
      from bspec [OF plans that] obtain p where
        p: "p \<in> set (map device_lock_plan devs @ source_lock_plan e)" "lock_of_plan (ce_id e) p l" by (elim bexE)
      then have "p \<in> device_lock_plan ` set devs \<or> p \<in> set (source_lock_plan e)" by simp
      with p(2)
      have "well_shaped l" using reserve_plans(2,3) by blast
      with p(2) show ?thesis by (simp add: lock_of_plan_def)
    qed
    have apart: "lk_execution_id l = ce_id e"
      if l: "l \<in> set (t_change_lock s)" "reserved l" and k: "k \<in> set ls" and same: "same_target l k" for l k
    proof (rule ccontr)
      assume other: "lk_execution_id l \<noteq> ce_id e"
      have shape: "well_shaped l" using assms(2) l(1) by (simp add: exclusive_def)
      note no_lock = validate_locks_free [OF conflicts [unfolded free] devs l(1,2) other shape]
      from plans k consider dev where "dev \<in> set devs" "lock_of_plan (ce_id e) (device_lock_plan dev) k"
        | p where "p \<in> set (source_lock_plan e)" "lock_of_plan (ce_id e) p k" by auto
      then show False
      proof cases
        case 1
        with no_lock(1) same shape show False
          by (auto dest!: reserve_plans(2) simp: same_target_def well_shaped_def)
      next
        case 2
        with no_lock(2) same new [OF k] show False
          by (auto dest!: reserve_plans(3) simp: same_target_def well_shaped_def)
      qed
    qed
    have "exclusive s1"
      unfolding exclusive_def
    proof (intro conjI ballI impI)
      fix l assume "l \<in> set (t_change_lock s1)"
      then show "well_shaped l" using new assms(2) by (auto simp: locks exclusive_def)
    next
      fix l k assume lk: "l \<in> set (t_change_lock s1)" "k \<in> set (t_change_lock s1)"
        and res: "reserved l \<and> reserved k \<and> same_target l k"
      have sym: "same_target k l" using res by (simp add: same_target_def)
      from lk consider "l \<in> set (t_change_lock s)" "k \<in> set (t_change_lock s)" | "l \<in> set ls" "k \<in> set ls"
        | "l \<in> set (t_change_lock s)" "k \<in> set ls" | "l \<in> set ls" "k \<in> set (t_change_lock s)"
        unfolding locks by fastforce
      then show "lk_execution_id l = lk_execution_id k"
      proof cases
        case 1
        with assms(2) res show ?thesis unfolding exclusive_def by blast
      next
        case 2
        then show ?thesis using new by simp
      next
        case 3
        then show ?thesis using apart [of l k] new [of k] res by simp
      next
        case 4
        then show ?thesis using apart [of k l] new [of l] res sym by simp
      qed
    qed
    moreover have "within eased (add_audit_event now (RefId (ce_id e)) ''lock_reserved''
        ''Change execution orchestration locks reserved'' a None None (Some [(''lock_count'', JInt (int (length ls)))]))"
      unfolding add_audit_event_def Let_def by (intro eased.within_intros eased_basic)
    ultimately show "exclusive s'" using v by (blast intro: eased_exclusive dest: withinD)
  qed (use assms(2) in simp)
qed

lemma service_exclusive:
  assumes "service now a q s = (Inr x, s')" "exclusive s"
  shows "exclusive s'"
proof (cases "\<exists>i. q = ReserveLocks i")
  case True
  with assms show ?thesis by (auto simp: service_def answer_def andThen_Inr intro: reserve_locks_exclusive)
next
  case False
  with assms show ?thesis by (blast intro: eased_exclusive dest: withinD service_eased)
qed

lemma serve_exclusive: "exclusive s \<Longrightarrow> exclusive (snd (serve now a q s))"
  using serve_Inr(2) [of now a q s] serve_Inl [of now a q s]
  by (cases "serve now a q s"; cases "fst (serve now a q s)") (auto intro: service_exclusive)

lemma served_exclusive: "exclusive s \<Longrightarrow> exclusive (served qs s)"
  by (induction qs s rule: served.induct) (auto intro: serve_exclusive)

lemma serve_trail: "trail_grows s (snd (serve now a q s))"
  using serve_Inr(2) [of now a q s] serve_Inl [of now a q s] service_trail [of now a q]
  by (cases "serve now a q s"; cases "fst (serve now a q s)") (auto simp: trail.le_refl dest: withinD)

lemma served_trail: "trail_grows s (served qs s)"
  by (induction qs s rule: served.induct) (auto simp: trail.le_refl intro: trail.le_trans serve_trail)

section \<open>Properties\<close>

text \<open>
  C7: reservations exclude each other.  Whatever requests come in, no two change executions hold
  a reserved lock on the same device, nor on the same source of the same type: if two reserved
  locks agree in what they lock, they belong to one execution.
\<close>

theorem locks_exclude:
  assumes "exclusive s" "l \<in> set (t_change_lock (served qs s))" "l' \<in> set (t_change_lock (served qs s))"
    and "lk_status l = ''reserved''" "lk_status l' = ''reserved''"
    and "lk_lock_type l = ''device'' \<and> lk_lock_type l' = ''device'' \<and> lk_device_id l = lk_device_id l' \<or>
         lk_lock_type l = ''workflow'' \<and> lk_lock_type l' = ''workflow'' \<and>
           lk_target_type l = lk_target_type l' \<and> lk_target_id l = lk_target_id l'"
  shows "lk_execution_id l = lk_execution_id l'"
proof -
  have ex: "exclusive (served qs s)" by (rule served_exclusive [OF assms(1)])
  then have "well_shaped l" "well_shaped l'" using assms(2,3) by (simp_all add: exclusive_def)
  with assms(6) have "same_target l l'" by (auto simp: same_target_def well_shaped_def)
  with ex assms(2-5) show ?thesis unfolding exclusive_def reserved_def by blast
qed

text \<open>Two approved executions with one source: the second reservation is refused.\<close>

definition rivals_db :: db where
  "rivals_db = empty_db\<lparr>db_next_id := 200, t_change_execution :=
     [sample_execution\<lparr>ce_id := 100, ce_status := ''approved'', ce_source_id := Some 50\<rparr>,
      sample_execution\<lparr>ce_id := 101, ce_status := ''approved'', ce_source_id := Some 50\<rparr>]\<rparr>"

definition rivals_run :: "(int \<times> actor \<times> change_request) list" where
  "rivals_run = [(0, admin_actor, ReserveLocks (uuid_str 100)), (0, admin_actor, ReserveLocks (uuid_str 101))]"

lemma rivals_uuid: "coerce_uuid name (uuid_str 100) = Inr 100" "coerce_uuid name (uuid_str 101) = Inr 101"
  using coerce_ref_text [of 100 name] coerce_ref_text [of 101 name] by simp_all

lemma rivals_lock:
  "\<exists>l\<in>set (t_change_lock (served rivals_run rivals_db)).
     lk_status l = ''reserved'' \<and> lk_lock_type l = ''workflow'' \<and> lk_target_type l = ''composite'' \<and>
     lk_target_id l = Some 50 \<and> lk_execution_id l = 100"
  by (simp add: rivals_run_def rivals_db_def sample_simps sample_execution_def request_simps rivals_uuid row_simps
      check_simps service_simps create_lock_def source_conflict_def find_reserved_lock_def conflicting_def)

theorem locks_exclude_witness:
  "(\<exists>l\<in>set (t_change_lock (served rivals_run rivals_db)). reserved l \<and> lk_execution_id l = 100) \<and>
   \<not> (\<exists>l\<in>set (t_change_lock (served rivals_run rivals_db)).
        reserved l \<and> lk_lock_type l = ''workflow'' \<and> lk_target_type l = ''composite'' \<and>
        lk_target_id l = Some 50 \<and> lk_execution_id l = 101)"
proof -
  have free: "exclusive rivals_db" by (simp add: exclusive_def rivals_db_def empty_db_def)
  from rivals_lock obtain l where l: "l \<in> set (t_change_lock (served rivals_run rivals_db))"
    "lk_status l = ''reserved''" "lk_lock_type l = ''workflow''" "lk_target_type l = ''composite''"
    "lk_target_id l = Some 50" "lk_execution_id l = 100" by blast
  have "lk_execution_id k = 100"
    if "k \<in> set (t_change_lock (served rivals_run rivals_db))" "lk_status k = ''reserved''"
      "lk_lock_type k = ''workflow''" "lk_target_type k = ''composite''" "lk_target_id k = Some 50" for k
    using locks_exclude [OF free that(1) l(1) that(2) l(2)] that l by simp
  with l show ?thesis by (auto simp: reserved_def)
qed

text \<open>
  C12: the audit trail of change executions is append-only.  No request ever removes, reorders or
  rewrites an event: the events before it are the first events after it.
\<close>

theorem audit_trail_append_only: "prefix (t_change_event s) (t_change_event (served qs s))"
  using served_trail by (simp add: trail_grows_def)

end
