(* ===== verification/ChangeSafety.thy ===== *)
theory ChangeSafety
  imports ChangeLocks
begin

text \<open>
  What simulation leaves behind, and what stands behind a ready execution.
\<close>

section \<open>Outputs of simulated steps\<close>

definition steps_harmless :: "db \<Rightarrow> bool" where
  "steps_harmless d \<longleftrightarrow> (\<forall>s\<in>set (t_change_step d). \<forall>out. st_dry_run_output s = Some out \<longrightarrow> harmless out)"

definition stays_harmless :: "db \<Rightarrow> db \<Rightarrow> bool" where
  "stays_harmless s s' \<longleftrightarrow> (steps_harmless s \<longrightarrow> steps_harmless s')"

interpretation calm: progress stays_harmless
  by unfold_locales (auto simp: stays_harmless_def)

lemma calm_same_steps: "(\<And>s. t_change_step (f s) = t_change_step s) \<Longrightarrow> within stays_harmless (change f)"
  by (simp add: within_def change_def stays_harmless_def steps_harmless_def)

lemma calm_status: "within stays_harmless (change (upd_step i (with_step_status now st err)))"
proof -
  have "st_dry_run_output (with_step_status now st err s) = st_dry_run_output s" for s
    by (simp add: with_step_status_def Let_def)
  then show ?thesis
    by (auto simp: within_def change_def stays_harmless_def steps_harmless_def upd_step_def upd_row_def)
qed

lemma calm_output: "harmless out \<Longrightarrow> within stays_harmless (change (upd_step i (with_output now out st)))"
  by (auto simp: within_def change_def stays_harmless_def steps_harmless_def upd_step_def upd_row_def
      with_output_def)

lemma calm_basic:
  "within stays_harmless (get_by_ref look name r)" "within stays_harmless fresh_id"
  "within stays_harmless (change (upd_execution i fe))" "within stays_harmless (change (upd_lock i fl))"
  "within stays_harmless (change (upd_approval i fa))"
  "within stays_harmless (change (\<lambda>d. d\<lparr>t_change_execution := t_change_execution d @ es\<rparr>))"
  "within stays_harmless (change (\<lambda>d. d\<lparr>t_change_lock := t_change_lock d @ ls\<rparr>))"
  "within stays_harmless (change (\<lambda>d. d\<lparr>t_change_approval := t_change_approval d @ ps\<rparr>))"
  "within stays_harmless (change (\<lambda>d. d\<lparr>t_change_event := t_change_event d @ vs\<rparr>))"
  by (auto intro!: calm_same_steps simp: upd_execution_def upd_lock_def upd_approval_def)
    (auto simp: within_def get_by_ref_def query_def fresh_id_def stays_harmless_def steps_harmless_def)

lemma create_row_calm:
  "within stays_harmless (create_step now i p)" "within stays_harmless (create_lock now i p')"
proof -
  have "stays_harmless s (snd (create_step now i p s))" for s
    by (auto simp: create_step_def andThen_def query_def fresh_id_def change_def ret_def Let_def
        stays_harmless_def steps_harmless_def split: sum.splits prod.splits)
  then show "within stays_harmless (create_step now i p)" by (simp add: within_def)
  show "within stays_harmless (create_lock now i p')"
    unfolding create_lock_def Let_def by (intro calm.within_intros calm_basic)
qed

lemma within_query: "(\<And>s x. h s = Inr x \<Longrightarrow> within stays_harmless (f x)) \<Longrightarrow> within stays_harmless (andThen (query h) f)"
  by (auto simp: within_def andThen_def query_def calm.le_refl split: sum.splits)

lemma simulate_step_calm: "within stays_harmless (simulate_step now r)"
  unfolding simulate_step_def update_step_status_def update_step_output_def get_step_def add_audit_event_def Let_def
  apply (rule calm.within_andThen [OF calm_basic(1)])
  apply (intro calm.within_if calm.within_basic)
  apply (rule calm.within_andThen)
   apply (intro calm.within_intros calm_basic calm_status)
  apply (rule within_query, drule step_output_harmless)
  apply (rule calm.within_andThen)
   apply (intro calm.within_intros calm_basic calm_output)
   apply assumption
  apply (intro calm.within_intros calm_basic)
  done

lemma service_calm: "within stays_harmless (service now a q)"
  by (cases q; simp only: service_def change_request.case answer_def operation_defs
        repository_defs Let_def;
      intro calm.within_intros calm_basic create_row_calm simulate_step_calm)

lemma serve_calm: "stays_harmless s (snd (serve now a q s))"
  using serve_Inr(2) [of now a q s] serve_Inl [of now a q s] service_calm [of now a q]
  by (cases "serve now a q s"; cases "fst (serve now a q s)") (auto simp: calm.le_refl dest: withinD)

lemma served_calm: "stays_harmless s (served qs s)"
  by (induction qs s rule: served.induct) (auto simp: calm.le_refl intro: calm.le_trans serve_calm)

section \<open>The gates of readiness\<close>

text \<open>What a target device must have.\<close>

definition device_ready :: "int \<Rightarrow> db \<Rightarrow> change_execution \<Rightarrow> device \<Rightarrow> bool" where
  "device_ready now d e dev \<longleftrightarrow>
     (\<exists>l\<in>set (t_change_lock d). lk_execution_id l = ce_id e \<and> lk_status l = ''reserved'' \<and>
        lk_lock_type l = ''device'' \<and> lk_device_id l = Some (dev_id dev)) \<and>
     (ce_requires_fresh_backup e \<longrightarrow>
        (\<exists>s. latest_snapshot d (dev_id dev) = Some s \<and>
             now - freshness \<le> instant (comparable_datetime (sn_collected_at s)))) \<and>
     (ce_requires_lab_validation e \<longrightarrow>
        (\<exists>c\<in>set (required_capabilities d e). \<exists>v.
           find_approved now (dev_vendor dev) (dev_model dev) (dev_driver_name dev) c d = Some v)) \<and>
     \<not> device_conflict d e dev"

definition source_clear :: "db \<Rightarrow> change_execution \<Rightarrow> bool" where
  "source_clear d e \<longleftrightarrow>
     (\<forall>i. ce_source_id e = Some i \<longrightarrow> \<not> source_conflict d e i \<and>
        (\<exists>l\<in>set (t_change_lock d). lk_execution_id l = ce_id e \<and> lk_status l = ''reserved'' \<and>
           lk_lock_type l = ''workflow'' \<and> lk_target_id l = Some i))"

lemma set_locks_of: "set (locks_of d i) = {l \<in> set (t_change_lock d). lk_execution_id l = i}"
  by (simp add: locks_of_def by_time_def)

lemma has_required_locks_iff:
  "has_required_locks d e devs \<longleftrightarrow>
     (\<forall>dev\<in>set devs. \<exists>l\<in>set (t_change_lock d). lk_execution_id l = ce_id e \<and> lk_status l = ''reserved'' \<and>
        lk_lock_type l = ''device'' \<and> lk_device_id l = Some (dev_id dev)) \<and>
     (\<forall>i. ce_source_id e = Some i \<longrightarrow> (\<exists>l\<in>set (t_change_lock d). lk_execution_id l = ce_id e \<and>
        lk_status l = ''reserved'' \<and> lk_lock_type l = ''workflow'' \<and> lk_target_id l = Some i))"
  by (cases "ce_source_id e")
    (auto simp: has_required_locks_def Let_def list_all_iff list_ex_iff set_locks_of image_iff, metis+)

lemma concat_map_Nil: "concat (map f xs) = [] \<longleftrightarrow> (\<forall>x\<in>set xs. f x = [])"
  by (induction xs) auto

lemma check_values:
  assumes "target_devices d e = Inr devs"
  shows "validate_fresh_backups now d e = Inr bs \<Longrightarrow> bs = [] \<longleftrightarrow>
      (\<forall>dev\<in>set devs. ce_requires_fresh_backup e \<longrightarrow> backup_error now d dev = [])"
    "validate_lab_validations now d e = Inr ls \<Longrightarrow> ls = [] \<longleftrightarrow>
      (\<forall>dev\<in>set devs. ce_requires_lab_validation e \<longrightarrow> lab_validated now d (required_capabilities d e) dev)"
    "validate_locks d e = Inr ks \<Longrightarrow> ks = [] \<longleftrightarrow>
      (\<forall>dev\<in>set devs. \<not> device_conflict d e dev) \<and> (\<forall>i. ce_source_id e = Some i \<longrightarrow> \<not> source_conflict d e i)"
    "\<exists>bs ls ks. validate_fresh_backups now d e = Inr bs \<and> validate_lab_validations now d e = Inr ls \<and>
       validate_locks d e = Inr ks"
proof -
  show "validate_fresh_backups now d e = Inr bs \<Longrightarrow> bs = [] \<longleftrightarrow>
      (\<forall>dev\<in>set devs. ce_requires_fresh_backup e \<longrightarrow> backup_error now d dev = [])"
    using assms by (auto simp: validate_fresh_backups_def concat_map_Nil simp del: concat_eq_Nil_conv split: if_splits)
  show "validate_lab_validations now d e = Inr ls \<Longrightarrow> ls = [] \<longleftrightarrow>
      (\<forall>dev\<in>set devs. ce_requires_lab_validation e \<longrightarrow> lab_validated now d (required_capabilities d e) dev)"
    using assms by (auto simp: validate_lab_validations_def concat_map_Nil simp del: concat_eq_Nil_conv split: if_splits)
  show "validate_locks d e = Inr ks \<Longrightarrow> ks = [] \<longleftrightarrow>
      (\<forall>dev\<in>set devs. \<not> device_conflict d e dev) \<and> (\<forall>i. ce_source_id e = Some i \<longrightarrow> \<not> source_conflict d e i)"
    using assms by (cases "ce_source_id e") (auto simp: validate_locks_def concat_map_Nil simp del: concat_eq_Nil_conv split: if_splits)
  show "\<exists>bs ls ks. validate_fresh_backups now d e = Inr bs \<and> validate_lab_validations now d e = Inr ls \<and>
       validate_locks d e = Inr ks"
    using assms by (simp add: validate_fresh_backups_def validate_lab_validations_def validate_locks_def)
qed

lemma all_errors_Nil:
  assumes "target_devices d e = Inr devs"
  shows "all_errors now d e = Inr [] \<longleftrightarrow>
     ce_mode e = ''simulation'' \<and> (\<exists>src. source_object d e = Inr src) \<and> validate_source_ready d e = [] \<and>
     (\<forall>dev\<in>set devs. ce_requires_fresh_backup e \<longrightarrow> backup_error now d dev = []) \<and>
     (\<forall>dev\<in>set devs. ce_requires_lab_validation e \<longrightarrow> lab_validated now d (required_capabilities d e) dev) \<and>
     (\<forall>dev\<in>set devs. \<not> device_conflict d e dev) \<and>
     (\<forall>i. ce_source_id e = Some i \<longrightarrow> \<not> source_conflict d e i)"
proof -
  from check_values(4) [OF assms] obtain bs ls ks where v: "validate_fresh_backups now d e = Inr bs"
    "validate_lab_validations now d e = Inr ls" "validate_locks d e = Inr ks" by blast
  have "validate_mode e = [] \<longleftrightarrow> ce_mode e = ''simulation''" by (simp add: validate_mode_def)
  moreover have "validate_source_exists d e = [] \<longleftrightarrow> (\<exists>src. source_object d e = Inr src)"
    by (cases "source_object d e") (auto simp: validate_source_exists_def)
  ultimately show ?thesis
    by (simp add: all_errors_def v check_values(1) [OF assms v(1)] check_values(2) [OF assms v(2)]
        check_values(3) [OF assms v(3)])
qed

lemma backup_error_Nil:
  "backup_error now d dev = [] \<longleftrightarrow> (\<exists>s. latest_snapshot d (dev_id dev) = Some s \<and>
     now - freshness \<le> instant (comparable_datetime (sn_collected_at s)))"
  by (auto simp: backup_error_def split: option.splits)

lemma lab_validated_iff:
  "lab_validated now d cs dev \<longleftrightarrow> (\<exists>c\<in>set cs. \<exists>v.
     find_approved now (dev_vendor dev) (dev_model dev) (dev_driver_name dev) c d = Some v)"
  by (auto simp: lab_validated_def list_ex_iff)

lemma build_report_ready:
  assumes "build_report now d e = Inr rp"
  obtains devs where "target_devices d e = Inr devs"
    "rp_errors rp = [] \<longleftrightarrow> all_errors now d e = Inr []"
    "rp_can_mark_ready rp \<longleftrightarrow> all_errors now d e = Inr [] \<and> steps_of d (ce_id e) \<noteq> [] \<and>
       has_required_locks d e devs \<and> (\<not> ce_requires_approval e \<or> ce_status e = ''approved'')"
  using assms by (auto simp: build_report_def sorted_set_Nil_iff split: sum.splits)

lemma build_report_total: "target_devices d e = Inr devs \<Longrightarrow> \<exists>rp. build_report now d e = Inr rp"
  using check_values(4) [of d e devs now] by (auto simp: build_report_def all_errors_def)

section \<open>Properties\<close>

text \<open>
  C11: simulation never executes.  Whatever requests come in, the dry-run output of every step says
  that it is a simulation only and that nothing would be executed, if that held at the start.
\<close>

theorem simulation_harmless:
  assumes "steps_harmless s"
  shows "steps_harmless (served qs s)"
  using served_calm [of s qs] assms by (simp add: stays_harmless_def)

theorem simulation_harmless_witness: "steps_harmless (served sample_run empty_db)"
  by (rule simulation_harmless) (simp add: steps_harmless_def empty_db_def)

text \<open>
  C8: the gates of readiness.  An execution is marked ready exactly when it is approved (or ready,
  where no approval is required), its mode is simulation, its source exists and is ready, its
  plan has steps, and every target device and the source pass: reserved by this execution and
  by no other, with a snapshot younger than a day and an approved lab validation of one of the
  capabilities where the execution asks for them.
\<close>

theorem mark_ready_gates:
  "(\<exists>x s'. mark_ready now r actor s = (Inr x, s')) \<longleftrightarrow>
   (\<exists>e devs. get_execution r s = (Inr e, s) \<and> target_devices s e = Inr devs \<and>
      (ce_status e = ''approved'' \<or> ce_status e = ''ready'' \<and> \<not> ce_requires_approval e) \<and>
      ce_mode e = ''simulation'' \<and> (\<exists>src. source_object s e = Inr src) \<and> validate_source_ready s e = [] \<and>
      steps_of s (ce_id e) \<noteq> [] \<and> (\<forall>dev\<in>set devs. device_ready now s e dev) \<and> source_clear s e)"
  (is "?lhs \<longleftrightarrow> ?rhs")
proof
  assume ?lhs
  then obtain e rp where e: "get_execution r s = (Inr e, s)" "ce_status e \<in> {''approved'', ''ready''}"
    and rp: "build_report now s e = Inr rp" "rp_errors rp = []" "rp_can_mark_ready rp"
    by (auto simp: mark_ready_def andThen_Inr get_execution_Inr build_validation_report_def)
  from rp(1) obtain devs where devs: "target_devices s e = Inr devs"
    and ok: "all_errors now s e = Inr []" "steps_of s (ce_id e) \<noteq> []" "has_required_locks s e devs"
      "\<not> ce_requires_approval e \<or> ce_status e = ''approved''"
    by (rule build_report_ready) (use rp(2,3) in auto)
  from ok(1) have gates: "ce_mode e = ''simulation''" "\<exists>src. source_object s e = Inr src"
    "validate_source_ready s e = []" "\<forall>dev\<in>set devs. device_ready now s e dev" "source_clear s e"
    using ok(3) by (simp_all add: all_errors_Nil [OF devs] device_ready_def source_clear_def
        has_required_locks_iff backup_error_Nil lab_validated_iff)
  from e ok(2,4) devs gates show ?rhs by blast
next
  assume ?rhs
  then obtain e devs where e: "get_execution r s = (Inr e, s)" and devs: "target_devices s e = Inr devs"
    and st: "ce_status e = ''approved'' \<or> ce_status e = ''ready'' \<and> \<not> ce_requires_approval e"
    and gates: "ce_mode e = ''simulation''" "\<exists>src. source_object s e = Inr src" "validate_source_ready s e = []"
      "steps_of s (ce_id e) \<noteq> []" "\<forall>dev\<in>set devs. device_ready now s e dev" "source_clear s e" by blast
  have ok: "all_errors now s e = Inr []" "has_required_locks s e devs"
    using gates by (simp_all add: all_errors_Nil [OF devs] device_ready_def source_clear_def
        has_required_locks_iff backup_error_Nil lab_validated_iff)
  obtain rp where rp: "build_report now s e = Inr rp" using build_report_total [OF devs] by blast
  then have "rp_errors rp = []" "rp_can_mark_ready rp"
    using ok gates(4) st devs by (auto elim!: build_report_ready)
  moreover have "find_change_execution s (ce_id e) = Some e" using e by (simp add: get_execution_found)
  ultimately show ?lhs using e rp st gates(4)
    by (auto simp: mark_ready_def andThen_Inr build_validation_report_def update_execution_status_def
        add_audit_event_def Let_def get_execution_Inr optional_ref_def)
qed

definition planned_db :: db where
  "planned_db = empty_db\<lparr>
     t_change_execution := [sample_execution\<lparr>ce_id := 100, ce_status := ''approved''\<rparr>],
     t_change_step := [\<lparr>st_id = 5, st_execution_id = 100, st_step_order = 1, st_name = ''Finalize simulation'',
        st_step_type = ''finalize'', st_status = ''pending'', st_depends_on = Some [], st_target_type = None,
        st_target_id = None, st_device_id = None, st_planned_action = Some [], st_dry_run_output = None,
        st_risk_level = None, st_started_at = None, st_completed_at = None, st_error_summary = None,
        st_created_at = Aware 0, st_updated_at = Aware 0\<rparr>]\<rparr>"

theorem mark_ready_gates_witness:
  "(\<exists>x s'. mark_ready 0 (RefId 100) None planned_db = (Inr x, s')) \<and>
   \<not> (\<exists>x s'. mark_ready 0 (RefId 101) None planned_db = (Inr x, s'))"
  by (simp add: mark_ready_gates get_execution_Inr planned_db_def empty_db_def sample_execution_def get_row_def
      target_devices_def source_object_def validate_source_ready_def steps_of_def by_time_def source_clear_def)

text \<open>
  Validation starts an execution over.  \<open>validate_execution\<close> looks at no status: an execution
  that is approved, ready, simulated or cancelled is validated or blocked afterwards like any
  other, so that neither cancellation nor simulation is final.
\<close>

theorem validation_restarts:
  assumes "validate_execution now r actor s = (Inr rp, s')" "get_execution r s = (Inr e, s)"
  shows "\<exists>e'. find_change_execution s' (ce_id e) = Some e' \<and>
     ce_status e' = (if all_errors now s e = Inr [] then ''validated'' else ''blocked'')"
proof -
  from assms obtain rp0 where rp0: "build_report now s e = Inr rp0"
    by (auto simp: validate_execution_def build_validation_report_def andThen_Inr)
  then have errors: "rp_errors rp0 = [] \<longleftrightarrow> all_errors now s e = Inr []" by (rule build_report_ready)
  from assms rp0 obtain e1 s1 v s2 st err ty msg md where
    up: "update_execution_status now r st None err s = (Inr e1, s1)"
    and ev: "add_audit_event now r ty msg actor None None md s1 = (Inr v, s2)"
    and rep: "build_validation_report now r s2 = (Inr rp, s')"
    and st: "st = (if rp_errors rp0 = [] then ''validated'' else ''blocked'')"
    by (auto simp: validate_execution_def build_validation_report_def andThen_Inr split: if_splits)
  from up obtain e0 where e0: "get_execution r s = (Inr e0, s)" "find_change_execution s1 (ce_id e0) = Some e1"
    "ce_status e1 = st" by (rule update_status_effect)
  have "find_change_execution s' i = find_change_execution s1 i" for i
    using aside_find [OF withinD [OF add_audit_event_aside ev]] aside_find [OF withinD [OF build_validation_report_aside rep]]
    by simp
  with e0 assms(2) st errors show ?thesis by auto
qed

lemma planned_report: "\<exists>x s'. validate_execution 0 (RefId 100) None
    (planned_db\<lparr>t_change_execution := [sample_execution\<lparr>ce_id := 100, ce_status := ''cancelled''\<rparr>]\<rparr>) = (Inr x, s')"
  by (simp add: planned_db_def empty_db_def sample_execution_def request_simps row_simps check_simps service_simps)

theorem validation_restarts_witness:
  "\<exists>x s' e'. validate_execution 0 (RefId 100) None
      (planned_db\<lparr>t_change_execution := [sample_execution\<lparr>ce_id := 100, ce_status := ''cancelled''\<rparr>]\<rparr>) = (Inr x, s') \<and>
     find_change_execution s' 100 = Some e' \<and> ce_status e' = ''validated''"
proof -
  let ?e = "sample_execution\<lparr>ce_id := 100, ce_status := ''cancelled''\<rparr>"
  let ?d = "planned_db\<lparr>t_change_execution := [?e]\<rparr>"
  obtain x s' where run: "validate_execution 0 (RefId 100) None ?d = (Inr x, s')" using planned_report by blast
  have e: "get_execution (RefId 100) ?d = (Inr ?e, ?d)" by (simp add: get_execution_Inr get_row_def)
  have "all_errors 0 ?d ?e = Inr []" by (simp add: check_simps sample_execution_def)
  with validation_restarts [OF run e] run show ?thesis by auto
qed

text \<open>
  A refused reservation leaves no trace.  The service records why the locks were refused and
  then raises; the request's session is rolled back, and the record with it.
\<close>

theorem refused_reservation_unrecorded:
  assumes "get_execution (RefText i) s = (Inr e, s)" "ce_status e \<in> {''approved'', ''ready''}"
    and "validate_locks s e = Inr conflicts" "conflicts \<noteq> []" "Perm_plan_change_executions \<in> permissions a"
  shows "(\<exists>v. t_change_event (snd (reserve_locks now (RefText i) (Some (username a)) s)) = t_change_event s @ [v] \<and>
            ev_event_type v = ''lock_blocked'') \<and>
         serve now a (ReserveLocks i) s = (Inl (ConflictError (str_join ''; '' conflicts)), s)"
  using assms
  by (auto simp: api_reserve_locks_def endpoint_def reserve_locks_def committed_def action_simps
      require_permission_def add_audit_event_def optional_ref_def fresh_id_def Let_def)

lemma rivals_conflict:
  "\<exists>e cs. get_execution (RefText (uuid_str 101)) (served [hd rivals_run] rivals_db) = (Inr e, served [hd rivals_run] rivals_db) \<and>
     ce_status e = ''approved'' \<and> validate_locks (served [hd rivals_run] rivals_db) e = Inr cs \<and> cs \<noteq> []"
  by (simp add: rivals_run_def rivals_db_def sample_simps sample_execution_def request_simps rivals_uuid row_simps
      check_simps service_simps create_lock_def source_conflict_def find_reserved_lock_def conflicting_def)

theorem refused_reservation_unrecorded_witness:
  "\<exists>m. serve 0 admin_actor (ReserveLocks (uuid_str 101)) (served [hd rivals_run] rivals_db)
     = (Inl (ConflictError m), served [hd rivals_run] rivals_db)"
  using rivals_conflict refused_reservation_unrecorded [OF _ _ _ _ admin_permissions] by blast

end
