(* ===== verification/DeviceInventory.thy ===== *)
theory DeviceInventory
  imports Db
begin

text \<open>
  app/repositories/device_inventory.py: the inventory of devices.  Lists are ordered as the code asks, with
  absent values last; a flush that changes a row sets its \<open>updated_at\<close>.
\<close>

section \<open>Tags\<close>

fun tag_labels :: "json \<Rightarrow> string list" where
  "tag_labels (JObj tags) =
     (case map_of tags ''labels'' of
        None \<Rightarrow> []
      | Some (JList xs) \<Rightarrow> map py_str xs
      | Some v \<Rightarrow> [py_str v])"
| "tag_labels (JList xs) = map py_str xs"
| "tag_labels (JStr s) = (if s = [] then [] else [s])"
| "tag_labels _ = []"

definition label_tags :: "string list \<Rightarrow> jobj" where
  "label_tags labels = [(''labels'', JList (map JStr (sorted_set labels)))]"

section \<open>Reading\<close>

definition get_device_row :: "ref \<Rightarrow> (db, device) action" where
  "get_device_row = get_by_ref find_device ''Device''"

definition has_management_ip :: "string \<Rightarrow> device \<Rightarrow> bool" where
  "has_management_ip ip dev \<longleftrightarrow> dev_management_ip dev = Some ip \<or> dev_ip_address dev = ip"

definition find_by_management_ip :: "string \<Rightarrow> db \<Rightarrow> device option" where
  "find_by_management_ip ip d = find (has_management_ip ip) (t_device d)"

definition find_by_hostname :: "string \<Rightarrow> db \<Rightarrow> device option" where
  "find_by_hostname hostname d = find (\<lambda>dev. dev_hostname dev = Some hostname) (t_device d)"

text \<open>The dictionary \<open>seen\<close>: a device found by both keys is listed once.\<close>

definition find_duplicates :: "string option \<Rightarrow> string option \<Rightarrow> db \<Rightarrow> device list" where
  "find_duplicates management_ip hostname d =
     (let by_ip = (if or_empty management_ip = [] then []
                   else filter (has_management_ip (or_empty management_ip)) (t_device d));
          by_name = (if or_empty hostname = [] then []
                     else filter (\<lambda>dev. dev_hostname dev = hostname) (t_device d))
      in by_ip @ filter (\<lambda>dev. dev_id dev \<notin> set (map dev_id by_ip)) by_name)"

definition list_devices :: "db \<Rightarrow> device list" where
  "list_devices d =
     order_by_opt dev_site (order_by_opt dev_hostname (sort_key dev_ip_address (t_device d)))"

definition list_by_site :: "string \<Rightarrow> db \<Rightarrow> device list" where
  "list_by_site site d =
     order_by_opt dev_hostname (sort_key dev_ip_address (filter (\<lambda>dev. dev_site dev = Some site) (t_device d)))"

definition list_by_tag :: "string \<Rightarrow> db \<Rightarrow> device list" where
  "list_by_tag tag d = filter (\<lambda>dev. tag \<in> set (tag_labels (JObj (dev_tags dev)))) (list_devices d)"

section \<open>Writing\<close>

definition upd_device :: "uuid \<Rightarrow> (device \<Rightarrow> device) \<Rightarrow> db \<Rightarrow> db" where
  "upd_device i f d = d\<lparr>t_device := upd_row dev_id i f (t_device d)\<rparr>"

definition flushed_device :: "int \<Rightarrow> (device \<Rightarrow> device) \<Rightarrow> device \<Rightarrow> device" where
  "flushed_device now f dev = (if f dev = dev then dev else (f dev)\<lparr>dev_updated_at := Aware now\<rparr>)"

definition update_device_row :: "int \<Rightarrow> ref \<Rightarrow> (device \<Rightarrow> device) \<Rightarrow> (db, device) action" where
  "update_device_row now r f =
     andThen (get_device_row r) (\<lambda>dev.
     andThen (change (upd_device (dev_id dev) (flushed_device now f))) (\<lambda>_. ret (flushed_device now f dev)))"

text \<open>The dictionary that \<open>upsert_device\<close> is called with; an absent key and \<open>None\<close> read the same.\<close>

record device_data =
  dd_management_ip :: "string option"
  dd_ip_address :: "string option"
  dd_hostname :: "string option"
  dd_vendor :: "string option"
  dd_model :: "string option"
  dd_normalized_vendor :: "string option"
  dd_normalized_model :: "string option"
  dd_platform :: "string option"
  dd_site :: "string option"
  dd_location :: "string option"
  dd_rack :: "string option"
  dd_role :: "string option"
  dd_driver_name :: "string option"
  dd_driver_resolution_status :: "string option"
  dd_credential_assignment_status :: "string option"
  dd_capabilities :: "jobj option"
  dd_tags :: json

abbreviation given :: "'a option \<Rightarrow> 'a \<Rightarrow> 'a" where
  "given v old \<equiv> (case v of None \<Rightarrow> old | Some x \<Rightarrow> x)"

abbreviation given_opt :: "'a option \<Rightarrow> 'a option \<Rightarrow> 'a option" where
  "given_opt v old \<equiv> (case v of None \<Rightarrow> old | Some x \<Rightarrow> Some x)"

definition data_ip :: "device_data \<Rightarrow> string" where
  "data_ip data = (if or_empty (dd_management_ip data) \<noteq> [] then or_empty (dd_management_ip data)
                   else or_empty (dd_ip_address data))"

definition apply_metadata :: "device_data \<Rightarrow> device \<Rightarrow> device" where
  "apply_metadata data dev =
     (let ip = (if data_ip data \<noteq> [] then data_ip data else dev_ip_address dev)
      in dev\<lparr>dev_ip_address := ip, dev_management_ip := Some ip,
           dev_hostname := given_opt (dd_hostname data) (dev_hostname dev),
           dev_vendor := given (dd_vendor data) (dev_vendor dev),
           dev_model := given (dd_model data) (dev_model dev),
           dev_normalized_vendor := given_opt (dd_normalized_vendor data) (dev_normalized_vendor dev),
           dev_normalized_model := given_opt (dd_normalized_model data) (dev_normalized_model dev),
           dev_platform := given (dd_platform data) (dev_platform dev),
           dev_site := given_opt (dd_site data) (dev_site dev),
           dev_location := given_opt (dd_location data) (dev_location dev),
           dev_rack := given_opt (dd_rack data) (dev_rack dev),
           dev_role := given_opt (dd_role data) (dev_role dev),
           dev_driver_name := given (dd_driver_name data) (dev_driver_name dev),
           dev_driver_resolution_status :=
             given (dd_driver_resolution_status data) (dev_driver_resolution_status dev),
           dev_credential_assignment_status :=
             given (dd_credential_assignment_status data) (dev_credential_assignment_status dev),
           dev_capabilities := given (dd_capabilities data) (dev_capabilities dev),
           dev_tags := (if dd_tags data = JNull then dev_tags dev else label_tags (tag_labels (dd_tags data)))\<rparr>)"

text \<open>A new device with the columns' defaults.\<close>

definition new_device :: "int \<Rightarrow> uuid \<Rightarrow> string \<Rightarrow> device_data \<Rightarrow> device" where
  "new_device now i ip data =
     \<lparr>dev_id = i, dev_hostname = None, dev_ip_address = ip, dev_management_ip = Some ip,
      dev_vendor = or_empty (dd_vendor data), dev_model = or_empty (dd_model data), dev_normalized_vendor = None,
      dev_normalized_model = None, dev_platform = [], dev_os_version = None, dev_serial_number = None,
      dev_site = None, dev_location = None, dev_rack = None, dev_role = None, dev_transport_type = ''auto'',
      dev_driver_name = [], dev_driver_resolution_status = ''unknown'',
      dev_credential_assignment_status = ''unknown'', dev_status = ''known'', dev_discovery_status = ''unknown'',
      dev_discovery_last_checked_at = None, dev_discovery_error = None, dev_tags = [], dev_capabilities = [],
      dev_last_seen = None, dev_last_seen_at = None, dev_created_at = Aware now, dev_updated_at = Aware now\<rparr>"

definition upsert_device :: "int \<Rightarrow> device_data \<Rightarrow> (db, device \<times> bool) action" where
  "upsert_device now data =
     (let ip = str_strip (data_ip data) in
      andThen (unless (ip \<noteq> []) (ValueError ''management_ip is required'')) (\<lambda>_.
      andThen (asks (find_by_management_ip ip)) (\<lambda>existing.
        case existing of
          Some dev \<Rightarrow>
            andThen (change (upd_device (dev_id dev) (flushed_device now (apply_metadata data)))) (\<lambda>_.
            ret (flushed_device now (apply_metadata data) dev, False))
        | None \<Rightarrow>
            andThen fresh_id (\<lambda>i.
              let dev = apply_metadata data (new_device now i ip data)
              in andThen (change (\<lambda>d. d\<lparr>t_device := t_device d @ [dev]\<rparr>)) (\<lambda>_. ret (dev, True))))))"

definition fact_of :: "jobj \<Rightarrow> string \<Rightarrow> string option" where
  "fact_of facts k = (if truthy (jget facts k) then Some (py_str (jget facts k)) else None)"

definition update_discovery_status ::
  "int \<Rightarrow> ref \<Rightarrow> string \<Rightarrow> string option \<Rightarrow> jobj option \<Rightarrow> (db, device) action" where
  "update_discovery_status now r status err facts =
     update_device_row now r (\<lambda>dev.
       let seen = Some (Aware now);
           fs = (case facts of None \<Rightarrow> [] | Some fs \<Rightarrow> fs)
       in dev\<lparr>dev_discovery_status := status, dev_discovery_error := err, dev_discovery_last_checked_at := seen,
            dev_last_seen := (if status = ''reachable'' then seen else dev_last_seen dev),
            dev_last_seen_at := (if status = ''reachable'' then seen else dev_last_seen_at dev),
            dev_hostname := given_opt (fact_of fs ''hostname'') (dev_hostname dev),
            dev_serial_number := given_opt (fact_of fs ''serial_number'') (dev_serial_number dev),
            dev_os_version := given_opt (fact_of fs ''os_version'') (dev_os_version dev),
            dev_platform := given (fact_of fs ''platform'') (dev_platform dev)\<rparr>)"

definition update_driver_resolution ::
  "int \<Rightarrow> ref \<Rightarrow> string \<Rightarrow> string \<Rightarrow> jobj option \<Rightarrow> (db, device) action" where
  "update_driver_resolution now r driver_name status capabilities =
     update_device_row now r (\<lambda>dev. dev\<lparr>dev_driver_name := driver_name, dev_driver_resolution_status := status,
       dev_capabilities := given capabilities (dev_capabilities dev)\<rparr>)"

definition update_credential_assignment_status :: "int \<Rightarrow> ref \<Rightarrow> string \<Rightarrow> (db, device) action" where
  "update_credential_assignment_status now r status =
     update_device_row now r (\<lambda>dev. dev\<lparr>dev_credential_assignment_status := status\<rparr>)"

definition bulk_update_tags :: "int \<Rightarrow> ref list \<Rightarrow> string list \<Rightarrow> (db, device list) action" where
  "bulk_update_tags now rs labels =
     for_each (\<lambda>r. update_device_row now r (\<lambda>dev. dev\<lparr>dev_tags := label_tags labels\<rparr>)) rs"

definition patch_metadata ::
  "int \<Rightarrow> ref \<Rightarrow> string option \<Rightarrow> string option \<Rightarrow> string option \<Rightarrow> string option \<Rightarrow> string list option \<Rightarrow>
   (db, device) action" where
  "patch_metadata now r site location rack role tags =
     update_device_row now r (\<lambda>dev. dev\<lparr>dev_site := given_opt site (dev_site dev),
       dev_location := given_opt location (dev_location dev), dev_rack := given_opt rack (dev_rack dev),
       dev_role := given_opt role (dev_role dev),
       dev_tags := (case tags of None \<Rightarrow> dev_tags dev | Some ls \<Rightarrow> label_tags ls)\<rparr>)"

section \<open>The table as a row store\<close>

interpretation inventory_rows: row_store find_device upd_device dev_id
  by unfold_locales (auto simp: upd_device_def get_upd_row dest: get_row_key)

lemma flushed_device_id [simp]: "(\<And>x. dev_id (f x) = dev_id x) \<Longrightarrow> dev_id (flushed_device now f dev) = dev_id dev"
  by (simp add: flushed_device_def)

lemma update_device_row_Inr:
  "update_device_row now r f s = (Inr dev', s') \<longleftrightarrow>
     (\<exists>dev. get_device_row r s = (Inr dev, s) \<and> s' = upd_device (dev_id dev) (flushed_device now f) s \<and>
        dev' = flushed_device now f dev)"
  by (auto simp: update_device_row_def andThen_Inr get_device_row_def get_by_ref_Inr)

section \<open>The devices of a scope\<close>

text \<open>\<open>getattr(device, field, "")\<close> for the fields of a query; an absent value prints as \<open>None\<close>.\<close>

definition device_field :: "device \<Rightarrow> string \<Rightarrow> string" where
  "device_field dev f =
     py_str (if f = ''vendor'' then JStr (dev_vendor dev) else if f = ''model'' then JStr (dev_model dev)
       else if f = ''driver_name'' then JStr (dev_driver_name dev) else if f = ''status'' then JStr (dev_status dev)
       else if f = ''role'' then str_opt (dev_role dev) else if f = ''site'' then str_opt (dev_site dev) else JStr [])"

definition query_devices :: "string list \<Rightarrow> jobj \<Rightarrow> device list \<Rightarrow> device list" where
  "query_devices cols scope devs =
     foldl (\<lambda>ds f. let v = jget scope f in if truthy v then filter (\<lambda>dev. device_field dev f = py_str v) ds else ds) devs cols"

definition listed_devices :: "jobj \<Rightarrow> (db, device list) action" where
  "listed_devices scope =
     andThen (query (\<lambda>_. case map_of scope ''device_ids'' of None \<Rightarrow> Inr [] | Some v \<Rightarrow> json_items v)) (\<lambda>ids.
       for_each (\<lambda>i. get_device_row (RefText (py_str i))) ids)"

end
