(* ===== verification/Snapshots.thy ===== *)
theory Snapshots
  imports ChangeValidation
begin

text \<open>
  app/repositories/config_snapshots.py: the stored configurations of the devices, the diffs between them, and
  the retention policy.
\<close>

section \<open>Snapshots\<close>

definition create_snapshot ::
  "int \<Rightarrow> ref \<Rightarrow> string \<Rightarrow> string \<Rightarrow> string \<Rightarrow> string \<Rightarrow> string \<Rightarrow> ref option \<Rightarrow> jobj option \<Rightarrow> datetime option \<Rightarrow> bool \<Rightarrow>
   (db, snapshot) action" where
  "create_snapshot now device config hash source config_type collected_by backup_job metadata collected_at sanitized =
     andThen (query (\<lambda>_. coerce_ref ''Device'' device)) (\<lambda>dev.
     andThen (query (\<lambda>_. optional_ref ''Config backup job'' backup_job)) (\<lambda>job.
     andThen fresh_id (\<lambda>i.
       let at = (case collected_at of None \<Rightarrow> Aware now | Some t \<Rightarrow> t);
           sn = \<lparr>sn_id = i, sn_device_id = dev, sn_backup_job_id = job, sn_source = source,
             sn_config_type = config_type, sn_config_text = config, sn_config_hash = hash, sn_sanitized = sanitized,
             sn_collection_method = collected_by, sn_collected_at = at, sn_created_at = at, sn_metadata = metadata\<rparr>
       in andThen (change (\<lambda>d. d\<lparr>t_snapshot := t_snapshot d @ [sn]\<rparr>)) (\<lambda>_. ret sn))))"

definition get_snapshot :: "ref \<Rightarrow> (db, snapshot) action" where
  "get_snapshot = get_by_ref find_snapshot ''Config snapshot''"

definition list_snapshots_for_device :: "ref \<Rightarrow> (db, snapshot list) action" where
  "list_snapshots_for_device r =
     andThen (query (\<lambda>_. coerce_ref ''Device'' r)) (\<lambda>i. asks (\<lambda>d. snapshots_for_device d i))"

definition get_latest_snapshot :: "ref \<Rightarrow> ref option \<Rightarrow> (db, snapshot option) action" where
  "get_latest_snapshot r excluded =
     andThen (list_snapshots_for_device r) (\<lambda>sns.
     andThen (query (\<lambda>_. optional_ref ''Config snapshot'' excluded)) (\<lambda>x.
     ret (find (\<lambda>sn. x = None \<or> x \<noteq> Some (sn_id sn)) sns)))"

definition find_snapshot_by_hash :: "ref \<Rightarrow> string \<Rightarrow> (db, snapshot option) action" where
  "find_snapshot_by_hash r hash =
     andThen (query (\<lambda>_. coerce_ref ''Device'' r)) (\<lambda>i.
     asks (\<lambda>d. find (\<lambda>sn. sn_device_id sn = i \<and> sn_config_hash sn = hash) (t_snapshot d)))"

section \<open>Diffs\<close>

definition create_diff ::
  "int \<Rightarrow> ref \<Rightarrow> ref \<Rightarrow> ref \<Rightarrow> string \<Rightarrow> string \<Rightarrow> jobj option \<Rightarrow> (db, snapshot_diff) action" where
  "create_diff now device from_ref to_ref diff_text hash summary =
     andThen (query (\<lambda>_. coerce_ref ''Device'' device)) (\<lambda>dev.
     andThen (query (\<lambda>_. coerce_ref ''Config snapshot'' from_ref)) (\<lambda>a.
     andThen (query (\<lambda>_. coerce_ref ''Config snapshot'' to_ref)) (\<lambda>b.
     andThen fresh_id (\<lambda>i.
       let sd = \<lparr>sd_id = i, sd_device_id = dev, sd_from_snapshot_id = a, sd_to_snapshot_id = b,
             sd_diff_text = diff_text, sd_diff_hash = hash, sd_change_summary = summary, sd_created_at = Aware now\<rparr>
       in andThen (change (\<lambda>d. d\<lparr>t_snapshot_diff := t_snapshot_diff d @ [sd]\<rparr>)) (\<lambda>_. ret sd)))))"

definition get_diff :: "ref \<Rightarrow> (db, snapshot_diff) action" where
  "get_diff = get_by_ref find_snapshot_diff ''Config snapshot diff''"

definition list_diffs_for_device :: "ref \<Rightarrow> (db, snapshot_diff list) action" where
  "list_diffs_for_device r =
     andThen (query (\<lambda>_. coerce_ref ''Device'' r)) (\<lambda>i.
     asks (\<lambda>d. rev (by_time sd_created_at (filter (\<lambda>x. sd_device_id x = i) (t_snapshot_diff d)))))"

definition find_diff_between_snapshots :: "ref \<Rightarrow> ref \<Rightarrow> (db, snapshot_diff option) action" where
  "find_diff_between_snapshots r q =
     andThen (query (\<lambda>_. coerce_ref ''Config snapshot'' r)) (\<lambda>a.
     andThen (query (\<lambda>_. coerce_ref ''Config snapshot'' q)) (\<lambda>b.
     asks (\<lambda>d. find (\<lambda>x. sd_from_snapshot_id x = a \<and> sd_to_snapshot_id x = b) (t_snapshot_diff d))))"

section \<open>Retention\<close>

abbreviation day :: int where "day \<equiv> 24 * hour"

text \<open>
  The snapshots to delete: those collected before the cutoff, and per device those behind the first
  \<open>max_snapshots\<close> in the order of \<open>list_snapshots_for_device\<close>.
\<close>

definition to_delete :: "int \<Rightarrow> int \<Rightarrow> int option \<Rightarrow> db \<Rightarrow> snapshot list" where
  "to_delete now retention_days max_snapshots d =
     (let stale = filter (\<lambda>sn. instant (sn_collected_at sn) < now - retention_days * day) (t_snapshot d);
          surplus = (case max_snapshots of
              None \<Rightarrow> []
            | Some n \<Rightarrow> concat (map (\<lambda>i. slice_from n (snapshots_for_device d i))
                                 (remdups (map sn_device_id (t_snapshot d)))))
      in stale @ filter (\<lambda>sn. sn_id sn \<notin> set (map sn_id stale)) surplus)"

definition delete_old_snapshots :: "int \<Rightarrow> int \<Rightarrow> int option \<Rightarrow> (db, int) action" where
  "delete_old_snapshots now retention_days max_snapshots =
     andThen (asks (to_delete now retention_days max_snapshots)) (\<lambda>gone.
       if gone = [] then ret 0
       else let ids = map sn_id gone in
         andThen (change (\<lambda>d. d\<lparr>t_snapshot_diff := filter (\<lambda>x. sd_from_snapshot_id x \<notin> set ids \<and>
             sd_to_snapshot_id x \<notin> set ids) (t_snapshot_diff d)\<rparr>)) (\<lambda>_.
         andThen (change (\<lambda>d. d\<lparr>t_snapshot := filter (\<lambda>sn. sn_id sn \<notin> set ids) (t_snapshot d)\<rparr>)) (\<lambda>_.
         ret (int (length gone)))))"

section \<open>What the retention keeps\<close>

definition stale_snapshot :: "int \<Rightarrow> int \<Rightarrow> snapshot \<Rightarrow> bool" where
  "stale_snapshot now days sn \<longleftrightarrow> instant (sn_collected_at sn) < now - days * day"

definition surplus_snapshot :: "int option \<Rightarrow> db \<Rightarrow> snapshot \<Rightarrow> bool" where
  "surplus_snapshot m d sn \<longleftrightarrow> (\<exists>n. m = Some n \<and> sn \<in> set (slice_from n (snapshots_for_device d (sn_device_id sn))))"

lemma set_snapshots_for_device [simp]: "set (snapshots_for_device d i) = {sn \<in> set (t_snapshot d). sn_device_id sn = i}"
  by (auto simp: snapshots_for_device_def by_time_def)

lemma distinct_snapshots_for_device:
  "distinct (map sn_id (t_snapshot d)) \<Longrightarrow> distinct (snapshots_for_device d i)"
  by (simp add: snapshots_for_device_def by_time_def distinct_sort distinct_map)

lemma slice_from_mem: "x \<in> set (slice_from n xs) \<Longrightarrow> x \<in> set xs"
  by (auto simp: slice_from_def dest: in_set_dropD)

lemma newest_first: "sorted_wrt (\<lambda>a b. instant (sn_collected_at b) \<le> instant (sn_collected_at a)) (snapshots_for_device d i)"
  using sorted_sort_key [of "\<lambda>s. instant (sn_collected_at s)" "by_time sn_created_at (sort_key sn_id (filter (\<lambda>s. sn_device_id s = i) (t_snapshot d)))"]
  by (simp add: snapshots_for_device_def sorted_wrt_rev sorted_map)

definition beyond_limit :: "int \<Rightarrow> db \<Rightarrow> snapshot list" where
  "beyond_limit n d = concat (map (\<lambda>i. slice_from n (snapshots_for_device d i)) (remdups (map sn_device_id (t_snapshot d))))"

lemma slice_device: "x \<in> set (slice_from n (snapshots_for_device d i)) \<Longrightarrow> x \<in> set (t_snapshot d) \<and> sn_device_id x = i"
  by (drule slice_from_mem) simp

lemma set_beyond: "x \<in> set (beyond_limit n d) \<longleftrightarrow> x \<in> set (t_snapshot d) \<and> surplus_snapshot (Some n) d x"
proof
  assume "x \<in> set (beyond_limit n d)"
  then obtain i where i: "x \<in> set (slice_from n (snapshots_for_device d i))" by (auto simp: beyond_limit_def)
  with slice_device [OF i] show "x \<in> set (t_snapshot d) \<and> surplus_snapshot (Some n) d x" by (auto simp: surplus_snapshot_def)
qed (auto simp: beyond_limit_def surplus_snapshot_def)

lemma distinct_beyond:
  assumes "distinct (map sn_id (t_snapshot d))"
  shows "distinct (beyond_limit n d)"
proof -
  have "distinct (concat (map (\<lambda>i. slice_from n (snapshots_for_device d i)) ks))" if "distinct ks" for ks
    using that
  proof (induction ks)
    case (Cons k ks)
    have "distinct (slice_from n (snapshots_for_device d k))"
      by (simp add: slice_from_def distinct_snapshots_for_device [OF assms])
    with Cons show ?case by (auto dest!: slice_device)
  qed simp
  then show ?thesis by (simp add: beyond_limit_def)
qed

lemma to_delete_eq:
  "to_delete now days m d =
     (let old = filter (stale_snapshot now days) (t_snapshot d)
      in old @ filter (\<lambda>sn. sn_id sn \<notin> sn_id ` set old) (case m of None \<Rightarrow> [] | Some n \<Rightarrow> beyond_limit n d))"
  by (cases m) (simp_all add: to_delete_def Let_def stale_snapshot_def [abs_def] beyond_limit_def)

lemma to_delete_facts:
  assumes ids: "distinct (map sn_id (t_snapshot d))"
  shows "set (to_delete now days m d) = {sn \<in> set (t_snapshot d). stale_snapshot now days sn \<or> surplus_snapshot m d sn}"
    "distinct (to_delete now days m d)"
proof -
  have inj: "a = b" if "a \<in> set (t_snapshot d)" "b \<in> set (t_snapshot d)" "sn_id a = sn_id b" for a b
    using that ids by (auto simp: distinct_map inj_on_def)
  have old: "sn_id sn \<in> sn_id ` set (filter (stale_snapshot now days) (t_snapshot d)) \<longleftrightarrow> stale_snapshot now days sn"
    if "sn \<in> set (t_snapshot d)" for sn using that inj by auto
  show "set (to_delete now days m d) = {sn \<in> set (t_snapshot d). stale_snapshot now days sn \<or> surplus_snapshot m d sn}"
  proof (cases m)
    case None
    then show ?thesis by (auto simp: to_delete_eq Let_def surplus_snapshot_def)
  next
    case (Some n)
    then show ?thesis using old by (auto simp: to_delete_eq Let_def set_beyond)
  qed
  show "distinct (to_delete now days m d)"
    using ids distinct_beyond [OF ids] by (auto simp: to_delete_eq Let_def distinct_map split: option.splits)
qed

lemma retention_Inr:
  assumes "delete_old_snapshots now days m s = (Inr k, s')" "distinct (map sn_id (t_snapshot s))"
  shows "k = int (length (to_delete now days m s)) \<and>
     t_snapshot s' = filter (\<lambda>sn. \<not> stale_snapshot now days sn \<and> \<not> surplus_snapshot m s sn) (t_snapshot s) \<and>
     t_snapshot_diff s' = filter (\<lambda>x. sd_from_snapshot_id x \<notin> sn_id ` set (to_delete now days m s) \<and>
       sd_to_snapshot_id x \<notin> sn_id ` set (to_delete now days m s)) (t_snapshot_diff s)"
proof -
  note gone = to_delete_facts(1) [OF assms(2), of now days m]
  have "sn_id sn \<in> sn_id ` set (to_delete now days m s) \<longleftrightarrow> stale_snapshot now days sn \<or> surplus_snapshot m s sn"
    if "sn \<in> set (t_snapshot s)" for sn
    using that assms(2) by (auto simp: gone distinct_map inj_on_def)
  then have kept_snapshots: "filter (\<lambda>sn. sn_id sn \<notin> sn_id ` set (to_delete now days m s)) (t_snapshot s) =
      filter (\<lambda>sn. \<not> stale_snapshot now days sn \<and> \<not> surplus_snapshot m s sn) (t_snapshot s)"
    by (auto intro!: filter_cong)
  show ?thesis
    using assms(1) by (auto simp: kept_snapshots [symmetric] delete_old_snapshots_def andThen_Inr Let_def split: if_splits)
qed

definition kept_snapshots :: "int \<Rightarrow> int \<Rightarrow> int \<Rightarrow> db \<Rightarrow> snapshot list" where
  "kept_snapshots now days n s = filter (\<lambda>sn. \<not> stale_snapshot now days sn \<and> \<not> surplus_snapshot (Some n) s sn) (t_snapshot s)"

lemma kept_taken:
  assumes "0 \<le> n" "sn \<in> set (kept_snapshots now days n s)"
  shows "sn \<in> set (take (nat n) (snapshots_for_device s (sn_device_id sn)))"
proof -
  from assms have "sn \<in> set (snapshots_for_device s (sn_device_id sn))" "sn \<notin> set (drop (nat n) (snapshots_for_device s (sn_device_id sn)))"
    by (auto simp: kept_snapshots_def surplus_snapshot_def slice_from_def)
  then show ?thesis using append_take_drop_id [of "nat n" "snapshots_for_device s (sn_device_id sn)"] by (metis Un_iff set_append)
qed

lemma kept_few:
  assumes "0 \<le> n" "distinct (map sn_id (t_snapshot s))"
  shows "length (filter (\<lambda>sn. sn_device_id sn = i) (kept_snapshots now days n s)) \<le> nat n"
proof -
  let ?mine = "filter (\<lambda>sn. sn_device_id sn = i) (kept_snapshots now days n s)"
  have "set ?mine \<subseteq> set (take (nat n) (snapshots_for_device s i))" using kept_taken [OF assms(1)] by auto
  then have "card (set ?mine) \<le> length (take (nat n) (snapshots_for_device s i))"
    by (meson List.finite_set card_length card_mono le_trans)
  moreover have "distinct ?mine" using assms(2) by (simp add: kept_snapshots_def distinct_map)
  ultimately show ?thesis using distinct_card [of ?mine] by simp
qed

lemma kept_newest:
  assumes "0 \<le> n" "sn \<in> set (t_snapshot s)" "sn \<notin> set (kept_snapshots now days n s)" "sn' \<in> set (kept_snapshots now days n s)"
    "sn_device_id sn = sn_device_id sn'"
  shows "instant (sn_collected_at sn) \<le> instant (sn_collected_at sn')"
proof (cases "stale_snapshot now days sn")
  case True
  then show ?thesis using assms(4) by (simp add: stale_snapshot_def kept_snapshots_def)
next
  case False
  let ?xs = "snapshots_for_device s (sn_device_id sn)"
  from False assms have "sn \<in> set (drop (nat n) ?xs)" by (auto simp: kept_snapshots_def surplus_snapshot_def slice_from_def)
  moreover have "sn' \<in> set (take (nat n) ?xs)" using kept_taken [OF assms(1,4)] by (simp add: assms(5))
  moreover have "sorted_wrt (\<lambda>a b. instant (sn_collected_at b) \<le> instant (sn_collected_at a)) (take (nat n) ?xs @ drop (nat n) ?xs)"
    unfolding append_take_drop_id by (rule newest_first)
  ultimately show ?thesis unfolding sorted_wrt_append by blast
qed

lemma gone_count:
  assumes "distinct (map sn_id (t_snapshot s))"
  shows "int (length (to_delete now days (Some n) s)) = int (length (t_snapshot s)) - int (length (kept_snapshots now days n s))"
proof -
  let ?keep = "\<lambda>sn. \<not> stale_snapshot now days sn \<and> \<not> surplus_snapshot (Some n) s sn"
  note gone = to_delete_facts [OF assms, of now days "Some n"]
  have "distinct (filter (\<lambda>sn. \<not> ?keep sn) (t_snapshot s))" using assms by (simp add: distinct_map)
  moreover have "set (to_delete now days (Some n) s) = set (filter (\<lambda>sn. \<not> ?keep sn) (t_snapshot s))" using gone(1) by auto
  ultimately have "length (to_delete now days (Some n) s) = length (filter (\<lambda>sn. \<not> ?keep sn) (t_snapshot s))"
    using distinct_card gone(2) by metis
  then show ?thesis using sum_length_filter_compl [of ?keep "t_snapshot s"] by (simp add: kept_snapshots_def)
qed

text \<open>
  C25: What the retention keeps.  After the clean-up with a limit of \<open>n\<close> snapshots per device, exactly the reported
  number of snapshots is gone, none of the rest is older than the retention period, no device has more than \<open>n\<close>, the
  snapshots a device keeps are its newest, and no stored diff refers to a deleted snapshot.
\<close>

theorem retention_keeps_newest:
  assumes run: "delete_old_snapshots now days (Some n) s = (Inr k, s')" and n: "0 \<le> n"
    and ids: "distinct (map sn_id (t_snapshot s))"
  shows "k = int (length (t_snapshot s)) - int (length (t_snapshot s')) \<and>
     (\<forall>sn\<in>set (t_snapshot s'). now - days * day \<le> instant (sn_collected_at sn)) \<and>
     length (filter (\<lambda>sn. sn_device_id sn = i) (t_snapshot s')) \<le> nat n \<and>
     (\<forall>sn\<in>set (t_snapshot s). \<forall>newer\<in>set (t_snapshot s'). sn \<notin> set (t_snapshot s') \<and> sn_device_id sn = sn_device_id newer \<longrightarrow>
        instant (sn_collected_at sn) \<le> instant (sn_collected_at newer)) \<and>
     (\<forall>x\<in>set (t_snapshot_diff s'). \<forall>sn\<in>set (t_snapshot s).
        sn_id sn \<in> {sd_from_snapshot_id x, sd_to_snapshot_id x} \<longrightarrow> sn \<in> set (t_snapshot s'))"
proof -
  let ?gone = "to_delete now days (Some n) s"
  note r = retention_Inr [OF run ids]
  have k: "k = int (length ?gone)" and rest: "t_snapshot s' = kept_snapshots now days n s"
    and diffs: "t_snapshot_diff s' = filter (\<lambda>x. sd_from_snapshot_id x \<notin> sn_id ` set ?gone \<and>
       sd_to_snapshot_id x \<notin> sn_id ` set ?gone) (t_snapshot_diff s)" using r by (auto simp: kept_snapshots_def)
  have "sn \<in> set (t_snapshot s')" if "x \<in> set (t_snapshot_diff s')" "sn \<in> set (t_snapshot s)"
    "sn_id sn \<in> {sd_from_snapshot_id x, sd_to_snapshot_id x}" for x sn
  proof -
    from that(1,3) have "sn \<notin> set ?gone" unfolding diffs by (auto simp: image_iff)
    with that(2) to_delete_facts(1) [OF ids, of now days "Some n"] show ?thesis by (simp add: rest kept_snapshots_def)
  qed
  moreover have "\<forall>sn\<in>set (t_snapshot s'). now - days * day \<le> instant (sn_collected_at sn)"
    by (simp add: rest kept_snapshots_def stale_snapshot_def not_less)
  moreover have "k = int (length (t_snapshot s)) - int (length (t_snapshot s'))" by (simp add: k rest gone_count [OF ids])
  ultimately show ?thesis using kept_few [OF n ids, of i now days] kept_newest [OF n, of _ s now days] unfolding rest by blast
qed

definition two_snapshots :: db where
  "two_snapshots = (let sn = \<lparr>sn_id = 1, sn_device_id = 9, sn_backup_job_id = None, sn_source = [], sn_config_type = [],
       sn_config_text = [], sn_config_hash = [], sn_sanitized = True, sn_collection_method = [], sn_collected_at = Aware 5,
       sn_created_at = Aware 5, sn_metadata = None\<rparr>
     in empty_db\<lparr>t_snapshot := [sn, sn\<lparr>sn_id := 2, sn_collected_at := Aware 7\<rparr>]\<rparr>)"

theorem retention_keeps_newest_witness:
  "length (filter (\<lambda>sn. sn_device_id sn = 9) (t_snapshot (snd (delete_old_snapshots 10 30 (Some 1) two_snapshots)))) \<le> 1 \<and>
   map sn_id (t_snapshot (snd (delete_old_snapshots 10 30 (Some 1) two_snapshots))) = [2]"
proof -
  have one: "map_sum (\<lambda>_. ()) id (fst (delete_old_snapshots 10 30 (Some 1) two_snapshots)) = Inr 1"
    "map sn_id (t_snapshot (snd (delete_old_snapshots 10 30 (Some 1) two_snapshots))) = [2]" by code_simp+
  then have "delete_old_snapshots 10 30 (Some 1) two_snapshots = (Inr 1, snd (delete_old_snapshots 10 30 (Some 1) two_snapshots))"
    by (cases "delete_old_snapshots 10 30 (Some 1) two_snapshots"; cases "fst (delete_old_snapshots 10 30 (Some 1) two_snapshots)") auto
  from retention_keeps_newest [OF this, of 9] one(2) show ?thesis by (simp add: two_snapshots_def Let_def empty_db_def)
qed

end
