(* ===== verification/VlanRepository.thy ===== *)
theory VlanRepository
  imports ChangeValidation
begin

text \<open>
  app/repositories/vlan_workflows.py: VLAN change requests, their devices, approvals and audit events.
\<close>

section \<open>Requests\<close>

definition upd_vlan_request :: "uuid \<Rightarrow> (vlan_request \<Rightarrow> vlan_request) \<Rightarrow> db \<Rightarrow> db" where
  "upd_vlan_request i f d = d\<lparr>t_vlan_request := upd_row vr_id i f (t_vlan_request d)\<rparr>"

definition upd_vlan_device :: "uuid \<Rightarrow> (vlan_device \<Rightarrow> vlan_device) \<Rightarrow> db \<Rightarrow> db" where
  "upd_vlan_device i f d = d\<lparr>t_vlan_device := upd_row vd_id i f (t_vlan_device d)\<rparr>"

definition upd_vlan_approval :: "uuid \<Rightarrow> (vlan_approval \<Rightarrow> vlan_approval) \<Rightarrow> db \<Rightarrow> db" where
  "upd_vlan_approval i f d = d\<lparr>t_vlan_approval := upd_row va_id i f (t_vlan_approval d)\<rparr>"

text \<open>\<open>VlanChangeRequestCreate\<close>\<close>

record vlan_create =
  vc_title :: string
  vc_description :: "string option"
  vc_scope_type :: string
  vc_scope_filter :: "jobj option"
  vc_operation :: string
  vc_vlan_id :: int
  vc_vlan_name :: "string option"
  vc_dry_run_required :: bool
  vc_backup_required :: bool
  vc_lab_validation_required :: bool
  vc_approval_required :: bool

definition create_vlan_request_row :: "int \<Rightarrow> vlan_create \<Rightarrow> string option \<Rightarrow> (db, vlan_request) action" where
  "create_vlan_request_row now p requested_by =
     andThen fresh_id (\<lambda>i.
       let r = \<lparr>vr_id = i, vr_title = vc_title p, vr_description = vc_description p, vr_status = ''draft'',
             vr_requested_by = requested_by, vr_scope_type = vc_scope_type p, vr_scope_filter = vc_scope_filter p,
             vr_vlan_id = vc_vlan_id p, vr_vlan_name = vc_vlan_name p, vr_operation = vc_operation p,
             vr_dry_run_required = vc_dry_run_required p, vr_backup_required = vc_backup_required p,
             vr_lab_validation_required = vc_lab_validation_required p,
             vr_approval_required = vc_approval_required p, vr_risk_level = ''medium'', vr_risk_summary = None,
             vr_created_at = Aware now, vr_updated_at = Aware now, vr_submitted_at = None, vr_approved_at = None,
             vr_approved_by = None, vr_rejected_at = None, vr_rejected_by = None, vr_completed_at = None,
             vr_error_summary = None\<rparr>
       in andThen (change (\<lambda>d. d\<lparr>t_vlan_request := t_vlan_request d @ [r]\<rparr>)) (\<lambda>_. ret r))"

definition get_vlan_request_row :: "ref \<Rightarrow> (db, vlan_request) action" where
  "get_vlan_request_row = get_by_ref find_vlan_request ''VLAN change request''"

definition list_vlan_requests :: "string option \<Rightarrow> db \<Rightarrow> vlan_request list" where
  "list_vlan_requests status d =
     rev (by_time vr_created_at (filter (\<lambda>r. matches_filter status (vr_status r)) (t_vlan_request d)))"

text \<open>What \<open>update_request_status\<close> assigns.\<close>

definition with_vlan_status ::
  "int \<Rightarrow> string \<Rightarrow> string option \<Rightarrow> string option \<Rightarrow> vlan_request \<Rightarrow> vlan_request" where
  "with_vlan_status now status actr err r =
     (let at = Some (Aware now)
      in r\<lparr>vr_status := status, vr_updated_at := Aware now,
           vr_submitted_at := (if status = ''pending_approval'' then at else vr_submitted_at r),
           vr_approved_at := (if status = ''approved'' then at else vr_approved_at r),
           vr_approved_by := (if status = ''approved'' then actr else vr_approved_by r),
           vr_rejected_at := (if status = ''rejected'' then at else vr_rejected_at r),
           vr_rejected_by := (if status = ''rejected'' then actr else vr_rejected_by r),
           vr_completed_at := (if status \<in> {''completed'', ''failed'', ''cancelled''} then at else vr_completed_at r),
           vr_error_summary := (if err \<noteq> None then err else vr_error_summary r)\<rparr>)"

definition update_vlan_request ::
  "ref \<Rightarrow> (vlan_request \<Rightarrow> vlan_request) \<Rightarrow> (db, vlan_request) action" where
  "update_vlan_request r f =
     andThen (get_vlan_request_row r) (\<lambda>q.
     andThen (change (upd_vlan_request (vr_id q) f)) (\<lambda>_. ret (f q)))"

definition update_vlan_status ::
  "int \<Rightarrow> ref \<Rightarrow> string \<Rightarrow> string option \<Rightarrow> string option \<Rightarrow> (db, vlan_request) action" where
  "update_vlan_status now r status actr err = update_vlan_request r (with_vlan_status now status actr err)"

definition update_vlan_risk :: "int \<Rightarrow> ref \<Rightarrow> string \<Rightarrow> jobj option \<Rightarrow> (db, vlan_request) action" where
  "update_vlan_risk now r level summary =
     update_vlan_request r (\<lambda>q. q\<lparr>vr_risk_level := level, vr_risk_summary := summary, vr_updated_at := Aware now\<rparr>)"

section \<open>Devices of a request\<close>

text \<open>One dictionary of the list given to \<open>add_devices\<close>.\<close>

record device_entry =
  de_device_id :: ref
  de_driver_name :: "string option"
  de_vendor :: "string option"
  de_model :: "string option"
  de_status :: "string option"

definition create_vlan_device :: "int \<Rightarrow> uuid \<Rightarrow> uuid \<Rightarrow> device_entry \<Rightarrow> (db, vlan_device) action" where
  "create_vlan_device now i dev e =
     andThen fresh_id (\<lambda>k.
       let row = \<lparr>vd_id = k, vd_request_id = i, vd_device_id = dev,
             vd_status = (if or_empty (de_status e) = [] then ''pending'' else or_empty (de_status e)),
             vd_driver_name = de_driver_name e, vd_vendor = de_vendor e, vd_model = de_model e,
             vd_backup_snapshot_id = None, vd_lab_validation_id = None, vd_validation_errors = Some [],
             vd_validation_warnings = Some [], vd_planned_commands = None, vd_rollback_commands = None,
             vd_impact_summary = None, vd_created_at = Aware now, vd_updated_at = Aware now\<rparr>
       in andThen (change (\<lambda>d. d\<lparr>t_vlan_device := t_vlan_device d @ [row]\<rparr>)) (\<lambda>_. ret row))"

definition get_request_devices :: "ref \<Rightarrow> (db, vlan_device list) action" where
  "get_request_devices r =
     andThen (query (\<lambda>_. coerce_ref ''VLAN change request'' r)) (\<lambda>i. asks (\<lambda>d. request_devices d i))"

text \<open>
  \<open>existing\<close> is read once, before the loop: a device named twice in the list is added twice.  The rows are
  flushed together at the end; that the model adds them one by one is visible to nobody.
\<close>

definition add_vlan_devices :: "int \<Rightarrow> ref \<Rightarrow> device_entry list \<Rightarrow> (db, vlan_device list) action" where
  "add_vlan_devices now r es =
     andThen (query (\<lambda>_. coerce_ref ''VLAN change request'' r)) (\<lambda>i.
     andThen (get_request_devices (RefId i)) (\<lambda>rows.
     andThen (for_each (\<lambda>e.
         andThen (query (\<lambda>_. coerce_ref ''Device'' (de_device_id e))) (\<lambda>dev.
         if dev \<in> set (map vd_device_id rows) then ret []
         else andThen (create_vlan_device now i dev e) (\<lambda>row. ret [row]))) es) (\<lambda>new.
     ret (concat new))))"

definition request_device :: "db \<Rightarrow> uuid \<Rightarrow> uuid \<Rightarrow> vlan_device option" where
  "request_device d i dev = find (\<lambda>row. vd_request_id row = i \<and> vd_device_id row = dev) (t_vlan_device d)"

definition get_request_device :: "ref \<Rightarrow> ref \<Rightarrow> (db, vlan_device) action" where
  "get_request_device r dr =
     andThen (query (\<lambda>_. coerce_ref ''VLAN change request'' r)) (\<lambda>i.
     andThen (query (\<lambda>_. coerce_ref ''Device'' dr)) (\<lambda>dev.
     query (\<lambda>d. case request_device d i dev of
                  None \<Rightarrow> Inl (NotFoundError (''Device '' @ ref_str dr @ '' is not part of VLAN change request '' @ ref_str r))
                | Some row \<Rightarrow> Inr row)))"

definition update_request_device ::
  "int \<Rightarrow> ref \<Rightarrow> ref \<Rightarrow> (vlan_device \<Rightarrow> vlan_device) \<Rightarrow> (db, vlan_device) action" where
  "update_request_device now r dr f =
     (let g = (\<lambda>row. (f row)\<lparr>vd_updated_at := Aware now\<rparr>)
      in andThen (get_request_device r dr) (\<lambda>row.
         andThen (change (upd_vlan_device (vd_id row) g)) (\<lambda>_. ret (g row))))"

definition update_device_validation ::
  "int \<Rightarrow> ref \<Rightarrow> ref \<Rightarrow> string \<Rightarrow> string list \<Rightarrow> string list \<Rightarrow> uuid option \<Rightarrow> uuid option \<Rightarrow> (db, vlan_device) action" where
  "update_device_validation now r dr status errors warnings snapshot_id validation_id =
     update_request_device now r dr (\<lambda>row. row\<lparr>vd_status := status, vd_validation_errors := Some errors,
       vd_validation_warnings := Some warnings, vd_backup_snapshot_id := snapshot_id,
       vd_lab_validation_id := validation_id\<rparr>)"

definition update_device_plan ::
  "int \<Rightarrow> ref \<Rightarrow> ref \<Rightarrow> string list option \<Rightarrow> string list option \<Rightarrow> jobj option \<Rightarrow> string option \<Rightarrow>
   (db, vlan_device) action" where
  "update_device_plan now r dr planned rollback impact status =
     update_request_device now r dr (\<lambda>row. row\<lparr>vd_planned_commands := planned, vd_rollback_commands := rollback,
       vd_impact_summary := impact, vd_status := (case status of None \<Rightarrow> vd_status row | Some st \<Rightarrow> st)\<rparr>)"

definition update_device_status ::
  "int \<Rightarrow> ref \<Rightarrow> ref \<Rightarrow> string \<Rightarrow> string list option \<Rightarrow> string list option \<Rightarrow> (db, vlan_device) action" where
  "update_device_status now r dr status errors warnings =
     update_request_device now r dr (\<lambda>row. row\<lparr>vd_status := status,
       vd_validation_errors := (if errors \<noteq> None then errors else vd_validation_errors row),
       vd_validation_warnings := (if warnings \<noteq> None then warnings else vd_validation_warnings row)\<rparr>)"

section \<open>Approvals and audit events\<close>

definition create_vlan_approval :: "int \<Rightarrow> ref \<Rightarrow> string option \<Rightarrow> (db, vlan_approval) action" where
  "create_vlan_approval now r requested_by =
     andThen (query (\<lambda>_. coerce_ref ''VLAN change request'' r)) (\<lambda>i.
     andThen fresh_id (\<lambda>k.
       let a = \<lparr>va_id = k, va_request_id = i, va_status = ''pending'', va_requested_by = requested_by,
             va_approved_by = None, va_rejected_by = None, va_comment = None, va_created_at = Aware now,
             va_decided_at = None\<rparr>
       in andThen (change (\<lambda>d. d\<lparr>t_vlan_approval := t_vlan_approval d @ [a]\<rparr>)) (\<lambda>_. ret a)))"

definition latest_vlan_approval :: "db \<Rightarrow> uuid \<Rightarrow> vlan_approval option" where
  "latest_vlan_approval d i =
     (case rev (by_time va_created_at (filter (\<lambda>a. va_request_id a = i) (t_vlan_approval d))) of
        [] \<Rightarrow> None | a # _ \<Rightarrow> Some a)"

definition latest_or_new_vlan_approval :: "int \<Rightarrow> ref \<Rightarrow> (db, vlan_approval) action" where
  "latest_or_new_vlan_approval now r =
     andThen (query (\<lambda>_. coerce_ref ''VLAN change request'' r)) (\<lambda>i.
     andThen (asks (\<lambda>d. latest_vlan_approval d i)) (\<lambda>a.
       case a of Some a \<Rightarrow> ret a | None \<Rightarrow> create_vlan_approval now r None))"

definition approve_vlan_row :: "int \<Rightarrow> ref \<Rightarrow> string \<Rightarrow> string option \<Rightarrow> (db, vlan_approval) action" where
  "approve_vlan_row now r actr comment =
     (let f = (\<lambda>a. a\<lparr>va_status := ''approved'', va_approved_by := Some actr, va_comment := comment,
                     va_decided_at := Some (Aware now)\<rparr>)
      in andThen (latest_or_new_vlan_approval now r) (\<lambda>a.
         andThen (change (upd_vlan_approval (va_id a) f)) (\<lambda>_.
         andThen (update_vlan_status now r ''approved'' (Some actr) None) (\<lambda>_. ret (f a)))))"

definition reject_vlan_row :: "int \<Rightarrow> ref \<Rightarrow> string \<Rightarrow> string option \<Rightarrow> (db, vlan_approval) action" where
  "reject_vlan_row now r actr comment =
     (let f = (\<lambda>a. a\<lparr>va_status := ''rejected'', va_rejected_by := Some actr, va_comment := comment,
                     va_decided_at := Some (Aware now)\<rparr>)
      in andThen (latest_or_new_vlan_approval now r) (\<lambda>a.
         andThen (change (upd_vlan_approval (va_id a) f)) (\<lambda>_.
         andThen (update_vlan_status now r ''rejected'' (Some actr) None) (\<lambda>_. ret (f a)))))"

definition add_vlan_event ::
  "int \<Rightarrow> ref \<Rightarrow> string \<Rightarrow> string \<Rightarrow> string option \<Rightarrow> ref option \<Rightarrow> jobj option \<Rightarrow> (db, vlan_event) action" where
  "add_vlan_event now r event_type message actr device metadata =
     andThen (query (\<lambda>_. coerce_ref ''VLAN change request'' r)) (\<lambda>i.
     andThen (query (\<lambda>_. optional_ref ''Device'' device)) (\<lambda>dev.
     andThen fresh_id (\<lambda>k.
       let e = \<lparr>ve_id = k, ve_request_id = i, ve_device_id = dev, ve_event_type = event_type, ve_actor = actr,
             ve_message = message, ve_metadata = metadata, ve_created_at = Aware now\<rparr>
       in andThen (change (\<lambda>d. d\<lparr>t_vlan_event := t_vlan_event d @ [e]\<rparr>)) (\<lambda>_. ret e))))"

definition list_vlan_events :: "ref \<Rightarrow> (db, vlan_event list) action" where
  "list_vlan_events r =
     andThen (query (\<lambda>_. coerce_ref ''VLAN change request'' r)) (\<lambda>i.
     asks (\<lambda>d. by_time ve_created_at (filter (\<lambda>e. ve_request_id e = i) (t_vlan_event d))))"

end
