(* ===== verification/VlanCommands.thy ===== *)
theory VlanCommands
  imports Masking VlanRanges
begin

text \<open>
  The pure part of app/services/vlan_plan_service.py: the commands of the four command languages, what
  the sanitized configuration of a device says about a VLAN or an interface, and which commands undo an operation.
\<close>

section \<open>Rendering\<close>

definition interface_error :: "string \<Rightarrow> error" where
  "interface_error op = ConflictError (''operation '' @ op @ '' requires interface'')"

definition vlan_line :: "string \<Rightarrow> int \<Rightarrow> string" where
  "vlan_line lead n = lead @ int_str n"

definition name_line :: "string \<Rightarrow> string option \<Rightarrow> string list" where
  "name_line lead name = (case name of None \<Rightarrow> [] | Some s \<Rightarrow> if s = [] then [] else [lead @ s])"

definition cisco_interface_commands :: "string \<Rightarrow> int \<Rightarrow> string \<Rightarrow> string list" where
  "cisco_interface_commands op n ifc =
     (if op = ''assign_access_vlan''
      then [''configure terminal'', ''interface '' @ ifc, ''switchport mode access'', vlan_line ''switchport access vlan '' n, ''end'']
      else if op = ''remove_access_vlan''
      then [''configure terminal'', ''interface '' @ ifc, ''no switchport access vlan'', ''end'']
      else if op = ''add_trunk_vlan''
      then [''configure terminal'', ''interface '' @ ifc, vlan_line ''switchport trunk allowed vlan add '' n, ''end'']
      else if op = ''remove_trunk_vlan''
      then [''configure terminal'', ''interface '' @ ifc, vlan_line ''switchport trunk allowed vlan remove '' n, ''end'']
      else [])"

definition cisco_commands :: "string \<Rightarrow> int \<Rightarrow> string option \<Rightarrow> string option \<Rightarrow> error + string list" where
  "cisco_commands op n name ifc =
     (if op \<in> {''create_vlan'', ''rename_vlan''}
      then Inr ([''configure terminal'', vlan_line ''vlan '' n] @ name_line ''name '' name @ [''exit'', ''end''])
      else if op = ''delete_vlan'' then Inr [''configure terminal'', vlan_line ''no vlan '' n, ''end'']
      else case ifc of None \<Rightarrow> Inl (interface_error op) | Some i \<Rightarrow> Inr (cisco_interface_commands op n i))"

definition huawei_interface_commands :: "string \<Rightarrow> int \<Rightarrow> string \<Rightarrow> string list" where
  "huawei_interface_commands op n ifc =
     (if op = ''assign_access_vlan''
      then [''system-view'', ''interface '' @ ifc, ''port link-type access'', vlan_line ''port default vlan '' n, ''quit'', ''quit'']
      else if op = ''remove_access_vlan''
      then [''system-view'', ''interface '' @ ifc, ''undo port default vlan'', ''quit'', ''quit'']
      else if op = ''add_trunk_vlan''
      then [''system-view'', ''interface '' @ ifc, vlan_line ''port trunk allow-pass vlan '' n, ''quit'', ''quit'']
      else if op = ''remove_trunk_vlan''
      then [''system-view'', ''interface '' @ ifc, vlan_line ''undo port trunk allow-pass vlan '' n, ''quit'', ''quit'']
      else [])"

definition huawei_commands :: "string \<Rightarrow> int \<Rightarrow> string option \<Rightarrow> string option \<Rightarrow> error + string list" where
  "huawei_commands op n name ifc =
     (if op \<in> {''create_vlan'', ''rename_vlan''}
      then Inr ([''system-view'', vlan_line ''vlan '' n] @ name_line ''description '' name @ [''quit'', ''quit''])
      else if op = ''delete_vlan'' then Inr [''system-view'', vlan_line ''undo vlan '' n, ''quit'']
      else case ifc of None \<Rightarrow> Inl (interface_error op) | Some i \<Rightarrow> Inr (huawei_interface_commands op n i))"

definition comware_interface_commands :: "string \<Rightarrow> int \<Rightarrow> string \<Rightarrow> string list" where
  "comware_interface_commands op n ifc =
     (if op = ''assign_access_vlan''
      then [''system-view'', ''interface '' @ ifc, ''port link-type access'', vlan_line ''port access vlan '' n, ''quit'', ''quit'']
      else if op = ''remove_access_vlan''
      then [''system-view'', ''interface '' @ ifc, ''undo port access vlan'', ''quit'', ''quit'']
      else if op = ''add_trunk_vlan''
      then [''system-view'', ''interface '' @ ifc, vlan_line ''port trunk permit vlan '' n, ''quit'', ''quit'']
      else if op = ''remove_trunk_vlan''
      then [''system-view'', ''interface '' @ ifc, vlan_line ''undo port trunk permit vlan '' n, ''quit'', ''quit'']
      else [])"

definition comware_commands :: "string \<Rightarrow> int \<Rightarrow> string option \<Rightarrow> string option \<Rightarrow> error + string list" where
  "comware_commands op n name ifc =
     (if op \<in> {''create_vlan'', ''rename_vlan''}
      then Inr ([''system-view'', vlan_line ''vlan '' n] @ name_line ''name '' name @ [''quit'', ''quit''])
      else if op = ''delete_vlan'' then Inr [''system-view'', vlan_line ''undo vlan '' n, ''quit'']
      else case ifc of None \<Rightarrow> Inl (interface_error op) | Some i \<Rightarrow> Inr (comware_interface_commands op n i))"

definition procurve_interface_commands :: "string \<Rightarrow> int \<Rightarrow> string \<Rightarrow> string list" where
  "procurve_interface_commands op n ifc =
     (if op = ''assign_access_vlan'' then [vlan_line ''vlan '' n, ''untagged '' @ ifc, ''exit'']
      else if op = ''remove_access_vlan'' then [vlan_line ''vlan '' n, ''no untagged '' @ ifc, ''exit'']
      else if op = ''add_trunk_vlan'' then [vlan_line ''vlan '' n, ''tagged '' @ ifc, ''exit'']
      else if op = ''remove_trunk_vlan'' then [vlan_line ''vlan '' n, ''no tagged '' @ ifc, ''exit'']
      else [])"

definition procurve_commands :: "string \<Rightarrow> int \<Rightarrow> string option \<Rightarrow> string option \<Rightarrow> error + string list" where
  "procurve_commands op n name ifc =
     (if op \<in> {''create_vlan'', ''rename_vlan''}
      then Inr ([vlan_line ''vlan '' n] @ name_line ''name '' name @ [''exit''])
      else if op = ''delete_vlan'' then Inr [vlan_line ''no vlan '' n]
      else case ifc of None \<Rightarrow> Inl (interface_error op) | Some i \<Rightarrow> Inr (procurve_interface_commands op n i))"

text \<open>\<open>_renderer_family\<close>\<close>

type_synonym renderer = "string \<Rightarrow> int \<Rightarrow> string option \<Rightarrow> string option \<Rightarrow> error + string list"

definition renderer_family :: "string \<Rightarrow> renderer option" where
  "renderer_family = map_of [(''HuaweiVRPDriver'', huawei_commands), (''CiscoIOSDriver'', cisco_commands),
     (''HPComwareDriver'', comware_commands), (''HPEProCurveDriver'', procurve_commands),
     (''DellPowerConnectDriver'', cisco_commands)]"

definition build_vendor_specific_commands ::
  "string \<Rightarrow> string \<Rightarrow> int \<Rightarrow> string option \<Rightarrow> string option \<Rightarrow> error + string list" where
  "build_vendor_specific_commands driver op n name ifc =
     (case renderer_family driver of
        None \<Rightarrow> Inr []
      | Some f \<Rightarrow> (case f op n name ifc of Inl e \<Rightarrow> Inl e | Inr cs \<Rightarrow> Inr (mask_command_list [] cs)))"

section \<open>Reading a configuration\<close>

abbreviation flag_ims :: rx_flags where
  "flag_ims \<equiv> \<lparr>ignore_case = True, multiline = True, dotall = True\<rparr>"

abbreviation flag_im :: rx_flags where
  "flag_im \<equiv> \<lparr>ignore_case = True, multiline = True, dotall = False\<rparr>"

text \<open>\<open>^\s*word\s+\<close>; under the flag S nothing is ahead exactly at \<open>\Z\<close>.\<close>

definition line_start :: "string \<Rightarrow> rx list" where
  "line_start w = [RBol, RStar True Blank, rlit w, RPlus True Blank]"

definition end_of_text :: rx where
  "end_of_text = RNot (ROne Dot)"

definition vlan_section_rx :: "int \<Rightarrow> rx" where
  "vlan_section_rx n = rseq (line_start ''vlan'' @ [rlit (int_str n), RWordB, RGroup 1 (RStar False Dot),
     ralt [rseq (line_start ''vlan'' @ [RPlus True Digit, RWordB]), rseq (line_start ''interface''), end_of_text]])"

definition interface_section_rx :: "string \<Rightarrow> rx" where
  "interface_section_rx ifc = rseq (line_start ''interface'' @ [rlit ifc, RWordB, RGroup 1 (RStar False Dot),
     ralt [rseq (line_start ''interface''), end_of_text]])"

definition section_body :: "rx \<Rightarrow> string \<Rightarrow> string option" where
  "section_body r config =
     (case rx_search flag_ims r config of None \<Rightarrow> None | Some (_, _, _, caps) \<Rightarrow> Some (group_text 1 caps))"

text \<open>The first line of a VLAN's section that names it; surrounding quotes are stripped.\<close>

definition named_by :: "string \<Rightarrow> string option" where
  "named_by line =
     (let s = str_strip line; l = casefold s
      in if prefix ''name '' l \<or> prefix ''description '' l
         then Some (strip_char (CHR 0x22) (str_strip (after_word s))) else None)"

fun first_name :: "string list \<Rightarrow> string option" where
  "first_name [] = None"
| "first_name (l # ls) = (case named_by l of None \<Rightarrow> first_name ls | Some n \<Rightarrow> Some n)"

definition detect_vlan_name :: "string \<Rightarrow> int \<Rightarrow> string option" where
  "detect_vlan_name config n =
     (case section_body (vlan_section_rx n) config of None \<Rightarrow> None | Some body \<Rightarrow> first_name (splitlines body))"

definition access_vlan_patterns :: "rx list" where
  "access_vlan_patterns =
     map (\<lambda>ws. rseq (concat (map (\<lambda>w. [rlit w, RPlus True Blank]) ws) @ [RGroup 1 (RPlus True Digit)]))
       [[''switchport'', ''access'', ''vlan''], [''port'', ''access'', ''vlan''], [''port'', ''default'', ''vlan'']]"

fun first_number :: "rx list \<Rightarrow> string \<Rightarrow> int option" where
  "first_number [] body = None"
| "first_number (r # rs) body =
     (case rx_search flag_i r body of
        None \<Rightarrow> first_number rs body
      | Some (_, _, _, caps) \<Rightarrow> parse_int10 (group_text 1 caps))"

definition detect_access_vlan :: "string \<Rightarrow> string option \<Rightarrow> int option" where
  "detect_access_vlan config ifc =
     (case ifc of
        None \<Rightarrow> None
      | Some i \<Rightarrow>
          if i = [] then None
          else (case section_body (interface_section_rx i) config of
                  None \<Rightarrow> None
                | Some body \<Rightarrow> first_number access_vlan_patterns body))"

section \<open>Undoing an operation\<close>

text \<open>
  \<open>build_device_rollback_plan\<close> for a device with this driver whose latest configuration is \<open>config\<close> (empty when there
  is none): the operation, VLAN and name of the commands that undo \<open>op\<close>.
\<close>

definition undo_operation ::
  "string \<Rightarrow> int \<Rightarrow> string option \<Rightarrow> string \<Rightarrow> (string \<times> int \<times> string option) option" where
  "undo_operation op n ifc config =
     (let old_name = detect_vlan_name config n;
          old_vlan = detect_access_vlan config ifc
      in if op = ''create_vlan'' then Some (''delete_vlan'', n, None)
         else if op = ''rename_vlan''
         then (if old_name = None \<or> old_name = Some [] then None else Some (''rename_vlan'', n, old_name))
         else if op = ''delete_vlan'' then Some (''create_vlan'', n, old_name)
         else if ifc = None then None
         else if op = ''assign_access_vlan''
         then (case old_vlan of None \<Rightarrow> Some (''remove_access_vlan'', n, None)
                              | Some v \<Rightarrow> Some (''assign_access_vlan'', v, None))
         else if op = ''remove_access_vlan''
         then (case old_vlan of None \<Rightarrow> None | Some v \<Rightarrow> Some (''assign_access_vlan'', v, None))
         else if op = ''add_trunk_vlan'' then Some (''remove_trunk_vlan'', n, None)
         else if op = ''remove_trunk_vlan'' then Some (''add_trunk_vlan'', n, None)
         else None)"

definition rollback_commands ::
  "string \<Rightarrow> string \<Rightarrow> int \<Rightarrow> string option \<Rightarrow> string \<Rightarrow> error + string list" where
  "rollback_commands driver op n ifc config =
     (case undo_operation op n ifc config of
        None \<Rightarrow> Inr []
      | Some (op', n', name') \<Rightarrow> build_vendor_specific_commands driver op' n' name' ifc)"

section \<open>The characters of a planned command\<close>

lemma masked_chars: "masked t t' \<Longrightarrow> set t' \<subseteq> set t \<union> set MASK"
  by (induction rule: masked.induct) auto

lemma mask_patterns_chars: "set (mask_patterns (map secret_pattern ps) inp) \<subseteq> set inp \<union> set MASK"
proof (induction ps arbitrary: inp)
  case (Cons p ps)
  have "set (rx_sub flag_i (secret_pattern p) keep_prefix inp) \<subseteq> set inp \<union> set MASK"
    by (rule masked_chars [OF masked_secret_sub])
  with Cons show ?case by fastforce
qed simp

lemma mask_command_chars:
  assumes "c \<in> set (mask_command_list [] cs)"
  obtains c' where "c' \<in> set cs" "set c \<subseteq> set c' \<union> set MASK"
proof -
  from assms obtain c' where "c' \<in> set cs" "c = mask_secrets [] c'" by (auto simp: mask_command_list_def)
  with that mask_patterns_chars show ?thesis
    unfolding mask_secrets_def mask_explicit.simps SECRET_PATTERNS_def by blast
qed

definition printable :: "char \<Rightarrow> bool" where
  "printable c \<longleftrightarrow> 32 \<le> (of_char c :: nat) \<and> (of_char c :: nat) \<le> 126"

text \<open>Texts whose characters are printable or from a given text.\<close>

definition printed :: "string \<Rightarrow> string \<Rightarrow> bool" where
  "printed extra s \<longleftrightarrow> list_all (\<lambda>c. printable c \<or> c \<in> set extra) s"

lemma printed_append [simp]: "printed m (s @ t) \<longleftrightarrow> printed m s \<and> printed m t"
  by (simp add: printed_def)

lemma printed_more: "set s \<subseteq> set m \<Longrightarrow> printed m s"
  by (auto simp: printed_def list_all_iff)

lemma printed_literal: "list_all printable s \<Longrightarrow> printed m s"
  by (auto simp: printed_def list_all_iff)

lemma digits_printable: "is_digit c \<Longrightarrow> printable c"
  by (auto simp: is_digit_def printable_def)

lemma printed_int_str [simp]: "printed m (int_str n)"
proof -
  have "list_all printable (nat_str k)" for k
    using nat_str_digits [of k] digits_printable by (auto simp: list_all_iff)
  moreover have "printable (CHR ''-'')" by code_simp
  ultimately show ?thesis by (intro printed_literal) (simp add: int_str_def)
qed

lemma words_printed:
  "printed m ''configure terminal''" "printed m ''description ''" "printed m ''end''" "printed m ''exit''"
    "printed m ''interface ''" "printed m ''name ''" "printed m ''no switchport access vlan''"
    "printed m ''no tagged ''" "printed m ''no untagged ''" "printed m ''no vlan ''"
    "printed m ''port access vlan ''" "printed m ''port default vlan ''" "printed m ''port link-type access''"
    "printed m ''port trunk allow-pass vlan ''" "printed m ''port trunk permit vlan ''" "printed m ''quit''"
    "printed m ''switchport access vlan ''" "printed m ''switchport mode access''"
    "printed m ''switchport trunk allowed vlan add ''" "printed m ''switchport trunk allowed vlan remove ''"
    "printed m ''system-view''" "printed m ''tagged ''" "printed m ''undo port access vlan''"
    "printed m ''undo port default vlan''" "printed m ''undo port trunk allow-pass vlan ''"
    "printed m ''undo port trunk permit vlan ''" "printed m ''undo vlan ''" "printed m ''untagged ''"
    "printed m ''vlan ''"
  by (rule printed_literal, code_simp)+

text \<open>Every command of every family is printable but for the characters of the name and the interface.\<close>

lemma printed_name_line [simp]:
  "printed m lead \<Longrightarrow> set (or_nil name) \<subseteq> set m \<Longrightarrow> list_all (printed m) (name_line lead name)"
  by (auto simp: name_line_def printed_more split: option.splits)

lemmas command_facts = words_printed printed_append printed_int_str list.pred_inject list_all_append vlan_line_def simp_thms

lemma interface_commands_printed:
  assumes "set ifc \<subseteq> set m"
  shows "list_all (printed m) (cisco_interface_commands op n ifc)"
    "list_all (printed m) (huawei_interface_commands op n ifc)"
    "list_all (printed m) (comware_interface_commands op n ifc)"
    "list_all (printed m) (procurve_interface_commands op n ifc)"
  using printed_more [OF assms]
  by (simp_all only: cisco_interface_commands_def huawei_interface_commands_def comware_interface_commands_def
      procurve_interface_commands_def command_facts if_split)

lemma renderers_printed:
  assumes "set (or_nil name) \<subseteq> set m" "set (or_nil ifc) \<subseteq> set m"
  shows "cisco_commands op n name ifc = Inr cs \<Longrightarrow> list_all (printed m) cs"
    "huawei_commands op n name ifc = Inr cs \<Longrightarrow> list_all (printed m) cs"
    "comware_commands op n name ifc = Inr cs \<Longrightarrow> list_all (printed m) cs"
    "procurve_commands op n name ifc = Inr cs \<Longrightarrow> list_all (printed m) cs"
proof -
  have lead: "list_all (printed m) (name_line ''name '' name)" "list_all (printed m) (name_line ''description '' name)"
    by (rule printed_name_line [OF words_printed(6) assms(1)] printed_name_line [OF words_printed(2) assms(1)])+
  have ifc: "set i \<subseteq> set m" if "ifc = Some i" for i using assms(2) that by simp
  note parts = cisco_commands_def huawei_commands_def comware_commands_def procurve_commands_def
  show "cisco_commands op n name ifc = Inr cs \<Longrightarrow> list_all (printed m) cs"
    "huawei_commands op n name ifc = Inr cs \<Longrightarrow> list_all (printed m) cs"
    "comware_commands op n name ifc = Inr cs \<Longrightarrow> list_all (printed m) cs"
    "procurve_commands op n name ifc = Inr cs \<Longrightarrow> list_all (printed m) cs"
    unfolding parts
    by (cases ifc; simp only: option.case sum.inject sum.distinct split: if_split_asm;
        hypsubst?; simp only: command_facts lead interface_commands_printed [OF ifc])+
qed

lemma renderer_cases:
  "renderer_family driver = Some f \<Longrightarrow> f \<in> {huawei_commands, cisco_commands, comware_commands, procurve_commands}"
  by (simp add: renderer_family_def split: if_splits)

lemma build_commands_printed:
  assumes "build_vendor_specific_commands driver op n name ifc = Inr cs" "c \<in> set cs"
    and "set (or_nil name) \<subseteq> set m" "set (or_nil ifc) \<subseteq> set m"
  shows "printed m c"
proof -
  from assms(1,2) obtain f cs' where f: "renderer_family driver = Some f" "f op n name ifc = Inr cs'"
    and cs: "cs = mask_command_list [] cs'"
    by (auto simp: build_vendor_specific_commands_def split: option.splits sum.splits)
  from assms(2) [unfolded cs] obtain c' where c': "c' \<in> set cs'" "set c \<subseteq> set c' \<union> set MASK"
    by (rule mask_command_chars)
  note shown = renderers_printed [OF assms(3,4)]
  from renderer_cases [OF f(1)] consider
    "f = huawei_commands" | "f = cisco_commands" | "f = comware_commands" | "f = procurve_commands" by blast
  then have "list_all (printed m) cs'"
    using f(2) by cases (hypsubst, erule shown)+
  with c'(1) have "printed m c'" by (simp add: list_all_iff)
  moreover have "printed m MASK" by (rule printed_literal) code_simp
  ultimately show ?thesis using c'(2) unfolding printed_def list_all_iff by blast
qed

end
