(* ===== verification/VlanChecks.thy ===== *)
theory VlanChecks
  imports VlanRepository DeviceInventory Snapshots VlanCommands
begin

text \<open>
  app/services/vlan_validation_service.py: what is checked of a VLAN change request and of each of its devices, and
  the report.
\<close>

section \<open>Tables of the module\<close>

definition SUPPORTED_PLAN_DRIVERS :: "string list" where
  "SUPPORTED_PLAN_DRIVERS =
     [''HuaweiVRPDriver'', ''CiscoIOSDriver'', ''HPComwareDriver'', ''HPEProCurveDriver'', ''DellPowerConnectDriver'']"

definition UNSAFE_UNCONFIRMED_DRIVERS :: "string list" where
  "UNSAFE_UNCONFIRMED_DRIVERS = [''GenericSSHDriver'', ''ReadOnlyICMPDriver'', ''BulatBSDriver'', ''EltexMESDriver'']"

definition INTERFACE_REQUIRED_OPERATIONS :: "string list" where
  "INTERFACE_REQUIRED_OPERATIONS = [''assign_access_vlan'', ''remove_access_vlan'', ''add_trunk_vlan'', ''remove_trunk_vlan'']"

section \<open>Checks of the request\<close>

definition validate_vlan_id :: "int \<Rightarrow> string list" where
  "validate_vlan_id n =
     (if n < 1 \<or> n > 4094 then [''VLAN ID '' @ int_str n @ '' is invalid; expected 1..4094'']
      else if n = 1 then [''VLAN 1 is reserved for default/native handling and cannot be changed by this workflow'']
      else if 1002 \<le> n \<and> n \<le> 1005 then [''VLAN ID '' @ int_str n @ '' is reserved for legacy VLAN use'']
      else [])"

text \<open>\<open>[A-Za-z0-9_-]+\<close>\<close>

definition name_rx :: rx where
  "name_rx = RPlus True (Cls False [CRange (CHR ''A'') (CHR ''Z''), CRange (CHR ''a'') (CHR ''z''),
     CRange (CHR ''0'') (CHR ''9''), CChar (CHR ''_''), CChar (CHR ''-'')])"

definition validate_vlan_name :: "string option \<Rightarrow> string list" where
  "validate_vlan_name name =
     (case name of
        None \<Rightarrow> []
      | Some s \<Rightarrow>
          if length s > 64 then [''VLAN name must be 64 characters or fewer'']
          else if \<not> rx_fullmatch no_flags name_rx s
          then [''VLAN name may contain only letters, numbers, underscore, and hyphen'']
          else [])"

definition scope_of :: "vlan_request \<Rightarrow> jobj" where
  "scope_of r = (case vr_scope_filter r of None \<Rightarrow> [] | Some d \<Rightarrow> d)"

definition interface_of :: "vlan_request \<Rightarrow> string option" where
  "interface_of r = (let v = jget (scope_of r) ''interface'' in if truthy v then Some (py_str v) else None)"

definition request_errors :: "vlan_request \<Rightarrow> string list" where
  "request_errors r =
     validate_vlan_id (vr_vlan_id r) @ validate_vlan_name (vr_vlan_name r) @
     (if vr_operation r \<in> set INTERFACE_REQUIRED_OPERATIONS \<and> interface_of r = None
      then [''operation '' @ vr_operation r @ '' requires scope_filter.interface''] else [])"

section \<open>The devices a request is about\<close>

definition resolve_target_devices :: "ref \<Rightarrow> (db, device list) action" where
  "resolve_target_devices r =
     andThen (get_vlan_request_row r) (\<lambda>q.
       let scope = scope_of q in
       if vr_scope_type q = ''site'' then asks (list_by_site (str_or_empty (jget scope ''site'')))
       else if vr_scope_type q = ''tag'' then asks (list_by_tag (str_or_empty (jget scope ''tag'')))
       else if vr_scope_type q = ''device_ids'' then listed_devices scope
       else if vr_scope_type q = ''query''
       then asks (\<lambda>d. query_devices [''vendor'', ''model'', ''driver_name'', ''status'', ''role'', ''site''] scope (list_devices d))
       else ret [])"

section \<open>Checks of a device\<close>

definition confirmed :: "device \<Rightarrow> bool" where
  "confirmed dev \<longleftrightarrow> jget (dev_capabilities dev) ''destructive_apply_confirmed'' = JBool True"

definition support_errors :: "device \<Rightarrow> string \<Rightarrow> string list" where
  "support_errors dev op =
     (let driver = dev_driver_name dev; caps = dev_capabilities dev;
          unconfirmed = [''BulatBSDriver'', ''EltexMESDriver'']
      in sorted_set (
        (if driver \<in> {''GenericSSHDriver'', ''ReadOnlyICMPDriver''}
         then [driver @ '' is read-only and cannot participate in destructive VLAN workflow''] else []) @
        (if driver \<in> set unconfirmed \<and> \<not> confirmed dev
         then [driver @ '' requires explicitly confirmed destructive VLAN capability metadata''] else []) @
        (if driver \<notin> set SUPPORTED_PLAN_DRIVERS \<and> driver \<notin> set unconfirmed
         then [''Driver '' @ (if driver = [] then ''unknown'' else driver) @ '' is unsupported for VLAN workflow planning''] else []) @
        (if jget caps ''supports_vlan'' = JBool False then [''Device capabilities report supports_vlan=false''] else []) @
        (if \<not> confirmed dev then [''Device capabilities do not confirm destructive apply templates''] else []) @
        (if op \<in> {''add_trunk_vlan'', ''remove_trunk_vlan''} \<and> jget caps ''supports_trunk'' = JBool False
         then [''Device capabilities report supports_trunk=false''] else [])))"

definition validate_device_support :: "ref \<Rightarrow> string \<Rightarrow> (db, string list) action" where
  "validate_device_support r op = andThen (get_device_row r) (\<lambda>dev. ret (support_errors dev op))"

text \<open>The snapshots must not be older than \<open>freshness_hours\<close>, which is 24 in all uses.\<close>

definition fresh_backup :: "int \<Rightarrow> int \<Rightarrow> snapshot option \<Rightarrow> snapshot option \<times> string list" where
  "fresh_backup now freshness_hours sn =
     (case sn of
        None \<Rightarrow> (None, [''No config snapshot exists for device''])
      | Some s \<Rightarrow>
          if instant (comparable_datetime (sn_collected_at s)) < now - freshness_hours * hour
          then (Some s, [''Latest config snapshot is stale; fresh backup is required''])
          else (Some s, []))"

definition validate_fresh_backup :: "int \<Rightarrow> ref \<Rightarrow> (db, snapshot option \<times> string list) action" where
  "validate_fresh_backup now r = andThen (get_latest_snapshot r None) (\<lambda>sn. ret (fresh_backup now 24 sn))"

fun approved_for :: "int \<Rightarrow> device \<Rightarrow> string list \<Rightarrow> db \<Rightarrow> lab_validation option" where
  "approved_for now dev [] d = None"
| "approved_for now dev (c # cs) d =
     (case find_approved now (dev_vendor dev) (dev_model dev) (dev_driver_name dev) c d of
        Some v \<Rightarrow> Some v
      | None \<Rightarrow> approved_for now dev cs d)"

definition validate_lab_validation ::
  "int \<Rightarrow> ref \<Rightarrow> string \<Rightarrow> (db, lab_validation option \<times> string list) action" where
  "validate_lab_validation now r op =
     andThen (get_device_row r) (\<lambda>dev.
     andThen (asks (approved_for now dev [op, ''vlan_management'', ''vlan_change''])) (\<lambda>v.
       ret (v, if v = None then [''No approved non-expired lab validation matches vendor/model/driver/capability''] else [])))"

section \<open>The report\<close>

text \<open>\<open>read_request\<close> and \<open>read_device\<close>: the columns as text and JSON.\<close>

definition read_vlan_request :: "vlan_request \<Rightarrow> jobj" where
  "read_vlan_request r =
     [(''id'', JStr (uuid_str (vr_id r))), (''title'', JStr (vr_title r)), (''description'', str_opt (vr_description r)),
      (''status'', JStr (vr_status r)), (''requested_by'', str_opt (vr_requested_by r)),
      (''scope_type'', JStr (vr_scope_type r)), (''scope_filter'', obj_opt (vr_scope_filter r)),
      (''vlan_id'', JInt (vr_vlan_id r)), (''vlan_name'', str_opt (vr_vlan_name r)),
      (''operation'', JStr (vr_operation r)), (''dry_run_required'', JBool (vr_dry_run_required r)),
      (''backup_required'', JBool (vr_backup_required r)),
      (''lab_validation_required'', JBool (vr_lab_validation_required r)),
      (''approval_required'', JBool (vr_approval_required r)), (''risk_level'', JStr (vr_risk_level r)),
      (''risk_summary'', obj_opt (vr_risk_summary r)), (''created_at'', JStr (isoformat (vr_created_at r))),
      (''updated_at'', JStr (isoformat (vr_updated_at r))), (''submitted_at'', iso_opt (vr_submitted_at r)),
      (''approved_at'', iso_opt (vr_approved_at r)), (''approved_by'', str_opt (vr_approved_by r)),
      (''rejected_at'', iso_opt (vr_rejected_at r)), (''rejected_by'', str_opt (vr_rejected_by r)),
      (''completed_at'', iso_opt (vr_completed_at r)), (''error_summary'', str_opt (vr_error_summary r))]"

definition texts_json :: "string list option \<Rightarrow> json" where
  "texts_json v = JList (map JStr (or_nil v))"

definition read_vlan_device :: "vlan_device \<Rightarrow> jobj" where
  "read_vlan_device row =
     [(''id'', JStr (uuid_str (vd_id row))), (''request_id'', JStr (uuid_str (vd_request_id row))),
      (''device_id'', JStr (uuid_str (vd_device_id row))), (''status'', JStr (vd_status row)),
      (''driver_name'', str_opt (vd_driver_name row)), (''vendor'', str_opt (vd_vendor row)),
      (''model'', str_opt (vd_model row)), (''backup_snapshot_id'', uuid_opt (vd_backup_snapshot_id row)),
      (''lab_validation_id'', uuid_opt (vd_lab_validation_id row)),
      (''validation_errors'', texts_json (vd_validation_errors row)),
      (''validation_warnings'', texts_json (vd_validation_warnings row)),
      (''planned_commands'', texts_json (vd_planned_commands row)),
      (''rollback_commands'', texts_json (vd_rollback_commands row)),
      (''impact_summary'', JObj (or_nil (vd_impact_summary row))),
      (''created_at'', JStr (isoformat (vd_created_at row))), (''updated_at'', JStr (isoformat (vd_updated_at row)))]"

record vlan_report =
  vp_request :: jobj
  vp_devices :: "jobj list"
  vp_device_count :: int
  vp_ready_device_count :: int
  vp_blocked_device_count :: int
  vp_unsupported_device_count :: int
  vp_errors :: "string list"
  vp_warnings :: "string list"

definition count_rows :: "('r \<Rightarrow> bool) \<Rightarrow> 'r list \<Rightarrow> int" where
  "count_rows p rows = int (length (filter p rows))"

definition vlan_report_of :: "vlan_request \<Rightarrow> vlan_device list \<Rightarrow> vlan_report" where
  "vlan_report_of r rows =
     \<lparr>vp_request = read_vlan_request r, vp_devices = map read_vlan_device rows, vp_device_count = int (length rows),
      vp_ready_device_count = count_rows (\<lambda>row. vd_status row \<in> {''validated'', ''ready''}) rows,
      vp_blocked_device_count = count_rows (\<lambda>row. vd_status row = ''blocked'') rows,
      vp_unsupported_device_count = count_rows (\<lambda>row. vd_status row = ''unsupported'') rows,
      vp_errors = sorted_set (concat (map (\<lambda>row. or_nil (vd_validation_errors row)) rows)),
      vp_warnings = sorted_set (concat (map (\<lambda>row. or_nil (vd_validation_warnings row)) rows))\<rparr>"

definition build_vlan_report :: "ref \<Rightarrow> (db, vlan_report) action" where
  "build_vlan_report r =
     andThen (get_vlan_request_row r) (\<lambda>q.
     andThen (get_request_devices (RefId (vr_id q))) (\<lambda>rows. ret (vlan_report_of q rows)))"

section \<open>Validation\<close>

definition pending_entry :: "device \<Rightarrow> device_entry" where
  "pending_entry dev = \<lparr>de_device_id = RefId (dev_id dev), de_driver_name = Some (dev_driver_name dev),
     de_vendor = Some (dev_vendor dev), de_model = Some (dev_model dev), de_status = Some ''pending''\<rparr>"

definition validated_status :: "device \<Rightarrow> string list \<Rightarrow> string" where
  "validated_status dev errors =
     (if errors = [] then ''validated''
      else if dev_driver_name dev \<in> set UNSAFE_UNCONFIRMED_DRIVERS then ''unsupported'' else ''blocked'')"

definition validate_vlan_device :: "int \<Rightarrow> vlan_request \<Rightarrow> device \<Rightarrow> (db, vlan_device) action" where
  "validate_vlan_device now q dev =
     (let r = RefText (uuid_str (dev_id dev)) in
      andThen (validate_device_support r (vr_operation q)) (\<lambda>support.
      andThen (if vr_backup_required q then validate_fresh_backup now r else ret (None, [])) (\<lambda>(sn, backup_errors).
      andThen (if vr_lab_validation_required q then validate_lab_validation now r (vr_operation q) else ret (None, []))
        (\<lambda>(lv, lab_errors).
        let errors = request_errors q @ support @ backup_errors @ lab_errors
        in update_device_validation now (RefId (vr_id q)) (RefId (dev_id dev)) (validated_status dev errors) errors []
             (map_option sn_id sn) (map_option lv_id lv)))))"

definition validate_vlan_request :: "int \<Rightarrow> ref \<Rightarrow> (db, vlan_report) action" where
  "validate_vlan_request now r =
     andThen (get_vlan_request_row r) (\<lambda>q.
       let i = RefId (vr_id q); t = RefText (uuid_str (vr_id q)) in
       andThen (resolve_target_devices t) (\<lambda>devs.
       andThen (add_vlan_devices now i (map pending_entry devs)) (\<lambda>_.
       andThen (for_each (validate_vlan_device now q) devs) (\<lambda>_.
       andThen (build_vlan_report t) (\<lambda>report.
       andThen (if vp_ready_device_count report \<noteq> 0 \<and> vp_errors report = []
                then andThen (update_vlan_status now i ''validated'' None None) (\<lambda>_.
                  add_vlan_event now i ''validated'' ''VLAN change request validated'' None None None)
                else andThen (update_vlan_status now i ''blocked'' None
                       (Some (str_join ''; '' (take 5 (vp_errors report))))) (\<lambda>_.
                  add_vlan_event now i ''blocked'' ''VLAN change request blocked by validation'' None None
                    (Some [(''errors'', JList (map JStr (vp_errors report)))]))) (\<lambda>_.
       build_vlan_report t))))))"

section \<open>What the checks let through\<close>

lemma validate_vlan_id_Nil: "validate_vlan_id n = [] \<longleftrightarrow> 2 \<le> n \<and> n \<le> 4094 \<and> \<not> (1002 \<le> n \<and> n \<le> 1005)"
  by (auto simp: validate_vlan_id_def)

definition name_char :: "char \<Rightarrow> bool" where
  "name_char c \<longleftrightarrow> is_word c \<or> c = CHR ''-''"

lemma name_class:
  "one_has no_flags (Cls False [CRange (CHR ''A'') (CHR ''Z''), CRange (CHR ''a'') (CHR ''z''),
     CRange (CHR ''0'') (CHR ''9''), CChar (CHR ''_''), CChar (CHR ''-'')]) c \<longleftrightarrow> name_char c"
  by (cases c) (auto simp: name_char_def is_word_def is_lower_def is_digit_def)

lemma rx_fullmatch_plus: "rx_fullmatch fl (RPlus True x) s \<longleftrightarrow> s \<noteq> [] \<and> list_all (one_has fl x) s"
proof (cases s)
  case (Cons c cs)
  have "(\<exists>s'. rx_rel fl (RStar True x) ([c], cs, []) s' \<and> fst (snd s') = []) \<longleftrightarrow> list_all (one_has fl x) cs"
    by (auto simp: list_all_iff)
  moreover have "rx_rel fl (RPlus True x) ([], s, []) s' \<longleftrightarrow> one_has fl x c \<and> rx_rel fl (RStar True x) ([c], cs, []) s'" for s'
    using Cons by auto
  ultimately show ?thesis unfolding rx_fullmatch_def rx_run_rel Bex_def using Cons by auto
qed (simp add: rx_fullmatch_def)

lemma name_fullmatch: "rx_fullmatch no_flags name_rx s \<longleftrightarrow> s \<noteq> [] \<and> list_all name_char s"
  unfolding name_rx_def rx_fullmatch_plus name_class [abs_def] ..

lemma validate_vlan_name_Nil:
  "validate_vlan_name name = [] \<longleftrightarrow> (case name of None \<Rightarrow> True | Some s \<Rightarrow> s \<noteq> [] \<and> length s \<le> 64 \<and> list_all name_char s)"
  by (auto simp: validate_vlan_name_def name_fullmatch split: option.splits)

lemma support_errors_Nil:
  "support_errors dev op = [] \<longleftrightarrow>
     confirmed dev \<and> dev_driver_name dev \<in> set SUPPORTED_PLAN_DRIVERS \<union> {''BulatBSDriver'', ''EltexMESDriver''} \<and>
     jget (dev_capabilities dev) ''supports_vlan'' \<noteq> JBool False \<and>
     (op \<in> {''add_trunk_vlan'', ''remove_trunk_vlan''} \<longrightarrow> jget (dev_capabilities dev) ''supports_trunk'' \<noteq> JBool False)"
  by (auto simp: support_errors_def Let_def SUPPORTED_PLAN_DRIVERS_def)

lemma name_char_printable: "name_char c \<Longrightarrow> printable c"
  by (cases c) (auto simp: name_char_def is_word_def is_lower_def is_digit_def printable_def)

text \<open>
  A planned command is one printable line unless the interface says otherwise: with a VLAN name that passes validation,
  every character of every command is printable ASCII or occurs in the interface of the request, which nothing checks.
\<close>

theorem plan_commands_printable:
  assumes "validate_vlan_name name = []" "build_vendor_specific_commands driver op n name ifc = Inr cs"
    and "c \<in> set cs" "x \<in> set c"
  shows "printable x \<or> x \<in> set (or_nil ifc)"
proof -
  have "printed (or_nil name @ or_nil ifc) c" by (rule build_commands_printed [OF assms(2,3)]) auto
  moreover have "list_all printable (or_nil name)"
    using assms(1) name_char_printable by (auto simp: validate_vlan_name_Nil list_all_iff split: option.splits)
  ultimately show ?thesis using assms(4) by (auto simp: printed_def list_all_iff)
qed

theorem plan_commands_printable_witness:
  "(printable (CHR ''u'') \<or> CHR ''u'' \<in> set (or_nil None)) \<and>
   (\<exists>cs. build_vendor_specific_commands ''CiscoIOSDriver'' ''assign_access_vlan'' 10 None (Some (''Gi0/1'' @ newline # ''no aaa''))
      = Inr cs \<and> ''interface Gi0/1'' @ newline # ''no aaa'' \<in> set cs)"
proof
  have "build_vendor_specific_commands ''CiscoIOSDriver'' ''create_vlan'' 10 (Some ''users'') None
      = Inr [''configure terminal'', ''vlan 10'', ''name users'', ''exit'', ''end'']"
    by code_simp
  moreover have "validate_vlan_name (Some ''users'') = []" by code_simp
  ultimately show "printable (CHR ''u'') \<or> CHR ''u'' \<in> set (or_nil None)"
    using plan_commands_printable [of "Some ''users''" "''CiscoIOSDriver''" "''create_vlan''" 10 None _ "''name users''" "CHR ''u''"]
    by simp
  have "build_vendor_specific_commands ''CiscoIOSDriver'' ''assign_access_vlan'' 10 None (Some (''Gi0/1'' @ newline # ''no aaa''))
      = Inr [''configure terminal'', ''interface Gi0/1'' @ newline # ''no aaa'', ''switchport mode access'',
             ''switchport access vlan 10'', ''end'']"
    by code_simp
  then show "\<exists>cs. build_vendor_specific_commands ''CiscoIOSDriver'' ''assign_access_vlan'' 10 None
      (Some (''Gi0/1'' @ newline # ''no aaa'')) = Inr cs \<and> ''interface Gi0/1'' @ newline # ''no aaa'' \<in> set cs" by simp
qed

section \<open>A validated device\<close>

lemma find_first: "find (\<lambda>_. True) xs = (case xs of [] \<Rightarrow> None | x # _ \<Rightarrow> Some x)"
  by (cases xs) auto

lemma get_latest_snapshot_None:
  "get_latest_snapshot r None s = (Inr x, s') \<longleftrightarrow>
     s' = s \<and> (\<exists>i. coerce_ref ''Device'' r = Inr i \<and> x = latest_snapshot s i)"
  by (auto simp: get_latest_snapshot_def list_snapshots_for_device_def andThen_Inr optional_ref_def find_first
      latest_snapshot_def)

definition lab_approved :: "int \<Rightarrow> device \<Rightarrow> string set \<Rightarrow> lab_validation \<Rightarrow> bool" where
  "lab_approved now dev caps v \<longleftrightarrow> lv_status v = ''approved'' \<and> lv_driver_name v = dev_driver_name dev \<and>
     lv_capability v \<in> caps \<and> unexpired now v \<and>
     normalize_match_value (lv_vendor v) = normalize_match_value (dev_vendor dev) \<and>
     model_matches (lv_model_pattern v) (dev_model dev)"

lemma approved_for_None:
  "approved_for now dev cs d = None \<longleftrightarrow> (\<forall>v\<in>set (t_lab_validation d). \<not> lab_approved now dev (set cs) v)"
proof (induction cs)
  case (Cons c cs)
  then show ?case
    using find_approved_iff [of now "dev_vendor dev" "dev_model dev" "dev_driver_name dev" c d]
    by (auto simp: lab_approved_def split: option.splits)
qed (simp add: lab_approved_def)

definition vlan_request_sound :: "vlan_request \<Rightarrow> bool" where
  "vlan_request_sound q \<longleftrightarrow>
     2 \<le> vr_vlan_id q \<and> vr_vlan_id q \<le> 4094 \<and> \<not> (1002 \<le> vr_vlan_id q \<and> vr_vlan_id q \<le> 1005) \<and>
     (\<forall>s. vr_vlan_name q = Some s \<longrightarrow> s \<noteq> [] \<and> length s \<le> 64 \<and> list_all name_char s) \<and>
     (vr_operation q \<in> set INTERFACE_REQUIRED_OPERATIONS \<longrightarrow> interface_of q \<noteq> None)"

lemma request_errors_Nil: "request_errors q = [] \<longleftrightarrow> vlan_request_sound q"
  by (auto simp: request_errors_def validate_vlan_id_Nil validate_vlan_name_Nil vlan_request_sound_def split: option.splits)

definition vlan_device_supported :: "device \<Rightarrow> string \<Rightarrow> bool" where
  "vlan_device_supported dev op \<longleftrightarrow>
     confirmed dev \<and> dev_driver_name dev \<in> set SUPPORTED_PLAN_DRIVERS \<union> {''BulatBSDriver'', ''EltexMESDriver''} \<and>
     jget (dev_capabilities dev) ''supports_vlan'' \<noteq> JBool False \<and>
     (op \<in> {''add_trunk_vlan'', ''remove_trunk_vlan''} \<longrightarrow> jget (dev_capabilities dev) ''supports_trunk'' \<noteq> JBool False)"

lemma fresh_backup_Nil:
  "snd (fresh_backup now h sn) = [] \<longleftrightarrow> (\<exists>s. sn = Some s \<and> now - h * hour \<le> instant (comparable_datetime (sn_collected_at s)))"
  by (auto simp: fresh_backup_def not_less split: option.splits)

lemma device_ref_step:
  assumes "find_device s (dev_id dev) = Some dev" "dev_id dev < 2 ^ 128"
  shows "get_device_row (RefText (uuid_str (dev_id dev))) s = (Inr dev, s)"
  using assms by (simp add: get_device_row_def get_by_ref_Inr coerce_ref_text del: coerce_ref.simps)

lemma update_request_device_Inr:
  assumes "update_request_device now r dr f s = (Inr row, s')"
  shows "\<exists>old. get_request_device r dr s = (Inr old, s) \<and> row = (f old)\<lparr>vd_updated_at := Aware now\<rparr> \<and>
           s' = upd_vlan_device (vd_id old) (\<lambda>row. (f row)\<lparr>vd_updated_at := Aware now\<rparr>) s"
  using assms by (auto simp: update_request_device_def Let_def andThen_Inr get_request_device_def split: option.splits)

text \<open>
  C23: A device of a VLAN change comes out of validation as validated exactly when the request is sound (VLAN 2..4094,
  not 1002..1005, a legal name, an interface where the operation needs one), its driver and capabilities admit the
  operation, and, where the request asks for them, its latest snapshot is at most 24 hours old and an approved, unexpired
  lab validation fits its vendor, model and driver.
\<close>

theorem vlan_device_validated_exactly:
  assumes run: "validate_vlan_device now q dev s = (Inr row, s')"
    and dev: "find_device s (dev_id dev) = Some dev" "dev_id dev < 2 ^ 128"
  shows "vd_status row = ''validated'' \<longleftrightarrow>
     vlan_request_sound q \<and> vlan_device_supported dev (vr_operation q) \<and>
     (vr_backup_required q \<longrightarrow> (\<exists>sn. latest_snapshot s (dev_id dev) = Some sn \<and>
        now - 24 * hour \<le> instant (comparable_datetime (sn_collected_at sn)))) \<and>
     (vr_lab_validation_required q \<longrightarrow>
        (\<exists>v\<in>set (t_lab_validation s). lab_approved now dev {vr_operation q, ''vlan_management'', ''vlan_change''} v))"
proof -
  have status: "validated_status dev errors = ''validated'' \<longleftrightarrow> errors = []" for errors
    by (simp add: validated_status_def)
  define backup where "backup = (if vr_backup_required q then fresh_backup now 24 (latest_snapshot s (dev_id dev)) else (None, []))"
  define caps where "caps = [vr_operation q, ''vlan_management'', ''vlan_change'']"
  define lab where "lab = (if vr_lab_validation_required q \<and> approved_for now dev caps s = None
    then [''No approved non-expired lab validation matches vendor/model/driver/capability''] else [])"
  let ?r = "RefText (uuid_str (dev_id dev))"
  note row = device_ref_step [OF dev]
  have 1: "validate_device_support ?r (vr_operation q) s = (Inr (support_errors dev (vr_operation q)), s)"
    by (simp add: validate_device_support_def andThen_Inr row)
  have 2: "(if vr_backup_required q then validate_fresh_backup now ?r else ret (None, [])) s = (Inr backup, s)"
    using dev by (auto simp: backup_def validate_fresh_backup_def andThen_Inr get_latest_snapshot_None coerce_ref_text
        simp del: coerce_ref.simps)
  have 3: "(if vr_lab_validation_required q then validate_lab_validation now ?r (vr_operation q) else ret (None, [])) s
    = (Inr (if vr_lab_validation_required q then approved_for now dev caps s else None, lab), s)"
    by (simp add: validate_lab_validation_def andThen_Inr row lab_def caps_def del: approved_for.simps)
  have errors: "vd_status row = validated_status dev (request_errors q @ support_errors dev (vr_operation q) @ snd backup @ lab)"
    using run
    by (auto simp: validate_vlan_device_def Let_def andThen_Inr 1 2 3 split_def update_device_validation_def
        dest!: update_request_device_Inr simp del: approved_for.simps)
  show ?thesis
    unfolding errors status append_is_Nil_conv request_errors_Nil support_errors_Nil vlan_device_supported_def
    by (auto simp: fresh_backup_Nil approved_for_None backup_def lab_def caps_def simp del: approved_for.simps)
qed

text \<open>A switch with a snapshot and a lab validation, and a request for it.\<close>

definition vlan_switch :: device where
  "vlan_switch = \<lparr>dev_id = 1, dev_hostname = None, dev_ip_address = [], dev_management_ip = None,
     dev_vendor = ''Cisco'', dev_model = ''C2960'', dev_normalized_vendor = None, dev_normalized_model = None,
     dev_platform = [], dev_os_version = None, dev_serial_number = None, dev_site = None, dev_location = None,
     dev_rack = None, dev_role = None, dev_transport_type = [], dev_driver_name = ''CiscoIOSDriver'',
     dev_driver_resolution_status = [], dev_credential_assignment_status = [], dev_status = [],
     dev_discovery_status = [], dev_discovery_last_checked_at = None, dev_discovery_error = None, dev_tags = [],
     dev_capabilities = [(''destructive_apply_confirmed'', JBool True)], dev_last_seen = None, dev_last_seen_at
     = None, dev_created_at = Aware 0, dev_updated_at = Aware 0\<rparr>"

definition vlan_ask :: vlan_request where
  "vlan_ask = \<lparr>vr_id = 10, vr_title = [], vr_description = None, vr_status = ''draft'', vr_requested_by =
     None, vr_scope_type = ''device_ids'', vr_scope_filter = Some [(''device_ids'', JList [JStr ''00000000-0000-0000-0000-000000000001''])], vr_vlan_id = 10, vr_vlan_name = Some
     ''users'', vr_operation = ''create_vlan'', vr_dry_run_required = False, vr_backup_required = True,
     vr_lab_validation_required = True, vr_approval_required = False, vr_risk_level = [], vr_risk_summary =
     None, vr_created_at = Aware 0, vr_updated_at = Aware 0, vr_submitted_at = None, vr_approved_at = None,
     vr_approved_by = None, vr_rejected_at = None, vr_rejected_by = None, vr_completed_at = None,
     vr_error_summary = None\<rparr>"

definition vlan_row :: vlan_device where
  "vlan_row = \<lparr>vd_id = 11, vd_request_id = 10, vd_device_id = 1, vd_status = ''pending'', vd_driver_name
     = None, vd_vendor = None, vd_model = None, vd_backup_snapshot_id = None, vd_lab_validation_id = None,
     vd_validation_errors = None, vd_validation_warnings = None, vd_planned_commands = None,
     vd_rollback_commands = None, vd_impact_summary = None, vd_created_at = Aware 0, vd_updated_at = Aware
     0\<rparr>"

definition vlan_snapshot :: snapshot where
  "vlan_snapshot = \<lparr>sn_id = 2, sn_device_id = 1, sn_backup_job_id = None, sn_source = [], sn_config_type
     = [], sn_config_text = ''hostname sw1'', sn_config_hash = [], sn_sanitized = False, sn_collection_method =
     [], sn_collected_at = Aware 0, sn_created_at = Aware 0, sn_metadata = None\<rparr>"

definition vlan_lab :: lab_validation where
  "vlan_lab = \<lparr>lv_id = 3, lv_vendor = ''cisco'', lv_platform = None, lv_model_pattern = Some ''c29*'',
     lv_driver_name = ''CiscoIOSDriver'', lv_capability = ''create_vlan'', lv_status = ''approved'',
     lv_validated_by = None, lv_validated_at = None, lv_expires_at = None, lv_lab_environment = None,
     lv_evidence_summary = None, lv_transcript_id = None, lv_created_at = Aware 0, lv_updated_at = Aware
     0\<rparr>"

definition vlan_db :: db where
  "vlan_db = empty_db\<lparr>t_device := [vlan_switch], t_snapshot := [vlan_snapshot], t_lab_validation := [vlan_lab],
     t_vlan_request := [vlan_ask], t_vlan_device := [vlan_row]\<rparr>"

lemmas vlan_samples = vlan_switch_def vlan_ask_def vlan_row_def vlan_snapshot_def vlan_lab_def vlan_db_def

lemma vlan_sample_run:
  "map_sum id vd_status (fst (validate_vlan_device 0 vlan_ask vlan_switch vlan_db)) = Inr ''validated''"
  by code_simp

theorem vlan_device_validated_exactly_witness:
  "vlan_request_sound vlan_ask \<and> vlan_device_supported vlan_switch ''create_vlan'' \<and>
   (\<exists>v\<in>set (t_lab_validation vlan_db). lab_approved 0 vlan_switch {''create_vlan'', ''vlan_management'', ''vlan_change''} v)"
proof -
  obtain row s' where "validate_vlan_device 0 vlan_ask vlan_switch vlan_db = (Inr row, s')" "vd_status row = ''validated''"
    using vlan_sample_run
    by (cases "validate_vlan_device 0 vlan_ask vlan_switch vlan_db"; cases "fst (validate_vlan_device 0 vlan_ask vlan_switch vlan_db)")
      auto
  moreover have "find_device vlan_db (dev_id vlan_switch) = Some vlan_switch" "dev_id vlan_switch < 2 ^ 128"
    "vr_operation vlan_ask = ''create_vlan''" "vr_lab_validation_required vlan_ask"
    by (simp_all add: vlan_samples empty_db_def get_row_def)
  ultimately show ?thesis
    using vlan_device_validated_exactly [of 0 vlan_ask vlan_switch vlan_db row s'] by simp
qed

end
