(* ===== verification/VlanImpact.thy ===== *)
theory VlanImpact
  imports VlanChecks
begin

text \<open>
  app/services/vlan_impact_service.py: what a VLAN change would touch, read off the latest sanitized
  configuration of each device, and the risk estimated from it.
\<close>

section \<open>Reading a configuration\<close>

definition existing_vlan_rx :: "int \<Rightarrow> rx" where
  "existing_vlan_rx n = rseq (line_start ''vlan'' @ [rlit (int_str n), RWordB])"

definition vlan_batch_rx :: "int \<Rightarrow> rx" where
  "vlan_batch_rx n = rseq (line_start ''vlan'' @
     [rlit ''batch'', RWordB, RStar True Dot, RWordB, rlit (int_str n), RWordB])"

definition detect_existing_vlan :: "string \<Rightarrow> int \<Rightarrow> bool" where
  "detect_existing_vlan config n \<longleftrightarrow>
     rx_found flag_im (existing_vlan_rx n) config \<or> rx_found flag_im (vlan_batch_rx n) config"

definition access_tokens :: "int \<Rightarrow> string list" where
  "access_tokens n = map (\<lambda>w. vlan_line w n)
     [''switchport access vlan '', ''port access vlan '', ''port default vlan '']"

definition trunk_tokens :: "int \<Rightarrow> string list" where
  "trunk_tokens n = map (\<lambda>w. vlan_line w n)
     [''switchport trunk allowed vlan '', ''switchport trunk allowed vlan add '', ''port trunk allow-pass vlan '',
      ''port trunk permit vlan '']"

text \<open>The two lists of ports grow as the blocks are met.\<close>

definition classify_interface_block ::
  "int \<Rightarrow> string \<Rightarrow> string list \<Rightarrow> string list \<times> string list \<Rightarrow> string list \<times> string list" where
  "classify_interface_block n ifc ls ports =
     (let joined = casefold (str_join [newline] ls);
          hit = (\<lambda>tokens. list_ex (\<lambda>t. sublist t joined) tokens)
      in (fst ports @ (if hit (access_tokens n) then [ifc] else []),
          snd ports @ (if hit (trunk_tokens n) then [ifc] else [])))"

text \<open>The loop over the lines: the current interface with its lines so far, and the ports found.\<close>

fun scan_interfaces ::
  "int \<Rightarrow> string list \<Rightarrow> (string \<times> string list) option \<Rightarrow> string list \<times> string list \<Rightarrow> string list \<times> string list" where
  "scan_interfaces n [] cur ports = ports"
| "scan_interfaces n (raw # ls) cur ports =
     (let line = str_strip raw in
      if prefix ''interface '' (casefold line)
      then scan_interfaces n ls (Some (after_word line, []))
             (case cur of None \<Rightarrow> ports | Some (ifc, block) \<Rightarrow> classify_interface_block n ifc block ports)
      else scan_interfaces n ls (map_option (\<lambda>(ifc, block). (ifc, block @ [line])) cur) ports)"

definition vlan_line_rx :: rx where
  "vlan_line_rx = rseq [RBol, rlit ''vlan'', RPlus True Blank, RPlus True Digit]"

definition port_list :: "string \<Rightarrow> string list" where
  "port_list line = map str_strip (split_on (CHR '','') (after_word line))"

fun scan_vlan_blocks ::
  "int \<Rightarrow> string list \<Rightarrow> bool \<Rightarrow> string list \<times> string list \<Rightarrow> string list \<times> string list" where
  "scan_vlan_blocks n [] in_vlan ports = ports"
| "scan_vlan_blocks n (raw # ls) in_vlan ports =
     (let line = str_strip raw; l = casefold line in
      if rx_run flag_i vlan_line_rx ([], line, []) \<noteq> []
      then scan_vlan_blocks n ls (split_words line ! 1 = int_str n) ports
      else if \<not> in_vlan then scan_vlan_blocks n ls False ports
      else scan_vlan_blocks n ls (l \<noteq> ''exit'')
             (fst ports @ (if prefix ''untagged '' l then port_list line else []),
              snd ports @ (if prefix ''tagged '' l then port_list line else [])))"

definition procurve_vlan_block_ports :: "string \<Rightarrow> int \<Rightarrow> string list \<times> string list" where
  "procurve_vlan_block_ports config n =
     map_prod sorted_set sorted_set (scan_vlan_blocks n (splitlines config) False ([], []))"

text \<open>The access ports and the trunk ports.\<close>

definition detect_ports :: "string \<Rightarrow> int \<Rightarrow> string list \<times> string list" where
  "detect_ports config n =
     (let ports = scan_interfaces n (splitlines config @ [''interface __end__'']) None ([], []);
          blocks = procurve_vlan_block_ports config n
      in (sorted_set (fst ports @ fst blocks), sorted_set (snd ports @ snd blocks)))"

section \<open>The impact on a device\<close>

text \<open>\<open>VlanDeviceImpactRead\<close>, the dictionary it is stored as, and reading it back.\<close>

record device_impact =
  di_device_id :: string
  di_hostname :: "string option"
  di_management_ip :: "string option"
  di_vendor :: string
  di_model :: string
  di_driver_name :: string
  di_status :: string
  di_existing_vlan_detected :: bool
  di_interfaces :: "string list"
  di_trunk_ports :: "string list"
  di_access_ports :: "string list"
  di_warnings :: "string list"
  di_errors :: "string list"

definition dump_impact :: "device_impact \<Rightarrow> jobj" where
  "dump_impact i =
     [(''device_id'', JStr (di_device_id i)), (''hostname'', str_opt (di_hostname i)),
      (''management_ip'', str_opt (di_management_ip i)), (''vendor'', JStr (di_vendor i)), (''model'', JStr (di_model i)),
      (''driver_name'', JStr (di_driver_name i)), (''status'', JStr (di_status i)),
      (''existing_vlan_detected'', JBool (di_existing_vlan_detected i)),
      (''interfaces_potentially_affected'', JList (map JStr (di_interfaces i))),
      (''trunk_ports_potentially_affected'', JList (map JStr (di_trunk_ports i))),
      (''access_ports_potentially_affected'', JList (map JStr (di_access_ports i))),
      (''warnings'', JList (map JStr (di_warnings i))), (''errors'', JList (map JStr (di_errors i)))]"

text \<open>pydantic's reading of the fields: a text, an optional text, a flag, a list of texts.\<close>

fun as_text :: "json \<Rightarrow> string option" where
  "as_text (JStr s) = Some s"
| "as_text _ = None"

fun as_opt_text :: "json \<Rightarrow> string option option" where
  "as_opt_text JNull = Some None"
| "as_opt_text (JStr s) = Some (Some s)"
| "as_opt_text _ = None"

fun as_bool :: "json \<Rightarrow> bool option" where
  "as_bool (JBool b) = Some b"
| "as_bool _ = None"

fun all_texts :: "json list \<Rightarrow> string list option" where
  "all_texts [] = Some []"
| "all_texts (j # js) = (case (as_text j, all_texts js) of (Some s, Some ss) \<Rightarrow> Some (s # ss) | _ \<Rightarrow> None)"

fun as_texts :: "json \<Rightarrow> string list option" where
  "as_texts (JList xs) = all_texts xs"
| "as_texts _ = None"

definition text_field :: "jobj \<Rightarrow> string \<Rightarrow> string option" where
  "text_field d k = (case map_of d k of None \<Rightarrow> None | Some v \<Rightarrow> as_text v)"

definition opt_text_field :: "jobj \<Rightarrow> string \<Rightarrow> string option option" where
  "opt_text_field d k = (case map_of d k of None \<Rightarrow> None | Some v \<Rightarrow> as_opt_text v)"

definition texts_field :: "jobj \<Rightarrow> string \<Rightarrow> string list option" where
  "texts_field d k = (case map_of d k of None \<Rightarrow> Some [] | Some v \<Rightarrow> as_texts v)"

definition impact_invalid :: error where
  "impact_invalid = ValueError ''validation error for VlanDeviceImpactRead''"

definition load_impact :: "jobj \<Rightarrow> error + device_impact" where
  "load_impact d =
     (case (text_field d ''device_id'', opt_text_field d ''hostname'', opt_text_field d ''management_ip'',
            text_field d ''vendor'', text_field d ''model'', text_field d ''driver_name'', text_field d ''status'') of
        (Some dev, Some host, Some ip, Some vendor, Some model, Some driver, Some status) \<Rightarrow>
          (case (case map_of d ''existing_vlan_detected'' of None \<Rightarrow> None | Some v \<Rightarrow> as_bool v,
                 texts_field d ''interfaces_potentially_affected'', texts_field d ''trunk_ports_potentially_affected'',
                 texts_field d ''access_ports_potentially_affected'', texts_field d ''warnings'', texts_field d ''errors'') of
             (Some ex, Some ifcs, Some trunk, Some access, Some ws, Some es) \<Rightarrow>
               Inr \<lparr>di_device_id = dev, di_hostname = host, di_management_ip = ip, di_vendor = vendor, di_model = model,
                 di_driver_name = driver, di_status = status, di_existing_vlan_detected = ex, di_interfaces = ifcs,
                 di_trunk_ports = trunk, di_access_ports = access, di_warnings = ws, di_errors = es\<rparr>
           | _ \<Rightarrow> Inl impact_invalid)
      | _ \<Rightarrow> Inl impact_invalid)"

definition impact_of_device :: "device \<Rightarrow> snapshot option \<Rightarrow> int \<Rightarrow> string \<Rightarrow> device_impact" where
  "impact_of_device dev sn n status =
     (let ports = (case sn of None \<Rightarrow> ([], []) | Some s \<Rightarrow> detect_ports (sn_config_text s) n)
      in \<lparr>di_device_id = uuid_str (dev_id dev), di_hostname = dev_hostname dev,
          di_management_ip = Some (if or_empty (dev_management_ip dev) \<noteq> [] then or_empty (dev_management_ip dev)
                                   else dev_ip_address dev),
          di_vendor = dev_vendor dev, di_model = dev_model dev, di_driver_name = dev_driver_name dev, di_status = status,
          di_existing_vlan_detected = (case sn of None \<Rightarrow> False | Some s \<Rightarrow> detect_existing_vlan (sn_config_text s) n),
          di_interfaces = sorted_set (fst ports @ snd ports), di_trunk_ports = snd ports, di_access_ports = fst ports,
          di_warnings = (if sn = None then [''No sanitized snapshot available; impact is best-effort only''] else []),
          di_errors = []\<rparr>)"

section \<open>Risk\<close>

definition access_count :: "device_impact list \<Rightarrow> nat" where
  "access_count devs = sum_list (map (\<lambda>i. length (di_access_ports i)) devs)"

definition trunk_count :: "device_impact list \<Rightarrow> nat" where
  "trunk_count devs = sum_list (map (\<lambda>i. length (di_trunk_ports i)) devs)"

definition risk_level_of :: "string \<Rightarrow> device_impact list \<Rightarrow> string" where
  "risk_level_of op devs =
     (if op \<in> {''delete_vlan'', ''remove_access_vlan''} \<and> access_count devs \<noteq> 0 then ''critical''
      else if op \<in> {''delete_vlan'', ''add_trunk_vlan'', ''remove_trunk_vlan''} then ''high''
      else if op = ''rename_vlan'' then ''medium''
      else if access_count devs = 0 \<and> trunk_count devs = 0 then ''low'' else ''medium'')"

definition risk_summary_of :: "device_impact list \<Rightarrow> jobj" where
  "risk_summary_of devs =
     [(''existing_vlan_device_count'', JInt (count_rows di_existing_vlan_detected devs)),
      (''access_ports_potentially_affected'', JInt (int (access_count devs))),
      (''trunk_ports_potentially_affected'', JInt (int (trunk_count devs)))]"

section \<open>The preview\<close>

record impact_preview =
  pv_request_id :: string
  pv_operation :: string
  pv_vlan_id :: int
  pv_vlan_name :: "string option"
  pv_target_device_count :: int
  pv_ready_device_count :: int
  pv_blocked_device_count :: int
  pv_unsupported_device_count :: int
  pv_devices :: "device_impact list"
  pv_risk_level :: string
  pv_risk_summary :: jobj
  pv_warnings :: "string list"

definition preview_of :: "vlan_request \<Rightarrow> device_impact list \<Rightarrow> string \<Rightarrow> jobj \<Rightarrow> string list \<Rightarrow> impact_preview" where
  "preview_of q devs level summary warnings =
     \<lparr>pv_request_id = uuid_str (vr_id q), pv_operation = vr_operation q, pv_vlan_id = vr_vlan_id q,
      pv_vlan_name = vr_vlan_name q, pv_target_device_count = int (length devs),
      pv_ready_device_count = count_rows (\<lambda>i. di_status i \<in> {''validated'', ''ready''}) devs,
      pv_blocked_device_count = count_rows (\<lambda>i. di_status i = ''blocked'') devs,
      pv_unsupported_device_count = count_rows (\<lambda>i. di_status i = ''unsupported'') devs,
      pv_devices = devs, pv_risk_level = level, pv_risk_summary = summary, pv_warnings = sorted_set warnings\<rparr>"

definition missing_snapshot :: "device \<Rightarrow> snapshot option \<Rightarrow> string list" where
  "missing_snapshot dev sn =
     (if sn = None then [''No snapshot available for device '' @ uuid_str (dev_id dev) @ ''; impact is incomplete''] else [])"

text \<open>A row object of the session reads as the table does now.\<close>

definition live_row :: "vlan_device \<Rightarrow> db \<Rightarrow> vlan_device" where
  "live_row row d = (case find_vlan_device d (vd_id row) of None \<Rightarrow> row | Some r \<Rightarrow> r)"

definition preview_device :: "int \<Rightarrow> vlan_request \<Rightarrow> vlan_device \<Rightarrow> (db, device_impact \<times> string list) action" where
  "preview_device now q old =
     andThen (asks (live_row old)) (\<lambda>row.
     andThen (get_device_row (RefId (vd_device_id row))) (\<lambda>dev.
     andThen (get_latest_snapshot (RefId (dev_id dev)) None) (\<lambda>sn.
       let impact = impact_of_device dev sn (vr_vlan_id q) (vd_status row)
       in andThen (update_device_plan now (RefId (vr_id q)) (RefId (dev_id dev)) (vd_planned_commands row)
            (vd_rollback_commands row) (Some (dump_impact impact)) None) (\<lambda>_.
          ret (impact, missing_snapshot dev sn)))))"

text \<open>\<open>estimate_risk\<close> fetches the request again.\<close>

definition estimate_risk :: "ref \<Rightarrow> device_impact list \<Rightarrow> (db, string \<times> jobj) action" where
  "estimate_risk r devs =
     andThen (get_vlan_request_row r) (\<lambda>q. ret (risk_level_of (vr_operation q) devs, risk_summary_of devs))"

definition build_impact_preview :: "int \<Rightarrow> ref \<Rightarrow> (db, impact_preview) action" where
  "build_impact_preview now r =
     andThen (get_vlan_request_row r) (\<lambda>q.
     andThen (get_request_devices (RefId (vr_id q))) (\<lambda>rows.
     andThen (for_each (preview_device now q) rows) (\<lambda>found.
     andThen (estimate_risk (RefText (uuid_str (vr_id q))) (map fst found)) (\<lambda>(level, summary).
     andThen (update_vlan_risk now (RefId (vr_id q)) level (Some summary)) (\<lambda>_.
     ret (preview_of q (map fst found) level summary (concat (map snd found))))))))"

definition read_device_impact :: "vlan_request \<Rightarrow> vlan_device \<Rightarrow> (db, device_impact \<times> string list) action" where
  "read_device_impact q row =
     (if or_nil (vd_impact_summary row) \<noteq> []
      then andThen (query (\<lambda>_. load_impact (or_nil (vd_impact_summary row)))) (\<lambda>i. ret (i, []))
      else andThen (get_device_row (RefId (vd_device_id row))) (\<lambda>dev.
           andThen (get_latest_snapshot (RefId (dev_id dev)) None) (\<lambda>sn.
           ret (impact_of_device dev sn (vr_vlan_id q) (vd_status row), missing_snapshot dev sn))))"

definition read_impact_preview :: "ref \<Rightarrow> (db, impact_preview) action" where
  "read_impact_preview r =
     andThen (get_vlan_request_row r) (\<lambda>q.
     andThen (get_request_devices (RefId (vr_id q))) (\<lambda>rows.
     andThen (for_each (read_device_impact q) rows) (\<lambda>found.
     andThen (case vr_risk_summary q of
                None \<Rightarrow> estimate_risk (RefText (uuid_str (vr_id q))) (map fst found)
              | Some summary \<Rightarrow> ret (vr_risk_level q, summary)) (\<lambda>(level, summary).
     ret (preview_of q (map fst found) level summary (concat (map snd found)))))))"

section \<open>Queries without a request\<close>

definition summarize_affected_devices :: "int \<Rightarrow> ref \<Rightarrow> (db, jobj) action" where
  "summarize_affected_devices now r =
     andThen (build_impact_preview now r) (\<lambda>pv.
       ret [(''target_device_count'', JInt (pv_target_device_count pv)), (''ready_device_count'', JInt (pv_ready_device_count pv)),
            (''blocked_device_count'', JInt (pv_blocked_device_count pv)),
            (''unsupported_device_count'', JInt (pv_unsupported_device_count pv))])"

definition detect_vlan_existing_state :: "ref \<Rightarrow> int \<Rightarrow> (db, bool) action" where
  "detect_vlan_existing_state r n =
     andThen (get_latest_snapshot r None) (\<lambda>sn.
       ret (case sn of None \<Rightarrow> False | Some s \<Rightarrow> detect_existing_vlan (sn_config_text s) n))"

definition detect_interfaces_affected :: "ref \<Rightarrow> int \<Rightarrow> (db, (string \<times> string list) list) action" where
  "detect_interfaces_affected r n =
     andThen (get_latest_snapshot r None) (\<lambda>sn.
       let ports = (case sn of None \<Rightarrow> ([], []) | Some s \<Rightarrow> detect_ports (sn_config_text s) n)
       in ret [(''interfaces'', sorted_set (fst ports @ snd ports)), (''access_ports'', fst ports), (''trunk_ports'', snd ports)])"

section \<open>Stored impacts\<close>

lemma all_texts_map [simp]: "all_texts (map JStr ss) = Some ss"
  by (induction ss) auto

lemma as_opt_text_str_opt [simp]: "as_opt_text (str_opt v) = Some v"
  by (cases v) (simp_all add: str_opt_def)

text \<open>What is stored as the impact summary of a device is read back unchanged.\<close>

lemma load_dump_impact: "load_impact (dump_impact i) = Inr i"
  by (simp add: load_impact_def dump_impact_def text_field_def opt_text_field_def texts_field_def)

section \<open>Ports of another VLAN\<close>

lemma vlan_line_prefix: "prefix (int_str n) (int_str m) \<Longrightarrow> prefix (vlan_line w n) (vlan_line w m)"
  by (auto simp: vlan_line_def prefix_def)

lemma hit_prefix:
  assumes "prefix (int_str n) (int_str m)" "list_ex (\<lambda>t. sublist t joined) (map (\<lambda>w. vlan_line w m) ws)"
  shows "list_ex (\<lambda>t. sublist t joined) (map (\<lambda>w. vlan_line w n) ws)"
proof -
  have "sublist (vlan_line w n) (vlan_line w m)" for w
    by (rule prefix_imp_sublist [OF vlan_line_prefix [OF assms(1)]])
  with assms(2) show ?thesis by (auto simp: list_ex_iff intro: sublist_order.order_trans)
qed

definition more_ports :: "string list \<times> string list \<Rightarrow> string list \<times> string list \<Rightarrow> bool" where
  "more_ports p q \<longleftrightarrow> set (fst p) \<subseteq> set (fst q) \<and> set (snd p) \<subseteq> set (snd q)"

lemma classify_prefix:
  assumes "prefix (int_str n) (int_str m)" "more_ports p q"
  shows "more_ports (classify_interface_block m ifc ls p) (classify_interface_block n ifc ls q)"
  using assms(2) hit_prefix [OF assms(1)]
  by (auto simp: more_ports_def classify_interface_block_def Let_def access_tokens_def trunk_tokens_def simp del: list.map)

lemma scan_prefix:
  assumes "prefix (int_str n) (int_str m)"
  shows "more_ports p q \<Longrightarrow> more_ports (scan_interfaces m ls cur p) (scan_interfaces n ls cur q)"
proof (induction ls arbitrary: cur p q)
  case (Cons raw ls)
  have "more_ports (case cur of None \<Rightarrow> p | Some (ifc, block) \<Rightarrow> classify_interface_block m ifc block p)
      (case cur of None \<Rightarrow> q | Some (ifc, block) \<Rightarrow> classify_interface_block n ifc block q)"
    using Cons.prems classify_prefix [OF assms] by (auto split: option.splits)
  with Cons show ?case by (simp add: Let_def)
qed simp

text \<open>
  The preview counts the ports of other VLANs.  Every interface found to carry VLAN \<open>m\<close> is also reported for every VLAN
  whose number is a prefix of \<open>m\<close>'s digits, because the lines of an interface are searched for the text
  \<open>vlan <id>\<close> without looking at what follows it: the ports of VLAN 100 are counted as ports of VLAN 10 and of VLAN 1.
\<close>

theorem ports_of_longer_vlans_counted:
  assumes "prefix (int_str n) (int_str m)"
  shows "more_ports (scan_interfaces m (splitlines config @ [''interface __end__'']) None ([], [])) (detect_ports config n)"
  using scan_prefix [OF assms, of "([], [])" "([], [])" "splitlines config @ [''interface __end__'']" None]
  by (auto simp: more_ports_def detect_ports_def Let_def)

theorem ports_of_longer_vlans_counted_witness:
  "''Gi0/1'' \<in> set (fst (detect_ports (''interface Gi0/1'' @ newline # '' switchport access vlan 100'') 10))"
proof -
  have "prefix (int_str 10) (int_str 100)" by code_simp
  from ports_of_longer_vlans_counted [OF this, of "''interface Gi0/1'' @ newline # '' switchport access vlan 100''"]
  have "set (fst (scan_interfaces 100 (splitlines (''interface Gi0/1'' @ newline # '' switchport access vlan 100'') @
      [''interface __end__'']) None ([], []))) \<subseteq> set (fst (detect_ports (''interface Gi0/1'' @ newline # '' switchport access vlan 100'') 10))"
    by (simp add: more_ports_def)
  moreover have "fst (scan_interfaces 100 (splitlines (''interface Gi0/1'' @ newline # '' switchport access vlan 100'') @
      [''interface __end__'']) None ([], [])) = [''Gi0/1'']" by code_simp
  ultimately show ?thesis by simp
qed

text \<open>\<^bold>\<open>Trunks\<close>: a VLAN further back in a trunk's list, or inside a range, is not found at all.\<close>

lemma trunk_lists_missed:
  "detect_ports (''interface Gi0/1'' @ newline # '' switchport trunk allowed vlan 5,10'') 10 = ([], [])"
  "detect_ports (''interface Gi0/1'' @ newline # '' switchport trunk allowed vlan 2-20'') 10 = ([], [])"
  by code_simp+

end
