(* ===== verification/VlanPlanning.thy ===== *)
theory VlanPlanning
  imports VlanImpact
begin

text \<open>
  app/services/vlan_plan_service.py on the database: the commands and the rollback of every device of a request.
\<close>

section \<open>One device\<close>

definition build_device_rollback_plan :: "ref \<Rightarrow> ref \<Rightarrow> (db, string list) action" where
  "build_device_rollback_plan r dr =
     andThen (get_vlan_request_row r) (\<lambda>q.
     andThen (get_device_row dr) (\<lambda>dev.
     andThen (get_latest_snapshot (RefId (dev_id dev)) None) (\<lambda>sn.
     query (\<lambda>_. rollback_commands (dev_driver_name dev) (vr_operation q) (vr_vlan_id q) (interface_of q)
                (case sn of None \<Rightarrow> [] | Some s \<Rightarrow> sn_config_text s)))))"

definition inactionable :: "string list" where
  "inactionable = [''blocked'', ''unsupported'', ''skipped'', ''failed'']"

definition build_device_plan :: "int \<Rightarrow> ref \<Rightarrow> ref \<Rightarrow> (db, string list) action" where
  "build_device_plan now r dr =
     andThen (get_vlan_request_row r) (\<lambda>q.
     andThen (get_request_device (RefId (vr_id q)) dr) (\<lambda>row.
     andThen (get_device_row dr) (\<lambda>dev.
       let i = RefId (vr_id q); k = RefId (dev_id dev); ifc = interface_of q; op = vr_operation q in
       if vd_status row \<in> set inactionable
       then andThen (update_device_plan now i k (Some []) (Some []) None (Some (vd_status row))) (\<lambda>_. ret [])
       else if op \<in> set INTERFACE_REQUIRED_OPERATIONS \<and> ifc = None
       then andThen (update_device_status now i k ''blocked''
              (Some [''operation '' @ op @ '' requires scope_filter.interface'']) None) (\<lambda>_. ret [])
       else andThen (query (\<lambda>_. build_vendor_specific_commands (dev_driver_name dev) op (vr_vlan_id q) (vr_vlan_name q) ifc)) (\<lambda>commands.
            andThen (build_device_rollback_plan (RefText (uuid_str (vr_id q))) (RefText (uuid_str (dev_id dev)))) (\<lambda>rollback.
            andThen (update_device_plan now i k (Some commands) (Some rollback) None
              (Some (if commands \<noteq> [] \<and> rollback \<noteq> [] then ''ready'' else ''blocked''))) (\<lambda>_. ret commands))))))"

section \<open>The plan of a request\<close>

record vlan_plan =
  vpl_request :: jobj
  vpl_devices :: "jobj list"
  vpl_planned_device_count :: int
  vpl_blocked_device_count :: int

definition read_vlan_plan :: "ref \<Rightarrow> (db, vlan_plan) action" where
  "read_vlan_plan r =
     andThen (get_vlan_request_row r) (\<lambda>q.
     andThen (get_request_devices (RefId (vr_id q))) (\<lambda>rows.
     ret \<lparr>vpl_request = read_vlan_request q, vpl_devices = map read_vlan_device rows,
          vpl_planned_device_count = count_rows (\<lambda>row. or_nil (vd_planned_commands row) \<noteq> []) rows,
          vpl_blocked_device_count = count_rows (\<lambda>row. vd_status row \<in> {''blocked'', ''unsupported'', ''failed''}) rows\<rparr>))"

definition build_vlan_change_plan :: "int \<Rightarrow> ref \<Rightarrow> (db, vlan_plan) action" where
  "build_vlan_change_plan now r =
     andThen (get_vlan_request_row r) (\<lambda>q.
       let i = RefId (vr_id q); t = RefText (uuid_str (vr_id q)) in
       andThen (get_request_devices i) (\<lambda>rows.
       andThen (for_each (\<lambda>row. build_device_plan now t (RefText (uuid_str (vd_device_id row)))) rows) (\<lambda>_.
       andThen (add_vlan_event now i ''planned'' ''Dry-run VLAN command plan generated'' None None None) (\<lambda>_.
       read_vlan_plan t))))"

section \<open>The rollback plan\<close>

record rollback_plan =
  vrb_request_id :: string
  vrb_devices :: "jobj list"
  vrb_ready_device_count :: int
  vrb_warnings :: "string list"

definition rollback_plan_of :: "vlan_request \<Rightarrow> vlan_device list \<Rightarrow> string list \<Rightarrow> rollback_plan" where
  "rollback_plan_of q rows warnings =
     \<lparr>vrb_request_id = uuid_str (vr_id q), vrb_devices = map read_vlan_device rows,
      vrb_ready_device_count = count_rows (\<lambda>row. or_nil (vd_rollback_commands row) \<noteq> []) rows, vrb_warnings = warnings\<rparr>"

definition rollback_device :: "int \<Rightarrow> vlan_request \<Rightarrow> vlan_device \<Rightarrow> (db, string list) action" where
  "rollback_device now q old =
     andThen (asks (live_row old)) (\<lambda>row.
     andThen (get_device_row (RefId (vd_device_id row))) (\<lambda>dev.
     andThen (build_device_rollback_plan (RefText (uuid_str (vr_id q))) (RefText (uuid_str (dev_id dev)))) (\<lambda>rollback.
     andThen (update_device_plan now (RefId (vr_id q)) (RefId (dev_id dev)) (vd_planned_commands row) (Some rollback) None
       (Some (vd_status row))) (\<lambda>_.
     ret (if rollback = [] \<and> vd_status row \<notin> {''blocked'', ''unsupported'', ''skipped''}
          then [''No rollback commands could be generated for device '' @ uuid_str (dev_id dev)] else [])))))"

definition build_rollback_plan :: "int \<Rightarrow> ref \<Rightarrow> (db, rollback_plan) action" where
  "build_rollback_plan now r =
     andThen (get_vlan_request_row r) (\<lambda>q.
       let i = RefId (vr_id q) in
       andThen (get_request_devices i) (\<lambda>rows.
       andThen (for_each (rollback_device now q) rows) (\<lambda>warnings.
       andThen (add_vlan_event now i ''rollback_planned'' ''Dry-run VLAN rollback plan generated'' None None None) (\<lambda>_.
       andThen (get_request_devices i) (\<lambda>rows'.
       ret (rollback_plan_of q rows' (concat warnings)))))))"

definition read_rollback_plan :: "ref \<Rightarrow> (db, rollback_plan) action" where
  "read_rollback_plan r =
     andThen (get_vlan_request_row r) (\<lambda>q.
     andThen (get_request_devices (RefId (vr_id q))) (\<lambda>rows.
     ret (rollback_plan_of q rows
       (map (\<lambda>row. ''Rollback plan has not been generated for device '' @ uuid_str (vd_device_id row))
         (filter (\<lambda>row. vd_status row \<notin> set inactionable \<and> or_nil (vd_rollback_commands row) = []) rows)))))"

end
