(* ===== verification/VlanWorkflow.thy ===== *)
theory VlanWorkflow
  imports VlanPlanning Endpoints
begin

text \<open>
  app/services/vlan_workflow_service.py and the endpoints of app/api/v1/vlan_workflows.py: a VLAN change from its
  request to its readiness.  Nothing here reaches a device.
\<close>

section \<open>The service\<close>

definition create_vlan_change_request :: "int \<Rightarrow> vlan_create \<Rightarrow> string \<Rightarrow> (db, jobj) action" where
  "create_vlan_change_request now p actr =
     andThen (create_vlan_request_row now p (Some actr)) (\<lambda>q.
     andThen (resolve_target_devices (RefText (uuid_str (vr_id q)))) (\<lambda>devs.
     andThen (add_vlan_devices now (RefId (vr_id q)) (map pending_entry devs)) (\<lambda>_.
     andThen (add_vlan_event now (RefId (vr_id q)) ''created'' ''VLAN change request created'' (Some actr) None
       (Some [(''operation'', JStr (vr_operation q)), (''vlan_id'', JInt (vr_vlan_id q)),
              (''target_device_count'', JInt (int (length devs)))])) (\<lambda>_.
     ret (read_vlan_request q)))))"

definition list_vlan_requests_read :: "(db, jobj list) action" where
  "list_vlan_requests_read = asks (\<lambda>d. map read_vlan_request (list_vlan_requests None d))"

definition get_vlan_request_read :: "ref \<Rightarrow> (db, jobj) action" where
  "get_vlan_request_read r = andThen (get_vlan_request_row r) (\<lambda>q. ret (read_vlan_request q))"

definition report_ref :: "vlan_report \<Rightarrow> ref" where
  "report_ref report = RefText (py_str (jget (vp_request report) ''id''))"

definition validate_request :: "int \<Rightarrow> ref \<Rightarrow> string option \<Rightarrow> (db, vlan_report) action" where
  "validate_request now r actr =
     andThen (validate_vlan_request now r) (\<lambda>report.
     andThen (add_vlan_event now (report_ref report) ''validated'' ''Validation report built'' actr None None) (\<lambda>_.
     ret report))"

definition build_preview :: "int \<Rightarrow> ref \<Rightarrow> string option \<Rightarrow> (db, impact_preview) action" where
  "build_preview now r actr =
     andThen (build_impact_preview now r) (\<lambda>pv.
     andThen (add_vlan_event now r ''planned'' ''VLAN impact preview generated'' actr None
       (Some [(''risk_level'', JStr (pv_risk_level pv)), (''target_device_count'', JInt (pv_target_device_count pv))])) (\<lambda>_.
     ret pv))"

definition build_request_plan :: "int \<Rightarrow> ref \<Rightarrow> string option \<Rightarrow> (db, vlan_plan) action" where
  "build_request_plan now r actr =
     andThen (build_vlan_change_plan now r) (\<lambda>plan.
     andThen (add_vlan_event now r ''planned'' ''VLAN dry-run plan generated'' actr None
       (Some [(''planned_device_count'', JInt (vpl_planned_device_count plan))])) (\<lambda>_.
     ret plan))"

definition build_request_rollback_plan :: "int \<Rightarrow> ref \<Rightarrow> string option \<Rightarrow> (db, rollback_plan) action" where
  "build_request_rollback_plan now r actr =
     andThen (build_rollback_plan now r) (\<lambda>plan.
     andThen (add_vlan_event now r ''rollback_planned'' ''VLAN rollback dry-run plan generated'' actr None
       (Some [(''rollback_ready_device_count'', JInt (vrb_ready_device_count plan))])) (\<lambda>_.
     ret plan))"

text \<open>\<open>_assert_has_plan_and_rollback\<close>: the first obstacle in the order of the devices.\<close>

definition device_obstacle :: "vlan_request \<Rightarrow> vlan_device \<Rightarrow> string option" where
  "device_obstacle q row =
     (if vr_dry_run_required q \<and> or_nil (vd_planned_commands row) = []
      then Some ''Dry-run planned commands are required before approval''
      else if or_nil (vd_rollback_commands row) = [] then Some ''Rollback plan is required before approval''
      else if vr_backup_required q \<and> vd_backup_snapshot_id row = None
      then Some ''Fresh backup snapshot is required before approval''
      else if vr_lab_validation_required q \<and> vd_lab_validation_id row = None
      then Some ''Approved lab validation is required before approval''
      else None)"

definition plan_obstacle :: "vlan_request \<Rightarrow> vlan_device list \<Rightarrow> string option" where
  "plan_obstacle q rows =
     (let actionable = filter (\<lambda>row. vd_status row \<notin> set inactionable) rows
      in if actionable = [] then Some ''No actionable devices are available for VLAN workflow''
         else (case List.map_filter (device_obstacle q) actionable of [] \<Rightarrow> None | e # _ \<Rightarrow> Some e))"

definition assert_has_plan_and_rollback :: "vlan_request \<Rightarrow> (db, unit) action" where
  "assert_has_plan_and_rollback q =
     andThen (get_request_devices (RefId (vr_id q))) (\<lambda>rows.
       case plan_obstacle q rows of None \<Rightarrow> ret () | Some e \<Rightarrow> raise (ConflictError e))"

definition submit_vlan_request :: "int \<Rightarrow> ref \<Rightarrow> string \<Rightarrow> (db, jobj) action" where
  "submit_vlan_request now r actr =
     andThen (build_vlan_report r) (\<lambda>report.
     andThen (unless (vp_errors report = [])
                (ConflictError ''Cannot submit VLAN change request with blocking validation errors'')) (\<lambda>_.
     andThen (unless (vp_ready_device_count report \<noteq> 0)
                (ConflictError ''Cannot submit VLAN change request without validated devices'')) (\<lambda>_.
     andThen (get_vlan_request_row r) (\<lambda>q.
       let i = RefId (vr_id q) in
       andThen (assert_has_plan_and_rollback q) (\<lambda>_.
       andThen (create_vlan_approval now i (Some actr)) (\<lambda>_.
       andThen (update_vlan_status now i ''pending_approval'' (Some actr) None) (\<lambda>q'.
       andThen (add_vlan_event now i ''approval_requested'' ''VLAN change approval requested'' (Some actr) None None) (\<lambda>_.
       ret (read_vlan_request q')))))))))"

definition mark_vlan_ready :: "int \<Rightarrow> ref \<Rightarrow> string option \<Rightarrow> (db, jobj) action" where
  "mark_vlan_ready now r actr =
     andThen (get_vlan_request_row r) (\<lambda>q.
     andThen (unless (vr_status q \<in> {''approved'', ''ready''})
                (ConflictError (''Cannot mark VLAN change request ready from status '' @ vr_status q))) (\<lambda>_.
     andThen (build_vlan_report r) (\<lambda>report.
     andThen (unless (vp_errors report = [])
                (ConflictError ''Cannot mark VLAN change request ready with validation errors'')) (\<lambda>_.
     andThen (assert_has_plan_and_rollback q) (\<lambda>_.
     andThen (update_vlan_status now (RefId (vr_id q)) ''ready'' actr None) (\<lambda>q'.
     andThen (add_vlan_event now (RefId (vr_id q)) ''ready''
       ''VLAN change request is ready for future controlled execution'' actr None None) (\<lambda>_.
     ret (read_vlan_request q'))))))))"

definition approve_vlan_request :: "int \<Rightarrow> ref \<Rightarrow> string option \<Rightarrow> string \<Rightarrow> (db, jobj) action" where
  "approve_vlan_request now r comment actr =
     andThen (get_vlan_request_row r) (\<lambda>q.
       if vr_status q = ''ready'' then ret (read_vlan_request q)
       else andThen (unless (vr_status q = ''pending_approval'')
                (ConflictError (''Cannot approve VLAN change request from status '' @ vr_status q))) (\<lambda>_.
            andThen (approve_vlan_row now (RefId (vr_id q)) actr comment) (\<lambda>_.
            andThen (add_vlan_event now (RefId (vr_id q)) ''approved'' ''VLAN change request approved'' (Some actr) None None) (\<lambda>_.
            mark_vlan_ready now (RefText (uuid_str (vr_id q))) (Some actr)))))"

definition reject_vlan_request :: "int \<Rightarrow> ref \<Rightarrow> string option \<Rightarrow> string \<Rightarrow> (db, jobj) action" where
  "reject_vlan_request now r comment actr =
     andThen (get_vlan_request_row r) (\<lambda>q.
     andThen (unless (vr_status q \<in> {''pending_approval'', ''approved''})
                (ConflictError (''Cannot reject VLAN change request from status '' @ vr_status q))) (\<lambda>_.
     andThen (reject_vlan_row now r actr comment) (\<lambda>a.
     andThen (add_vlan_event now (RefId (va_request_id a)) ''rejected'' ''VLAN change request rejected'' (Some actr) None None) (\<lambda>_.
     get_vlan_request_read r))))"

definition cancel_vlan_request :: "int \<Rightarrow> ref \<Rightarrow> string \<Rightarrow> (db, jobj) action" where
  "cancel_vlan_request now r actr =
     andThen (get_vlan_request_row r) (\<lambda>q.
       if vr_status q \<in> {''completed'', ''cancelled''} then ret (read_vlan_request q)
       else andThen (update_vlan_status now (RefId (vr_id q)) ''cancelled'' (Some actr) None) (\<lambda>q'.
            andThen (add_vlan_event now (RefId (vr_id q)) ''cancelled'' ''VLAN change request cancelled'' (Some actr) None None) (\<lambda>_.
            ret (read_vlan_request q'))))"

definition read_vlan_event :: "vlan_event \<Rightarrow> jobj" where
  "read_vlan_event e =
     [(''id'', JStr (uuid_str (ve_id e))), (''request_id'', JStr (uuid_str (ve_request_id e))),
      (''device_id'', uuid_opt (ve_device_id e)), (''event_type'', JStr (ve_event_type e)), (''actor'', str_opt (ve_actor e)),
      (''message'', JStr (ve_message e)), (''metadata'', JObj (or_nil (ve_metadata e))),
      (''created_at'', JStr (isoformat (ve_created_at e)))]"

definition list_vlan_events_read :: "ref \<Rightarrow> (db, jobj list) action" where
  "list_vlan_events_read r = andThen (list_vlan_events r) (\<lambda>es. ret (map read_vlan_event es))"

definition list_vlan_devices_read :: "ref \<Rightarrow> (db, jobj list) action" where
  "list_vlan_devices_read r = andThen (get_request_devices r) (\<lambda>rows. ret (map read_vlan_device rows))"

record vlan_full_report =
  vf_request :: jobj
  vf_validation :: vlan_report
  vf_impact :: impact_preview
  vf_plan :: vlan_plan
  vf_rollback :: rollback_plan
  vf_audit_events :: "jobj list"

definition vlan_full_report_of :: "ref \<Rightarrow> (db, vlan_full_report) action" where
  "vlan_full_report_of r =
     andThen (get_vlan_request_read r) (\<lambda>q.
     andThen (build_vlan_report r) (\<lambda>v.
     andThen (read_impact_preview r) (\<lambda>pv.
     andThen (read_vlan_plan r) (\<lambda>plan.
     andThen (read_rollback_plan r) (\<lambda>rollback.
     andThen (list_vlan_events_read r) (\<lambda>es.
     ret \<lparr>vf_request = q, vf_validation = v, vf_impact = pv, vf_plan = plan, vf_rollback = rollback,
          vf_audit_events = es\<rparr>))))))"

section \<open>The endpoints\<close>

definition api_vlan_create :: "int \<Rightarrow> actor \<Rightarrow> vlan_create \<Rightarrow> (db, jobj) action" where
  "api_vlan_create now a p = endpoint Perm_manage_vlan_workflows a (create_vlan_change_request now p (username a))"

definition api_vlan_list :: "actor \<Rightarrow> (db, jobj list) action" where
  "api_vlan_list a = endpoint Perm_read_vlan_workflows a list_vlan_requests_read"

definition api_vlan_get :: "actor \<Rightarrow> string \<Rightarrow> (db, jobj) action" where
  "api_vlan_get a i = endpoint Perm_read_vlan_workflows a (get_vlan_request_read (RefText i))"

definition api_vlan_validate :: "int \<Rightarrow> actor \<Rightarrow> string \<Rightarrow> (db, vlan_report) action" where
  "api_vlan_validate now a i = endpoint Perm_plan_vlan_workflows a (validate_request now (RefText i) (Some (username a)))"

definition api_vlan_validation_report :: "actor \<Rightarrow> string \<Rightarrow> (db, vlan_report) action" where
  "api_vlan_validation_report a i = endpoint Perm_read_vlan_workflows a (build_vlan_report (RefText i))"

definition api_vlan_preview :: "int \<Rightarrow> actor \<Rightarrow> string \<Rightarrow> (db, impact_preview) action" where
  "api_vlan_preview now a i = endpoint Perm_plan_vlan_workflows a (build_preview now (RefText i) (Some (username a)))"

definition api_vlan_get_preview :: "actor \<Rightarrow> string \<Rightarrow> (db, impact_preview) action" where
  "api_vlan_get_preview a i = endpoint Perm_read_vlan_workflows a (read_impact_preview (RefText i))"

definition api_vlan_plan :: "int \<Rightarrow> actor \<Rightarrow> string \<Rightarrow> (db, vlan_plan) action" where
  "api_vlan_plan now a i = endpoint Perm_plan_vlan_workflows a (build_request_plan now (RefText i) (Some (username a)))"

definition api_vlan_get_plan :: "actor \<Rightarrow> string \<Rightarrow> (db, vlan_plan) action" where
  "api_vlan_get_plan a i = endpoint Perm_read_vlan_workflows a (read_vlan_plan (RefText i))"

definition api_vlan_rollback_plan :: "actor \<Rightarrow> string \<Rightarrow> (db, rollback_plan) action" where
  "api_vlan_rollback_plan a i = endpoint Perm_read_vlan_workflows a (read_rollback_plan (RefText i))"

definition api_vlan_submit :: "int \<Rightarrow> actor \<Rightarrow> string \<Rightarrow> (db, jobj) action" where
  "api_vlan_submit now a i = endpoint Perm_manage_vlan_workflows a (submit_vlan_request now (RefText i) (username a))"

definition api_vlan_approve :: "int \<Rightarrow> actor \<Rightarrow> string \<Rightarrow> string option \<Rightarrow> (db, jobj) action" where
  "api_vlan_approve now a i comment =
     endpoint Perm_approve_vlan_workflows a (approve_vlan_request now (RefText i) comment (username a))"

definition api_vlan_reject :: "int \<Rightarrow> actor \<Rightarrow> string \<Rightarrow> string option \<Rightarrow> (db, jobj) action" where
  "api_vlan_reject now a i comment =
     endpoint Perm_approve_vlan_workflows a (reject_vlan_request now (RefText i) comment (username a))"

definition api_vlan_cancel :: "int \<Rightarrow> actor \<Rightarrow> string \<Rightarrow> (db, jobj) action" where
  "api_vlan_cancel now a i = endpoint Perm_manage_vlan_workflows a (cancel_vlan_request now (RefText i) (username a))"

definition api_vlan_audit :: "actor \<Rightarrow> string \<Rightarrow> (db, jobj list) action" where
  "api_vlan_audit a i = endpoint Perm_read_vlan_workflows a (list_vlan_events_read (RefText i))"

definition api_vlan_report :: "actor \<Rightarrow> string \<Rightarrow> (db, vlan_full_report) action" where
  "api_vlan_report a i = endpoint Perm_read_vlan_workflows a (vlan_full_report_of (RefText i))"

section \<open>Requests\<close>

datatype vlan_call =
    VlanCreate vlan_create
  | VlanValidate string
  | VlanPreview string
  | VlanPlan string
  | VlanSubmit string
  | VlanApprove string "string option"
  | VlanReject string "string option"
  | VlanCancel string
  | VlanRead string

text \<open>One request of an actor and the database after it; all the reading endpoints are one constructor.\<close>

definition vlan_serve :: "int \<Rightarrow> actor \<Rightarrow> vlan_call \<Rightarrow> db \<Rightarrow> db" where
  "vlan_serve now a c s =
     (case c of
        VlanCreate p \<Rightarrow> snd (api_vlan_create now a p s)
      | VlanValidate i \<Rightarrow> snd (api_vlan_validate now a i s)
      | VlanPreview i \<Rightarrow> snd (api_vlan_preview now a i s)
      | VlanPlan i \<Rightarrow> snd (api_vlan_plan now a i s)
      | VlanSubmit i \<Rightarrow> snd (api_vlan_submit now a i s)
      | VlanApprove i comment \<Rightarrow> snd (api_vlan_approve now a i comment s)
      | VlanReject i comment \<Rightarrow> snd (api_vlan_reject now a i comment s)
      | VlanCancel i \<Rightarrow> snd (api_vlan_cancel now a i s)
      | VlanRead i \<Rightarrow> snd (api_vlan_report a i (snd (api_vlan_get a i s))))"

fun vlan_runs :: "(int \<times> actor \<times> vlan_call) list \<Rightarrow> db \<Rightarrow> db" where
  "vlan_runs [] s = s"
| "vlan_runs ((now, a, c) # cs) s = vlan_runs cs (vlan_serve now a c s)"

end
