(* ===== verification/VlanRuns.thy ===== *)
theory VlanRuns
  imports VlanWorkflow Progress
begin

text \<open>
  What holds of every run of requests against the VLAN workflow API.  An abstract machine, whose labels are the calls,
  knows of each request its status and whether it has an approved approval; every accepted call is the one move of its
  label, and a refused call changes nothing.
\<close>

section \<open>The machine\<close>

type_synonym vlan_life = "string \<times> bool"

text \<open>The request a call is about, when it can move one.\<close>

fun vlan_mover :: "vlan_call \<Rightarrow> string option" where
  "vlan_mover (VlanValidate t) = Some t"
| "vlan_mover (VlanSubmit t) = Some t"
| "vlan_mover (VlanApprove t _) = Some t"
| "vlan_mover (VlanReject t _) = Some t"
| "vlan_mover (VlanCancel t) = Some t"
| "vlan_mover _ = None"

text \<open>The guard and the effect of each call on the request it is about, when it is accepted.\<close>

fun vlan_move :: "vlan_call \<Rightarrow> vlan_life \<Rightarrow> vlan_life \<Rightarrow> bool" where
  "vlan_move (VlanValidate _) l l' \<longleftrightarrow> l' = (''validated'', snd l) \<or> l' = (''blocked'', snd l)"
| "vlan_move (VlanSubmit _) l l' \<longleftrightarrow> l' = (''pending_approval'', snd l)"
| "vlan_move (VlanApprove _ _) l l' \<longleftrightarrow>
     fst l = ''pending_approval'' \<and> l' = (''ready'', True) \<or> fst l = ''ready'' \<and> l' = l"
| "vlan_move (VlanReject _ _) l l' \<longleftrightarrow>
     (fst l = ''pending_approval'' \<or> fst l = ''approved'') \<and> fst l' = ''rejected'' \<and> (snd l' \<longrightarrow> snd l)"
| "vlan_move (VlanCancel _) l l' \<longleftrightarrow> l' = (if fst l \<in> {''completed'', ''cancelled''} then l else (''cancelled'', snd l))"
| "vlan_move _ l l' \<longleftrightarrow> False"

text \<open>What an accepted call does to all requests: creation adds a draft, a mover moves its request, no other call moves.\<close>

inductive vlan_answered :: "vlan_call \<Rightarrow> (uuid \<Rightarrow> vlan_life option) \<Rightarrow> (uuid \<Rightarrow> vlan_life option) \<Rightarrow> bool" where
  create: "m i = None \<Longrightarrow> vlan_answered (VlanCreate p) m (m(i \<mapsto> (''draft'', b)))"
| step: "vlan_mover c = Some t \<Longrightarrow> coerce_uuid ''VLAN change request'' t = Inr i \<Longrightarrow> m i = Some l \<Longrightarrow> vlan_move c l l' \<Longrightarrow>
    vlan_answered c m (m(i \<mapsto> l'))"
| stay: "vlan_mover c = None \<Longrightarrow> (\<And>p. c \<noteq> VlanCreate p) \<Longrightarrow> vlan_answered c m m"

lemma vlan_answered_mover:
  "vlan_answered c m m' \<Longrightarrow> vlan_mover c = Some t \<Longrightarrow> coerce_uuid ''VLAN change request'' t = Inr i \<Longrightarrow>
   \<exists>l l'. m i = Some l \<and> vlan_move c l l' \<and> m' = m(i \<mapsto> l')"
  by (erule vlan_answered.cases) auto

text \<open>Whether a call is accepted, that is, answered without an error.\<close>

definition vlan_accepts :: "int \<Rightarrow> actor \<Rightarrow> vlan_call \<Rightarrow> db \<Rightarrow> bool" where
  "vlan_accepts now a c s =
     (case c of
        VlanCreate p \<Rightarrow> \<not> isl (fst (api_vlan_create now a p s))
      | VlanValidate i \<Rightarrow> \<not> isl (fst (api_vlan_validate now a i s))
      | VlanPreview i \<Rightarrow> \<not> isl (fst (api_vlan_preview now a i s))
      | VlanPlan i \<Rightarrow> \<not> isl (fst (api_vlan_plan now a i s))
      | VlanSubmit i \<Rightarrow> \<not> isl (fst (api_vlan_submit now a i s))
      | VlanApprove i comment \<Rightarrow> \<not> isl (fst (api_vlan_approve now a i comment s))
      | VlanReject i comment \<Rightarrow> \<not> isl (fst (api_vlan_reject now a i comment s))
      | VlanCancel i \<Rightarrow> \<not> isl (fst (api_vlan_cancel now a i s))
      | VlanRead i \<Rightarrow> \<not> isl (fst (api_vlan_report a i s)))"

text \<open>What the machine guarantees: no status but these, and an approval behind every ready request.\<close>

definition vlan_statuses :: "string set" where
  "vlan_statuses = {''draft'', ''validated'', ''blocked'', ''pending_approval'', ''ready'', ''rejected'', ''cancelled''}"

definition vetted :: "vlan_life \<Rightarrow> bool" where
  "vetted l \<longleftrightarrow> fst l \<in> vlan_statuses \<and> (fst l = ''ready'' \<longrightarrow> snd l)"

lemma vlan_move_vetted: "vlan_move c l l' \<Longrightarrow> vetted l \<Longrightarrow> vetted l'"
proof (induction c l l' rule: vlan_move.induct)
  case (1 t l l')
  then show ?case by (simp, elim disjE) (simp_all add: vetted_def vlan_statuses_def)
next
  case (3 t c l l')
  then have "l' = (''ready'', True) \<or> l' = l" by simp blast
  with 3(2) show ?case by (elim disjE) (simp_all add: vetted_def vlan_statuses_def)
next
  case (5 t l l')
  then show ?case by (cases "fst l \<in> {''completed'', ''cancelled''}") (simp_all add: vetted_def vlan_statuses_def)
qed (simp_all add: vetted_def vlan_statuses_def)

lemma vlan_answered_vetted:
  assumes "vlan_answered c m m'" "\<And>i l. m i = Some l \<Longrightarrow> vetted l" "m' i = Some l"
  shows "vetted l"
  using assms(1)
proof cases
  case (create i' p b)
  with assms(2,3) show ?thesis by (auto simp: vetted_def vlan_statuses_def split: if_splits)
next
  case (step t i' l0 l')
  then have "vetted l'" using assms(2) vlan_move_vetted by blast
  with step(1) assms(2,3) show ?thesis by (auto split: if_splits)
qed (use assms(2,3) in simp)

section \<open>Reading the machine off the database\<close>

definition vlan_approved :: "db \<Rightarrow> uuid \<Rightarrow> bool" where
  "vlan_approved d i \<longleftrightarrow> (\<exists>a\<in>set (t_vlan_approval d). va_request_id a = i \<and> va_status a = ''approved'')"

definition vlan_life :: "db \<Rightarrow> uuid \<Rightarrow> vlan_life option" where
  "vlan_life d i = map_option (\<lambda>q. (vr_status q, vlan_approved d i)) (find_vlan_request d i)"

definition vlan_ids :: "db \<Rightarrow> bool" where
  "vlan_ids d \<longleftrightarrow> (\<forall>q\<in>set (t_vlan_request d). vr_id q < db_next_id d) \<and>
     (\<forall>a\<in>set (t_vlan_approval d). va_id a < db_next_id d) \<and> distinct (map va_id (t_vlan_approval d))"

interpretation vlan_requests: row_store find_vlan_request upd_vlan_request vr_id
  by unfold_locales (auto simp: upd_vlan_request_def get_upd_row dest: get_row_key)

lemma found_vlan: "find_vlan_request s i = Some q \<Longrightarrow> vlan_life s i = Some (vr_status q, vlan_approved s i)"
  by (simp add: vlan_life_def)

lemma get_vlan_Inr:
  "get_vlan_request_row r s = (Inr q, s') \<longleftrightarrow>
     s' = s \<and> (\<exists>i. coerce_ref ''VLAN change request'' r = Inr i \<and> find_vlan_request s i = Some q)"
  by (simp add: get_vlan_request_row_def get_by_ref_Inr)

lemma get_vlan_found: "get_vlan_request_row r s = (Inr q, s') \<Longrightarrow> s' = s \<and> find_vlan_request s (vr_id q) = Some q"
  by (auto simp: get_vlan_Inr dest: vlan_requests.get_key)

section \<open>Operations that move nothing\<close>

definition still :: "db \<Rightarrow> db \<Rightarrow> bool" where
  "still s s' \<longleftrightarrow> vlan_life s' = vlan_life s \<and> (vlan_ids s \<longrightarrow> vlan_ids s') \<and> db_next_id s \<le> db_next_id s'"

interpretation still: progress still
  by unfold_locales (auto simp: still_def)

lemma still_tables:
  "t_vlan_request s' = t_vlan_request s \<Longrightarrow> t_vlan_approval s' = t_vlan_approval s \<Longrightarrow> db_next_id s \<le> db_next_id s' \<Longrightarrow>
   still s s'"
  by (fastforce simp: still_def vlan_life_def vlan_approved_def vlan_ids_def fun_eq_iff)

lemma still_basic:
  "within still (get_by_ref look name r)" "within still fresh_id" "within still (change (upd_vlan_device i g))"
  "within still (change (\<lambda>d. d\<lparr>t_vlan_device := t_vlan_device d @ rows\<rparr>))"
  "within still (change (\<lambda>d. d\<lparr>t_vlan_event := t_vlan_event d @ es\<rparr>))"
  by (auto simp: get_by_ref_def query_def within_def fresh_id_def upd_vlan_device_def change_def intro!: still_tables)

lemma upd_request_life:
  assumes "\<And>q. vr_id (f q) = vr_id q" "find_vlan_request s i = Some q"
  shows "vlan_life (upd_vlan_request i f s) = (vlan_life s)(i \<mapsto> (vr_status (f q), vlan_approved s i))"
    "vlan_ids (upd_vlan_request i f s) \<longleftrightarrow> vlan_ids s" "db_next_id (upd_vlan_request i f s) = db_next_id s"
    "find_vlan_request (upd_vlan_request i f s) i = Some (f q)"
proof -
  have "vlan_approved (upd_vlan_request i f s) = vlan_approved s" by (simp add: vlan_approved_def upd_vlan_request_def fun_eq_iff)
  then show "vlan_life (upd_vlan_request i f s) = (vlan_life s)(i \<mapsto> (vr_status (f q), vlan_approved s i))"
    by (auto simp: vlan_life_def fun_eq_iff vlan_requests.get_upd [of f, OF assms(1)] assms(2))
  show "vlan_ids (upd_vlan_request i f s) \<longleftrightarrow> vlan_ids s"
    by (simp add: vlan_ids_def upd_vlan_request_def upd_row_keys [where key = vr_id and P = "\<lambda>x. x < db_next_id s"] assms(1))
  show "find_vlan_request (upd_vlan_request i f s) i = Some (f q)"
    using assms by (simp add: vlan_requests.get_upd)
qed (simp add: upd_vlan_request_def)

lemma update_still:
  assumes "\<And>q. vr_id (f q) = vr_id q" "\<And>q. vr_status (f q) = vr_status q"
  shows "within still (update_vlan_request r f)"
proof -
  have "still s (upd_vlan_request (vr_id q) f s)" if "find_vlan_request s (vr_id q) = Some q" for s q
    using upd_request_life [of f, OF assms(1) that] found_vlan [OF that] by (auto simp: still_def assms(2) fun_eq_iff)
  then show ?thesis
    unfolding within_def update_vlan_request_def
    by (auto simp: andThen_def ret_def change_def still.le_refl split: prod.splits sum.splits dest!: get_vlan_found)
      (metis get_by_ref_state get_vlan_request_row_def snd_conv still.le_refl)+
qed

lemma create_vlan_approval_still: "within still (create_vlan_approval now r rq)"
  by (auto simp: within_def create_vlan_approval_def Let_def andThen_def query_def fresh_id_def change_def ret_def still_def
      vlan_life_def vlan_approved_def vlan_ids_def fun_eq_iff less_Suc_eq split: sum.splits)

lemma add_vlan_event_still: "within still (add_vlan_event now r ty msg a dev md)"
  unfolding add_vlan_event_def Let_def by (intro still.within_intros still_basic)

lemma device_reads_still: "within still (get_device_row r)" "within still (get_request_devices r)"
  "within still (get_vlan_request_row r)" "within still (get_latest_snapshot r x)" "within still (get_request_device r r')"
  unfolding get_device_row_def get_request_devices_def get_vlan_request_row_def get_latest_snapshot_def
    list_snapshots_for_device_def get_request_device_def
  by (intro still.within_intros still_basic)+

lemma add_vlan_devices_still: "within still (add_vlan_devices now r es)"
  unfolding add_vlan_devices_def create_vlan_device_def Let_def
  by (intro still.within_intros still_basic device_reads_still)

lemma update_request_device_still: "within still (update_request_device now r r' f)"
  unfolding update_request_device_def Let_def
  by (intro still.within_intros still_basic device_reads_still)

lemma resolve_target_devices_still: "within still (resolve_target_devices r)"
  unfolding resolve_target_devices_def listed_devices_def Let_def
  by (intro still.within_intros device_reads_still)

lemma build_vlan_report_still: "within still (build_vlan_report r)"
  unfolding build_vlan_report_def by (intro still.within_intros device_reads_still)

lemma validate_vlan_device_still: "within still (validate_vlan_device now q dev)"
  unfolding validate_vlan_device_def validate_device_support_def validate_fresh_backup_def validate_lab_validation_def
    update_device_validation_def Let_def split_def
  by (intro still.within_intros device_reads_still update_request_device_still)

lemma build_impact_preview_still: "within still (build_impact_preview now r)"
  unfolding build_impact_preview_def preview_device_def estimate_risk_def update_vlan_risk_def update_device_plan_def
    Let_def split_def
  by (intro still.within_intros device_reads_still update_request_device_still update_still) simp_all

lemma build_vlan_change_plan_still: "within still (build_vlan_change_plan now r)"
  unfolding build_vlan_change_plan_def build_device_plan_def build_device_rollback_plan_def read_vlan_plan_def
    update_device_plan_def update_device_status_def Let_def
  by (intro still.within_intros device_reads_still update_request_device_still add_vlan_event_still)

lemma previews_still: "within still (build_preview now r a)" "within still (build_request_plan now r a)"
  unfolding build_preview_def build_request_plan_def
  by (intro still.within_intros build_impact_preview_still build_vlan_change_plan_still add_vlan_event_still)+

lemma assert_has_plan_still: "within still (assert_has_plan_and_rollback q)"
  unfolding assert_has_plan_and_rollback_def by (intro still.within_intros device_reads_still)

lemma get_vlan_request_read_still: "within still (get_vlan_request_read r)"
  unfolding get_vlan_request_read_def by (intro still.within_intros device_reads_still)

lemma vlan_full_report_still: "within still (vlan_full_report_of r)"
  unfolding vlan_full_report_of_def read_impact_preview_def read_device_impact_def estimate_risk_def read_vlan_plan_def
    read_rollback_plan_def list_vlan_events_read_def list_vlan_events_def split_def
  by (intro still.within_intros device_reads_still build_vlan_report_still get_vlan_request_read_still)

section \<open>Operations that move one request\<close>

text \<open>\<open>moved c s0 s\<close>: the move of the call \<open>c\<close> since \<open>s0\<close>.\<close>

definition moved :: "vlan_call \<Rightarrow> db \<Rightarrow> db \<Rightarrow> bool" where
  "moved c s0 s \<longleftrightarrow> vlan_answered c (vlan_life s0) (vlan_life s) \<and> (vlan_ids s0 \<longrightarrow> vlan_ids s) \<and> db_next_id s0 \<le> db_next_id s"

lemma still_moved: "vlan_mover c = None \<Longrightarrow> (\<And>p. c \<noteq> VlanCreate p) \<Longrightarrow> still s0 s \<Longrightarrow> moved c s0 s"
  by (auto simp: still_def moved_def intro: vlan_answered.stay)

lemma moved_still: "moved c s0 s \<Longrightarrow> still s s' \<Longrightarrow> moved c s0 s'"
  by (auto simp: still_def moved_def)

lemma after_still: "within still m \<Longrightarrow> triple (moved c s0) m (\<lambda>_. moved c s0)"
  by (rule tripleI) (blast intro: moved_still dest: withinD)

lemma before_still: "within still m \<Longrightarrow> triple (still s0) m (\<lambda>_. still s0)"
  by (rule tripleI) (blast intro: still.le_trans dest: withinD)

lemma only_still:
  "vlan_mover c = None \<Longrightarrow> (\<And>p. c \<noteq> VlanCreate p) \<Longrightarrow> within still m \<Longrightarrow> triple (still s0) m (\<lambda>_. moved c s0)"
  by (rule triple_weaken [OF before_still]) (auto intro: still_moved)

text \<open>The request at hand is the one the text \<open>t\<close> names, and has its status since the start.\<close>

definition at_hand :: "string \<Rightarrow> db \<Rightarrow> vlan_request \<Rightarrow> db \<Rightarrow> bool" where
  "at_hand t s0 q s \<longleftrightarrow> still s0 s \<and> coerce_uuid ''VLAN change request'' t = Inr (vr_id q) \<and>
     (\<exists>b. vlan_life s0 (vr_id q) = Some (vr_status q, b))"

lemma at_hand_get: "triple (still s0) (get_vlan_request_row (RefText t)) (\<lambda>q. at_hand t s0 q)"
proof (rule tripleI)
  fix s q s' assume s: "still s0 s" and run: "get_vlan_request_row (RefText t) s = (Inr q, s')"
  from get_vlan_found [OF run] have found: "s' = s" "find_vlan_request s (vr_id q) = Some q" by simp_all
  from run have "coerce_uuid ''VLAN change request'' t = Inr (vr_id q)" by (auto simp: get_vlan_Inr dest: vlan_requests.get_key)
  with s found found_vlan [OF found(2)] show "at_hand t s0 q s'" by (simp add: at_hand_def still_def)
qed

lemma at_hand_still: "within still m \<Longrightarrow> triple (at_hand t s0 q) m (\<lambda>_. at_hand t s0 q)"
  by (rule tripleI) (auto simp: at_hand_def intro: still.le_trans dest: withinD)

lemma at_hand_step:
  assumes "at_hand t s0 q s" "vlan_mover c = Some t" "\<And>b. vlan_life s0 (vr_id q) = Some (vr_status q, b) \<Longrightarrow>
    vlan_life s' = (vlan_life s0)(vr_id q \<mapsto> l' b) \<and> vlan_move c (vr_status q, b) (l' b)"
    "vlan_ids s0 \<longrightarrow> vlan_ids s'" "db_next_id s0 \<le> db_next_id s'"
  shows "moved c s0 s'"
proof -
  from assms(1) obtain b where b: "vlan_life s0 (vr_id q) = Some (vr_status q, b)" by (auto simp: at_hand_def)
  have i: "coerce_uuid ''VLAN change request'' t = Inr (vr_id q)" using assms(1) by (simp add: at_hand_def)
  have "vlan_answered c (vlan_life s0) ((vlan_life s0)(vr_id q \<mapsto> l' b))"
    by (rule vlan_answered.step [where t = t, OF assms(2) i]) (rule b, rule assms(3) [OF b, THEN conjunct2])
  with assms(3) [OF b] assms(4,5) show ?thesis by (simp add: moved_def)
qed

lemma at_hand_done:
  assumes "vlan_mover c = Some t" "\<And>b. vlan_move c (vr_status q, b) (vr_status q, b)"
  shows "triple (at_hand t s0 q) (ret x) (\<lambda>_. moved c s0)"
proof (rule triple_ret)
  fix s assume s: "at_hand t s0 q s"
  then show "moved c s0 s"
    by (rule at_hand_step [where l' = "Pair (vr_status q)", OF _ assms(1)])
      (use s assms(2) in \<open>auto simp: at_hand_def still_def\<close>)
qed

lemma with_vlan_status_fields [simp]:
  "vr_id (with_vlan_status now st a e q) = vr_id q" "vr_status (with_vlan_status now st a e q) = st"
  by (simp_all add: with_vlan_status_def Let_def)

lemma update_vlan_status_Inr:
  assumes "update_vlan_status now r st a e s = (Inr q', s')"
  shows "\<exists>i q. coerce_ref ''VLAN change request'' r = Inr i \<and> find_vlan_request s i = Some q \<and>
           q' = with_vlan_status now st a e q \<and> s' = upd_vlan_request i (with_vlan_status now st a e) s"
  using assms by (auto simp: update_vlan_status_def update_vlan_request_def andThen_Inr get_vlan_Inr dest: vlan_requests.get_key)

lemma at_hand_moved:
  assumes "vlan_mover c = Some t" "\<And>b. vlan_move c (vr_status q, b) (st, b)"
  shows "triple (at_hand t s0 q) (update_vlan_status now (RefId (vr_id q)) st a e) (\<lambda>_. moved c s0)"
proof (rule tripleI)
  fix s x s' assume s: "at_hand t s0 q s" and up: "update_vlan_status now (RefId (vr_id q)) st a e s = (Inr x, s')"
  from update_vlan_status_Inr [OF up] obtain q0 where q0: "find_vlan_request s (vr_id q) = Some q0"
    and s': "s' = upd_vlan_request (vr_id q) (with_vlan_status now st a e) s" by auto
  have same: "vlan_life s = vlan_life s0" using s by (simp add: at_hand_def still_def)
  note up = upd_request_life [where f = "with_vlan_status now st a e", OF with_vlan_status_fields(1) q0, folded s']
  show "moved c s0 s'"
    by (rule at_hand_step [where l' = "Pair st", OF s assms(1)])
      (use s up assms(2) found_vlan [OF q0] in \<open>simp_all add: at_hand_def still_def same\<close>)
qed

section \<open>The services\<close>

lemma create_moved:
  assumes "vlan_ids s0"
  shows "triple (still s0) (create_vlan_request_row now p a) (\<lambda>_. moved (VlanCreate p) s0)"
proof (rule tripleI)
  fix s q s' assume s: "still s0 s" and run: "create_vlan_request_row now p a s = (Inr q, s')"
  from run have q: "vr_id q = db_next_id s" "vr_status q = ''draft''"
    and s': "s' = s\<lparr>db_next_id := db_next_id s + 1, t_vlan_request := t_vlan_request s @ [q]\<rparr>"
    by (auto simp: create_vlan_request_row_def andThen_Inr Let_def)
  from s assms have ids: "vlan_ids s" and same: "vlan_life s = vlan_life s0" by (auto simp: still_def)
  from ids have fresh: "find_vlan_request s (vr_id q) = None" by (auto simp: get_row_None vlan_ids_def q)
  then have "vlan_life s' = (vlan_life s)(vr_id q \<mapsto> (''draft'', vlan_approved s (vr_id q)))"
    using q by (auto simp: fun_eq_iff vlan_life_def vlan_approved_def s' get_row_append get_row_single split: option.splits)
  moreover have "vlan_life s (vr_id q) = None" by (simp add: vlan_life_def fresh)
  ultimately have "vlan_answered (VlanCreate p) (vlan_life s0) (vlan_life s')" by (simp add: same vlan_answered.create)
  moreover have "vlan_ids s'" using ids by (auto simp: vlan_ids_def s' q less_Suc_eq)
  ultimately show "moved (VlanCreate p) s0 s'" using s by (auto simp: moved_def still_def s')
qed

lemma create_request_moved:
  "vlan_ids s0 \<Longrightarrow> triple (still s0) (create_vlan_change_request now p a) (\<lambda>_. moved (VlanCreate p) s0)"
  unfolding create_vlan_change_request_def
  by (rule triple_andThen [OF create_moved], assumption)
    (intro triple_seq after_still still.within_basic resolve_target_devices_still add_vlan_devices_still add_vlan_event_still)+

lemma validate_request_moved: "triple (still s0) (validate_request now (RefText t) a) (\<lambda>_. moved (VlanValidate t) s0)"
proof -
  have status: "triple (at_hand t s0 q) (update_vlan_status now (RefId (vr_id q)) st a' e) (\<lambda>_. moved (VlanValidate t) s0)"
    if "st = ''validated'' \<or> st = ''blocked''" for q st a' e
    by (rule at_hand_moved) (use that in \<open>elim disjE; simp\<close>)+
  have "triple (still s0) (validate_vlan_request now (RefText t)) (\<lambda>_. moved (VlanValidate t) s0)"
    unfolding validate_vlan_request_def Let_def
    apply (rule triple_andThen [OF at_hand_get])
    apply (rule triple_seq [OF at_hand_still [OF resolve_target_devices_still]])
    apply (rule triple_seq [OF at_hand_still [OF add_vlan_devices_still]])
    apply (rule triple_seq [OF at_hand_still [OF still.within_for_each [OF validate_vlan_device_still]]])
    apply (rule triple_seq [OF at_hand_still [OF build_vlan_report_still]])
    apply (rule triple_andThen [where R = "\<lambda>_. moved (VlanValidate t) s0"])
     apply (intro triple_if triple_andThen [OF status] after_still add_vlan_event_still build_vlan_report_still; simp)+
    done
  then show ?thesis unfolding validate_request_def
    by (rule triple_andThen) (intro triple_seq after_still add_vlan_event_still still.within_basic)
qed

lemma submit_moved: "triple (still s0) (submit_vlan_request now (RefText t) a) (\<lambda>_. moved (VlanSubmit t) s0)"
  unfolding submit_vlan_request_def Let_def
  apply (intro triple_seq [OF before_still [OF build_vlan_report_still]] triple_unless_then)
  apply (rule triple_andThen [OF at_hand_get])
  apply (rule triple_seq [OF at_hand_still [OF assert_has_plan_still]])
  apply (rule triple_seq [OF at_hand_still [OF create_vlan_approval_still]])
  apply (rule triple_andThen [OF at_hand_moved [where c = "VlanSubmit t"]], simp, simp)
  apply (intro triple_seq after_still add_vlan_event_still still.within_basic)
  done

lemma cancel_moved: "triple (still s0) (cancel_vlan_request now (RefText t) a) (\<lambda>_. moved (VlanCancel t) s0)"
  unfolding cancel_vlan_request_def
  apply (rule triple_andThen [OF at_hand_get])
  apply (rule triple_if, rule at_hand_done, simp, simp)
  apply (rule triple_andThen [OF at_hand_moved [where c = "VlanCancel t"]], simp, simp)
  apply (intro triple_seq after_still add_vlan_event_still still.within_basic)
  done

section \<open>Decisions\<close>

lemma latest_vlan_approval_Some:
  assumes "latest_vlan_approval d i = Some a"
  shows "a \<in> set (t_vlan_approval d) \<and> va_request_id a = i"
proof -
  from assms have "a \<in> set (rev (by_time va_created_at (filter (\<lambda>a. va_request_id a = i) (t_vlan_approval d))))"
    by (auto simp: latest_vlan_approval_def split: list.splits)
  then show ?thesis by (simp add: by_time_def)
qed

lemma latest_or_new_still: "within still (latest_or_new_vlan_approval now r)"
  unfolding latest_or_new_vlan_approval_def by (intro still.within_intros create_vlan_approval_still)

lemma latest_or_new_vlan_Inr:
  assumes "latest_or_new_vlan_approval now r s = (Inr a, s')"
  shows "a \<in> set (t_vlan_approval s') \<and> coerce_ref ''VLAN change request'' r = Inr (va_request_id a)"
  using assms
  by (auto simp: latest_or_new_vlan_approval_def create_vlan_approval_def andThen_Inr Let_def
      dest: latest_vlan_approval_Some split: option.splits)

lemma decided_life:
  assumes "vlan_ids s" "a \<in> set (t_vlan_approval s)" "\<And>a. va_id (f a) = va_id a"
    "\<And>a. va_request_id (f a) = va_request_id a"
  shows "vlan_ids (upd_vlan_approval (va_id a) f s)"
    "j \<noteq> va_request_id a \<Longrightarrow> vlan_life (upd_vlan_approval (va_id a) f s) j = vlan_life s j"
    "va_status (f a) = ''approved'' \<Longrightarrow> vlan_approved (upd_vlan_approval (va_id a) f s) (va_request_id a)"
    "va_status (f a) \<noteq> ''approved'' \<Longrightarrow> vlan_approved (upd_vlan_approval (va_id a) f s) k \<Longrightarrow> vlan_approved s k"
proof -
  have inj: "b = a" if "b \<in> set (t_vlan_approval s)" "va_id b = va_id a" for b
    using assms(1,2) that by (auto simp: vlan_ids_def distinct_map inj_on_def)
  show "vlan_ids (upd_vlan_approval (va_id a) f s)"
    using assms(1) by (simp add: vlan_ids_def upd_vlan_approval_def map_upd_row assms(3)
        upd_row_keys [where key = va_id and P = "\<lambda>x. x < db_next_id s"])
  show "vlan_life (upd_vlan_approval (va_id a) f s) j = vlan_life s j" if "j \<noteq> va_request_id a"
  proof -
    have "vlan_approved (upd_vlan_approval (va_id a) f s) j = vlan_approved s j"
      using that inj by (fastforce simp: vlan_approved_def upd_vlan_approval_def upd_row_def assms(4))
    then show ?thesis by (simp add: vlan_life_def upd_vlan_approval_def)
  qed
  show "vlan_approved (upd_vlan_approval (va_id a) f s) (va_request_id a)" if "va_status (f a) = ''approved''"
    unfolding vlan_approved_def
    by (rule bexI [of _ "f a"]) (use that assms(2) in \<open>auto simp: assms(4) upd_vlan_approval_def upd_row_def\<close>)
  show "vlan_approved s k" if "va_status (f a) \<noteq> ''approved''" "vlan_approved (upd_vlan_approval (va_id a) f s) k"
    using that inj by (fastforce simp: vlan_approved_def upd_vlan_approval_def upd_row_def assms(4) split: if_splits)
qed

text \<open>Deciding the latest approval and then setting the status.\<close>

lemma decide_Inr:
  assumes run: "andThen (latest_or_new_vlan_approval now r) (\<lambda>a.
      andThen (change (upd_vlan_approval (va_id a) f)) (\<lambda>_.
      andThen (update_vlan_status now r st act None) (\<lambda>_. ret (f a)))) s = (Inr x, s')"
    and ids: "vlan_ids s" and f: "\<And>a. va_id (f a) = va_id a" "\<And>a. va_request_id (f a) = va_request_id a"
  shows "\<exists>b st0 b0. coerce_ref ''VLAN change request'' r = Inr (va_request_id x) \<and>
     vlan_life s (va_request_id x) = Some (st0, b0) \<and> vlan_life s' = (vlan_life s)(va_request_id x \<mapsto> (st, b)) \<and>
     ((\<forall>a. va_status (f a) = ''approved'') \<longrightarrow> b) \<and> ((\<forall>a. va_status (f a) \<noteq> ''approved'') \<longrightarrow> b \<longrightarrow> b0) \<and>
     vlan_ids s' \<and> db_next_id s \<le> db_next_id s'"
proof -
  from run obtain a t q' where a: "latest_or_new_vlan_approval now r s = (Inr a, t)" and x: "x = f a"
    and up: "update_vlan_status now r st act None (upd_vlan_approval (va_id a) f t) = (Inr q', s')"
    by (auto simp: andThen_Inr)
  let ?u = "upd_vlan_approval (va_id a) f t" and ?i = "va_request_id a"
  have t: "vlan_life t = vlan_life s" "vlan_ids t" "db_next_id s \<le> db_next_id t"
    using withinD [OF latest_or_new_still a] ids by (auto simp: still_def)
  from latest_or_new_vlan_Inr [OF a] have mem: "a \<in> set (t_vlan_approval t)" and ref: "coerce_ref ''VLAN change request'' r = Inr ?i"
    by simp_all
  from update_vlan_status_Inr [OF up] ref obtain q where q: "find_vlan_request ?u ?i = Some q"
    and s': "s' = upd_vlan_request ?i (with_vlan_status now st act None) ?u" by auto
  note life = upd_request_life [where f = "with_vlan_status now st act None", OF with_vlan_status_fields(1) q, folded s']
  note decided = decided_life [OF t(2) mem f]
  have "find_vlan_request t ?i = Some q" using q by (simp add: upd_vlan_approval_def)
  from found_vlan [OF this] have old: "vlan_life s ?i = Some (vr_status q, vlan_approved t ?i)" by (simp add: t)
  have "vlan_life s' = (vlan_life s)(?i \<mapsto> (st, vlan_approved ?u ?i))"
    using decided(2) by (auto simp: life(1) fun_eq_iff t(1))
  moreover have "db_next_id s \<le> db_next_id s'" using t(3) life(3) by (simp add: upd_vlan_approval_def)
  ultimately show ?thesis using ref old life(2) decided(1,3,4) by (auto simp: x f)
qed

lemma reject_moved:
  assumes "vlan_ids s0"
  shows "triple (still s0) (reject_vlan_request now (RefText t) c a) (\<lambda>_. moved (VlanReject t c) s0)"
proof -
  have "triple (at_hand t s0 q) (reject_vlan_row now (RefText t) a c) (\<lambda>_. moved (VlanReject t c) s0)"
    if st: "vr_status q \<in> {''pending_approval'', ''approved''}" for q
  proof (rule tripleI)
    fix s x s' assume s: "at_hand t s0 q s" and run: "reject_vlan_row now (RefText t) a c s = (Inr x, s')"
    from s have same: "vlan_life s = vlan_life s0" and ids: "vlan_ids s" and le: "db_next_id s0 \<le> db_next_id s"
      using assms by (auto simp: at_hand_def still_def)
    from decide_Inr [OF run [unfolded reject_vlan_row_def Let_def] ids] s obtain b st0 b0 where
      life: "vlan_life s0 (vr_id q) = Some (st0, b0)" "vlan_life s' = (vlan_life s0)(vr_id q \<mapsto> (''rejected'', b))" "b \<longrightarrow> b0"
      and rest: "vlan_ids s'" "db_next_id s \<le> db_next_id s'"
      by (auto simp: same at_hand_def)
    show "moved (VlanReject t c) s0 s'"
      by (rule at_hand_step [where l' = "\<lambda>_. (''rejected'', b)", OF s]) (use st life rest le in auto)
  qed
  then show ?thesis
    unfolding reject_vlan_request_def
    apply (intro triple_andThen [OF at_hand_get] triple_unless_then)
    apply (rule triple_andThen, assumption)
    apply (intro triple_seq after_still add_vlan_event_still get_vlan_request_read_still)
    done
qed

text \<open>Between the approval and the readiness.\<close>

definition passed :: "db \<Rightarrow> uuid \<Rightarrow> string \<Rightarrow> db \<Rightarrow> bool" where
  "passed s0 i st s \<longleftrightarrow> vlan_life s = (vlan_life s0)(i \<mapsto> (st, True)) \<and> vlan_ids s \<and> db_next_id s0 \<le> db_next_id s \<and>
     (\<exists>b. vlan_life s0 i = Some (''pending_approval'', b))"

lemma passed_still: "within still m \<Longrightarrow> triple (passed s0 i st) m (\<lambda>_. passed s0 i st)"
  by (rule tripleI) (auto simp: passed_def still_def dest!: withinD)

lemma passed_moved:
  assumes "passed s0 i ''ready'' s" "coerce_uuid ''VLAN change request'' t = Inr i"
  shows "moved (VlanApprove t c) s0 s"
proof -
  from assms(1) obtain b where b: "vlan_life s0 i = Some (''pending_approval'', b)" by (auto simp: passed_def)
  have "vlan_answered (VlanApprove t c) (vlan_life s0) ((vlan_life s0)(i \<mapsto> (''ready'', True)))"
    by (rule vlan_answered.step [where t = t and l = "(''pending_approval'', b)"]) (simp_all add: assms(2) b)
  with assms(1) show ?thesis by (simp add: passed_def moved_def)
qed

lemma passed_get:
  assumes "i < 2 ^ 128"
  shows "triple (passed s0 i st) (get_vlan_request_row (RefText (uuid_str i))) (\<lambda>q s. passed s0 i st s \<and> vr_id q = i)"
  by (rule tripleI)
    (auto simp: get_vlan_Inr coerce_ref_text [OF assms] dest: vlan_requests.get_key simp del: coerce_ref.simps)

lemma mark_ready_passed:
  assumes "i < 2 ^ 128" "coerce_uuid ''VLAN change request'' t = Inr i"
  shows "triple (passed s0 i ''approved'') (mark_vlan_ready now (RefText (uuid_str i)) a) (\<lambda>_. moved (VlanApprove t c) s0)"
proof -
  have ready: "triple (passed s0 i ''approved'') (update_vlan_status now (RefId i) ''ready'' a None) (\<lambda>_. moved (VlanApprove t c) s0)"
  proof (rule tripleI)
    fix s x s' assume s: "passed s0 i ''approved'' s" and up: "update_vlan_status now (RefId i) ''ready'' a None s = (Inr x, s')"
    from update_vlan_status_Inr [OF up] obtain q where q: "find_vlan_request s i = Some q"
      and s': "s' = upd_vlan_request i (with_vlan_status now ''ready'' a None) s" by auto
    note life = upd_request_life [where f = "with_vlan_status now ''ready'' a None", OF with_vlan_status_fields(1) q, folded s']
    from found_vlan [OF q] s have "vlan_approved s i" by (simp add: passed_def)
    with s life show "moved (VlanApprove t c) s0 s'" by (intro passed_moved [OF _ assms(2)]) (simp add: passed_def)
  qed
  show ?thesis
    unfolding mark_vlan_ready_def
    apply (rule triple_andThen [OF passed_get [OF assms(1)]])
    apply (intro triple_pull triple_unless_then)
    apply (rule triple_seq [OF passed_still [OF build_vlan_report_still]])
    apply (intro triple_unless_then)
    apply (rule triple_seq [OF passed_still [OF assert_has_plan_still]])
    apply (rule triple_andThen [where R = "\<lambda>_. moved (VlanApprove t c) s0"])
     apply (simp add: ready)
    apply (intro triple_seq after_still add_vlan_event_still still.within_basic)
    done
qed

lemma approve_moved:
  assumes "vlan_ids s0" "db_next_id s0 \<le> 2 ^ 128"
  shows "triple (still s0) (approve_vlan_request now (RefText t) c a) (\<lambda>_. moved (VlanApprove t c) s0)"
proof -
  have row: "triple (at_hand t s0 q) (approve_vlan_row now (RefId (vr_id q)) a c) (\<lambda>_. passed s0 (vr_id q) ''approved'')"
    if st: "vr_status q = ''pending_approval''" for q
  proof (rule tripleI)
    fix s x s' assume s: "at_hand t s0 q s" and run: "approve_vlan_row now (RefId (vr_id q)) a c s = (Inr x, s')"
    from s have same: "vlan_life s = vlan_life s0" and ids: "vlan_ids s" and le: "db_next_id s0 \<le> db_next_id s"
      using assms by (auto simp: at_hand_def still_def)
    from decide_Inr [OF run [unfolded approve_vlan_row_def Let_def] ids] s st le
    show "passed s0 (vr_id q) ''approved'' s'" by (auto simp: passed_def at_hand_def same)
  qed
  have get: "triple (still s0) (get_vlan_request_row (RefText t)) (\<lambda>q s. at_hand t s0 q s \<and>
      (vr_id q < 2 ^ 128 \<and> coerce_uuid ''VLAN change request'' t = Inr (vr_id q)))"
    using at_hand_get [of s0 t] assms
    by (fastforce simp: triple_def at_hand_def vlan_life_def vlan_ids_def dest!: get_row_key)
  have ready: "triple (passed s0 (vr_id q) ''approved'') (mark_vlan_ready now (RefText (uuid_str (vr_id q))) a')
      (\<lambda>_. moved (VlanApprove t c) s0)"
    if "vr_id q < 2 ^ 128 \<and> coerce_uuid ''VLAN change request'' t = Inr (vr_id q)" for q a'
    using that by (intro mark_ready_passed) simp_all
  show ?thesis
    unfolding approve_vlan_request_def
    apply (rule triple_andThen [OF get])
    apply (rule triple_pull, rule triple_if)
     apply (rule at_hand_done, simp, simp)
    apply (rule triple_unless_then)
    apply (rule triple_andThen [OF row], assumption)
    apply (rule triple_seq [OF passed_still [OF add_vlan_event_still]])
    apply (erule ready)
    done
qed

section \<open>Calls and runs\<close>

lemma endpoint_moved:
  assumes "triple (still s) m (\<lambda>_. moved c s)"
  shows "if isl (fst (endpoint p a m s)) then snd (endpoint p a m s) = s else moved c s (snd (endpoint p a m s))"
  using tripleD [OF assms still.le_refl] endpoint_Inr [of p a m s] endpoint_Inl [of p a m s]
  by (cases "endpoint p a m s"; cases "fst (endpoint p a m s)") auto

lemmas vlan_endpoints = api_vlan_create_def api_vlan_validate_def api_vlan_preview_def api_vlan_plan_def
  api_vlan_submit_def api_vlan_approve_def api_vlan_reject_def api_vlan_cancel_def api_vlan_report_def

lemma vlan_serve_moved:
  assumes "vlan_ids s" "db_next_id s \<le> 2 ^ 128"
  shows "if vlan_accepts now a c s then moved c s (vlan_serve now a c s) else vlan_serve now a c s = s"
proof -
  note moves = create_request_moved [OF assms(1)] validate_request_moved submit_moved approve_moved [OF assms]
    reject_moved [OF assms(1)] cancel_moved
  have get: "snd (api_vlan_get a i s) = s" for i
    unfolding api_vlan_get_def endpoint_def committed_def get_vlan_request_read_def andThen_def query_def
    by (auto simp: ret_def split: prod.splits sum.splits dest: get_vlan_found)
  show ?thesis
  proof (cases c)
    case (VlanPreview i)
    have "triple (still s) (build_preview now (RefText i) (Some (username a))) (\<lambda>_. moved (VlanPreview i) s)"
      by (rule only_still) (simp_all add: previews_still)
    from endpoint_moved [OF this, of Perm_plan_vlan_workflows a] show ?thesis
      by (simp add: vlan_serve_def vlan_accepts_def vlan_endpoints VlanPreview)
  next
    case (VlanPlan i)
    have "triple (still s) (build_request_plan now (RefText i) (Some (username a))) (\<lambda>_. moved (VlanPlan i) s)"
      by (rule only_still) (simp_all add: previews_still)
    from endpoint_moved [OF this, of Perm_plan_vlan_workflows a] show ?thesis
      by (simp add: vlan_serve_def vlan_accepts_def vlan_endpoints VlanPlan)
  next
    case (VlanRead i)
    have "triple (still s) (vlan_full_report_of (RefText i)) (\<lambda>_. moved (VlanRead i) s)"
      by (rule only_still) (simp_all add: vlan_full_report_still)
    from endpoint_moved [OF this, of Perm_read_vlan_workflows a] show ?thesis
      by (simp add: vlan_serve_def vlan_accepts_def vlan_endpoints VlanRead get)
  next
    case (VlanCreate p)
    show ?thesis using endpoint_moved [OF moves(1), of Perm_manage_vlan_workflows a]
      by (simp add: vlan_serve_def vlan_accepts_def vlan_endpoints VlanCreate)
  next
    case (VlanValidate t)
    show ?thesis using endpoint_moved [OF moves(2), of Perm_plan_vlan_workflows a]
      by (simp add: vlan_serve_def vlan_accepts_def vlan_endpoints VlanValidate)
  next
    case (VlanSubmit t)
    show ?thesis using endpoint_moved [OF moves(3), of Perm_manage_vlan_workflows a]
      by (simp add: vlan_serve_def vlan_accepts_def vlan_endpoints VlanSubmit)
  next
    case (VlanApprove t x)
    show ?thesis using endpoint_moved [OF moves(4), of Perm_approve_vlan_workflows a]
      by (simp add: vlan_serve_def vlan_accepts_def vlan_endpoints VlanApprove)
  next
    case (VlanReject t x)
    show ?thesis using endpoint_moved [OF moves(5), of Perm_approve_vlan_workflows a]
      by (simp add: vlan_serve_def vlan_accepts_def vlan_endpoints VlanReject)
  next
    case (VlanCancel t)
    show ?thesis using endpoint_moved [OF moves(6), of Perm_manage_vlan_workflows a]
      by (simp add: vlan_serve_def vlan_accepts_def vlan_endpoints VlanCancel)
  qed
qed

text \<open>Identifiers are never given back.\<close>

definition rises :: "db \<Rightarrow> db \<Rightarrow> bool" where
  "rises s s' \<longleftrightarrow> db_next_id s \<le> db_next_id s'"

interpretation rises: progress rises
  by unfold_locales (auto simp: rises_def)

lemma rises_still: "within still m \<Longrightarrow> within rises m"
  by (erule within_weaken) (simp add: still_def rises_def)

lemma rises_basic: "within rises (change (upd_vlan_request i f))" "within rises (change (upd_vlan_approval i g))"
  "within rises (change (\<lambda>d. d\<lparr>t_vlan_request := t_vlan_request d @ rows\<rparr>))"
  by (auto intro!: within_change simp: rises_def upd_vlan_request_def upd_vlan_approval_def)

lemma update_vlan_status_rises: "within rises (update_vlan_status now r st a e)"
  unfolding update_vlan_status_def update_vlan_request_def
  by (intro rises.within_intros rises_basic rises_still [OF device_reads_still(3)])

lemmas service_rises = update_vlan_status_rises rises_basic rises_still [OF add_vlan_event_still]
  rises_still [OF device_reads_still(3)] rises_still [OF build_vlan_report_still] rises_still [OF assert_has_plan_still]
  rises_still [OF latest_or_new_still] rises_still [OF create_vlan_approval_still] rises_still [OF still_basic(2)]
  rises_still [OF resolve_target_devices_still] rises_still [OF add_vlan_devices_still]
  rises_still [OF still.within_for_each [OF validate_vlan_device_still]] rises_still [OF get_vlan_request_read_still]

lemma services_rise:
  "within rises (create_vlan_change_request now p u)" "within rises (validate_request now r a)"
  "within rises (submit_vlan_request now r u)" "within rises (approve_vlan_request now r c u)"
  "within rises (reject_vlan_request now r c u)" "within rises (cancel_vlan_request now r u)"
  unfolding create_vlan_change_request_def create_vlan_request_row_def validate_request_def validate_vlan_request_def
    submit_vlan_request_def approve_vlan_request_def approve_vlan_row_def mark_vlan_ready_def reject_vlan_request_def
    reject_vlan_row_def cancel_vlan_request_def Let_def
  by (intro rises.within_intros service_rises)+

lemma endpoint_rises:
  assumes "within rises m"
  shows "rises s (snd (endpoint p a m s))"
proof -
  have "within rises (endpoint p a m)"
    unfolding endpoint_def by (intro rises.within_committed rises.within_andThen rises.within_basic assms)
  then show ?thesis by (simp add: within_def)
qed

lemma vlan_serve_rises: "rises s (vlan_serve now a c s)"
proof (cases c)
  case (VlanRead i)
  have "rises s (snd (api_vlan_get a i s))"
    unfolding api_vlan_get_def by (intro endpoint_rises rises_still get_vlan_request_read_still)
  moreover have "rises t (snd (api_vlan_report a i t))" for t
    unfolding api_vlan_report_def by (intro endpoint_rises rises_still vlan_full_report_still)
  ultimately show ?thesis by (simp add: vlan_serve_def VlanRead) (rule rises.le_trans)
qed (auto simp: vlan_serve_def api_vlan_create_def api_vlan_validate_def api_vlan_preview_def api_vlan_plan_def
    api_vlan_submit_def api_vlan_approve_def api_vlan_reject_def api_vlan_cancel_def
    intro!: endpoint_rises services_rise rises_still previews_still)

lemma vlan_runs_rise: "rises s (vlan_runs cs s)"
  by (induction cs s rule: vlan_runs.induct) (auto simp: rises.le_refl intro: rises.le_trans vlan_serve_rises)

lemma vlan_serve_ids: "vlan_ids s \<Longrightarrow> db_next_id s \<le> 2 ^ 128 \<Longrightarrow> vlan_ids (vlan_serve now a c s)"
  using vlan_serve_moved [of s now a c] by (auto simp: moved_def split: if_splits)

lemma vlan_before:
  assumes "db_next_id (vlan_runs cs (vlan_serve now a c s)) \<le> 2 ^ 128"
  shows "db_next_id s \<le> 2 ^ 128"
  using assms vlan_serve_rises [of s now a c] vlan_runs_rise [of "vlan_serve now a c s" cs] by (simp add: rises_def)

lemma vlan_runs_ids: "vlan_ids s \<Longrightarrow> db_next_id (vlan_runs cs s) \<le> 2 ^ 128 \<Longrightarrow> vlan_ids (vlan_runs cs s)"
proof (induction cs s rule: vlan_runs.induct)
  case (2 now a c cs s)
  then have "vlan_ids (vlan_serve now a c s)" by (intro vlan_serve_ids vlan_before [of cs now a c s]) simp_all
  with 2 show ?case by simp
qed simp

lemma vlan_runs_vetted:
  assumes "vlan_ids s" "db_next_id (vlan_runs cs s) \<le> 2 ^ 128" "\<And>i l. vlan_life s i = Some l \<Longrightarrow> vetted l"
    "vlan_life (vlan_runs cs s) i = Some l"
  shows "vetted l"
  using assms
proof (induction cs s rule: vlan_runs.induct)
  case (2 now a c cs s)
  let ?t = "vlan_serve now a c s"
  have le: "db_next_id s \<le> 2 ^ 128" using vlan_before 2(3) by simp
  have "vetted l" if "vlan_life ?t i = Some l" for i l
    using vlan_serve_moved [OF 2(2) le, of now a c] that 2(4)
    by (auto simp: moved_def split: if_splits dest: vlan_answered_vetted)
  then show ?case using 2(1) [OF vlan_serve_ids [OF 2(2) le]] 2(3,5) by simp
qed simp

section \<open>An example run\<close>

definition vlan_admin :: actor where
  "vlan_admin = \<lparr>username = ''root'', roles = {Role_admin}\<rparr>"

definition pending_db :: db where
  "pending_db = vlan_db\<lparr>db_next_id := 200,
     t_vlan_request := [vlan_ask\<lparr>vr_status := ''pending_approval''\<rparr>],
     t_vlan_device := [vlan_row\<lparr>vd_status := ''ready'', vd_planned_commands := Some [''vlan 10''],
       vd_rollback_commands := Some [''no vlan 10''], vd_backup_snapshot_id := Some 2, vd_lab_validation_id := Some 3\<rparr>],
     t_vlan_approval := [\<lparr>va_id = 12, va_request_id = 10, va_status = ''pending'', va_requested_by = Some ''ann'',
       va_approved_by = None, va_rejected_by = None, va_comment = None, va_created_at = Aware 0, va_decided_at = None\<rparr>]\<rparr>"

definition vlan_sample_calls :: "(int \<times> actor \<times> vlan_call) list" where
  "vlan_sample_calls = [(0, vlan_admin, VlanApprove (uuid_str 10) None)]"

lemma vlan_sample_ids: "coerce_uuid name (uuid_str 10) = Inr 10"
  using coerce_ref_text [of 10 name] by simp

lemma vlan_admin_permissions: "p \<in> permissions vlan_admin"
  by (simp add: permissions_def vlan_admin_def all_permissions_UNIV)

lemmas vlan_action_simps = andThen_def ret_def raise_def asks_def query_def change_def unless_def Let_def
  endpoint_def committed_def require_permission_def vlan_admin_permissions vlan_sample_ids

lemmas vlan_row_simps = get_vlan_request_row_def get_by_ref_def get_row_def approve_vlan_row_def latest_or_new_vlan_approval_def
  latest_vlan_approval_def upd_vlan_approval_def upd_vlan_request_def upd_row_def update_vlan_status_def
  update_vlan_request_def with_vlan_status_def add_vlan_event_def optional_ref_def fresh_id_def mark_vlan_ready_def
  build_vlan_report_def get_request_devices_def vlan_report_of_def assert_has_plan_and_rollback_def plan_obstacle_def
  device_obstacle_def inactionable_def by_time_def request_devices_def

lemma vlan_sample_ready:
  "map_option vr_status (find_vlan_request (vlan_runs vlan_sample_calls pending_db) 10) = Some ''ready''"
  "db_next_id (vlan_runs vlan_sample_calls pending_db) \<le> 2 ^ 128"
  by (simp_all add: vlan_sample_calls_def pending_db_def vlan_samples empty_db_def vlan_serve_def api_vlan_approve_def
      approve_vlan_request_def vlan_action_simps vlan_row_simps)

section \<open>Properties\<close>

text \<open>
  C21: VLAN requests follow the machine, call by call.  In the state after any calls, from whomever and in whatever order,
  a call that is refused changes nothing, and a call that is accepted makes exactly the move of its own label on the
  request it names, and on no other: an approval is accepted only from a pending approval (or changes nothing when the
  request is ready), a rejection only from a pending approval (or the status approved) and it adds no approval, a
  cancellation leaves completed and cancelled requests alone, and no call but a creation and these five moves anything.
\<close>

theorem vlan_requests_follow_machine:
  assumes "vlan_ids s" "db_next_id (vlan_runs cs s) \<le> 2 ^ 128"
  shows "if vlan_accepts now a c (vlan_runs cs s)
    then vlan_answered c (vlan_life (vlan_runs cs s)) (vlan_life (vlan_serve now a c (vlan_runs cs s)))
    else vlan_serve now a c (vlan_runs cs s) = vlan_runs cs s"
  using vlan_serve_moved [OF vlan_runs_ids [OF assms] assms(2), of now a c] by (simp add: moved_def split: if_splits)

lemma pending_ids: "vlan_ids pending_db"
  by (simp add: vlan_ids_def pending_db_def vlan_samples empty_db_def)

lemma vlan_sample_cancelled: "vlan_accepts 0 vlan_admin (VlanCancel (uuid_str 10)) (vlan_runs vlan_sample_calls pending_db)"
  by (simp add: vlan_sample_calls_def pending_db_def vlan_samples empty_db_def vlan_serve_def api_vlan_approve_def
      approve_vlan_request_def vlan_action_simps vlan_row_simps vlan_accepts_def api_vlan_cancel_def cancel_vlan_request_def)

theorem vlan_requests_follow_machine_witness:
  "\<exists>b. vlan_life (vlan_runs vlan_sample_calls pending_db) 10 = Some (''ready'', b) \<and>
     vlan_life (vlan_serve 0 vlan_admin (VlanCancel (uuid_str 10)) (vlan_runs vlan_sample_calls pending_db)) 10
       = Some (''cancelled'', b)"
proof -
  let ?s = "vlan_runs vlan_sample_calls pending_db" and ?c = "VlanCancel (uuid_str 10)"
  have "vlan_answered ?c (vlan_life ?s) (vlan_life (vlan_serve 0 vlan_admin ?c ?s))"
    using vlan_requests_follow_machine [OF pending_ids vlan_sample_ready(2), of 0 vlan_admin ?c] vlan_sample_cancelled by simp
  then obtain l l' where l: "vlan_life ?s 10 = Some l" "vlan_move ?c l l'"
    "vlan_life (vlan_serve 0 vlan_admin ?c ?s) = (vlan_life ?s)(10 \<mapsto> l')"
    using vlan_answered_mover vlan_sample_ids by (metis vlan_mover.simps(5))
  moreover have "fst l = ''ready''" using l(1) vlan_sample_ready(1) by (auto simp: vlan_life_def)
  ultimately show ?thesis by (cases l) simp
qed

text \<open>
  C24: A ready VLAN request was approved.  If every request of a database has one of the seven statuses and an approved
  approval when it is ready, this is so after any calls; in particular no request is ever left in the status
  \<open>approved\<close>, which the service only passes through.
\<close>

theorem vlan_ready_was_approved:
  assumes "vlan_ids s" "db_next_id (vlan_runs cs s) \<le> 2 ^ 128" "\<forall>i l. vlan_life s i = Some l \<longrightarrow> vetted l"
    and q: "find_vlan_request (vlan_runs cs s) i = Some q"
  shows "vr_status q \<in> vlan_statuses \<and>
     (vr_status q = ''ready'' \<longrightarrow> (\<exists>a\<in>set (t_vlan_approval (vlan_runs cs s)). va_request_id a = i \<and> va_status a = ''approved''))"
proof -
  have "vetted (vr_status q, vlan_approved (vlan_runs cs s) i)"
    by (rule vlan_runs_vetted [OF assms(1,2)]) (use assms(3) found_vlan [OF q] in auto)
  then show ?thesis by (auto simp: vetted_def vlan_approved_def)
qed

theorem vlan_ready_was_approved_witness:
  "\<exists>a\<in>set (t_vlan_approval (vlan_runs vlan_sample_calls pending_db)). va_request_id a = 10 \<and> va_status a = ''approved''"
proof -
  have "\<forall>i l. vlan_life pending_db i = Some l \<longrightarrow> vetted l"
    by (auto simp: vlan_life_def vetted_def vlan_statuses_def pending_db_def vlan_samples empty_db_def get_row_def
        split: if_splits)
  moreover obtain q where "find_vlan_request (vlan_runs vlan_sample_calls pending_db) 10 = Some q" "vr_status q = ''ready''"
    using vlan_sample_ready(1) by auto
  ultimately show ?thesis
    using vlan_ready_was_approved [OF pending_ids vlan_sample_ready(2)] by blast
qed

section \<open>What an approval rests on\<close>

lemma obstacle_None:
  "plan_obstacle q rows = None \<longleftrightarrow>
     (\<exists>row\<in>set rows. vd_status row \<notin> set inactionable) \<and>
     (\<forall>row\<in>set rows. vd_status row \<notin> set inactionable \<longrightarrow> or_nil (vd_rollback_commands row) \<noteq> [] \<and>
        (vr_dry_run_required q \<longrightarrow> or_nil (vd_planned_commands row) \<noteq> []) \<and>
        (vr_backup_required q \<longrightarrow> vd_backup_snapshot_id row \<noteq> None) \<and>
        (vr_lab_validation_required q \<longrightarrow> vd_lab_validation_id row \<noteq> None))"
proof -
  have none: "device_obstacle q row = None \<longleftrightarrow> or_nil (vd_rollback_commands row) \<noteq> [] \<and>
        (vr_dry_run_required q \<longrightarrow> or_nil (vd_planned_commands row) \<noteq> []) \<and>
        (vr_backup_required q \<longrightarrow> vd_backup_snapshot_id row \<noteq> None) \<and>
        (vr_lab_validation_required q \<longrightarrow> vd_lab_validation_id row \<noteq> None)" for row
    by (simp add: device_obstacle_def)
  have first: "(case List.map_filter f xs of [] \<Rightarrow> None | e # _ \<Rightarrow> Some e) = None \<longleftrightarrow> (\<forall>x\<in>set xs. f x = None)"
    for f :: "vlan_device \<Rightarrow> string option" and xs
    by (induction xs) (auto simp: List.map_filter_simps split: option.splits)
  show ?thesis
    by (auto simp: plan_obstacle_def Let_def first none filter_empty_conv split: if_splits)
qed

lemma requests_kept:
  "keeps t_vlan_request (latest_or_new_vlan_approval now r)" "keeps t_vlan_request (add_vlan_event now r ty msg a dev md)"
  "keeps t_vlan_device (latest_or_new_vlan_approval now r)" "keeps t_vlan_device (add_vlan_event now r ty msg a dev md)"
  by (auto simp: keeps_def latest_or_new_vlan_approval_def create_vlan_approval_def add_vlan_event_def Let_def andThen_def
      query_def asks_def ret_def fresh_id_def change_def split: sum.splits option.splits)

lemma keepsD: "keeps f m \<Longrightarrow> m s = (x, s') \<Longrightarrow> f s' = f s"
  by (metis keeps_def snd_conv)

lemma request_devices_same: "t_vlan_device s' = t_vlan_device s \<Longrightarrow> request_devices s' i = request_devices s i"
  by (simp add: request_devices_def)

lemma with_vlan_status_flags [simp]:
  "vr_dry_run_required (with_vlan_status now st a e q) = vr_dry_run_required q"
  "vr_backup_required (with_vlan_status now st a e q) = vr_backup_required q"
  "vr_lab_validation_required (with_vlan_status now st a e q) = vr_lab_validation_required q"
  by (simp_all add: with_vlan_status_def Let_def)

lemma mark_ready_checked:
  assumes "mark_vlan_ready now r a s = (Inr x, s')"
  shows "\<exists>q. get_vlan_request_row r s = (Inr q, s) \<and> plan_obstacle q (request_devices s (vr_id q)) = None \<and>
     (\<forall>row\<in>set (request_devices s (vr_id q)). or_nil (vd_validation_errors row) = []) \<and>
     find_vlan_request s' (vr_id q) = Some (with_vlan_status now ''ready'' a None q) \<and> t_vlan_device s' = t_vlan_device s"
proof -
  from assms obtain q report q' t y where q: "get_vlan_request_row r s = (Inr q, s)"
    and report: "build_vlan_report r s = (Inr report, s)" "vp_errors report = []"
    and plan: "assert_has_plan_and_rollback q s = (Inr (), s)"
    and up: "update_vlan_status now (RefId (vr_id q)) ''ready'' a None s = (Inr q', t)"
    and event: "add_vlan_event now (RefId (vr_id q)) ''ready''
       ''VLAN change request is ready for future controlled execution'' a None None t = (Inr y, s')"
    by (auto simp: mark_vlan_ready_def andThen_Inr build_vlan_report_def get_request_devices_def
        assert_has_plan_and_rollback_def get_vlan_Inr split: option.splits)
  from get_vlan_found [OF q] have found: "find_vlan_request s (vr_id q) = Some q" by simp
  from report q have "\<forall>row\<in>set (request_devices s (vr_id q)). or_nil (vd_validation_errors row) = []"
    by (auto simp: build_vlan_report_def andThen_Inr get_request_devices_def vlan_report_of_def)
  moreover from plan have "plan_obstacle q (request_devices s (vr_id q)) = None"
    by (auto simp: assert_has_plan_and_rollback_def andThen_Inr get_request_devices_def split: option.splits)
  moreover from update_vlan_status_Inr [OF up] found
  have t: "t = upd_vlan_request (vr_id q) (with_vlan_status now ''ready'' a None) s" by auto
  then have "find_vlan_request t (vr_id q) = Some (with_vlan_status now ''ready'' a None q)"
    using upd_request_life(4) [of "with_vlan_status now ''ready'' a None", OF with_vlan_status_fields(1) found] by simp
  moreover have "t_vlan_device t = t_vlan_device s" by (simp add: t upd_vlan_request_def)
  ultimately show ?thesis
    using q keepsD [OF requests_kept(2) event] keepsD [OF requests_kept(4) event] by auto
qed

text \<open>
  C22: What an approval rests on.  When a pending VLAN request is approved, it is ready afterwards, none of its devices has
  a validation error, at least one can be acted on, and each of those has its rollback and, as far as the request asks for
  them, its planned commands, its backup snapshot and its lab validation.
\<close>

theorem vlan_approval_rests_on:
  assumes "approve_vlan_request now r c a s = (Inr x, s')"
    and q: "get_vlan_request_row r s = (Inr q, s)" "vr_status q = ''pending_approval''" "vr_id q < 2 ^ 128"
  shows "(\<exists>q'. find_vlan_request s' (vr_id q) = Some q' \<and> vr_status q' = ''ready'') \<and>
     (\<forall>row\<in>set (request_devices s' (vr_id q)). or_nil (vd_validation_errors row) = []) \<and>
     (\<exists>row\<in>set (request_devices s' (vr_id q)). vd_status row \<notin> set inactionable) \<and>
     (\<forall>row\<in>set (request_devices s' (vr_id q)). vd_status row \<notin> set inactionable \<longrightarrow>
        or_nil (vd_rollback_commands row) \<noteq> [] \<and>
        (vr_dry_run_required q \<longrightarrow> or_nil (vd_planned_commands row) \<noteq> []) \<and>
        (vr_backup_required q \<longrightarrow> vd_backup_snapshot_id row \<noteq> None) \<and>
        (vr_lab_validation_required q \<longrightarrow> vd_lab_validation_id row \<noteq> None))"
proof -
  from assms obtain y t z u where row: "approve_vlan_row now (RefId (vr_id q)) a c s = (Inr y, t)"
    and event: "add_vlan_event now (RefId (vr_id q)) ''approved'' ''VLAN change request approved'' (Some a) None None t = (Inr z, u)"
    and ready: "mark_vlan_ready now (RefText (uuid_str (vr_id q))) (Some a) u = (Inr x, s')"
    by (auto simp: approve_vlan_request_def andThen_Inr)
  from get_vlan_found [OF q(1)] have found: "find_vlan_request s (vr_id q) = Some q" by simp
  from row obtain ap v q' f where lat: "latest_or_new_vlan_approval now (RefId (vr_id q)) s = (Inr ap, v)"
    and up: "update_vlan_status now (RefId (vr_id q)) ''approved'' (Some a) None (upd_vlan_approval (va_id ap) f v) = (Inr q', t)"
    by (auto simp: approve_vlan_row_def Let_def andThen_Inr)
  let ?w = "upd_vlan_approval (va_id ap) f v"
  have w: "find_vlan_request ?w (vr_id q) = Some q"
    using found keepsD [OF requests_kept(1) lat] by (simp add: upd_vlan_approval_def)
  from update_vlan_status_Inr [OF up]
  have t: "t = upd_vlan_request (vr_id q) (with_vlan_status now ''approved'' (Some a) None) ?w" by auto
  have "find_vlan_request u (vr_id q) = Some (with_vlan_status now ''approved'' (Some a) None q)"
    using keepsD [OF requests_kept(2) event]
      upd_request_life(4) [of "with_vlan_status now ''approved'' (Some a) None", OF with_vlan_status_fields(1) w]
    by (simp add: t)
  moreover from mark_ready_checked [OF ready] obtain q2 where
    q2: "get_vlan_request_row (RefText (uuid_str (vr_id q))) u = (Inr q2, u)"
    and checked: "plan_obstacle q2 (request_devices u (vr_id q2)) = None"
      "\<forall>row\<in>set (request_devices u (vr_id q2)). or_nil (vd_validation_errors row) = []"
      "find_vlan_request s' (vr_id q2) = Some (with_vlan_status now ''ready'' (Some a) None q2)"
      "t_vlan_device s' = t_vlan_device u" by blast
  ultimately have "q2 = with_vlan_status now ''approved'' (Some a) None q"
    using coerce_ref_text [OF q(3)] by (auto simp: get_vlan_Inr simp del: coerce_ref.simps)
  with checked show ?thesis
    by (simp add: obstacle_None request_devices_same [OF checked(4)])
qed

theorem vlan_approval_rests_on_witness:
  "list_all (\<lambda>row. or_nil (vd_validation_errors row) = [])
     (request_devices (snd (approve_vlan_request 0 (RefText (uuid_str 10)) None ''root'' pending_db)) 10)"
proof -
  define out where "out = approve_vlan_request 0 (RefText (uuid_str 10)) None ''root'' pending_db"
  have "\<exists>x. fst out = Inr x"
    by (simp add: out_def pending_db_def vlan_samples empty_db_def approve_vlan_request_def vlan_action_simps vlan_row_simps)
  then obtain x where x: "approve_vlan_request 0 (RefText (uuid_str 10)) None ''root'' pending_db = (Inr x, snd out)"
    by (cases out) (auto simp: out_def)
  define q where "q = vlan_ask\<lparr>vr_status := ''pending_approval''\<rparr>"
  have "get_vlan_request_row (RefText (uuid_str 10)) pending_db = (Inr q, pending_db)" "vr_id q = 10"
    by (simp_all add: q_def pending_db_def vlan_samples vlan_row_simps vlan_action_simps)
  from vlan_approval_rests_on [OF x this(1)] this(2) show ?thesis by (simp add: q_def out_def list_all_iff)
qed

end
