(* ===== verification/Difflib.thy ===== *)
theory Difflib
  imports PyValues
begin

text \<open>
  What app/services/config_diff_service.py uses of the standard library's difflib: \<open>SequenceMatcher\<close> without a junk
  predicate, with its heuristic for popular elements, and \<open>unified_diff\<close> with three lines of context.
\<close>

section \<open>The longest match\<close>

text \<open>
  The positions of an element in the second sequence; from 200 elements on, one that makes up more than one hundredth of
  it is ignored.
\<close>

definition places :: "'a list \<Rightarrow> 'a \<Rightarrow> nat list" where
  "places b x =
     (let js = filter (\<lambda>j. b ! j = x) [0..<length b]
      in if 200 \<le> length b \<and> length b div 100 + 1 < length js then [] else js)"

type_synonym block = "nat \<times> nat \<times> nat"

text \<open>
  One row of the dynamic program: \<open>lens j\<close> is the length of the match that ends before \<open>i\<close> in the first and at \<open>j\<close> in the
  second sequence.
\<close>

fun match_row ::
  "nat \<Rightarrow> nat \<Rightarrow> nat \<Rightarrow> (nat \<Rightarrow> nat) \<Rightarrow> nat list \<Rightarrow> (nat \<Rightarrow> nat) \<Rightarrow> block \<Rightarrow> (nat \<Rightarrow> nat) \<times> block" where
  "match_row i blo bhi lens [] new best = (new, best)"
| "match_row i blo bhi lens (j # js) new best =
     (if j < blo then match_row i blo bhi lens js new best
      else if bhi \<le> j then (new, best)
      else let k = (if j = 0 then 0 else lens (j - 1)) + 1
           in match_row i blo bhi lens js (new(j := k))
                (if snd (snd best) < k then (i + 1 - k, j + 1 - k, k) else best))"

fun match_rows :: "'a list \<Rightarrow> 'a list \<Rightarrow> nat \<Rightarrow> nat \<Rightarrow> nat list \<Rightarrow> (nat \<Rightarrow> nat) \<times> block \<Rightarrow> (nat \<Rightarrow> nat) \<times> block" where
  "match_rows a b blo bhi [] st = st"
| "match_rows a b blo bhi (i # is) st =
     match_rows a b blo bhi is (match_row i blo bhi (fst st) (places b (a ! i)) (\<lambda>_. 0) (snd st))"

fun extend_left :: "'a list \<Rightarrow> 'a list \<Rightarrow> nat \<Rightarrow> nat \<Rightarrow> nat \<Rightarrow> nat \<Rightarrow> nat \<Rightarrow> block" where
  "extend_left a b alo blo 0 j k = (0, j, k)"
| "extend_left a b alo blo (Suc i) j k =
     (if alo < Suc i \<and> blo < j \<and> a ! i = b ! (j - 1) then extend_left a b alo blo i (j - 1) (k + 1) else (Suc i, j, k))"

function extend_right :: "'a list \<Rightarrow> 'a list \<Rightarrow> nat \<Rightarrow> nat \<Rightarrow> nat \<Rightarrow> nat \<Rightarrow> nat \<Rightarrow> nat" where
  "extend_right a b ahi bhi i j k =
     (if i + k < ahi \<and> j + k < bhi \<and> a ! (i + k) = b ! (j + k) then extend_right a b ahi bhi i j (k + 1) else k)"
  by pat_completeness auto

termination
  by (relation "measure (\<lambda>(a, b, ahi, bhi, i, j, k). ahi - (i + k))") auto

declare extend_right.simps [simp del]

definition find_longest_match :: "'a list \<Rightarrow> 'a list \<Rightarrow> nat \<Rightarrow> nat \<Rightarrow> nat \<Rightarrow> nat \<Rightarrow> block" where
  "find_longest_match a b alo ahi blo bhi =
     (case snd (match_rows a b blo bhi [alo..<ahi] (\<lambda>_. 0, (alo, blo, 0))) of (i, j, k) \<Rightarrow>
      case extend_left a b alo blo i j k of (i, j, k) \<Rightarrow> (i, j, extend_right a b ahi bhi i j k))"

section \<open>The match is one\<close>

text \<open>A block of equal elements within the bounds.\<close>

definition equal_block :: "'a list \<Rightarrow> 'a list \<Rightarrow> nat \<Rightarrow> nat \<Rightarrow> nat \<Rightarrow> nat \<Rightarrow> block \<Rightarrow> bool" where
  "equal_block a b alo ahi blo bhi x \<longleftrightarrow>
     (case x of (i, j, k) \<Rightarrow> alo \<le> i \<and> blo \<le> j \<and> i + k \<le> ahi \<and> j + k \<le> bhi \<and> (\<forall>m<k. a ! (i + m) = b ! (j + m)))"

text \<open>The table of the dynamic program after the rows before \<open>i\<close>.\<close>

definition ends_at :: "'a list \<Rightarrow> 'a list \<Rightarrow> nat \<Rightarrow> nat \<Rightarrow> nat \<Rightarrow> (nat \<Rightarrow> nat) \<Rightarrow> bool" where
  "ends_at a b alo blo i lens \<longleftrightarrow>
     (\<forall>j. 0 < lens j \<longrightarrow> alo + lens j \<le> i \<and> blo + lens j \<le> Suc j \<and> (\<forall>m<lens j. a ! (i - lens j + m) = b ! (Suc j - lens j + m)))"

lemma places_equal: "j \<in> set (places b x) \<Longrightarrow> j < length b \<and> b ! j = x"
  by (auto simp: places_def Let_def split: if_splits)

lemma match_row_ok:
  assumes "ends_at a b alo blo i lens" "ends_at a b alo blo (Suc i) new" "equal_block a b alo ahi blo bhi best"
    "alo \<le> i" "i < ahi" "\<forall>j\<in>set js. b ! j = a ! i"
  shows "ends_at a b alo blo (Suc i) (fst (match_row i blo bhi lens js new best)) \<and>
         equal_block a b alo ahi blo bhi (snd (match_row i blo bhi lens js new best))"
  using assms
proof (induction js arbitrary: new best)
  case (Cons j js)
  show ?case
  proof (cases "j < blo \<or> bhi \<le> j")
    case True
    then show ?thesis using Cons by auto
  next
    case False
    define l where "l = (if j = 0 then 0 else lens (j - 1))"
    let ?best = "if snd (snd best) < l + 1 then (i + 1 - (l + 1), j + 1 - (l + 1), l + 1) else best"
    have l: "alo + l \<le> i \<and> blo + l \<le> j \<and> (\<forall>m<l. a ! (i - l + m) = b ! (j - l + m))"
      using Cons.prems(1,4) False by (cases j) (auto simp: l_def ends_at_def dest!: spec [of _ "j - 1"])
    have "a ! (i - l + m) = b ! (j - l + m)" if "m < Suc l" for m
      using l that Cons.prems(6) by (cases "m = l") auto
    then have new: "ends_at a b alo blo (Suc i) (new(j := l + 1))" and best: "equal_block a b alo ahi blo bhi ?best"
      using Cons.prems(2,3,5) l False by (auto simp: ends_at_def equal_block_def)
    have step: "match_row i blo bhi lens (j # js) new best = match_row i blo bhi lens js (new(j := l + 1)) ?best"
      using False by (simp add: l_def Let_def)
    show ?thesis unfolding step by (rule Cons.IH [OF Cons.prems(1) new best Cons.prems(4,5)]) (use Cons.prems(6) in simp)
  qed
qed simp

lemma match_rows_ok:
  assumes "ends_at a b alo blo i (fst st)" "equal_block a b alo ahi blo bhi (snd st)" "alo \<le> i"
  shows "equal_block a b alo ahi blo bhi (snd (match_rows a b blo bhi [i..<ahi] st))"
  using assms
proof (induction "ahi - i" arbitrary: i st)
  case (Suc n)
  then have "i < ahi" by simp
  then have rows: "[i..<ahi] = i # [Suc i..<ahi]" by (simp add: upt_conv_Cons)
  have "ends_at a b alo blo (Suc i) (\<lambda>_. 0)" by (simp add: ends_at_def)
  note row = match_row_ok [OF Suc.prems(1) this Suc.prems(2,3) \<open>i < ahi\<close>, of "places b (a ! i)"]
  show ?case
    unfolding rows using Suc row places_equal by (fastforce intro!: Suc.hyps(1))
qed simp

lemma extend_left_ok:
  "equal_block a b alo ahi blo bhi (i, j, k) \<Longrightarrow> equal_block a b alo ahi blo bhi (extend_left a b alo blo i j k)"
proof (induction a b alo blo i j k rule: extend_left.induct)
  case (2 a b alo blo i j k)
  show ?case
  proof (cases "alo < Suc i \<and> blo < j \<and> a ! i = b ! (j - 1)")
    case True
    have "equal_block a b alo ahi blo bhi (i, j - 1, k + 1)"
      unfolding equal_block_def prod.case
    proof (intro conjI allI impI)
      fix m assume "m < k + 1"
      then show "a ! (i + m) = b ! (j - 1 + m)"
        using True 2(2) by (cases m) (auto simp: equal_block_def)
    qed (use True 2(2) in \<open>auto simp: equal_block_def\<close>)
    with 2 True show ?thesis by auto
  qed (use 2 in auto)
qed simp

lemma extend_right_ok:
  "equal_block a b alo ahi blo bhi (i, j, k) \<Longrightarrow> equal_block a b alo ahi blo bhi (i, j, extend_right a b ahi bhi i j k)"
proof (induction a b ahi bhi i j k rule: extend_right.induct)
  case (1 a b ahi bhi i j k)
  show ?case
  proof (cases "i + k < ahi \<and> j + k < bhi \<and> a ! (i + k) = b ! (j + k)")
    case True
    with 1(2) have "equal_block a b alo ahi blo bhi (i, j, k + 1)" by (auto simp: equal_block_def less_Suc_eq)
    with 1(1) True show ?thesis by (subst extend_right.simps) auto
  qed (use 1 in \<open>subst extend_right.simps, auto\<close>)
qed

lemma find_longest_match_ok:
  assumes "alo \<le> ahi" "blo \<le> bhi"
  shows "equal_block a b alo ahi blo bhi (find_longest_match a b alo ahi blo bhi)"
proof -
  obtain i j k where m: "snd (match_rows a b blo bhi [alo..<ahi] (\<lambda>_. 0, (alo, blo, 0))) = (i, j, k)" by (metis prod_cases3)
  have "equal_block a b alo ahi blo bhi (i, j, k)"
    using match_rows_ok [of a b alo blo alo "(\<lambda>_. 0, (alo, blo, 0))" ahi bhi] assms by (simp add: ends_at_def equal_block_def m)
  from extend_left_ok [OF this] show ?thesis
    by (auto simp: find_longest_match_def m extend_right_ok split: prod.splits)
qed

lemma longest_bounds:
  assumes "(i, j, k) = find_longest_match a b alo ahi blo bhi" "alo \<le> ahi" "blo \<le> bhi"
  shows "alo \<le> i \<and> i + k \<le> ahi"
  using find_longest_match_ok [OF assms(2,3), of a b] by (simp add: assms(1) [symmetric] equal_block_def)

section \<open>Matching blocks\<close>

text \<open>
  \<open>get_matching_blocks\<close>: the longest match, and the same left and right of it.  difflib keeps the ranges in a queue and sorts
  the blocks at the end; the blocks of a range come out in order here.
\<close>

function range_blocks :: "'a list \<Rightarrow> 'a list \<Rightarrow> nat \<Rightarrow> nat \<Rightarrow> nat \<Rightarrow> nat \<Rightarrow> block list" where
  "range_blocks a b alo ahi blo bhi =
     (if \<not> (alo \<le> ahi \<and> blo \<le> bhi) then []
      else case find_longest_match a b alo ahi blo bhi of (i, j, k) \<Rightarrow>
        if k = 0 then []
        else (if alo < i \<and> blo < j then range_blocks a b alo i blo j else []) @ [(i, j, k)] @
             (if i + k < ahi \<and> j + k < bhi then range_blocks a b (i + k) ahi (j + k) bhi else []))"
  by pat_completeness auto

termination
  by (relation "measure (\<lambda>(a, b, alo, ahi, blo, bhi). ahi - alo)") (auto dest!: longest_bounds)

declare range_blocks.simps [simp del]

text \<open>Adjacent blocks are one; the last block is empty and marks the ends.\<close>

fun join_blocks :: "block \<Rightarrow> block list \<Rightarrow> block list" where
  "join_blocks (i, j, k) [] = (if 0 < k then [(i, j, k)] else [])"
| "join_blocks (i, j, k) ((i', j', k') # bs) =
     (if i + k = i' \<and> j + k = j' then join_blocks (i, j, k + k') bs
      else (if 0 < k then [(i, j, k)] else []) @ join_blocks (i', j', k') bs)"

definition matching_blocks :: "'a list \<Rightarrow> 'a list \<Rightarrow> block list" where
  "matching_blocks a b =
     join_blocks (0, 0, 0) (range_blocks a b 0 (length a) 0 (length b)) @ [(length a, length b, 0)]"

text \<open>Blocks in order, from \<open>(i, j)\<close> to \<open>(p, q)\<close>.\<close>

fun in_order :: "'a list \<Rightarrow> 'a list \<Rightarrow> nat \<Rightarrow> nat \<Rightarrow> block list \<Rightarrow> nat \<Rightarrow> nat \<Rightarrow> bool" where
  "in_order a b i j [] p q \<longleftrightarrow> i \<le> p \<and> j \<le> q"
| "in_order a b i j ((i', j', k) # bs) p q \<longleftrightarrow>
     i \<le> i' \<and> j \<le> j' \<and> (\<forall>m<k. a ! (i' + m) = b ! (j' + m)) \<and> in_order a b (i' + k) (j' + k) bs p q"

lemma in_order_append: "in_order a b i j xs p q \<Longrightarrow> in_order a b p q ys u v \<Longrightarrow> in_order a b i j (xs @ ys) u v"
proof (induction a b i j xs p q rule: in_order.induct)
  case (1 a b i j p q)
  then show ?case by (cases ys) auto
qed simp

lemma in_order_weaken: "in_order a b i j bs p q \<Longrightarrow> i' \<le> i \<Longrightarrow> j' \<le> j \<Longrightarrow> in_order a b i' j' bs p q"
  by (cases bs) auto

lemma range_blocks_in_order:
  "alo \<le> ahi \<Longrightarrow> blo \<le> bhi \<Longrightarrow> in_order a b alo blo (range_blocks a b alo ahi blo bhi) ahi bhi"
proof (induction a b alo ahi blo bhi rule: range_blocks.induct)
  case (1 a b alo ahi blo bhi)
  obtain i j k where m: "find_longest_match a b alo ahi blo bhi = (i, j, k)" by (metis prod_cases3)
  with find_longest_match_ok [OF 1(3,4), of a b]
  have block: "alo \<le> i" "blo \<le> j" "i + k \<le> ahi" "j + k \<le> bhi" "\<forall>m<k. a ! (i + m) = b ! (j + m)"
    by (simp_all add: equal_block_def)
  let ?left = "if alo < i \<and> blo < j then range_blocks a b alo i blo j else []"
  let ?right = "if i + k < ahi \<and> j + k < bhi then range_blocks a b (i + k) ahi (j + k) bhi else []"
  show ?case
  proof (cases "k = 0")
    case True
    with 1(3,4) m show ?thesis by (subst range_blocks.simps) simp
  next
    case False
    have "in_order a b alo blo ?left i j" using 1(1) [OF _ m [symmetric]] 1(3,4) False block by auto
    moreover have "in_order a b (i + k) (j + k) ?right ahi bhi" using 1(2) [OF _ m [symmetric]] 1(3,4) False block by auto
    ultimately have "in_order a b alo blo (?left @ [(i, j, k)] @ ?right) ahi bhi"
      using block by (auto intro!: in_order_append)
    with 1(3,4) m False show ?thesis by (subst range_blocks.simps) simp
  qed
qed

lemma join_blocks_in_order:
  "in_order a b i j bs p q \<Longrightarrow> i0 + k0 \<le> i \<Longrightarrow> j0 + k0 \<le> j \<Longrightarrow> \<forall>m<k0. a ! (i0 + m) = b ! (j0 + m) \<Longrightarrow>
   in_order a b i0 j0 (join_blocks (i0, j0, k0) bs) p q"
proof (induction "(i0, j0, k0)" bs arbitrary: i j i0 j0 k0 rule: join_blocks.induct)
  case (2 i0 j0 k0 i' j' k' bs)
  show ?case
  proof (cases "i0 + k0 = i' \<and> j0 + k0 = j'")
    case True
    have eq: "a ! (i0 + m) = b ! (j0 + m)" if "m < k0 + k'" for m
    proof (cases "m < k0")
      case False
      then obtain n where "m = k0 + n" using le_Suc_ex by (metis not_less)
      with that True 2(3) show ?thesis by (auto simp: add.assoc [symmetric])
    qed (use 2(6) in simp)
    have "in_order a b i0 j0 (join_blocks (i0, j0, k0 + k') bs) p q"
      by (rule 2(1) [OF True, of "i' + k'" "j' + k'"]) (use 2(3) True eq in auto)
    with True show ?thesis by simp
  next
    case False
    have "in_order a b i' j' (join_blocks (i', j', k') bs) p q"
      by (rule 2(2) [OF False, of "i' + k'" "j' + k'"]) (use 2(3) in auto)
    then show ?thesis using False 2(3-6) by (auto intro: in_order_weaken)
  qed
qed auto

lemma matching_blocks_in_order: "in_order a b 0 0 (matching_blocks a b) (length a) (length b)"
  unfolding matching_blocks_def
  by (rule in_order_append [where p = "length a" and q = "length b"])
    (simp_all add: join_blocks_in_order [OF range_blocks_in_order])

section \<open>Opcodes\<close>

datatype tag = OpEqual | OpReplace | OpDelete | OpInsert

type_synonym opcode = "tag \<times> nat \<times> nat \<times> nat \<times> nat"

text \<open>\<open>xs[i:j]\<close>\<close>

definition slice :: "nat \<Rightarrow> nat \<Rightarrow> 'a list \<Rightarrow> 'a list" where
  "slice i j xs = take (j - i) (drop i xs)"

fun ops_of :: "nat \<Rightarrow> nat \<Rightarrow> block list \<Rightarrow> opcode list" where
  "ops_of i j [] = []"
| "ops_of i j ((ai, bj, len) # bs) =
     (if i < ai \<and> j < bj then [(OpReplace, i, ai, j, bj)] else if i < ai then [(OpDelete, i, ai, j, bj)]
      else if j < bj then [(OpInsert, i, ai, j, bj)] else []) @
     (if 0 < len then [(OpEqual, ai, ai + len, bj, bj + len)] else []) @ ops_of (ai + len) (bj + len) bs"

definition opcodes :: "'a list \<Rightarrow> 'a list \<Rightarrow> opcode list" where
  "opcodes a b = ops_of 0 0 (matching_blocks a b)"

text \<open>\<open>get_grouped_opcodes(n)\<close>: at most \<open>n\<close> equal elements around the changes.\<close>

fun trim_first :: "nat \<Rightarrow> opcode list \<Rightarrow> opcode list" where
  "trim_first n ((OpEqual, i1, i2, j1, j2) # cs) = (OpEqual, max i1 (i2 - n), i2, max j1 (j2 - n), j2) # cs"
| "trim_first n cs = cs"

fun trim_last :: "nat \<Rightarrow> opcode list \<Rightarrow> opcode list" where
  "trim_last n [] = []"
| "trim_last n [(OpEqual, i1, i2, j1, j2)] = [(OpEqual, i1, min i2 (i1 + n), j1, min j2 (j1 + n))]"
| "trim_last n (c # cs) = c # trim_last n cs"

fun split_groups :: "nat \<Rightarrow> opcode list \<Rightarrow> opcode list \<Rightarrow> opcode list list" where
  "split_groups n grp [] = (if grp \<noteq> [] \<and> \<not> (length grp = 1 \<and> fst (hd grp) = OpEqual) then [grp] else [])"
| "split_groups n grp ((t, i1, i2, j1, j2) # cs) =
     (if t = OpEqual \<and> n + n < i2 - i1
      then (grp @ [(OpEqual, i1, min i2 (i1 + n), j1, min j2 (j1 + n))]) #
           split_groups n [(t, max i1 (i2 - n), i2, max j1 (j2 - n), j2)] cs
      else split_groups n (grp @ [(t, i1, i2, j1, j2)]) cs)"

definition grouped_opcodes :: "nat \<Rightarrow> 'a list \<Rightarrow> 'a list \<Rightarrow> opcode list list" where
  "grouped_opcodes n a b =
     (let codes = opcodes a b
      in split_groups n [] (trim_last n (trim_first n (if codes = [] then [(OpEqual, 0, 1, 0, 1)] else codes))))"

section \<open>The unified diff\<close>

text \<open>One line of a hunk: its first character and the line.\<close>

fun op_lines :: "'a list \<Rightarrow> 'a list \<Rightarrow> opcode \<Rightarrow> (char \<times> 'a) list" where
  "op_lines a b (t, i1, i2, j1, j2) =
     (if t = OpEqual then map (Pair (CHR '' '')) (slice i1 i2 a)
      else (if t \<in> {OpReplace, OpDelete} then map (Pair (CHR ''-'')) (slice i1 i2 a) else []) @
           (if t \<in> {OpReplace, OpInsert} then map (Pair (CHR ''+'')) (slice j1 j2 b) else []))"

definition group_lines :: "'a list \<Rightarrow> 'a list \<Rightarrow> opcode list \<Rightarrow> (char \<times> 'a) list" where
  "group_lines a b ops = concat (map (op_lines a b) ops)"

text \<open>Where a group begins and ends in both sequences.\<close>

definition group_range :: "opcode list \<Rightarrow> nat \<times> nat \<times> nat \<times> nat" where
  "group_range ops = (case (hd ops, last ops) of ((_, i1, _, j1, _), (_, _, i2, _, j2)) \<Rightarrow> (i1, i2, j1, j2))"

definition format_range_unified :: "nat \<Rightarrow> nat \<Rightarrow> string" where
  "format_range_unified start stop =
     (let len = stop - start
      in if len = 1 then int_str (int (start + 1))
         else int_str (int (if len = 0 then start else start + 1)) @ '','' @ int_str (int len))"

definition hunk_text :: "string list \<Rightarrow> string list \<Rightarrow> opcode list \<Rightarrow> string list" where
  "hunk_text a b ops =
     (case group_range ops of (i1, i2, j1, j2) \<Rightarrow>
        (''@@ -'' @ format_range_unified i1 i2 @ '' +'' @ format_range_unified j1 j2 @ '' @@'' @ newline # []) #
        map (\<lambda>(c, l). c # l) (group_lines a b ops))"

definition unified_diff :: "string list \<Rightarrow> string list \<Rightarrow> string \<Rightarrow> string \<Rightarrow> string list" where
  "unified_diff a b fromfile tofile =
     (let groups = grouped_opcodes 3 a b
      in if groups = [] then []
         else [''--- '' @ fromfile @ [newline], ''+++ '' @ tofile @ [newline]] @ concat (map (hunk_text a b) groups))"

section \<open>Opcodes tile both sequences\<close>

text \<open>Contiguous operations from \<open>(i, j)\<close> to \<open>(p, q)\<close>, the equal ones between equal elements.\<close>

fun tiles :: "'a list \<Rightarrow> 'a list \<Rightarrow> nat \<Rightarrow> nat \<Rightarrow> opcode list \<Rightarrow> nat \<Rightarrow> nat \<Rightarrow> bool" where
  "tiles a b i j [] p q \<longleftrightarrow> i = p \<and> j = q"
| "tiles a b i j ((t, i1, i2, j1, j2) # ops) p q \<longleftrightarrow>
     i1 = i \<and> j1 = j \<and> i1 \<le> i2 \<and> j1 \<le> j2 \<and>
     (t = OpEqual \<longrightarrow> i2 - i1 = j2 - j1 \<and> (\<forall>m<i2 - i1. a ! (i1 + m) = b ! (j1 + m))) \<and>
     (t = OpDelete \<longrightarrow> j1 = j2) \<and> (t = OpInsert \<longrightarrow> i1 = i2) \<and> tiles a b i2 j2 ops p q"

lemma tiles_append: "tiles a b i j (xs @ ys) u v \<longleftrightarrow> (\<exists>p q. tiles a b i j xs p q \<and> tiles a b p q ys u v)"
proof (induction a b i j xs u v rule: tiles.induct)
  case (2 a b i j t i1 i2 j1 j2 ops p q)
  then show ?case by auto
qed simp

lemma ops_of_tiles:
  "in_order a b i j (bs @ [(p, q, 0)]) p q \<Longrightarrow> tiles a b i j (ops_of i j (bs @ [(p, q, 0)])) p q"
proof (induction bs arbitrary: i j)
  case (Cons x bs)
  obtain ai bj len where x: "x = (ai, bj, len)" by (metis prod_cases3)
  with Cons.prems have "tiles a b (ai + len) (bj + len) (ops_of (ai + len) (bj + len) (bs @ [(p, q, 0)])) p q"
    by (intro Cons.IH) simp
  with Cons.prems show ?case by (auto simp: x)
qed auto

lemma opcodes_tile: "tiles a b 0 0 (opcodes a b) (length a) (length b)"
  using ops_of_tiles [of a b 0 0 _ "length a" "length b"] matching_blocks_in_order [of a b]
  by (simp add: opcodes_def matching_blocks_def)

lemma tiles_le: "tiles a b i j ops p q \<Longrightarrow> i \<le> p \<and> j \<le> q"
  by (induction a b i j ops p q rule: tiles.induct) auto

section \<open>Patching\<close>

text \<open>
  What a patch program does with the lines of a hunk at a position of the old sequence: context is copied, a removed line
  skipped, an added line taken from the hunk.
\<close>

fun run_lines :: "'a list \<Rightarrow> nat \<Rightarrow> (char \<times> 'a) list \<Rightarrow> 'a list" where
  "run_lines a pos [] = []"
| "run_lines a pos ((c, l) # ls) =
     (if c = CHR '' '' then a ! pos # run_lines a (pos + 1) ls
      else if c = CHR ''-'' then run_lines a (pos + 1) ls
      else l # run_lines a pos ls)"

text \<open>Hunks in order, each at its place; what is between them is copied.\<close>

fun patch :: "'a list \<Rightarrow> nat \<Rightarrow> ((nat \<times> nat) \<times> (char \<times> 'a) list) list \<Rightarrow> 'a list" where
  "patch a pos [] = drop pos a"
| "patch a pos (((start, stop), ls) # hs) = slice pos start a @ run_lines a start ls @ patch a stop hs"

definition hunk_of :: "'a list \<Rightarrow> 'a list \<Rightarrow> opcode list \<Rightarrow> (nat \<times> nat) \<times> (char \<times> 'a) list" where
  "hunk_of a b ops = (case group_range ops of (i1, i2, _, _) \<Rightarrow> ((i1, i2), group_lines a b ops))"

lemma slice_empty [simp]: "slice i i xs = []"
  by (simp add: slice_def)

lemma slice_join: "i \<le> j \<Longrightarrow> j \<le> k \<Longrightarrow> slice i j xs @ slice j k xs = slice i k xs"
  using take_add [of "j - i" "k - j" "drop i xs"] by (simp add: slice_def)

lemma slice_drop: "i \<le> j \<Longrightarrow> slice i j xs @ drop j xs = drop i xs"
  by (metis append_take_drop_id drop_drop le_add_diff_inverse2 slice_def)

lemma slice_eq:
  assumes "\<forall>m<p - i. a ! (i + m) = b ! (j + m)" "p - i = q - j" "i \<le> p" "j \<le> q" "p \<le> length a" "q \<le> length b"
  shows "slice i p a = slice j q b"
  using assms by (intro nth_equalityI) (auto simp: slice_def)

lemma run_context_len:
  "pos + length ls \<le> length a \<Longrightarrow>
   run_lines a pos (map (Pair (CHR '' '')) ls @ rest) = slice pos (pos + length ls) a @ run_lines a (pos + length ls) rest"
proof (induction ls arbitrary: pos)
  case (Cons l ls)
  then have "slice pos (pos + Suc (length ls)) a = a ! pos # slice (pos + 1) (pos + Suc (length ls)) a"
    by (simp add: slice_def Cons_nth_drop_Suc [symmetric])
  with Cons show ?case by simp
qed simp

lemma run_context:
  assumes "i \<le> p" "p \<le> length a" "length ls = p - i"
  shows "run_lines a i (map (Pair (CHR '' '')) ls @ rest) = slice i p a @ run_lines a p rest"
  using run_context_len [of i ls a rest] assms by simp

lemma run_removed: "run_lines a pos (map (Pair (CHR ''-'')) ls @ rest) = run_lines a (pos + length ls) rest"
  by (induction ls arbitrary: pos) auto

lemma run_added: "run_lines a pos (map (Pair (CHR ''+'')) ls @ rest) = ls @ run_lines a pos rest"
  by (induction ls) auto

lemma length_slice [simp]: "i \<le> j \<Longrightarrow> j \<le> length xs \<Longrightarrow> length (slice i j xs) = j - i"
  by (simp add: slice_def)

lemma run_op:
  assumes "tiles a b i j [(t, i1, i2, j1, j2)] p q" "p \<le> length a" "q \<le> length b"
  shows "run_lines a i (op_lines a b (t, i1, i2, j1, j2) @ rest) = slice j q b @ run_lines a p rest"
proof (cases t)
  case OpEqual
  with assms have "slice i p a = slice j q b" by (intro slice_eq) auto
  with OpEqual assms show ?thesis using run_context [of i p a "slice i p a" rest] by auto
qed (use assms run_removed [of a i "slice i p a"] run_added [of a _ "slice j q b"] in auto)

lemma run_tiles:
  "tiles a b i j ops p q \<Longrightarrow> p \<le> length a \<Longrightarrow> q \<le> length b \<Longrightarrow>
   run_lines a i (group_lines a b ops @ rest) = slice j q b @ run_lines a p rest"
proof (induction ops arbitrary: i j)
  case (Cons x ops)
  obtain t i1 i2 j1 j2 where x: "x = (t, i1, i2, j1, j2)" by (metis prod_cases5)
  with Cons.prems have one: "tiles a b i j [x] i2 j2" and more: "tiles a b i2 j2 ops p q" by auto
  with tiles_le [OF more] tiles_le [OF one] Cons.prems have le: "i2 \<le> length a" "j2 \<le> length b" "j \<le> j2" "j2 \<le> q" by auto
  have "run_lines a i (group_lines a b (x # ops) @ rest) = slice j j2 b @ run_lines a i2 (group_lines a b ops @ rest)"
    using run_op [OF one [unfolded x] le(1,2)] by (simp add: group_lines_def x)
  also have "\<dots> = slice j q b @ run_lines a p rest"
    using Cons.IH [OF more Cons.prems(2,3)] slice_join [OF le(3,4), of b] by simp
  finally show ?case .
qed (simp add: group_lines_def)

lemma group_range_tiles: "tiles a b i j ops p q \<Longrightarrow> ops \<noteq> [] \<Longrightarrow> group_range ops = (i, p, j, q)"
proof (induction a b i j ops p q rule: tiles.induct)
  case (2 a b i j t i1 i2 j1 j2 ops p q)
  then show ?case by (cases ops) (auto simp: group_range_def split: prod.splits)
qed simp

lemma patch_group:
  assumes "tiles a b p q grp i j" "grp \<noteq> []" "i \<le> length a" "j \<le> length b"
    and "pos \<le> p" "pos' \<le> q" "slice pos p a = slice pos' q b" "patch a i hs = drop j b"
  shows "patch a pos (hunk_of a b grp # hs) = drop pos' b"
proof -
  have "patch a pos (hunk_of a b grp # hs) = slice pos' q b @ slice q j b @ drop j b"
    using run_tiles [OF assms(1,3,4), of "[]"] by (simp add: hunk_of_def group_range_tiles [OF assms(1,2)] assms(7,8))
  also have "\<dots> = drop pos' b" using tiles_le [OF assms(1)] assms(6) by (simp add: slice_drop)
  finally show ?thesis .
qed

lemma patch_rest:
  assumes "pos \<le> p" "pos' \<le> q" "slice pos p a = slice pos' q b" "drop p a = drop q b"
  shows "patch a pos [] = drop pos' b"
  using assms slice_drop [of pos p a] slice_drop [of pos' q b] by simp

lemma patch_groups:
  assumes "tiles a b p q grp i j" "tiles a b i j codes la lb" "la \<le> length a" "lb \<le> length b" "drop la a = drop lb b"
    and "pos \<le> p" "pos' \<le> q" "slice pos p a = slice pos' q b"
  shows "patch a pos (map (hunk_of a b) (split_groups n grp codes)) = drop pos' b"
  using assms
proof (induction n grp codes arbitrary: p q i j pos pos' rule: split_groups.induct)
  case (1 n grp)
  then have end': "i = la" "j = lb" by simp_all
  show ?case
  proof (cases "grp \<noteq> [] \<and> \<not> (length grp = 1 \<and> fst (hd grp) = OpEqual)")
    case True
    then have "patch a pos [hunk_of a b grp] = drop pos' b"
      using 1 by (intro patch_group [where p = p and q = q and i = la and j = lb]) (auto simp: end')
    with True show ?thesis by simp
  next
    case False
    have "drop p a = drop q b"
    proof (cases grp)
      case (Cons x xs)
      with False obtain i1 i2 j1 j2 where "grp = [(OpEqual, i1, i2, j1, j2)]"
        by (metis (no_types, opaque_lifting) One_nat_def length_0_conv length_Cons list.distinct(1) list.sel(1) nat.inject prod.collapse)
      with 1(1) have "i - p = j - q" "\<forall>m<i - p. a ! (p + m) = b ! (q + m)" "p \<le> i" "q \<le> j" by auto
      then have "slice p i a = slice q j b" using 1(3,4) by (intro slice_eq) (simp_all add: end')
      then show ?thesis
        using slice_drop [of p i a] slice_drop [of q j b] \<open>p \<le> i\<close> \<open>q \<le> j\<close> 1(5) by (simp add: end')
    qed (use 1 in simp)
    then have "patch a pos [] = drop pos' b" by (rule patch_rest [OF 1(6-8)])
    with False show ?thesis by auto
  qed
next
  case (2 n grp t i1 i2 j1 j2 cs)
  let ?c = "(t, i1, i2, j1, j2)"
  from 2(4) have c: "tiles a b i j [?c] i2 j2" and rest: "tiles a b i2 j2 cs la lb" by auto
  show ?case
  proof (cases "t = OpEqual \<and> n + n < i2 - i1")
    case True
    let ?before = "(OpEqual, i1, min i2 (i1 + n), j1, min j2 (j1 + n))" and ?after = "(t, max i1 (i2 - n), i2, max j1 (j2 - n), j2)"
    from True c have eq: "i1 = i" "j1 = j" "i2 - i = j2 - j" "\<forall>m<i2 - i. a ! (i + m) = b ! (j + m)" "i \<le> i2" "j \<le> j2" by auto
    have bounds: "min i2 (i1 + n) = i + n" "min j2 (j1 + n) = j + n" "max i1 (i2 - n) = i2 - n" "max j1 (j2 - n) = j2 - n"
      using True eq by auto
    have grp: "tiles a b p q (grp @ [?before]) (i + n) (j + n)"
      unfolding tiles_append using 2(3) eq True by (auto simp: bounds)
    have inside: "a ! (i + k) = b ! (j + k)" if "k < i2 - i" for k using eq that by blast
    have hind: "a ! (i2 - n + m) = b ! (j2 - n + m)" if "m < n" for m
    proof -
      have at: "i + (i2 - i - n + m) = i2 - n + m" "j + (i2 - i - n + m) = j2 - n + m" "i2 - i - n + m < i2 - i"
        using that True eq by auto
      show ?thesis using inside [OF at(3)] unfolding at(1,2) .
    qed
    have low: "i \<le> i2 - n" "j \<le> j2 - n" "n \<le> i2" "n \<le> j2" using eq True by auto
    have after: "tiles a b (i2 - n) (j2 - n) [?after] i2 j2" using hind low by (simp add: eq(1,2) max_absorb2 conjunct1 [OF True])
    have le: "i2 \<le> length a" "j2 \<le> length b" using tiles_le [OF rest] 2(5,6) by auto
    have "slice (i + n) (i2 - n) a = slice (j + n) (j2 - n) b"
    proof (rule slice_eq)
      show "\<forall>m<i2 - n - (i + n). a ! (i + n + m) = b ! (j + n + m)" using inside [of "n + _"] by (simp add: add.assoc)
    qed (use True eq le in auto)
    then have "patch a (i + n) (map (hunk_of a b) (split_groups n [?after] cs)) = drop (j + n) b"
      using True eq by (intro 2(1) [OF True after rest 2(5-7)]) auto
    then have "patch a pos (hunk_of a b (grp @ [?before]) # map (hunk_of a b) (split_groups n [?after] cs)) = drop pos' b"
      using le True eq by (intro patch_group [OF grp]) (use 2(8-10) in auto)
    with True show ?thesis by simp
  next
    case False
    have "tiles a b p q (grp @ [?c]) i2 j2" unfolding tiles_append using 2(3) c by blast
    from 2(2) [OF False this rest 2(5-10)] show ?thesis unfolding split_groups.simps if_not_P [OF False] .
  qed
qed

lemma trim_first_tiles:
  assumes "tiles a b i j codes la lb" "la \<le> length a" "lb \<le> length b"
  shows "\<exists>p q. i \<le> p \<and> j \<le> q \<and> slice i p a = slice j q b \<and> tiles a b p q (trim_first n codes) la lb"
proof (cases "\<exists>i1 i2 j1 j2 cs. codes = (OpEqual, i1, i2, j1, j2) # cs")
  case False
  then have "trim_first n codes = codes" by (cases "(n, codes)" rule: trim_first.cases) auto
  with assms show ?thesis by (intro exI [of _ i] exI [of _ j]) simp
next
  case True
  then obtain i2 j2 cs where codes: "codes = (OpEqual, i, i2, j, j2) # cs" using assms(1) by auto
  define p q where "p = max i (i2 - n)" and "q = max j (j2 - n)"
  from assms(1) codes have eq: "i \<le> i2" "j \<le> j2" "i2 - i = j2 - j" "\<forall>m<i2 - i. a ! (i + m) = b ! (j + m)"
    and rest: "tiles a b i2 j2 cs la lb" by auto
  have le: "i2 \<le> length a" "j2 \<le> length b" using tiles_le [OF rest] assms(2,3) by auto
  have d: "p - i = q - j" "i \<le> p" "j \<le> q" "p \<le> i2" "q \<le> j2" "i2 - p = j2 - q" using eq by (auto simp: p_def q_def max_def)
  have "slice i p a = slice j q b" by (rule slice_eq) (use eq d le in auto)
  moreover have "a ! (p + m) = b ! (q + m)" if "m < i2 - p" for m
  proof -
    have "i + (p - i + m) = p + m" "j + (p - i + m) = q + m" "p - i + m < i2 - i" using that d by auto
    with eq(4) show ?thesis by metis
  qed
  ultimately have "tiles a b p q (trim_first n codes) la lb" using d rest by (simp add: codes p_def [symmetric] q_def [symmetric])
  with d \<open>slice i p a = slice j q b\<close> show ?thesis by blast
qed

lemma trim_last_tiles:
  "tiles a b i j codes la lb \<Longrightarrow> la \<le> length a \<Longrightarrow> lb \<le> length b \<Longrightarrow> drop la a = drop lb b \<Longrightarrow>
   \<exists>p q. p \<le> length a \<and> q \<le> length b \<and> drop p a = drop q b \<and> tiles a b i j (trim_last n codes) p q"
proof (induction n codes arbitrary: i j rule: trim_last.induct)
  case (1 n)
  then show ?case by auto
next
  case (2 n i1 i2 j1 j2)
  let ?p = "min i2 (i1 + n)" and ?q = "min j2 (j1 + n)"
  from 2 have eq: "i1 \<le> la" "j1 \<le> lb" "la - i1 = lb - j1" "\<forall>m<la - i1. a ! (i1 + m) = b ! (j1 + m)"
    and ends: "i2 = la" "j2 = lb" "i1 = i" "j1 = j" by auto
  have d: "?p - i1 = ?q - j1" using eq ends by (auto simp: min_def)
  have rest: "la - ?p = lb - ?q" using eq ends by (auto simp: min_def)
  have same: "a ! (?p + m) = b ! (?q + m)" if "m < la - ?p" for m
  proof -
    have "i1 + (?p - i1 + m) = ?p + m" "j1 + (?p - i1 + m) = ?q + m" "?p - i1 + m < la - i1" using that d eq ends by auto
    with eq(4) show ?thesis by metis
  qed
  have "slice ?p la a = slice ?q lb b" by (rule slice_eq) (use same eq ends rest 2 in auto)
  then have "drop ?p a = drop ?q b"
    using slice_drop [of ?p la a] slice_drop [of ?q lb b] 2(4) ends by simp
  moreover have "tiles a b i j (trim_last n [(OpEqual, i1, i2, j1, j2)]) ?p ?q" using eq ends d by (auto simp: min_def)
  ultimately show ?case using 2(2,3) ends by (intro exI [of _ ?p] exI [of _ ?q]) auto
qed (force simp: trim_last.simps)+

text \<open>
  A diff is a patch.  Applied to the old lines, the hunks of the diff, each with at most \<open>n\<close> lines of context, give
  the new lines, whatever the heuristics of the matcher chose.
\<close>

theorem diff_patches: "patch a 0 (map (hunk_of a b) (grouped_opcodes n a b)) = b"
proof (cases "opcodes a b = []")
  case True
  with opcodes_tile [of a b] have "a = []" "b = []" by auto
  with True show ?thesis by (simp add: grouped_opcodes_def)
next
  case False
  from trim_first_tiles [OF opcodes_tile order_refl order_refl, of a b n] obtain p q where
    first: "slice 0 p a = slice 0 q b" "tiles a b p q (trim_first n (opcodes a b)) (length a) (length b)" by blast
  from trim_last_tiles [OF first(2), of n] obtain la lb where
    last: "la \<le> length a" "lb \<le> length b" "drop la a = drop lb b" "tiles a b p q (trim_last n (trim_first n (opcodes a b))) la lb"
    by auto
  have "patch a 0 (map (hunk_of a b) (split_groups n [] (trim_last n (trim_first n (opcodes a b))))) = drop 0 b"
    by (rule patch_groups [OF _ last(4,1,2,3) _ _ first(1)]) auto
  with False show ?thesis by (simp add: grouped_opcodes_def)
qed

end
