(* ===== verification/ConfigDiff.thy ===== *)
theory ConfigDiff
  imports Difflib DeviceInventory Snapshots
begin

text \<open>
  app/services/config_diff_service.py: the diff between two stored configurations, its summary, and the drift report
  over the devices of a scope.  The hash of a diff is a parameter (\<open>sha\<close>, SHA-256 in hexadecimal).
\<close>

section \<open>Normalisation\<close>

definition str_rstrip :: "string \<Rightarrow> string" where
  "str_rstrip s = rev (dropWhile is_space (rev s))"

definition unix_lines :: "string \<Rightarrow> string" where
  "unix_lines s = str_replace [CHR 0x0D] [newline] (str_replace [CHR 0x0D, newline] [newline] s)"

definition normalize_config_for_diff :: "string \<Rightarrow> string" where
  "normalize_config_for_diff config =
     str_strip (str_join [newline] (map str_rstrip (split_on newline (unix_lines config)))) @ [newline]"

definition config_lines :: "string \<Rightarrow> string list" where
  "config_lines config = splitlines_keep (normalize_config_for_diff config)"

section \<open>The diff and its summary\<close>

definition build_unified_diff :: "string \<Rightarrow> string \<Rightarrow> string" where
  "build_unified_diff old new =
     concat (unified_diff (config_lines old) (config_lines new) ''from_snapshot'' ''to_snapshot'')"

record change_counts =
  lines_added :: nat
  lines_removed :: nat
  secret_lines_redacted :: nat
  interfaces_changed :: nat
  vlans_changed :: nat
  acl_lines_changed :: nat
  routing_lines_changed :: nat
  management_lines_changed :: nat

definition no_changes :: change_counts where
  "no_changes = \<lparr>lines_added = 0, lines_removed = 0, secret_lines_redacted = 0, interfaces_changed = 0, vlans_changed = 0,
     acl_lines_changed = 0, routing_lines_changed = 0, management_lines_changed = 0\<rparr>"

definition mentions :: "string list \<Rightarrow> string \<Rightarrow> bool" where
  "mentions words s \<longleftrightarrow> list_ex (\<lambda>w. sublist w s) words"

text \<open>What one changed line adds to the other counts.\<close>

definition count_areas :: "string \<Rightarrow> change_counts \<Rightarrow> change_counts" where
  "count_areas line c =
     (let lowered = casefold line; add = (\<lambda>b n. if b then n + 1 else n)
      in c\<lparr>secret_lines_redacted := add (sublist ''<redacted>'' lowered) (secret_lines_redacted c),
           interfaces_changed := add (mentions [''interface '', ''description'', ''switchport'', ''port link'', ''port trunk'',
             ''port default''] lowered) (interfaces_changed c),
           vlans_changed := add (sublist ''vlan'' lowered) (vlans_changed c),
           acl_lines_changed := add (sublist ''acl'' lowered \<or> sublist ''access-list'' lowered \<or>
             sublist ''traffic-filter'' lowered) (acl_lines_changed c),
           routing_lines_changed := add (mentions ['' ip route'', ''router '', ''ospf'', ''bgp'', ''isis'', ''static-route'']
             lowered) (routing_lines_changed c),
           management_lines_changed := add (mentions [''aaa'', ''snmp'', ''ntp'', ''ssh'', ''local-user'', ''username'',
             ''management'', ''ip address''] lowered) (management_lines_changed c)\<rparr>)"

definition count_line :: "string \<Rightarrow> change_counts \<Rightarrow> change_counts" where
  "count_line line c =
     (if prefix ''+++'' line \<or> prefix ''---'' line \<or> prefix ''@@'' line then c
      else if prefix ''+'' line then count_areas line (c\<lparr>lines_added := lines_added c + 1\<rparr>)
      else if prefix ''-'' line then count_areas line (c\<lparr>lines_removed := lines_removed c + 1\<rparr>)
      else c)"

definition summarize_config_changes :: "string \<Rightarrow> change_counts" where
  "summarize_config_changes diff_text = fold count_line (splitlines diff_text) no_changes"

definition counts_json :: "change_counts \<Rightarrow> jobj" where
  "counts_json c =
     map (\<lambda>(k, n). (k, JInt (int n)))
       [(''lines_added'', lines_added c), (''lines_removed'', lines_removed c),
        (''secret_lines_redacted'', secret_lines_redacted c), (''interfaces_changed'', interfaces_changed c),
        (''vlans_changed'', vlans_changed c), (''acl_lines_changed'', acl_lines_changed c),
        (''routing_lines_changed'', routing_lines_changed c), (''management_lines_changed'', management_lines_changed c)]"

definition create_diff_if_changed ::
  "(string \<Rightarrow> string) \<Rightarrow> int \<Rightarrow> snapshot option \<Rightarrow> snapshot \<Rightarrow> (db, snapshot_diff option) action" where
  "create_diff_if_changed sha now previous current =
     (case previous of
        None \<Rightarrow> ret None
      | Some prev \<Rightarrow>
          if sn_config_hash prev = sn_config_hash current then ret None
          else let diff_text = build_unified_diff (sn_config_text prev) (sn_config_text current)
            in andThen (create_diff now (RefId (sn_device_id current)) (RefId (sn_id prev)) (RefId (sn_id current))
                 diff_text (sha diff_text) (Some (counts_json (summarize_config_changes diff_text)))) (\<lambda>sd. ret (Some sd)))"

section \<open>Drift\<close>

record device_drift =
  drift_device :: string
  latest_snapshot_id :: "string option"
  previous_snapshot_id :: "string option"
  drift_detected :: bool
  drift_diff_id :: "string option"
  drift_summary :: jobj

definition detect_drift :: "string \<Rightarrow> (db, device_drift) action" where
  "detect_drift device =
     andThen (list_snapshots_for_device (RefText device)) (\<lambda>sns.
       case sns of
         [] \<Rightarrow> ret \<lparr>drift_device = device, latest_snapshot_id = None, previous_snapshot_id = None,
                 drift_detected = False, drift_diff_id = None, drift_summary = []\<rparr>
       | [latest] \<Rightarrow> ret \<lparr>drift_device = device, latest_snapshot_id = Some (uuid_str (sn_id latest)),
                 previous_snapshot_id = None, drift_detected = False, drift_diff_id = None, drift_summary = []\<rparr>
       | latest # previous # _ \<Rightarrow>
           let seen = \<lparr>drift_device = device, latest_snapshot_id = Some (uuid_str (sn_id latest)),
                 previous_snapshot_id = Some (uuid_str (sn_id previous)), drift_detected = False,
                 drift_diff_id = None, drift_summary = []\<rparr>
           in if sn_config_hash previous = sn_config_hash latest then ret seen
              else andThen (find_diff_between_snapshots (RefId (sn_id previous)) (RefId (sn_id latest))) (\<lambda>diff.
                ret (case diff of
                    None \<Rightarrow> seen\<lparr>drift_detected := True, drift_summary := counts_json (summarize_config_changes
                      (build_unified_diff (sn_config_text previous) (sn_config_text latest)))\<rparr>
                  | Some sd \<Rightarrow> seen\<lparr>drift_detected := True, drift_diff_id := Some (uuid_str (sd_id sd)),
                      drift_summary := or_nil (sd_change_summary sd)\<rparr>)))"

definition devices_for_scope :: "string \<Rightarrow> jobj \<Rightarrow> (db, device list) action" where
  "devices_for_scope scope_type scope =
     (if scope_type = ''all'' then asks list_devices
      else if scope_type = ''site'' then asks (list_by_site (str_or_empty (jget scope ''site'')))
      else if scope_type = ''tag'' then asks (list_by_tag (str_or_empty (jget scope ''tag'')))
      else if scope_type = ''device_ids'' then listed_devices scope
      else if scope_type = ''query'' then
        asks (\<lambda>d. query_devices [''vendor'', ''model'', ''driver_name'', ''status'', ''role''] scope (list_devices d))
      else ret [])"

record drift_report =
  drift_scope_type :: string
  drift_device_count :: nat
  drifted_devices :: nat
  drift_devices :: "device_drift list"

definition build_drift_report :: "string \<Rightarrow> jobj option \<Rightarrow> (db, drift_report) action" where
  "build_drift_report scope_type scope_filter =
     andThen (devices_for_scope scope_type (or_nil scope_filter)) (\<lambda>devs.
     andThen (for_each (\<lambda>dev. detect_drift (uuid_str (dev_id dev))) devs) (\<lambda>rs.
     ret \<lparr>drift_scope_type = scope_type, drift_device_count = length rs,
          drifted_devices = length (filter drift_detected rs), drift_devices = rs\<rparr>))"

section \<open>Lines\<close>

text \<open>A line with its end, which is not a return.\<close>

definition terminated :: "string \<Rightarrow> bool" where
  "terminated l \<longleftrightarrow> l \<noteq> [] \<and> is_line_end (last l) \<and> last l \<noteq> CHR 0x0D \<and> (\<forall>c\<in>set (butlast l). \<not> is_line_end c)"

lemma terminated_snoc: "terminated (w @ [e]) \<longleftrightarrow> is_line_end e \<and> e \<noteq> CHR 0x0D \<and> (\<forall>c\<in>set w. \<not> is_line_end c)"
  by (simp add: terminated_def)

lemma terminated_Cons: "\<not> is_line_end c \<Longrightarrow> terminated l \<Longrightarrow> terminated (c # l)"
  by (auto simp: terminated_def)

lemma lines_acc_line:
  "\<forall>c\<in>set w. \<not> is_line_end c \<Longrightarrow> is_line_end e \<Longrightarrow> e \<noteq> CHR 0x0D \<Longrightarrow>
   lines_acc acc (w @ e # rest) = (rev acc @ w, [e]) # lines_acc [] rest"
proof (induction w arbitrary: acc)
  case Nil
  then show ?case by (cases rest) auto
next
  case (Cons c w)
  then show ?case by (cases w) auto
qed

lemma lines_acc_concat:
  "\<forall>l\<in>set ls. terminated l \<Longrightarrow> lines_acc [] (concat ls) = map (\<lambda>l. (butlast l, [last l])) ls"
proof (induction ls)
  case (Cons l ls)
  then have line: "concat (l # ls) = butlast l @ last l # concat ls" and l: "terminated l" by (simp_all add: terminated_def)
  show ?case unfolding line using l Cons lines_acc_line [of "butlast l" "last l" "[]" "concat ls"] by (simp add: terminated_def)
qed simp

lemma keep_concat: "\<forall>l\<in>set ls. terminated l \<Longrightarrow> splitlines_keep (concat ls) = ls"
  by (simp add: splitlines_keep_def lines_acc_concat comp_def) (rule map_idI, auto simp: terminated_def)

lemma splitlines_concat: "\<forall>l\<in>set ls. terminated l \<Longrightarrow> splitlines (concat ls) = map butlast ls"
  by (simp add: splitlines_def lines_acc_concat comp_def)

lemma concat_lines_acc: "concat (map (\<lambda>(l, e). l @ e) (lines_acc acc s)) = rev acc @ s"
  by (induction acc s rule: lines_acc.induct) auto

lemma concat_keep [simp]: "concat (splitlines_keep s) = s"
  using concat_lines_acc [of "[]" s] by (simp add: splitlines_keep_def)

lemma lines_acc_terminated:
  "CHR 0x0D \<notin> set s \<Longrightarrow> \<forall>c\<in>set acc. \<not> is_line_end c \<Longrightarrow> s \<noteq> [] \<Longrightarrow> is_line_end (last s) \<Longrightarrow>
   \<forall>(l, e)\<in>set (lines_acc acc s). terminated (l @ e)"
proof (induction acc s rule: lines_acc.induct)
  case (2 w c)
  then show ?case by (auto simp: terminated_snoc)
next
  case (3 w c d cs)
  then show ?case by (auto simp: terminated_snoc)
qed simp

lemma keep_terminated:
  "CHR 0x0D \<notin> set s \<Longrightarrow> s \<noteq> [] \<Longrightarrow> is_line_end (last s) \<Longrightarrow> \<forall>l\<in>set (splitlines_keep s). terminated l"
  using lines_acc_terminated [of s "[]"] by (auto simp: splitlines_keep_def)

lemma replace_char: "replace_ne [c] [d] s = map (\<lambda>x. if x = c then d else x) s"
  by (induction s) auto

lemma set_split_on: "w \<in> set (split_on c s) \<Longrightarrow> set w \<subseteq> set s"
proof (induction s arbitrary: w)
  case (Cons x s)
  show ?case
  proof (cases "split_on c s")
    case (Cons f fs)
    with Cons.prems Cons.IH [of f] Cons.IH [of w] show ?thesis by (auto split: if_splits)
  qed simp
qed simp

lemma set_str_join: "set (str_join sep xs) \<subseteq> set sep \<union> (\<Union>x\<in>set xs. set x)"
  by (induction sep xs rule: str_join.induct) auto

lemma set_dropWhile_rev: "x \<in> set (rev (dropWhile p (rev s))) \<Longrightarrow> x \<in> set s"
  by (auto dest: set_dropWhileD)

lemma no_returns: "CHR 0x0D \<notin> set (normalize_config_for_diff config)"
proof
  assume "CHR 0x0D \<in> set (normalize_config_for_diff config)"
  then have "CHR 0x0D \<in> set (str_join [newline] (map str_rstrip (split_on newline (unix_lines config))))"
    by (auto simp: normalize_config_for_diff_def str_strip_def dest!: set_dropWhileD)
  with set_str_join obtain w where "w \<in> set (split_on newline (unix_lines config))" "CHR 0x0D \<in> set (str_rstrip w)"
    by fastforce
  then have "CHR 0x0D \<in> set (unix_lines config)"
    using set_split_on unfolding str_rstrip_def by (blast dest: set_dropWhile_rev)
  then show False by (auto simp: unix_lines_def str_replace_def replace_char split: if_splits)
qed

lemma config_lines_terminated: "\<forall>l\<in>set (config_lines config). terminated l"
  unfolding config_lines_def
  by (rule keep_terminated) (simp_all add: no_returns, simp_all add: normalize_config_for_diff_def is_line_end_def)

lemma concat_config_lines: "concat (config_lines config) = normalize_config_for_diff config"
  by (simp add: config_lines_def)

section \<open>The diff as a patch\<close>

text \<open>
  What a patch program does with the text of a diff: from a hunk's header it takes where the hunk starts in the old lines,
  copies what is before it, and then copies, skips or inserts line by line.
\<close>

definition old_start :: "string \<Rightarrow> nat" where
  "old_start header =
     (let range = takeWhile (\<lambda>c. c \<noteq> CHR '' '') (drop 4 header);
          digits = takeWhile (\<lambda>c. c \<noteq> CHR '','') range;
          n = (case parse_digits 10 0 False digits of None \<Rightarrow> 0 | Some n \<Rightarrow> n)
      in if drop (length digits) range = '',0'' then n else n - 1)"

fun apply_lines :: "string list \<Rightarrow> nat \<Rightarrow> string list \<Rightarrow> string list" where
  "apply_lines a pos [] = drop pos a"
| "apply_lines a pos (l # ls) =
     (if prefix ''@@'' l then slice pos (old_start l) a @ apply_lines a (old_start l) ls
      else if prefix '' '' l then a ! pos # apply_lines a (pos + 1) ls
      else if prefix ''-'' l then apply_lines a (pos + 1) ls
      else tl l # apply_lines a pos ls)"

definition apply_diff :: "string list \<Rightarrow> string \<Rightarrow> string list" where
  "apply_diff a diff = apply_lines a 0 (drop 2 (splitlines_keep diff))"

lemma digits_in_range: "\<forall>c\<in>set (nat_str n). c \<noteq> CHR '' '' \<and> c \<noteq> CHR '','' \<and> \<not> is_line_end c"
proof
  fix c assume "c \<in> set (nat_str n)"
  with nat_str_digits have "is_digit c" by blast
  then show "c \<noteq> CHR '' '' \<and> c \<noteq> CHR '','' \<and> \<not> is_line_end c" by (auto simp: is_digit_def is_line_end_def)
qed

lemma int_str_nat [simp]: "int_str (int n) = nat_str n"
  by (simp add: int_str_def)

lemma int_str_Suc [simp]: "int_str (1 + int n) = nat_str (Suc n)"
  using int_str_nat [of "Suc n"] by simp

lemma takeWhile_hit: "\<forall>x\<in>set xs. p x \<Longrightarrow> \<not> p y \<Longrightarrow> takeWhile p (xs @ y # ys) = xs"
  by (simp add: takeWhile_append)

lemma range_text:
  "\<exists>n r. format_range_unified i k = nat_str n @ r \<and> (r = [] \<or> (\<exists>l. r = '','' @ nat_str l)) \<and>
     i = (if r = '',0'' then n else n - 1)"
proof -
  consider (one) "k - i = 1" | (none) "k - i = 0" | (many) "1 < k - i" by linarith
  then show ?thesis
  proof cases
    case one
    then show ?thesis by (intro exI [of _ "i + 1"] exI [of _ "[]"]) (simp add: format_range_unified_def)
  next
    case none
    have "int_str 0 = ''0''" "nat_str 0 = ''0''" by code_simp+
    moreover from this(2) have "\<exists>l. ''0'' = nat_str l" by metis
    ultimately show ?thesis by (intro exI [of _ i] exI [of _ "'',0''"]) (use none in \<open>auto simp: format_range_unified_def\<close>)
  next
    case many
    have "'','' @ nat_str (k - i) \<noteq> '',0''"
    proof
      assume "'','' @ nat_str (k - i) = '',0''"
      then have "parse_digits 10 0 False (nat_str (k - i)) = parse_digits 10 0 False ''0''" by simp
      with many show False by (simp add: digit_val.simps)
    qed
    moreover have "int_str (int k - int i) = nat_str (k - i)" using many int_str_nat [of "k - i"] by (simp add: of_nat_diff)
    ultimately show ?thesis using many by (intro exI [of _ "i + 1"] exI [of _ "'','' @ nat_str (k - i)"]) (auto simp: format_range_unified_def)
  qed
qed

lemma old_start_header: "old_start (''@@ -'' @ format_range_unified i k @ '' '' @ rest) = i"
proof -
  obtain n r where r: "format_range_unified i k = nat_str n @ r \<and> (r = [] \<or> (\<exists>l. r = '','' @ nat_str l)) \<and>
    i = (if r = '',0'' then n else n - 1)" using range_text [of i k] by (elim exE) (rule that)
  note form = conjunct1 [OF r] and tail = conjunct1 [OF conjunct2 [OF r]] and i = conjunct2 [OF conjunct2 [OF r], symmetric]
  have blank: "takeWhile (\<lambda>c. c \<noteq> CHR '' '') ((nat_str n @ r) @ CHR '' '' # rest) = nat_str n @ r"
  proof (rule takeWhile_hit)
    show "\<forall>c\<in>set (nat_str n @ r). c \<noteq> CHR '' ''"
      using tail digits_in_range [of n] by (elim disjE exE) (use digits_in_range in \<open>simp_all add: ball_Un\<close>)
  qed simp
  have digits: "takeWhile (\<lambda>c. c \<noteq> CHR '','') (nat_str n @ r) = nat_str n"
    using tail digits_in_range [of n] by (elim disjE exE) (simp_all add: takeWhile_hit takeWhile_eq_all_conv)
  have "drop 4 (''@@ -'' @ format_range_unified i k @ '' '' @ rest) = (nat_str n @ r) @ CHR '' '' # rest" by (simp add: form)
  then show ?thesis unfolding old_start_def Let_def by (simp only: blank digits) (use i in \<open>simp split: if_splits\<close>)
qed

section \<open>Groups\<close>

lemma group_tiles:
  assumes "tiles a b p q grp i j" "tiles a b i j codes la lb" "g \<in> set (split_groups n grp codes)"
  shows "g \<noteq> [] \<and> (\<exists>i1 i2 j1 j2. tiles a b i1 j1 g i2 j2 \<and> i2 \<le> la \<and> j2 \<le> lb)"
  using assms
proof (induction n grp codes arbitrary: p q i j rule: split_groups.induct)
  case (1 n grp)
  then show ?case by (auto split: if_splits)
next
  case (2 n grp t i1 i2 j1 j2 cs)
  let ?c = "(t, i1, i2, j1, j2)"
  from 2(4) have c: "tiles a b i j [?c] i2 j2" and rest: "tiles a b i2 j2 cs la lb" by auto
  show ?case
  proof (cases "t = OpEqual \<and> n + n < i2 - i1")
    case True
    let ?before = "(OpEqual, i1, min i2 (i1 + n), j1, min j2 (j1 + n))" and ?after = "(t, max i1 (i2 - n), i2, max j1 (j2 - n), j2)"
    from True c have eq: "i1 = i" "j1 = j" "i2 - i = j2 - j" "\<And>m. m < i2 - i \<Longrightarrow> a ! (i + m) = b ! (j + m)" "i \<le> i2" "j \<le> j2" by auto
    have bounds: "min i2 (i1 + n) = i + n" "min j2 (j1 + n) = j + n" "max i1 (i2 - n) = i2 - n" "max j1 (j2 - n) = j2 - n"
      using True eq by auto
    have grp: "tiles a b p q (grp @ [?before]) (i + n) (j + n)"
      unfolding tiles_append using 2(3) eq True by (auto simp: bounds)
    have hind: "a ! (i2 - n + m) = b ! (j2 - n + m)" if "m < n" for m
    proof -
      have at: "i + (i2 - i - n + m) = i2 - n + m" "j + (i2 - i - n + m) = j2 - n + m" "i2 - i - n + m < i2 - i"
        using that True eq by auto
      show ?thesis using eq(4) [OF at(3)] unfolding at(1,2) .
    qed
    have low: "i \<le> i2 - n" "j \<le> j2 - n" "n \<le> i2" "n \<le> j2" using eq True by auto
    have after: "tiles a b (i2 - n) (j2 - n) [?after] i2 j2" using hind low by (simp add: eq(1,2) max_absorb2 conjunct1 [OF True])
    have le: "i + n \<le> la" "j + n \<le> lb" using tiles_le [OF rest] True eq by auto
    have "g = grp @ [?before] \<or> g \<in> set (split_groups n [?after] cs)" using 2(5) True by simp
    then show ?thesis
    proof
      assume "g \<in> set (split_groups n [?after] cs)"
      then show ?thesis by (rule 2(1) [OF True after rest])
    qed (use grp le in blast)
  next
    case False
    have "tiles a b p q (grp @ [?c]) i2 j2" unfolding tiles_append using 2(3) c by blast
    from 2(2) [OF False this rest] 2(5) show ?thesis using False by auto
  qed
qed

lemma grouped_tiles:
  assumes "g \<in> set (grouped_opcodes n a b)"
  shows "g \<noteq> [] \<and> (\<exists>i1 i2 j1 j2. tiles a b i1 j1 g i2 j2 \<and> i2 \<le> length a \<and> j2 \<le> length b)"
proof (cases "opcodes a b = []")
  case True
  with assms show ?thesis by (cases n) (auto simp: grouped_opcodes_def)
next
  case False
  from trim_first_tiles [OF opcodes_tile order_refl order_refl, of a b n] obtain p q where
    first: "tiles a b p q (trim_first n (opcodes a b)) (length a) (length b)" by blast
  from trim_last_tiles [OF first, of n] obtain la lb where
    last: "la \<le> length a" "lb \<le> length b" "tiles a b p q (trim_last n (trim_first n (opcodes a b))) la lb" by auto
  have "tiles a b p q [] p q" by simp
  from group_tiles [OF this last(3), of g n] assms False last(1,2) show ?thesis
    by (fastforce simp: grouped_opcodes_def)
qed

text \<open>The operations that change something survive the grouping.\<close>

abbreviation changed :: "opcode list \<Rightarrow> opcode list" where
  "changed \<equiv> filter (\<lambda>x. fst x \<noteq> OpEqual)"

lemma changed_trim [simp]: "changed (trim_first n codes) = changed codes" "changed (trim_last n codes) = changed codes"
proof -
  show "changed (trim_first n codes) = changed codes" by (induction n codes rule: trim_first.induct) auto
  show "changed (trim_last n codes) = changed codes" by (induction n codes rule: trim_last.induct) auto
qed

lemma changed_groups: "changed (concat (split_groups n grp codes)) = changed (grp @ codes)"
proof (induction n grp codes rule: split_groups.induct)
  case (1 n grp)
  then show ?case by (cases grp) auto
qed auto

lemma changed_grouped: "changed (concat (grouped_opcodes n a b)) = changed (opcodes a b)"
  by (simp add: grouped_opcodes_def changed_groups Let_def)

section \<open>The text of the hunks\<close>

abbreviation mark_lines :: "(char \<times> string) list \<Rightarrow> string list" where
  "mark_lines \<equiv> map (\<lambda>(c, l). c # l)"

definition old_count :: "(char \<times> 'a) list \<Rightarrow> nat" where
  "old_count ls = length (filter (\<lambda>x. fst x \<noteq> CHR ''+'') ls)"

definition new_count :: "(char \<times> 'a) list \<Rightarrow> nat" where
  "new_count ls = length (filter (\<lambda>x. fst x \<noteq> CHR ''-'') ls)"

lemma counts_append [simp]: "old_count (xs @ ys) = old_count xs + old_count ys" "new_count (xs @ ys) = new_count xs + new_count ys"
  by (simp_all add: old_count_def new_count_def)

lemma op_counts:
  "tiles a b i j [(t, i1, i2, j1, j2)] p q \<Longrightarrow> p \<le> length a \<Longrightarrow> q \<le> length b \<Longrightarrow>
   old_count (op_lines a b (t, i1, i2, j1, j2)) = p - i \<and> new_count (op_lines a b (t, i1, i2, j1, j2)) = q - j"
  by (cases t) (auto simp: old_count_def new_count_def filter_map comp_def)

lemma group_counts:
  "tiles a b i j ops p q \<Longrightarrow> p \<le> length a \<Longrightarrow> q \<le> length b \<Longrightarrow>
   old_count (group_lines a b ops) = p - i \<and> new_count (group_lines a b ops) = q - j"
proof (induction ops arbitrary: i j)
  case Nil
  then show ?case by (simp add: group_lines_def old_count_def new_count_def)
next
  case (Cons x ops)
  obtain t i1 i2 j1 j2 where x: "x = (t, i1, i2, j1, j2)" by (metis prod_cases5)
  with Cons.prems have one: "tiles a b i j [x] i2 j2" and more: "tiles a b i2 j2 ops p q" by auto
  note le = tiles_le [OF one] tiles_le [OF more]
  with op_counts [OF one [unfolded x]] Cons.IH [OF more] Cons.prems(2,3) show ?case by (auto simp: x group_lines_def)
qed

lemma line_marks: "\<forall>(c, l)\<in>set (group_lines a b ops). c \<in> {CHR '' '', CHR ''-'', CHR ''+''}"
  by (auto simp: group_lines_def split: if_splits)

lemma apply_marked:
  "\<forall>(c, l)\<in>set ls. c \<in> {CHR '' '', CHR ''-'', CHR ''+''} \<Longrightarrow>
   apply_lines a pos (mark_lines ls @ rest) = run_lines a pos ls @ apply_lines a (pos + old_count ls) rest"
proof (induction ls arbitrary: pos)
  case (Cons x ls)
  then show ?case by (cases x) (auto simp: old_count_def)
qed (simp add: old_count_def)

lemma apply_hunk:
  assumes "tiles a b i1 j1 g i2 j2" "g \<noteq> []" "i2 \<le> length a" "j2 \<le> length b"
  shows "apply_lines a pos (hunk_text a b g @ rest) = slice pos i1 a @ run_lines a i1 (group_lines a b g) @ apply_lines a i2 rest"
proof -
  define head where "head = ''@@ -'' @ format_range_unified i1 i2 @ '' +'' @ format_range_unified j1 j2 @ '' @@'' @ [newline]"
  have start: "old_start head = i1"
    using old_start_header [of i1 i2 "''+'' @ format_range_unified j1 j2 @ '' @@'' @ [newline]"] by (simp add: head_def)
  have "hunk_text a b g = head # mark_lines (group_lines a b g)"
    by (simp add: hunk_text_def group_range_tiles [OF assms(1,2)] head_def)
  moreover have "prefix ''@@'' head" by (simp add: head_def)
  ultimately show ?thesis
    using apply_marked [OF line_marks, of a i1 a b g rest] group_counts [OF assms(1,3,4)] tiles_le [OF assms(1)]
    by (simp add: start)
qed

lemma apply_hunks:
  "\<forall>g\<in>set gs. g \<noteq> [] \<and> (\<exists>i1 i2 j1 j2. tiles a b i1 j1 g i2 j2 \<and> i2 \<le> length a \<and> j2 \<le> length b) \<Longrightarrow>
   apply_lines a pos (concat (map (hunk_text a b) gs)) = patch a pos (map (hunk_of a b) gs)"
proof (induction gs arbitrary: pos)
  case (Cons g gs)
  then obtain i1 i2 j1 j2 where g: "tiles a b i1 j1 g i2 j2" "g \<noteq> []" "i2 \<le> length a" "j2 \<le> length b" by auto
  show ?case using Cons by (simp add: apply_hunk [OF g] hunk_of_def group_range_tiles [OF g(1,2)])
qed simp

lemma no_line_end_range: "\<forall>c\<in>set (format_range_unified i k). \<not> is_line_end c"
proof -
  obtain n r where "format_range_unified i k = nat_str n @ r \<and> (r = [] \<or> (\<exists>l. r = '','' @ nat_str l)) \<and>
    i = (if r = '',0'' then n else n - 1)" using range_text [of i k] by (elim exE) (rule that)
  moreover have "\<not> is_line_end (CHR '','')" by (simp add: is_line_end_def)
  ultimately show ?thesis using digits_in_range by fastforce
qed

lemma set_slice: "x \<in> set (slice i j xs) \<Longrightarrow> x \<in> set xs"
  by (auto simp: slice_def dest!: in_set_takeD in_set_dropD)

lemma group_lines_from: "(c, l) \<in> set (group_lines a b g) \<Longrightarrow> if c = CHR ''+'' then l \<in> set b else l \<in> set a"
  by (auto simp: group_lines_def dest: set_slice split: if_splits)

lemma hunk_terminated:
  assumes "\<forall>l\<in>set a. terminated l" "\<forall>l\<in>set b. terminated l" "x \<in> set (hunk_text a b g)"
  shows "terminated x"
proof -
  obtain i1 i2 j1 j2 where r: "group_range g = (i1, i2, j1, j2)" by (metis prod_cases4)
  let ?head = "''@@ -'' @ format_range_unified i1 i2 @ '' +'' @ format_range_unified j1 j2 @ '' @@''"
  from assms(3) consider "x = ?head @ [newline]" | c l where "(c, l) \<in> set (group_lines a b g)" "x = c # l"
    by (auto simp: hunk_text_def r)
  then show ?thesis
  proof cases
    case 1
    have "\<forall>c\<in>set ?head. \<not> is_line_end c" using no_line_end_range by (auto simp: is_line_end_def)
    then show ?thesis unfolding 1 terminated_snoc by (simp add: is_line_end_def)
  next
    case 2
    from line_marks [of a b g] 2(1) have "\<not> is_line_end c" by (auto simp: is_line_end_def)
    moreover have "terminated l" using group_lines_from [OF 2(1)] assms(1,2) by (auto split: if_splits)
    ultimately show ?thesis unfolding 2(2) by (rule terminated_Cons)
  qed
qed

definition diff_lines :: "string \<Rightarrow> string \<Rightarrow> string list" where
  "diff_lines old new = unified_diff (config_lines old) (config_lines new) ''from_snapshot'' ''to_snapshot''"

lemma diff_lines_terminated: "\<forall>l\<in>set (diff_lines old new). terminated l"
proof
  fix l assume "l \<in> set (diff_lines old new)"
  then consider "l \<in> {''--- from_snapshot'' @ [newline], ''+++ to_snapshot'' @ [newline]}"
    | g where "l \<in> set (hunk_text (config_lines old) (config_lines new) g)"
    by (auto simp: diff_lines_def unified_diff_def Let_def split: if_splits)
  then show "terminated l"
  proof cases
    case 1
    then show ?thesis by (auto simp: terminated_def is_line_end_def)
  next
    case 2
    then show ?thesis by (rule hunk_terminated [OF config_lines_terminated config_lines_terminated])
  qed
qed

text \<open>
  C26: The stored diff rebuilds the configuration.  Applied to the lines of the old configuration, the text of the diff gives
  exactly the lines of the new one (both normalised), wherever the matcher found them equal.
\<close>

theorem diff_rebuilds_config:
  "apply_diff (config_lines old) (build_unified_diff old new) = config_lines new \<and>
   concat (config_lines new) = normalize_config_for_diff new"
proof -
  let ?a = "config_lines old" and ?b = "config_lines new"
  let ?gs = "grouped_opcodes 3 ?a ?b"
  have "drop 2 (splitlines_keep (build_unified_diff old new)) = concat (map (hunk_text ?a ?b) ?gs)"
    using keep_concat [OF diff_lines_terminated, of old new]
    by (simp add: build_unified_diff_def diff_lines_def [symmetric]) (simp add: diff_lines_def unified_diff_def Let_def)
  moreover have "apply_lines ?a 0 (concat (map (hunk_text ?a ?b) ?gs)) = patch ?a 0 (map (hunk_of ?a ?b) ?gs)"
    by (rule apply_hunks) (use grouped_tiles in blast)
  ultimately show ?thesis by (simp add: apply_diff_def diff_patches concat_config_lines)
qed

section \<open>What the summary counts\<close>

definition plus_lines :: "(char \<times> 'a) list \<Rightarrow> nat" where
  "plus_lines ls = length (filter (\<lambda>x. fst x = CHR ''+'') ls)"

definition minus_lines :: "(char \<times> 'a) list \<Rightarrow> nat" where
  "minus_lines ls = length (filter (\<lambda>x. fst x = CHR ''-'') ls)"

lemma marked_append [simp]: "plus_lines (xs @ ys) = plus_lines xs + plus_lines ys"
  "minus_lines (xs @ ys) = minus_lines xs + minus_lines ys" "plus_lines [] = 0" "minus_lines [] = 0"
  by (simp_all add: plus_lines_def minus_lines_def)

lemma marked_changed:
  "plus_lines (group_lines a b (changed ops)) = plus_lines (group_lines a b ops)"
  "minus_lines (group_lines a b (changed ops)) = minus_lines (group_lines a b ops)"
  by (induction ops) (auto simp: group_lines_def plus_lines_def minus_lines_def filter_map comp_def)

lemma group_lines_concat: "group_lines a b (concat gs) = concat (map (group_lines a b) gs)"
  by (induction gs) (auto simp: group_lines_def)

lemma marked_grouped:
  "plus_lines (concat (map (group_lines a b) (grouped_opcodes n a b))) = plus_lines (group_lines a b (opcodes a b))"
  "minus_lines (concat (map (group_lines a b) (grouped_opcodes n a b))) = minus_lines (group_lines a b (opcodes a b))"
  unfolding group_lines_concat [symmetric]
  using marked_changed [of a b "concat (grouped_opcodes n a b)"] marked_changed [of a b "opcodes a b"]
  by (simp_all add: changed_grouped)

lemma marked_balance:
  "\<forall>(c, l)\<in>set ls. c \<in> {CHR '' '', CHR ''-'', CHR ''+''} \<Longrightarrow> plus_lines ls + old_count ls = minus_lines ls + new_count ls"
  by (induction ls) (auto simp: plus_lines_def minus_lines_def old_count_def new_count_def)

lemma diff_balance:
  "plus_lines (group_lines a b (opcodes a b)) + length a = minus_lines (group_lines a b (opcodes a b)) + length b"
  using marked_balance [OF line_marks, of a b "opcodes a b"] group_counts [OF opcodes_tile, of a b] by simp

definition added_line :: "string \<Rightarrow> bool" where "added_line l \<longleftrightarrow> prefix ''+'' l \<and> \<not> prefix ''+++'' l"
definition removed_line :: "string \<Rightarrow> bool" where "removed_line l \<longleftrightarrow> prefix ''-'' l \<and> \<not> prefix ''---'' l"

lemma count_areas_lines [simp]:
  "lines_added (count_areas l c) = lines_added c" "lines_removed (count_areas l c) = lines_removed c"
  by (simp_all add: count_areas_def Let_def)

lemma count_line_lines:
  "lines_added (count_line l c) = lines_added c + (if added_line l then 1 else 0)"
  "lines_removed (count_line l c) = lines_removed c + (if removed_line l then 1 else 0)"
  by (cases l; auto simp: count_line_def added_line_def removed_line_def)+

lemma fold_count_lines:
  "lines_added (fold count_line ls c) = lines_added c + length (filter added_line ls)"
  "lines_removed (fold count_line ls c) = lines_removed c + length (filter removed_line ls)"
  by (induction ls arbitrary: c) (auto simp: count_line_lines)

lemma added_mark: "added_line (butlast (c # l)) \<longleftrightarrow> c = CHR ''+'' \<and> \<not> prefix ''++'' (butlast l)" if "l \<noteq> []"
  using that by (auto simp: added_line_def)

lemma removed_mark: "removed_line (butlast (c # l)) \<longleftrightarrow> c = CHR ''-'' \<and> \<not> prefix ''--'' (butlast l)" if "l \<noteq> []"
  using that by (auto simp: removed_line_def)

lemma prefix_butlast: "prefix p (butlast l) \<Longrightarrow> prefix p l"
  using prefixeq_butlast prefix_order.order_trans by blast

lemma counted_hunk:
  assumes "\<forall>l\<in>set a. l \<noteq> [] \<and> \<not> prefix ''--'' l" "\<forall>l\<in>set b. l \<noteq> [] \<and> \<not> prefix ''++'' l"
  shows "length (filter added_line (map butlast (hunk_text a b g))) = plus_lines (group_lines a b g)"
    "length (filter removed_line (map butlast (hunk_text a b g))) = minus_lines (group_lines a b g)"
proof -
  have "\<exists>head. hunk_text a b g = head # mark_lines (group_lines a b g) \<and> prefix ''@@'' head"
    by (cases "group_range g") (auto simp: hunk_text_def)
  then obtain head where h: "hunk_text a b g = head # mark_lines (group_lines a b g)" "prefix ''@@'' head" by blast
  then have skip: "\<not> added_line (butlast head)" "\<not> removed_line (butlast head)"
    by (auto simp: added_line_def removed_line_def dest: prefix_butlast) (auto simp: prefix_def dest: prefix_butlast)
  have "added_line (butlast (c # l)) \<longleftrightarrow> c = CHR ''+''" "removed_line (butlast (c # l)) \<longleftrightarrow> c = CHR ''-''"
    if "(c, l) \<in> set (group_lines a b g)" for c l
  proof -
    have l: "l \<noteq> []" using group_lines_from [OF that] assms by (auto split: if_splits)
    show "added_line (butlast (c # l)) \<longleftrightarrow> c = CHR ''+''" "removed_line (butlast (c # l)) \<longleftrightarrow> c = CHR ''-''"
      unfolding added_mark [OF l] removed_mark [OF l]
      using group_lines_from [OF that] assms by (auto dest: prefix_butlast)
  qed
  then have "filter (added_line \<circ> butlast \<circ> (\<lambda>(c, l). c # l)) (group_lines a b g) = filter (\<lambda>x. fst x = CHR ''+'') (group_lines a b g)"
    "filter (removed_line \<circ> butlast \<circ> (\<lambda>(c, l). c # l)) (group_lines a b g) = filter (\<lambda>x. fst x = CHR ''-'') (group_lines a b g)"
    by (auto intro!: filter_cong simp del: butlast.simps)
  with skip show "length (filter added_line (map butlast (hunk_text a b g))) = plus_lines (group_lines a b g)"
    "length (filter removed_line (map butlast (hunk_text a b g))) = minus_lines (group_lines a b g)"
    by (simp_all add: h(1) plus_lines_def minus_lines_def filter_map comp_assoc)
qed

lemma counted_hunks:
  assumes "\<forall>l\<in>set a. l \<noteq> [] \<and> \<not> prefix ''--'' l" "\<forall>l\<in>set b. l \<noteq> [] \<and> \<not> prefix ''++'' l"
  shows "length (filter added_line (map butlast (concat (map (hunk_text a b) gs)))) = plus_lines (concat (map (group_lines a b) gs))"
    "length (filter removed_line (map butlast (concat (map (hunk_text a b) gs)))) = minus_lines (concat (map (group_lines a b) gs))"
  using counted_hunk [OF assms] by (induction gs) simp_all

text \<open>
  The summary balances.  When no line of the new configuration starts with \<open>++\<close> and none of the old one with \<open>--\<close>, the
  added lines of the summary minus the removed ones are exactly the change in the number of lines.  (Lines that start so look
  like the diff's own headers, and the summary skips them.)
\<close>

theorem summary_balances:
  assumes "\<forall>l\<in>set (config_lines new). \<not> prefix ''++'' l" "\<forall>l\<in>set (config_lines old). \<not> prefix ''--'' l"
  shows "lines_added (summarize_config_changes (build_unified_diff old new)) + length (config_lines old) =
         lines_removed (summarize_config_changes (build_unified_diff old new)) + length (config_lines new)"
proof -
  let ?a = "config_lines old" and ?b = "config_lines new"
  let ?gs = "grouped_opcodes 3 ?a ?b"
  have a: "\<forall>l\<in>set ?a. l \<noteq> [] \<and> \<not> prefix ''--'' l" and b: "\<forall>l\<in>set ?b. l \<noteq> [] \<and> \<not> prefix ''++'' l"
    using config_lines_terminated assms by (auto simp: terminated_def)
  have lines: "splitlines (build_unified_diff old new) = map butlast (diff_lines old new)"
    using splitlines_concat [OF diff_lines_terminated, of old new] by (simp add: build_unified_diff_def diff_lines_def)
  have "\<not> added_line (butlast (''--- from_snapshot'' @ [newline]))" "\<not> added_line (butlast (''+++ to_snapshot'' @ [newline]))"
    "\<not> removed_line (butlast (''--- from_snapshot'' @ [newline]))" "\<not> removed_line (butlast (''+++ to_snapshot'' @ [newline]))"
    by (simp_all add: added_line_def removed_line_def)
  then have "length (filter added_line (map butlast (diff_lines old new))) = length (filter added_line (map butlast (concat (map (hunk_text ?a ?b) ?gs))))"
    "length (filter removed_line (map butlast (diff_lines old new))) = length (filter removed_line (map butlast (concat (map (hunk_text ?a ?b) ?gs))))"
    by (simp_all add: diff_lines_def unified_diff_def Let_def)
  then show ?thesis
    using counted_hunks [OF a b, of ?gs] diff_balance [of ?a ?b] marked_grouped [of ?a ?b 3]
    by (simp add: summarize_config_changes_def fold_count_lines lines no_changes_def)
qed

theorem summary_balances_witness:
  "let old = ''vlan 10'' @ [newline] @ ''exit''; new = ''vlan 20'' @ [newline] @ '' name lab'' @ [newline] @ ''exit''
   in lines_added (summarize_config_changes (build_unified_diff old new)) + 2 =
      lines_removed (summarize_config_changes (build_unified_diff old new)) + 3"
proof -
  let ?old = "''vlan 10'' @ [newline] @ ''exit''" and ?new = "''vlan 20'' @ [newline] @ '' name lab'' @ [newline] @ ''exit''"
  have "config_lines ?old = [''vlan 10'' @ [newline], ''exit'' @ [newline]]"
    "config_lines ?new = [''vlan 20'' @ [newline], '' name lab'' @ [newline], ''exit'' @ [newline]]" by code_simp+
  then show ?thesis using summary_balances [of ?new ?old] unfolding Let_def by simp
qed

end
