(* ===== verification/BackupRepository.thy ===== *)
theory BackupRepository
  imports ConfigDiff
begin

text \<open>
  app/repositories/config_backups.py: backup jobs with one item per device, and backup schedules.
\<close>

section \<open>Jobs\<close>

definition upd_backup_job :: "uuid \<Rightarrow> (backup_job \<Rightarrow> backup_job) \<Rightarrow> db \<Rightarrow> db" where
  "upd_backup_job i f d = d\<lparr>t_backup_job := upd_row bj_id i f (t_backup_job d)\<rparr>"

definition upd_backup_item :: "uuid \<Rightarrow> (backup_item \<Rightarrow> backup_item) \<Rightarrow> db \<Rightarrow> db" where
  "upd_backup_item i f d = d\<lparr>t_backup_item := upd_row bi_id i f (t_backup_item d)\<rparr>"

definition create_job ::
  "int \<Rightarrow> string \<Rightarrow> string \<Rightarrow> jobj option \<Rightarrow> string option \<Rightarrow> string option \<Rightarrow> (db, backup_job) action" where
  "create_job now name scope_type scope_filter description requested_by =
     andThen fresh_id (\<lambda>i.
       let j = \<lparr>bj_id = i, bj_name = name, bj_description = description, bj_scope_type = scope_type,
             bj_scope_filter = scope_filter, bj_status = ''pending'', bj_requested_by = requested_by, bj_started_at = None,
             bj_finished_at = None, bj_total_devices = 0, bj_successful_devices = 0, bj_failed_devices = 0,
             bj_skipped_devices = 0, bj_error_summary = None, bj_created_at = Aware now, bj_updated_at = Aware now\<rparr>
       in andThen (change (\<lambda>d. d\<lparr>t_backup_job := t_backup_job d @ [j]\<rparr>)) (\<lambda>_. ret j))"

definition get_job :: "ref \<Rightarrow> (db, backup_job) action" where
  "get_job = get_by_ref find_backup_job ''Config backup job''"

definition list_jobs :: "string option \<Rightarrow> db \<Rightarrow> backup_job list" where
  "list_jobs status d =
     rev (by_time bj_created_at (case status of
        None \<Rightarrow> t_backup_job d
      | Some s \<Rightarrow> filter (\<lambda>j. bj_status j = s) (t_backup_job d)))"

definition create_job_item :: "int \<Rightarrow> uuid \<Rightarrow> ref \<Rightarrow> (db, backup_item) action" where
  "create_job_item now job device =
     andThen (query (\<lambda>_. coerce_ref ''Device'' device)) (\<lambda>dev.
     andThen fresh_id (\<lambda>i.
       let item = \<lparr>bi_id = i, bi_job_id = job, bi_device_id = dev, bi_status = ''pending'', bi_snapshot_id = None,
             bi_error_message = None, bi_started_at = None, bi_finished_at = None, bi_created_at = Aware now\<rparr>
       in andThen (change (\<lambda>d. d\<lparr>t_backup_item := t_backup_item d @ [item]\<rparr>)) (\<lambda>_. ret item)))"

definition create_job_items :: "int \<Rightarrow> ref \<Rightarrow> ref list \<Rightarrow> (db, backup_item list) action" where
  "create_job_items now job devices =
     andThen (query (\<lambda>_. coerce_ref ''Config backup job'' job)) (\<lambda>i.
     andThen (for_each (create_job_item now i) devices) (\<lambda>items.
     andThen (get_job (RefId i)) (\<lambda>j.
     andThen (change (upd_backup_job (bj_id j) (\<lambda>r. r\<lparr>bj_total_devices := int (length items), bj_updated_at := Aware now\<rparr>)))
       (\<lambda>_. ret items))))"

definition get_job_item :: "ref \<Rightarrow> (db, backup_item) action" where
  "get_job_item = get_by_ref find_backup_item ''Config backup job item''"

definition items_of_job :: "uuid \<Rightarrow> db \<Rightarrow> backup_item list" where
  "items_of_job i d = by_time bi_created_at (filter (\<lambda>x. bi_job_id x = i) (t_backup_item d))"

definition list_job_items :: "ref \<Rightarrow> (db, backup_item list) action" where
  "list_job_items r = andThen (query (\<lambda>_. coerce_ref ''Config backup job'' r)) (\<lambda>i. asks (items_of_job i))"

definition with_job_status :: "int \<Rightarrow> string \<Rightarrow> string option \<Rightarrow> backup_job \<Rightarrow> backup_job" where
  "with_job_status now status error_summary j =
     j\<lparr>bj_status := status, bj_updated_at := Aware now,
       bj_started_at := (if status = ''running'' \<and> bj_started_at j = None then Some (Aware now) else bj_started_at j),
       bj_finished_at := (if status \<in> {''completed'', ''completed_with_errors'', ''failed'', ''cancelled''}
         then Some (Aware now) else bj_finished_at j),
       bj_error_summary := (case error_summary of None \<Rightarrow> bj_error_summary j | Some e \<Rightarrow> Some e)\<rparr>"

definition update_job_status :: "int \<Rightarrow> ref \<Rightarrow> string \<Rightarrow> string option \<Rightarrow> (db, backup_job) action" where
  "update_job_status now r status error_summary =
     andThen (get_job r) (\<lambda>j.
     andThen (change (upd_backup_job (bj_id j) (with_job_status now status error_summary))) (\<lambda>_.
     ret (with_job_status now status error_summary j)))"

definition counted :: "backup_item list \<Rightarrow> string set \<Rightarrow> int" where
  "counted items statuses = int (length (filter (\<lambda>x. bi_status x \<in> statuses) items))"

definition with_counters :: "int \<Rightarrow> backup_item list \<Rightarrow> backup_job \<Rightarrow> backup_job" where
  "with_counters now items j =
     j\<lparr>bj_total_devices := int (length items), bj_successful_devices := counted items {''success''},
       bj_failed_devices := counted items {''failed''}, bj_skipped_devices := counted items {''skipped'', ''unsupported''},
       bj_updated_at := Aware now\<rparr>"

definition update_job_counters :: "int \<Rightarrow> ref \<Rightarrow> (db, backup_job) action" where
  "update_job_counters now r =
     andThen (get_job r) (\<lambda>j.
     andThen (list_job_items (RefId (bj_id j))) (\<lambda>items.
     andThen (change (upd_backup_job (bj_id j) (with_counters now items))) (\<lambda>_. ret (with_counters now items j))))"

text \<open>Finding an item and assigning to it.\<close>

definition mark_item :: "ref \<Rightarrow> (backup_item \<Rightarrow> backup_item) \<Rightarrow> (db, backup_item) action" where
  "mark_item r f =
     andThen (get_job_item r) (\<lambda>x.
     andThen (change (upd_backup_item (bi_id x) f)) (\<lambda>_. ret (f x)))"

definition mark_item_running :: "int \<Rightarrow> ref \<Rightarrow> (db, backup_item) action" where
  "mark_item_running now r = mark_item r (\<lambda>x. x\<lparr>bi_status := ''running'', bi_started_at := Some (Aware now)\<rparr>)"

definition mark_item_success :: "int \<Rightarrow> ref \<Rightarrow> ref \<Rightarrow> (db, backup_item) action" where
  "mark_item_success now r snap =
     andThen (mark_item r (\<lambda>x. x\<lparr>bi_status := ''success''\<rparr>)) (\<lambda>x.
     andThen (query (\<lambda>_. coerce_ref ''Config snapshot'' snap)) (\<lambda>i.
     mark_item (RefId (bi_id x)) (\<lambda>x. x\<lparr>bi_snapshot_id := Some i, bi_finished_at := Some (Aware now), bi_error_message := None\<rparr>)))"

definition mark_item_failed :: "int \<Rightarrow> ref \<Rightarrow> string \<Rightarrow> (db, backup_item) action" where
  "mark_item_failed now r msg =
     mark_item r (\<lambda>x. x\<lparr>bi_status := ''failed'', bi_error_message := Some msg, bi_finished_at := Some (Aware now)\<rparr>)"

definition mark_item_skipped :: "int \<Rightarrow> ref \<Rightarrow> string \<Rightarrow> string \<Rightarrow> (db, backup_item) action" where
  "mark_item_skipped now r reason status =
     mark_item r (\<lambda>x. x\<lparr>bi_status := status, bi_error_message := Some reason, bi_finished_at := Some (Aware now)\<rparr>)"

section \<open>Schedules\<close>

definition upd_backup_schedule :: "uuid \<Rightarrow> (backup_schedule \<Rightarrow> backup_schedule) \<Rightarrow> db \<Rightarrow> db" where
  "upd_backup_schedule i f d = d\<lparr>t_backup_schedule := upd_row bc_id i f (t_backup_schedule d)\<rparr>"

definition create_schedule_row ::
  "int \<Rightarrow> string \<Rightarrow> string \<Rightarrow> string \<Rightarrow> string \<Rightarrow> int \<Rightarrow> jobj option \<Rightarrow> string option \<Rightarrow> int option \<Rightarrow> datetime option \<Rightarrow>
   string option \<Rightarrow> (db, backup_schedule) action" where
  "create_schedule_row now name scope_type cron timezone_name retention_days scope_filter description max_snapshots
     next_run created_by =
     andThen fresh_id (\<lambda>i.
       let sc = \<lparr>bc_id = i, bc_name = name, bc_description = description, bc_enabled = True, bc_scope_type = scope_type,
             bc_scope_filter = scope_filter, bc_cron_expression = cron, bc_timezone = timezone_name,
             bc_retention_days = retention_days, bc_max_snapshots_per_device = max_snapshots, bc_last_run_at = None,
             bc_next_run_at = next_run, bc_created_by = created_by, bc_created_at = Aware now, bc_updated_at = Aware now\<rparr>
       in andThen (change (\<lambda>d. d\<lparr>t_backup_schedule := t_backup_schedule d @ [sc]\<rparr>)) (\<lambda>_. ret sc))"

definition get_schedule_row :: "ref \<Rightarrow> (db, backup_schedule) action" where
  "get_schedule_row = get_by_ref find_backup_schedule ''Config backup schedule''"

definition list_schedule_rows :: "bool option \<Rightarrow> db \<Rightarrow> backup_schedule list" where
  "list_schedule_rows enabled d =
     rev (by_time bc_created_at (case enabled of
        None \<Rightarrow> t_backup_schedule d
      | Some b \<Rightarrow> filter (\<lambda>sc. bc_enabled sc = b) (t_backup_schedule d)))"

text \<open>The keyword arguments of \<open>update_schedule\<close>; an absent one and \<open>None\<close> change nothing.\<close>

record schedule_changes =
  sg_name :: "string option"
  sg_description :: "string option"
  sg_scope_type :: "string option"
  sg_scope_filter :: "jobj option"
  sg_cron_expression :: "string option"
  sg_timezone :: "string option"
  sg_retention_days :: "int option"
  sg_max_snapshots_per_device :: "int option"
  sg_next_run_at :: "datetime option"

definition update_schedule_with :: "ref \<Rightarrow> (backup_schedule \<Rightarrow> backup_schedule) \<Rightarrow> (db, backup_schedule) action" where
  "update_schedule_with r f =
     andThen (get_schedule_row r) (\<lambda>sc.
     andThen (change (upd_backup_schedule (bc_id sc) f)) (\<lambda>_. ret (f sc)))"

definition with_changes :: "int \<Rightarrow> schedule_changes \<Rightarrow> backup_schedule \<Rightarrow> backup_schedule" where
  "with_changes now g sc =
     sc\<lparr>bc_name := given (sg_name g) (bc_name sc), bc_description := given_opt (sg_description g) (bc_description sc),
        bc_scope_type := given (sg_scope_type g) (bc_scope_type sc),
        bc_scope_filter := given_opt (sg_scope_filter g) (bc_scope_filter sc),
        bc_cron_expression := given (sg_cron_expression g) (bc_cron_expression sc),
        bc_timezone := given (sg_timezone g) (bc_timezone sc),
        bc_retention_days := given (sg_retention_days g) (bc_retention_days sc),
        bc_max_snapshots_per_device := given_opt (sg_max_snapshots_per_device g) (bc_max_snapshots_per_device sc),
        bc_next_run_at := given_opt (sg_next_run_at g) (bc_next_run_at sc), bc_updated_at := Aware now\<rparr>"

definition update_schedule_row :: "int \<Rightarrow> ref \<Rightarrow> schedule_changes \<Rightarrow> (db, backup_schedule) action" where
  "update_schedule_row now r g = update_schedule_with r (with_changes now g)"

definition disable_schedule_row :: "int \<Rightarrow> ref \<Rightarrow> (db, backup_schedule) action" where
  "disable_schedule_row now r = update_schedule_with r (\<lambda>sc. sc\<lparr>bc_enabled := False, bc_updated_at := Aware now\<rparr>)"

definition enable_schedule_row :: "int \<Rightarrow> ref \<Rightarrow> datetime option \<Rightarrow> (db, backup_schedule) action" where
  "enable_schedule_row now r next_run =
     update_schedule_with r (\<lambda>sc. sc\<lparr>bc_enabled := True, bc_next_run_at := given_opt next_run (bc_next_run_at sc),
       bc_updated_at := Aware now\<rparr>)"

definition delete_schedule_row :: "ref \<Rightarrow> (db, unit) action" where
  "delete_schedule_row r =
     andThen (get_schedule_row r) (\<lambda>sc.
     change (\<lambda>d. d\<lparr>t_backup_schedule := filter (\<lambda>x. bc_id x \<noteq> bc_id sc) (t_backup_schedule d)\<rparr>))"

section \<open>The tables as row stores\<close>

interpretation backup_jobs: row_store find_backup_job upd_backup_job bj_id
  by unfold_locales (auto simp: upd_backup_job_def get_upd_row dest: get_row_key)

interpretation backup_items: row_store find_backup_item upd_backup_item bi_id
  by unfold_locales (auto simp: upd_backup_item_def get_upd_row dest: get_row_key)

interpretation backup_schedules: row_store find_backup_schedule upd_backup_schedule bc_id
  by unfold_locales (auto simp: upd_backup_schedule_def get_upd_row dest: get_row_key)

end
