(* ===== verification/BackupTimes.thy ===== *)
theory BackupTimes
  imports BackupRepository
begin

text \<open>
  When a schedule runs next (\<open>calculate_next_run\<close> of app/services/config_backup_service.py).  Time zones are a parameter: a
  zone turns an instant into the clock on the wall, with the bit that tells the second of two equal readings, and back.
\<close>

record time_zone =
  to_wall :: "int \<Rightarrow> int \<times> bool"
  from_wall :: "int \<times> bool \<Rightarrow> int"

definition utc_zone :: time_zone where
  "utc_zone = \<lparr>to_wall = (\<lambda>t. (t, False)), from_wall = fst\<rparr>"

abbreviation minute :: int where "minute \<equiv> 60 * second"

definition cron_number :: "string \<Rightarrow> int \<Rightarrow> error + int" where
  "cron_number expression current =
     (if expression = ''*'' then Inr current
      else case py_int (JStr expression) of
        Inl e \<Rightarrow> Inl e
      | Inr v \<Rightarrow> if v < 0 then Inl (ValueError ''cron field cannot be negative'') else Inr v)"

text \<open>\<open>t.replace(hour=h, minute=m, second=0, microsecond=0)\<close> on the wall clock.\<close>

definition replace_time :: "int \<Rightarrow> int \<Rightarrow> int \<Rightarrow> error + int" where
  "replace_time h m wall =
     (if h < 0 \<or> 23 < h then Inl (ValueError ''hour must be in 0..23'')
      else if m < 0 \<or> 59 < m then Inl (ValueError ''minute must be in 0..59'')
      else Inr (wall - wall mod day + h * hour + m * minute))"

text \<open>
  A sum with a \<open>timedelta\<close> forgets the bit; without one \<open>replace\<close> keeps it.  \<open>zones\<close> is \<open>ZoneInfo\<close>, undefined for a name it
  rejects.
\<close>

definition next_wall :: "string \<Rightarrow> int \<times> bool \<Rightarrow> error + int \<times> bool" where
  "next_wall cron local_now =
     (let wall = fst local_now in
      if cron = ''@hourly'' then Inr (wall - wall mod hour + hour, False)
      else if cron = ''@daily'' then Inr (wall - wall mod day + day, False)
      else case split_words cron of
        [minute_expr, hour_expr, _, _, _] \<Rightarrow>
          (case cron_number minute_expr (wall mod hour div minute) of
             Inl e \<Rightarrow> Inl e
           | Inr m \<Rightarrow>
          (case cron_number hour_expr (wall mod day div hour) of
             Inl e \<Rightarrow> Inl e
           | Inr h \<Rightarrow>
          (case replace_time h m wall of
             Inl e \<Rightarrow> Inl e
           | Inr candidate \<Rightarrow>
               Inr (if candidate \<le> wall then (candidate + (if hour_expr \<noteq> ''*'' then day else hour), False)
                    else (candidate, snd local_now)))))
      | _ \<Rightarrow> Inl (ValueError ''cron_expression must be @hourly, @daily, or a five-field cron expression''))"

definition calculate_next_run :: "(string \<Rightarrow> time_zone option) \<Rightarrow> string \<Rightarrow> string \<Rightarrow> int \<Rightarrow> error + int" where
  "calculate_next_run zones cron timezone_name now =
     (case zones timezone_name of
        None \<Rightarrow> Inl (ValueError (''Unsupported timezone: '' @ timezone_name))
      | Some z \<Rightarrow> (case next_wall cron (to_wall z now) of
          Inl e \<Rightarrow> Inl e
        | Inr w \<Rightarrow> Inr (from_wall z w)))"

section \<open>Which clock time comes next\<close>

text \<open>The clock times an expression names, read as cron reads its first two fields; \<open>cron_plain\<close> are the expressions whose
  minute is a number.\<close>

definition cron_times :: "int \<Rightarrow> int option \<Rightarrow> int \<Rightarrow> bool" where
  "cron_times m h wall \<longleftrightarrow> wall mod hour = m * minute \<and> (case h of None \<Rightarrow> True | Some h \<Rightarrow> wall mod day div hour = h)"

definition cron_of :: "string \<Rightarrow> int \<Rightarrow> int option \<Rightarrow> bool" where
  "cron_of cron m h \<longleftrightarrow>
     (if cron = ''@hourly'' then m = 0 \<and> h = None
      else if cron = ''@daily'' then m = 0 \<and> h = Some 0
      else \<exists>me he d mo w. split_words cron = [me, he, d, mo, w] \<and> me \<noteq> ''*'' \<and> parse_int10 me = Some m \<and>
        (if he = ''*'' then h = None else h = parse_int10 he \<and> h \<noteq> None))"

definition least_after :: "(int \<Rightarrow> bool) \<Rightarrow> int \<Rightarrow> int \<Rightarrow> bool" where
  "least_after p t u \<longleftrightarrow> t < u \<and> p u \<and> (\<forall>v. t < v \<and> p v \<longrightarrow> u \<le> v)"

text \<open>The next instant with a given remainder.\<close>

lemma next_of_period:
  fixes p t r :: int
  assumes "0 \<le> r" "r < p"
  shows "least_after (\<lambda>v. v mod p = r) t (let c = t - t mod p + r in if c \<le> t then c + p else c)"
proof -
  let ?c = "t - t mod p + r"
  have eq: "t = p * (t div p) + t mod p" by simp
  have m: "0 \<le> t mod p" "t mod p < p" using assms by simp_all
  have c: "?c = p * (t div p) + r" using eq by linarith
  have mod: "(p * q + r) mod p = r" for q using assms by simp
  have least: "(if ?c \<le> t then ?c + p else ?c) \<le> v" if "t < v" "v mod p = r" for v
  proof -
    have v: "v = p * (v div p) + r" using that(2) by (metis mult_div_mod_eq)
    show ?thesis
    proof (cases "?c \<le> t")
      case True
      then have "p * (t div p) < p * (v div p)" using c v that(1) by linarith
      then have "t div p + 1 \<le> v div p" using m by (simp add: mult_less_cancel_left)
      then have "p * (t div p + 1) \<le> p * (v div p)" using m by (intro mult_left_mono) simp_all
      then show ?thesis using True c v by (simp add: distrib_left)
    next
      case False
      have "t div p \<le> v div p" using that(1) m by (intro zdiv_mono1) simp_all
      then have "p * (t div p) \<le> p * (v div p)" using m by (intro mult_left_mono) simp_all
      then show ?thesis unfolding if_not_P [OF False] using c v by linarith
    qed
  qed
  have "?c + p = p * (t div p + 1) + r" using c by (simp add: distrib_left)
  then have "(?c + p) mod p = r" "?c mod p = r" by (simp_all only: c mod)
  moreover have "t < ?c + p" using c eq m assms by linarith
  ultimately show ?thesis using least by (auto simp: least_after_def Let_def)
qed

lemma clock_time:
  assumes "0 \<le> m" "m \<le> 59" "0 \<le> h" "h \<le> 23"
  shows "v mod hour = m * minute \<and> v mod day div hour = h \<longleftrightarrow> v mod day = h * hour + m * minute"
proof -
  have cancel: "v mod day mod hour = v mod hour" by (simp add: mod_mod_cancel)
  have sum: "(h * hour + m * minute) mod hour = m * minute" "(h * hour + m * minute) div hour = h" using assms by simp_all
  show ?thesis
  proof
    assume "v mod hour = m * minute \<and> v mod day div hour = h"
    with cancel show "v mod day = h * hour + m * minute"
      using mult_div_mod_eq [of hour "v mod day"] by (simp only: mult.commute [of hour])
  qed (use cancel sum in metis)
qed

lemma hourly_least:
  assumes "0 \<le> m" "m \<le> 59"
  shows "least_after (cron_times m None) t (let c = t - t mod hour + m * minute in if c \<le> t then c + hour else c)"
proof -
  have "0 \<le> m * minute" "m * minute < hour" using assms by simp_all
  moreover have "cron_times m None = (\<lambda>v. v mod hour = m * minute)" by (simp add: fun_eq_iff cron_times_def)
  ultimately show ?thesis using next_of_period by (simp only:)
qed

lemma daily_least:
  assumes "0 \<le> m" "m \<le> 59" "0 \<le> h" "h \<le> 23"
  shows "least_after (cron_times m (Some h)) t
     (let c = t - t mod day + (h * hour + m * minute) in if c \<le> t then c + day else c)"
proof -
  have "0 \<le> h * hour + m * minute" "h * hour + m * minute < day" using assms by simp_all
  moreover have "cron_times m (Some h) = (\<lambda>v. v mod day = h * hour + m * minute)"
    by (rule ext) (simp only: cron_times_def option.case clock_time [OF assms])
  ultimately show ?thesis using next_of_period by (simp only:)
qed

text \<open>
  C28: A schedule runs at the next clock time it names.  When the minute of the expression is a number, the next run is, on
  the wall clock of the schedule's zone, the first time after now with that minute and with the hour, if that is a number
  too.  The other three fields are not looked at.
\<close>

theorem next_run_is_next:
  assumes "calculate_next_run zones cron tz now = Inr r" "zones tz = Some z" "cron_of cron m h"
  shows "\<exists>w fold. r = from_wall z (w, fold) \<and> least_after (cron_times m h) (fst (to_wall z now)) w"
proof -
  let ?t = "fst (to_wall z now)"
  from assms(1,2) obtain w where w: "next_wall cron (to_wall z now) = Inr w" "r = from_wall z w"
    by (auto simp: calculate_next_run_def split: sum.splits)
  have "least_after (cron_times m h) ?t (fst w)"
  proof (cases "cron = ''@hourly'' \<or> cron = ''@daily''")
    case True
    have "0 \<le> ?t mod hour" "0 \<le> ?t mod day" by simp_all
    with True w(1) assms(3) hourly_least [of 0 ?t] daily_least [of 0 0 ?t] show ?thesis
      by (auto simp: next_wall_def cron_of_def Let_def split: if_splits)
  next
    case False
    then obtain me he d mo wd where f: "split_words cron = [me, he, d, mo, wd]" "me \<noteq> ''*''" "parse_int10 me = Some m"
      "if he = ''*'' then h = None else h = parse_int10 he \<and> h \<noteq> None" using assms(3) by (auto simp: cron_of_def)
    show ?thesis
    proof (cases "he = ''*''")
      case True
      let ?h = "?t mod day div hour"
      have "?t mod day - ?t mod day mod hour = hour * ?h" by (simp add: minus_mod_eq_mult_div)
      then have same: "?t - ?t mod day + ?h * hour + m * minute = ?t - ?t mod hour + m * minute"
        by (simp add: mod_mod_cancel)
      from w(1) False f(1-3) True have "0 \<le> m" "m \<le> 59"
        "fst w = (let c = ?t - ?t mod day + ?h * hour + m * minute in if c \<le> ?t then c + hour else c)"
        by (auto simp: next_wall_def Let_def cron_number_def replace_time_def split: if_splits)
      with hourly_least [of m ?t] f(4) True show ?thesis by (simp only: same if_True)
    next
      case he: False
      with f(4) obtain k where k: "parse_int10 he = Some k" "h = Some k" by auto
      from w(1) False f(1-3) he k have "0 \<le> m" "m \<le> 59" "0 \<le> k" "k \<le> 23"
        "fst w = (let c = ?t - ?t mod day + k * hour + m * minute in if c \<le> ?t then c + day else c)"
        by (auto simp: next_wall_def Let_def cron_number_def replace_time_def split: if_splits)
      with daily_least [of m k ?t] k show ?thesis by (simp only: add.assoc)
    qed
  qed
  with w(2) show ?thesis by (metis prod.collapse)
qed

theorem next_run_is_next_witness:
  "\<exists>w fold. 97200000000 = from_wall utc_zone (w, fold) \<and> least_after (cron_times 0 (Some 3)) 10800000000 w"
proof -
  have "calculate_next_run (\<lambda>_. Some utc_zone) ''0 3 1 * *'' ''UTC'' 10800000000 = Inr 97200000000" by code_simp
  moreover have "cron_of ''0 3 1 * *'' 0 (Some 3)"
  proof -
    have "split_words ''0 3 1 * *'' = [''0'', ''3'', ''1'', ''*'', ''*'']" "parse_int10 ''0'' = Some 0" "parse_int10 ''3'' = Some 3"
      by code_simp+
    then show ?thesis by (simp add: cron_of_def)
  qed
  ultimately show ?thesis using next_run_is_next [of "\<lambda>_. Some utc_zone"] by (fastforce simp: utc_zone_def)
qed

text \<open>An expression for every minute runs once an hour.\<close>

lemma every_minute_is_hourly:
  "calculate_next_run (\<lambda>_. Some utc_zone) ''* * * * *'' ''UTC'' now = Inr (now - now mod minute + hour)"
proof -
  let ?h = "now mod day div hour" and ?m = "now mod hour div minute"
  have words: "split_words ''* * * * *'' = [''*'', ''*'', ''*'', ''*'', ''*'']" by code_simp
  have "0 \<le> now mod day" "now mod day < day" "0 \<le> now mod hour" "now mod hour < hour" "0 \<le> now mod minute" by simp_all
  then have bounds: "0 \<le> ?h" "?h \<le> 23" "0 \<le> ?m" "?m \<le> 59" by (simp_all add: pos_imp_zdiv_nonneg_iff) 
  have "now mod day = hour * ?h + now mod day mod hour" "now mod hour = minute * ?m + now mod hour mod minute" by simp_all
  then have c: "now - now mod day + ?h * hour + ?m * minute = now - now mod minute" by (simp add: mod_mod_cancel)
  have "now - now mod minute \<le> now" using \<open>0 \<le> now mod minute\<close> by simp
  then show ?thesis
    using bounds by (simp add: calculate_next_run_def next_wall_def utc_zone_def words cron_number_def replace_time_def c [simplified])
qed

end
