(* ===== verification/ConfigBackups.thy ===== *)
theory ConfigBackups
  imports BackupTimes Masking
begin

text \<open>
  app/services/config_backup_service.py: collecting sanitized snapshots of the devices of a scope, jobs that do it device by
  device, imported snapshots, and schedules.  \<open>sha\<close> is SHA-256 in hexadecimal, \<open>zones\<close> the time zone database.
\<close>

section \<open>Reading rows\<close>

definition read_job :: "backup_job \<Rightarrow> jobj" where
  "read_job j =
     [(''id'', JStr (uuid_str (bj_id j))), (''name'', JStr (bj_name j)), (''description'', str_opt (bj_description j)),
      (''scope_type'', JStr (bj_scope_type j)), (''scope_filter'', obj_opt (bj_scope_filter j)),
      (''status'', JStr (bj_status j)), (''requested_by'', str_opt (bj_requested_by j)),
      (''started_at'', iso_opt (bj_started_at j)), (''finished_at'', iso_opt (bj_finished_at j)),
      (''total_devices'', JInt (bj_total_devices j)), (''successful_devices'', JInt (bj_successful_devices j)),
      (''failed_devices'', JInt (bj_failed_devices j)), (''skipped_devices'', JInt (bj_skipped_devices j)),
      (''error_summary'', str_opt (bj_error_summary j)), (''created_at'', JStr (isoformat (bj_created_at j))),
      (''updated_at'', JStr (isoformat (bj_updated_at j)))]"

definition read_item :: "backup_item \<Rightarrow> jobj" where
  "read_item x =
     [(''id'', JStr (uuid_str (bi_id x))), (''job_id'', JStr (uuid_str (bi_job_id x))),
      (''device_id'', JStr (uuid_str (bi_device_id x))), (''status'', JStr (bi_status x)),
      (''snapshot_id'', uuid_opt (bi_snapshot_id x)), (''error_message'', str_opt (bi_error_message x)),
      (''started_at'', iso_opt (bi_started_at x)), (''finished_at'', iso_opt (bi_finished_at x)),
      (''created_at'', JStr (isoformat (bi_created_at x)))]"

definition read_schedule :: "backup_schedule \<Rightarrow> jobj" where
  "read_schedule sc =
     [(''id'', JStr (uuid_str (bc_id sc))), (''name'', JStr (bc_name sc)), (''description'', str_opt (bc_description sc)),
      (''enabled'', JBool (bc_enabled sc)), (''scope_type'', JStr (bc_scope_type sc)),
      (''scope_filter'', obj_opt (bc_scope_filter sc)), (''cron_expression'', JStr (bc_cron_expression sc)),
      (''timezone'', JStr (bc_timezone sc)), (''retention_days'', JInt (bc_retention_days sc)),
      (''max_snapshots_per_device'', case bc_max_snapshots_per_device sc of None \<Rightarrow> JNull | Some n \<Rightarrow> JInt n),
      (''last_run_at'', iso_opt (bc_last_run_at sc)), (''next_run_at'', iso_opt (bc_next_run_at sc)),
      (''created_by'', str_opt (bc_created_by sc)), (''created_at'', JStr (isoformat (bc_created_at sc))),
      (''updated_at'', JStr (isoformat (bc_updated_at sc)))]"

definition read_snapshot :: "snapshot \<Rightarrow> jobj" where
  "read_snapshot sn =
     [(''id'', JStr (uuid_str (sn_id sn))), (''device_id'', JStr (uuid_str (sn_device_id sn))),
      (''backup_job_id'', uuid_opt (sn_backup_job_id sn)), (''source'', JStr (sn_source sn)),
      (''config_type'', JStr (sn_config_type sn)), (''config_text'', JStr (sn_config_text sn)),
      (''config_hash'', JStr (sn_config_hash sn)), (''sanitized'', JBool (sn_sanitized sn)),
      (''collection_method'', JStr (sn_collection_method sn)), (''collected_at'', JStr (isoformat (sn_collected_at sn))),
      (''created_at'', JStr (isoformat (sn_created_at sn))), (''metadata'', JObj (or_nil (sn_metadata sn)))]"

definition read_diff :: "snapshot_diff \<Rightarrow> jobj" where
  "read_diff sd =
     [(''id'', JStr (uuid_str (sd_id sd))), (''device_id'', JStr (uuid_str (sd_device_id sd))),
      (''from_snapshot_id'', JStr (uuid_str (sd_from_snapshot_id sd))),
      (''to_snapshot_id'', JStr (uuid_str (sd_to_snapshot_id sd))), (''diff_text'', JStr (sd_diff_text sd)),
      (''diff_hash'', JStr (sd_diff_hash sd)), (''change_summary'', JObj (or_nil (sd_change_summary sd))),
      (''created_at'', JStr (isoformat (sd_created_at sd)))]"

record backup_report =
  bp_job :: jobj
  bp_items :: "jobj list"

definition build_backup_report :: "ref \<Rightarrow> (db, backup_report) action" where
  "build_backup_report r =
     andThen (get_job r) (\<lambda>j.
     andThen (list_job_items (RefId (bj_id j))) (\<lambda>items.
     ret \<lparr>bp_job = read_job j, bp_items = map read_item items\<rparr>))"

section \<open>One device\<close>

definition is_unsupported_for_readonly_backup :: "device \<Rightarrow> bool" where
  "is_unsupported_for_readonly_backup dev \<longleftrightarrow>
     dev_driver_name dev = ''ReadOnlyICMPDriver'' \<or> dev_platform dev = ''icmp-only'' \<or> dev_vendor dev = ''ICMP''"

definition backup_name :: "device \<Rightarrow> string" where
  "backup_name dev =
     (if or_empty (dev_hostname dev) \<noteq> [] then or_empty (dev_hostname dev)
      else if or_empty (dev_management_ip dev) \<noteq> [] then or_empty (dev_management_ip dev) else dev_ip_address dev)"

definition read_only_config :: "device \<Rightarrow> string" where
  "read_only_config dev =
     ''! read-only simulated running-config for '' @ backup_name dev @ [newline] @
     ''! collection method: driver_readonly'' @ [newline] @
     ''hostname '' @ backup_name dev @ [newline] @
     ''interface Loopback0'' @ [newline] @
     '' description backup-safe'' @ [newline]"

definition backup_device_config ::
  "(string \<Rightarrow> string) \<Rightarrow> int \<Rightarrow> string \<Rightarrow> string \<Rightarrow> ref option \<Rightarrow> string \<Rightarrow> string \<Rightarrow> string option \<Rightarrow>
   (db, snapshot \<times> snapshot_diff option) action" where
  "backup_device_config sha now device actr backup_job source config_type config_text =
     andThen (get_device_row (RefText device)) (\<lambda>dev.
     andThen (unless (\<not> is_unsupported_for_readonly_backup dev)
       (CapabilityError ''Device does not support read-only configuration backup'')) (\<lambda>_.
     andThen (get_latest_snapshot (RefId (dev_id dev)) None) (\<lambda>previous.
     let raw = (case config_text of Some t \<Rightarrow> t | None \<Rightarrow> read_only_config dev);
         clean = sanitize_config sha raw;
         collected_by = (if source = ''imported'' then ''imported''
           else if config_text \<noteq> None then ''manual_upload'' else ''dummy_transport'')
     in andThen (create_snapshot now (RefId (dev_id dev)) (text_of clean) (config_hash clean) source config_type
          collected_by backup_job (Some [(''redaction_types'', JList (map JStr (redaction_types clean))),
            (''created_by'', JStr actr)]) None True) (\<lambda>sn.
        andThen (create_diff_if_changed sha now previous sn) (\<lambda>sd. ret (sn, sd))))))"

section \<open>Jobs\<close>

record backup_job_create =
  bq_name :: string
  bq_scope_type :: string
  bq_scope_filter :: "jobj option"
  bq_description :: "string option"

definition create_backup_job :: "int \<Rightarrow> backup_job_create \<Rightarrow> string \<Rightarrow> (db, backup_report) action" where
  "create_backup_job now p actr =
     andThen (devices_for_scope (bq_scope_type p) (or_nil (bq_scope_filter p))) (\<lambda>devs.
     andThen (create_job now (bq_name p) (bq_scope_type p) (bq_scope_filter p) (bq_description p) (Some actr)) (\<lambda>j.
     andThen (create_job_items now (RefId (bj_id j)) (map (\<lambda>dev. RefId (dev_id dev)) devs)) (\<lambda>_.
     andThen (update_job_counters now (RefId (bj_id j))) (\<lambda>_.
     build_backup_report (RefText (uuid_str (bj_id j)))))))"

text \<open>\<open>try: ... except\<close>: the exception as a value, what was written before it stays.\<close>

definition attempt :: "('s, 'a) action \<Rightarrow> ('s, error + 'a) action" where
  "attempt m s = (case m s of (x, s') \<Rightarrow> (Inr x, s'))"

definition run_backup_item :: "(string \<Rightarrow> string) \<Rightarrow> int \<Rightarrow> backup_job \<Rightarrow> string \<Rightarrow> backup_item \<Rightarrow> (db, unit) action" where
  "run_backup_item sha now j actr x =
     (if bi_status x = ''success'' then ret ()
      else andThen (mark_item_running now (RefId (bi_id x))) (\<lambda>_.
           andThen (attempt (backup_device_config sha now (uuid_str (bi_device_id x)) actr
             (Some (RefText (uuid_str (bj_id j)))) ''api'' ''running'' None)) (\<lambda>outcome.
           andThen (case outcome of
               Inl (CapabilityError m) \<Rightarrow> mark_item_skipped now (RefId (bi_id x)) m ''unsupported''
             | Inl e \<Rightarrow> mark_item_failed now (RefId (bi_id x)) (err_str e)
             | Inr (sn, _) \<Rightarrow> mark_item_success now (RefId (bi_id x)) (RefId (sn_id sn))) (\<lambda>_. ret ()))))"

definition final_status :: "backup_job \<Rightarrow> string" where
  "final_status j =
     (if bj_failed_devices j \<noteq> 0
      then if bj_successful_devices j = 0 then ''failed'' else ''completed_with_errors''
      else if bj_skipped_devices j \<noteq> 0 then ''completed_with_errors'' else ''completed'')"

definition run_backup_job :: "(string \<Rightarrow> string) \<Rightarrow> int \<Rightarrow> string \<Rightarrow> string \<Rightarrow> (db, backup_report) action" where
  "run_backup_job sha now job actr =
     andThen (get_job (RefText job)) (\<lambda>j.
     andThen (unless (bj_status j \<noteq> ''cancelled'') (ConflictError ''Cancelled backup job cannot be run'')) (\<lambda>_.
     andThen (update_job_status now (RefId (bj_id j)) ''running'' None) (\<lambda>_.
     andThen (list_job_items (RefId (bj_id j))) (\<lambda>items.
     andThen (for_each (run_backup_item sha now j actr) items) (\<lambda>_.
     andThen (update_job_counters now (RefId (bj_id j))) (\<lambda>j.
     andThen (update_job_status now (RefId (bj_id j)) (final_status j) None) (\<lambda>_.
     build_backup_report (RefText (uuid_str (bj_id j))))))))))"

section \<open>Imported snapshots and reading\<close>

record snapshot_import =
  si_config_type :: string
  si_config_text :: string
  si_source :: string

definition import_snapshot :: "(string \<Rightarrow> string) \<Rightarrow> int \<Rightarrow> string \<Rightarrow> snapshot_import \<Rightarrow> string \<Rightarrow> (db, jobj) action" where
  "import_snapshot sha now device p actr =
     andThen (backup_device_config sha now device actr None (si_source p) (si_config_type p) (Some (si_config_text p)))
       (\<lambda>(sn, _). ret (read_snapshot sn))"

definition read_jobs :: "(db, jobj list) action" where
  "read_jobs = asks (\<lambda>d. map read_job (list_jobs None d))"

definition read_one_job :: "string \<Rightarrow> (db, jobj) action" where
  "read_one_job i = andThen (get_job (RefText i)) (\<lambda>j. ret (read_job j))"

definition read_device_snapshots :: "string \<Rightarrow> (db, jobj list) action" where
  "read_device_snapshots i =
     andThen (get_device_row (RefText i)) (\<lambda>_.
     andThen (list_snapshots_for_device (RefText i)) (\<lambda>sns. ret (map read_snapshot sns)))"

definition read_one_snapshot :: "string \<Rightarrow> (db, jobj) action" where
  "read_one_snapshot i = andThen (get_snapshot (RefText i)) (\<lambda>sn. ret (read_snapshot sn))"

definition read_device_diffs :: "string \<Rightarrow> (db, jobj list) action" where
  "read_device_diffs i =
     andThen (get_device_row (RefText i)) (\<lambda>_.
     andThen (list_diffs_for_device (RefText i)) (\<lambda>sds. ret (map read_diff sds)))"

definition read_one_diff :: "string \<Rightarrow> (db, jobj) action" where
  "read_one_diff i = andThen (get_diff (RefText i)) (\<lambda>sd. ret (read_diff sd))"

definition apply_retention_policy :: "int \<Rightarrow> int \<Rightarrow> int option \<Rightarrow> (db, int) action" where
  "apply_retention_policy now retention_days max_snapshots = delete_old_snapshots now retention_days max_snapshots"

section \<open>Schedules\<close>

record schedule_create =
  sk_name :: string
  sk_scope_type :: string
  sk_cron_expression :: string
  sk_description :: "string option"
  sk_scope_filter :: "jobj option"
  sk_timezone :: string
  sk_retention_days :: int
  sk_max_snapshots_per_device :: "int option"

definition create_schedule ::
  "(string \<Rightarrow> time_zone option) \<Rightarrow> int \<Rightarrow> schedule_create \<Rightarrow> string \<Rightarrow> (db, jobj) action" where
  "create_schedule zones now p actr =
     andThen (query (\<lambda>_. calculate_next_run zones (sk_cron_expression p) (sk_timezone p) now)) (\<lambda>next_run.
     andThen (create_schedule_row now (sk_name p) (sk_scope_type p) (sk_cron_expression p) (sk_timezone p)
       (sk_retention_days p) (sk_scope_filter p) (sk_description p) (sk_max_snapshots_per_device p)
       (Some (Aware next_run)) (Some actr)) (\<lambda>sc. ret (read_schedule sc)))"

text \<open>
  \<open>ConfigBackupScheduleUpdate\<close>: the inner \<open>None\<close> is an explicit \<open>null\<close>.  Of the keys that are set only the presence of
  \<open>cron_expression\<close> and \<open>timezone\<close> matters: \<open>update_schedule\<close> ignores a \<open>null\<close>.
\<close>

record schedule_update =
  su_name :: "string option"
  su_description :: "string option"
  su_scope_type :: "string option"
  su_scope_filter :: "jobj option"
  su_cron_expression :: "string option option"
  su_timezone :: "string option option"
  su_retention_days :: "int option"
  su_max_snapshots_per_device :: "int option"

text \<open>\<open>str(changes.get(key) or stored)\<close>\<close>

definition changed_or :: "string option option \<Rightarrow> string \<Rightarrow> string" where
  "changed_or v stored = (case v of Some (Some s) \<Rightarrow> if s \<noteq> [] then s else stored | _ \<Rightarrow> stored)"

definition inner :: "'a option option \<Rightarrow> 'a option" where
  "inner v = (case v of Some (Some s) \<Rightarrow> Some s | _ \<Rightarrow> None)"

text \<open>The stored value is looked up only where the payload has none.\<close>

definition cron_part :: "ref \<Rightarrow> string option option \<Rightarrow> (backup_schedule \<Rightarrow> string) \<Rightarrow> (db, string) action" where
  "cron_part r v stored =
     (if changed_or v [] \<noteq> [] then ret (changed_or v [])
      else andThen (get_schedule_row r) (\<lambda>sc. ret (stored sc)))"

definition update_schedule ::
  "(string \<Rightarrow> time_zone option) \<Rightarrow> int \<Rightarrow> string \<Rightarrow> schedule_update \<Rightarrow> (db, jobj) action" where
  "update_schedule zones now i p =
     andThen (if su_cron_expression p \<noteq> None \<or> su_timezone p \<noteq> None
         then andThen (cron_part (RefText i) (su_cron_expression p) bc_cron_expression) (\<lambda>cron.
              andThen (cron_part (RefText i) (su_timezone p) bc_timezone) (\<lambda>tz.
              andThen (query (\<lambda>_. calculate_next_run zones cron tz now)) (\<lambda>t. ret (Some (Aware t)))))
         else ret None) (\<lambda>next_run.
     andThen (update_schedule_row now (RefText i) \<lparr>sg_name = su_name p, sg_description = su_description p,
       sg_scope_type = su_scope_type p, sg_scope_filter = su_scope_filter p, sg_cron_expression = inner (su_cron_expression p),
       sg_timezone = inner (su_timezone p), sg_retention_days = su_retention_days p,
       sg_max_snapshots_per_device = su_max_snapshots_per_device p, sg_next_run_at = next_run\<rparr>) (\<lambda>sc.
     ret (read_schedule sc)))"

definition enable_schedule :: "(string \<Rightarrow> time_zone option) \<Rightarrow> int \<Rightarrow> string \<Rightarrow> (db, jobj) action" where
  "enable_schedule zones now i =
     andThen (get_schedule_row (RefText i)) (\<lambda>sc.
     andThen (query (\<lambda>_. calculate_next_run zones (bc_cron_expression sc) (bc_timezone sc) now)) (\<lambda>t.
     andThen (enable_schedule_row now (RefId (bc_id sc)) (Some (Aware t))) (\<lambda>sc. ret (read_schedule sc))))"

definition disable_schedule :: "int \<Rightarrow> string \<Rightarrow> (db, jobj) action" where
  "disable_schedule now i = andThen (disable_schedule_row now (RefText i)) (\<lambda>sc. ret (read_schedule sc))"

definition read_schedules :: "(db, jobj list) action" where
  "read_schedules = asks (\<lambda>d. map read_schedule (list_schedule_rows None d))"

definition read_one_schedule :: "string \<Rightarrow> (db, jobj) action" where
  "read_one_schedule i = andThen (get_schedule_row (RefText i)) (\<lambda>sc. ret (read_schedule sc))"

definition delete_schedule :: "string \<Rightarrow> (db, unit) action" where
  "delete_schedule i = delete_schedule_row (RefText i)"

end
