(* ===== verification/RestorePlans.thy ===== *)
theory RestorePlans
  imports ConfigBackups
begin

text \<open>
  app/repositories/config_restore_plans.py and app/services/config_restore_service.py: plans to restore a stored
  configuration, which are only ever read by people.
\<close>

section \<open>The repository\<close>

definition upd_restore_plan :: "uuid \<Rightarrow> (restore_plan \<Rightarrow> restore_plan) \<Rightarrow> db \<Rightarrow> db" where
  "upd_restore_plan i f d = d\<lparr>t_restore_plan := upd_row rs_id i f (t_restore_plan d)\<rparr>"

definition create_restore_plan_row ::
  "int \<Rightarrow> ref \<Rightarrow> ref \<Rightarrow> string \<Rightarrow> string \<Rightarrow> string \<Rightarrow> string list option \<Rightarrow> string \<Rightarrow> (db, restore_plan) action" where
  "create_restore_plan_row now device target requested_by plan_text risk_level warnings status =
     andThen (query (\<lambda>_. coerce_ref ''Device'' device)) (\<lambda>dev.
     andThen (query (\<lambda>_. coerce_ref ''Config snapshot'' target)) (\<lambda>sn.
     andThen fresh_id (\<lambda>i.
       let rs = \<lparr>rs_id = i, rs_device_id = dev, rs_target_snapshot_id = sn, rs_status = status,
             rs_requested_by = Some requested_by, rs_plan_text = plan_text, rs_risk_level = risk_level,
             rs_warnings = Some (or_nil warnings), rs_created_at = Aware now, rs_approved_at = None, rs_approved_by = None\<rparr>
       in andThen (change (\<lambda>d. d\<lparr>t_restore_plan := t_restore_plan d @ [rs]\<rparr>)) (\<lambda>_. ret rs))))"

definition get_restore_plan_row :: "ref \<Rightarrow> (db, restore_plan) action" where
  "get_restore_plan_row = get_by_ref find_restore_plan ''Config restore plan''"

definition list_restore_plan_rows :: "string option \<Rightarrow> db \<Rightarrow> restore_plan list" where
  "list_restore_plan_rows status d =
     rev (by_time rs_created_at (case status of
        None \<Rightarrow> t_restore_plan d
      | Some s \<Rightarrow> filter (\<lambda>p. rs_status p = s) (t_restore_plan d)))"

definition update_restore_plan :: "ref \<Rightarrow> (restore_plan \<Rightarrow> restore_plan) \<Rightarrow> (db, restore_plan) action" where
  "update_restore_plan r f =
     andThen (get_restore_plan_row r) (\<lambda>p.
     andThen (change (upd_restore_plan (rs_id p) f)) (\<lambda>_. ret (f p)))"

definition approve_restore_plan_row :: "int \<Rightarrow> ref \<Rightarrow> string \<Rightarrow> (db, restore_plan) action" where
  "approve_restore_plan_row now r approved_by =
     update_restore_plan r (\<lambda>p. p\<lparr>rs_status := ''approved'', rs_approved_by := Some approved_by, rs_approved_at := Some (Aware now)\<rparr>)"

definition reject_restore_plan_row :: "ref \<Rightarrow> (db, restore_plan) action" where
  "reject_restore_plan_row r = update_restore_plan r (\<lambda>p. p\<lparr>rs_status := ''rejected''\<rparr>)"

definition expire_restore_plan_row :: "ref \<Rightarrow> (db, restore_plan) action" where
  "expire_restore_plan_row r = update_restore_plan r (\<lambda>p. p\<lparr>rs_status := ''expired''\<rparr>)"

section \<open>The service\<close>

definition assess_restore_risk :: "string \<Rightarrow> string" where
  "assess_restore_risk config_text =
     (let lowered = casefold config_text in
      if mentions [''aaa'', ''authentication'', ''authorization'', ''snmp-server community'', ''local-user'', ''username'', ''boot'',
           ''firmware'', ''management ip''] lowered then ''critical''
      else if mentions [''acl'', ''access-list'', ''traffic-filter'', '' ip route'', ''router '', ''ospf'', ''bgp'', ''vlan batch'',
           ''port trunk'', ''port default vlan'', ''switchport access''] lowered then ''high''
      else if mentions [''description'', ''name '', ''vlan ''] lowered then ''medium''
      else ''low'')"

definition build_restore_plan_text :: "string \<Rightarrow> snapshot \<Rightarrow> string" where
  "build_restore_plan_text device sn =
     ''RESTORE PREPARATION ONLY'' @ [newline] @
     ''Device: '' @ device @ [newline] @
     ''Target snapshot: '' @ uuid_str (sn_id sn) @ [newline] @
     ''Config type: '' @ sn_config_type sn @ [newline] @
     ''Snapshot hash: '' @ sn_config_hash sn @ [newline, newline] @
     ''No commands will be sent by SwitchFleet for this plan. Use this preview for human review and future approved workflows.'' @
     [newline, newline] @
     ''Sanitized target configuration:'' @ [newline] @ sn_config_text sn"

definition read_restore_plan :: "restore_plan \<Rightarrow> jobj" where
  "read_restore_plan p =
     [(''id'', JStr (uuid_str (rs_id p))), (''device_id'', JStr (uuid_str (rs_device_id p))),
      (''target_snapshot_id'', JStr (uuid_str (rs_target_snapshot_id p))), (''status'', JStr (rs_status p)),
      (''requested_by'', str_opt (rs_requested_by p)), (''plan_text'', JStr (rs_plan_text p)),
      (''risk_level'', JStr (rs_risk_level p)), (''warnings'', JList (map JStr (or_nil (rs_warnings p)))),
      (''created_at'', JStr (isoformat (rs_created_at p))), (''approved_at'', iso_opt (rs_approved_at p)),
      (''approved_by'', str_opt (rs_approved_by p))]"

definition restore_warnings :: "string \<Rightarrow> string list" where
  "restore_warnings risk =
     [''Restore plan is preview-only; no device apply endpoint exists.'',
      ''Review sanitized snapshot text before any future manual restore.''] @
     (if risk \<in> {''high'', ''critical''} then [''Snapshot includes high-risk configuration areas.''] else [])"

definition create_restore_plan :: "int \<Rightarrow> string \<Rightarrow> string \<Rightarrow> string \<Rightarrow> (db, jobj) action" where
  "create_restore_plan now device target requested_by =
     andThen (get_device_row (RefText device)) (\<lambda>dev.
     andThen (get_snapshot (RefText target)) (\<lambda>sn.
     andThen (unless (sn_device_id sn = dev_id dev) (ConflictError ''Target snapshot belongs to a different device'')) (\<lambda>_.
     let risk = assess_restore_risk (sn_config_text sn)
     in andThen (create_restore_plan_row now (RefId (dev_id dev)) (RefId (sn_id sn)) requested_by
          (build_restore_plan_text (uuid_str (dev_id dev)) sn) risk (Some (restore_warnings risk)) ''pending_approval'') (\<lambda>p.
        ret (read_restore_plan p)))))"

definition approve_restore_plan :: "int \<Rightarrow> string \<Rightarrow> string \<Rightarrow> (db, jobj) action" where
  "approve_restore_plan now i approved_by =
     andThen (approve_restore_plan_row now (RefText i) approved_by) (\<lambda>p. ret (read_restore_plan p))"

definition reject_restore_plan :: "string \<Rightarrow> (db, jobj) action" where
  "reject_restore_plan i = andThen (reject_restore_plan_row (RefText i)) (\<lambda>p. ret (read_restore_plan p))"

definition get_restore_plan :: "string \<Rightarrow> (db, jobj) action" where
  "get_restore_plan i = andThen (get_restore_plan_row (RefText i)) (\<lambda>p. ret (read_restore_plan p))"

definition list_restore_plans :: "string option \<Rightarrow> (db, jobj list) action" where
  "list_restore_plans status = asks (\<lambda>d. map read_restore_plan (list_restore_plan_rows status d))"

interpretation restore_plans: row_store find_restore_plan upd_restore_plan rs_id
  by unfold_locales (auto simp: upd_restore_plan_def get_upd_row dest: get_row_key)

end
