(* ===== verification/BackupRequests.thy ===== *)
theory BackupRequests
  imports RestorePlans Endpoints
begin

text \<open>
  app/api/v1/config_backups.py and the payload checks of app/schemas/config_backup.py.
\<close>

section \<open>Payloads\<close>

definition SCOPE_TYPES :: "string list" where
  "SCOPE_TYPES = [''all'', ''site'', ''tag'', ''device_ids'', ''query'']"

definition CONFIG_SOURCES :: "string list" where
  "CONFIG_SOURCES = [''manual'', ''scheduled'', ''api'', ''imported'']"

definition CONFIG_TYPES :: "string list" where
  "CONFIG_TYPES = [''running'', ''startup'', ''candidate'', ''unknown'']"

text \<open>A body that does not fit its schema is answered with 422 before the handler runs.\<close>

definition checked :: "bool \<Rightarrow> (db, 'a) action \<Rightarrow> (db, 'a) action" where
  "checked ok m = (if ok then m else raise (HTTPException 422 ''Unprocessable Entity''))"

fun conflict_409 :: "error \<Rightarrow> error" where
  "conflict_409 (ConflictError m) = HTTPException 409 m"
| "conflict_409 e = e"

section \<open>Endpoints\<close>

definition api_create_backup_job :: "int \<Rightarrow> backup_job_create \<Rightarrow> actor \<Rightarrow> (db, backup_report) action" where
  "api_create_backup_job now p a =
     checked (bq_scope_type p \<in> set SCOPE_TYPES) (endpoint Perm_manage_config_backups a (create_backup_job now p (username a)))"

definition api_list_backup_jobs :: "actor \<Rightarrow> (db, jobj list) action" where
  "api_list_backup_jobs a = endpoint Perm_read_config_backups a read_jobs"

definition api_get_backup_job :: "string \<Rightarrow> actor \<Rightarrow> (db, jobj) action" where
  "api_get_backup_job i a = endpoint Perm_read_config_backups a (catching not_found_404 (read_one_job i))"

definition api_run_backup_job :: "(string \<Rightarrow> string) \<Rightarrow> int \<Rightarrow> string \<Rightarrow> actor \<Rightarrow> (db, backup_report) action" where
  "api_run_backup_job sha now i a =
     endpoint Perm_run_config_backup a (catching (conflict_409 \<circ> not_found_404) (run_backup_job sha now i (username a)))"

definition api_get_backup_report :: "string \<Rightarrow> actor \<Rightarrow> (db, backup_report) action" where
  "api_get_backup_report i a =
     endpoint Perm_read_config_backups a (catching not_found_404 (build_backup_report (RefText i)))"

definition api_create_schedule ::
  "(string \<Rightarrow> time_zone option) \<Rightarrow> int \<Rightarrow> schedule_create \<Rightarrow> actor \<Rightarrow> (db, jobj) action" where
  "api_create_schedule zones now p a =
     checked (sk_scope_type p \<in> set SCOPE_TYPES) (endpoint Perm_manage_config_backups a (create_schedule zones now p (username a)))"

definition api_list_schedules :: "actor \<Rightarrow> (db, jobj list) action" where
  "api_list_schedules a = endpoint Perm_read_config_backups a read_schedules"

definition api_get_schedule :: "string \<Rightarrow> actor \<Rightarrow> (db, jobj) action" where
  "api_get_schedule i a = endpoint Perm_read_config_backups a (catching not_found_404 (read_one_schedule i))"

definition api_update_schedule ::
  "(string \<Rightarrow> time_zone option) \<Rightarrow> int \<Rightarrow> string \<Rightarrow> schedule_update \<Rightarrow> actor \<Rightarrow> (db, jobj) action" where
  "api_update_schedule zones now i p a =
     checked (case su_scope_type p of None \<Rightarrow> True | Some t \<Rightarrow> t \<in> set SCOPE_TYPES)
       (endpoint Perm_manage_config_backups a (catching not_found_404 (update_schedule zones now i p)))"

definition api_enable_schedule :: "(string \<Rightarrow> time_zone option) \<Rightarrow> int \<Rightarrow> string \<Rightarrow> actor \<Rightarrow> (db, jobj) action" where
  "api_enable_schedule zones now i a =
     endpoint Perm_manage_config_backups a (catching not_found_404 (enable_schedule zones now i))"

definition api_disable_schedule :: "int \<Rightarrow> string \<Rightarrow> actor \<Rightarrow> (db, jobj) action" where
  "api_disable_schedule now i a = endpoint Perm_manage_config_backups a (catching not_found_404 (disable_schedule now i))"

definition api_delete_schedule :: "string \<Rightarrow> actor \<Rightarrow> (db, unit) action" where
  "api_delete_schedule i a = endpoint Perm_manage_config_backups a (catching not_found_404 (delete_schedule i))"

definition api_list_device_snapshots :: "string \<Rightarrow> actor \<Rightarrow> (db, jobj list) action" where
  "api_list_device_snapshots i a = endpoint Perm_read_config_backups a (catching not_found_404 (read_device_snapshots i))"

definition api_get_snapshot :: "string \<Rightarrow> actor \<Rightarrow> (db, jobj) action" where
  "api_get_snapshot i a = endpoint Perm_read_config_backups a (catching not_found_404 (read_one_snapshot i))"

definition api_import_snapshot ::
  "(string \<Rightarrow> string) \<Rightarrow> int \<Rightarrow> string \<Rightarrow> snapshot_import \<Rightarrow> actor \<Rightarrow> (db, jobj) action" where
  "api_import_snapshot sha now i p a =
     checked (si_config_type p \<in> set CONFIG_TYPES \<and> si_source p \<in> set CONFIG_SOURCES)
       (endpoint Perm_manage_config_backups a (catching not_found_404 (import_snapshot sha now i p (username a))))"

definition api_list_device_diffs :: "string \<Rightarrow> actor \<Rightarrow> (db, jobj list) action" where
  "api_list_device_diffs i a = endpoint Perm_read_config_backups a (catching not_found_404 (read_device_diffs i))"

definition api_get_diff :: "string \<Rightarrow> actor \<Rightarrow> (db, jobj) action" where
  "api_get_diff i a = endpoint Perm_read_config_backups a (catching not_found_404 (read_one_diff i))"

definition api_get_device_drift :: "string \<Rightarrow> actor \<Rightarrow> (db, device_drift) action" where
  "api_get_device_drift i a = endpoint Perm_read_config_backups a (catching not_found_404 (detect_drift i))"

definition api_build_drift_report :: "string \<Rightarrow> jobj option \<Rightarrow> actor \<Rightarrow> (db, drift_report) action" where
  "api_build_drift_report scope_type scope_filter a =
     checked (scope_type \<in> set SCOPE_TYPES) (endpoint Perm_read_config_backups a (build_drift_report scope_type scope_filter))"

definition api_create_restore_plan :: "int \<Rightarrow> string \<Rightarrow> string \<Rightarrow> actor \<Rightarrow> (db, jobj) action" where
  "api_create_restore_plan now device target a =
     endpoint Perm_manage_restore_plans a
       (catching (conflict_409 \<circ> not_found_404) (create_restore_plan now device target (username a)))"

definition api_list_restore_plans :: "actor \<Rightarrow> (db, jobj list) action" where
  "api_list_restore_plans a = endpoint Perm_read_config_backups a (list_restore_plans None)"

definition api_get_restore_plan :: "string \<Rightarrow> actor \<Rightarrow> (db, jobj) action" where
  "api_get_restore_plan i a = endpoint Perm_read_config_backups a (catching not_found_404 (get_restore_plan i))"

definition api_approve_restore_plan :: "int \<Rightarrow> string \<Rightarrow> actor \<Rightarrow> (db, jobj) action" where
  "api_approve_restore_plan now i a =
     endpoint Perm_approve_restore_plans a (catching not_found_404 (approve_restore_plan now i (username a)))"

definition api_reject_restore_plan :: "string \<Rightarrow> actor \<Rightarrow> (db, jobj) action" where
  "api_reject_restore_plan i a = endpoint Perm_manage_restore_plans a (catching not_found_404 (reject_restore_plan i))"

end
