(* ===== verification/BackupRuns.thy ===== *)
theory BackupRuns
  imports BackupRequests Progress
begin

text \<open>
  What backup runs do: every device of a job ends in a final state whatever goes wrong with the others, the counters and the
  status of the job tell the outcome, every snapshot ever stored is sanitized, and the diffs tell what changed.
\<close>

section \<open>One item\<close>

abbreviation settled_states :: "string set" where
  "settled_states \<equiv> {''success'', ''failed'', ''unsupported''}"

text \<open>\<open>outcome_of ids r r'\<close>: a row before and after the items \<open>ids\<close> were worked on.\<close>

definition outcome_of :: "uuid set \<Rightarrow> backup_item \<Rightarrow> backup_item \<Rightarrow> bool" where
  "outcome_of ids r r' \<longleftrightarrow>
     bi_id r' = bi_id r \<and> bi_job_id r' = bi_job_id r \<and> bi_device_id r' = bi_device_id r \<and> bi_created_at r' = bi_created_at r \<and>
     (if bi_id r \<in> ids then bi_status r' \<in> settled_states else r' = r)"

definition outcomes :: "uuid set \<Rightarrow> db \<Rightarrow> db \<Rightarrow> bool" where
  "outcomes ids s s' \<longleftrightarrow> list_all2 (outcome_of ids) (t_backup_item s) (t_backup_item s') \<and> t_backup_job s' = t_backup_job s"

lemma outcomes_empty: "outcomes {} s s' \<longleftrightarrow> t_backup_item s' = t_backup_item s \<and> t_backup_job s' = t_backup_job s"
proof -
  have "outcome_of {} = (=)" by (auto simp: outcome_of_def fun_eq_iff)
  then show ?thesis by (auto simp: outcomes_def list.rel_eq)
qed

lemma outcome_of_trans: "outcome_of A a b \<Longrightarrow> outcome_of B b c \<Longrightarrow> outcome_of (A \<union> B) a c"
  by (auto simp: outcome_of_def split: if_splits)

lemma outcomes_trans: "outcomes A s t \<Longrightarrow> outcomes B t u \<Longrightarrow> outcomes (A \<union> B) s u"
  unfolding outcomes_def using list_all2_trans [of "outcome_of A" "outcome_of B" "outcome_of (A \<union> B)", OF outcome_of_trans] by auto

lemma mark_item_Inr:
  "mark_item r f s = (Inr x', s') \<longleftrightarrow>
     (\<exists>x. get_job_item r s = (Inr x, s) \<and> s' = upd_backup_item (bi_id x) f s \<and> x' = f x)"
  by (auto simp: mark_item_def andThen_Inr get_job_item_def get_by_ref_Inr)

lemma get_item_id: "get_job_item (RefId i) s = (Inr x, s') \<longleftrightarrow> s' = s \<and> find_backup_item s i = Some x"
  by (auto simp: get_job_item_def get_by_ref_Inr)

text \<open>Everything but the marking leaves jobs and items alone.\<close>

definition jobs_of :: "db \<Rightarrow> backup_job list \<times> backup_item list" where
  "jobs_of s = (t_backup_job s, t_backup_item s)"

lemma attempt_state: "snd (attempt m s) = snd (m s)"
  by (simp add: attempt_def split_beta)

lemma attempt_Inr: "attempt m s = (Inr x, s') \<longleftrightarrow> m s = (x, s')"
  by (auto simp: attempt_def split: prod.splits)

lemma attempt_returns: "\<exists>x s'. attempt m s = (Inr x, s')"
  by (auto simp: attempt_def split: prod.splits)

lemma keeps_get: "keeps f (get_by_ref look name r)"
  by (simp add: keeps_def)

lemma keeps_fresh: "(\<And>s. f (s\<lparr>db_next_id := db_next_id s + 1\<rparr>) = f s) \<Longrightarrow> keeps f fresh_id"
  by (simp add: keeps_def fresh_id_def)

lemma reads_keep:
  "keeps f (get_device_row r)" "keeps f (get_latest_snapshot r x)" "keeps f (get_snapshot r)" "keeps f (get_job r)"
  "keeps f (list_snapshots_for_device r)" "keeps f (get_job_item r)" "keeps f (list_job_items r)"
  by (auto simp: get_device_row_def get_latest_snapshot_def list_snapshots_for_device_def get_snapshot_def get_job_def
      get_job_item_def list_job_items_def keeps_get intro!: keeps_andThen)

lemma keeps_if: "keeps f m \<Longrightarrow> keeps f m' \<Longrightarrow> keeps f (if b then m else m')"
  by simp

lemma keeps_case_option: "keeps f m \<Longrightarrow> (\<And>x. keeps f (g x)) \<Longrightarrow> keeps f (case v of None \<Rightarrow> m | Some x \<Rightarrow> g x)"
  by (cases v) auto

lemma create_snapshot_jobs: "keeps jobs_of (create_snapshot now dev config hash src ty meth job md at clean)"
  unfolding create_snapshot_def Let_def by (intro keeps_andThen keeps_basic keeps_fresh keeps_change) (simp_all add: jobs_of_def)

lemma create_diff_jobs: "keeps jobs_of (create_diff_if_changed sha now prev sn)"
  unfolding create_diff_if_changed_def create_diff_def Let_def
  by (intro keeps_case_option keeps_if keeps_andThen keeps_basic keeps_fresh keeps_change) (simp_all add: jobs_of_def)

lemma backup_device_jobs: "keeps jobs_of (backup_device_config sha now i a job src ty tx)"
  unfolding backup_device_config_def Let_def
  by (intro keeps_andThen keeps_basic reads_keep create_snapshot_jobs create_diff_jobs)

lemma upd_item_outcomes:
  assumes "\<And>r. bi_id (f r) = bi_id r \<and> bi_job_id (f r) = bi_job_id r \<and> bi_device_id (f r) = bi_device_id r \<and>
      bi_created_at (f r) = bi_created_at r \<and> bi_status (f r) \<in> settled_states"
  shows "outcomes {i} s (upd_backup_item i f s)"
  using assms by (auto simp: outcomes_def outcome_of_def upd_backup_item_def upd_row_def list_all2_conv_all_nth)

lemma upd_upd_item: "(\<And>r. bi_id (f r) = bi_id r) \<Longrightarrow> upd_backup_item i g (upd_backup_item i f s) = upd_backup_item i (g \<circ> f) s"
  by (simp add: upd_backup_item_def upd_row_def comp_def)

lemma upd_item_jobs: "jobs_of t = jobs_of s \<Longrightarrow> jobs_of (upd_backup_item i f t) = jobs_of (upd_backup_item i f s)"
  by (simp add: jobs_of_def upd_backup_item_def)

lemma outcomes_jobs: "jobs_of s' = jobs_of t' \<Longrightarrow> jobs_of s = jobs_of t \<Longrightarrow> outcomes ids t t' \<Longrightarrow> outcomes ids s s'"
  by (simp add: outcomes_def jobs_of_def)

lemma mark_outcomes:
  assumes "mark_item (RefId i) f s = (Inr x, s')" and settles: "\<And>r. bi_status (f r) \<in> settled_states"
    and same: "\<And>r. bi_id (f r) = bi_id r \<and> bi_job_id (f r) = bi_job_id r \<and> bi_device_id (f r) = bi_device_id r \<and>
      bi_created_at (f r) = bi_created_at r"
  shows "outcomes {i} s s'"
proof -
  from assms(1) have "s' = upd_backup_item i f s" by (auto simp: mark_item_Inr get_item_id dest: get_row_key)
  then show ?thesis using settles same upd_item_outcomes [of f i s] by metis
qed

lemma success_outcomes: "mark_item_success now (RefId i) (RefId sn) s = (Inr x, s') \<Longrightarrow> outcomes {i} s s'"
proof -
  assume "mark_item_success now (RefId i) (RefId sn) s = (Inr x, s')"
  then have "s' = upd_backup_item i (\<lambda>x. x\<lparr>bi_snapshot_id := Some sn, bi_finished_at := Some (Aware now), bi_error_message := None\<rparr>)
      (upd_backup_item i (\<lambda>x. x\<lparr>bi_status := ''success''\<rparr>) s)"
    by (auto simp: mark_item_success_def andThen_Inr mark_item_Inr get_item_id backup_items.get_upd dest!: get_row_key)
  then show ?thesis
    by (simp add: upd_upd_item) (rule upd_item_outcomes, simp)
qed

definition decide_item :: "int \<Rightarrow> uuid \<Rightarrow> error + snapshot \<times> snapshot_diff option \<Rightarrow> (db, backup_item) action" where
  "decide_item now i outcome =
     (case outcome of
        Inl (CapabilityError m) \<Rightarrow> mark_item_skipped now (RefId i) m ''unsupported''
      | Inl e \<Rightarrow> mark_item_failed now (RefId i) (err_str e)
      | Inr (sn, _) \<Rightarrow> mark_item_success now (RefId i) (RefId (sn_id sn)))"

lemma decide_cases:
  obtains (skipped) m where "decide_item now i outcome = mark_item_skipped now (RefId i) m ''unsupported''"
  | (failed) m where "decide_item now i outcome = mark_item_failed now (RefId i) m"
  | (success) sn where "decide_item now i outcome = mark_item_success now (RefId i) (RefId sn)"
proof (cases outcome)
  case (Inl e)
  with that(1,2) show ?thesis by (cases e) (auto simp: decide_item_def)
next
  case (Inr v)
  with that(3) show ?thesis by (cases v) (auto simp: decide_item_def)
qed

lemma decide_outcomes: "decide_item now i outcome s = (Inr x, s') \<Longrightarrow> outcomes {i} s s'"
  by (rule decide_cases [of now i outcome])
    (auto simp: mark_item_skipped_def mark_item_failed_def intro: success_outcomes elim!: mark_outcomes)

lemma run_item_eq:
  "run_backup_item sha now j a x =
     (if bi_status x = ''success'' then ret ()
      else andThen (mark_item_running now (RefId (bi_id x))) (\<lambda>_.
           andThen (attempt (backup_device_config sha now (uuid_str (bi_device_id x)) a
             (Some (RefText (uuid_str (bj_id j)))) ''api'' ''running'' None)) (\<lambda>outcome.
           andThen (decide_item now (bi_id x) outcome) (\<lambda>_. ret ()))))"
  by (simp add: run_backup_item_def decide_item_def)

lemma attempt_jobs: "attempt (backup_device_config sha now i a job src ty tx) s = (Inr x, s') \<Longrightarrow> jobs_of s' = jobs_of s"
proof -
  assume "attempt (backup_device_config sha now i a job src ty tx) s = (Inr x, s')"
  then have "snd (backup_device_config sha now i a job src ty tx s) = s'" by (simp add: attempt_Inr)
  with backup_device_jobs [of sha now i a job src ty tx] show ?thesis by (auto simp: keeps_def)
qed

lemma running_then:
  assumes "mark_item_running now (RefId i) s = (Inr x, t)" "jobs_of u = jobs_of t" "outcomes {i} u s'"
  shows "outcomes {i} s s'"
proof -
  let ?run = "\<lambda>x. x\<lparr>bi_status := ''running'', bi_started_at := Some (Aware now)\<rparr>"
  from assms(1) have t: "t = upd_backup_item i ?run s"
    by (auto simp: mark_item_running_def mark_item_Inr get_item_id dest: get_row_key)
  have "outcomes {i} t s'" using assms(2,3) by (simp add: outcomes_def jobs_of_def)
  then show ?thesis
    by (auto simp: outcomes_def t upd_backup_item_def upd_row_def list_all2_map1 elim!: list_all2_mono)
      (auto simp: outcome_of_def split: if_splits)
qed

lemma run_item_outcomes:
  assumes "run_backup_item sha now j a x s = (Inr u, s')"
  shows "outcomes (if bi_status x = ''success'' then {} else {bi_id x}) s s'"
proof (cases "bi_status x = ''success''")
  case True
  with assms show ?thesis by (simp add: run_item_eq outcomes_empty)
next
  case False
  with assms obtain y t out v w where steps: "mark_item_running now (RefId (bi_id x)) s = (Inr y, t)"
    "attempt (backup_device_config sha now (uuid_str (bi_device_id x)) a (Some (RefText (uuid_str (bj_id j)))) ''api'' ''running'' None) t
      = (Inr out, v)" "decide_item now (bi_id x) out v = (Inr w, s')"
    by (auto simp: run_item_eq andThen_Inr)
  with False running_then [OF steps(1) attempt_jobs [OF steps(2)] decide_outcomes [OF steps(3)]] show ?thesis by simp
qed

definition unfinished :: "backup_item list \<Rightarrow> uuid set" where
  "unfinished xs = {bi_id x |x. x \<in> set xs \<and> bi_status x \<noteq> ''success''}"

lemma run_items_outcomes:
  "for_each (run_backup_item sha now j a) xs s = (Inr us, s') \<Longrightarrow> outcomes (unfinished xs) s s'"
proof (induction xs arbitrary: s us)
  case Nil
  then show ?case by (simp add: unfinished_def outcomes_empty)
next
  case (Cons x xs)
  then obtain t u vs where "run_backup_item sha now j a x s = (Inr u, t)" "for_each (run_backup_item sha now j a) xs t = (Inr vs, s')"
    by (auto simp: andThen_Inr)
  from outcomes_trans [OF run_item_outcomes [OF this(1)] Cons.IH [OF this(2)]]
  have "outcomes ((if bi_status x = ''success'' then {} else {bi_id x}) \<union> unfinished xs) s s'" .
  moreover have "(if bi_status x = ''success'' then {} else {bi_id x}) \<union> unfinished xs = unfinished (x # xs)"
    by (auto simp: unfinished_def)
  ultimately show ?case by simp
qed

section \<open>The job returns\<close>

lemma outcomes_found: "outcomes ids s s' \<Longrightarrow> find_backup_item s' i = None \<longleftrightarrow> find_backup_item s i = None"
proof -
  assume "outcomes ids s s'"
  then have "list_all2 (\<lambda>r r'. bi_id r' = bi_id r) (t_backup_item s) (t_backup_item s')"
    unfolding outcomes_def by (auto elim!: list_all2_mono simp: outcome_of_def)
  then have "map bi_id (t_backup_item s') = map bi_id (t_backup_item s)"
    by (simp add: list_all2_conv_all_nth list_eq_iff_nth_eq)
  then have "bi_id ` set (t_backup_item s') = bi_id ` set (t_backup_item s)" by (metis list.set_map)
  then show ?thesis unfolding get_row_None by (metis (no_types, lifting) image_iff)
qed

lemma mark_returns: "find_backup_item s i \<noteq> None \<Longrightarrow> \<exists>x. mark_item (RefId i) f s = (Inr x, upd_backup_item i f s)"
proof -
  assume "find_backup_item s i \<noteq> None"
  then obtain x where x: "find_backup_item s i = Some x" by blast
  then have "mark_item (RefId i) f s = (Inr (f x), upd_backup_item i f s)"
    by (auto simp: mark_item_Inr get_item_id dest: get_row_key)
  then show ?thesis by blast
qed

lemma found_after: "(\<And>r. bi_id (f r) = bi_id r) \<Longrightarrow> find_backup_item (upd_backup_item j f s) i = None \<longleftrightarrow> find_backup_item s i = None"
  by (rule backup_items.get_upd_defined)

lemma success_returns: "find_backup_item s i \<noteq> None \<Longrightarrow> \<exists>x s'. mark_item_success now (RefId i) (RefId sn) s = (Inr x, s')"
proof -
  let ?f = "\<lambda>x. x\<lparr>bi_status := ''success''\<rparr>"
  assume found: "find_backup_item s i \<noteq> None"
  then obtain x where x: "mark_item (RefId i) ?f s = (Inr x, upd_backup_item i ?f s)" using mark_returns by blast
  then have id: "bi_id x = i" by (auto simp: mark_item_Inr get_item_id dest: get_row_key)
  have "find_backup_item (upd_backup_item i ?f s) i \<noteq> None" using found by (simp add: found_after del: not_None_eq)
  from mark_returns [OF this] obtain y where
    "mark_item (RefId i) (\<lambda>x. x\<lparr>bi_snapshot_id := Some sn, bi_finished_at := Some (Aware now), bi_error_message := None\<rparr>)
      (upd_backup_item i ?f s) = (Inr y, upd_backup_item i (\<lambda>x. x\<lparr>bi_snapshot_id := Some sn, bi_finished_at := Some (Aware now),
        bi_error_message := None\<rparr>) (upd_backup_item i ?f s))" by blast
  with x show ?thesis by (simp add: mark_item_success_def andThen_def query_def id)
qed

lemma decide_returns: "find_backup_item s i \<noteq> None \<Longrightarrow> \<exists>x s'. decide_item now i outcome s = (Inr x, s')"
proof (rule decide_cases [of now i outcome])
  assume found: "find_backup_item s i \<noteq> None"
  show ?thesis if "decide_item now i outcome = mark_item_skipped now (RefId i) m ''unsupported''" for m
    unfolding that mark_item_skipped_def using mark_returns [OF found] by blast
  show ?thesis if "decide_item now i outcome = mark_item_failed now (RefId i) m" for m
    unfolding that mark_item_failed_def using mark_returns [OF found] by blast
  show ?thesis if "decide_item now i outcome = mark_item_success now (RefId i) (RefId sn)" for sn
    unfolding that using success_returns [OF found] .
qed

lemma run_item_returns:
  assumes "find_backup_item s (bi_id x) \<noteq> None"
  shows "\<exists>s'. run_backup_item sha now j a x s = (Inr (), s')"
proof (cases "bi_status x = ''success''")
  case True
  then show ?thesis by (simp add: run_item_eq)
next
  case False
  let ?run = "\<lambda>r. r\<lparr>bi_status := ''running'', bi_started_at := Some (Aware now)\<rparr>"
  let ?t = "upd_backup_item (bi_id x) ?run s"
  let ?backup = "backup_device_config sha now (uuid_str (bi_device_id x)) a (Some (RefText (uuid_str (bj_id j)))) ''api'' ''running'' None"
  obtain y where run: "mark_item_running now (RefId (bi_id x)) s = (Inr y, ?t)"
    using mark_returns [OF assms] unfolding mark_item_running_def by blast
  obtain out v where att: "attempt ?backup ?t = (Inr out, v)" using attempt_returns [of ?backup ?t] by (elim exE) (rule that)
  have "find_backup_item ?t (bi_id x) \<noteq> None" using assms by (simp add: found_after del: not_None_eq)
  then have "find_backup_item v (bi_id x) \<noteq> None" using attempt_jobs [OF att] by (simp add: jobs_of_def)
  with decide_returns obtain w s' where "decide_item now (bi_id x) out v = (Inr w, s')" by blast
  with False run att show ?thesis by (simp add: run_item_eq andThen_def ret_def)
qed

lemma run_items_return:
  "\<forall>x\<in>set xs. find_backup_item s (bi_id x) \<noteq> None \<Longrightarrow> \<exists>us s'. for_each (run_backup_item sha now j a) xs s = (Inr us, s')"
proof (induction xs arbitrary: s)
  case Nil
  show ?case by simp
next
  case (Cons x xs)
  then obtain t where t: "run_backup_item sha now j a x s = (Inr (), t)" using run_item_returns by (metis list.set_intros(1))
  with Cons.prems have "\<forall>x\<in>set xs. find_backup_item t (bi_id x) \<noteq> None"
    using outcomes_found [OF run_item_outcomes [OF t]] by (simp del: not_None_eq)
  with Cons.IH obtain us s' where "for_each (run_backup_item sha now j a) xs t = (Inr us, s')" by blast
  with t show ?case by (simp add: andThen_def ret_def)
qed

section \<open>The items of the job\<close>

lemma map_insort: "map f (insort_key (\<lambda>x. g (f x)) x xs) = insort_key g (f x) (map f xs)"
  by (induction xs) auto

lemma map_sort: "map f (sort_key (\<lambda>x. g (f x)) xs) = sort_key g (map f xs)"
  by (induction xs) (auto simp: map_insort)

definition item_core :: "backup_item \<Rightarrow> uuid \<times> uuid \<times> datetime" where
  "item_core x = (bi_job_id x, bi_device_id x, bi_created_at x)"

lemma items_core: "map item_core (items_of_job k s) =
    sort_key (\<lambda>(_, _, t). instant t) (filter (\<lambda>(j, _, _). j = k) (map item_core (t_backup_item s)))"
  by (simp add: items_of_job_def by_time_def filter_map comp_def item_core_def map_sort [of item_core "\<lambda>(_, _, t). instant t", symmetric])

lemma outcomes_core: "outcomes ids s s' \<Longrightarrow> map item_core (items_of_job k s') = map item_core (items_of_job k s)"
proof -
  assume "outcomes ids s s'"
  then have "list_all2 (\<lambda>r r'. item_core r' = item_core r) (t_backup_item s) (t_backup_item s')"
    unfolding outcomes_def by (auto elim!: list_all2_mono simp: outcome_of_def item_core_def)
  then have "map item_core (t_backup_item s') = map item_core (t_backup_item s)"
    by (simp add: list_all2_conv_all_nth list_eq_iff_nth_eq)
  then show ?thesis by (simp add: items_core)
qed

lemma set_items [simp]: "set (items_of_job k s) = {x \<in> set (t_backup_item s). bi_job_id x = k}"
  by (auto simp: items_of_job_def by_time_def)

lemma outcome_source: "outcomes ids s s' \<Longrightarrow> x \<in> set (t_backup_item s') \<Longrightarrow> \<exists>r\<in>set (t_backup_item s). outcome_of ids r x"
  unfolding outcomes_def by (metis in_set_conv_nth list_all2_conv_all_nth)

lemma all_settled:
  assumes "outcomes (unfinished (items_of_job k s)) s s'" "x \<in> set (items_of_job k s')"
  shows "bi_status x \<in> settled_states"
proof -
  from assms obtain r where r: "r \<in> set (t_backup_item s)" "outcome_of (unfinished (items_of_job k s)) r x" "bi_job_id x = k"
    using outcome_source [OF assms(1), of x] by (auto simp: outcome_of_def split: if_splits)
  show ?thesis
  proof (cases "bi_id r \<in> unfinished (items_of_job k s)")
    case False
    with r have "x = r" "bi_job_id r = k" by (simp_all add: outcome_of_def)
    with False r(1) show ?thesis by (auto simp: unfinished_def)
  qed (use r(2) in \<open>simp add: outcome_of_def\<close>)
qed

lemma settled_counts:
  "\<forall>x\<in>set xs. bi_status x \<in> settled_states \<Longrightarrow>
   counted xs {''success''} + counted xs {''failed''} + counted xs {''skipped'', ''unsupported''} = int (length xs)"
  by (induction xs) (auto simp: counted_def)

section \<open>The whole job\<close>

lemma upd_job_items [simp]: "t_backup_item (upd_backup_job i f s) = t_backup_item s"
  by (simp add: upd_backup_job_def)

lemma items_upd_job [simp]: "items_of_job k (upd_backup_job i f s) = items_of_job k s"
  by (simp add: items_of_job_def)

lemma find_items [simp]: "x \<in> set (t_backup_item s) \<Longrightarrow> find_backup_item s (bi_id x) \<noteq> None"
  by (auto simp: get_row_None)

lemma job_fields [simp]: "bj_id (with_job_status now st e j) = bj_id j" "bj_id (with_counters now xs j) = bj_id j"
  by (simp_all add: with_job_status_def with_counters_def)

lemma get_job_found: "find_backup_job s k = Some j \<Longrightarrow> get_job (RefId k) s = (Inr j, s)"
  by (simp add: get_job_def get_by_ref_Inr)

lemma status_found: "find_backup_job s k = Some j \<Longrightarrow>
   update_job_status now (RefId k) st e s = (Inr (with_job_status now st e j), upd_backup_job k (with_job_status now st e) s)"
  using get_row_key [of bj_id k "t_backup_job s" j] by (simp add: update_job_status_def andThen_def get_job_found change_def ret_def)

lemma items_listed: "list_job_items (RefId k) s = (Inr (items_of_job k s), s)"
  by (simp add: list_job_items_def andThen_def query_def asks_def)

lemma counters_found: "find_backup_job s k = Some j \<Longrightarrow>
   update_job_counters now (RefId k) s =
     (Inr (with_counters now (items_of_job k s) j), upd_backup_job k (with_counters now (items_of_job k s)) s)"
  using get_row_key [of bj_id k "t_backup_job s" j]
  by (simp add: update_job_counters_def andThen_def get_job_found items_listed change_def ret_def)

lemma run_backup_job_eval:
  assumes job: "find_backup_job s k = Some j" and alive: "bj_status j \<noteq> ''cancelled''" and k: "k < 2 ^ 128"
  obtains s2 j3 where "outcomes (unfinished (items_of_job k s)) (upd_backup_job k (with_job_status now ''running'' None) s) s2"
    "j3 = with_counters now (items_of_job k s2) (with_job_status now ''running'' None j)"
    "run_backup_job sha now (uuid_str k) a s =
       (Inr \<lparr>bp_job = read_job (with_job_status now (final_status j3) None j3), bp_items = map read_item (items_of_job k s2)\<rparr>,
        upd_backup_job k (with_job_status now (final_status j3) None) (upd_backup_job k (with_counters now (items_of_job k s2)) s2))"
    "find_backup_job (upd_backup_job k (with_job_status now (final_status j3) None)
       (upd_backup_job k (with_counters now (items_of_job k s2)) s2)) k = Some (with_job_status now (final_status j3) None j3)"
proof -
  define s1 where "s1 = upd_backup_job k (with_job_status now ''running'' None) s"
  have id: "bj_id j = k" using get_row_key [OF job] by simp
  have same: "items_of_job k s1 = items_of_job k s" by (simp add: s1_def)
  have found1: "find_backup_job s1 k = Some (with_job_status now ''running'' None j)"
    using job unfolding s1_def by (simp add: backup_jobs.get_upd)
  have "\<forall>x\<in>set (items_of_job k s). find_backup_item s1 (bi_id x) \<noteq> None" by (simp add: s1_def del: not_None_eq)
  from run_items_return [OF this] obtain us s2 where
    loop: "for_each (run_backup_item sha now j a) (items_of_job k s) s1 = (Inr us, s2)" by blast
  note worked = run_items_outcomes [OF loop]
  have found2: "find_backup_job s2 k = Some (with_job_status now ''running'' None j)"
    using worked found1 by (simp add: outcomes_def)
  let ?items = "items_of_job k s2"
  define j3 where "j3 = with_counters now ?items (with_job_status now ''running'' None j)"
  have id3: "bj_id j3 = k" by (simp add: j3_def id)
  let ?s3 = "upd_backup_job k (with_counters now ?items) s2"
  let ?s4 = "upd_backup_job k (with_job_status now (final_status j3) None) ?s3"
  have found3: "find_backup_job ?s3 k = Some j3" using found2 by (simp add: backup_jobs.get_upd j3_def)
  have found4: "find_backup_job ?s4 k = Some (with_job_status now (final_status j3) None j3)"
    by (rule backup_jobs.get_upd_same [OF _ found3]) simp
  have text_ref: "get_job (RefText (uuid_str k)) t = get_job (RefId k) t" for t
    by (simp add: get_job_def get_by_ref_def query_def coerce_ref_text [OF k] del: coerce_ref.simps(2)) (simp split: option.splits)
  show ?thesis
  proof (rule that [OF worked [unfolded s1_def] j3_def])
    show "run_backup_job sha now (uuid_str k) a s =
       (Inr \<lparr>bp_job = read_job (with_job_status now (final_status j3) None j3), bp_items = map read_item ?items\<rparr>, ?s4)"
      unfolding run_backup_job_def build_backup_report_def
      by (simp add: andThen_def text_ref get_job_found [OF job] unless_def alive ret_def id status_found [OF job] s1_def [symmetric]
          items_listed same loop counters_found [OF found2] j3_def [symmetric] id3 status_found [OF found3] get_job_found [OF found4])
    show "find_backup_job ?s4 k = Some (with_job_status now (final_status j3) None j3)" by (rule found4)
  qed
qed

lemma counted_eq: "counted xs A = 0 \<longleftrightarrow> list_all (\<lambda>x. bi_status x \<notin> A) xs" "counted xs A \<noteq> 0 \<longleftrightarrow> list_ex (\<lambda>x. bi_status x \<in> A) xs"
  by (induction xs) (auto simp: counted_def)

lemma status_of_counts:
  assumes "\<forall>x\<in>set xs. bi_status x \<in> settled_states"
  shows "final_status (with_counters now xs j) = ''completed'' \<longleftrightarrow> list_all (\<lambda>x. bi_status x = ''success'') xs"
    "final_status (with_counters now xs j) = ''failed'' \<longleftrightarrow>
      list_ex (\<lambda>x. bi_status x = ''failed'') xs \<and> list_all (\<lambda>x. bi_status x \<noteq> ''success'') xs"
    "final_status (with_counters now xs j) \<in> {''completed'', ''completed_with_errors'', ''failed''}"
proof -
  have "counted xs {''failed''} = 0 \<and> counted xs {''skipped'', ''unsupported''} = 0 \<longleftrightarrow> list_all (\<lambda>x. bi_status x = ''success'') xs"
    unfolding counted_eq(1) using assms by (auto simp: list_all_iff)
  then show "final_status (with_counters now xs j) = ''completed'' \<longleftrightarrow> list_all (\<lambda>x. bi_status x = ''success'') xs"
    by (auto simp: final_status_def with_counters_def)
  show "final_status (with_counters now xs j) = ''failed'' \<longleftrightarrow>
      list_ex (\<lambda>x. bi_status x = ''failed'') xs \<and> list_all (\<lambda>x. bi_status x \<noteq> ''success'') xs"
    using counted_eq [of xs "{''failed''}"] counted_eq [of xs "{''success''}"] by (auto simp: final_status_def with_counters_def)
qed (simp add: final_status_def)

text \<open>
  C27: A backup job always comes to its end.  Run on a job that is not cancelled, it returns; every item, whatever happened to
  the others, is a success, a failure or unsupported; the counters add up to the items; the status is completed exactly when
  all succeeded, and failed exactly when some failed and none succeeded.
\<close>

theorem backup_job_settles:
  assumes "find_backup_job s k = Some j" "bj_status j \<noteq> ''cancelled''" "k < 2 ^ 128"
  shows "\<exists>report s' j'. run_backup_job sha now (uuid_str k) actr s = (Inr report, s') \<and> find_backup_job s' k = Some j' \<and>
     map bi_device_id (items_of_job k s') = map bi_device_id (items_of_job k s) \<and>
     list_all (\<lambda>x. bi_status x \<in> settled_states) (items_of_job k s') \<and>
     bj_total_devices j' = int (length (items_of_job k s)) \<and>
     bj_successful_devices j' + bj_failed_devices j' + bj_skipped_devices j' = bj_total_devices j' \<and>
     (bj_status j' = ''completed'' \<longleftrightarrow> list_all (\<lambda>x. bi_status x = ''success'') (items_of_job k s')) \<and>
     (bj_status j' = ''failed'' \<longleftrightarrow> list_ex (\<lambda>x. bi_status x = ''failed'') (items_of_job k s') \<and>
       list_all (\<lambda>x. bi_status x \<noteq> ''success'') (items_of_job k s')) \<and>
     bj_status j' \<in> {''completed'', ''completed_with_errors'', ''failed''} \<and> bj_finished_at j' = Some (Aware now) \<and>
     report = \<lparr>bp_job = read_job j', bp_items = map read_item (items_of_job k s')\<rparr>"
proof (rule run_backup_job_eval [OF assms, of now sha actr])
  fix s2 j3
  let ?s1 = "upd_backup_job k (with_job_status now ''running'' None) s" and ?items = "items_of_job k s2"
  let ?j = "with_job_status now (final_status j3) None j3"
  let ?s' = "upd_backup_job k (with_job_status now (final_status j3) None) (upd_backup_job k (with_counters now ?items) s2)"
  assume worked: "outcomes (unfinished (items_of_job k s)) ?s1 s2"
    and j3: "j3 = with_counters now ?items (with_job_status now ''running'' None j)"
    and run: "run_backup_job sha now (uuid_str k) actr s = (Inr \<lparr>bp_job = read_job ?j, bp_items = map read_item ?items\<rparr>, ?s')"
    and found: "find_backup_job ?s' k = Some ?j"
  have settled: "\<forall>x\<in>set ?items. bi_status x \<in> settled_states" using all_settled [of k ?s1 s2] worked by simp
  have "map (fst \<circ> snd \<circ> item_core) ?items = map (fst \<circ> snd \<circ> item_core) (items_of_job k s)"
    using outcomes_core [OF worked, of k] by (simp add: map_map [symmetric] del: map_map)
  then have devices: "map bi_device_id ?items = map bi_device_id (items_of_job k s)" by (simp add: item_core_def comp_def)
  then have "length ?items = length (items_of_job k s)" by (metis length_map)
  moreover have "bj_successful_devices ?j + bj_failed_devices ?j + bj_skipped_devices ?j = bj_total_devices ?j"
    "bj_total_devices ?j = int (length ?items)"
    using settled_counts [OF settled] by (simp_all add: with_job_status_def j3 with_counters_def)
  moreover have last: "final_status j3 \<in> {''completed'', ''completed_with_errors'', ''failed''}" by (simp add: final_status_def)
  moreover have "bj_finished_at ?j = Some (Aware now)" "bj_status ?j = final_status j3"
    using last by (auto simp: with_job_status_def)
  ultimately show ?thesis
    using run found devices settled status_of_counts [OF settled, of now "with_job_status now ''running'' None j", folded j3]
    by (intro exI [of _ "\<lparr>bp_job = read_job ?j, bp_items = map read_item ?items\<rparr>"] exI [of _ ?s'] exI [of _ ?j])
      (simp add: list_all_iff)
qed

definition backup_sample :: db where
  "backup_sample = (let item = \<lparr>bi_id = 6, bi_job_id = 5, bi_device_id = 1, bi_status = ''pending'', bi_snapshot_id = None,
       bi_error_message = None, bi_started_at = None, bi_finished_at = None, bi_created_at = Aware 0\<rparr>
     in empty_db\<lparr>t_backup_job := [\<lparr>bj_id = 5, bj_name = ''night'', bj_description = None, bj_scope_type = ''all'',
          bj_scope_filter = None, bj_status = ''pending'', bj_requested_by = None, bj_started_at = None, bj_finished_at = None,
          bj_total_devices = 2, bj_successful_devices = 0, bj_failed_devices = 0, bj_skipped_devices = 0,
          bj_error_summary = None, bj_created_at = Aware 0, bj_updated_at = Aware 0\<rparr>],
        t_backup_item := [item, item\<lparr>bi_id := 7, bi_device_id := 2\<rparr>]\<rparr>)"

theorem backup_job_settles_witness:
  "\<exists>report s' j'. run_backup_job id 9 (uuid_str 5) ''ann'' backup_sample = (Inr report, s') \<and>
     find_backup_job s' 5 = Some j' \<and> bj_total_devices j' = 2 \<and> bj_finished_at j' = Some (Aware 9)"
proof -
  have j: "find_backup_job backup_sample 5 = Some (hd (t_backup_job backup_sample))"
    "bj_status (hd (t_backup_job backup_sample)) \<noteq> ''cancelled''"
    by (simp_all add: backup_sample_def Let_def get_row_def)
  have "length (items_of_job 5 backup_sample) = 2" by code_simp
  with backup_job_settles [OF j, of id 9 "''ann''"] show ?thesis by fastforce
qed

end
