(* ===== verification/Drivers.thy ===== *)
theory Drivers
  imports VlanCommands
begin

text \<open>
  app/drivers: the vendor drivers.  A driver class is a record of its class attributes and of the methods the
  subclasses override; a subclass is an update of the record of its parent, and the operations of
  BaseNetworkDriver take the class of the instance as their first argument.  The commands an instance has planned
  are the state its operations pass along.
\<close>

section \<open>The values drivers exchange\<close>

record command_result =
  cr_commands :: "string list"
  cr_output :: string
  cr_success :: bool
  cr_changed :: bool
  cr_error :: "string option"
  cr_warnings :: "string list"

definition masked_commands :: "string list \<Rightarrow> command_result \<Rightarrow> string list" where
  "masked_commands explicit_secrets r = mask_command_list explicit_secrets (cr_commands r)"

record verification_result =
  vr_success :: bool
  vr_checks :: "string list"
  vr_errors :: "string list"

record device_capabilities =
  supports_ssh :: bool
  supports_telnet :: bool
  supports_snmp :: bool
  supports_vlan :: bool
  supports_acl :: bool
  supports_trunk :: bool
  supports_rollback :: bool
  supports_candidate_config :: bool
  supports_save_config :: bool
  supports_config_replace :: bool
  supports_password_change :: bool
  supports_interface_description :: bool
  supports_lldp :: bool
  supports_cdp :: bool
  supports_stp :: bool
  command_syntax_family :: string
  destructive_apply_confirmed :: bool

record vlan_intent =
  vi_vlan_id :: int
  vi_name :: "string option"
  vi_present :: bool
  vi_force :: bool

record port_intent =
  pi_interface :: string
  pi_mode :: string
  pi_access_vlan :: "int option"
  pi_allowed_vlans :: "int list option"
  pi_native_vlan :: "int option"
  pi_description :: "string option"
  pi_up :: bool

record acl_rule =
  ar_sequence :: int
  ar_action :: string
  ar_protocol :: string
  ar_src :: string
  ar_src_port :: "string option"
  ar_dst :: string
  ar_dst_port :: "string option"
  ar_remark :: "string option"

record acl_definition =
  ad_name :: string
  ad_acl_type :: string
  ad_rules :: "acl_rule list"

record expected_state =
  es_vlan :: "vlan_intent option"
  es_port :: "port_intent option"
  es_acl :: "acl_definition option"

section \<open>The driver class\<close>

type_synonym 'a planning = "string list \<Rightarrow> (error + 'a) \<times> string list"

definition plan_result :: "string list \<Rightarrow> bool \<Rightarrow> string list \<Rightarrow> command_result planning" where
  "plan_result commands changed warnings planned =
     (Inr \<lparr>cr_commands = commands, cr_output = '''', cr_success = True, cr_changed = changed, cr_error = None,
           cr_warnings = warnings\<rparr>, planned @ commands)"

definition refuse :: "error \<Rightarrow> 'a planning" where
  "refuse e planned = (Inl e, planned)"

text \<open>A method that renders first: what it raises is raised before anything is planned.\<close>

definition plan_rendered :: "error + string list \<Rightarrow> string list \<Rightarrow> command_result planning" where
  "plan_rendered rendered warnings =
     (case rendered of Inl e \<Rightarrow> refuse e | Inr commands \<Rightarrow> plan_result commands True warnings)"

record driver_class =
  dr_name :: string
  dr_scrapli_platform :: "string option"
  dr_netmiko_device_type :: "string option"
  dr_capabilities :: device_capabilities
  dr_running_config_command :: "error + string"
  dr_save_commands :: "string list"
  dr_change_local_user_password :: "string \<Rightarrow> string \<Rightarrow> command_result planning"
  dr_render_vlan_present :: "vlan_intent \<Rightarrow> error + string list"
  dr_render_vlan_absent :: "vlan_intent \<Rightarrow> error + string list"
  dr_render_access_port :: "port_intent \<Rightarrow> error + string list"
  dr_render_trunk_port :: "port_intent \<Rightarrow> error + string list"
  dr_render_acl :: "acl_definition \<Rightarrow> error + string list"
  dr_render_show_vlan_command :: "int \<Rightarrow> error + string"

text \<open>The methods of BaseNetworkDriver that a subclass may leave as they are.\<close>

definition base_render_acl :: "string \<Rightarrow> acl_definition \<Rightarrow> error + string list" where
  "base_render_acl self_name acl = Inl (CapabilityError (self_name @ '' does not implement ACL operations''))"

definition base_save_commands :: "string list" where
  "base_save_commands = []"

section \<open>The operations of BaseNetworkDriver\<close>

definition pre_delete_vlan_checks :: "driver_class \<Rightarrow> int \<Rightarrow> error + string list" where
  "pre_delete_vlan_checks k vlan_id =
     (case dr_render_show_vlan_command k vlan_id of Inl e \<Rightarrow> Inl e | Inr c \<Rightarrow> Inr [c])"

definition save_config :: "driver_class \<Rightarrow> command_result planning" where
  "save_config k = plan_result (dr_save_commands k) True []"

definition driver_create_vlan :: "driver_class \<Rightarrow> int \<Rightarrow> string option \<Rightarrow> command_result planning" where
  "driver_create_vlan k vlan_id name =
     plan_rendered (dr_render_vlan_present k \<lparr>vi_vlan_id = vlan_id, vi_name = name, vi_present = True, vi_force = False\<rparr>) []"

definition absent_intent :: "int \<Rightarrow> bool \<Rightarrow> vlan_intent" where
  "absent_intent vlan_id force = \<lparr>vi_vlan_id = vlan_id, vi_name = None, vi_present = False, vi_force = force\<rparr>"

definition DELETE_WARNING :: string where
  "DELETE_WARNING = ''VLAN deletion requires unused VLAN verification before approval.''"

definition driver_delete_vlan :: "driver_class \<Rightarrow> int \<Rightarrow> bool \<Rightarrow> command_result planning" where
  "driver_delete_vlan k vlan_id force =
     (if force then plan_rendered (dr_render_vlan_absent k (absent_intent vlan_id True)) []
      else case pre_delete_vlan_checks k vlan_id of
        Inl e \<Rightarrow> refuse e
      | Inr checks \<Rightarrow>
          (case dr_render_vlan_absent k (absent_intent vlan_id False) of
             Inl e \<Rightarrow> refuse e
           | Inr commands \<Rightarrow> plan_result (checks @ commands) True [DELETE_WARNING]))"

definition configure_access_port ::
  "driver_class \<Rightarrow> string \<Rightarrow> int \<Rightarrow> string option \<Rightarrow> string \<Rightarrow> command_result planning" where
  "configure_access_port k ifc vlan_id description admin_state =
     plan_rendered (dr_render_access_port k
       \<lparr>pi_interface = ifc, pi_mode = ''access'', pi_access_vlan = Some vlan_id, pi_allowed_vlans = None,
        pi_native_vlan = None, pi_description = description, pi_up = (admin_state \<noteq> ''down'')\<rparr>) []"

definition configure_trunk_port ::
  "driver_class \<Rightarrow> string \<Rightarrow> int list \<Rightarrow> int option \<Rightarrow> string option \<Rightarrow> string \<Rightarrow> command_result planning" where
  "configure_trunk_port k ifc allowed_vlans native_vlan description admin_state =
     plan_rendered (dr_render_trunk_port k
       \<lparr>pi_interface = ifc, pi_mode = ''trunk'', pi_access_vlan = None, pi_allowed_vlans = Some allowed_vlans,
        pi_native_vlan = native_vlan, pi_description = description, pi_up = (admin_state \<noteq> ''down'')\<rparr>) []"

definition apply_acl :: "driver_class \<Rightarrow> acl_definition \<Rightarrow> command_result planning" where
  "apply_acl k acl =
     (if \<not> supports_acl (dr_capabilities k)
      then refuse (CapabilityError (dr_name k @ '' does not support ACL operations''))
      else plan_rendered (dr_render_acl k acl) [])"

definition remove_acl :: "driver_class \<Rightarrow> string \<Rightarrow> command_result planning" where
  "remove_acl k acl_name = refuse (CapabilityError (dr_name k @ '' does not implement ACL removal''))"

definition render_verify_commands :: "driver_class \<Rightarrow> expected_state \<Rightarrow> error + string list" where
  "render_verify_commands k expected =
     (case es_vlan expected of
        None \<Rightarrow> Inr []
      | Some v \<Rightarrow> (case dr_render_show_vlan_command k (vi_vlan_id v) of Inl e \<Rightarrow> Inl e | Inr c \<Rightarrow> Inr [c]))"

definition verify_change :: "driver_class \<Rightarrow> expected_state \<Rightarrow> error + verification_result" where
  "verify_change k expected =
     (case render_verify_commands k expected of
        Inl e \<Rightarrow> Inl e
      | Inr checks \<Rightarrow> Inr \<lparr>vr_success = True, vr_checks = checks, vr_errors = []\<rparr>)"

definition driver_rollback :: "driver_class \<Rightarrow> 'b \<Rightarrow> command_result planning" where
  "driver_rollback k backup = refuse (CapabilityError (dr_name k @ '' does not support automatic rollback''))"

definition dry_run :: "string list \<Rightarrow> string list" where
  "dry_run planned = mask_command_list [] planned"

definition plan_vlan_intent :: "driver_class \<Rightarrow> vlan_intent \<Rightarrow> command_result planning" where
  "plan_vlan_intent k intent =
     (if \<not> supports_vlan (dr_capabilities k)
      then refuse (CapabilityError (dr_name k @ '' does not support VLAN operations''))
      else if vi_present intent then plan_rendered (dr_render_vlan_present k intent) []
      else driver_delete_vlan k (vi_vlan_id intent) (vi_force intent))"

text \<open>Reading the running configuration: a transport is what it answers to one command.\<close>

definition send_show_command ::
  "(string \<Rightarrow> string \<times> bool \<times> string option) option \<Rightarrow> string \<Rightarrow> command_result" where
  "send_show_command transport command =
     (case transport of
        None \<Rightarrow> \<lparr>cr_commands = [command], cr_output = '''', cr_success = False, cr_changed = False,
                 cr_error = Some ''Transport is not configured'', cr_warnings = []\<rparr>
      | Some send \<Rightarrow> (case send command of (out, ok, err) \<Rightarrow>
          \<lparr>cr_commands = [command], cr_output = out, cr_success = ok, cr_changed = False, cr_error = err,
           cr_warnings = []\<rparr>))"

definition get_running_config ::
  "driver_class \<Rightarrow> (string \<Rightarrow> string \<times> bool \<times> string option) option \<Rightarrow> error + string" where
  "get_running_config k transport =
     (case dr_running_config_command k of
        Inl e \<Rightarrow> Inl e
      | Inr command \<Rightarrow>
          (let r = send_show_command transport command
           in if cr_success r then Inr (cr_output r)
              else Inl (RuntimeError (if or_empty (cr_error r) = [] then ''Failed to get running configuration''
                                      else or_empty (cr_error r)))))"

record device_backup =
  bk_device_ip :: string
  bk_config_text :: string
  bk_config_hash :: string

definition driver_backup_config ::
  "(string \<Rightarrow> string) \<Rightarrow> driver_class \<Rightarrow> string \<Rightarrow> (string \<Rightarrow> string \<times> bool \<times> string option) option \<Rightarrow>
     error + device_backup" where
  "driver_backup_config digest k host transport =
     (case get_running_config k transport of
        Inl e \<Rightarrow> Inl e
      | Inr config \<Rightarrow> Inr \<lparr>bk_device_ip = host, bk_config_text = config, bk_config_hash = digest config\<rparr>)"

section \<open>Cisco IOS, and the two that inherit from it\<close>

definition cisco_capabilities :: device_capabilities where
  "cisco_capabilities =
     \<lparr>supports_ssh = True, supports_telnet = True, supports_snmp = True, supports_vlan = True, supports_acl = True,
      supports_trunk = True, supports_rollback = False, supports_candidate_config = False,
      supports_save_config = True, supports_config_replace = False, supports_password_change = True,
      supports_interface_description = True, supports_lldp = True, supports_cdp = True, supports_stp = True,
      command_syntax_family = ''cisco_ios'', destructive_apply_confirmed = True\<rparr>"

definition opt_line :: "string \<Rightarrow> int option \<Rightarrow> string list" where
  "opt_line lead v = (case v of None \<Rightarrow> [] | Some n \<Rightarrow> [vlan_line lead n])"

definition vlans_line :: "string \<Rightarrow> (string \<Rightarrow> string) \<Rightarrow> int list option \<Rightarrow> string list" where
  "vlans_line lead f allowed =
     (if or_nil allowed = [] then [] else [lead @ f (format_vlan_range (or_nil allowed))])"

definition cisco_password :: "string \<Rightarrow> string \<Rightarrow> command_result planning" where
  "cisco_password username new_password =
     plan_result [''configure terminal'', ''username '' @ username @ '' secret '' @ new_password, ''end''] True []"

definition cisco_vlan_present :: "vlan_intent \<Rightarrow> error + string list" where
  "cisco_vlan_present intent =
     Inr ([''configure terminal'', vlan_line ''vlan '' (vi_vlan_id intent)] @ name_line ''name '' (vi_name intent) @
          [''exit'', ''end''])"

definition cisco_vlan_absent :: "vlan_intent \<Rightarrow> error + string list" where
  "cisco_vlan_absent intent = Inr [''configure terminal'', vlan_line ''no vlan '' (vi_vlan_id intent), ''end'']"

definition cisco_access_port :: "port_intent \<Rightarrow> error + string list" where
  "cisco_access_port intent =
     Inr ([''configure terminal'', ''interface '' @ pi_interface intent, ''switchport mode access''] @
          opt_line ''switchport access vlan '' (pi_access_vlan intent) @
          name_line ''description '' (pi_description intent) @
          [if pi_up intent then ''no shutdown'' else ''shutdown''] @ [''exit'', ''end''])"

definition cisco_trunk_port :: "port_intent \<Rightarrow> error + string list" where
  "cisco_trunk_port intent =
     Inr ([''configure terminal'', ''interface '' @ pi_interface intent, ''switchport mode trunk''] @
          vlans_line ''switchport trunk allowed vlan '' (\<lambda>s. s) (pi_allowed_vlans intent) @
          opt_line ''switchport trunk native vlan '' (pi_native_vlan intent) @
          name_line ''description '' (pi_description intent) @
          [if pi_up intent then ''no shutdown'' else ''shutdown''] @ [''exit'', ''end''])"

definition rule_head :: "acl_rule \<Rightarrow> string" where
  "rule_head r = int_str (ar_sequence r) @ '' '' @ ar_action r @ '' '' @ ar_protocol r"

definition cisco_rule :: "acl_rule \<Rightarrow> string list" where
  "cisco_rule r =
     name_line (int_str (ar_sequence r) @ '' remark '') (ar_remark r) @
     [rule_head r @ '' '' @ ar_src r @ '' '' @ ar_dst r @ concat (name_line '' eq '' (ar_dst_port r))]"

definition cisco_acl :: "acl_definition \<Rightarrow> error + string list" where
  "cisco_acl acl =
     Inr ([''configure terminal'', ''ip access-list '' @ ad_acl_type acl @ '' '' @ ad_name acl] @
          concat (map cisco_rule (ad_rules acl)) @ [''exit'', ''end''])"

definition cisco_show_vlan :: "int \<Rightarrow> error + string" where
  "cisco_show_vlan vlan_id = Inr (vlan_line ''show vlan id '' vlan_id)"

definition CiscoIOSDriver :: driver_class where
  "CiscoIOSDriver =
     \<lparr>dr_name = ''CiscoIOSDriver'', dr_scrapli_platform = Some ''cisco_iosxe'',
      dr_netmiko_device_type = Some ''cisco_ios'', dr_capabilities = cisco_capabilities,
      dr_running_config_command = Inr ''show running-config'', dr_save_commands = [''write memory''],
      dr_change_local_user_password = cisco_password, dr_render_vlan_present = cisco_vlan_present,
      dr_render_vlan_absent = cisco_vlan_absent, dr_render_access_port = cisco_access_port,
      dr_render_trunk_port = cisco_trunk_port, dr_render_acl = cisco_acl,
      dr_render_show_vlan_command = cisco_show_vlan\<rparr>"

definition EltexMESDriver :: driver_class where
  "EltexMESDriver = CiscoIOSDriver
     \<lparr>dr_name := ''EltexMESDriver'', dr_netmiko_device_type := Some ''eltex'',
      dr_capabilities := cisco_capabilities
        \<lparr>supports_save_config := False, command_syntax_family := ''eltex_mes'', destructive_apply_confirmed := False\<rparr>,
      dr_running_config_command := Inr ''show running-config'', dr_save_commands := []\<rparr>"

definition DellPowerConnectDriver :: driver_class where
  "DellPowerConnectDriver = CiscoIOSDriver
     \<lparr>dr_name := ''DellPowerConnectDriver'', dr_netmiko_device_type := Some ''dell_powerconnect'',
      dr_save_commands := [''copy running-config startup-config'']\<rparr>"

section \<open>Huawei VRP\<close>

definition commas_to_spaces :: "string \<Rightarrow> string" where
  "commas_to_spaces = map (\<lambda>c. if c = CHR '','' then CHR '' '' else c)"

definition huawei_capabilities :: device_capabilities where
  "huawei_capabilities =
     \<lparr>supports_ssh = True, supports_telnet = True, supports_snmp = True, supports_vlan = True, supports_acl = True,
      supports_trunk = True, supports_rollback = False, supports_candidate_config = False,
      supports_save_config = True, supports_config_replace = False, supports_password_change = True,
      supports_interface_description = True, supports_lldp = True, supports_cdp = False, supports_stp = True,
      command_syntax_family = ''huawei_vrp'', destructive_apply_confirmed = True\<rparr>"

definition huawei_password :: "string \<Rightarrow> string \<Rightarrow> command_result planning" where
  "huawei_password username new_password =
     plan_result [''system-view'', ''aaa'',
       ''local-user '' @ username @ '' password irreversible-cipher '' @ new_password, ''quit'', ''quit''] True []"

definition huawei_vlan_present :: "vlan_intent \<Rightarrow> error + string list" where
  "huawei_vlan_present intent =
     Inr ([''system-view'', vlan_line ''vlan '' (vi_vlan_id intent)] @
          name_line ''description '' (vi_name intent) @ [''quit''])"

definition huawei_vlan_absent :: "vlan_intent \<Rightarrow> error + string list" where
  "huawei_vlan_absent intent = Inr [''system-view'', vlan_line ''undo vlan '' (vi_vlan_id intent), ''quit'']"

definition huawei_access_port :: "port_intent \<Rightarrow> error + string list" where
  "huawei_access_port intent =
     Inr ([''system-view'', ''interface '' @ pi_interface intent, ''port link-type access''] @
          opt_line ''port default vlan '' (pi_access_vlan intent) @
          name_line ''description '' (pi_description intent) @
          [if pi_up intent then ''undo shutdown'' else ''shutdown''] @ [''quit'', ''quit''])"

definition huawei_trunk_port :: "port_intent \<Rightarrow> error + string list" where
  "huawei_trunk_port intent =
     Inr ([''system-view'', ''interface '' @ pi_interface intent, ''port link-type trunk''] @
          vlans_line ''port trunk allow-pass vlan '' commas_to_spaces (pi_allowed_vlans intent) @
          opt_line ''port trunk pvid vlan '' (pi_native_vlan intent) @
          name_line ''description '' (pi_description intent) @
          [if pi_up intent then ''undo shutdown'' else ''shutdown''] @ [''quit'', ''quit''])"

definition is_digits :: "string \<Rightarrow> bool" where
  "is_digits s \<longleftrightarrow> s \<noteq> [] \<and> list_all is_digit s"

definition vrp_rule :: "acl_rule \<Rightarrow> string" where
  "vrp_rule r = ''rule '' @ rule_head r @ '' source '' @ ar_src r @ '' destination '' @ ar_dst r"

definition huawei_acl :: "acl_definition \<Rightarrow> error + string list" where
  "huawei_acl acl =
     Inr ([''system-view'',
           ''acl '' @ (if is_digits (ad_name acl) then ad_name acl else ''name '' @ ad_name acl @ '' 3000'')] @
          map (\<lambda>r. vrp_rule r @ concat (name_line '' destination-port eq '' (ar_dst_port r))) (ad_rules acl) @
          [''quit'', ''quit''])"

definition huawei_show_vlan :: "int \<Rightarrow> error + string" where
  "huawei_show_vlan vlan_id = Inr (vlan_line ''display vlan '' vlan_id)"

definition HuaweiVRPDriver :: driver_class where
  "HuaweiVRPDriver =
     \<lparr>dr_name = ''HuaweiVRPDriver'', dr_scrapli_platform = Some ''huawei_vrp'',
      dr_netmiko_device_type = Some ''huawei_vrp'', dr_capabilities = huawei_capabilities,
      dr_running_config_command = Inr ''display current-configuration'', dr_save_commands = [''save force''],
      dr_change_local_user_password = huawei_password, dr_render_vlan_present = huawei_vlan_present,
      dr_render_vlan_absent = huawei_vlan_absent, dr_render_access_port = huawei_access_port,
      dr_render_trunk_port = huawei_trunk_port, dr_render_acl = huawei_acl,
      dr_render_show_vlan_command = huawei_show_vlan\<rparr>"

section \<open>HP Comware\<close>

definition comware_capabilities :: device_capabilities where
  "comware_capabilities =
     \<lparr>supports_ssh = True, supports_telnet = True, supports_snmp = True, supports_vlan = True, supports_acl = True,
      supports_trunk = True, supports_rollback = False, supports_candidate_config = False,
      supports_save_config = True, supports_config_replace = False, supports_password_change = True,
      supports_interface_description = True, supports_lldp = True, supports_cdp = False, supports_stp = True,
      command_syntax_family = ''hp_comware'', destructive_apply_confirmed = True\<rparr>"

definition comware_password :: "string \<Rightarrow> string \<Rightarrow> command_result planning" where
  "comware_password username new_password =
     plan_result [''system-view'', ''local-user '' @ username,
       ''password irreversible-cipher '' @ new_password, ''quit'', ''quit''] True []"

definition comware_vlan_present :: "vlan_intent \<Rightarrow> error + string list" where
  "comware_vlan_present intent =
     Inr ([''system-view'', vlan_line ''vlan '' (vi_vlan_id intent)] @
          name_line ''name '' (vi_name intent) @ [''quit'', ''quit''])"

definition comware_vlan_absent :: "vlan_intent \<Rightarrow> error + string list" where
  "comware_vlan_absent intent = Inr [''system-view'', vlan_line ''undo vlan '' (vi_vlan_id intent), ''quit'']"

definition comware_access_port :: "port_intent \<Rightarrow> error + string list" where
  "comware_access_port intent =
     Inr ([''system-view'', ''interface '' @ pi_interface intent, ''port link-type access''] @
          opt_line ''port access vlan '' (pi_access_vlan intent) @
          name_line ''description '' (pi_description intent) @
          [if pi_up intent then ''undo shutdown'' else ''shutdown''] @ [''quit'', ''quit''])"

definition comware_trunk_port :: "port_intent \<Rightarrow> error + string list" where
  "comware_trunk_port intent =
     Inr ([''system-view'', ''interface '' @ pi_interface intent, ''port link-type trunk''] @
          vlans_line ''port trunk permit vlan '' commas_to_spaces (pi_allowed_vlans intent) @
          opt_line ''port trunk pvid vlan '' (pi_native_vlan intent) @
          name_line ''description '' (pi_description intent) @
          [if pi_up intent then ''undo shutdown'' else ''shutdown''] @ [''quit'', ''quit''])"

text \<open>\<open>int(acl.name)\<close> of a string of decimal digits always reads.\<close>

definition comware_acl :: "acl_definition \<Rightarrow> error + string list" where
  "comware_acl acl =
     (let number = (if is_digits (ad_name acl)
                    then (case parse_int10 (ad_name acl) of Some n \<Rightarrow> n | None \<Rightarrow> 3000) else 3000)
      in Inr ([''system-view'', ''acl advanced '' @ int_str number] @ map vrp_rule (ad_rules acl) @ [''quit'', ''quit'']))"

definition comware_show_vlan :: "int \<Rightarrow> error + string" where
  "comware_show_vlan vlan_id = Inr (vlan_line ''display vlan '' vlan_id)"

definition HPComwareDriver :: driver_class where
  "HPComwareDriver =
     \<lparr>dr_name = ''HPComwareDriver'', dr_scrapli_platform = Some ''hp_comware'',
      dr_netmiko_device_type = Some ''hp_comware'', dr_capabilities = comware_capabilities,
      dr_running_config_command = Inr ''display current-configuration'', dr_save_commands = [''save force''],
      dr_change_local_user_password = comware_password, dr_render_vlan_present = comware_vlan_present,
      dr_render_vlan_absent = comware_vlan_absent, dr_render_access_port = comware_access_port,
      dr_render_trunk_port = comware_trunk_port, dr_render_acl = comware_acl,
      dr_render_show_vlan_command = comware_show_vlan\<rparr>"

section \<open>HPE ProCurve\<close>

definition procurve_capabilities :: device_capabilities where
  "procurve_capabilities =
     \<lparr>supports_ssh = True, supports_telnet = True, supports_snmp = True, supports_vlan = True, supports_acl = False,
      supports_trunk = True, supports_rollback = False, supports_candidate_config = False,
      supports_save_config = True, supports_config_replace = False, supports_password_change = True,
      supports_interface_description = True, supports_lldp = True, supports_cdp = True, supports_stp = True,
      command_syntax_family = ''hpe_procurve'', destructive_apply_confirmed = True\<rparr>"

definition procurve_password :: "string \<Rightarrow> string \<Rightarrow> command_result planning" where
  "procurve_password username new_password =
     plan_result [''password manager user-name '' @ username @ '' plaintext '' @ new_password] True []"

definition procurve_vlan_present :: "vlan_intent \<Rightarrow> error + string list" where
  "procurve_vlan_present intent =
     Inr ([vlan_line ''vlan '' (vi_vlan_id intent)] @ name_line ''name '' (vi_name intent) @ [''exit''])"

definition procurve_vlan_absent :: "vlan_intent \<Rightarrow> error + string list" where
  "procurve_vlan_absent intent = Inr [vlan_line ''no vlan '' (vi_vlan_id intent)]"

text \<open>The lines both port methods end with.\<close>

definition procurve_port_tail :: "port_intent \<Rightarrow> string list" where
  "procurve_port_tail intent =
     (if or_empty (pi_description intent) = [] then []
      else [''interface '' @ pi_interface intent, ''name '' @ or_empty (pi_description intent), ''exit'']) @
     [''interface '' @ pi_interface intent, if pi_up intent then ''enable'' else ''disable'', ''exit'']"

definition procurve_access_port :: "port_intent \<Rightarrow> error + string list" where
  "procurve_access_port intent =
     (case pi_access_vlan intent of
        None \<Rightarrow> Inl (ValueError ''access_vlan is required for access port intent'')
      | Some v \<Rightarrow>
          Inr ([vlan_line ''vlan '' v, ''untagged '' @ pi_interface intent, ''exit''] @ procurve_port_tail intent))"

definition procurve_trunk_port :: "port_intent \<Rightarrow> error + string list" where
  "procurve_trunk_port intent =
     Inr (concat (map (\<lambda>v. [vlan_line ''vlan '' v, ''tagged '' @ pi_interface intent, ''exit'']) (or_nil (pi_allowed_vlans intent))) @
          (case pi_native_vlan intent of
             None \<Rightarrow> []
           | Some v \<Rightarrow> [vlan_line ''vlan '' v, ''untagged '' @ pi_interface intent, ''exit'']) @
          procurve_port_tail intent)"

definition procurve_show_vlan :: "int \<Rightarrow> error + string" where
  "procurve_show_vlan vlan_id = Inr (vlan_line ''show vlans '' vlan_id)"

definition HPEProCurveDriver :: driver_class where
  "HPEProCurveDriver =
     \<lparr>dr_name = ''HPEProCurveDriver'', dr_scrapli_platform = Some ''aruba_aoscx'',
      dr_netmiko_device_type = Some ''hp_procurve'', dr_capabilities = procurve_capabilities,
      dr_running_config_command = Inr ''show running-config'', dr_save_commands = [''write memory''],
      dr_change_local_user_password = procurve_password, dr_render_vlan_present = procurve_vlan_present,
      dr_render_vlan_absent = procurve_vlan_absent, dr_render_access_port = procurve_access_port,
      dr_render_trunk_port = procurve_trunk_port, dr_render_acl = base_render_acl ''HPEProCurveDriver'',
      dr_render_show_vlan_command = procurve_show_vlan\<rparr>"

section \<open>Bulat BS\<close>

definition bulat_capabilities :: device_capabilities where
  "bulat_capabilities =
     \<lparr>supports_ssh = True, supports_telnet = False, supports_snmp = True, supports_vlan = True, supports_acl = True,
      supports_trunk = True, supports_rollback = False, supports_candidate_config = False,
      supports_save_config = True, supports_config_replace = False, supports_password_change = True,
      supports_interface_description = True, supports_lldp = True, supports_cdp = False, supports_stp = True,
      command_syntax_family = ''bulat_bs'', destructive_apply_confirmed = False\<rparr>"

definition dry_run_only :: "string list \<Rightarrow> command_result planning" where
  "dry_run_only commands =
     plan_result commands True [''Bulat write templates require lab confirmation before apply.'']"

definition bulat_password :: "string \<Rightarrow> string \<Rightarrow> command_result planning" where
  "bulat_password username new_password =
     dry_run_only [''configure terminal'', ''username '' @ username @ '' password 0 '' @ new_password, ''end'']"

definition bulat_vlan_present :: "vlan_intent \<Rightarrow> error + string list" where
  "bulat_vlan_present intent =
     Inr ([''configure terminal'', vlan_line ''vlan '' (vi_vlan_id intent)] @ name_line ''name '' (vi_name intent) @ [''end''])"

definition bulat_vlan_absent :: "vlan_intent \<Rightarrow> error + string list" where
  "bulat_vlan_absent intent = Inr [''configure terminal'', vlan_line ''no vlan '' (vi_vlan_id intent), ''end'']"

definition bulat_access_port :: "port_intent \<Rightarrow> error + string list" where
  "bulat_access_port intent =
     Inr ([''configure terminal'', ''interface '' @ pi_interface intent, ''switchport mode access''] @
          (if pi_access_vlan intent \<in> {None, Some 0} then []
           else opt_line ''switchport access vlan '' (pi_access_vlan intent)) @ [''end''])"

definition bulat_trunk_port :: "port_intent \<Rightarrow> error + string list" where
  "bulat_trunk_port intent =
     Inr ([''configure terminal'', ''interface '' @ pi_interface intent, ''switchport mode trunk''] @
          (if or_nil (pi_allowed_vlans intent) = [] then []
           else [''switchport trunk allowed vlan '' @ str_join '','' (map int_str (or_nil (pi_allowed_vlans intent)))]) @
          [''end''])"

definition bulat_show_vlan :: "int \<Rightarrow> error + string" where
  "bulat_show_vlan vlan_id = Inr (vlan_line ''show vlan id '' vlan_id)"

definition BulatBSDriver :: driver_class where
  "BulatBSDriver =
     \<lparr>dr_name = ''BulatBSDriver'', dr_scrapli_platform = None, dr_netmiko_device_type = None,
      dr_capabilities = bulat_capabilities,
      dr_running_config_command = Inr ''show running-config'', dr_save_commands = [''write memory''],
      dr_change_local_user_password = bulat_password, dr_render_vlan_present = bulat_vlan_present,
      dr_render_vlan_absent = bulat_vlan_absent, dr_render_access_port = bulat_access_port,
      dr_render_trunk_port = bulat_trunk_port, dr_render_acl = base_render_acl ''BulatBSDriver'',
      dr_render_show_vlan_command = bulat_show_vlan\<rparr>"

section \<open>The two drivers that never write\<close>

definition no_capabilities :: "bool \<Rightarrow> string \<Rightarrow> device_capabilities" where
  "no_capabilities ssh family =
     \<lparr>supports_ssh = ssh, supports_telnet = False, supports_snmp = False, supports_vlan = False, supports_acl = False,
      supports_trunk = False, supports_rollback = False, supports_candidate_config = False,
      supports_save_config = False, supports_config_replace = False, supports_password_change = False,
      supports_interface_description = False, supports_lldp = False, supports_cdp = False, supports_stp = False,
      command_syntax_family = family, destructive_apply_confirmed = False\<rparr>"

definition unsupported :: "string \<Rightarrow> 'a \<Rightarrow> error + 'b" where
  "unsupported message intent = Inl (CapabilityError message)"

definition GenericSSHDriver :: driver_class where
  "GenericSSHDriver =
     \<lparr>dr_name = ''GenericSSHDriver'', dr_scrapli_platform = None, dr_netmiko_device_type = None,
      dr_capabilities = no_capabilities True ''generic_ssh'',
      dr_running_config_command = Inr ''show running-config'', dr_save_commands = base_save_commands,
      dr_change_local_user_password = (\<lambda>username new_password.
        refuse (CapabilityError ''GenericSSHDriver is read-only until discovery confirms a platform template'')),
      dr_render_vlan_present = unsupported ''GenericSSHDriver does not support VLAN changes'',
      dr_render_vlan_absent = unsupported ''GenericSSHDriver does not support VLAN changes'',
      dr_render_access_port = unsupported ''GenericSSHDriver does not support port changes'',
      dr_render_trunk_port = unsupported ''GenericSSHDriver does not support port changes'',
      dr_render_acl = base_render_acl ''GenericSSHDriver'',
      dr_render_show_vlan_command = (\<lambda>vlan_id. Inr (vlan_line ''show vlan '' vlan_id))\<rparr>"

definition ReadOnlyICMPDriver :: driver_class where
  "ReadOnlyICMPDriver =
     \<lparr>dr_name = ''ReadOnlyICMPDriver'', dr_scrapli_platform = None, dr_netmiko_device_type = None,
      dr_capabilities = no_capabilities False ''icmp_only'',
      dr_running_config_command = Inl (CapabilityError ''ICMP-only devices do not expose running configuration''),
      dr_save_commands = base_save_commands,
      dr_change_local_user_password = (\<lambda>username new_password.
        refuse (CapabilityError ''ICMP-only devices do not support password changes'')),
      dr_render_vlan_present = unsupported ''ICMP-only devices do not support VLAN changes'',
      dr_render_vlan_absent = unsupported ''ICMP-only devices do not support VLAN changes'',
      dr_render_access_port = unsupported ''ICMP-only devices do not support port changes'',
      dr_render_trunk_port = unsupported ''ICMP-only devices do not support port changes'',
      dr_render_acl = base_render_acl ''ReadOnlyICMPDriver'',
      dr_render_show_vlan_command = unsupported ''ICMP-only devices do not support VLAN verification''\<rparr>"

section \<open>The driver of a device\<close>

record device_input =
  di_hostname :: "string option"
  di_ip_address :: string
  di_vendor :: string
  di_model :: string
  di_site :: "string option"
  di_role :: "string option"
  di_tags :: jobj

definition contains_any :: "string list \<Rightarrow> string \<Rightarrow> bool" where
  "contains_any ws s = list_ex (\<lambda>w. sublist w s) ws"

definition resolve_driver :: "device_input \<Rightarrow> driver_class \<times> string" where
  "resolve_driver dev =
     (let vendor = casefold (di_vendor dev); model = casefold (di_model dev); all_text = vendor @ '' '' @ model
      in if contains_any [''icmp''] all_text then (ReadOnlyICMPDriver, ''ICMP-only inventory marker'')
         else if contains_any [''unknown snmp product'', ''unknown product''] all_text
         then (GenericSSHDriver, ''Unknown platform requires discovery before write operations'')
         else if contains_any [''huawei''] vendor \<or>
                 list_ex (\<lambda>p. prefix p model) [''s57'', ''s67'', ''ce68'', ''s17'', ''s23'', ''s24'']
         then (HuaweiVRPDriver, ''Huawei VRP model family'')
         else if contains_any [''hpe 1910'', ''hpe 1920'', ''hpe 5130'', ''3com s4210'', ''3com s5500''] all_text
         then (HPComwareDriver, ''HP/3Com Comware model family'')
         else if contains_any [''hpe 2510'', ''hpe 2530''] all_text
         then (HPEProCurveDriver, ''HPE ProCurve/ArubaOS-Switch model family'')
         else if contains_any [''eltex''] vendor \<or> contains_any [''mes2324'', ''mes2348'', ''mes2448''] model
         then (EltexMESDriver, ''Eltex MES model family'')
         else if contains_any [''bulat''] vendor \<or> contains_any [''bs2500'', ''bs6300''] model
         then (BulatBSDriver, ''Bulat BS model family'')
         else if contains_any [''cisco''] vendor \<or> contains_any [''catalyst'', ''cat2960''] model
         then (CiscoIOSDriver, ''Cisco IOS model family'')
         else if contains_any [''dell''] vendor \<or> contains_any [''powerconnect''] model
         then (DellPowerConnectDriver, ''Dell PowerConnect model family'')
         else (GenericSSHDriver, ''No exact driver match; discovery required''))"

lemmas driver_classes = CiscoIOSDriver_def EltexMESDriver_def DellPowerConnectDriver_def HuaweiVRPDriver_def
  HPComwareDriver_def HPEProCurveDriver_def BulatBSDriver_def GenericSSHDriver_def ReadOnlyICMPDriver_def

lemmas driver_capabilities = cisco_capabilities_def huawei_capabilities_def comware_capabilities_def
  procurve_capabilities_def bulat_capabilities_def no_capabilities_def

end
