(* ===== verification/VlanChangePlans.thy ===== *)
theory VlanChangePlans
  imports Drivers
begin

text \<open>
  app/services/change_planner.py: the dry run of a VLAN change, device by device, with the schemas it uses
  (app/schemas/job.py, app/schemas/vlan.py); and what the drivers guarantee of it.
\<close>

section \<open>The dry run\<close>

record dry_run_device =
  pd_device_id :: "string option"
  pd_ip_address :: string
  pd_vendor :: string
  pd_model :: string
  pd_driver :: string
  pd_capabilities :: device_capabilities
  pd_commands :: "string list"
  pd_config_commands :: "string list"
  pd_verification_commands :: "string list"
  pd_save_commands :: "string list"
  pd_warnings :: "string list"
  pd_risks :: "string list"
  pd_manual_confirmation_required :: bool
  pd_rollback_supported :: bool
  pd_apply_supported :: bool
  pd_verification_required :: bool

record job_dry_run =
  dj_job_type :: string
  dj_device_count :: int
  dj_approval_required :: bool
  dj_apply_allowed :: bool
  dj_batch_size :: int
  dj_estimated_impact :: string
  dj_devices :: "dry_run_device list"

record vlan_change_request =
  vc_requested_by :: string
  vc_devices :: "device_input list"
  vc_intent :: vlan_intent
  vc_batch_size :: int

text \<open>What the schema accepts.\<close>

definition valid_intent :: "vlan_intent \<Rightarrow> bool" where
  "valid_intent v \<longleftrightarrow> 1 \<le> vi_vlan_id v \<and> vi_vlan_id v \<le> 4094 \<and> length (or_empty (vi_name v)) \<le> 64"

definition valid_vlan_change :: "vlan_change_request \<Rightarrow> bool" where
  "valid_vlan_change p \<longleftrightarrow> valid_intent (vc_intent p) \<and> 1 \<le> vc_batch_size p \<and> vc_batch_size p \<le> 10"

definition UNCONFIRMED :: string where
  "UNCONFIRMED = ''Driver template is not confirmed for destructive apply''"

text \<open>
  The body of the \<open>try\<close>: the plan, the checks that verify it, and the commands that save.  The exception it
  catches is CapabilityError; the drivers raise no other one here.
\<close>

definition vlan_plan_of :: "driver_class \<Rightarrow> vlan_intent \<Rightarrow> error + command_result \<times> verification_result" where
  "vlan_plan_of k intent =
     (case fst (plan_vlan_intent k intent []) of
        Inl e \<Rightarrow> Inl e
      | Inr plan \<Rightarrow>
          (case verify_change k \<lparr>es_vlan = Some intent, es_port = None, es_acl = None\<rparr> of
             Inl e \<Rightarrow> Inl e
           | Inr verify \<Rightarrow> Inr (plan, verify)))"

definition plan_device :: "vlan_intent \<Rightarrow> device_input \<Rightarrow> error + dry_run_device" where
  "plan_device intent dev =
     (case resolve_driver dev of (k, reason) \<Rightarrow>
        let caps = dr_capabilities k; confirmed = destructive_apply_confirmed caps;
            doubts = (if confirmed then [] else [UNCONFIRMED]);
            result = (\<lambda>commands config checks saves warnings risks apply_supported.
              \<lparr>pd_device_id = None, pd_ip_address = di_ip_address dev, pd_vendor = di_vendor dev, pd_model = di_model dev,
               pd_driver = dr_name k, pd_capabilities = caps, pd_commands = commands, pd_config_commands = config,
               pd_verification_commands = checks, pd_save_commands = saves, pd_warnings = warnings, pd_risks = risks,
               pd_manual_confirmation_required = True, pd_rollback_supported = supports_rollback caps,
               pd_apply_supported = apply_supported, pd_verification_required = False\<rparr>)
        in case vlan_plan_of k intent of
             Inr (plan, verify) \<Rightarrow>
               Inr (result (mask_command_list [] (cr_commands plan @ vr_checks verify @ dr_save_commands k))
                 (mask_command_list [] (cr_commands plan)) (mask_command_list [] (vr_checks verify))
                 (mask_command_list [] (dr_save_commands k)) ([reason] @ doubts @ cr_warnings plan) doubts confirmed)
           | Inl (CapabilityError m) \<Rightarrow>
               Inr (result [] [] [] [] ([reason] @ doubts) (doubts @ [m]) False)
           | Inl e \<Rightarrow> Inl e)"

fun plan_devices :: "vlan_intent \<Rightarrow> device_input list \<Rightarrow> error + dry_run_device list" where
  "plan_devices intent [] = Inr []"
| "plan_devices intent (dev # devs) =
     (case plan_device intent dev of
        Inl e \<Rightarrow> Inl e
      | Inr r \<Rightarrow> (case plan_devices intent devs of Inl e \<Rightarrow> Inl e | Inr rs \<Rightarrow> Inr (r # rs)))"

definition plan_vlan_change :: "vlan_change_request \<Rightarrow> error + job_dry_run" where
  "plan_vlan_change p =
     (case plan_devices (vc_intent p) (vc_devices p) of
        Inl e \<Rightarrow> Inl e
      | Inr results \<Rightarrow>
          Inr \<lparr>dj_job_type = ''vlan_change'', dj_device_count = int (length results), dj_approval_required = True,
               dj_apply_allowed = False, dj_batch_size = vc_batch_size p,
               dj_estimated_impact = int_str (int (length results)) @ '' device(s), VLAN '' @
                 int_str (vi_vlan_id (vc_intent p)) @ '' state='' @
                 (if vi_present (vc_intent p) then ''present'' else ''absent''),
               dj_devices = results\<rparr>)"

section \<open>As JSON\<close>

definition capabilities_json :: "device_capabilities \<Rightarrow> jobj" where
  "capabilities_json c =
     [(''supports_ssh'', JBool (supports_ssh c)), (''supports_telnet'', JBool (supports_telnet c)),
      (''supports_snmp'', JBool (supports_snmp c)), (''supports_vlan'', JBool (supports_vlan c)),
      (''supports_acl'', JBool (supports_acl c)), (''supports_trunk'', JBool (supports_trunk c)),
      (''supports_rollback'', JBool (supports_rollback c)),
      (''supports_candidate_config'', JBool (supports_candidate_config c)),
      (''supports_save_config'', JBool (supports_save_config c)),
      (''supports_config_replace'', JBool (supports_config_replace c)),
      (''supports_password_change'', JBool (supports_password_change c)),
      (''supports_interface_description'', JBool (supports_interface_description c)),
      (''supports_lldp'', JBool (supports_lldp c)), (''supports_cdp'', JBool (supports_cdp c)),
      (''supports_stp'', JBool (supports_stp c)), (''command_syntax_family'', JStr (command_syntax_family c)),
      (''destructive_apply_confirmed'', JBool (destructive_apply_confirmed c))]"

abbreviation strings :: "string list \<Rightarrow> json" where
  "strings xs \<equiv> JList (map JStr xs)"

definition dry_run_device_json :: "dry_run_device \<Rightarrow> jobj" where
  "dry_run_device_json r =
     [(''device_id'', case pd_device_id r of None \<Rightarrow> JNull | Some i \<Rightarrow> JStr i),
      (''ip_address'', JStr (pd_ip_address r)), (''vendor'', JStr (pd_vendor r)), (''model'', JStr (pd_model r)),
      (''driver'', JStr (pd_driver r)), (''capabilities'', JObj (capabilities_json (pd_capabilities r))),
      (''commands'', strings (pd_commands r)), (''config_commands'', strings (pd_config_commands r)),
      (''verification_commands'', strings (pd_verification_commands r)),
      (''save_commands'', strings (pd_save_commands r)), (''warnings'', strings (pd_warnings r)),
      (''risks'', strings (pd_risks r)),
      (''manual_confirmation_required'', JBool (pd_manual_confirmation_required r)),
      (''rollback_supported'', JBool (pd_rollback_supported r)),
      (''apply_supported'', JBool (pd_apply_supported r)),
      (''verification_required'', JBool (pd_verification_required r))]"

definition job_dry_run_json :: "job_dry_run \<Rightarrow> jobj" where
  "job_dry_run_json r =
     [(''job_type'', JStr (dj_job_type r)), (''device_count'', JInt (dj_device_count r)),
      (''approval_required'', JBool (dj_approval_required r)), (''apply_allowed'', JBool (dj_apply_allowed r)),
      (''batch_size'', JInt (dj_batch_size r)), (''estimated_impact'', JStr (dj_estimated_impact r)),
      (''devices'', JList (map (\<lambda>d. JObj (dry_run_device_json d)) (dj_devices r)))]"

section \<open>What the drivers guarantee\<close>

abbreviation all_drivers :: "driver_class set" where
  "all_drivers \<equiv> {CiscoIOSDriver, HuaweiVRPDriver, HPComwareDriver, HPEProCurveDriver, DellPowerConnectDriver,
     EltexMESDriver, BulatBSDriver, GenericSSHDriver, ReadOnlyICMPDriver}"

lemma resolve_driver_known: "fst (resolve_driver dev) \<in> all_drivers"
proof -
  have pick: "\<And>b x y (S :: (driver_class \<times> string) set). x \<in> S \<Longrightarrow> y \<in> S \<Longrightarrow> (if b then x else y) \<in> S" by simp
  have "resolve_driver dev \<in> all_drivers \<times> UNIV"
    unfolding resolve_driver_def Let_def by (intro pick; simp)
  then show ?thesis by (auto simp: mem_Times_iff)
qed

text \<open>\<open>planning_ok\<close>: an operation that raises plans nothing, one that returns plans what it returns.\<close>

definition plans_its_result :: "command_result planning \<Rightarrow> bool" where
  "plans_its_result f \<longleftrightarrow>
     (\<forall>planned. case f planned of (Inl e, planned') \<Rightarrow> planned' = planned
                | (Inr r, planned') \<Rightarrow> planned' = planned @ cr_commands r)"

lemma plans_basic: "plans_its_result (plan_result cs b ws)" "plans_its_result (refuse e)" "plans_its_result (plan_rendered x ws)"
  by (auto simp: plans_its_result_def plan_result_def refuse_def plan_rendered_def split: sum.splits)

lemma operations_plan:
  "plans_its_result (driver_create_vlan k n name)" "plans_its_result (driver_delete_vlan k n force)"
  "plans_its_result (configure_access_port k ifc n desc st)" "plans_its_result (configure_trunk_port k ifc ns nv desc st)"
  "plans_its_result (apply_acl k acl)" "plans_its_result (plan_vlan_intent k intent)" "plans_its_result (save_config k)"
  by (auto simp: driver_create_vlan_def driver_delete_vlan_def configure_access_port_def configure_trunk_port_def
      apply_acl_def plan_vlan_intent_def save_config_def plans_basic split: sum.splits)

lemma masked_length [simp]: "length (mask_command_list secrets cs) = length cs"
  by (simp add: mask_command_list_def)

lemma masked_texts_append: "mask_command_list secrets (cs @ ds) = mask_command_list secrets cs @ mask_command_list secrets ds"
  by (simp add: mask_command_list_def)

text \<open>The drivers whose templates are confirmed, and those that write nothing.\<close>

definition confirmed_drivers :: "string set" where
  "confirmed_drivers =
     {''CiscoIOSDriver'', ''HuaweiVRPDriver'', ''HPComwareDriver'', ''HPEProCurveDriver'', ''DellPowerConnectDriver''}"

definition silent_drivers :: "string set" where
  "silent_drivers = {''GenericSSHDriver'', ''ReadOnlyICMPDriver''}"

text \<open>What a driver class gives a plan.\<close>

definition planned_by :: "driver_class \<Rightarrow> vlan_intent \<Rightarrow> bool" where
  "planned_by k intent \<longleftrightarrow>
     destructive_apply_confirmed (dr_capabilities k) = (dr_name k \<in> confirmed_drivers) \<and>
     (if dr_name k \<in> silent_drivers then (\<exists>m. vlan_plan_of k intent = Inl (CapabilityError m))
      else \<exists>plan verify. vlan_plan_of k intent = Inr (plan, verify) \<and> cr_commands plan \<noteq> [] \<and> length (vr_checks verify) = 1)"

lemmas vlan_renderers = cisco_vlan_present_def cisco_vlan_absent_def cisco_show_vlan_def
  huawei_vlan_present_def huawei_vlan_absent_def huawei_show_vlan_def
  comware_vlan_present_def comware_vlan_absent_def comware_show_vlan_def
  procurve_vlan_present_def procurve_vlan_absent_def procurve_show_vlan_def
  bulat_vlan_present_def bulat_vlan_absent_def bulat_show_vlan_def

lemmas vlan_planning = vlan_plan_of_def plan_vlan_intent_def driver_delete_vlan_def pre_delete_vlan_checks_def
  plan_rendered_def plan_result_def refuse_def verify_change_def render_verify_commands_def

lemma known_drivers_plan: "k \<in> all_drivers \<Longrightarrow> planned_by k intent"
  unfolding planned_by_def insert_iff empty_iff
  by (elim disjE FalseE; simp add: driver_classes driver_capabilities confirmed_drivers_def silent_drivers_def
      vlan_planning vlan_renderers)

definition device_planned :: "device_input \<Rightarrow> dry_run_device \<Rightarrow> bool" where
  "device_planned dev d \<longleftrightarrow>
     pd_ip_address d = di_ip_address dev \<and> pd_driver d = dr_name (fst (resolve_driver dev)) \<and>
     pd_apply_supported d = (pd_driver d \<in> confirmed_drivers) \<and>
     pd_commands d = pd_config_commands d @ pd_verification_commands d @ pd_save_commands d \<and>
     (if pd_driver d \<in> silent_drivers then pd_commands d = [] \<and> pd_risks d \<noteq> []
      else pd_config_commands d \<noteq> [] \<and> length (pd_verification_commands d) = 1)"

lemma masked_Nil [simp]: "mask_command_list secrets cs = [] \<longleftrightarrow> cs = []"
  by (simp add: mask_command_list_def)

lemma plan_device_planned: "\<exists>d. plan_device intent dev = Inr d \<and> device_planned dev d"
proof -
  obtain k reason where k: "resolve_driver dev = (k, reason)" by (cases "resolve_driver dev") auto
  with resolve_driver_known [of dev] have "planned_by k intent" using known_drivers_plan by simp
  then have confirmed: "destructive_apply_confirmed (dr_capabilities k) = (dr_name k \<in> confirmed_drivers)"
    and plan: "if dr_name k \<in> silent_drivers then (\<exists>m. vlan_plan_of k intent = Inl (CapabilityError m))
      else \<exists>plan verify. vlan_plan_of k intent = Inr (plan, verify) \<and> cr_commands plan \<noteq> [] \<and> length (vr_checks verify) = 1"
    by (auto simp: planned_by_def)
  show ?thesis
  proof (cases "dr_name k \<in> silent_drivers")
    case True
    with plan obtain m where "vlan_plan_of k intent = Inl (CapabilityError m)" by auto
    moreover have "dr_name k \<notin> confirmed_drivers"
      using True by (auto simp: silent_drivers_def confirmed_drivers_def)
    ultimately show ?thesis using k True by (simp add: plan_device_def Let_def device_planned_def)
  next
    case False
    with plan obtain plan verify where "vlan_plan_of k intent = Inr (plan, verify)" "cr_commands plan \<noteq> []"
      "length (vr_checks verify) = 1" by auto
    then show ?thesis using k False confirmed by (simp add: plan_device_def Let_def device_planned_def masked_texts_append)
  qed
qed

lemma plan_devices_planned: "\<exists>ds. plan_devices intent devs = Inr ds \<and> list_all2 device_planned devs ds"
proof (induction devs)
  case (Cons dev devs)
  from plan_device_planned obtain d where "plan_device intent dev = Inr d" "device_planned dev d" by blast
  with Cons show ?case by auto
qed simp


section \<open>Two renderings of the same change\<close>

text \<open>
  C14: The drivers and the plan service of VLAN workflows render VLAN creation and deletion on their own; for the five
  drivers both know, they agree command for command, but for Huawei, whose driver leaves out the last \<open>quit\<close> when it creates.
\<close>

theorem vlan_renderings_agree:
  "list_all (\<lambda>k. case renderer_family (dr_name k) of
       None \<Rightarrow> False
     | Some render \<Rightarrow>
         render ''delete_vlan'' n name ifc = dr_render_vlan_absent k (absent_intent n force) \<and>
         render ''create_vlan'' n name ifc =
           map_sum id (\<lambda>cs. if dr_name k = ''HuaweiVRPDriver'' then cs @ [''quit''] else cs)
             (dr_render_vlan_present k \<lparr>vi_vlan_id = n, vi_name = name, vi_present = True, vi_force = force\<rparr>))
     [CiscoIOSDriver, HuaweiVRPDriver, HPComwareDriver, HPEProCurveDriver, DellPowerConnectDriver]"
  by (simp add: renderer_family_def driver_classes vlan_renderers absent_intent_def cisco_commands_def huawei_commands_def
      comware_commands_def procurve_commands_def)

end
