(* ===== verification/JobStore.thy ===== *)
theory JobStore
  imports DeviceInventory VlanChangePlans
begin

text \<open>
  The tables of jobs: app/repositories/jobs.py, job_tasks.py, devices.py, backups.py, password_change_secrets.py and
  password_rollout.py.  A change of a row is flushed when it is made.
\<close>

section \<open>Devices\<close>

definition device_by_ref :: "ref \<Rightarrow> (db, device) action" where
  "device_by_ref = get_by_ref find_device ''Device''"

definition devices_by_ip :: "db \<Rightarrow> device list" where
  "devices_by_ip d = sort_key dev_ip_address (t_device d)"

definition device_of_ip :: "string \<Rightarrow> db \<Rightarrow> device option" where
  "device_of_ip ip d = find (\<lambda>dev. dev_ip_address dev = ip) (t_device d)"

definition device_from_input :: "device_input \<Rightarrow> device \<Rightarrow> device" where
  "device_from_input p dev =
     dev\<lparr>dev_hostname := di_hostname p, dev_vendor := di_vendor p, dev_model := di_model p, dev_site := di_site p,
         dev_role := di_role p, dev_tags := di_tags p, dev_status := ''known''\<rparr>"

text \<open>The row of a device the jobs see for the first time, with the columns' defaults.\<close>

definition blank_device :: "int \<Rightarrow> uuid \<Rightarrow> string \<Rightarrow> device" where
  "blank_device now i ip =
     \<lparr>dev_id = i, dev_hostname = None, dev_ip_address = ip, dev_management_ip = None, dev_vendor = '''',
      dev_model = '''', dev_normalized_vendor = None, dev_normalized_model = None, dev_platform = '''',
      dev_os_version = None, dev_serial_number = None, dev_site = None, dev_location = None, dev_rack = None,
      dev_role = None, dev_transport_type = ''auto'', dev_driver_name = '''',
      dev_driver_resolution_status = ''unknown'', dev_credential_assignment_status = ''unknown'',
      dev_status = ''known'', dev_discovery_status = ''unknown'', dev_discovery_last_checked_at = None,
      dev_discovery_error = None, dev_tags = [], dev_capabilities = [], dev_last_seen = None,
      dev_last_seen_at = None, dev_created_at = Aware now, dev_updated_at = Aware now\<rparr>"

definition create_or_update_from_input ::
  "int \<Rightarrow> device_input \<Rightarrow> string \<Rightarrow> jobj option \<Rightarrow> (db, device) action" where
  "create_or_update_from_input now p driver_name capabilities =
     andThen (asks (device_of_ip (di_ip_address p))) (\<lambda>stored.
       case stored of
         None \<Rightarrow>
           andThen fresh_id (\<lambda>i.
             let dev = (device_from_input p (blank_device now i (di_ip_address p)))
                   \<lparr>dev_driver_name := driver_name, dev_capabilities := or_nil capabilities\<rparr>
             in andThen (change (\<lambda>d. d\<lparr>t_device := t_device d @ [dev]\<rparr>)) (\<lambda>_. ret dev))
       | Some old \<Rightarrow>
           update_device_row now (RefId (dev_id old)) (\<lambda>dev.
             (device_from_input p dev)
               \<lparr>dev_driver_name := (if driver_name \<noteq> [] then driver_name else dev_driver_name dev),
                dev_capabilities := given capabilities (dev_capabilities dev)\<rparr>))"

section \<open>Jobs and their tasks\<close>

definition upd_job :: "uuid \<Rightarrow> (job \<Rightarrow> job) \<Rightarrow> db \<Rightarrow> db" where
  "upd_job i f d = d\<lparr>t_job := upd_row jb_id i f (t_job d)\<rparr>"

definition upd_task :: "uuid \<Rightarrow> (job_task \<Rightarrow> job_task) \<Rightarrow> db \<Rightarrow> db" where
  "upd_task i f d = d\<lparr>t_job_task := upd_row jt_id i f (t_job_task d)\<rparr>"

definition job_create ::
  "int \<Rightarrow> string \<Rightarrow> string \<Rightarrow> string \<Rightarrow> string \<Rightarrow> jobj \<Rightarrow> jobj \<Rightarrow> (db, job) action" where
  "job_create now job_type status requested_by approval_status payload input_payload =
     andThen fresh_id (\<lambda>i.
       let j = \<lparr>jb_id = i, jb_job_type = job_type, jb_status = status, jb_requested_by = requested_by,
             jb_approved_by = None, jb_approval_status = approval_status, jb_dry_run = payload,
             jb_input_payload = input_payload, jb_created_at = Aware now, jb_approved_at = None,
             jb_started_at = None, jb_finished_at = None\<rparr>
       in andThen (change (\<lambda>d. d\<lparr>t_job := t_job d @ [j]\<rparr>)) (\<lambda>_. ret j))"

definition job_list :: "db \<Rightarrow> job list" where
  "job_list d = rev (by_time jb_created_at (t_job d))"

definition job_get :: "ref \<Rightarrow> (db, job) action" where
  "job_get = get_by_ref find_job ''Job''"

definition tasks_of :: "uuid \<Rightarrow> db \<Rightarrow> job_task list" where
  "tasks_of i d = filter (\<lambda>t. jt_job_id t = i) (t_job_task d)"

definition job_task_ids :: "ref \<Rightarrow> (db, uuid list) action" where
  "job_task_ids r = andThen (query (\<lambda>_. coerce_ref ''Job'' r)) (\<lambda>i. asks (\<lambda>d. map jt_id (tasks_of i d)))"

definition task_create :: "ref \<Rightarrow> ref \<Rightarrow> string list \<Rightarrow> jobj \<Rightarrow> (db, job_task) action" where
  "task_create job_ref device commands dry_run_dev =
     andThen (query (\<lambda>_. coerce_ref ''Job'' job_ref)) (\<lambda>j.
     andThen (query (\<lambda>_. coerce_ref ''Device'' device)) (\<lambda>dev.
     andThen fresh_id (\<lambda>i.
       let t = \<lparr>jt_id = i, jt_job_id = j, jt_device_id = dev, jt_status = ''pending'', jt_attempt = 0,
             jt_commands = commands, jt_dry_run_device = dry_run_dev, jt_sanitized_output = None, jt_error = None,
             jt_backup_id = None, jt_started_at = None, jt_finished_at = None\<rparr>
       in andThen (change (\<lambda>d. d\<lparr>t_job_task := t_job_task d @ [t]\<rparr>)) (\<lambda>_. ret t))))"

definition task_get :: "ref \<Rightarrow> (db, job_task) action" where
  "task_get = get_by_ref find_job_task ''Job task''"

definition task_list :: "ref \<Rightarrow> (db, job_task list) action" where
  "task_list r = andThen (query (\<lambda>_. coerce_ref ''Job'' r)) (\<lambda>i. asks (tasks_of i))"

text \<open>An attribute of a row the service holds is assigned.\<close>

definition set_job :: "job \<Rightarrow> (job \<Rightarrow> job) \<Rightarrow> (db, unit) action" where
  "set_job j f = change (upd_job (jb_id j) f)"

definition set_task :: "job_task \<Rightarrow> (job_task \<Rightarrow> job_task) \<Rightarrow> (db, unit) action" where
  "set_task t f = change (upd_task (jt_id t) f)"

abbreviation job_now :: "job \<Rightarrow> (db, job) action" where
  "job_now j \<equiv> job_get (RefId (jb_id j))"

abbreviation task_now :: "job_task \<Rightarrow> (db, job_task) action" where
  "task_now t \<equiv> task_get (RefId (jt_id t))"

section \<open>Stored backups\<close>

definition backup_create ::
  "int \<Rightarrow> ref \<Rightarrow> string \<Rightarrow> string \<Rightarrow> string \<Rightarrow> ref option \<Rightarrow> (db, config_backup) action" where
  "backup_create now device encrypted hash created_by task =
     andThen (query (\<lambda>_. coerce_ref ''Device'' device)) (\<lambda>dev.
     andThen (query (\<lambda>_. optional_ref ''Job task'' task)) (\<lambda>t.
     andThen fresh_id (\<lambda>i.
       let b = \<lparr>cb_id = i, cb_device_id = dev, cb_job_task_id = t, cb_config_text = encrypted,
             cb_config_hash = hash, cb_created_at = Aware now, cb_created_by = created_by\<rparr>
       in andThen (change (\<lambda>d. d\<lparr>t_config_backup := t_config_backup d @ [b]\<rparr>)) (\<lambda>_. ret b))))"

definition backup_get :: "ref \<Rightarrow> (db, config_backup) action" where
  "backup_get = get_by_ref find_config_backup ''Backup''"

definition backups_of_device :: "ref \<Rightarrow> (db, config_backup list) action" where
  "backups_of_device r =
     andThen (query (\<lambda>_. coerce_ref ''Device'' r)) (\<lambda>i.
     asks (\<lambda>d. rev (by_time cb_created_at (filter (\<lambda>b. cb_device_id b = i) (t_config_backup d)))))"

section \<open>The secret of a password change\<close>

definition create_for_job :: "int \<Rightarrow> ref \<Rightarrow> string \<Rightarrow> datetime option \<Rightarrow> (db, password_secret) action" where
  "create_for_job now job_ref encrypted expires_at =
     andThen (query (\<lambda>_. coerce_ref ''Job'' job_ref)) (\<lambda>j.
     andThen fresh_id (\<lambda>i.
       let x = \<lparr>ps_id = i, ps_job_id = j, ps_encrypted_new_password = encrypted, ps_created_at = Aware now,
             ps_expires_at = expires_at\<rparr>
       in andThen (change (\<lambda>d. d\<lparr>t_password_secret := t_password_secret d @ [x]\<rparr>)) (\<lambda>_. ret x)))"

definition secret_of_job :: "uuid \<Rightarrow> db \<Rightarrow> password_secret option" where
  "secret_of_job j d = find (\<lambda>x. ps_job_id x = j) (t_password_secret d)"

definition get_for_job :: "ref \<Rightarrow> (db, password_secret) action" where
  "get_for_job job_ref =
     andThen (query (\<lambda>_. coerce_ref ''Job'' job_ref)) (\<lambda>j.
     query (\<lambda>d. case secret_of_job j d of
       None \<Rightarrow> Inl (NotFoundError (''Password change secret for job '' @ ref_str job_ref @ '' not found''))
     | Some x \<Rightarrow> Inr x))"

definition delete_for_job :: "ref \<Rightarrow> (db, unit) action" where
  "delete_for_job job_ref =
     andThen (get_for_job job_ref) (\<lambda>x.
     change (\<lambda>d. d\<lparr>t_password_secret := filter (\<lambda>y. ps_id y \<noteq> ps_id x) (t_password_secret d)\<rparr>))"

definition set_expires_at :: "ref \<Rightarrow> datetime \<Rightarrow> (db, password_secret) action" where
  "set_expires_at job_ref t =
     andThen (get_for_job job_ref) (\<lambda>x.
     andThen (change (\<lambda>d. d\<lparr>t_password_secret :=
       upd_row ps_id (ps_id x) (\<lambda>y. y\<lparr>ps_expires_at := Some t\<rparr>) (t_password_secret d)\<rparr>)) (\<lambda>_.
     ret (x\<lparr>ps_expires_at := Some t\<rparr>)))"

section \<open>Rollout batches\<close>

definition upd_batch :: "uuid \<Rightarrow> (rollout_batch \<Rightarrow> rollout_batch) \<Rightarrow> db \<Rightarrow> db" where
  "upd_batch i f d = d\<lparr>t_rollout_batch := upd_row rb_id i f (t_rollout_batch d)\<rparr>"

definition upd_batch_task :: "uuid \<Rightarrow> (rollout_task \<Rightarrow> rollout_task) \<Rightarrow> db \<Rightarrow> db" where
  "upd_batch_task i f d = d\<lparr>t_rollout_task := upd_row rk_id i f (t_rollout_task d)\<rparr>"

definition add_batch_task :: "int \<Rightarrow> uuid \<Rightarrow> uuid \<Rightarrow> (db, unit) action" where
  "add_batch_task now batch task =
     andThen fresh_id (\<lambda>i.
       let x = \<lparr>rk_id = i, rk_batch_id = batch, rk_job_task_id = task, rk_status = ''pending'',
             rk_created_at = Aware now, rk_started_at = None, rk_finished_at = None\<rparr>
       in change (\<lambda>d. d\<lparr>t_rollout_task := t_rollout_task d @ [x]\<rparr>))"

text \<open>The tasks of the batches: a batch takes the next ones (the sizes are positive).\<close>

fun cut_batches :: "nat \<Rightarrow> int list \<Rightarrow> uuid list \<Rightarrow> (nat \<times> uuid list) list" where
  "cut_batches k [] ts = []"
| "cut_batches k (m # sizes) ts = (k, take (nat m) ts) # cut_batches (Suc k) sizes (drop (nat m) ts)"

definition create_batch :: "int \<Rightarrow> uuid \<Rightarrow> nat \<times> uuid list \<Rightarrow> (db, rollout_batch) action" where
  "create_batch now j part =
     andThen fresh_id (\<lambda>i.
       let b = \<lparr>rb_id = i, rb_job_id = j, rb_batch_index = int (fst part), rb_batch_size = int (length (snd part)),
             rb_status = ''pending'', rb_created_at = Aware now, rb_started_at = None, rb_finished_at = None\<rparr>
       in andThen (change (\<lambda>d. d\<lparr>t_rollout_batch := t_rollout_batch d @ [b]\<rparr>)) (\<lambda>_.
          andThen (for_each (add_batch_task now i) (snd part)) (\<lambda>_. ret b)))"

definition create_batches :: "int \<Rightarrow> ref \<Rightarrow> ref list \<Rightarrow> int list \<Rightarrow> (db, rollout_batch list) action" where
  "create_batches now job_ref task_refs canary_plan =
     andThen (query (\<lambda>_. coerce_ref ''Job'' job_ref)) (\<lambda>j.
     andThen (for_each (\<lambda>r. query (\<lambda>_. coerce_ref ''Job task'' r)) task_refs) (\<lambda>ts.
     for_each (create_batch now j) (cut_batches 0 canary_plan ts)))"

definition batches_of :: "uuid \<Rightarrow> db \<Rightarrow> rollout_batch list" where
  "batches_of j d = sort_key rb_batch_index (filter (\<lambda>b. rb_job_id b = j) (t_rollout_batch d))"

definition list_batches :: "ref \<Rightarrow> (db, rollout_batch list) action" where
  "list_batches r = andThen (query (\<lambda>_. coerce_ref ''Job'' r)) (\<lambda>j. asks (batches_of j))"

definition next_batch :: "uuid \<Rightarrow> db \<Rightarrow> rollout_batch option" where
  "next_batch j d = find (\<lambda>b. rb_status b = ''pending'') (batches_of j d)"

definition get_next_pending_batch :: "ref \<Rightarrow> (db, rollout_batch option) action" where
  "get_next_pending_batch r = andThen (query (\<lambda>_. coerce_ref ''Job'' r)) (\<lambda>j. asks (next_batch j))"

definition get_batch :: "ref \<Rightarrow> (db, rollout_batch) action" where
  "get_batch = get_by_ref find_rollout_batch ''Password rollout batch''"

definition update_batch_status ::
  "ref \<Rightarrow> string \<Rightarrow> datetime option \<Rightarrow> datetime option \<Rightarrow> (db, rollout_batch) action" where
  "update_batch_status r status started finished =
     andThen (get_batch r) (\<lambda>b.
       let f = (\<lambda>x. x\<lparr>rb_status := status, rb_started_at := given_opt started (rb_started_at x),
             rb_finished_at := given_opt finished (rb_finished_at x)\<rparr>)
       in andThen (change (upd_batch (rb_id b) f)) (\<lambda>_. ret (f b)))"

definition tasks_of_batch :: "uuid \<Rightarrow> db \<Rightarrow> rollout_task list" where
  "tasks_of_batch b d = by_time rk_created_at (sort_key rk_id (filter (\<lambda>x. rk_batch_id x = b) (t_rollout_task d)))"

definition list_batch_tasks :: "ref \<Rightarrow> (db, rollout_task list) action" where
  "list_batch_tasks r =
     andThen (query (\<lambda>_. coerce_ref ''Password rollout batch'' r)) (\<lambda>b. asks (tasks_of_batch b))"

definition update_batch_task_status ::
  "ref \<Rightarrow> string \<Rightarrow> datetime option \<Rightarrow> datetime option \<Rightarrow> (db, rollout_task) action" where
  "update_batch_task_status r status started finished =
     andThen (get_by_ref find_rollout_task ''Password rollout batch task'' r) (\<lambda>x.
       let f = (\<lambda>y. y\<lparr>rk_status := status, rk_started_at := given_opt started (rk_started_at y),
             rk_finished_at := given_opt finished (rk_finished_at y)\<rparr>)
       in andThen (change (upd_batch_task (rk_id x) f)) (\<lambda>_. ret (f x)))"

end
