(* ===== verification/DeviceBackups.thy ===== *)
theory DeviceBackups
  imports JobStore AuditTrail Vault Difflib
begin

text \<open>
  app/services/backup_service.py with the endpoints of app/api/v1/backups.py: encrypted copies of a device's
  configuration.  What the process does not compute itself is a record of parameters: Fernet, SHA-256, the settings
  and the clock.
\<close>

record world =
  w_enc :: encryption
  w_dec :: decryption
  w_sha :: "string \<Rightarrow> string"
  w_cfg :: settings
  w_now :: int
  w_nonce :: "uuid \<Rightarrow> nat"

text \<open>The cipher a service is built with; its key may be refused.\<close>

definition service_cipher :: "world \<Rightarrow> error + string" where
  "service_cipher w = (case encryption_key (w_cfg w) of Inl e \<Rightarrow> Inl e | Inr k \<Rightarrow> fernet_cipher k)"

definition encrypted :: "world \<Rightarrow> string \<Rightarrow> (db, string) action" where
  "encrypted w value =
     query (\<lambda>d. case service_cipher w of
       Inl e \<Rightarrow> Inl e
     | Inr k \<Rightarrow> cipher_encrypt (w_enc w) k (w_nonce w (db_next_id d)) value)"

definition decrypted :: "world \<Rightarrow> string \<Rightarrow> error + string" where
  "decrypted w token = (case service_cipher w of Inl e \<Rightarrow> Inl e | Inr k \<Rightarrow> cipher_decrypt (w_dec w) k token)"

section \<open>The service\<close>

record backup_read =
  br_id :: string
  br_device_id :: string
  br_job_task_id :: "string option"
  br_config_hash :: string
  br_config_text :: "string option"
  br_created_by :: string
  br_created_at :: string

definition read_backup_row :: "world \<Rightarrow> bool \<Rightarrow> config_backup \<Rightarrow> error + backup_read" where
  "read_backup_row w include_config b =
     (let row = (\<lambda>config. \<lparr>br_id = uuid_str (cb_id b), br_device_id = uuid_str (cb_device_id b),
            br_job_task_id = map_option uuid_str (cb_job_task_id b), br_config_hash = cb_config_hash b,
            br_config_text = config, br_created_by = cb_created_by b, br_created_at = isoformat (cb_created_at b)\<rparr>)
      in if \<not> include_config then Inr (row None)
         else case decrypted w (cb_config_text b) of
           Inl e \<Rightarrow> Inl e
         | Inr config \<Rightarrow> Inr (row (Some (mask_secrets [] config))))"

definition read_backup :: "world \<Rightarrow> ref \<Rightarrow> bool \<Rightarrow> (db, backup_read) action" where
  "read_backup w r include_config = andThen (backup_get r) (\<lambda>b. query (\<lambda>_. read_backup_row w include_config b))"

definition dummy_config :: "string \<Rightarrow> string" where
  "dummy_config device =
     ''! dummy running-config for '' @ device @ [newline] @ ''interface Loopback0'' @ [newline] @
     '' description backup-safe'' @ [newline]"

definition create_backup ::
  "world \<Rightarrow> string \<Rightarrow> string \<Rightarrow> string option \<Rightarrow> string option \<Rightarrow> string option \<Rightarrow> (db, backup_read) action" where
  "create_backup w device actr task_text job_text config_text =
     andThen (device_by_ref (RefText device)) (\<lambda>_.
     let config = given config_text (dummy_config device)
     in andThen (encrypted w config) (\<lambda>token.
        andThen (backup_create (w_now w) (RefText device) token (w_sha w config) actr (map_option RefText task_text)) (\<lambda>b.
        andThen (audit_write (w_now w) actr ''backup.created'' ''backup'' (uuid_str (cb_id b)) (Some (RefText device))
          (map_option RefText job_text) None
          (Some [(''config_hash'', JStr (cb_config_hash b)), (''job_task_id'', str_opt task_text)]) None) (\<lambda>_.
        read_backup w (RefText (uuid_str (cb_id b))) False))))"

definition list_device_backups :: "world \<Rightarrow> string \<Rightarrow> (db, backup_read list) action" where
  "list_device_backups w device =
     andThen (device_by_ref (RefText device)) (\<lambda>_.
     andThen (backups_of_device (RefText device)) (\<lambda>bs.
     for_each (\<lambda>b. query (\<lambda>_. read_backup_row w False b)) bs))"

text \<open>app/utils/diff.py: header lines without a line end, and all lines joined.\<close>

definition text_diff :: "string \<Rightarrow> string \<Rightarrow> string \<Rightarrow> string \<Rightarrow> string" where
  "text_diff before_text after_text fromfile tofile =
     (let a = splitlines before_text; b = splitlines after_text; groups = grouped_opcodes 3 a b
      in str_join [newline]
           (if groups = [] then []
            else [''--- '' @ fromfile, ''+++ '' @ tofile] @
                 concat (map (\<lambda>g. butlast (hd (hunk_text a b g)) # tl (hunk_text a b g)) groups)))"

definition diff_backups :: "world \<Rightarrow> string \<Rightarrow> string \<Rightarrow> (db, string) action" where
  "diff_backups w i other =
     andThen (backup_get (RefText i)) (\<lambda>a.
     andThen (query (\<lambda>_. decrypted w (cb_config_text a))) (\<lambda>left.
     andThen (backup_get (RefText other)) (\<lambda>b.
     andThen (query (\<lambda>_. decrypted w (cb_config_text b))) (\<lambda>right.
     ret (mask_secrets [] (text_diff left right i other))))))"

section \<open>The endpoints\<close>

text \<open>A service is built first: its cipher may fail.\<close>

definition built :: "world \<Rightarrow> (db, 'a) action \<Rightarrow> (db, 'a) action" where
  "built w m = andThen (query (\<lambda>_. service_cipher w)) (\<lambda>_. m)"

definition api_create_device_backup :: "world \<Rightarrow> string \<Rightarrow> string option \<Rightarrow> actor \<Rightarrow> (db, backup_read) action" where
  "api_create_device_backup w device config_text a =
     endpoint Perm_read_backups a (built w (create_backup w device (username a) None None config_text))"

definition api_list_device_backups :: "world \<Rightarrow> string \<Rightarrow> actor \<Rightarrow> (db, backup_read list) action" where
  "api_list_device_backups w device a =
     endpoint Perm_read_backups a (built w (list_device_backups w device))"

definition api_get_backup :: "world \<Rightarrow> string \<Rightarrow> actor \<Rightarrow> (db, backup_read) action" where
  "api_get_backup w i a =
     endpoint Perm_read_backups a (catching not_found_404 (built w (read_backup w (RefText i) True)))"

definition api_diff_backups :: "world \<Rightarrow> string \<Rightarrow> string \<Rightarrow> actor \<Rightarrow> (db, string) action" where
  "api_diff_backups w i other a =
     endpoint Perm_read_backups a (catching not_found_404 (built w (diff_backups w i other)))"

end
