(* ===== verification/VlanJobs.thy ===== *)
theory VlanJobs
  imports DeviceBackups
begin

text \<open>
  app/services/job_service.py: VLAN change jobs are created from a dry run, approved or cancelled, and read.
\<close>

section \<open>Creation\<close>

definition stored_device :: "int \<Rightarrow> device_input \<times> dry_run_device \<Rightarrow> (db, dry_run_device) action" where
  "stored_device now p =
     (case p of (input_dev, d) \<Rightarrow>
        andThen (create_or_update_from_input now input_dev (pd_driver d) (Some (capabilities_json (pd_capabilities d)))) (\<lambda>dev.
        ret (d\<lparr>pd_device_id := Some (uuid_str (dev_id dev))\<rparr>)))"

definition device_input_json :: "device_input \<Rightarrow> jobj" where
  "device_input_json p =
     [(''hostname'', str_opt (di_hostname p)), (''ip_address'', JStr (di_ip_address p)), (''vendor'', JStr (di_vendor p)),
      (''model'', JStr (di_model p)), (''site'', str_opt (di_site p)), (''role'', str_opt (di_role p)),
      (''tags'', JObj (di_tags p))]"

definition vlan_change_json :: "vlan_change_request \<Rightarrow> jobj" where
  "vlan_change_json p =
     [(''requested_by'', JStr (vc_requested_by p)),
      (''devices'', JList (map (\<lambda>d. JObj (device_input_json d)) (vc_devices p))),
      (''intent'', JObj [(''vlan_id'', JInt (vi_vlan_id (vc_intent p))), (''name'', str_opt (vi_name (vc_intent p))),
        (''state'', JStr (if vi_present (vc_intent p) then ''present'' else ''absent'')),
        (''force'', JBool (vi_force (vc_intent p)))]),
      (''batch_size'', JInt (vc_batch_size p))]"

record job_created =
  jc_job_id :: string
  jc_status :: string
  jc_approval_status :: string
  jc_approval_required :: bool
  jc_apply_allowed :: bool
  jc_dry_run :: jobj

definition create_task_of :: "uuid \<Rightarrow> dry_run_device \<Rightarrow> (db, job_task) action" where
  "create_task_of j d =
     task_create (RefId j) (RefText (or_empty (pd_device_id d))) (pd_commands d) (dry_run_device_json d)"

definition create_vlan_change_job :: "int \<Rightarrow> vlan_change_request \<Rightarrow> string \<Rightarrow> (db, job_created) action" where
  "create_vlan_change_job now p actr =
     andThen (query (\<lambda>_. plan_vlan_change p)) (\<lambda>plan.
     andThen (for_each (stored_device now) (zip (vc_devices p) (dj_devices plan))) (\<lambda>devs.
     let stored = job_dry_run_json (plan\<lparr>dj_devices := devs\<rparr>)
     in andThen (job_create now ''vlan_change'' ''pending_approval'' actr ''pending'' stored (vlan_change_json p)) (\<lambda>j.
        andThen (for_each (create_task_of (jb_id j)) devs) (\<lambda>_.
        andThen (set_job j (\<lambda>r. r\<lparr>jb_dry_run := stored\<rparr>)) (\<lambda>_.
        andThen (audit_write now actr ''job.created'' ''job'' (uuid_str (jb_id j)) None None None
          (Some [(''job_type'', JStr (jb_job_type j)), (''status'', JStr (jb_status j)),
            (''approval_status'', JStr (jb_approval_status j))]) None) (\<lambda>_.
        andThen (audit_write now actr ''job.dry_run_generated'' ''job'' (uuid_str (jb_id j)) None None None
          (Some [(''device_count'', JInt (dj_device_count plan)),
            (''estimated_impact'', JStr (dj_estimated_impact plan))]) None) (\<lambda>_.
        ret \<lparr>jc_job_id = uuid_str (jb_id j), jc_status = jb_status j, jc_approval_status = jb_approval_status j,
             jc_approval_required = True, jc_apply_allowed = False, jc_dry_run = stored\<rparr>)))))))"

definition create_draft_from_dry_run :: "job_dry_run \<Rightarrow> jobj" where
  "create_draft_from_dry_run r = [(''status'', JStr ''pending_approval''), (''dry_run'', JObj (job_dry_run_json r))]"

section \<open>Reading\<close>

record job_read =
  jr_id :: string
  jr_job_type :: string
  jr_status :: string
  jr_requested_by :: string
  jr_approved_by :: "string option"
  jr_approval_status :: string
  jr_created_at :: string
  jr_approved_at :: "string option"
  jr_started_at :: "string option"
  jr_finished_at :: "string option"
  jr_task_ids :: "string list"

record task_read =
  tr_id :: string
  tr_job_id :: string
  tr_device_id :: string
  tr_status :: string
  tr_attempt :: int
  tr_commands :: "string list"
  tr_sanitized_output :: "string option"
  tr_error :: "string option"
  tr_backup_id :: "string option"
  tr_started_at :: "string option"
  tr_finished_at :: "string option"

definition read_job_row :: "job \<Rightarrow> (db, job_read) action" where
  "read_job_row j =
     andThen (job_task_ids (RefId (jb_id j))) (\<lambda>ids.
     ret \<lparr>jr_id = uuid_str (jb_id j), jr_job_type = jb_job_type j, jr_status = jb_status j,
          jr_requested_by = jb_requested_by j, jr_approved_by = jb_approved_by j,
          jr_approval_status = jb_approval_status j, jr_created_at = isoformat (jb_created_at j),
          jr_approved_at = map_option isoformat (jb_approved_at j),
          jr_started_at = map_option isoformat (jb_started_at j),
          jr_finished_at = map_option isoformat (jb_finished_at j), jr_task_ids = map uuid_str ids\<rparr>)"

definition read_task_row :: "job_task \<Rightarrow> task_read" where
  "read_task_row t =
     \<lparr>tr_id = uuid_str (jt_id t), tr_job_id = uuid_str (jt_job_id t), tr_device_id = uuid_str (jt_device_id t),
      tr_status = jt_status t, tr_attempt = jt_attempt t, tr_commands = jt_commands t,
      tr_sanitized_output = jt_sanitized_output t, tr_error = jt_error t,
      tr_backup_id = map_option uuid_str (jt_backup_id t),
      tr_started_at = map_option isoformat (jt_started_at t),
      tr_finished_at = map_option isoformat (jt_finished_at t)\<rparr>"

definition read_all_jobs :: "(db, job_read list) action" where
  "read_all_jobs = andThen (asks job_list) (\<lambda>js. for_each read_job_row js)"

definition read_job_by_id :: "string \<Rightarrow> (db, job_read) action" where
  "read_job_by_id i = andThen (job_get (RefText i)) read_job_row"

text \<open>The stored payload is the one the schema dumped: reading it back gives it again.\<close>

definition read_dry_run :: "string \<Rightarrow> (db, jobj) action" where
  "read_dry_run i = andThen (job_get (RefText i)) (\<lambda>j. ret (jb_dry_run j))"

definition read_tasks :: "string \<Rightarrow> (db, task_read list) action" where
  "read_tasks i =
     andThen (job_get (RefText i)) (\<lambda>_. andThen (task_list (RefText i)) (\<lambda>ts. ret (map read_task_row ts)))"

section \<open>Approval and cancellation\<close>

definition status_pair :: "string \<Rightarrow> string \<Rightarrow> jobj" where
  "status_pair status approval = [(''status'', JStr status), (''approval_status'', JStr approval)]"

definition approve_job :: "int \<Rightarrow> string \<Rightarrow> string \<Rightarrow> (db, job_read) action" where
  "approve_job now i actr =
     andThen (job_get (RefText i)) (\<lambda>j.
     andThen (unless (jb_status j \<noteq> ''cancelled'') (ConflictError ''Cancelled job cannot be approved'')) (\<lambda>_.
     if jb_approval_status j = ''approved'' then read_job_row j
     else andThen (set_job j (\<lambda>r. r\<lparr>jb_status := ''approved'', jb_approval_status := ''approved'',
            jb_approved_by := Some actr, jb_approved_at := Some (Aware now)\<rparr>)) (\<lambda>_.
          andThen (audit_write now actr ''job.approved'' ''job'' (uuid_str (jb_id j)) None
            (Some (RefText (uuid_str (jb_id j)))) (Some (status_pair (jb_status j) (jb_approval_status j)))
            (Some (status_pair ''approved'' ''approved'' @ [(''approved_by'', JStr actr)])) None) (\<lambda>_.
          andThen (job_now j) read_job_row))))"

definition skip_pending :: "job_task \<Rightarrow> (db, unit) action" where
  "skip_pending t =
     (if jt_status t = ''pending''
      then set_task t (\<lambda>r. r\<lparr>jt_status := ''skipped'', jt_error := Some ''Job cancelled before execution''\<rparr>)
      else ret ())"

definition cancel_job :: "int \<Rightarrow> string \<Rightarrow> string \<Rightarrow> (db, job_read) action" where
  "cancel_job now i actr =
     andThen (job_get (RefText i)) (\<lambda>j.
     if jb_status j = ''cancelled'' then read_job_row j
     else andThen (unless (jb_status j \<notin> {''running'', ''succeeded''})
            (ConflictError (''Cannot cancel job in status '' @ jb_status j))) (\<lambda>_.
          andThen (set_job j (\<lambda>r. r\<lparr>jb_status := ''cancelled'', jb_approval_status := ''cancelled'',
            jb_finished_at := Some (Aware now)\<rparr>)) (\<lambda>_.
          andThen (task_list (RefId (jb_id j))) (\<lambda>ts.
          andThen (for_each skip_pending ts) (\<lambda>_.
          andThen (audit_write now actr ''job.cancelled'' ''job'' (uuid_str (jb_id j)) None
            (Some (RefText (uuid_str (jb_id j)))) (Some (status_pair (jb_status j) (jb_approval_status j)))
            (Some (status_pair ''cancelled'' ''cancelled'')) None) (\<lambda>_.
          andThen (job_now j) read_job_row))))))"

end
