(* ===== verification/JobExecution.thy ===== *)
theory JobExecution
  imports VlanJobs DeviceLocks LabValidationService
begin

text \<open>
  app/jobs/executors.py, with app/transports/dummy_transport.py and app/services/credential_verification_service.py: a
  job runs its tasks, a task takes the lease of its device, backs it up, applies, verifies and saves, and gives the
  lease back however it ends.
\<close>

section \<open>The transport of executed tasks\<close>

record execution_result =
  er_command :: string
  er_output :: string
  er_success :: bool
  er_error :: "string option"

record dummy_transport =
  dt_opened :: bool
  dt_commands :: "string list"

definition dummy_transport :: dummy_transport where
  "dummy_transport = \<lparr>dt_opened = False, dt_commands = []\<rparr>"

definition dummy_open :: "dummy_transport \<Rightarrow> dummy_transport" where
  "dummy_open t = t\<lparr>dt_opened := True\<rparr>"

definition dummy_close :: "dummy_transport \<Rightarrow> dummy_transport" where
  "dummy_close t = t\<lparr>dt_opened := False\<rparr>"

definition dummy_send :: "string \<Rightarrow> dummy_transport \<Rightarrow> execution_result \<times> dummy_transport" where
  "dummy_send command t =
     (\<lparr>er_command = command, er_output = command @ [newline] @ ''ok'', er_success = True, er_error = None\<rparr>,
      t\<lparr>dt_commands := dt_commands t @ [command]\<rparr>)"

fun dummy_send_config :: "string list \<Rightarrow> dummy_transport \<Rightarrow> execution_result list \<times> dummy_transport" where
  "dummy_send_config [] t = ([], t)"
| "dummy_send_config (c # cs) t =
     (case dummy_send c t of (r, t') \<Rightarrow> (case dummy_send_config cs t' of (rs, t'') \<Rightarrow> (r # rs, t'')))"

text \<open>\<open>DeviceJobExecutor.execute_commands\<close>\<close>

definition execute_commands :: "string list \<Rightarrow> dummy_transport \<Rightarrow> command_result list \<times> dummy_transport" where
  "execute_commands commands t =
     (case dummy_send_config commands (dummy_open t) of (results, t') \<Rightarrow>
        (map (\<lambda>r. \<lparr>cr_commands = [er_command r], cr_output = er_output r, cr_success = er_success r,
           cr_changed = er_success r, cr_error = er_error r, cr_warnings = []\<rparr>) results, dummy_close t'))"

definition verify_new_credential :: "settings \<Rightarrow> string \<Rightarrow> string \<Rightarrow> string \<Rightarrow> bool \<Rightarrow> error + bool" where
  "verify_new_credential cfg user new_password transport_type simulate_failure =
     (if transport_type \<in> {''scrapli'', ''netmiko''} \<and> \<not> allow_real_device_apply cfg
      then Inl (SafetyError ''Real credential verification is disabled by NCP_ALLOW_REAL_DEVICE_APPLY=false'')
      else Inr (\<not> simulate_failure \<and> user \<noteq> [] \<and> new_password \<noteq> []))"

section \<open>The state of an execution\<close>

text \<open>The session and \<open>_acquired_locks\<close>, the devices whose lease this service object holds.\<close>

type_synonym exec_state = "db \<times> string set"

definition in_db :: "(db, 'a) action \<Rightarrow> (exec_state, 'a) action" where
  "in_db m s = (case m (fst s) of (x, d) \<Rightarrow> (x, (d, snd s)))"

definition lock_taken :: "string \<Rightarrow> (exec_state, unit) action" where
  "lock_taken device = change (\<lambda>(d, held). (d, insert device held))"

text \<open>\<open>try: ... except\<close> with the exception as a value, and \<open>try: ... finally\<close>.\<close>

definition caught :: "('s, 'a) action \<Rightarrow> ('s, error + 'a) action" where
  "caught m s = (case m s of (x, s') \<Rightarrow> (Inr x, s'))"

definition finally_do :: "('s, 'a) action \<Rightarrow> ('s, unit) action \<Rightarrow> ('s, 'a) action" where
  "finally_do m f s = (case m s of (x, s') \<Rightarrow> (case f s' of (Inl e, s'') \<Rightarrow> (Inl e, s'') | (Inr _, s'') \<Rightarrow> (x, s'')))"

text \<open>\<open>_job\<close> and \<open>_task\<close>: whatever goes wrong, a SafetyError.\<close>

definition find_job_or_refuse :: "string \<Rightarrow> (exec_state, job) action" where
  "find_job_or_refuse i =
     catching (\<lambda>_. SafetyError (''Job '' @ i @ '' not found'')) (in_db (job_get (RefText i)))"

definition find_task_or_refuse :: "string \<Rightarrow> (exec_state, job_task) action" where
  "find_task_or_refuse i =
     catching (\<lambda>_. SafetyError (''Job task '' @ i @ '' not found'')) (in_db (task_get (RefText i)))"

definition assign_task :: "job_task \<Rightarrow> (job_task \<Rightarrow> job_task) \<Rightarrow> (exec_state, unit) action" where
  "assign_task t f = in_db (set_task t f)"

abbreviation task_status :: "job_task \<Rightarrow> string \<Rightarrow> (exec_state, unit) action" where
  "task_status t st \<equiv> assign_task t (\<lambda>r. r\<lparr>jt_status := st\<rparr>)"

definition audit_task ::
  "int \<Rightarrow> string \<Rightarrow> string \<Rightarrow> job_task \<Rightarrow> job \<Rightarrow> jobj option \<Rightarrow> jobj option \<Rightarrow> (exec_state, jobj) action" where
  "audit_task now actr act t j after_values metadata =
     in_db (audit_write now actr act ''job_task'' (uuid_str (jt_id t)) (Some (RefText (uuid_str (jt_device_id t))))
       (Some (RefText (uuid_str (jb_id j)))) None after_values metadata)"

section \<open>The dry run a task was approved with\<close>

text \<open>\<open>dry_run.get("transport") in {...}\<close>: a list or dictionary has no hash.\<close>

definition real_transport :: "jobj \<Rightarrow> error + bool" where
  "real_transport dry =
     (case jget dry ''transport'' of
        JStr s \<Rightarrow> Inr (s \<in> {''scrapli'', ''netmiko''})
      | JList _ \<Rightarrow> Inl (TypeError (''unhashable type: '' @ repr_str ''list''))
      | JObj _ \<Rightarrow> Inl (TypeError (''unhashable type: '' @ repr_str ''dict''))
      | _ \<Rightarrow> Inr False)"

text \<open>\<open>list(dry_run.get(key, []))\<close>; the transport prints each command.\<close>

definition listed_commands :: "jobj \<Rightarrow> string \<Rightarrow> error + string list" where
  "listed_commands dry key =
     (case map_of dry key of
        None \<Rightarrow> Inr []
      | Some v \<Rightarrow> (case json_items v of Inl e \<Rightarrow> Inl e | Inr xs \<Rightarrow> Inr (map py_str xs)))"

definition check_real_apply :: "world \<Rightarrow> jobj \<Rightarrow> string \<Rightarrow> (exec_state, unit) action" where
  "check_real_apply w dry capability =
     andThen (query (\<lambda>_. real_transport dry)) (\<lambda>real_device.
     andThen (unless (allow_real_device_apply (w_cfg w) \<or> \<not> real_device)
       (SafetyError ''Real device apply is disabled by NCP_ALLOW_REAL_DEVICE_APPLY=false'')) (\<lambda>_.
     if real_device
     then in_db (query (assert_real_apply_allowed (w_cfg w) (w_now w) (str_or_empty (jget dry ''vendor''))
            (str_or_empty (jget dry ''model'')) (str_or_empty (jget dry ''driver'')) capability))
     else ret ()))"

section \<open>A VLAN change task\<close>

text \<open>What the code holds on to while it works: the lease is noted after it was taken.\<close>

definition take_lease :: "world \<Rightarrow> job_task \<Rightarrow> job \<Rightarrow> string \<Rightarrow> (exec_state, unit) action" where
  "take_lease w t j actr =
     andThen (in_db (lock_acquire (w_now w) (RefText (uuid_str (jt_device_id t))) (RefText (uuid_str (jb_id j))) actr 900)) (\<lambda>_.
     lock_taken (uuid_str (jt_device_id t)))"

definition back_up :: "world \<Rightarrow> job_task \<Rightarrow> job \<Rightarrow> string \<Rightarrow> string \<Rightarrow> (exec_state, backup_read) action" where
  "back_up w t j actr remark =
     andThen (in_db (create_backup w (uuid_str (jt_device_id t)) actr (Some (uuid_str (jt_id t)))
       (Some (uuid_str (jb_id j))) (Some (''! '' @ remark @ '' backup for '' @ uuid_str (jt_device_id t) @ [newline])))) (\<lambda>b.
     andThen (query (\<lambda>_. coerce_uuid ''Backup'' (br_id b))) (\<lambda>i.
     andThen (assign_task t (\<lambda>r. r\<lparr>jt_backup_id := Some i\<rparr>)) (\<lambda>_. ret b)))"

definition all_succeeded :: "execution_result list \<Rightarrow> string \<Rightarrow> (exec_state, unit) action" where
  "all_succeeded results message = unless (list_all er_success results) (SafetyError message)"

definition outputs :: "execution_result list \<Rightarrow> string" where
  "outputs rs = str_join [newline] (map er_output rs)"

text \<open>Between \<open>transport.open()\<close> and \<open>transport.close()\<close>; the transport is dropped afterwards.\<close>

definition apply_verify_save :: "job_task \<Rightarrow> jobj \<Rightarrow> (exec_state, unit) action" where
  "apply_verify_save t dry =
     andThen (query (\<lambda>_. listed_commands dry ''config_commands'')) (\<lambda>config.
     let (config_results, t1) = dummy_send_config config (dummy_open dummy_transport)
     in andThen (all_succeeded config_results ''One or more config commands failed'') (\<lambda>_.
        andThen (task_status t ''verifying'') (\<lambda>_.
        andThen (query (\<lambda>_. listed_commands dry ''verification_commands'')) (\<lambda>checks.
        let (verify_results, t2) = dummy_send_config checks t1
        in andThen (all_succeeded verify_results ''Verification failed'') (\<lambda>_.
           andThen (task_status t ''saving'') (\<lambda>_.
           andThen (query (\<lambda>_. listed_commands dry ''save_commands'')) (\<lambda>saves.
           let (save_results, t3) = dummy_send_config saves t2
           in andThen (all_succeeded save_results ''Save config failed'') (\<lambda>_.
              assign_task t (\<lambda>r. r\<lparr>jt_sanitized_output :=
                Some (mask_secrets [] (outputs (config_results @ verify_results @ save_results)))\<rparr>)))))))))"

definition check_vlan_task :: "world \<Rightarrow> job \<Rightarrow> job_task \<Rightarrow> jobj \<Rightarrow> (exec_state, unit) action" where
  "check_vlan_task w j t dry =
     andThen (unless (jb_job_type j = ''vlan_change'') (SafetyError (''Unsupported job type: '' @ jb_job_type j))) (\<lambda>_.
     andThen (unless (jb_status j \<noteq> ''cancelled'') (SafetyError ''Job was cancelled'')) (\<lambda>_.
     andThen (if truthy (jget dry ''apply_supported'') then ret ()
              else andThen (task_status t ''skipped'') (\<lambda>_.
                   raise (SafetyError ''Driver is not confirmed for destructive apply''))) (\<lambda>_.
     andThen (unless (truthy (jget dry ''verification_commands''))
       (SafetyError ''Verification commands are required before apply'')) (\<lambda>_.
     check_real_apply w dry ''vlan_change''))))"

definition execute_vlan_change_task :: "world \<Rightarrow> job \<Rightarrow> job_task \<Rightarrow> string \<Rightarrow> (exec_state, unit) action" where
  "execute_vlan_change_task w j t actr =
     (let dry = jt_dry_run_device t
      in andThen (check_vlan_task w j t dry) (\<lambda>_.
         andThen (take_lease w t j actr) (\<lambda>_.
         andThen (task_status t ''locked'') (\<lambda>_.
         andThen (task_status t ''backing_up'') (\<lambda>_.
         andThen (back_up w t j actr ''pre-change'') (\<lambda>_.
         andThen (task_status t ''applying'') (\<lambda>_.
         apply_verify_save t dry)))))))"

section \<open>Any task\<close>

definition mark_failed :: "job_task \<Rightarrow> error \<Rightarrow> (exec_state, job_task) action" where
  "mark_failed t e =
     andThen (assign_task t (\<lambda>r. r\<lparr>
       jt_status := (if is_safety_error e \<and> jt_status r = ''skipped'' then ''skipped'' else ''failed''),
       jt_error := Some (mask_secrets [] (err_str e))\<rparr>)) (\<lambda>_. in_db (task_now t))"

text \<open>The lease is given back only when this service took it.\<close>

definition release_lease :: "world \<Rightarrow> job_task \<Rightarrow> string \<Rightarrow> (exec_state, unit) action" where
  "release_lease w t actr =
     andThen (assign_task t (\<lambda>r. r\<lparr>jt_finished_at := Some (Aware (w_now w))\<rparr>)) (\<lambda>_.
     andThen (asks (\<lambda>s. uuid_str (jt_device_id t) \<in> snd s)) (\<lambda>held.
     if held
     then andThen (in_db (lock_release (w_now w) (RefText (uuid_str (jt_device_id t))) actr)) (\<lambda>_.
          change (\<lambda>(d, locks). (d, locks - {uuid_str (jt_device_id t)})))
     else ret ()))"

text \<open>
  The frame of both kinds of tasks: \<open>body\<close>, then \<open>succeeded\<close> and its event; an exception is
  recorded with the event \<open>failed_event\<close>; and at the end the lease.
\<close>

definition settle_task ::
  "world \<Rightarrow> job_task \<Rightarrow> string \<Rightarrow> (exec_state, unit) action \<Rightarrow>
   (error \<Rightarrow> job_task \<Rightarrow> (exec_state, unit) action) \<Rightarrow> (exec_state, string) action" where
  "settle_task w t actr body failed_event =
     andThen (finally_do
       (andThen (caught body) (\<lambda>outcome.
          case outcome of
            Inr _ \<Rightarrow> ret ()
          | Inl e \<Rightarrow> andThen (mark_failed t e) (\<lambda>r. failed_event e r)))
       (release_lease w t actr)) (\<lambda>_.
     andThen (in_db (task_now t)) (\<lambda>r. ret (jt_status r)))"

definition start_task :: "world \<Rightarrow> job_task \<Rightarrow> (job_task \<Rightarrow> job_task) \<Rightarrow> (exec_state, unit) action" where
  "start_task w t f =
     assign_task t (\<lambda>r. f (r\<lparr>jt_started_at := Some (Aware (w_now w)), jt_attempt := jt_attempt r + 1\<rparr>))"

definition execute_job_task :: "world \<Rightarrow> string \<Rightarrow> string \<Rightarrow> (exec_state, string) action" where
  "execute_job_task w i actr =
     andThen (find_task_or_refuse i) (\<lambda>t.
     andThen (find_job_or_refuse (uuid_str (jt_job_id t))) (\<lambda>j.
     andThen (start_task w t (\<lambda>r. r)) (\<lambda>_.
     andThen (audit_task (w_now w) actr ''task.started'' t j None None) (\<lambda>_.
     settle_task w t actr
       (andThen (execute_vlan_change_task w j t actr) (\<lambda>_.
        andThen (task_status t ''succeeded'') (\<lambda>_.
        andThen (audit_task (w_now w) actr ''task.succeeded'' t j None None) (\<lambda>_. ret ()))))
       (\<lambda>e r. andThen (audit_task (w_now w) actr
          (if is_safety_error e \<and> jt_status r = ''skipped'' then ''task.skipped'' else ''task.failed'') t j None
          (Some [(''error'', JStr (or_empty (jt_error r)))])) (\<lambda>_. ret ()))))))"

section \<open>A job\<close>

record job_run =
  jx_job_id :: string
  jx_status :: string
  jx_task_statuses :: "(string \<times> string) list"

definition job_status_of :: "string list \<Rightarrow> string" where
  "job_status_of statuses =
     (if set statuses \<subseteq> {''succeeded''} then ''succeeded''
      else if ''succeeded'' \<in> set statuses then ''partially_failed'' else ''failed'')"

definition run_task :: "world \<Rightarrow> string \<Rightarrow> uuid \<Rightarrow> (exec_state, string \<times> string) action" where
  "run_task w actr i = andThen (execute_job_task w (uuid_str i) actr) (\<lambda>st. ret (uuid_str i, st))"

definition execute_job :: "world \<Rightarrow> string \<Rightarrow> string \<Rightarrow> (exec_state, job_run) action" where
  "execute_job w i actr =
     andThen (find_job_or_refuse i) (\<lambda>j.
     andThen (unless (jb_job_type j \<noteq> ''password_change'')
       (SafetyError ''Password change jobs must be executed through canary rollout batches'')) (\<lambda>_.
     andThen (unless (jb_status j \<noteq> ''cancelled'') (SafetyError ''Cancelled job cannot be run'')) (\<lambda>_.
     andThen (unless (jb_approval_status j = ''approved'') (SafetyError ''Job must be approved before execution'')) (\<lambda>_.
     andThen (unless (jb_dry_run j \<noteq> []) (SafetyError ''Job has no dry-run payload'')) (\<lambda>_.
     andThen (unless (backup_before_apply (w_cfg w)) (SafetyError ''backup_before_apply must be enabled'')) (\<lambda>_.
     andThen (in_db (set_job j (\<lambda>r. r\<lparr>jb_status := ''running'', jb_started_at := Some (Aware (w_now w))\<rparr>))) (\<lambda>_.
     andThen (in_db (job_task_ids (RefId (jb_id j)))) (\<lambda>ids.
     andThen (for_each (run_task w actr) ids) (\<lambda>statuses.
     let final = job_status_of (map snd statuses)
     in andThen (in_db (set_job j (\<lambda>r. r\<lparr>jb_status := final, jb_finished_at := Some (Aware (w_now w))\<rparr>))) (\<lambda>_.
        ret \<lparr>jx_job_id = uuid_str (jb_id j), jx_status = final, jx_task_statuses = statuses\<rparr>))))))))))"

text \<open>A request builds its own service, which holds no lease yet.\<close>

definition with_executor :: "world \<Rightarrow> (exec_state, 'a) action \<Rightarrow> (db, 'a) action" where
  "with_executor w m = built w (\<lambda>d. case m (d, {}) of (x, s) \<Rightarrow> (x, fst s))"

end
