(* ===== verification/PasswordChanges.thy ===== *)
theory PasswordChanges
  imports JobExecution
begin

text \<open>
  app/services/password_change_service.py and app/services/password_rollout_service.py: a password change is planned for
  its devices, cut into canary batches, and rolled out batch by batch.
\<close>

section \<open>The canary plan\<close>

fun canary_batches :: "int \<Rightarrow> int list \<Rightarrow> int list" where
  "canary_batches remaining [] = (if 0 < remaining then [remaining] else [])"
| "canary_batches remaining (m # ms) =
     (if remaining \<le> 0 then []
      else let b = min m remaining
           in if 0 < b then b # canary_batches (remaining - b) ms else canary_batches remaining ms)"

definition normalize_canary_plan :: "int \<Rightarrow> int list option \<Rightarrow> int list" where
  "normalize_canary_plan device_count canary_plan =
     (if device_count \<le> 0 then []
      else canary_batches device_count (if or_nil canary_plan = [] then [1, 5, 20] else or_nil canary_plan))"

section \<open>The dry run\<close>

record password_change_request =
  pc_requested_by :: string
  pc_devices :: "device_input list"
  pc_username :: string
  pc_new_password :: string
  pc_old_credential_id :: "string option"
  pc_new_credential_name :: "string option"
  pc_canary_plan :: "int list option"
  pc_stop_on_first_failure :: bool
  pc_backup_before_apply :: bool
  pc_verify_new_credential :: bool

definition validate_password_change_request :: "password_change_request \<Rightarrow> error + unit" where
  "validate_password_change_request p =
     (if pc_devices p = [] then Inl (ValueError ''No devices selected'')
      else if str_strip (pc_username p) = [] then Inl (ValueError ''Username is required'')
      else if pc_new_password p = [] then Inl (ValueError ''New password is required'')
      else if list_ex (\<lambda>m. m < 1) (or_nil (pc_canary_plan p))
      then Inl (ValueError ''Canary batch sizes must be positive'')
      else Inr ())"

definition LOCK_OUT_RISK :: string where
  "LOCK_OUT_RISK = ''password_change_can_lock_out_access''"

text \<open>The exceptions the planning of a device survives: CapabilityError is the only one a driver raises here.\<close>

definition plan_password_device :: "string \<Rightarrow> string \<Rightarrow> device_input \<Rightarrow> error + dry_run_device" where
  "plan_password_device user password dev =
     (case resolve_driver dev of (k, reason) \<Rightarrow>
        let caps = dr_capabilities k; confirmed = destructive_apply_confirmed caps;
            doubts = (if confirmed then [] else [UNCONFIRMED]);
            risks = [LOCK_OUT_RISK] @ doubts @
              (if supports_password_change caps then [] else [''Password change is not supported by this driver'']);
            checks = [''verify credential for '' @ user];
            masked = mask_command_list [password];
            result = (\<lambda>commands config saves warnings risks apply_supported.
              \<lparr>pd_device_id = None, pd_ip_address = di_ip_address dev, pd_vendor = di_vendor dev, pd_model = di_model dev,
               pd_driver = dr_name k, pd_capabilities = caps, pd_commands = commands, pd_config_commands = config,
               pd_verification_commands = checks, pd_save_commands = saves, pd_warnings = warnings, pd_risks = risks,
               pd_manual_confirmation_required = True, pd_rollback_supported = supports_rollback caps,
               pd_apply_supported = apply_supported, pd_verification_required = True\<rparr>)
        in case fst (dr_change_local_user_password k user password []) of
             Inr plan \<Rightarrow>
               Inr (result (masked (cr_commands plan @ checks @ dr_save_commands k)) (masked (cr_commands plan))
                 (masked (dr_save_commands k)) ([reason] @ doubts @ cr_warnings plan) risks
                 (supports_password_change caps \<and> confirmed))
           | Inl (CapabilityError m) \<Rightarrow>
               Inr (result (masked checks) [] [] ([reason] @ doubts) (risks @ [m]) False)
           | Inl e \<Rightarrow> Inl e)"

fun plan_password_devices :: "string \<Rightarrow> string \<Rightarrow> device_input list \<Rightarrow> error + dry_run_device list" where
  "plan_password_devices user password [] = Inr []"
| "plan_password_devices user password (dev # devs) =
     (case plan_password_device user password dev of
        Inl e \<Rightarrow> Inl e
      | Inr r \<Rightarrow> (case plan_password_devices user password devs of Inl e \<Rightarrow> Inl e | Inr rs \<Rightarrow> Inr (r # rs)))"

record password_dry_run =
  py_device_count :: int
  py_username :: string
  py_canary_plan :: "int list"
  py_stop_on_first_failure :: bool
  py_backup_before_apply :: bool
  py_verify_new_credential :: bool
  py_estimated_impact :: string
  py_devices :: "dry_run_device list"

definition generate_password_change_dry_run ::
  "password_change_request \<Rightarrow> string \<Rightarrow> int list \<Rightarrow> error + password_dry_run" where
  "generate_password_change_dry_run p password canary_plan =
     (case plan_password_devices (pc_username p) password (pc_devices p) of
        Inl e \<Rightarrow> Inl e
      | Inr devs \<Rightarrow>
          Inr \<lparr>py_device_count = int (length devs), py_username = pc_username p, py_canary_plan = canary_plan,
               py_stop_on_first_failure = pc_stop_on_first_failure p, py_backup_before_apply = pc_backup_before_apply p,
               py_verify_new_credential = pc_verify_new_credential p,
               py_estimated_impact = int_str (int (length devs)) @ '' device(s), local user '' @ pc_username p,
               py_devices = devs\<rparr>)"

text \<open>The dump of the schema, with its defaults.\<close>

definition password_dry_run_json :: "password_dry_run \<Rightarrow> jobj" where
  "password_dry_run_json r =
     [(''job_type'', JStr ''password_change''), (''device_count'', JInt (py_device_count r)),
      (''username'', JStr (py_username r)), (''password'', JStr ''********''),
      (''canary_plan'', JList (map JInt (py_canary_plan r))),
      (''stop_on_first_failure'', JBool (py_stop_on_first_failure r)),
      (''backup_before_apply'', JBool (py_backup_before_apply r)),
      (''verify_new_credential'', JBool (py_verify_new_credential r)), (''approval_required'', JBool True),
      (''apply_allowed'', JBool False), (''estimated_impact'', JStr (py_estimated_impact r)),
      (''risks'', strings [LOCK_OUT_RISK]),
      (''devices'', JList (map (\<lambda>d. JObj (dry_run_device_json d)) (py_devices r)))]"

definition sanitize_password_change_payload :: "password_change_request \<Rightarrow> int list \<Rightarrow> jobj" where
  "sanitize_password_change_payload p canary_plan =
     [(''requested_by'', JStr (pc_requested_by p)),
      (''devices'', JList (map (\<lambda>d. JObj (device_input_json d)) (pc_devices p))), (''username'', JStr (pc_username p)),
      (''old_credential_id'', str_opt (pc_old_credential_id p)),
      (''new_credential_name'', str_opt (pc_new_credential_name p)), (''new_password_set'', JBool True),
      (''canary_plan'', JList (map JInt canary_plan)),
      (''stop_on_first_failure'', JBool (pc_stop_on_first_failure p)),
      (''backup_before_apply'', JBool (pc_backup_before_apply p)),
      (''verify_new_credential'', JBool (pc_verify_new_credential p))]"

section \<open>The rollout plan\<close>

record batch_task_read =
  bt_id :: string
  bt_batch_id :: string
  bt_job_task_id :: string
  bt_status :: string
  bt_created_at :: string
  bt_started_at :: "string option"
  bt_finished_at :: "string option"

record batch_read =
  ba_id :: string
  ba_job_id :: string
  ba_batch_index :: int
  ba_batch_size :: int
  ba_status :: string
  ba_created_at :: string
  ba_started_at :: "string option"
  ba_finished_at :: "string option"
  ba_tasks :: "batch_task_read list"

record rollout_plan =
  rp_job_id :: string
  rp_batches :: "batch_read list"

definition read_batch_task :: "rollout_task \<Rightarrow> batch_task_read" where
  "read_batch_task x =
     \<lparr>bt_id = uuid_str (rk_id x), bt_batch_id = uuid_str (rk_batch_id x), bt_job_task_id = uuid_str (rk_job_task_id x),
      bt_status = rk_status x, bt_created_at = isoformat (rk_created_at x),
      bt_started_at = map_option isoformat (rk_started_at x), bt_finished_at = map_option isoformat (rk_finished_at x)\<rparr>"

definition read_batch :: "db \<Rightarrow> rollout_batch \<Rightarrow> batch_read" where
  "read_batch d b =
     \<lparr>ba_id = uuid_str (rb_id b), ba_job_id = uuid_str (rb_job_id b), ba_batch_index = rb_batch_index b,
      ba_batch_size = rb_batch_size b, ba_status = rb_status b, ba_created_at = isoformat (rb_created_at b),
      ba_started_at = map_option isoformat (rb_started_at b), ba_finished_at = map_option isoformat (rb_finished_at b),
      ba_tasks = map read_batch_task (tasks_of_batch (rb_id b) d)\<rparr>"

definition get_rollout_plan :: "string \<Rightarrow> (db, rollout_plan) action" where
  "get_rollout_plan i =
     andThen (job_get (RefText i)) (\<lambda>_.
     andThen (list_batches (RefText i)) (\<lambda>bs.
     asks (\<lambda>d. \<lparr>rp_job_id = i, rp_batches = map (read_batch d) bs\<rparr>)))"

definition create_rollout_plan :: "int \<Rightarrow> string \<Rightarrow> string list \<Rightarrow> int list \<Rightarrow> (db, rollout_plan) action" where
  "create_rollout_plan now i task_ids canary_plan =
     andThen (create_batches now (RefText i) (map RefText task_ids) canary_plan) (\<lambda>bs.
     andThen (for_each (\<lambda>b. audit_write now ''system'' ''password_rollout_batch_created'' ''password_rollout_batch''
       (uuid_str (rb_id b)) None (Some (RefText i)) None
       (Some [(''batch_index'', JInt (rb_batch_index b)), (''batch_size'', JInt (rb_batch_size b))]) None) bs) (\<lambda>_.
     get_rollout_plan i))"

section \<open>The job\<close>

record password_job_created =
  pj_job_id :: string
  pj_status :: string
  pj_approval_status :: string
  pj_approval_required :: bool
  pj_apply_allowed :: bool
  pj_rollout_plan :: rollout_plan
  pj_dry_run :: jobj

definition create_password_change_job ::
  "world \<Rightarrow> password_change_request \<Rightarrow> string \<Rightarrow> (db, password_job_created) action" where
  "create_password_change_job w p actr =
     andThen (query (\<lambda>_. validate_password_change_request p)) (\<lambda>_.
     let now = w_now w; canary_plan = normalize_canary_plan (int (length (pc_devices p))) (pc_canary_plan p)
     in andThen (query (\<lambda>_. generate_password_change_dry_run p (pc_new_password p) canary_plan)) (\<lambda>plan.
        andThen (for_each (stored_device now) (zip (pc_devices p) (py_devices plan))) (\<lambda>devs.
        let stored = password_dry_run_json (plan\<lparr>py_devices := devs\<rparr>)
        in andThen (job_create now ''password_change'' ''pending_approval'' actr ''pending'' stored
             (sanitize_password_change_payload p canary_plan)) (\<lambda>j.
           andThen (encrypted w (pc_new_password p)) (\<lambda>token.
           andThen (create_for_job now (RefId (jb_id j)) token None) (\<lambda>_.
           andThen (for_each (create_task_of (jb_id j)) devs) (\<lambda>ts.
           andThen (create_rollout_plan now (uuid_str (jb_id j)) (map (\<lambda>t. uuid_str (jt_id t)) ts) canary_plan) (\<lambda>rollout.
           andThen (set_job j (\<lambda>r. r\<lparr>jb_dry_run := stored\<rparr>)) (\<lambda>_.
           andThen (audit_write now actr ''password_change_job_created'' ''job'' (uuid_str (jb_id j)) None
             (Some (RefText (uuid_str (jb_id j)))) None
             (Some [(''job_type'', JStr (jb_job_type j)), (''status'', JStr (jb_status j)),
               (''device_count'', JInt (int (length (pc_devices p))))]) None) (\<lambda>_.
           andThen (audit_write now actr ''password_change_dry_run_generated'' ''job'' (uuid_str (jb_id j)) None
             (Some (RefText (uuid_str (jb_id j)))) None
             (Some [(''device_count'', JInt (py_device_count plan)),
               (''canary_plan'', JList (map JInt canary_plan))]) None) (\<lambda>_.
           ret \<lparr>pj_job_id = uuid_str (jb_id j), pj_status = jb_status j, pj_approval_status = jb_approval_status j,
                pj_approval_required = True, pj_apply_allowed = False, pj_rollout_plan = rollout,
                pj_dry_run = stored\<rparr>)))))))))))"

definition get_password_secret_for_execution :: "world \<Rightarrow> string \<Rightarrow> (db, string) action" where
  "get_password_secret_for_execution w i =
     andThen (get_for_job (RefText i)) (\<lambda>x. query (\<lambda>_. decrypted w (ps_encrypted_new_password x)))"

definition delete_password_secret :: "string \<Rightarrow> (db, unit) action" where
  "delete_password_secret i = delete_for_job (RefText i)"

end
