(* ===== verification/PasswordRollout.thy ===== *)
theory PasswordRollout
  imports PasswordChanges
begin

text \<open>
  The password tasks of app/jobs/executors.py and the batches of app/services/password_rollout_service.py: a batch
  runs when the job is approved, and its outcome decides whether another one may.
\<close>

section \<open>A password change task\<close>

text \<open>\<open>bool(payload.get(key, True))\<close>\<close>

definition flag_or_true :: "jobj \<Rightarrow> string \<Rightarrow> bool" where
  "flag_or_true d key = (case map_of d key of None \<Rightarrow> True | Some v \<Rightarrow> truthy v)"

definition stored_input :: "device \<Rightarrow> device_input" where
  "stored_input dev =
     \<lparr>di_hostname = dev_hostname dev, di_ip_address = dev_ip_address dev, di_vendor = dev_vendor dev,
      di_model = dev_model dev, di_site = dev_site dev, di_role = dev_role dev, di_tags = dev_tags dev\<rparr>"

definition check_password_task :: "world \<Rightarrow> job \<Rightarrow> job_task \<Rightarrow> (exec_state, unit) action" where
  "check_password_task w j t =
     (let dry = jt_dry_run_device t
      in andThen (unless (jb_job_type j = ''password_change'') (SafetyError (''Unsupported job type: '' @ jb_job_type j))) (\<lambda>_.
         andThen (unless (jb_status j \<noteq> ''cancelled'') (SafetyError ''Job was cancelled'')) (\<lambda>_.
         andThen (unless (jb_dry_run j \<noteq> []) (SafetyError ''Job has no dry-run payload'')) (\<lambda>_.
         andThen (unless (flag_or_true (jb_input_payload j) ''backup_before_apply'')
           (SafetyError ''backup_before_apply must be enabled'')) (\<lambda>_.
         andThen (unless (flag_or_true (jb_input_payload j) ''verify_new_credential'')
           (SafetyError ''verify_new_credential must be enabled'')) (\<lambda>_.
         andThen (if truthy (jget dry ''apply_supported'') then ret ()
                  else andThen (task_status t ''skipped'') (\<lambda>_.
                       raise (SafetyError ''Driver is not confirmed for destructive password apply''))) (\<lambda>_.
         andThen (unless (truthy (jget dry ''verification_required''))
           (SafetyError ''Credential verification is required before save'')) (\<lambda>_.
         check_real_apply w dry ''password_change''))))))))"

text \<open>The commands, planned anew from the stored device and the stored secret.\<close>

definition plan_password_task :: "world \<Rightarrow> job \<Rightarrow> job_task \<Rightarrow> string \<Rightarrow> (exec_state, string \<times> string list \<times> string list) action" where
  "plan_password_task w j t user =
     andThen (in_db (get_for_job (RefId (jb_id j)))) (\<lambda>x.
     andThen (query (\<lambda>_. decrypted w (ps_encrypted_new_password x))) (\<lambda>password.
     andThen (in_db (device_by_ref (RefId (jt_device_id t)))) (\<lambda>dev.
     let k = fst (resolve_driver (stored_input dev))
     in andThen (query (\<lambda>_. fst (dr_change_local_user_password k user password []))) (\<lambda>plan.
        ret (password, cr_commands plan, dr_save_commands k)))))"

definition verified :: "world \<Rightarrow> job \<Rightarrow> job_task \<Rightarrow> string \<Rightarrow> string \<Rightarrow> string \<Rightarrow> (exec_state, unit) action" where
  "verified w j t actr user password =
     (let dry = jt_dry_run_device t; now = w_now w;
          kind = (case map_of dry ''transport'' of None \<Rightarrow> ''dummy'' | Some v \<Rightarrow> py_str v)
      in andThen (query (\<lambda>_. verify_new_credential (w_cfg w) user password kind
           (truthy (jget dry ''simulate_verification_failure'')))) (\<lambda>ok.
         if ok then andThen (audit_task now actr ''password_task_credential_verified'' t j None None) (\<lambda>_. ret ())
         else andThen (task_status t ''failed'') (\<lambda>_.
              andThen (audit_task now actr ''password_task_credential_verification_failed'' t j None None) (\<lambda>_.
              raise (SafetyError ''Credential verification failed'')))))"

definition apply_password ::
  "world \<Rightarrow> job \<Rightarrow> job_task \<Rightarrow> string \<Rightarrow> string \<Rightarrow> string \<times> string list \<times> string list \<Rightarrow> (exec_state, unit) action" where
  "apply_password w j t actr user planned =
     (case planned of (password, config, saves) \<Rightarrow>
        let now = w_now w; (config_results, t1) = dummy_send_config config (dummy_open dummy_transport)
        in andThen (all_succeeded config_results ''One or more password change commands failed'') (\<lambda>_.
           andThen (task_status t ''verifying'') (\<lambda>_.
           andThen (audit_task now actr ''password_task_credential_verification_started'' t j None None) (\<lambda>_.
           andThen (verified w j t actr user password) (\<lambda>_.
           andThen (task_status t ''saving'') (\<lambda>_.
           let (save_results, t2) = dummy_send_config saves t1
           in andThen (all_succeeded save_results ''Save config failed'') (\<lambda>_.
              andThen (audit_task now actr ''password_task_save_config_completed'' t j None None) (\<lambda>_.
              assign_task t (\<lambda>r. r\<lparr>jt_sanitized_output :=
                Some (mask_secrets [password] (outputs (config_results @ save_results)))\<rparr>)))))))))"

definition password_task_body :: "world \<Rightarrow> job \<Rightarrow> job_task \<Rightarrow> string \<Rightarrow> (exec_state, unit) action" where
  "password_task_body w j t actr =
     andThen (check_password_task w j t) (\<lambda>_.
     let user = str_or_empty (jget (jb_input_payload j) ''username'')
     in andThen (unless (user \<noteq> []) (SafetyError ''Password change username is missing'')) (\<lambda>_.
        andThen (plan_password_task w j t user) (\<lambda>planned.
        andThen (take_lease w t j actr) (\<lambda>_.
        andThen (task_status t ''backing_up'') (\<lambda>_.
        andThen (back_up w t j actr ''pre-password-change'') (\<lambda>b.
        andThen (audit_task (w_now w) actr ''password_task_backup_created'' t j (Some [(''backup_id'', JStr (br_id b))]) None) (\<lambda>_.
        andThen (task_status t ''applying'') (\<lambda>_.
        andThen (audit_task (w_now w) actr ''password_task_apply_started'' t j None None) (\<lambda>_.
        apply_password w j t actr user planned)))))))))"

definition execute_password_change_task :: "world \<Rightarrow> string \<Rightarrow> string \<Rightarrow> (exec_state, string) action" where
  "execute_password_change_task w i actr =
     andThen (find_task_or_refuse i) (\<lambda>t.
     andThen (find_job_or_refuse (uuid_str (jt_job_id t))) (\<lambda>j.
     andThen (start_task w t (\<lambda>r. r\<lparr>jt_status := ''applying''\<rparr>)) (\<lambda>_.
     andThen (audit_task (w_now w) actr ''password_task_started'' t j None None) (\<lambda>_.
     settle_task w t actr
       (andThen (password_task_body w j t actr) (\<lambda>_. task_status t ''succeeded''))
       (\<lambda>e r. andThen (audit_task (w_now w) actr ''password_task_failed'' t j None
          (Some [(''error'', JStr (or_empty (jt_error r))), (''status'', JStr (jt_status r))])) (\<lambda>_. ret ()))))))"

section \<open>A batch\<close>

record batch_run =
  bx_job_id :: string
  bx_status :: string
  bx_message :: string
  bx_batch_id :: "string option"
  bx_batch_status :: "string option"
  bx_task_statuses :: "(string \<times> string) list"
  bx_remaining_batches :: int

definition cleanup_secret :: "string \<Rightarrow> (exec_state, unit) action" where
  "cleanup_secret i =
     andThen (caught (in_db (delete_for_job (RefText i)))) (\<lambda>outcome.
       case outcome of
         Inr _ \<Rightarrow> ret ()
       | Inl (NotFoundError m) \<Rightarrow> ret ()
       | Inl e \<Rightarrow> raise e)"

definition plain_run :: "string \<Rightarrow> string \<Rightarrow> string \<Rightarrow> batch_run" where
  "plain_run i status message =
     \<lparr>bx_job_id = i, bx_status = status, bx_message = message, bx_batch_id = None, bx_batch_status = None,
      bx_task_statuses = [], bx_remaining_batches = 0\<rparr>"

definition complete_if_done :: "string \<Rightarrow> (exec_state, batch_run) action" where
  "complete_if_done i =
     andThen (in_db (job_get (RefText i))) (\<lambda>j.
     andThen (in_db (list_batches (RefText i))) (\<lambda>bs.
     if bs \<noteq> [] \<and> list_all (\<lambda>b. rb_status b = ''succeeded'') bs
     then andThen (in_db (set_job j (\<lambda>r. r\<lparr>jb_status := ''succeeded''\<rparr>))) (\<lambda>_.
          andThen (cleanup_secret i) (\<lambda>_. ret (plain_run i ''succeeded'' ''rollout completed'')))
     else ret (plain_run i (jb_status j) ''no pending rollout batch'')))"

definition assign_batch :: "rollout_batch \<Rightarrow> (rollout_batch \<Rightarrow> rollout_batch) \<Rightarrow> (exec_state, unit) action" where
  "assign_batch b f = in_db (change (upd_batch (rb_id b) f))"

definition assign_batch_task :: "rollout_task \<Rightarrow> (rollout_task \<Rightarrow> rollout_task) \<Rightarrow> (exec_state, unit) action" where
  "assign_batch_task x f = in_db (change (upd_batch_task (rk_id x) f))"

definition run_batch_task :: "world \<Rightarrow> string \<Rightarrow> rollout_task \<Rightarrow> (exec_state, string \<times> string) action" where
  "run_batch_task w actr x =
     andThen (assign_batch_task x (\<lambda>r. r\<lparr>rk_started_at := Some (Aware (w_now w)), rk_status := ''running''\<rparr>)) (\<lambda>_.
     andThen (execute_password_change_task w (uuid_str (rk_job_task_id x)) actr) (\<lambda>st.
     let final = (if st = ''succeeded'' then ''succeeded'' else ''failed'')
     in andThen (assign_batch_task x (\<lambda>r. r\<lparr>rk_finished_at := Some (Aware (w_now w)), rk_status := final\<rparr>)) (\<lambda>_.
        ret (uuid_str (rk_job_task_id x), final))))"

definition check_rollout :: "job \<Rightarrow> (exec_state, unit) action" where
  "check_rollout j =
     andThen (unless (jb_job_type j = ''password_change'')
       (SafetyError (''Unsupported job type for password rollout: '' @ jb_job_type j))) (\<lambda>_.
     andThen (unless (jb_status j \<noteq> ''cancelled'') (SafetyError ''Cancelled job cannot be run'')) (\<lambda>_.
     andThen (unless (jb_status j \<noteq> ''paused'') (SafetyError ''Password rollout is paused'')) (\<lambda>_.
     andThen (unless (jb_status j \<notin> {''succeeded'', ''failed''})
       (SafetyError (''Password rollout cannot run in status '' @ jb_status j))) (\<lambda>_.
     andThen (unless (jb_approval_status j = ''approved'') (SafetyError ''Job must be approved before execution'')) (\<lambda>_.
     andThen (unless (jb_dry_run j \<noteq> []) (SafetyError ''Job has no dry-run payload'')) (\<lambda>_.
     andThen (unless (flag_or_true (jb_input_payload j) ''backup_before_apply'')
       (SafetyError ''backup_before_apply must be enabled'')) (\<lambda>_.
     unless (flag_or_true (jb_input_payload j) ''verify_new_credential'')
       (SafetyError ''verify_new_credential must be enabled''))))))))"

text \<open>What the batch means for the job; the secret is deleted with the last batch.\<close>

definition finish_batch :: "world \<Rightarrow> string \<Rightarrow> job \<Rightarrow> rollout_batch \<Rightarrow> bool \<Rightarrow> (exec_state, string \<times> string) action" where
  "finish_batch w i j b has_failed =
     andThen (assign_batch b (\<lambda>r. r\<lparr>rb_finished_at := Some (Aware (w_now w)),
       rb_status := (if has_failed then ''failed'' else ''succeeded'')\<rparr>)) (\<lambda>_.
     if has_failed
     then let st = (if flag_or_true (jb_input_payload j) ''stop_on_first_failure'' then ''failed'' else ''partially_failed'')
          in andThen (in_db (set_job j (\<lambda>r. r\<lparr>jb_status := st\<rparr>))) (\<lambda>_. ret (st, ''password_rollout_batch_failed''))
     else andThen (in_db (get_next_pending_batch (RefText i))) (\<lambda>pending.
          let st = (if pending \<noteq> None then ''approved'' else ''succeeded'')
          in andThen (in_db (set_job j (\<lambda>r. r\<lparr>jb_status := st\<rparr>))) (\<lambda>_.
             andThen (if pending = None then cleanup_secret i else ret ()) (\<lambda>_.
             ret (st, ''password_rollout_batch_succeeded'')))))"

definition audit_batch :: "world \<Rightarrow> string \<Rightarrow> string \<Rightarrow> string \<Rightarrow> rollout_batch \<Rightarrow> jobj \<Rightarrow> (exec_state, jobj) action" where
  "audit_batch w i actr act b after_values =
     in_db (audit_write (w_now w) actr act ''password_rollout_batch'' (uuid_str (rb_id b)) None (Some (RefText i)) None
       (Some after_values) None)"

definition run_batch :: "world \<Rightarrow> string \<Rightarrow> string \<Rightarrow> job \<Rightarrow> rollout_batch \<Rightarrow> (exec_state, batch_run) action" where
  "run_batch w i actr j b =
     andThen (assign_batch b (\<lambda>r. r\<lparr>rb_started_at := Some (Aware (w_now w)), rb_status := ''running''\<rparr>)) (\<lambda>_.
     andThen (in_db (set_job j (\<lambda>r. r\<lparr>jb_status := ''running''\<rparr>))) (\<lambda>_.
     andThen (audit_batch w i actr ''password_rollout_batch_started'' b
       [(''batch_index'', JInt (rb_batch_index b)), (''batch_size'', JInt (rb_batch_size b))]) (\<lambda>_.
     andThen (in_db (list_batch_tasks (RefId (rb_id b)))) (\<lambda>xs.
     andThen (for_each (run_batch_task w actr) xs) (\<lambda>statuses.
     let has_failed = list_ex (\<lambda>p. snd p \<noteq> ''succeeded'') statuses;
         batch_status = (if has_failed then ''failed'' else ''succeeded'')
     in andThen (finish_batch w i j b has_failed) (\<lambda>(st, act).
        andThen (audit_batch w i actr act b
          [(''status'', JStr batch_status), (''job_status'', JStr st)]) (\<lambda>_.
        andThen (in_db (list_batches (RefText i))) (\<lambda>bs.
        ret \<lparr>bx_job_id = i, bx_status = st, bx_message = ''batch completed'', bx_batch_id = Some (uuid_str (rb_id b)),
             bx_batch_status = Some batch_status, bx_task_statuses = statuses,
             bx_remaining_batches = int (length (filter (\<lambda>x. rb_status x = ''pending'') bs))\<rparr>))))))))"

definition run_next_batch :: "world \<Rightarrow> string \<Rightarrow> string \<Rightarrow> (exec_state, batch_run) action" where
  "run_next_batch w i actr =
     andThen (in_db (job_get (RefText i))) (\<lambda>j.
     andThen (check_rollout j) (\<lambda>_.
     andThen (in_db (get_next_pending_batch (RefText i))) (\<lambda>b.
       case b of None \<Rightarrow> complete_if_done i | Some b \<Rightarrow> run_batch w i actr j b)))"

section \<open>Pausing\<close>

definition check_password_job :: "job \<Rightarrow> (db, unit) action" where
  "check_password_job j =
     unless (jb_job_type j = ''password_change'')
       (SafetyError (''Unsupported job type for password rollout: '' @ jb_job_type j))"

definition set_rollout_status :: "int \<Rightarrow> string \<Rightarrow> string \<Rightarrow> job \<Rightarrow> string \<Rightarrow> (db, unit) action" where
  "set_rollout_status now actr act j st =
     andThen (set_job j (\<lambda>r. r\<lparr>jb_status := st\<rparr>)) (\<lambda>_.
     andThen (audit_write now actr act ''job'' (uuid_str (jb_id j)) None (Some (RefText (uuid_str (jb_id j)))) None
       (Some [(''status'', JStr st)]) None) (\<lambda>_. ret ()))"

definition pause_rollout :: "int \<Rightarrow> string \<Rightarrow> string \<Rightarrow> (db, rollout_plan) action" where
  "pause_rollout now i actr =
     andThen (job_get (RefText i)) (\<lambda>j.
     andThen (check_password_job j) (\<lambda>_.
     andThen (unless (jb_status j \<notin> {''succeeded'', ''failed'', ''cancelled''})
       (ConflictError (''Cannot pause password rollout in status '' @ jb_status j))) (\<lambda>_.
     andThen (set_rollout_status now actr ''password_rollout_paused'' j ''paused'') (\<lambda>_.
     get_rollout_plan i))))"

definition resume_rollout :: "int \<Rightarrow> string \<Rightarrow> string \<Rightarrow> (db, rollout_plan) action" where
  "resume_rollout now i actr =
     andThen (job_get (RefText i)) (\<lambda>j.
     andThen (check_password_job j) (\<lambda>_.
     andThen (unless (jb_status j = ''paused'')
       (ConflictError (''Cannot resume password rollout in status '' @ jb_status j))) (\<lambda>_.
     andThen (set_rollout_status now actr ''password_rollout_resumed'' j ''approved'') (\<lambda>_.
     get_rollout_plan i))))"

definition stop_rollout_on_failure :: "int \<Rightarrow> string \<Rightarrow> string \<Rightarrow> (db, unit) action" where
  "stop_rollout_on_failure now i actr =
     andThen (job_get (RefText i)) (\<lambda>j.
     set_rollout_status now actr ''password_rollout_stopped_on_failure'' j ''failed'')"

end
