(* ===== verification/JobRequests.thy ===== *)
theory JobRequests
  imports PasswordRollout BackupRequests
begin

text \<open>The endpoints of app/api/v1/jobs.py.\<close>

definition no_devices :: error where
  "no_devices = HTTPException 400 ''No devices selected''"

definition api_create_vlan_change_job :: "int \<Rightarrow> vlan_change_request \<Rightarrow> actor \<Rightarrow> (db, job_created) action" where
  "api_create_vlan_change_job now p a =
     fits (valid_vlan_change p) (endpoint Perm_change_vlan a
       (andThen (unless (vc_devices p \<noteq> []) no_devices) (\<lambda>_. create_vlan_change_job now p (username a))))"

fun value_400 :: "error \<Rightarrow> error" where
  "value_400 (ValueError m) = HTTPException 400 m"
| "value_400 e = e"

definition api_create_password_change_job ::
  "world \<Rightarrow> password_change_request \<Rightarrow> actor \<Rightarrow> (db, password_job_created) action" where
  "api_create_password_change_job w p a =
     fits (pc_username p \<noteq> []) (endpoint Perm_change_password a
       (andThen (unless (pc_devices p \<noteq> []) no_devices) (\<lambda>_.
        catching value_400 (built w (create_password_change_job w p (username a))))))"

definition api_list_jobs :: "actor \<Rightarrow> (db, job_read list) action" where
  "api_list_jobs a = endpoint Perm_read_jobs a read_all_jobs"

definition api_get_job :: "string \<Rightarrow> actor \<Rightarrow> (db, job_read) action" where
  "api_get_job i a = endpoint Perm_read_jobs a (catching not_found_404 (read_job_by_id i))"

definition api_get_job_tasks :: "string \<Rightarrow> actor \<Rightarrow> (db, task_read list) action" where
  "api_get_job_tasks i a = endpoint Perm_read_jobs a (catching not_found_404 (read_tasks i))"

definition api_get_job_dry_run :: "string \<Rightarrow> actor \<Rightarrow> (db, jobj) action" where
  "api_get_job_dry_run i a = endpoint Perm_read_jobs a (catching not_found_404 (read_dry_run i))"

definition api_get_password_rollout_plan :: "world \<Rightarrow> string \<Rightarrow> actor \<Rightarrow> (db, rollout_plan) action" where
  "api_get_password_rollout_plan w i a =
     endpoint Perm_read_jobs a (catching not_found_404 (built w (get_rollout_plan i)))"

definition api_approve_job :: "int \<Rightarrow> string \<Rightarrow> actor \<Rightarrow> (db, job_read) action" where
  "api_approve_job now i a =
     endpoint Perm_approve_job a (catching (conflict_409 \<circ> not_found_404) (approve_job now i (username a)))"

definition api_cancel_job :: "int \<Rightarrow> string \<Rightarrow> actor \<Rightarrow> (db, job_read) action" where
  "api_cancel_job now i a =
     endpoint Perm_cancel_job a (catching (conflict_409 \<circ> not_found_404) (cancel_job now i (username a)))"

definition api_run_job :: "world \<Rightarrow> string \<Rightarrow> actor \<Rightarrow> (db, job_run) action" where
  "api_run_job w i a =
     endpoint Perm_run_approved_job a (catching safety_409 (with_executor w (execute_job w i (username a))))"

definition api_run_password_rollout_next_batch :: "world \<Rightarrow> string \<Rightarrow> actor \<Rightarrow> (db, batch_run) action" where
  "api_run_password_rollout_next_batch w i a =
     endpoint Perm_change_password a
       (catching (safety_409 \<circ> not_found_404) (with_executor w (run_next_batch w i (username a))))"

definition api_pause_password_rollout :: "world \<Rightarrow> string \<Rightarrow> actor \<Rightarrow> (db, rollout_plan) action" where
  "api_pause_password_rollout w i a =
     endpoint Perm_change_password a
       (catching (conflict_409 \<circ> safety_409 \<circ> not_found_404) (built w (pause_rollout (w_now w) i (username a))))"

definition api_resume_password_rollout :: "world \<Rightarrow> string \<Rightarrow> actor \<Rightarrow> (db, rollout_plan) action" where
  "api_resume_password_rollout w i a =
     endpoint Perm_change_password a
       (catching (conflict_409 \<circ> safety_409 \<circ> not_found_404) (built w (resume_rollout (w_now w) i (username a))))"

end
