(* ===== verification/JobRuns.thy ===== *)
theory JobRuns
  imports JobRequests BackupRuns
begin

text \<open>
  What running jobs does: a task always ends in a final status and leaves the leases as it found them, success means a
  confirmed driver, a check and a stored backup that the task refers to, and a job runs exactly when it is approved and
  no password change, every task of it attempted once.
\<close>

section \<open>What an action leaves alone\<close>

definition task_core :: "job_task \<Rightarrow> uuid \<times> uuid \<times> uuid \<times> string list \<times> jobj" where
  "task_core t = (jt_id t, jt_job_id t, jt_device_id t, jt_commands t, jt_dry_run_device t)"

text \<open>The jobs and what the tasks were approved for; and the leases.\<close>

definition frame :: "db \<Rightarrow> job list \<times> (uuid \<times> uuid \<times> uuid \<times> string list \<times> jobj) list" where
  "frame d = (t_job d, map task_core (t_job_task d))"

abbreviation leases_of :: "exec_state \<Rightarrow> device_lock list \<times> string set" where
  "leases_of s \<equiv> (t_device_lock (fst s), snd s)"

definition quiet :: "(db \<Rightarrow> 'b) \<Rightarrow> bool" where
  "quiet g \<longleftrightarrow> (\<forall>d n. g (d\<lparr>db_next_id := n\<rparr>) = g d) \<and> (\<forall>d es. g (d\<lparr>t_audit_log := es\<rparr>) = g d)"

lemma keeps_audit: "quiet g \<Longrightarrow> keeps g (audit_write now actr act ot oi dev jb b a m)"
  unfolding audit_write_def create_audit_row_def Let_def quiet_def
  by (intro keeps_andThen keeps_basic keeps_fresh keeps_change) simp_all

lemma keeps_in_db: "keeps g m \<Longrightarrow> keeps (\<lambda>s. (g (fst s), snd s)) (in_db m)"
  by (auto simp: keeps_def in_db_def split: prod.splits) (metis snd_conv)

lemma keeps_in_db_fst: "keeps g m \<Longrightarrow> keeps (\<lambda>s. g (fst s)) (in_db m)"
  by (auto simp: keeps_def in_db_def split: prod.splits) (metis snd_conv)

lemma quiet_frames: "quiet frame" "quiet t_device_lock" "quiet t_config_backup" "quiet t_job_task" "quiet t_job"
  by (simp_all add: quiet_def frame_def)

lemma frame_upd_task: "(\<And>r. task_core (f r) = task_core r) \<Longrightarrow> frame (upd_task i f d) = frame d"
  by (simp add: frame_def upd_task_def map_upd_row)

lemma keeps_set_task: "(\<And>d. g (upd_task (jt_id t) f d) = g d) \<Longrightarrow> keeps g (set_task t f)"
  by (simp add: set_task_def keeps_change)

lemma locks_upd_task [simp]: "t_device_lock (upd_task i f d) = t_device_lock d" "t_config_backup (upd_task i f d) = t_config_backup d"
  "t_job (upd_task i f d) = t_job d"
  by (simp_all add: upd_task_def)

lemma assign_keeps_leases: "keeps leases_of (assign_task t f)"
  unfolding assign_task_def by (intro keeps_in_db keeps_set_task) simp

lemma audit_task_keeps_leases: "keeps leases_of (audit_task now actr act t j a m)"
  unfolding audit_task_def by (intro keeps_in_db keeps_audit quiet_frames)

lemma assign_keeps_frame: "(\<And>r. task_core (f r) = task_core r) \<Longrightarrow> keeps (\<lambda>s. frame (fst s)) (assign_task t f)"
  unfolding assign_task_def by (intro keeps_in_db_fst keeps_set_task frame_upd_task)

lemma audit_task_keeps_frame: "keeps (\<lambda>s. frame (fst s)) (audit_task now actr act t j a m)"
  unfolding audit_task_def by (intro keeps_in_db_fst keeps_audit quiet_frames)

lemma create_backup_keeps:
  "quiet g \<Longrightarrow> (\<And>d bs. g (d\<lparr>t_config_backup := bs\<rparr>) = g d) \<Longrightarrow> keeps g (create_backup w device actr t j tx)"
  unfolding create_backup_def Let_def device_by_ref_def encrypted_def backup_create_def read_backup_def backup_get_def
  by (intro keeps_andThen keeps_basic keeps_fresh keeps_get keeps_audit keeps_change) (auto simp: quiet_def)

lemma back_up_keeps_leases: "keeps leases_of (back_up w t j actr remark)"
  unfolding back_up_def
  by (intro keeps_andThen keeps_basic keeps_in_db create_backup_keeps quiet_frames assign_keeps_leases) simp

lemma back_up_keeps_frame: "keeps (\<lambda>s. frame (fst s)) (back_up w t j actr remark)"
  unfolding back_up_def
  by (intro keeps_andThen keeps_basic keeps_in_db_fst create_backup_keeps quiet_frames assign_keeps_frame)
    (simp_all add: frame_def task_core_def)

lemma catching_keeps: "keeps f m \<Longrightarrow> keeps f (catching g m)"
  by (auto simp: keeps_def catching_def split: prod.splits sum.splits) (metis snd_conv)+

lemma apply_keeps:
  "keeps leases_of (apply_verify_save t dry)" "keeps (\<lambda>s. frame (fst s)) (apply_verify_save t dry)"
  unfolding apply_verify_save_def Let_def case_prod_beta all_succeeded_def
  by (intro keeps_andThen keeps_basic assign_keeps_leases)
    (intro keeps_andThen keeps_basic assign_keeps_frame; simp add: task_core_def)

lemma check_real_keeps: "keeps leases_of (check_real_apply w dry c)" "keeps (\<lambda>s. frame (fst s)) (check_real_apply w dry c)"
  unfolding check_real_apply_def
  by (intro keeps_andThen keeps_basic keeps_if keeps_in_db) (intro keeps_andThen keeps_basic keeps_if keeps_in_db_fst)

lemma check_vlan_keeps: "keeps leases_of (check_vlan_task w j t dry)" "keeps (\<lambda>s. frame (fst s)) (check_vlan_task w j t dry)"
  unfolding check_vlan_task_def
  by (intro keeps_andThen keeps_basic keeps_if assign_keeps_leases check_real_keeps)
    (intro keeps_andThen keeps_basic keeps_if assign_keeps_frame check_real_keeps; simp add: task_core_def)

text \<open>The other tasks, and how often and when each task was started.\<close>

definition apart :: "uuid \<Rightarrow> db \<Rightarrow> job_task list \<times> (uuid \<times> datetime option \<times> int) list" where
  "apart k d = (filter (\<lambda>r. jt_id r \<noteq> k) (t_job_task d),
     map (\<lambda>r. (jt_id r, jt_started_at r, jt_attempt r)) (t_job_task d))"

lemma quiet_apart: "quiet (apart k)"
  by (simp add: quiet_def apart_def)

lemma filter_upd_row:
  "(\<And>r. key (f r) = key r) \<Longrightarrow> filter (\<lambda>r. key r \<noteq> k) (upd_row key k f rows) = filter (\<lambda>r. key r \<noteq> k) rows"
  by (induction rows) (simp_all add: upd_row_def)

lemma apart_row:
  assumes "t_job_task d' = upd_row jt_id k f (t_job_task d)"
    "\<And>r. (jt_id (f r), jt_started_at (f r), jt_attempt (f r)) = (jt_id r, jt_started_at r, jt_attempt r)"
  shows "apart k d' = apart k d"
  unfolding apart_def assms(1) using assms(2)
  by (simp add: filter_upd_row map_upd_row [where g = "\<lambda>r. (jt_id r, jt_started_at r, jt_attempt r)"])

lemma apart_tasks: "t_job_task d' = t_job_task d \<Longrightarrow> apart k d' = apart k d"
  by (simp add: apart_def)

lemma assign_keeps_apart:
  "(\<And>r. (jt_id (f r), jt_started_at (f r), jt_attempt (f r)) = (jt_id r, jt_started_at r, jt_attempt r)) \<Longrightarrow>
   keeps (\<lambda>s. apart (jt_id t) (fst s)) (assign_task t f)"
  unfolding assign_task_def by (intro keeps_in_db_fst keeps_set_task apart_row [where f = f]) (simp_all add: upd_task_def)

lemma audit_task_keeps_apart: "keeps (\<lambda>s. apart k (fst s)) (audit_task now actr act t j a m)"
  unfolding audit_task_def by (intro keeps_in_db_fst keeps_audit quiet_apart)

lemma back_up_keeps_apart: "keeps (\<lambda>s. apart (jt_id t) (fst s)) (back_up w t j actr remark)"
  unfolding back_up_def
  by (intro keeps_andThen keeps_basic keeps_in_db_fst create_backup_keeps quiet_apart assign_keeps_apart)
    (simp_all add: apart_def)

lemma apply_keeps_apart: "keeps (\<lambda>s. apart (jt_id t) (fst s)) (apply_verify_save t dry)"
  unfolding apply_verify_save_def Let_def case_prod_beta all_succeeded_def
  by (intro keeps_andThen keeps_basic assign_keeps_apart) simp_all

lemma check_vlan_keeps_apart: "keeps (\<lambda>s. apart (jt_id t) (fst s)) (check_vlan_task w j t dry)"
  unfolding check_vlan_task_def check_real_apply_def
  by (intro keeps_andThen keeps_basic keeps_if keeps_in_db_fst assign_keeps_apart) simp_all

section \<open>Leases are given back\<close>

definition borrowed :: "world \<Rightarrow> job_task \<Rightarrow> job \<Rightarrow> exec_state \<Rightarrow> exec_state \<Rightarrow> bool" where
  "borrowed w t j s s' \<longleftrightarrow>
     leases_of s' = leases_of s \<or>
     (holder (w_now w) (jt_device_id t) (fst s) = None \<and>
      (\<exists>l. dl_device_id l = jt_device_id t \<and> dl_job_id l = jb_id j \<and>
         t_device_lock (fst s') = t_device_lock (drop_lock (jt_device_id t) (fst s)) @ [l] \<and>
         snd s' = insert (uuid_str (jt_device_id t)) (snd s)))"

lemma holdsD: "keeps f m \<Longrightarrow> m s = (x, s') \<Longrightarrow> f s' = f s"
  by (metis keeps_def snd_conv)

lemma take_lease_borrows:
  assumes "jt_device_id t < 2 ^ 128" "jb_id j < 2 ^ 128" "take_lease w t j actr s = (x, s')"
  shows "borrowed w t j s s'"
proof -
  note parsed = coerce_ref_text [OF assms(1)] coerce_ref_text [OF assms(2)]
  show ?thesis
  proof (cases "holder (w_now w) (jt_device_id t) (fst s)")
    case None
    then show ?thesis
      using assms(3) unfolding take_lease_def andThen_def in_db_def
        acquire_outcome [OF parsed, of "w_now w" actr 900 "fst s"]
      by (auto simp: lock_taken_def change_def borrowed_def Let_def audit_write_snd put_lock_def)
  next
    case (Some l)
    then show ?thesis
      using assms(3) unfolding take_lease_def andThen_def in_db_def
        acquire_outcome [OF parsed, of "w_now w" actr 900 "fst s"]
      by (auto simp: borrowed_def)
  qed
qed

lemma keeps_borrowed: "keeps leases_of m \<Longrightarrow> m s = (x, s') \<Longrightarrow> borrowed w t j s s'"
  by (auto simp: borrowed_def dest: holdsD)

text \<open>Check, take the lease, work.\<close>

lemma holder_locks: "t_device_lock d' = t_device_lock d \<Longrightarrow> holder now i d' = holder now i d"
  by (simp add: holder_def)

lemma borrowed_before: "leases_of s1 = leases_of s \<Longrightarrow> borrowed w t j s1 s' \<Longrightarrow> borrowed w t j s s'"
  using holder_locks [of "fst s1" "fst s"] by (auto simp: borrowed_def drop_lock_def)

lemma borrowed_after: "borrowed w t j s s1 \<Longrightarrow> leases_of s' = leases_of s1 \<Longrightarrow> borrowed w t j s s'"
  by (auto simp: borrowed_def)

lemma body_borrows:
  assumes "jt_device_id t < 2 ^ 128" "jb_id j < 2 ^ 128"
    and "keeps leases_of checks" "\<And>y. keeps leases_of (work y)"
    and "andThen checks (\<lambda>y. andThen (take_lease w t j actr) (\<lambda>_. work y)) s = (x, s')"
  shows "borrowed w t j s s'"
proof -
  obtain y s1 where c: "checks s = (y, s1)" by (cases "checks s") auto
  then have same: "leases_of s1 = leases_of s" using assms(3) by (auto dest: holdsD)
  show ?thesis
  proof (cases y)
    case (Inl e)
    with c same assms(5) show ?thesis by (auto simp: andThen_def borrowed_def)
  next
    case (Inr v)
    obtain z s2 where l: "take_lease w t j actr s1 = (z, s2)" by (cases "take_lease w t j actr s1") auto
    from take_lease_borrows [OF assms(1,2) this] have b: "borrowed w t j s s2" by (rule borrowed_before [OF same])
    from c l Inr assms(4,5) have "leases_of s' = leases_of s2"
      by (cases z) (auto simp: andThen_def dest: holdsD)
    then show ?thesis by (rule borrowed_after [OF b])
  qed
qed

lemma release_lease_returns:
  assumes "borrowed w t j s s1" "uuid_str (jt_device_id t) \<notin> snd s" "jt_device_id t < 2 ^ 128" "jb_id j < 2 ^ 128"
  shows "\<exists>s2. release_lease w t actr s1 = (Inr (), s2) \<and> snd s2 = snd s \<and>
     (\<forall>i. holder (w_now w) i (fst s2) = holder (w_now w) i (fst s)) \<and>
     t_job_task (fst s2) = upd_row jt_id (jt_id t) (\<lambda>r. r\<lparr>jt_finished_at := Some (Aware (w_now w))\<rparr>) (t_job_task (fst s1)) \<and>
     t_job (fst s2) = t_job (fst s1) \<and> t_config_backup (fst s2) = t_config_backup (fst s1)"
proof -
  let ?i = "jt_device_id t" and ?f = "\<lambda>r. r\<lparr>jt_finished_at := Some (Aware (w_now w))\<rparr>"
  let ?d = "upd_task (jt_id t) ?f (fst s1)"
  have start: "release_lease w t actr s1 =
      (if uuid_str ?i \<in> snd s1
       then andThen (in_db (lock_release (w_now w) (RefText (uuid_str ?i)) actr)) (\<lambda>_.
          change (\<lambda>(d, locks). (d, locks - {uuid_str ?i}))) (?d, snd s1)
       else (Inr (), (?d, snd s1)))"
    by (simp add: release_lease_def andThen_def assign_task_def set_task_def in_db_def change_def asks_def ret_def)
  show ?thesis
  proof (cases "uuid_str ?i \<in> snd s1")
    case False
    with assms(1) have "t_device_lock (fst s1) = t_device_lock (fst s)" "snd s1 = snd s" by (auto simp: borrowed_def)
    with start False show ?thesis by (auto simp: upd_task_def intro!: holder_locks)
  next
    case True
    with assms(1,2) obtain l where l: "holder (w_now w) ?i (fst s) = None" "dl_device_id l = ?i" "dl_job_id l = jb_id j"
      "t_device_lock (fst s1) = t_device_lock (drop_lock ?i (fst s)) @ [l]" "snd s1 = insert (uuid_str ?i) (snd s)"
      by (auto simp: borrowed_def)
    let ?a = "audit_write (w_now w) actr ''device.unlocked'' ''device_lock'' (uuid_str ?i) (Some (RefText (uuid_str ?i)))
      (Some (RefText (uuid_str (dl_job_id l)))) (Some [(''locked_by'', JStr (dl_locked_by l)), (''expires_at'', JStr (isoformat (dl_expires_at l)))])
      None None"
    have found: "find_device_lock ?d ?i = Some l"
      using l(2,4) by (simp add: drop_lock_def get_row_append get_row_filter) (simp add: get_row_def)
    have parsed: "optional_ref ''Device'' (Some (RefText (uuid_str ?i))) = Inr (Some ?i)"
      "optional_ref ''Job'' (Some (RefText (uuid_str (dl_job_id l)))) = Inr (Some (dl_job_id l))"
      using coerce_ref_text [OF assms(3), of "''Device''"] coerce_ref_text [OF assms(4), of "''Job''"] l(3)
      by (simp_all add: optional_ref_def del: coerce_ref.simps)
    have "lock_release (w_now w) (RefText (uuid_str ?i)) actr ?d = (Inr (), drop_lock ?i (snd (?a ?d)))"
    proof -
      have "lock_release (w_now w) (RefText (uuid_str ?i)) actr ?d = andThen ?a (\<lambda>_. delete_lock_row l) ?d"
        using found coerce_ref_text [OF assms(3), of "''Device''"]
        by (simp add: lock_release_def andThen_def get_lock_def query_def del: coerce_ref.simps)
      also have "\<dots> = (Inr (), drop_lock ?i (snd (?a ?d)))"
        unfolding audit_write_then [OF parsed] by (simp add: delete_lock_row_def change_def l(2))
      finally show ?thesis .
    qed
    with start True have rel: "release_lease w t actr s1 = (Inr (), (drop_lock ?i (snd (?a ?d)), snd s1 - {uuid_str ?i}))"
      by (simp add: andThen_def in_db_def change_def)
    have kept: "t_device_lock (snd (?a ?d)) = t_device_lock (fst s1)" "t_job_task (snd (?a ?d)) = t_job_task ?d"
      "t_job (snd (?a ?d)) = t_job (fst s1)" "t_config_backup (snd (?a ?d)) = t_config_backup (fst s1)"
      using keeps_audit [OF quiet_frames(2)] keeps_audit [OF quiet_frames(4)] keeps_audit [OF quiet_frames(5)]
        keeps_audit [OF quiet_frames(3)] by (simp_all add: keeps_def)
    have "holder (w_now w) k (drop_lock ?i (snd (?a ?d))) = holder (w_now w) k (fst s)" for k
      using l(1) kept(1) l(2,4) by (auto simp: holder_def drop_lock_def get_row_filter get_row_append)
    with rel kept l(5) assms(2) show ?thesis by (simp add: drop_lock_def upd_task_def)
  qed
qed

section \<open>A task settles\<close>

lemma audit_task_returns:
  assumes "jt_device_id t < 2 ^ 128" "jb_id j < 2 ^ 128"
  shows "\<exists>y s'. audit_task now actr act t j a m s = (Inr y, s') \<and> leases_of s' = leases_of s \<and>
    t_job_task (fst s') = t_job_task (fst s) \<and> t_job (fst s') = t_job (fst s) \<and>
    t_config_backup (fst s') = t_config_backup (fst s)"
proof -
  let ?a = "audit_write now actr act ''job_task'' (uuid_str (jt_id t)) (Some (RefText (uuid_str (jt_device_id t))))
    (Some (RefText (uuid_str (jb_id j)))) None a m"
  have "optional_ref ''Device'' (Some (RefText (uuid_str (jt_device_id t)))) = Inr (Some (jt_device_id t))"
    "optional_ref ''Job'' (Some (RefText (uuid_str (jb_id j)))) = Inr (Some (jb_id j))"
    using coerce_ref_text [OF assms(1), of "''Device''"] coerce_ref_text [OF assms(2), of "''Job''"]
    by (simp_all add: optional_ref_def del: coerce_ref.simps)
  then obtain y d where w: "?a (fst s) = (Inr y, d)" by (auto simp: audit_write_Inr Let_def)
  moreover have "t_device_lock d = t_device_lock (fst s)" "t_job_task d = t_job_task (fst s)" "t_job d = t_job (fst s)"
    "t_config_backup d = t_config_backup (fst s)"
    using keeps_audit [OF quiet_frames(2), THEN holdsD, OF w] keeps_audit [OF quiet_frames(4), THEN holdsD, OF w]
      keeps_audit [OF quiet_frames(5), THEN holdsD, OF w] keeps_audit [OF quiet_frames(3), THEN holdsD, OF w] by simp_all
  ultimately show ?thesis by (simp add: audit_task_def in_db_def)
qed

lemma task_now_found: "find_job_task (fst s) (jt_id t) = Some r \<Longrightarrow> in_db (task_now t) s = (Inr r, s)"
  by (simp add: in_db_def task_get_def get_by_ref_def query_def)

lemma assign_task_eq: "assign_task t f s = (Inr (), (upd_task (jt_id t) f (fst s), snd s))"
  by (simp add: assign_task_def set_task_def in_db_def change_def)

lemma find_upd_task:
  "(\<And>r. jt_id (f r) = jt_id r) \<Longrightarrow> find_job_task d k = Some r \<Longrightarrow> find_job_task (upd_task k f d) k = Some (f r)"
  by (simp add: upd_task_def get_upd_row)

definition verdict :: "error + unit \<Rightarrow> job_task \<Rightarrow> string" where
  "verdict outcome r =
     (case outcome of
        Inr _ \<Rightarrow> jt_status r
      | Inl e \<Rightarrow> if is_safety_error e \<and> jt_status r = ''skipped'' then ''skipped'' else ''failed'')"

lemma settle_task_result:
  assumes body: "body s = (x, s1)" "borrowed w t j s s1" "frame (fst s1) = frame (fst s)"
    and event: "\<And>e r u. \<exists>u'. failed_event e r u = (Inr (), u') \<and> leases_of u' = leases_of u \<and>
      t_job_task (fst u') = t_job_task (fst u) \<and> t_job (fst u') = t_job (fst u) \<and>
      t_config_backup (fst u') = t_config_backup (fst u)"
    and row: "find_job_task (fst s1) (jt_id t) = Some r"
    and known: "jt_device_id t < 2 ^ 128" "jb_id j < 2 ^ 128" "uuid_str (jt_device_id t) \<notin> snd s"
  shows "\<exists>r' s2. settle_task w t actr body failed_event s = (Inr (verdict x r), s2) \<and> snd s2 = snd s \<and>
    (\<forall>i. holder (w_now w) i (fst s2) = holder (w_now w) i (fst s)) \<and> frame (fst s2) = frame (fst s) \<and>
    t_config_backup (fst s2) = t_config_backup (fst s1) \<and> find_job_task (fst s2) (jt_id t) = Some r' \<and>
    jt_status r' = verdict x r \<and> jt_finished_at r' = Some (Aware (w_now w)) \<and> jt_backup_id r' = jt_backup_id r \<and>
    apart (jt_id t) (fst s2) = apart (jt_id t) (fst s1)"
proof -
  let ?f = "\<lambda>r. r\<lparr>jt_finished_at := Some (Aware (w_now w))\<rparr>"
  have "\<exists>r2 s2. (case x of Inr _ \<Rightarrow> ret () | Inl e \<Rightarrow> andThen (mark_failed t e) (\<lambda>r. failed_event e r)) s1 = (Inr (), s2) \<and>
      leases_of s2 = leases_of s1 \<and> frame (fst s2) = frame (fst s1) \<and> t_config_backup (fst s2) = t_config_backup (fst s1) \<and>
      find_job_task (fst s2) (jt_id t) = Some r2 \<and> jt_status r2 = verdict x r \<and> jt_backup_id r2 = jt_backup_id r \<and>
      apart (jt_id t) (fst s2) = apart (jt_id t) (fst s1)"
  proof (cases x)
    case (Inr v)
    with row show ?thesis by (simp add: ret_def verdict_def)
  next
    case (Inl e)
    let ?g = "\<lambda>r. r\<lparr>jt_status := (if is_safety_error e \<and> jt_status r = ''skipped'' then ''skipped'' else ''failed''),
       jt_error := Some (mask_secrets [] (err_str e))\<rparr>"
    let ?u = "(upd_task (jt_id t) ?g (fst s1), snd s1)"
    have found: "find_job_task (fst ?u) (jt_id t) = Some (?g r)" using find_upd_task [OF _ row, of ?g] by simp
    have "mark_failed t e s1 = (Inr (?g r), ?u)"
      using task_now_found [OF found] by (simp add: mark_failed_def andThen_def assign_task_eq)
    moreover obtain u' where u': "failed_event e (?g r) ?u = (Inr (), u')" "leases_of u' = leases_of ?u"
      "t_job_task (fst u') = t_job_task (fst ?u)" "t_job (fst u') = t_job (fst ?u)"
      "t_config_backup (fst u') = t_config_backup (fst ?u)" using event by blast
    ultimately have "andThen (mark_failed t e) (\<lambda>r. failed_event e r) s1 = (Inr (), u')" by (simp add: andThen_def)
    moreover have "frame (fst u') = frame (fst s1)"
    proof -
      have "frame (fst u') = frame (fst ?u)" using u'(3,4) by (simp add: frame_def)
      also have "\<dots> = frame (fst s1)" by (simp add: frame_upd_task task_core_def)
      finally show ?thesis .
    qed
    moreover have "find_job_task (fst u') (jt_id t) = Some (?g r)" using found u'(3) by simp
    moreover have "apart (jt_id t) (fst u') = apart (jt_id t) (fst s1)"
      by (rule apart_row [where f = ?g]) (simp_all add: u'(3) upd_task_def)
    ultimately show ?thesis using Inl u'(2,5) by (intro exI [of _ "?g r"] exI [of _ u']) (simp add: verdict_def)
  qed
  then obtain r2 s2 where s2: "(case x of Inr _ \<Rightarrow> ret () | Inl e \<Rightarrow> andThen (mark_failed t e) (\<lambda>r. failed_event e r)) s1 = (Inr (), s2)"
      "leases_of s2 = leases_of s1" "frame (fst s2) = frame (fst s1)" "t_config_backup (fst s2) = t_config_backup (fst s1)"
      "find_job_task (fst s2) (jt_id t) = Some r2" "jt_status r2 = verdict x r" "jt_backup_id r2 = jt_backup_id r"
      "apart (jt_id t) (fst s2) = apart (jt_id t) (fst s1)" by blast
  obtain s3 where s3: "release_lease w t actr s2 = (Inr (), s3)" "snd s3 = snd s"
    "\<forall>i. holder (w_now w) i (fst s3) = holder (w_now w) i (fst s)"
    "t_job_task (fst s3) = upd_row jt_id (jt_id t) ?f (t_job_task (fst s2))"
    "t_job (fst s3) = t_job (fst s2)" "t_config_backup (fst s3) = t_config_backup (fst s2)"
    using release_lease_returns [OF borrowed_after [OF body(2) s2(2)] known(3,1,2)] by blast
  have found: "find_job_task (fst s3) (jt_id t) = Some (?f r2)"
    using s2(5) by (simp add: s3(4) get_upd_row)
  have "settle_task w t actr body failed_event s = (Inr (verdict x r), s3)"
    using task_now_found [OF found] s2(1,6) s3(1) body(1) row
    by (simp add: settle_task_def andThen_def finally_do_def caught_def ret_def)
  moreover have "frame (fst s3) = frame (fst s)"
    using s2(3) body(3) s3(4,5) by (simp add: frame_def map_upd_row task_core_def)
  moreover have "apart (jt_id t) (fst s3) = apart (jt_id t) (fst s1)"
    using apart_row [OF s3(4)] s2(8) by simp
  ultimately show ?thesis
    using found s3(2,3,6) s2(4,6,7) by (intro exI [of _ "?f r2"] exI [of _ s3]) simp
qed

section \<open>A VLAN change task\<close>

lemma andThen_assoc: "andThen (andThen m f) g = andThen m (\<lambda>x. andThen (f x) g)"
  by (rule ext) (simp add: andThen_def split: prod.splits sum.splits)

lemma lock_acquire_keeps:
  "quiet g \<Longrightarrow> (\<And>d ls. g (d\<lparr>t_device_lock := ls\<rparr>) = g d) \<Longrightarrow> keeps g (lock_acquire now dev jb actr ttl)"
  unfolding lock_acquire_def get_lock_def create_lock_row_def delete_lock_row_def Let_def
  by (intro keeps_andThen keeps_case_option keeps_if keeps_basic keeps_audit keeps_change)
    (simp_all add: put_lock_def drop_lock_def)

lemma lock_taken_keeps: "keeps (\<lambda>s. g (fst s)) (lock_taken i)"
  by (auto simp: lock_taken_def intro!: keeps_change)

lemma take_lease_keeps:
  "quiet g \<Longrightarrow> (\<And>d ls. g (d\<lparr>t_device_lock := ls\<rparr>) = g d) \<Longrightarrow> keeps (\<lambda>s. g (fst s)) (take_lease w t j actr)"
  unfolding take_lease_def by (intro keeps_andThen keeps_in_db_fst lock_acquire_keeps lock_taken_keeps)

text \<open>The identifiers that are free, the devices and the copies.\<close>

definition roomy :: "db \<Rightarrow> uuid \<times> device list \<times> config_backup list" where
  "roomy d = (db_next_id d, t_device d, t_config_backup d)"

lemma audit_next_id: "audit_write now actr act ot oi dev jb b a m s = (Inr y, s') \<Longrightarrow>
    roomy s' = (db_next_id s + 1, t_device s, t_config_backup s)"
  by (auto simp: audit_write_Inr Let_def roomy_def)

lemma take_lease_returns:
  assumes "holder (w_now w) (jt_device_id t) (fst s) = None" "jt_device_id t < 2 ^ 128" "jb_id j < 2 ^ 128"
  shows "\<exists>s'. take_lease w t j actr s = (Inr (), s') \<and>
    roomy (fst s') = (db_next_id (fst s) + 1, t_device (fst s), t_config_backup (fst s))"
proof -
  note parsed = coerce_ref_text [OF assms(2), of "''Device''"] coerce_ref_text [OF assms(3), of "''Job''"]
  let ?l = "\<lparr>dl_device_id = jt_device_id t, dl_job_id = jb_id j, dl_locked_by = actr, dl_locked_at = Aware (w_now w),
    dl_expires_at = Aware (w_now w + 900 * second)\<rparr>"
  let ?d = "put_lock ?l (drop_lock (jt_device_id t) (fst s))"
  let ?a = "audit_write (w_now w) actr ''device.locked'' ''device_lock'' (uuid_str (jt_device_id t))
    (Some (RefText (uuid_str (jt_device_id t)))) (Some (RefText (uuid_str (jb_id j)))) None
    (Some [(''expires_at'', JStr (isoformat (Aware (w_now w + 900 * second))))]) None"
  have refs: "optional_ref ''Device'' (Some (RefText (uuid_str (jt_device_id t)))) = Inr (Some (jt_device_id t))"
    "optional_ref ''Job'' (Some (RefText (uuid_str (jb_id j)))) = Inr (Some (jb_id j))"
    using parsed by (simp_all add: optional_ref_def del: coerce_ref.simps)
  obtain y d1 where a: "?a ?d = (Inr y, d1)" using refs by (auto simp: audit_write_Inr Let_def)
  have "take_lease w t j actr s = (Inr (), (d1, insert (uuid_str (jt_device_id t)) (snd s)))"
    using assms(1) a
    by (simp add: take_lease_def andThen_def in_db_def acquire_outcome [OF parsed, of "w_now w" actr 900 "fst s"]
        lock_taken_def change_def Let_def)
  moreover have "roomy d1 = (db_next_id (fst s) + 1, t_device (fst s), t_config_backup (fst s))"
    using audit_next_id [OF a] by (simp add: put_lock_def drop_lock_def)
  ultimately show ?thesis by simp
qed

lemma take_lease_next:
  assumes "take_lease w t j actr s = (Inr (), s')" "jt_device_id t < 2 ^ 128" "jb_id j < 2 ^ 128"
  shows "db_next_id (fst s') = db_next_id (fst s) + 1"
proof (cases "holder (w_now w) (jt_device_id t) (fst s)")
  case None
  from take_lease_returns [OF this assms(2,3), of actr] assms(1) show ?thesis by (auto simp: roomy_def)
next
  case (Some l)
  with assms(1) acquire_outcome [OF coerce_ref_text [OF assms(2)] coerce_ref_text [OF assms(3)], of "w_now w" actr 900 "fst s"]
  show ?thesis by (simp add: take_lease_def andThen_def in_db_def split: prod.splits)
qed

definition vlan_work :: "world \<Rightarrow> job \<Rightarrow> job_task \<Rightarrow> string \<Rightarrow> (exec_state, unit) action" where
  "vlan_work w j t actr =
     andThen (task_status t ''locked'') (\<lambda>_.
     andThen (task_status t ''backing_up'') (\<lambda>_.
     andThen (back_up w t j actr ''pre-change'') (\<lambda>_.
     andThen (task_status t ''applying'') (\<lambda>_.
     andThen (apply_verify_save t (jt_dry_run_device t)) (\<lambda>_.
     andThen (task_status t ''succeeded'') (\<lambda>_.
     andThen (audit_task (w_now w) actr ''task.succeeded'' t j None None) (\<lambda>_. ret ())))))))"

definition vlan_body :: "world \<Rightarrow> job \<Rightarrow> job_task \<Rightarrow> string \<Rightarrow> (exec_state, unit) action" where
  "vlan_body w j t actr =
     andThen (check_vlan_task w j t (jt_dry_run_device t)) (\<lambda>_. andThen (take_lease w t j actr) (\<lambda>_. vlan_work w j t actr))"

lemma vlan_body_eq:
  "andThen (execute_vlan_change_task w j t actr) (\<lambda>_. andThen (task_status t ''succeeded'') (\<lambda>_.
     andThen (audit_task (w_now w) actr ''task.succeeded'' t j None None) (\<lambda>_. ret ()))) = vlan_body w j t actr"
  by (simp add: execute_vlan_change_task_def vlan_body_def vlan_work_def andThen_assoc Let_def)

lemma vlan_work_keeps: "keeps leases_of (vlan_work w j t actr)" "keeps (\<lambda>s. frame (fst s)) (vlan_work w j t actr)"
  unfolding vlan_work_def
  by (intro keeps_andThen keeps_basic assign_keeps_leases back_up_keeps_leases apply_keeps audit_task_keeps_leases)
    (intro keeps_andThen keeps_basic assign_keeps_frame back_up_keeps_frame apply_keeps audit_task_keeps_frame;
      simp add: task_core_def)

lemma vlan_body_facts:
  assumes "jt_device_id t < 2 ^ 128" "jb_id j < 2 ^ 128" "vlan_body w j t actr s = (x, s')"
  shows "borrowed w t j s s'" "frame (fst s') = frame (fst s)"
proof -
  show "borrowed w t j s s'"
    by (rule body_borrows [OF assms(1,2) check_vlan_keeps(1) vlan_work_keeps(1) assms(3) [unfolded vlan_body_def]])
  have "keeps (\<lambda>s. frame (fst s)) (vlan_body w j t actr)"
    unfolding vlan_body_def
    by (intro keeps_andThen check_vlan_keeps take_lease_keeps vlan_work_keeps quiet_frames) (simp add: frame_def)
  from holdsD [OF this assms(3)] show "frame (fst s') = frame (fst s)" .
qed

lemma vlan_body_apart:
  assumes "vlan_body w j t actr s = (x, s')"
  shows "apart (jt_id t) (fst s') = apart (jt_id t) (fst s)"
proof -
  have "keeps (\<lambda>s. apart (jt_id t) (fst s)) (vlan_body w j t actr)"
    unfolding vlan_body_def vlan_work_def
    by (intro keeps_andThen keeps_basic check_vlan_keeps_apart take_lease_keeps quiet_apart assign_keeps_apart
        back_up_keeps_apart apply_keeps_apart audit_task_keeps_apart) (simp_all add: apart_def)
  from holdsD [OF this assms] show ?thesis .
qed

text \<open>What the stored backup leaves: the copies, and which one each task names.\<close>

definition copies :: "db \<Rightarrow> config_backup list \<times> (uuid \<times> uuid option) list" where
  "copies d = (t_config_backup d, map (\<lambda>t. (jt_id t, jt_backup_id t)) (t_job_task d))"

lemma quiet_copies: "quiet copies"
  by (simp add: quiet_def copies_def)

lemma assign_keeps_copies: "(\<And>r. jt_id (f r) = jt_id r \<and> jt_backup_id (f r) = jt_backup_id r) \<Longrightarrow> keeps (\<lambda>s. copies (fst s)) (assign_task t f)"
  unfolding assign_task_def
  by (intro keeps_in_db_fst keeps_set_task) (simp add: copies_def upd_task_def map_upd_row)

lemma audit_task_keeps_copies: "keeps (\<lambda>s. copies (fst s)) (audit_task now actr act t j a m)"
  unfolding audit_task_def by (intro keeps_in_db_fst keeps_audit quiet_copies)

lemma apply_keeps_copies: "keeps (\<lambda>s. copies (fst s)) (apply_verify_save t dry)"
  unfolding apply_verify_save_def Let_def case_prod_beta all_succeeded_def
  by (intro keeps_andThen keeps_basic assign_keeps_copies) simp_all

lemma check_vlan_keeps_copies: "keeps (\<lambda>s. copies (fst s)) (check_vlan_task w j t dry)"
  unfolding check_vlan_task_def check_real_apply_def
  by (intro keeps_andThen keeps_basic keeps_if keeps_in_db_fst assign_keeps_copies) simp_all

lemma check_vlan_keeps_next: "keeps (\<lambda>s. db_next_id (fst s)) (check_vlan_task w j t dry)"
  unfolding check_vlan_task_def check_real_apply_def assign_task_def
  by (intro keeps_andThen keeps_basic keeps_if keeps_in_db_fst keeps_set_task) (simp add: upd_task_def)

lemma create_backup_stores:
  assumes "create_backup w device actr (Some (uuid_str k)) jb tx d = (Inr b, d')" "k < 2 ^ 128"
    "device = uuid_str i" "i < 2 ^ 128"
  shows "\<exists>c. t_config_backup d' = t_config_backup d @ [c] \<and> cb_device_id c = i \<and> cb_job_task_id c = Some k \<and>
    t_job_task d' = t_job_task d \<and> cb_id c = db_next_id d \<and> (cb_id c < 2 ^ 128 \<longrightarrow> br_id b = uuid_str (cb_id c))"
proof -
  note parsed = coerce_ref_text [OF assms(2), of "''Job task''"] coerce_ref_text [OF assms(4), of "''Device''"]
  have task: "t_job_task d' = t_job_task d"
    using create_backup_keeps [OF quiet_frames(4), THEN holdsD, OF _ assms(1)] by simp
  from assms(1) obtain token d1 c d2 y where
    made: "backup_create (w_now w) (RefText device) token (w_sha w (given tx (dummy_config device))) actr (Some (RefText (uuid_str k))) d = (Inr c, d1)"
    and noted: "audit_write (w_now w) actr ''backup.created'' ''backup'' (uuid_str (cb_id c)) (Some (RefText device))
      (map_option RefText jb) None (Some [(''config_hash'', JStr (cb_config_hash c)), (''job_task_id'', str_opt (Some (uuid_str k)))]) None d1 = (Inr y, d')"
    and shown: "read_backup w (RefText (uuid_str (cb_id c))) False d' = (Inr b, d')"
    by (auto simp: create_backup_def Let_def andThen_Inr device_by_ref_def get_by_ref_Inr encrypted_def read_backup_def backup_get_def
        simp del: coerce_ref.simps)
  have "t_config_backup d' = t_config_backup d1"
    using noted keeps_audit [OF quiet_frames(3), THEN holdsD] by blast
  moreover have "br_id b = uuid_str (cb_id c)" if "cb_id c < 2 ^ 128"
    using shown coerce_ref_text [OF that, of "''Backup''"]
    by (auto simp: read_backup_def backup_get_def andThen_Inr get_by_ref_Inr read_backup_row_def
        simp del: coerce_ref.simps dest: get_row_key)
  ultimately show ?thesis
    using made parsed assms(3) task
    by (auto simp: backup_create_def andThen_Inr optional_ref_def Let_def simp del: coerce_ref.simps)
qed

lemma find_mapped:
  "map c rows' = map c rows \<Longrightarrow> (\<And>r. key r = f (c r)) \<Longrightarrow> get_row key k rows = Some r \<Longrightarrow>
   \<exists>r'. get_row key k rows' = Some r' \<and> c r' = c r"
proof (induction rows' arbitrary: rows)
  case (Cons x xs)
  then obtain y ys where rows: "rows = y # ys" "c x = c y" "map c xs = map c ys" by (cases rows) auto
  show ?case
  proof (cases "key y = k")
    case True
    with Cons.prems rows show ?thesis by (simp add: get_row_def)
  next
    case False
    with Cons.prems rows have "get_row key k ys = Some r" "key x \<noteq> k" by (simp_all add: get_row_def)
    with Cons.IH [OF rows(3) Cons.prems(2)] show ?thesis by (simp add: get_row_def)
  qed
qed (simp add: get_row_def)

lemma frame_row:
  "frame d' = frame d \<Longrightarrow> find_job_task d k = Some r \<Longrightarrow> \<exists>r'. find_job_task d' k = Some r' \<and> task_core r' = task_core r"
  using find_mapped [of task_core "t_job_task d'" "t_job_task d" jt_id fst k r] by (simp add: frame_def task_core_def)

lemma copies_row:
  "copies d' = copies d \<Longrightarrow> find_job_task d k = Some r \<Longrightarrow> \<exists>r'. find_job_task d' k = Some r' \<and> jt_backup_id r' = jt_backup_id r"
  using find_mapped [of "\<lambda>t. (jt_id t, jt_backup_id t)" "t_job_task d'" "t_job_task d" jt_id fst k r] by (auto simp: copies_def)

text \<open>A body that returns did everything.\<close>

lemma vlan_checked:
  "check_vlan_task w j t dry s = (Inr (), s') \<Longrightarrow>
   jb_job_type j = ''vlan_change'' \<and> truthy (jget dry ''apply_supported'') \<and> truthy (jget dry ''verification_commands'')"
  by (auto simp: check_vlan_task_def andThen_Inr split: if_splits)

definition refers_to :: "config_backup \<Rightarrow> job_task \<Rightarrow> bool" where
  "refers_to c r \<longleftrightarrow> (cb_id c < 2 ^ 128 \<longrightarrow> jt_backup_id r = Some (cb_id c))"

lemma refers_to_same: "jt_backup_id r' = jt_backup_id r \<Longrightarrow> refers_to c r' \<longleftrightarrow> refers_to c r"
  by (simp add: refers_to_def)

lemma back_up_stores:
  assumes "back_up w t j actr remark s = (Inr b, s')" "jt_id t < 2 ^ 128" "jt_device_id t < 2 ^ 128"
    "find_job_task (fst s) (jt_id t) = Some r"
  shows "\<exists>c. t_config_backup (fst s') = t_config_backup (fst s) @ [c] \<and> cb_device_id c = jt_device_id t \<and>
    cb_job_task_id c = Some (jt_id t) \<and> cb_id c = db_next_id (fst s) \<and>
    (\<exists>r'. find_job_task (fst s') (jt_id t) = Some r' \<and> refers_to c r')"
proof -
  let ?tx = "Some (''! '' @ remark @ '' backup for '' @ uuid_str (jt_device_id t) @ [newline])"
  from assms(1) obtain b0 d i where d: "create_backup w (uuid_str (jt_device_id t)) actr (Some (uuid_str (jt_id t)))
      (Some (uuid_str (jb_id j))) ?tx (fst s) = (Inr b0, d)"
      "fst s' = upd_task (jt_id t) (\<lambda>r. r\<lparr>jt_backup_id := Some i\<rparr>) d" "coerce_uuid ''Backup'' (br_id b0) = Inr i"
    by (auto simp: back_up_def andThen_Inr in_db_def assign_task_def set_task_def change_def split: prod.splits)
  from create_backup_stores [OF d(1) assms(2) refl assms(3)] obtain c where
    c: "t_config_backup d = t_config_backup (fst s) @ [c]" "cb_device_id c = jt_device_id t"
      "cb_job_task_id c = Some (jt_id t)" "t_job_task d = t_job_task (fst s)"
      "cb_id c < 2 ^ 128 \<longrightarrow> br_id b0 = uuid_str (cb_id c)" "cb_id c = db_next_id (fst s)" by blast
  have "cb_id c < 2 ^ 128 \<longrightarrow> i = cb_id c"
    using d(3) c(5) coerce_ref_text [of "cb_id c" "''Backup''"] by auto
  moreover from c(4) assms(4) have "find_job_task (fst s') (jt_id t) = Some (r\<lparr>jt_backup_id := Some i\<rparr>)"
    unfolding d(2) by (intro find_upd_task) simp_all
  ultimately show ?thesis using c d(2) by (auto simp: refers_to_def)
qed

lemma keeps_tasks_audit: "audit_task now actr act t j a m s = (y, s') \<Longrightarrow> t_job_task (fst s') = t_job_task (fst s)"
  using holdsD [OF keeps_in_db_fst [OF keeps_audit [OF quiet_frames(4)]], of now actr act "''job_task''"]
  unfolding audit_task_def by blast

lemma vlan_work_done:
  assumes "vlan_work w j t actr s = (Inr (), s')" "jt_id t < 2 ^ 128" "jt_device_id t < 2 ^ 128"
    "find_job_task (fst s) (jt_id t) = Some r"
  shows "\<exists>c r'. t_config_backup (fst s') = t_config_backup (fst s) @ [c] \<and> cb_device_id c = jt_device_id t \<and>
    cb_job_task_id c = Some (jt_id t) \<and> find_job_task (fst s') (jt_id t) = Some r' \<and> jt_status r' = ''succeeded'' \<and>
    cb_id c = db_next_id (fst s) \<and> refers_to c r'"
proof -
  let ?st = "\<lambda>st. \<lambda>r :: job_task. r\<lparr>jt_status := st\<rparr>"
  let ?u = "(upd_task (jt_id t) (?st ''backing_up'') (upd_task (jt_id t) (?st ''locked'') (fst s)), snd s)"
  from assms(1) obtain b s2 s3 s4 y where steps:
    "back_up w t j actr ''pre-change'' ?u = (Inr b, s2)"
    "apply_verify_save t (jt_dry_run_device t) (upd_task (jt_id t) (?st ''applying'') (fst s2), snd s2) = (Inr (), s3)"
    "audit_task (w_now w) actr ''task.succeeded'' t j None None (upd_task (jt_id t) (?st ''succeeded'') (fst s3), snd s3) = (Inr y, s')"
    by (auto simp: vlan_work_def andThen_Inr assign_task_eq)
  have "find_job_task (fst ?u) (jt_id t) = Some (?st ''backing_up'' (?st ''locked'' r))"
    using assms(4) by (simp add: find_upd_task)
  from back_up_stores [OF steps(1) assms(2,3) this] obtain c r2 where
    c: "t_config_backup (fst s2) = t_config_backup (fst s) @ [c]" "cb_device_id c = jt_device_id t"
      "cb_job_task_id c = Some (jt_id t)" "find_job_task (fst s2) (jt_id t) = Some r2" "refers_to c r2"
      "cb_id c = db_next_id (fst s)" by (auto simp: upd_task_def)
  have row2: "find_job_task (upd_task (jt_id t) (?st ''applying'') (fst s2)) (jt_id t) = Some (?st ''applying'' r2)"
    using c(4) by (simp add: find_upd_task)
  have same: "copies (fst s3) = copies (upd_task (jt_id t) (?st ''applying'') (fst s2))"
    using holdsD [OF apply_keeps_copies steps(2)] by simp
  from copies_row [OF same row2] obtain r3 where
    r3: "find_job_task (fst s3) (jt_id t) = Some r3" "jt_backup_id r3 = jt_backup_id r2" by auto
  have refers: "refers_to c (?st ''succeeded'' r3)"
    using c(5) r3(2) by (simp add: refers_to_def)
  have "find_job_task (fst s') (jt_id t) = Some (?st ''succeeded'' r3)"
    using keeps_tasks_audit [OF steps(3)] find_upd_task [OF _ r3(1), of "?st ''succeeded''"] by simp
  moreover have "t_config_backup (fst s') = t_config_backup (fst s2)"
    using holdsD [OF audit_task_keeps_copies steps(3)] same by (simp add: copies_def)
  ultimately show ?thesis using c(1,2,3,6) refers by (intro exI [of _ c] exI [of _ "?st ''succeeded'' r3"]) simp
qed

lemma vlan_body_done:
  assumes "vlan_body w j t actr s = (Inr (), s')" "jt_id t < 2 ^ 128" "jt_device_id t < 2 ^ 128"
    "find_job_task (fst s) (jt_id t) = Some r" "jb_id j < 2 ^ 128"
  shows "jb_job_type j = ''vlan_change'' \<and> truthy (jget (jt_dry_run_device t) ''apply_supported'') \<and>
    truthy (jget (jt_dry_run_device t) ''verification_commands'') \<and>
    (\<exists>c r'. t_config_backup (fst s') = t_config_backup (fst s) @ [c] \<and> cb_device_id c = jt_device_id t \<and>
      cb_job_task_id c = Some (jt_id t) \<and> find_job_task (fst s') (jt_id t) = Some r' \<and> jt_status r' = ''succeeded'' \<and>
      cb_id c = db_next_id (fst s) + 1 \<and> refers_to c r')"
proof -
  from assms(1) obtain s1 s2 where steps: "check_vlan_task w j t (jt_dry_run_device t) s = (Inr (), s1)"
    "take_lease w t j actr s1 = (Inr (), s2)" "vlan_work w j t actr s2 = (Inr (), s')"
    by (auto simp: vlan_body_def andThen_Inr)
  have "copies (fst s1) = copies (fst s)" by (rule holdsD [OF check_vlan_keeps_copies steps(1)])
  moreover have "keeps (\<lambda>s. copies (fst s)) (take_lease w t j actr)"
    by (rule take_lease_keeps [OF quiet_copies]) (simp add: copies_def)
  then have "copies (fst s2) = copies (fst s1)" using holdsD steps(2) by metis
  ultimately have same: "copies (fst s2) = copies (fst s)" by simp
  with assms(4) obtain r2 where "find_job_task (fst s2) (jt_id t) = Some r2" using copies_row by blast
  moreover have "db_next_id (fst s2) = db_next_id (fst s) + 1"
    using take_lease_next [OF steps(2) assms(3,5)] holdsD [OF check_vlan_keeps_next steps(1)] by simp
  ultimately show ?thesis
    using vlan_work_done [OF steps(3) assms(2,3)] vlan_checked [OF steps(1)] same by (simp add: copies_def)
qed

section \<open>What is promised of a task\<close>

text \<open>The rows are found and the task is started; what follows is the frame.\<close>

lemma execute_started:
  assumes "find_job_task d k = Some t" "find_job d (jt_job_id t) = Some j" "k < 2 ^ 128" "jt_job_id t < 2 ^ 128"
    "audit_task (w_now w) actr ''task.started'' t j None None
      (upd_task k (\<lambda>r. r\<lparr>jt_started_at := Some (Aware (w_now w)), jt_attempt := jt_attempt r + 1\<rparr>) d, {}) = (Inr y, s0)"
  shows "execute_job_task w (uuid_str k) actr (d, {}) =
    settle_task w t actr (vlan_body w j t actr)
      (\<lambda>e r. andThen (audit_task (w_now w) actr
          (if is_safety_error e \<and> jt_status r = ''skipped'' then ''task.skipped'' else ''task.failed'') t j None
          (Some [(''error'', JStr (or_empty (jt_error r)))])) (\<lambda>_. ret ())) s0"
proof -
  have "find_task_or_refuse (uuid_str k) (d, {}) = (Inr t, (d, {}))"
    using assms(1) coerce_ref_text [OF assms(3), of "''Job task''"]
    by (simp add: find_task_or_refuse_def catching_def in_db_def task_get_def get_by_ref_def query_def del: coerce_ref.simps)
  moreover have "find_job_or_refuse (uuid_str (jt_job_id t)) (d, {}) = (Inr j, (d, {}))"
    using assms(2) coerce_ref_text [OF assms(4), of "''Job''"]
    by (simp add: find_job_or_refuse_def catching_def in_db_def job_get_def get_by_ref_def query_def del: coerce_ref.simps)
  moreover have "start_task w t (\<lambda>r. r) (d, {}) =
      (Inr (), (upd_task k (\<lambda>r. r\<lparr>jt_started_at := Some (Aware (w_now w)), jt_attempt := jt_attempt r + 1\<rparr>) d, {}))"
    using assms(1) by (auto simp: start_task_def assign_task_eq dest: get_row_key)
  ultimately show ?thesis
    using assms(5) unfolding execute_job_task_def vlan_body_eq by (simp add: andThen_def)
qed

lemma execute_job_task_result:
  assumes t: "find_job_task d k = Some t" and j: "find_job d (jt_job_id t) = Some j"
    and known: "k < 2 ^ 128" "jt_job_id t < 2 ^ 128" "jt_device_id t < 2 ^ 128"
  shows "\<exists>r d'. execute_job_task w (uuid_str k) actr (d, {}) = (Inr (jt_status r), (d', {})) \<and>
    (\<forall>i. holder (w_now w) i d' = holder (w_now w) i d) \<and> frame d' = frame d \<and> find_job_task d' k = Some r \<and>
    jt_status r \<in> {''succeeded'', ''failed'', ''skipped''} \<and> jt_finished_at r = Some (Aware (w_now w)) \<and>
    jt_started_at r = Some (Aware (w_now w)) \<and> jt_attempt r = jt_attempt t + 1 \<and>
    filter (\<lambda>r. jt_id r \<noteq> k) (t_job_task d') = filter (\<lambda>r. jt_id r \<noteq> k) (t_job_task d) \<and>
    (jt_status r = ''succeeded'' \<longrightarrow>
       jb_job_type j = ''vlan_change'' \<and> truthy (jget (jt_dry_run_device t) ''apply_supported'') \<and>
       truthy (jget (jt_dry_run_device t) ''verification_commands'') \<and>
       (\<exists>c. t_config_backup d' = t_config_backup d @ [c] \<and> cb_device_id c = jt_device_id t \<and> cb_job_task_id c = Some k \<and>
          cb_id c = db_next_id d + 2 \<and> refers_to c r))"
proof -
  let ?f = "\<lambda>r. r\<lparr>jt_started_at := Some (Aware (w_now w)), jt_attempt := jt_attempt r + 1\<rparr>"
  have ids: "jt_id t = k" "jb_id j = jt_job_id t" using t j by (auto dest: get_row_key)
  let ?u = "(upd_task k ?f d, {} :: string set)"
  have small: "jb_id j < 2 ^ 128" using ids known by simp
  obtain y s0 where s0: "audit_task (w_now w) actr ''task.started'' t j None None ?u = (Inr y, s0)"
    "leases_of s0 = leases_of ?u" "t_job_task (fst s0) = t_job_task (fst ?u)" "t_job (fst s0) = t_job (fst ?u)"
    "t_config_backup (fst s0) = t_config_backup (fst ?u)"
    using audit_task_returns [OF known(3) small, of "w_now w" actr "''task.started''" None None ?u] by (elim exE conjE) (rule that)
  have row0: "find_job_task (fst s0) (jt_id t) = Some (?f t)" using find_upd_task [OF _ t, of ?f] s0(3) ids by simp
  have frame0: "frame (fst s0) = frame d"
    using s0(3,4) by (simp add: frame_def upd_task_def map_upd_row task_core_def)
  let ?fe = "\<lambda>e r. andThen (audit_task (w_now w) actr
          (if is_safety_error e \<and> jt_status r = ''skipped'' then ''task.skipped'' else ''task.failed'') t j None
          (Some [(''error'', JStr (or_empty (jt_error r)))])) (\<lambda>_. ret ())"
  obtain x s1 where body: "vlan_body w j t actr s0 = (x, s1)" by (cases "vlan_body w j t actr s0") auto
  note facts = vlan_body_facts [OF known(3) small body]
  from frame_row [OF facts(2) row0] obtain r1 where r1: "find_job_task (fst s1) (jt_id t) = Some r1" by auto
  have "\<exists>u'. ?fe e r u = (Inr (), u') \<and> leases_of u' = leases_of u \<and> t_job_task (fst u') = t_job_task (fst u) \<and>
      t_job (fst u') = t_job (fst u) \<and> t_config_backup (fst u') = t_config_backup (fst u)" for e r u
    using audit_task_returns [OF known(3) small, of "w_now w" actr
        "if is_safety_error e \<and> jt_status r = ''skipped'' then ''task.skipped'' else ''task.failed''" None
        "Some [(''error'', JStr (or_empty (jt_error r)))]" u]
    by (auto simp: andThen_def ret_def)
  from settle_task_result [where body = "vlan_body w j t actr" and failed_event = ?fe and s = s0 and ?s1.0 = s1 and actr = actr,
      OF body facts this r1 known(3) small] s0(2) obtain r' s2 where settled:
    "settle_task w t actr (vlan_body w j t actr) ?fe s0 = (Inr (verdict x r1), s2)" "snd s2 = {}"
    "\<forall>i. holder (w_now w) i (fst s2) = holder (w_now w) i (fst s0)" "frame (fst s2) = frame (fst s0)"
    "t_config_backup (fst s2) = t_config_backup (fst s1)" "find_job_task (fst s2) (jt_id t) = Some r'"
    "jt_status r' = verdict x r1" "jt_finished_at r' = Some (Aware (w_now w))" "jt_backup_id r' = jt_backup_id r1"
    "apart k (fst s2) = apart k (fst s1)" using ids(1) by auto
  have room: "db_next_id (fst s0) = db_next_id d + 1"
    using s0(1) audit_next_id by (fastforce simp: audit_task_def in_db_def upd_task_def roomy_def split: prod.splits)
  have apart: "apart k (fst s2) = apart k (fst s0)" using settled(10) vlan_body_apart [OF body] ids(1) by simp
  then have others: "filter (\<lambda>r. jt_id r \<noteq> k) (t_job_task (fst s2)) = filter (\<lambda>r. jt_id r \<noteq> k) (t_job_task d)"
    using s0(3) by (simp add: apart_def upd_task_def filter_upd_row)
  have "jt_started_at r' = Some (Aware (w_now w)) \<and> jt_attempt r' = jt_attempt t + 1"
    using find_mapped [of "\<lambda>r. (jt_id r, jt_started_at r, jt_attempt r)" "t_job_task (fst s2)" "t_job_task (fst s0)" jt_id fst k "?f t"]
      apart row0 settled(6) ids(1) by (auto simp: apart_def)
  note started = this others
  obtain d2 where d2: "s2 = (d2, {})" using settled(2) by (cases s2) auto
  have run: "execute_job_task w (uuid_str k) actr (d, {}) = (Inr (verdict x r1), (fst s2, {}))"
    using settled(1) d2 execute_started [OF t j known(1,2) s0(1)] by simp
  have "verdict x r1 \<in> {''succeeded'', ''failed'', ''skipped''} \<and> (verdict x r1 = ''succeeded'' \<longrightarrow> x = Inr ())"
    using vlan_body_done [OF _ _ known(3) row0 small, of w actr s1] body known(1) ids r1
    by (cases x) (auto simp: verdict_def)
  moreover have "t_config_backup (fst s0) = t_config_backup d" using s0(5) by simp
  moreover have "holder (w_now w) i (fst s0) = holder (w_now w) i d" for i using s0(2) by (intro holder_locks) simp
  ultimately show ?thesis
    using run settled(3-9) started frame0 ids known(1) vlan_body_done [OF _ _ known(3) row0 small, of w actr s1] body r1 room
      refers_to_same [OF settled(9)]
    by (intro exI [of _ r'] exI [of _ "fst s2"]) auto
qed

section \<open>A whole job\<close>

abbreviation final_states :: "string set" where
  "final_states \<equiv> {''succeeded'', ''failed'', ''skipped''}"

definition task_ready :: "db \<Rightarrow> uuid \<Rightarrow> uuid \<Rightarrow> bool" where
  "task_ready d i k \<longleftrightarrow>
     (\<exists>t. find_job_task d k = Some t \<and> k < 2 ^ 128 \<and> jt_device_id t < 2 ^ 128 \<and> jt_job_id t = i)"

lemma task_ready_frame: "frame d' = frame d \<Longrightarrow> task_ready d i k \<Longrightarrow> task_ready d' i k"
  by (auto simp: task_ready_def task_core_def dest!: frame_row [of d' d])

text \<open>
  A task that was run once: it was started and finished now, its attempts went up by one, and its row shows what was
  reported of it.
\<close>

definition ran :: "world \<Rightarrow> db \<Rightarrow> db \<Rightarrow> uuid \<Rightarrow> string \<Rightarrow> bool" where
  "ran w d d' k st \<longleftrightarrow>
     (\<exists>t r. find_job_task d k = Some t \<and> find_job_task d' k = Some r \<and> jt_status r = st \<and>
        jt_attempt r = jt_attempt t + 1 \<and> jt_started_at r = Some (Aware (w_now w)) \<and>
        jt_finished_at r = Some (Aware (w_now w)))"

lemma get_row_where: "P k \<Longrightarrow> get_row key k (filter (\<lambda>r. P (key r)) rows) = get_row key k rows"
  by (induction rows) (auto simp: get_row_def)

lemma find_kept:
  "filter (\<lambda>r. P (key r)) rows' = filter (\<lambda>r. P (key r)) rows \<Longrightarrow> P k \<Longrightarrow> get_row key k rows' = get_row key k rows"
  using get_row_where [of P k key rows] get_row_where [of P k key rows'] by simp

lemma run_tasks_return:
  assumes "\<forall>k\<in>set ks. task_ready d i k" "find_job d i = Some j" "distinct ks" "i < 2 ^ 128"
  shows "\<exists>sts d'. for_each (run_task w actr) ks (d, {}) = (Inr sts, (d', {})) \<and>
    (\<forall>n. holder (w_now w) n d' = holder (w_now w) n d) \<and> frame d' = frame d \<and>
    list_all2 (\<lambda>k x. fst x = uuid_str k \<and> snd x \<in> final_states \<and> ran w d d' k (snd x)) ks sts \<and>
    filter (\<lambda>r. jt_id r \<notin> set ks) (t_job_task d') = filter (\<lambda>r. jt_id r \<notin> set ks) (t_job_task d)"
  using assms(1-3)
proof (induction ks arbitrary: d)
  case Nil
  then show ?case by (simp add: ret_def)
next
  case (Cons k ks)
  then obtain t where t: "find_job_task d k = Some t" "k < 2 ^ 128" "jt_device_id t < 2 ^ 128" "jt_job_id t = i"
    by (auto simp: task_ready_def)
  have job: "find_job d (jt_job_id t) = Some j" "jt_job_id t < 2 ^ 128" using Cons.prems(2) t(4) assms(4) by simp_all
  from execute_job_task_result [OF t(1) job(1) t(2) job(2) t(3), of w actr] obtain r d1 where
    one: "execute_job_task w (uuid_str k) actr (d, {}) = (Inr (jt_status r), (d1, {}))"
      "\<forall>n. holder (w_now w) n d1 = holder (w_now w) n d" "frame d1 = frame d" "jt_status r \<in> final_states"
      "filter (\<lambda>r. jt_id r \<noteq> k) (t_job_task d1) = filter (\<lambda>r. jt_id r \<noteq> k) (t_job_task d)"
    and r: "find_job_task d1 k = Some r" "jt_attempt r = jt_attempt t + 1" "jt_started_at r = Some (Aware (w_now w))"
      "jt_finished_at r = Some (Aware (w_now w))"
    by (elim exE conjE) (rule that)
  have "\<forall>k\<in>set ks. task_ready d1 i k" using Cons.prems(1) task_ready_frame [OF one(3)] by simp
  moreover have "find_job d1 i = Some j" using one(3) Cons.prems(2) by (simp add: frame_def)
  moreover have "distinct ks" using Cons.prems(3) by simp
  ultimately have "\<exists>sts d2. for_each (run_task w actr) ks (d1, {}) = (Inr sts, (d2, {})) \<and>
    (\<forall>n. holder (w_now w) n d2 = holder (w_now w) n d1) \<and> frame d2 = frame d1 \<and>
    list_all2 (\<lambda>k x. fst x = uuid_str k \<and> snd x \<in> final_states \<and> ran w d1 d2 k (snd x)) ks sts \<and>
    filter (\<lambda>r. jt_id r \<notin> set ks) (t_job_task d2) = filter (\<lambda>r. jt_id r \<notin> set ks) (t_job_task d1)"
    by (rule Cons.IH)
  then obtain sts d2 where rest: "for_each (run_task w actr) ks (d1, {}) = (Inr sts, (d2, {}))"
    "\<forall>n. holder (w_now w) n d2 = holder (w_now w) n d1" "frame d2 = frame d1"
    "list_all2 (\<lambda>k x. fst x = uuid_str k \<and> snd x \<in> final_states \<and> ran w d1 d2 k (snd x)) ks sts"
    "filter (\<lambda>r. jt_id r \<notin> set ks) (t_job_task d2) = filter (\<lambda>r. jt_id r \<notin> set ks) (t_job_task d1)"
    by (elim exE conjE) (rule that)
  have "for_each (run_task w actr) (k # ks) (d, {}) = (Inr ((uuid_str k, jt_status r) # sts), (d2, {}))"
    using one(1) rest(1) by (simp add: run_task_def andThen_def ret_def)
  moreover have "find_job_task d2 k = find_job_task d1 k"
    using Cons.prems(3) by (intro find_kept [OF rest(5)]) simp
  then have "ran w d d2 k (jt_status r)" using t(1) r by (simp add: ran_def)
  moreover have "find_job_task d1 n = find_job_task d n" if "n \<in> set ks" for n
    using that Cons.prems(3) by (intro find_kept [OF one(5)]) auto
  then have "list_all2 (\<lambda>k x. fst x = uuid_str k \<and> snd x \<in> final_states \<and> ran w d d2 k (snd x)) ks sts"
    using rest(4) by (auto simp: ran_def list_all2_conv_all_nth)
  moreover have "filter (\<lambda>r. jt_id r \<notin> set (k # ks)) (t_job_task d2) = filter (\<lambda>r. jt_id r \<notin> set (k # ks)) (t_job_task d)"
  proof -
    have both: "filter (\<lambda>r. jt_id r \<notin> set (k # ks)) rows =
        filter (\<lambda>r. jt_id r \<noteq> k) (filter (\<lambda>r. jt_id r \<notin> set ks) rows)" for rows :: "job_task list"
      by (auto intro: filter_cong)
    also have "filter (\<lambda>r. jt_id r \<noteq> k) (filter (\<lambda>r. jt_id r \<notin> set ks) rows) =
        filter (\<lambda>r. jt_id r \<notin> set ks) (filter (\<lambda>r. jt_id r \<noteq> k) rows)" for rows :: "job_task list"
      by (simp add: conj_commute)
    finally show ?thesis by (metis both rest(5) one(5))
  qed
  ultimately show ?case using one(2-4) rest(2,3)
    by (intro exI [of _ "(uuid_str k, jt_status r) # sts"] exI [of _ d2]) auto
qed

definition runnable :: "world \<Rightarrow> job \<Rightarrow> bool" where
  "runnable w j \<longleftrightarrow> jb_job_type j \<noteq> ''password_change'' \<and> jb_status j \<noteq> ''cancelled'' \<and>
     jb_approval_status j = ''approved'' \<and> jb_dry_run j \<noteq> [] \<and> backup_before_apply (w_cfg w)"

text \<open>What the tables must be: identifiers of 128 bits, one row each.\<close>

definition sound_tasks :: "uuid \<Rightarrow> db \<Rightarrow> bool" where
  "sound_tasks i d \<longleftrightarrow> i < 2 ^ 128 \<and> distinct (map jt_id (t_job_task d)) \<and>
     list_all (\<lambda>t. jt_id t < 2 ^ 128 \<and> jt_device_id t < 2 ^ 128) (tasks_of i d)"

lemma get_row_distinct: "distinct (map key rows) \<Longrightarrow> r \<in> set rows \<Longrightarrow> get_row key (key r) rows = Some r"
  by (induction rows) (auto simp: get_row_def)

lemma sound_ready: "sound_tasks i d \<Longrightarrow> k \<in> set (map jt_id (tasks_of i d)) \<Longrightarrow> task_ready d i k"
  by (auto simp: sound_tasks_def task_ready_def tasks_of_def list_all_iff get_row_distinct)

lemma sound_distinct: "sound_tasks i d \<Longrightarrow> distinct (map jt_id (tasks_of i d))"
  by (simp add: sound_tasks_def tasks_of_def distinct_map_filter)

lemma others_by_id:
  assumes "sound_tasks i d" "map task_core rows = map task_core (t_job_task d)"
  shows "filter (\<lambda>t. jt_job_id t \<noteq> i) rows = filter (\<lambda>t. jt_id t \<notin> set (map jt_id (tasks_of i d))) rows"
proof (rule filter_cong [OF refl])
  fix t assume "t \<in> set rows"
  then have "task_core t \<in> set (map task_core (t_job_task d))" unfolding assms(2) [symmetric] by simp
  then obtain u where u: "u \<in> set (t_job_task d)" "jt_id u = jt_id t" "jt_job_id u = jt_job_id t"
    by (auto simp: task_core_def)
  have "inj_on jt_id (set (t_job_task d))" using assms(1) by (simp add: sound_tasks_def distinct_map)
  then have same: "v = u" if "v \<in> set (t_job_task d)" "jt_id v = jt_id t" for v
    using that u(1,2) by (metis inj_onD)
  show "jt_job_id t \<noteq> i \<longleftrightarrow> jt_id t \<notin> set (map jt_id (tasks_of i d))"
  proof (cases "jt_job_id t = i")
    case True
    with u have "u \<in> set (tasks_of i d)" by (simp add: tasks_of_def)
    with u(2) have "jt_id t \<in> jt_id ` set (tasks_of i d)" by (metis imageI)
    with True show ?thesis by simp
  next
    case False
    have "jt_id t \<notin> jt_id ` set (tasks_of i d)"
    proof
      assume "jt_id t \<in> jt_id ` set (tasks_of i d)"
      then obtain v where "v \<in> set (t_job_task d)" "jt_job_id v = i" "jt_id v = jt_id t" by (auto simp: tasks_of_def)
      with same [of v] u(3) False show False by simp
    qed
    with False show ?thesis by simp
  qed
qed

text \<open>
  A run that is over: every task of the job was run once, in order, and is reported with the status of its row; the
  tasks of other jobs are as before; and so are the leases.
\<close>

definition job_done :: "world \<Rightarrow> uuid \<Rightarrow> db \<Rightarrow> job_run \<Rightarrow> db \<Rightarrow> bool" where
  "job_done w i d run d' \<longleftrightarrow>
     list_all2 (\<lambda>t x. fst x = uuid_str (jt_id t) \<and> snd x \<in> final_states \<and> ran w d d' (jt_id t) (snd x))
       (tasks_of i d) (jx_task_statuses run) \<and>
     filter (\<lambda>t. jt_job_id t \<noteq> i) (t_job_task d') = filter (\<lambda>t. jt_job_id t \<noteq> i) (t_job_task d) \<and>
     map task_core (t_job_task d') = map task_core (t_job_task d) \<and>
     jx_status run = job_status_of (map snd (jx_task_statuses run)) \<and>
     (\<exists>j'. find_job d' i = Some j' \<and> jb_status j' = jx_status run \<and> jb_finished_at j' = Some (Aware (w_now w))) \<and>
     (\<forall>n. holder (w_now w) n d' = holder (w_now w) n d)"

lemma find_upd_job: "(\<And>r. jb_id (f r) = jb_id r) \<Longrightarrow> find_job d i = Some j \<Longrightarrow> find_job (upd_job i f d) i = Some (f j)"
  by (simp add: upd_job_def get_upd_row)

lemma set_job_eq: "in_db (set_job j f) s = (Inr (), (upd_job (jb_id j) f (fst s), snd s))"
  by (simp add: set_job_def in_db_def change_def)

lemma runnable_job_done:
  assumes "find_job d i = Some j" "sound_tasks i d" "runnable w j"
  shows "\<exists>run d'. execute_job w (uuid_str i) actr (d, {}) = (Inr run, (d', {})) \<and> job_done w i d run d'"
proof -
  let ?f = "\<lambda>r. r\<lparr>jb_status := ''running'', jb_started_at := Some (Aware (w_now w))\<rparr>"
  let ?d = "upd_job i ?f d" and ?ks = "map jt_id (tasks_of i d)"
  have i: "i < 2 ^ 128" "jb_id j = i" using assms(1,2) by (auto simp: sound_tasks_def dest: get_row_key)
  have tasks: "t_job_task ?d = t_job_task d" "t_device_lock ?d = t_device_lock d" by (simp_all add: upd_job_def)
  have ready: "\<forall>k\<in>set ?ks. task_ready ?d i k" using sound_ready [OF assms(2)] by (simp add: task_ready_def tasks)
  have job: "find_job ?d i = Some (?f j)" using find_upd_job [OF _ assms(1), of ?f] by simp
  obtain sts d1 where run: "for_each (run_task w actr) ?ks (?d, {}) = (Inr sts, (d1, {}))"
    "\<forall>n. holder (w_now w) n d1 = holder (w_now w) n ?d" "frame d1 = frame ?d"
    "list_all2 (\<lambda>k x. fst x = uuid_str k \<and> snd x \<in> final_states \<and> ran w ?d d1 k (snd x)) ?ks sts"
    "filter (\<lambda>r. jt_id r \<notin> set ?ks) (t_job_task d1) = filter (\<lambda>r. jt_id r \<notin> set ?ks) (t_job_task ?d)"
    using run_tasks_return [OF ready job sound_distinct [OF assms(2)] i(1), of w actr] by (elim exE conjE) (rule that)
  let ?st = "job_status_of (map snd sts)"
  let ?g = "\<lambda>r. r\<lparr>jb_status := ?st, jb_finished_at := Some (Aware (w_now w))\<rparr>"
  let ?run = "\<lparr>jx_job_id = uuid_str i, jx_status = ?st, jx_task_statuses = sts\<rparr>"
  have "find_job_or_refuse (uuid_str i) (d, {}) = (Inr j, (d, {}))"
    using assms(1) coerce_ref_text [OF i(1), of "''Job''"]
    by (simp add: find_job_or_refuse_def catching_def in_db_def job_get_def get_by_ref_def query_def del: coerce_ref.simps)
  moreover have "in_db (job_task_ids (RefId i)) (?d, {}) = (Inr ?ks, (?d, {}))"
    by (simp add: in_db_def job_task_ids_def andThen_def query_def asks_def tasks_of_def tasks)
  ultimately have "execute_job w (uuid_str i) actr (d, {}) = (Inr ?run, (upd_job i ?g d1, {}))"
    using assms(3) run(1) i(2)
    by (simp add: execute_job_def andThen_def unless_def runnable_def Let_def ret_def set_job_eq)
  moreover have "job_done w i d ?run (upd_job i ?g d1)"
  proof -
    have "find_job d1 i = Some (?f j)"
      using run(3) find_upd_job [OF _ assms(1), of ?f] by (simp add: frame_def)
    then have "find_job (upd_job i ?g d1) i = Some (?g (?f j))" by (intro find_upd_job) simp_all
    moreover have "holder (w_now w) n (upd_job i ?g d1) = holder (w_now w) n d" for n
      using run(2) holder_locks [OF tasks(2)] holder_locks [of "upd_job i ?g d1" d1] by (simp add: upd_job_def)
    moreover have "list_all2 (\<lambda>t x. fst x = uuid_str (jt_id t) \<and> snd x \<in> final_states \<and>
        ran w d (upd_job i ?g d1) (jt_id t) (snd x)) (tasks_of i d) sts"
      using run(4) by (simp add: list.rel_map ran_def tasks upd_job_def)
    moreover have core: "map task_core (t_job_task d1) = map task_core (t_job_task d)"
      using run(3) tasks by (simp add: frame_def)
    moreover have "filter (\<lambda>t. jt_job_id t \<noteq> i) (t_job_task d1) = filter (\<lambda>t. jt_job_id t \<noteq> i) (t_job_task d)"
      using run(5) others_by_id [OF assms(2) core] others_by_id [OF assms(2) refl] tasks(1) by simp
    ultimately show ?thesis by (simp add: job_done_def upd_job_def)
  qed
  ultimately show ?thesis by blast
qed

lemma unless_then: "andThen (unless b e) f s = (if b then f () s else (Inl e, s))"
  by (simp add: andThen_def unless_def ret_def raise_def)

lemma unrunnable_refused:
  assumes "find_job_or_refuse i s = (Inr j, s)" "\<not> runnable w j"
  shows "\<exists>m. execute_job w i actr s = (Inl (SafetyError m), s)"
proof -
  have step: "andThen (find_job_or_refuse i) f s = f j s" for f :: "job \<Rightarrow> (exec_state, 'a) action"
    using assms(1) by (simp add: andThen_def)
  consider "jb_job_type j = ''password_change''" | "jb_job_type j \<noteq> ''password_change''" "jb_status j = ''cancelled''"
    | "jb_job_type j \<noteq> ''password_change''" "jb_status j \<noteq> ''cancelled''" "jb_approval_status j \<noteq> ''approved''"
    | "jb_job_type j \<noteq> ''password_change''" "jb_status j \<noteq> ''cancelled''" "jb_approval_status j = ''approved''" "jb_dry_run j = []"
    | "jb_job_type j \<noteq> ''password_change''" "jb_status j \<noteq> ''cancelled''" "jb_approval_status j = ''approved''"
      "jb_dry_run j \<noteq> []" "\<not> backup_before_apply (w_cfg w)"
    using assms(2) by (auto simp: runnable_def)
  then show ?thesis by cases (simp_all add: execute_job_def step unless_then)
qed

section \<open>A task with nothing in its way succeeds\<close>

lemma create_backup_returns:
  assumes "find_device d i = Some dev" "i < 2 ^ 128" "k < 2 ^ 128" "n < 2 ^ 128" "db_next_id d < 2 ^ 128"
    "find_config_backup d (db_next_id d) = None" "service_cipher w = Inr key"
  shows "\<exists>b d'. create_backup w (uuid_str i) actr (Some (uuid_str k)) (Some (uuid_str n)) (Some (c # cs)) d = (Inr b, d') \<and>
    br_id b = uuid_str (db_next_id d)"
proof -
  note parsed = coerce_ref_text [OF assms(2), of "''Device''"] coerce_ref_text [OF assms(3), of "''Job task''"]
    coerce_ref_text [OF assms(4), of "''Job''"] coerce_ref_text [OF assms(5), of "''Backup''"]
  let ?row = "\<lparr>cb_id = db_next_id d, cb_device_id = i, cb_job_task_id = Some k,
    cb_config_text = w_enc w key (w_nonce w (db_next_id d)) (c # cs), cb_config_hash = w_sha w (c # cs),
    cb_created_at = Aware (w_now w), cb_created_by = actr\<rparr>"
  let ?d = "d\<lparr>db_next_id := db_next_id d + 1, t_config_backup := t_config_backup d @ [?row]\<rparr>"
  let ?a = "audit_write (w_now w) actr ''backup.created'' ''backup'' (uuid_str (db_next_id d)) (Some (RefText (uuid_str i)))
    (Some (RefText (uuid_str n))) None
    (Some [(''config_hash'', JStr (w_sha w (c # cs))), (''job_task_id'', str_opt (Some (uuid_str k)))]) None"
  have refs: "optional_ref ''Device'' (Some (RefText (uuid_str i))) = Inr (Some i)"
    "optional_ref ''Job'' (Some (RefText (uuid_str n))) = Inr (Some n)"
    using parsed by (simp_all add: optional_ref_def del: coerce_ref.simps)
  obtain y d1 where a: "?a ?d = (Inr y, d1)" using refs by (auto simp: audit_write_Inr Let_def)
  have "t_config_backup d1 = t_config_backup ?d" using holdsD [OF keeps_audit [OF quiet_frames(3)] a] .
  then have "find_config_backup d1 (db_next_id d) = Some ?row"
    using assms(6) by (simp add: get_row_append) (simp add: get_row_def)
  moreover have "create_backup w (uuid_str i) actr (Some (uuid_str k)) (Some (uuid_str n)) (Some (c # cs)) d
    = andThen ?a (\<lambda>_. read_backup w (RefText (uuid_str (db_next_id d))) False) ?d"
    using assms(1,7) parsed refs
    by (simp add: create_backup_def andThen_def device_by_ref_def get_by_ref_def query_def encrypted_def cipher_encrypt_def
        backup_create_def optional_ref_def Let_def fresh_id_def change_def ret_def del: coerce_ref.simps)
  ultimately show ?thesis
    using a parsed(4)
    by (simp add: andThen_def read_backup_def backup_get_def get_by_ref_def query_def read_backup_row_def del: coerce_ref.simps)
qed

lemma dummy_results: "list_all er_success (fst (dummy_send_config cs tr))"
  by (induction cs tr rule: dummy_send_config.induct) (simp_all add: dummy_send_def split_beta)

lemma apply_returns:
  assumes "listed_commands dry ''config_commands'' = Inr a" "listed_commands dry ''verification_commands'' = Inr b"
    "listed_commands dry ''save_commands'' = Inr c"
  shows "\<exists>s'. apply_verify_save t dry s = (Inr (), s')"
  using assms dummy_results
  by (simp add: apply_verify_save_def andThen_def query_def all_succeeded_def unless_def assign_task_eq split_beta Let_def ret_def)

text \<open>What a task needs to succeed; \<open>m\<close> is the number of identifiers that must still be free.\<close>

definition nothing_in_the_way :: "uuid \<Rightarrow> world \<Rightarrow> job \<Rightarrow> job_task \<Rightarrow> db \<Rightarrow> bool" where
  "nothing_in_the_way m w j t d \<longleftrightarrow>
     jb_job_type j = ''vlan_change'' \<and> jb_status j \<noteq> ''cancelled'' \<and>
     truthy (jget (jt_dry_run_device t) ''apply_supported'') \<and>
     truthy (jget (jt_dry_run_device t) ''verification_commands'') \<and>
     real_transport (jt_dry_run_device t) = Inr False \<and>
     list_all (\<lambda>k. case listed_commands (jt_dry_run_device t) k of Inl _ \<Rightarrow> False | Inr _ \<Rightarrow> True)
       [''config_commands'', ''verification_commands'', ''save_commands''] \<and>
     holder (w_now w) (jt_device_id t) d = None \<and> find_device d (jt_device_id t) \<noteq> None \<and>
     db_next_id d + m < 2 ^ 128 \<and> list_all (\<lambda>b. cb_id b < db_next_id d) (t_config_backup d) \<and>
     (case service_cipher w of Inl _ \<Rightarrow> False | Inr _ \<Rightarrow> True)"

lemma vlan_body_returns:
  assumes free: "nothing_in_the_way 2 w j t (fst s)" and known: "jt_id t < 2 ^ 128" "jt_device_id t < 2 ^ 128" "jb_id j < 2 ^ 128"
  shows "\<exists>s'. vlan_body w j t actr s = (Inr (), s')"
proof -
  let ?st = "\<lambda>st. \<lambda>r :: job_task. r\<lparr>jt_status := st\<rparr>"
  have "check_vlan_task w j t (jt_dry_run_device t) s = (Inr (), s)"
    using free by (simp add: check_vlan_task_def check_real_apply_def nothing_in_the_way_def unless_then andThen_def
        query_def unless_def ret_def)
  moreover obtain s1 where s1: "take_lease w t j actr s = (Inr (), s1)"
    "roomy (fst s1) = (db_next_id (fst s) + 1, t_device (fst s), t_config_backup (fst s))"
    using take_lease_returns free known unfolding nothing_in_the_way_def by blast
  moreover have "\<exists>s'. vlan_work w j t actr s1 = (Inr (), s')"
  proof -
    let ?u = "(upd_task (jt_id t) (?st ''backing_up'') (upd_task (jt_id t) (?st ''locked'') (fst s1)), snd s1)"
    have room: "db_next_id (fst ?u) = db_next_id (fst s) + 1" "t_device (fst ?u) = t_device (fst s)"
      "t_config_backup (fst ?u) = t_config_backup (fst s)" using s1(2) by (simp_all add: roomy_def upd_task_def)
    obtain key dev where "service_cipher w = Inr key" "find_device (fst s) (jt_device_id t) = Some dev"
      using free by (auto simp: nothing_in_the_way_def split: sum.splits)
    moreover have "find_config_backup (fst ?u) (db_next_id (fst ?u)) = None"
      using free room by (auto simp: nothing_in_the_way_def get_row_None list_all_iff)
    moreover have small: "db_next_id (fst ?u) < 2 ^ 128" using free room by (simp add: nothing_in_the_way_def)
    ultimately obtain b d where b: "create_backup w (uuid_str (jt_device_id t)) actr (Some (uuid_str (jt_id t)))
        (Some (uuid_str (jb_id j))) (Some (CHR ''!'' # '' pre-change backup for '' @ uuid_str (jt_device_id t) @ [newline])) (fst ?u) = (Inr b, d)"
      "br_id b = uuid_str (db_next_id (fst ?u))"
      using create_backup_returns [OF _ known(2,1,3)] room(2) by metis
    have "\<exists>s'. back_up w t j actr ''pre-change'' ?u = (Inr b, s')"
      using b coerce_ref_text [OF small, of "''Backup''"]
      by (simp add: back_up_def andThen_def in_db_def query_def assign_task_eq ret_def)
    then obtain s2 where s2: "back_up w t j actr ''pre-change'' ?u = (Inr b, s2)" by blast
    obtain s3 where s3: "apply_verify_save t (jt_dry_run_device t) (upd_task (jt_id t) (?st ''applying'') (fst s2), snd s2) = (Inr (), s3)"
      using apply_returns free by (force simp: nothing_in_the_way_def split: sum.splits)
    obtain y s4 where "audit_task (w_now w) actr ''task.succeeded'' t j None None (upd_task (jt_id t) (?st ''succeeded'') (fst s3), snd s3) = (Inr y, s4)"
      using audit_task_returns [OF known(2,3)] by blast
    with s2 s3 show ?thesis by (simp add: vlan_work_def andThen_def assign_task_eq ret_def)
  qed
  ultimately show ?thesis by (simp add: vlan_body_def andThen_def)
qed

lemma unobstructed_returns:
  assumes t: "find_job_task d k = Some t" and j: "find_job d (jt_job_id t) = Some j"
    and known: "k < 2 ^ 128" "jt_job_id t < 2 ^ 128" "jt_device_id t < 2 ^ 128"
    and free: "nothing_in_the_way 3 w j t d"
  shows "\<exists>s'. execute_job_task w (uuid_str k) actr (d, {}) = (Inr ''succeeded'', s')"
proof -
  let ?f = "\<lambda>r. r\<lparr>jt_started_at := Some (Aware (w_now w)), jt_attempt := jt_attempt r + 1\<rparr>"
  have ids: "jt_id t = k" "jb_id j = jt_job_id t" using t j by (auto dest: get_row_key)
  have small: "jb_id j < 2 ^ 128" using ids known by simp
  let ?u = "(upd_task k ?f d, {} :: string set)"
  let ?fe = "\<lambda>e r. andThen (audit_task (w_now w) actr
          (if is_safety_error e \<and> jt_status r = ''skipped'' then ''task.skipped'' else ''task.failed'') t j None
          (Some [(''error'', JStr (or_empty (jt_error r)))])) (\<lambda>_. ret ())"
  obtain y s0 where s0: "audit_task (w_now w) actr ''task.started'' t j None None ?u = (Inr y, s0)"
    "leases_of s0 = leases_of ?u" "t_job_task (fst s0) = t_job_task (fst ?u)"
    using audit_task_returns [OF known(3) small, of "w_now w" actr "''task.started''" None None ?u] by (elim exE conjE) (rule that)
  have "roomy (fst s0) = (db_next_id d + 1, t_device d, t_config_backup d)"
    using s0(1) audit_next_id by (fastforce simp: audit_task_def in_db_def upd_task_def split: prod.splits)
  then have "nothing_in_the_way 2 w j t (fst s0)"
    using free s0(2) holder_locks [of "fst s0" d "w_now w" "jt_device_id t"]
    by (auto simp: nothing_in_the_way_def roomy_def list_all_iff)
  then obtain s1 where body: "vlan_body w j t actr s0 = (Inr (), s1)"
    using vlan_body_returns [of w j t s0 actr] known small ids by auto
  have row0: "find_job_task (fst s0) (jt_id t) = Some (?f t)" using find_upd_task [OF _ t, of ?f] s0(3) ids by simp
  obtain r1 where r1: "find_job_task (fst s1) (jt_id t) = Some r1" "jt_status r1 = ''succeeded''"
    using vlan_body_done [OF body _ known(3) row0 small] known ids by auto
  have ev: "\<exists>u'. ?fe e r u = (Inr (), u') \<and> leases_of u' = leases_of u \<and> t_job_task (fst u') = t_job_task (fst u) \<and>
      t_job (fst u') = t_job (fst u) \<and> t_config_backup (fst u') = t_config_backup (fst u)" for e r u
    using audit_task_returns [OF known(3) small, of "w_now w" actr
        "if is_safety_error e \<and> jt_status r = ''skipped'' then ''task.skipped'' else ''task.failed''" None
        "Some [(''error'', JStr (or_empty (jt_error r)))]" u]
    by (auto simp: andThen_def ret_def)
  from settle_task_result [where body = "vlan_body w j t actr" and failed_event = ?fe and s = s0 and ?s1.0 = s1 and actr = actr,
      OF body vlan_body_facts [OF known(3) small body] ev r1(1) known(3) small] s0(2)
  obtain s2 where settled: "settle_task w t actr (vlan_body w j t actr) ?fe s0 = (Inr ''succeeded'', s2)"
    using r1(2) by (auto simp: verdict_def)
  show ?thesis using settled execute_started [OF t j known(1,2) s0(1) ] by auto
qed


section \<open>Properties\<close>

text \<open>
  C15: Executing a task ends, whatever fails on the way: the call returns a final status that the row shows with the
  end time, what the task was approved for is unchanged, no device is left marked as held, and at that time every
  device is leased exactly as before, so neither a lease of this task remains nor is another's lost.
\<close>

theorem task_leaves_no_lease:
  assumes "find_job_task d k = Some t" "find_job d (jt_job_id t) = Some j" "k < 2 ^ 128" "jt_job_id t < 2 ^ 128"
    "jt_device_id t < 2 ^ 128"
  shows "\<exists>r d'. execute_job_task w (uuid_str k) actr (d, {}) = (Inr (jt_status r), (d', {})) \<and>
    find_job_task d' k = Some r \<and> jt_status r \<in> final_states \<and> jt_finished_at r = Some (Aware (w_now w)) \<and>
    frame d' = frame d \<and> (\<lambda>i. holder (w_now w) i d') = (\<lambda>i. holder (w_now w) i d)"
proof -
  from execute_job_task_result [OF assms, of w actr] obtain r d' where
    "execute_job_task w (uuid_str k) actr (d, {}) = (Inr (jt_status r), (d', {}))"
    "\<forall>i. holder (w_now w) i d' = holder (w_now w) i d" "frame d' = frame d" "find_job_task d' k = Some r"
    "jt_status r \<in> final_states" "jt_finished_at r = Some (Aware (w_now w))" by (elim exE conjE) (rule that)
  then show ?thesis by (intro exI [of _ r] exI [of _ d']) (simp add: fun_eq_iff)
qed

text \<open>
  C16: A task that reports success had a driver confirmed for apply and commands to verify with, belongs to a VLAN
  change, and stored exactly one backup of its device on the way, and it is this backup that the task refers to.  The
  hypothesis on the next identifier says that there are still identifiers of 128 bits to give out.
\<close>

theorem task_success_evidence:
  assumes "find_job_task d k = Some t" "find_job d (jt_job_id t) = Some j" "k < 2 ^ 128" "jt_job_id t < 2 ^ 128"
    "jt_device_id t < 2 ^ 128" "db_next_id d + 2 < 2 ^ 128"
    "execute_job_task w (uuid_str k) actr (d, {}) = (Inr ''succeeded'', s')"
  shows "jb_job_type j = ''vlan_change'' \<and> truthy (jget (jt_dry_run_device t) ''apply_supported'') \<and>
    truthy (jget (jt_dry_run_device t) ''verification_commands'') \<and>
    (\<exists>c r. t_config_backup (fst s') = t_config_backup d @ [c] \<and> cb_device_id c = jt_device_id t \<and>
       cb_job_task_id c = Some k \<and> find_job_task (fst s') k = Some r \<and> jt_backup_id r = Some (cb_id c))"
proof -
  from execute_job_task_result [OF assms(1-5), of w actr] obtain r d' where
    "execute_job_task w (uuid_str k) actr (d, {}) = (Inr (jt_status r), (d', {}))" "find_job_task d' k = Some r"
    "jt_status r = ''succeeded'' \<longrightarrow>
       jb_job_type j = ''vlan_change'' \<and> truthy (jget (jt_dry_run_device t) ''apply_supported'') \<and>
       truthy (jget (jt_dry_run_device t) ''verification_commands'') \<and>
       (\<exists>c. t_config_backup d' = t_config_backup d @ [c] \<and> cb_device_id c = jt_device_id t \<and> cb_job_task_id c = Some k \<and>
          cb_id c = db_next_id d + 2 \<and> refers_to c r)"
    by (elim exE conjE) (rule that)
  then show ?thesis using assms(6,7) by (auto simp: refers_to_def)
qed


text \<open>
  C18: A stored job runs exactly when it is approved, no password change and not cancelled, has a dry run, and
  backups are enabled; otherwise the call raises a SafetyError and changes nothing.  A run executes every task of the
  job once: its attempts go up by one, it is started and finished now, and it is reported, in the order of the tasks,
  with the final status of its row.  The job's status follows from theirs; no task of another job and no lease changes.
\<close>

theorem job_runs_exactly_when_approved:
  assumes "find_job d i = Some j" "sound_tasks i d"
  shows "case execute_job w (uuid_str i) actr (d, {}) of
      (Inl e, s') \<Rightarrow> \<not> runnable w j \<and> is_safety_error e \<and> s' = (d, {})
    | (Inr run, s') \<Rightarrow> runnable w j \<and> snd s' = {} \<and> job_done w i d run (fst s')"
proof (cases "runnable w j")
  case True
  then obtain run d' where "execute_job w (uuid_str i) actr (d, {}) = (Inr run, (d', {}))" "job_done w i d run d'"
    using runnable_job_done [OF assms] by blast
  with True show ?thesis by simp
next
  case False
  have i: "i < 2 ^ 128" using assms(2) by (simp add: sound_tasks_def)
  have "find_job_or_refuse (uuid_str i) (d, {}) = (Inr j, (d, {}))"
    using assms(1) coerce_ref_text [OF i, of "''Job''"]
    by (simp add: find_job_or_refuse_def catching_def in_db_def job_get_def get_by_ref_def query_def del: coerce_ref.simps)
  from unrunnable_refused [OF this False] obtain m where "execute_job w (uuid_str i) actr (d, {}) = (Inl (SafetyError m), (d, {}))"
    by blast
  with False show ?thesis by simp
qed

section \<open>Witnesses\<close>

text \<open>A job with one task, approved for a driver that is confirmed.\<close>

definition sample_dry_run :: jobj where
  "sample_dry_run =
     [(''apply_supported'', JBool True), (''config_commands'', strings [''vlan 10'']),
      (''verification_commands'', strings [''show vlan 10''])]"

definition sample_task :: job_task where
  "sample_task =
     \<lparr>jt_id = 6, jt_job_id = 5, jt_device_id = 1, jt_status = ''pending'', jt_attempt = 0, jt_commands = [],
      jt_dry_run_device = sample_dry_run, jt_sanitized_output = None, jt_error = None, jt_backup_id = None,
      jt_started_at = None, jt_finished_at = None\<rparr>"

definition sample_job :: job where
  "sample_job =
     \<lparr>jb_id = 5, jb_job_type = ''vlan_change'', jb_status = ''approved'', jb_requested_by = ''ann'',
      jb_approved_by = Some ''bob'', jb_approval_status = ''approved'', jb_dry_run = sample_dry_run,
      jb_input_payload = [], jb_created_at = Aware 0, jb_approved_at = None, jb_started_at = None,
      jb_finished_at = None\<rparr>"

definition job_sample :: db where
  "job_sample = empty_db\<lparr>t_device := [blank_device 0 1 ''10.0.0.1''], t_job := [sample_job], t_job_task := [sample_task], db_next_id := 7\<rparr>"

definition sample_world :: world where
  "sample_world = \<lparr>w_enc = toy_enc, w_dec = toy_dec, w_sha = (\<lambda>s. s), w_cfg = default_settings, w_now = 9, w_nonce = (\<lambda>i. i)\<rparr>"

lemma job_sample_rows:
  "find_job_task job_sample 6 = Some sample_task" "find_job job_sample (jt_job_id sample_task) = Some sample_job"
  "find_job job_sample 5 = Some sample_job"
  by (simp_all add: job_sample_def sample_task_def sample_job_def get_row_def)

lemma sample_values: "t_config_backup job_sample = []" "jt_device_id sample_task = 1"
  by (simp_all add: job_sample_def empty_db_def sample_task_def)

lemma sample_ids: "jt_job_id sample_task < 2 ^ 128" "jt_device_id sample_task < 2 ^ 128" "(6 :: uuid) < 2 ^ 128"
  by (simp_all add: sample_task_def)

theorem task_leaves_no_lease_witness:
  "\<exists>r d'. execute_job_task sample_world (uuid_str 6) ''ann'' (job_sample, {}) = (Inr (jt_status r), (d', {})) \<and>
     find_job_task d' 6 = Some r \<and> jt_status r \<in> final_states \<and> jt_finished_at r = Some (Aware 9)"
  using task_leaves_no_lease [OF job_sample_rows(1,2) sample_ids(3,1,2), of sample_world "''ann''"]
  by (auto simp: sample_world_def)

lemma job_sample_tasks: "t_job_task job_sample = [sample_task]" "jt_job_id sample_task = 5" "jt_id sample_task = 6"
  "jt_attempt sample_task = 0" "get_row jt_id 6 [sample_task] = Some sample_task"
  by (simp_all add: job_sample_def sample_task_def get_row_def)

lemma job_sample_sound: "sound_tasks 5 job_sample"
  by (simp add: sound_tasks_def tasks_of_def job_sample_def sample_task_def)

lemma sample_runnable: "runnable sample_world sample_job"
  by (simp add: runnable_def sample_job_def sample_world_def default_settings_def sample_dry_run_def)

theorem job_runs_exactly_when_approved_witness:
  "\<exists>run s'. execute_job sample_world (uuid_str 5) ''ann'' (job_sample, {}) = (Inr run, s') \<and>
     map fst (jx_task_statuses run) = [uuid_str 6] \<and> map_option jt_attempt (find_job_task (fst s') 6) = Some 1"
  using job_runs_exactly_when_approved [OF job_sample_rows(3) job_sample_sound, of sample_world "''ann''"] sample_runnable
  by (auto simp: job_done_def ran_def tasks_of_def job_sample_rows job_sample_tasks list_all2_Cons1
      split: prod.splits sum.splits)

lemma sample_free: "nothing_in_the_way 3 sample_world sample_job sample_task job_sample"
  by (simp add: nothing_in_the_way_def sample_job_def sample_task_def sample_dry_run_def job_sample_def sample_world_def
      jget_def real_transport_def listed_commands_def json_items_def holder_def get_row_def blank_device_def
      service_cipher_def encryption_key_def default_settings_def fernet_cipher_def casefold_def
      empty_db_def)


theorem task_success_evidence_witness:
  "\<exists>c s'. execute_job_task sample_world (uuid_str 6) ''ann'' (job_sample, {}) = (Inr ''succeeded'', s') \<and>
     t_config_backup (fst s') = [c] \<and> cb_device_id c = 1 \<and> cb_job_task_id c = Some 6 \<and>
     Option.bind (find_job_task (fst s') 6) jt_backup_id = Some (cb_id c)"
proof -
  obtain s' where run: "execute_job_task sample_world (uuid_str 6) ''ann'' (job_sample, {}) = (Inr ''succeeded'', s')"
    using unobstructed_returns [OF job_sample_rows(1,2) sample_ids(3,1,2) sample_free] by blast
  have "db_next_id job_sample + 2 < 2 ^ 128" by (simp add: job_sample_def)
  with task_success_evidence [OF job_sample_rows(1,2) sample_ids(3,1,2) _ run] run show ?thesis
    by (auto simp: sample_values)
qed

end
