(* ===== verification/PasswordPlans.thy ===== *)
theory PasswordPlans
  imports JobRequests
begin

text \<open>
  What planning a password change guarantees: the canary batches take every device once, in order, and the new password
  appears in no command that is stored for review, but for the line that names the user to verify.
\<close>

section \<open>Canary batches\<close>

lemma canary_batches_sum:
  "0 \<le> n \<Longrightarrow> sum_list (canary_batches n ms) = n \<and> list_all (\<lambda>b. 0 < b) (canary_batches n ms)"
  by (induction n ms rule: canary_batches.induct) (auto simp: Let_def min_def)

lemma normalize_canary_plan_sum:
  "0 \<le> n \<Longrightarrow> sum_list (normalize_canary_plan n p) = n \<and> list_all (\<lambda>b. 0 < b) (normalize_canary_plan n p)"
  by (simp add: normalize_canary_plan_def canary_batches_sum)

lemma cut_batches_all:
  "list_all (\<lambda>b. 0 < b) sizes \<Longrightarrow> sum_list sizes = int (length ts) \<Longrightarrow>
   concat (map snd (cut_batches k sizes ts)) = ts \<and> map (\<lambda>c. int (length (snd c))) (cut_batches k sizes ts) = sizes \<and>
   map fst (cut_batches k sizes ts) = [k..<k + length sizes]"
proof (induction k sizes ts rule: cut_batches.induct)
  case (2 k m sizes ts)
  have "0 \<le> sum_list sizes" using 2(2) by (auto simp: list_all_iff intro!: sum_list_nonneg)
  then have m: "0 < m" "nat m \<le> length ts" "sum_list sizes = int (length (drop (nat m) ts))" using 2(2,3) by auto
  from 2(1) [OF _ m(3)] 2(2) have
    "concat (map snd (cut_batches (Suc k) sizes (drop (nat m) ts))) = drop (nat m) ts"
    "map (\<lambda>c. int (length (snd c))) (cut_batches (Suc k) sizes (drop (nat m) ts)) = sizes"
    "map fst (cut_batches (Suc k) sizes (drop (nat m) ts)) = [Suc k..<Suc k + length sizes]" by simp_all
  then show ?case using m by (simp add: upt_conv_Cons del: upt_Suc)
qed simp

text \<open>
  C19: Whatever canary sizes are asked for, and also when none are, the rollout plan is a partition: batches of at
  least one device, numbered from zero, that together hold every task exactly once and in the order of the request.
\<close>

theorem rollout_partitions_tasks:
  "let plan = normalize_canary_plan (int (length ts)) canary_plan; batches = cut_batches 0 plan ts
   in concat (map snd batches) = ts \<and> map fst batches = [0..<length plan] \<and>
      map (\<lambda>c. int (length (snd c))) batches = plan \<and> list_all (\<lambda>m. 1 \<le> m) plan"
proof -
  have "sum_list (normalize_canary_plan (int (length ts)) canary_plan) = int (length ts)"
    "list_all (\<lambda>b. 0 < b) (normalize_canary_plan (int (length ts)) canary_plan)"
    using normalize_canary_plan_sum [of "int (length ts)" canary_plan] by auto
  moreover from this(2) have "list_all (\<lambda>m. 1 \<le> m) (normalize_canary_plan (int (length ts)) canary_plan)"
    by (rule list.pred_mono_strong) simp
  ultimately show ?thesis using cut_batches_all [of _ ts 0] by (simp add: Let_def)
qed

section \<open>The new password\<close>

definition unreadable :: "string \<Rightarrow> bool" where
  "unreadable s \<longleftrightarrow> s \<noteq> [] \<and> CHR ''<'' \<notin> set s \<and> CHR ''>'' \<notin> set s \<and> \<not> sublist s ''redacted''"

lemma masked_hides:
  assumes "unreadable s"
  shows "list_all (\<lambda>c. \<not> sublist s c) (mask_command_list [s] cs)"
proof -
  have "\<not> sublist s (mask_secrets [s] c)" for c
    unfolding mask_secrets_def SECRET_PATTERNS_def
    using assms by (intro mask_patterns_hidden mask_explicit_hidden) (simp_all add: unreadable_def)
  then show ?thesis by (simp add: mask_command_list_def list_all_iff)
qed

text \<open>
  Every command line of a device's dry run: those that are masked, and those that verify, which are stored as they are.
\<close>

definition hides_masked :: "string \<Rightarrow> dry_run_device \<Rightarrow> bool" where
  "hides_masked s d \<longleftrightarrow> list_all (\<lambda>c. \<not> sublist s c) (pd_commands d @ pd_config_commands d @ pd_save_commands d)"

definition hides_password :: "string \<Rightarrow> dry_run_device \<Rightarrow> bool" where
  "hides_password s d \<longleftrightarrow> hides_masked s d \<and> list_all (\<lambda>c. \<not> sublist s c) (pd_verification_commands d)"

lemma known_drivers_password:
  "k \<in> all_drivers \<Longrightarrow> (\<exists>plan. fst (dr_change_local_user_password k user s []) = Inr plan) \<or>
     (\<exists>m. fst (dr_change_local_user_password k user s []) = Inl (CapabilityError m))"
  unfolding insert_iff empty_iff
  by (elim disjE FalseE; simp add: driver_classes cisco_password_def huawei_password_def comware_password_def
      procurve_password_def bulat_password_def dry_run_only_def plan_result_def refuse_def)

lemma plan_device_hides:
  assumes "unreadable s"
  shows "\<exists>d. plan_password_device user s dev = Inr d \<and> hides_masked s d \<and>
    pd_verification_commands d = [''verify credential for '' @ user]"
proof -
  obtain k reason where k: "resolve_driver dev = (k, reason)" by (cases "resolve_driver dev") auto
  with resolve_driver_known [of dev] have "k \<in> all_drivers" by simp
  from known_drivers_password [OF this, of user s] show ?thesis
    by (elim disjE exE) (simp_all add: plan_password_device_def k Let_def hides_masked_def masked_hides [OF assms])
qed

lemma plan_devices_hide:
  assumes "unreadable s"
  shows "\<exists>ds. plan_password_devices user s devs = Inr ds \<and> length ds = length devs \<and> list_all (hides_masked s) ds \<and>
    list_all (\<lambda>d. pd_verification_commands d = [''verify credential for '' @ user]) ds"
proof (induction devs)
  case (Cons dev devs)
  from plan_device_hides [OF assms, of user dev] obtain d where "plan_password_device user s dev = Inr d" "hides_masked s d"
    "pd_verification_commands d = [''verify credential for '' @ user]" by blast
  with Cons show ?case by auto
qed simp

text \<open>
  C20: The dry run of a password change can be made for any devices.  As long as the new password has no angle bracket
  and is no piece of the word the mask consists of, it is in no command to configure or save, and in no line of the
  combined list; and no command line at all that is stored with the job and shown to its approvers contains it,
  exactly unless there is a device and the line that names the user to verify happens to contain it.
\<close>

theorem password_not_in_dry_run:
  assumes "unreadable password"
  shows "\<exists>plan. generate_password_change_dry_run p password canary_plan = Inr plan \<and>
    py_device_count plan = int (length (pc_devices p)) \<and> list_all (hides_masked password) (py_devices plan) \<and>
    (list_all (hides_password password) (py_devices plan) \<longleftrightarrow>
       pc_devices p = [] \<or> \<not> sublist password (''verify credential for '' @ pc_username p))"
proof -
  from plan_devices_hide [OF assms] obtain ds where ds: "plan_password_devices (pc_username p) password (pc_devices p) = Inr ds"
    "length ds = length (pc_devices p)" "list_all (hides_masked password) ds"
    "list_all (\<lambda>d. pd_verification_commands d = [''verify credential for '' @ pc_username p]) ds" by blast
  have "list_all (hides_password password) ds \<longleftrightarrow> ds = [] \<or> \<not> sublist password (''verify credential for '' @ pc_username p)"
    using ds(3,4) by (cases ds) (auto simp: hides_password_def list_all_iff)
  with ds show ?thesis by (auto simp: generate_password_change_dry_run_def)
qed

definition sample_change :: password_change_request where
  "sample_change =
     \<lparr>pc_requested_by = ''ann'', pc_devices = [\<lparr>di_hostname = None, di_ip_address = ''10.0.0.1'', di_vendor = ''Cisco'',
        di_model = ''C2960'', di_site = None, di_role = None, di_tags = []\<rparr>], pc_username = ''admin'',
      pc_new_password = ''hunter2'', pc_old_credential_id = None, pc_new_credential_name = None, pc_canary_plan = None,
      pc_stop_on_first_failure = True, pc_backup_before_apply = True, pc_verify_new_credential = True\<rparr>"

theorem password_not_in_dry_run_witness:
  "\<exists>plan. generate_password_change_dry_run sample_change ''hunter2'' [1] = Inr plan \<and> py_device_count plan = 1 \<and>
     list_all (hides_password ''hunter2'') (py_devices plan)"
proof -
  have "unreadable ''hunter2''" by (simp add: unreadable_def sublist_code)
  moreover have "\<not> sublist ''hunter2'' (''verify credential for '' @ pc_username sample_change)"
    by (simp add: sample_change_def sublist_code)
  ultimately show ?thesis
    using password_not_in_dry_run [of "''hunter2''" sample_change "[1]"] by (auto simp: sample_change_def)
qed

end
