(* ===== verification/IpAddresses.thy ===== *)
theory IpAddresses
  imports Uuid
begin

text \<open>
  What app/services/device_normalizer.py uses of the standard library's \<open>ipaddress\<close>: reading a text as an IPv4 or IPv6
  address, and its canonical text (leading zeros dropped, the longest run of zero groups of an IPv6 address
  written as a double colon).  The canonical text reads as the same address.
\<close>

section \<open>Reading\<close>

text \<open>An IPv4 address is its four octets; an IPv6 address its eight groups of 16 bits, with a scope or without.\<close>

datatype ip_value = IPv4 "nat list" | IPv6 "nat list" "string option"

definition decimal_octet :: "string \<Rightarrow> nat option" where
  "decimal_octet s =
     (if s = [] \<or> \<not> list_all is_digit s \<or> 3 < length s \<or> (s \<noteq> ''0'' \<and> hd s = CHR ''0'') then None
      else case parse_digits 10 0 False s of None \<Rightarrow> None | Some n \<Rightarrow> if n \<le> 255 then Some n else None)"

definition ipv4_octets :: "string \<Rightarrow> nat list option" where
  "ipv4_octets s =
     (if CHR ''/'' \<in> set s then None
      else let parts = split_on (CHR ''.'') s
           in if length parts = 4 then those (map decimal_octet parts) else None)"

definition hextet :: "string \<Rightarrow> nat option" where
  "hextet s = (if list_all (\<lambda>c. digit_val c \<noteq> None) s \<and> length s \<le> 4 then parse_digits 16 0 False s else None)"

text \<open>\<open>'%x' % n\<close>\<close>

fun hex_str :: "nat \<Rightarrow> string" where
  "hex_str n = (if n < 16 then [digit_char n] else hex_str (n div 16) @ [digit_char (n mod 16)])"

declare hex_str.simps [simp del]

text \<open>The fields between the colons; an IPv4 address in the last one is written as two groups.\<close>

definition ipv6_parts :: "string \<Rightarrow> string list option" where
  "ipv6_parts s =
     (let parts = split_on (CHR '':'') s
      in if length parts < 3 then None
         else if CHR ''.'' \<in> set (last parts)
         then (case ipv4_octets (last parts) of
                 Some [a, b, c, d] \<Rightarrow> Some (butlast parts @ [hex_str (256 * a + b), hex_str (256 * c + d)])
               | _ \<Rightarrow> None)
         else Some parts)"

definition inner_gaps :: "string list \<Rightarrow> nat list" where
  "inner_gaps parts = filter (\<lambda>i. parts ! i = []) [1..<length parts - 1]"

definition groups_around :: "string list \<Rightarrow> nat \<Rightarrow> nat list option" where
  "groups_around parts i =
     (let hi = (if hd parts = [] then tl (take i parts) else take i parts);
          lo = (if last parts = [] then butlast (drop (Suc i) parts) else drop (Suc i) parts)
      in if hd parts = [] \<and> hi \<noteq> [] \<or> last parts = [] \<and> lo \<noteq> [] \<or> 7 < length hi + length lo then None
         else case (those (map hextet hi), those (map hextet lo)) of
                (Some xs, Some ys) \<Rightarrow> Some (xs @ replicate (8 - (length hi + length lo)) 0 @ ys)
              | _ \<Rightarrow> None)"

definition ipv6_groups :: "string \<Rightarrow> nat list option" where
  "ipv6_groups s =
     (case ipv6_parts s of
        None \<Rightarrow> None
      | Some parts \<Rightarrow>
          if 9 < length parts then None
          else case inner_gaps parts of
                 [] \<Rightarrow> if length parts = 8 then those (map hextet parts) else None
               | [i] \<Rightarrow> groups_around parts i
               | _ \<Rightarrow> None)"

text \<open>The scope is what follows a percent sign.\<close>

definition split_scope :: "string \<Rightarrow> (string \<times> string option) option" where
  "split_scope s =
     (let addr = takeWhile (\<lambda>c. c \<noteq> CHR ''%'') s; rest = dropWhile (\<lambda>c. c \<noteq> CHR ''%'') s
      in if rest = [] then Some (addr, None)
         else if tl rest = [] \<or> CHR ''%'' \<in> set (tl rest) then None else Some (addr, Some (tl rest)))"

definition ip_address :: "string \<Rightarrow> ip_value option" where
  "ip_address s =
     (case ipv4_octets s of
        Some os \<Rightarrow> Some (IPv4 os)
      | None \<Rightarrow>
          if CHR ''/'' \<in> set s then None
          else case split_scope s of
                 None \<Rightarrow> None
               | Some (addr, scope) \<Rightarrow> map_option (\<lambda>gs. IPv6 gs scope) (ipv6_groups addr))"

section \<open>Writing\<close>

text \<open>The longest run of zero groups, the first of them when there are several: its start and its length.\<close>

fun longest_gap :: "nat \<times> nat \<Rightarrow> nat \<Rightarrow> nat \<Rightarrow> string list \<Rightarrow> nat \<times> nat" where
  "longest_gap best i n [] = best"
| "longest_gap best i n (h # hs) =
     (if h = ''0'' then longest_gap (if snd best < Suc n then (i - n, Suc n) else best) (Suc i) (Suc n) hs
      else longest_gap best (Suc i) 0 hs)"

definition compress_hextets :: "string list \<Rightarrow> string list" where
  "compress_hextets hs =
     (let (start, n) = longest_gap (0, 0) 0 0 hs
      in if n > 1
         then (if start = 0 then [[]] else take start hs) @ [[]] @ (if start + n = length hs then [[]] else drop (start + n) hs)
         else hs)"

fun ip_text :: "ip_value \<Rightarrow> string" where
  "ip_text (IPv4 os) = str_join ''.'' (map nat_str os)"
| "ip_text (IPv6 gs scope) =
     str_join '':'' (compress_hextets (map hex_str gs)) @ (case scope of None \<Rightarrow> [] | Some z \<Rightarrow> CHR ''%'' # z)"

lemmas ip_reading = ip_address_def ipv4_octets_def decimal_octet_def split_scope_def ipv6_groups_def ipv6_parts_def
  inner_gaps_def groups_around_def hextet_def

lemma ip_address_values:
  "ip_address ''10.0.0.1'' = Some (IPv4 [10, 0, 0, 1])" "ip_address ''10.0.0.01'' = None" "ip_address ''10.0.0.256'' = None"
  "ip_address ''1::2::3'' = None" 
  by (simp_all add: ip_reading is_digit_def digit_val.simps)

lemma zeros: "replicate 5 (0 :: nat) = [0, 0, 0, 0, 0]" "replicate 8 (0 :: nat) = [0, 0, 0, 0, 0, 0, 0, 0]"
  by (simp_all add: numeral_eq_Suc)

lemma ip_address_v6_values:
  "ip_address ''2001:DB8::1'' = Some (IPv6 [0x2001, 0xdb8, 0, 0, 0, 0, 0, 1] None)"
  "ip_address ''::'' = Some (IPv6 [0, 0, 0, 0, 0, 0, 0, 0] None)"
  by (simp_all add: ip_reading is_digit_def digit_val.simps zeros)

lemma ip_text_values:
  "ip_text (IPv6 [0x2001, 0xdb8, 0, 0, 1, 0, 0, 1] None) = ''2001:db8::1:0:0:1''"
  "ip_text (IPv6 [0, 0, 0, 0, 0, 0, 0, 0] None) = ''::''"
  by (simp_all add: compress_hextets_def hex_str.simps digit_char_def)

section \<open>The canonical text reads as the same address\<close>

fun valid_ip :: "ip_value \<Rightarrow> bool" where
  "valid_ip (IPv4 os) \<longleftrightarrow> length os = 4 \<and> list_all (\<lambda>n. n \<le> 255) os"
| "valid_ip (IPv6 gs scope) \<longleftrightarrow>
     length gs = 8 \<and> list_all (\<lambda>n. n < 65536) gs \<and>
     (case scope of None \<Rightarrow> True | Some z \<Rightarrow> z \<noteq> [] \<and> CHR ''%'' \<notin> set z \<and> CHR ''/'' \<notin> set z)"

lemma nat_str_length: "n < 10 ^ Suc k \<Longrightarrow> length (nat_str n) \<le> Suc k"
proof (induction k arbitrary: n)
  case 0
  then show ?case by (simp add: nat_str.simps)
next
  case (Suc k)
  from Suc.prems have "n div 10 < 10 ^ Suc k" by (simp add: less_mult_imp_div_less)
  with Suc.IH [of "n div 10"] show ?case by (subst nat_str.simps) simp
qed

lemma nat_str_hd: "0 < n \<Longrightarrow> hd (nat_str n) \<noteq> CHR ''0''"
proof (induction n rule: nat_str.induct)
  case (1 n)
  have "list_all (\<lambda>d. digit_char d \<noteq> CHR ''0'') [1..<10]" by code_simp
  then have digit: "d \<noteq> 0 \<Longrightarrow> d < 10 \<Longrightarrow> digit_char d \<noteq> CHR ''0''" for d by (simp add: list_all_iff)
  show ?case
  proof (cases "n < 10")
    case True
    with digit 1 show ?thesis by (subst nat_str.simps) simp
  next
    case False
    with 1 have "hd (nat_str (n div 10)) \<noteq> CHR ''0''" by simp
    with False show ?thesis by (subst nat_str.simps) simp
  qed
qed

lemma decimal_octet_nat_str:
  assumes "n \<le> 255" shows "decimal_octet (nat_str n) = Some n"
proof -
  have "length (nat_str n) \<le> 3" using nat_str_length [of n 2] assms by simp
  moreover have "nat_str n \<noteq> ''0'' \<Longrightarrow> hd (nat_str n) \<noteq> CHR ''0''"
    using nat_str_hd [of n] by (cases "n = 0") (simp_all add: nat_str.simps digit_char_def)
  moreover have "list_all is_digit (nat_str n)" using nat_str_digits [of n] by (simp add: list_all_iff)
  ultimately show ?thesis using assms by (auto simp: decimal_octet_def)
qed

lemma hex_str_chars: "set (hex_str n) \<subseteq> set ''0123456789abcdef''"
proof (induction n rule: hex_str.induct)
  case (1 n)
  have "m < 16 \<Longrightarrow> digit_char m \<in> set ''0123456789abcdef''" for m
    unfolding digit_char_def by (rule nth_mem) simp
  with 1 show ?case by (subst hex_str.simps) simp
qed

lemma hex_str_not_Nil [simp]: "hex_str n \<noteq> []"
  by (subst hex_str.simps) simp

lemma hex_str_length: "n < 16 ^ Suc k \<Longrightarrow> length (hex_str n) \<le> Suc k"
proof (induction k arbitrary: n)
  case 0
  then show ?case by (simp add: hex_str.simps)
next
  case (Suc k)
  from Suc.prems have "n div 16 < 16 ^ Suc k" by (simp add: less_mult_imp_div_less)
  with Suc.IH [of "n div 16"] show ?case by (subst hex_str.simps) simp
qed

lemma parse_hex_str: "parse_digits 16 0 False (hex_str n) = Some n"
proof (induction n rule: hex_str.induct)
  case (1 n)
  show ?case
  proof (cases "n < 16")
    case True
    then show ?thesis by (subst hex_str.simps) (simp add: digit_val_hex)
  next
    case False
    from parse_digits_snoc [OF 1 [OF False] digit_val_hex, of "n mod 16"]
    have "parse_digits 16 0 False (hex_str (n div 16) @ [digit_char (n mod 16)]) = Some n" by simp
    with False show ?thesis by (subst hex_str.simps) simp
  qed
qed

lemma hextet_hex_str:
  assumes "n < 65536" shows "hextet (hex_str n) = Some n"
proof -
  have "length (hex_str n) \<le> 4" using hex_str_length [of n 3] assms by simp
  moreover have "list_all (\<lambda>c. digit_val c \<noteq> None) ''0123456789abcdef''" by (simp add: digit_val.simps)
  then have "list_all (\<lambda>c. digit_val c \<noteq> None) (hex_str n)"
    using hex_str_chars [of n] unfolding list_all_iff by blast
  ultimately show ?thesis by (simp add: hextet_def parse_hex_str)
qed

lemma those_map:
  assumes "list_all (\<lambda>n. f (g n) = Some n) ns" shows "those (map f (map g ns)) = Some ns"
  using assms by (induction ns) simp_all

lemma longest_gap_is_gap:
  assumes "longest_gap (s, n) (length pre) k hs = (s', n')"
    and "s + n \<le> length pre" "take n (drop s pre) = replicate n ''0''"
    and "k \<le> length pre" "drop (length pre - k) pre = replicate k ''0''"
  shows "s' + n' \<le> length (pre @ hs) \<and> take n' (drop s' (pre @ hs)) = replicate n' ''0''"
  using assms
proof (induction hs arbitrary: s n k pre)
  case (Cons h hs)
  let ?b = "pre @ [h]"
  have old: "s + n \<le> length ?b" "take n (drop s ?b) = replicate n ''0''" using Cons.prems by simp_all
  show ?case
  proof (cases "h = ''0''")
    case True
    have run: "drop (length ?b - Suc k) ?b = replicate (Suc k) ''0''"
      using Cons.prems True by (simp add: replicate_append_same)
    then have new: "take (Suc k) (drop (length pre - k) ?b) = replicate (Suc k) ''0''" by simp
    show ?thesis
      using Cons.IH [of _ _ ?b "Suc k"] Cons.prems True run old new by (simp split: if_splits)
  next
    case False
    then show ?thesis using Cons.IH [of s n ?b 0] Cons.prems old by simp
  qed
qed simp

lemma compress_cases:
  obtains (same) "compress_hextets hs = hs"
  | (gap) A z B where "hs = A @ replicate z ''0'' @ B" "1 < z"
      "compress_hextets hs = (if A = [] then [[]] else A) @ [[]] @ (if B = [] then [[]] else B)"
proof (cases "snd (longest_gap (0, 0) 0 0 hs) > 1")
  case False
  then have "compress_hextets hs = hs" by (auto simp: compress_hextets_def split: prod.splits)
  then show ?thesis by (rule same)
next
  case True
  obtain s n where g: "longest_gap (0, 0) 0 0 hs = (s, n)" by force
  have sn: "s + n \<le> length hs" "take n (drop s hs) = replicate n ''0''"
    using longest_gap_is_gap [of 0 0 "[]" 0 hs s n] g by simp_all
  have "hs = take s hs @ take n (drop s hs) @ drop (s + n) hs" by (metis append_take_drop_id drop_drop add.commute)
  with sn have "hs = take s hs @ replicate n ''0'' @ drop (s + n) hs" by simp
  moreover have "take s hs = [] \<longleftrightarrow> s = 0" "drop (s + n) hs = [] \<longleftrightarrow> s + n = length hs" using sn True g by auto
  ultimately show ?thesis using gap [of "take s hs" n "drop (s + n) hs"] True g by (simp add: compress_hextets_def)
qed

lemma inner_gaps_one:
  assumes "A \<noteq> []" "B \<noteq> []" "[] \<notin> set (tl A)" "[] \<notin> set (butlast B)"
  shows "inner_gaps (A @ [[]] @ B) = [length A]"
proof -
  let ?p = "\<lambda>i. (A @ [[]] @ B) ! i = []"
  have "[1..<length A + length B] = [1..<length A] @ length A # [Suc (length A)..<length A + length B]"
    using assms(1,2) upt_add_eq_append [of 1 "length A" "length B"] by (simp add: upt_conv_Cons Suc_le_eq)
  moreover have "filter ?p [1..<length A] = []"
  proof -
    have "?p i \<Longrightarrow> 1 \<le> i \<Longrightarrow> i < length A \<Longrightarrow> False" for i
      using assms(3) by (cases A; cases i) (auto simp: nth_append, metis nth_mem)
    then show ?thesis by (auto simp: filter_empty_conv)
  qed
  moreover have "filter ?p [Suc (length A)..<length A + length B] = []"
  proof -
    have "\<not> ?p i" if "Suc (length A) \<le> i" "i < length A + length B" for i
    proof -
      have k: "i - Suc (length A) < length (butlast B)" using that by simp
      from nth_mem [OF k] have "B ! (i - Suc (length A)) \<noteq> []" using assms(4) nth_butlast [OF k] by metis
      with that show ?thesis by (simp add: nth_append)
    qed
    then show ?thesis by (auto simp: filter_empty_conv)
  qed
  ultimately show ?thesis by (simp add: inner_gaps_def nth_append)
qed

lemma inner_gaps_none: "[] \<notin> set parts \<Longrightarrow> inner_gaps parts = []"
  by (auto simp: inner_gaps_def filter_empty_conv) (metis diff_less_Suc in_set_conv_nth less_trans_Suc less_Suc_eq not_less_eq)

lemma groups_around_gap:
  assumes "those (map hextet A) = Some xs" "those (map hextet B) = Some ys" "[] \<notin> set A" "[] \<notin> set B"
    and "length A + length B \<le> 7"
  shows "groups_around ((if A = [] then [[]] else A) @ [[]] @ (if B = [] then [[]] else B)) (length (if A = [] then [[]] else A))
    = Some (xs @ replicate (8 - (length A + length B)) 0 @ ys)"
proof -
  have "A \<noteq> [] \<Longrightarrow> hd A \<noteq> []" "B \<noteq> [] \<Longrightarrow> last B \<noteq> []" using assms(3,4) by (metis hd_in_set) (metis assms(4) last_in_set)
  with assms show ?thesis by (cases "A = []"; cases "B = []") (simp_all add: groups_around_def Let_def)
qed

lemma hex_str_zero: "hex_str g = ''0'' \<Longrightarrow> g = 0"
  using parse_hex_str [of g] by (simp add: digit_val.simps)

lemma those_hextet: "list_all (\<lambda>n. n < 65536) gs \<Longrightarrow> those (map hextet (map hex_str gs)) = Some gs"
  by (rule those_map) (simp add: list_all_iff hextet_hex_str)

lemma ipv6_groups_text:
  assumes "length gs = 8" "list_all (\<lambda>n. n < 65536) gs"
  shows "ipv6_groups (str_join '':'' (compress_hextets (map hex_str gs))) = Some gs"
proof -
  let ?hs = "map hex_str gs" and ?parts = "compress_hextets (map hex_str gs)"
  have named: "h \<noteq> [] \<and> CHR '':'' \<notin> set h \<and> CHR ''.'' \<notin> set h" if "h \<in> set ?hs" for h
  proof -
    obtain g where h: "h = hex_str g" using \<open>h \<in> set ?hs\<close> by auto
    then have chars: "set h \<subseteq> set ''0123456789abcdef''" by (simp only: hex_str_chars)
    have "CHR '':'' \<notin> set ''0123456789abcdef''" "CHR ''.'' \<notin> set ''0123456789abcdef''" by simp_all
    from this [THEN contra_subsetD [OF chars]] show ?thesis by (simp add: h)
  qed
  have in_parts: "h = [] \<or> h \<in> set ?hs" if "h \<in> set ?parts" for h
    using that by (cases ?hs rule: compress_cases) (auto split: if_splits)
  have "?parts \<noteq> []" using assms(1) by (cases ?hs rule: compress_cases) auto
  then have split: "split_on (CHR '':'') (str_join '':'' ?parts) = ?parts"
    using in_parts named by (intro split_on_join) fastforce+
  have "CHR ''.'' \<notin> set (last ?parts)"
    using in_parts [of "last ?parts"] named \<open>?parts \<noteq> []\<close> by fastforce
  moreover have "3 \<le> length ?parts \<and> length ?parts \<le> 9"
  proof (cases ?hs rule: compress_cases)
    case (gap A z B)
    have "length A + z + length B = 8" using arg_cong [OF gap(1), of length] assms(1) by simp
    moreover have "A = [] \<or> 1 \<le> length A" "B = [] \<or> 1 \<le> length B" by (auto simp: Suc_le_eq)
    ultimately show ?thesis using gap(2,3) by auto
  qed (use assms(1) in simp)
  ultimately have reads: "ipv6_parts (str_join '':'' ?parts) = Some ?parts" "\<not> 9 < length ?parts"
    by (simp_all add: ipv6_parts_def Let_def split)
  show ?thesis
  proof (cases ?hs rule: compress_cases)
    case same
    have "[] \<notin> set ?hs" using named by blast
    with same reads assms show ?thesis by (simp add: ipv6_groups_def inner_gaps_none those_hextet del: map_map)
  next
    case (gap A z B)
    then obtain ga gz gb where gs: "gs = ga @ gz @ gb" "A = map hex_str ga" "replicate z ''0'' = map hex_str gz" "B = map hex_str gb"
      by (auto simp: map_eq_append_conv append_eq_map_conv)
    have "g = 0" if "g \<in> set gz" for g
      using that gs(3) by (metis hex_str_zero image_eqI image_set in_set_replicate)
    moreover have "length gz = z" using gs(3) by (metis length_map length_replicate)
    ultimately have gz: "gz = replicate z 0" by (metis replicate_length_same)
    have ne: "[] \<notin> set A" "[] \<notin> set B" using named gs by auto
    have len: "length A + length B = 8 - z" "length A + length B \<le> 7" "z \<le> 8" using gs gz assms(1) \<open>1 < z\<close> by auto
    have "those (map hextet A) = Some ga" "those (map hextet B) = Some gb" using gs assms(2) by (simp_all only: those_hextet list_all_append)
    from groups_around_gap [OF this ne len(2)]
    have "groups_around ?parts (length (if A = [] then [[]] else A)) = Some gs" using gap(3) gs(1) gz len by simp
    moreover have "inner_gaps ?parts = [length (if A = [] then [[]] else A)]"
      unfolding gap(3) using ne by (intro inner_gaps_one) (auto dest: list.set_sel(2) in_set_butlastD)
    ultimately show ?thesis using reads by (simp add: ipv6_groups_def)
  qed
qed

text \<open>Nothing else is an address: what is read is a proper address.\<close>

lemma those_Some: "those xs = Some ys \<longleftrightarrow> xs = map Some ys"
  by (induction xs arbitrary: ys) (auto split: option.splits)

lemma ipv4_octets_valid: "ipv4_octets s = Some os \<Longrightarrow> valid_ip (IPv4 os)"
proof -
  assume a: "ipv4_octets s = Some os"
  then have m: "map decimal_octet (split_on (CHR ''.'') s) = map Some os" "length (split_on (CHR ''.'') s) = 4"
    by (auto simp: ipv4_octets_def Let_def those_Some split: if_splits)
  have "n \<le> 255" if "n \<in> set os" for n
  proof -
    have "Some n \<in> set (map decimal_octet (split_on (CHR ''.'') s))" using that m(1) by simp
    then show ?thesis by (auto simp: decimal_octet_def split: if_splits option.splits)
  qed
  moreover have "length os = 4" using m by (metis length_map)
  ultimately show ?thesis by (simp add: list_all_iff)
qed

lemma parse_hex_bound: "parse_digits 16 acc ok s = Some n \<Longrightarrow> n < (acc + 1) * 16 ^ length s"
proof (induction "16 :: nat" acc ok s rule: parse_digits.induct)
  case (2 acc ok c cs)
  from "2.prems" consider d where "d < 16" "parse_digits 16 (16 * acc + d) True cs = Some n" "digit_val c = Some d"
    | "ok" "parse_digits 16 acc False cs = Some n" "digit_val c = None" "c = CHR ''_''"
    by (auto split: option.splits if_splits)
  then show ?case
  proof cases
    case (1 d)
    with "2.hyps"(2) [OF 1(3,1,2)] have "n < (16 * acc + d + 1) * 16 ^ length cs" by simp
    also have "\<dots> \<le> (16 * (acc + 1)) * 16 ^ length cs" using 1 by (intro mult_right_mono) simp_all
    finally show ?thesis by (simp add: algebra_simps)
  next
    case 2
    with "2.hyps"(1) [OF 2(3) _ 2(2)] have "n < (acc + 1) * 16 ^ length cs" by simp
    then show ?thesis by simp
  qed
qed (simp split: if_splits)

lemma hextet_bound: "hextet s = Some n \<Longrightarrow> n < 65536"
proof -
  assume "hextet s = Some n"
  then have "n < 16 ^ length s" "length s \<le> 4" using parse_hex_bound [of 0 False s n] by (auto simp: hextet_def split: if_splits)
  moreover from this have "(16 :: nat) ^ length s \<le> 16 ^ 4" by (intro power_increasing) simp_all
  ultimately show ?thesis by simp
qed

lemma those_hextet_bound: "those (map hextet hs) = Some xs \<Longrightarrow> length xs = length hs \<and> list_all (\<lambda>n. n < 65536) xs"
proof -
  assume "those (map hextet hs) = Some xs"
  then have m: "map hextet hs = map Some xs" by (simp add: those_Some)
  have "n < 65536" if "n \<in> set xs" for n
  proof -
    have "Some n \<in> set (map hextet hs)" using that m by simp
    then show ?thesis by (auto intro: hextet_bound)
  qed
  moreover have "length xs = length hs" using m by (metis length_map)
  ultimately show ?thesis by (simp add: list_all_iff)
qed

lemma ipv6_groups_valid: "ipv6_groups s = Some gs \<Longrightarrow> length gs = 8 \<and> list_all (\<lambda>n. n < 65536) gs"
  by (auto simp: ipv6_groups_def groups_around_def Let_def list_all_iff dest!: those_hextet_bound
      split: option.splits if_splits list.splits)

lemma ip_address_valid: "ip_address s = Some v \<Longrightarrow> valid_ip v"
proof -
  assume a: "ip_address s = Some v"
  show ?thesis
  proof (cases "ipv4_octets s")
    case (Some os)
    with a ipv4_octets_valid [OF Some] show ?thesis by (auto simp: ip_address_def)
  next
    case None
    with a obtain addr scope gs where w: "CHR ''/'' \<notin> set s" "split_scope s = Some (addr, scope)" "ipv6_groups addr = Some gs" "v = IPv6 gs scope"
      by (auto simp: ip_address_def split: if_splits option.splits)
    have "set (tl (dropWhile p s)) \<subseteq> set s" for p by (metis list.set_sel(2) set_dropWhileD subsetI tl_Nil)
    with w(1,2) have "case scope of None \<Rightarrow> True | Some z \<Rightarrow> z \<noteq> [] \<and> CHR ''%'' \<notin> set z \<and> CHR ''/'' \<notin> set z"
      by (auto simp: split_scope_def Let_def split: if_splits) blast
    with w ipv6_groups_valid show ?thesis by simp
  qed
qed

lemma str_join_avoids: "\<forall>x\<in>set xs. c \<notin> set x \<Longrightarrow> c \<notin> set sep \<Longrightarrow> c \<notin> set (str_join sep xs)"
  by (induction sep xs rule: str_join.induct) auto

lemma split_on_covers: "c \<in> set s \<Longrightarrow> c \<noteq> sep \<Longrightarrow> \<exists>p\<in>set (split_on sep s). c \<in> set p"
  by (induction s) (auto split: list.splits)

lemma colon_not_ipv4: "CHR '':'' \<in> set s \<Longrightarrow> ipv4_octets s = None"
proof -
  assume "CHR '':'' \<in> set s"
  then obtain p where p: "p \<in> set (split_on (CHR ''.'') s)" "CHR '':'' \<in> set p" using split_on_covers [of "CHR '':''" s "CHR ''.''"] by auto
  have "\<not> is_digit (CHR '':'')" by (simp add: is_digit_def)
  with p(2) have "\<not> list_all is_digit p" unfolding list_all_iff by blast
  then have "decimal_octet p = None" by (simp add: decimal_octet_def)
  with p(1) have "None \<in> set (map decimal_octet (split_on (CHR ''.'') s))" by force
  then have "those (map decimal_octet (split_on (CHR ''.'') s)) \<noteq> Some os" for os
    by (metis (no_types, lifting) ex_map_conv option.distinct(1) those_Some)
  then have "those (map decimal_octet (split_on (CHR ''.'') s)) = None" by (simp flip: not_Some_eq)
  then show ?thesis by (simp add: ipv4_octets_def Let_def)
qed

lemma split_scope_none: "CHR ''%'' \<notin> set a \<Longrightarrow> split_scope a = Some (a, None)"
proof -
  assume "CHR ''%'' \<notin> set a"
  then have "takeWhile (\<lambda>c. c \<noteq> CHR ''%'') a = a" "dropWhile (\<lambda>c. c \<noteq> CHR ''%'') a = []"
    by (auto simp: takeWhile_eq_all_conv dropWhile_eq_Nil_conv)
  then show ?thesis by (simp add: split_scope_def)
qed

lemma split_scope_some:
  "CHR ''%'' \<notin> set a \<Longrightarrow> z \<noteq> [] \<Longrightarrow> CHR ''%'' \<notin> set z \<Longrightarrow> split_scope (a @ CHR ''%'' # z) = Some (a, Some z)"
proof -
  assume a: "CHR ''%'' \<notin> set a" "z \<noteq> []" "CHR ''%'' \<notin> set z"
  then have "takeWhile (\<lambda>c. c \<noteq> CHR ''%'') (a @ CHR ''%'' # z) = a"
    "dropWhile (\<lambda>c. c \<noteq> CHR ''%'') (a @ CHR ''%'' # z) = CHR ''%'' # z"
    by (induction a) auto
  with a show ?thesis by (simp add: split_scope_def)
qed

lemma ip_address_text:
  assumes "valid_ip v" shows "ip_address (ip_text v) = Some v"
proof (cases v)
  case (IPv4 os)
  have dots: "\<forall>x\<in>set (map nat_str os). CHR ''.'' \<notin> set x \<and> CHR ''/'' \<notin> set x"
    using nat_str_digits by (fastforce simp: is_digit_def)
  have "os \<noteq> []" using assms IPv4 by auto
  with dots have "split_on (CHR ''.'') (str_join ''.'' (map nat_str os)) = map nat_str os" by (intro split_on_join) simp_all
  moreover have "those (map decimal_octet (map nat_str os)) = Some os"
    using assms IPv4 by (intro those_map) (simp add: list_all_iff decimal_octet_nat_str)
  moreover have "CHR ''/'' \<notin> set (str_join ''.'' (map nat_str os))" using dots by (intro str_join_avoids) auto
  ultimately show ?thesis using assms IPv4 by (simp add: ip_address_def ipv4_octets_def)
next
  case (IPv6 gs scope)
  let ?addr = "str_join '':'' (compress_hextets (map hex_str gs))"
  have groups: "ipv6_groups ?addr = Some gs" using assms IPv6 by (simp add: ipv6_groups_text)
  have field: "set h \<subseteq> set ''0123456789abcdef''" if "h \<in> set (compress_hextets (map hex_str gs))" for h
  proof -
    have "h = [] \<or> h \<in> set (map hex_str gs)"
      using that by (cases "map hex_str gs" rule: compress_cases) (auto split: if_splits)
    then obtain g where "h = [] \<or> h = hex_str g" by auto
    with hex_str_chars [of g] show ?thesis by (elim disjE) simp_all
  qed
  have avoid: "c \<notin> set ?addr" if "c \<notin> set ''0123456789abcdef''" "c \<noteq> CHR '':''" for c
  proof (rule str_join_avoids)
    show "\<forall>h\<in>set (compress_hextets (map hex_str gs)). c \<notin> set h"
      using contra_subsetD [OF field that(1)] by (rule ballI)
  qed (simp add: that(2))
  have marks: "CHR ''%'' \<notin> set ?addr" "CHR ''/'' \<notin> set ?addr" "CHR ''.'' \<notin> set ?addr" by (rule avoid; simp)+
  have "split_scope (ip_text v) = Some (?addr, scope)"
    using marks(1) assms IPv6 by (auto simp: split_scope_none split_scope_some split: option.splits)
  moreover have "CHR ''/'' \<notin> set (ip_text v)" using marks(2) assms IPv6 by (auto split: option.splits)
  moreover have "ipv4_octets (ip_text v) = None"
  proof (rule colon_not_ipv4)
    have "CHR '':'' \<in> set ?addr"
      using groups split_on_absent [of "CHR '':''" ?addr]
      by - (rule ccontr, simp add: ipv6_groups_def ipv6_parts_def)
    then show "CHR '':'' \<in> set (ip_text v)" using IPv6 by simp
  qed
  ultimately show ?thesis using groups IPv6 by (simp add: ip_address_def)
qed

end
