(* ===== verification/DeviceNormalizer.thy ===== *)
theory DeviceNormalizer
  imports IpAddresses Regex DeviceInventory Drivers "HOL-Library.AList"
begin

text \<open>
  app/services/device_normalizer.py and inventory_parser.py: the columns of an inventory record are given their names, the
  address is written in its canonical form, vendor and model are mapped to families, the tags are made a list.
  \<open>loads\<close> stands for \<open>json.loads\<close> (\<open>None\<close> is a \<open>JSONDecodeError\<close>).
\<close>

section \<open>Columns\<close>

definition CANONICAL_FIELD_ALIASES :: "(string \<times> string) list" where
  "CANONICAL_FIELD_ALIASES =
     [(''ip'', ''management_ip''), (''ip_address'', ''management_ip''), (''management ip'', ''management_ip''),
      (''management_ip'', ''management_ip''), (''host'', ''hostname''), (''hostname'', ''hostname''),
      (''name'', ''hostname''), (''vendor'', ''vendor''), (''manufacturer'', ''vendor''), (''model'', ''model''),
      (''platform'', ''platform''), (''site'', ''site''), (''location'', ''location''), (''rack'', ''rack''),
      (''role'', ''role''), (''tags'', ''tags''), (''credential_name'', ''credential_name''),
      (''credential'', ''credential_name'')]"

definition collapse_spaces :: "string \<Rightarrow> string" where
  "collapse_spaces s = str_join '' '' (split_words s)"

definition column_of :: "string \<Rightarrow> string option" where
  "column_of key =
     (let k = collapse_spaces (str_replace ''-'' ''_'' (casefold (str_strip key)))
      in case map_of CANONICAL_FIELD_ALIASES k of
           Some t \<Rightarrow> Some t
         | None \<Rightarrow> map_of CANONICAL_FIELD_ALIASES (str_replace ''_'' '' '' k))"

definition canonicalize_record :: "jobj \<Rightarrow> jobj" where
  "canonicalize_record rec =
     foldl (\<lambda>canonical (k, v). case column_of k of None \<Rightarrow> canonical | Some t \<Rightarrow> AList.update t v canonical) [] rec"

definition parse_items :: "jobj list \<Rightarrow> jobj list" where
  "parse_items items = map canonicalize_record items"

definition parse_json_text :: "(string \<Rightarrow> json option) \<Rightarrow> string \<Rightarrow> error + jobj list" where
  "parse_json_text loads content =
     (case loads content of
        None \<Rightarrow> Inl (ValueError ''JSONDecodeError'')
      | Some (JList xs) \<Rightarrow>
          if list_all (\<lambda>x. as_obj x \<noteq> None) xs then Inr (parse_items (List.map_filter as_obj xs))
          else Inl (ValueError ''Inventory JSON entries must be objects'')
      | Some _ \<Rightarrow> Inl (ValueError ''Inventory JSON must contain a list of objects''))"

section \<open>Vendor, model and platform\<close>

definition huawei_rx :: rx where
  "huawei_rx = rseq [RWordB, RGroup 1 (ralt (map rlit [''s57'', ''s67'', ''ce68'', ''s17'', ''s23'', ''s24''])), RStar True Digit]"

definition hp_rx :: rx where
  "hp_rx = rseq [RWordB, rlit ''hp'', RWordB]"

definition normalize_vendor :: "string \<Rightarrow> string \<Rightarrow> string" where
  "normalize_vendor vendor model =
     (let s = casefold (vendor @ '' '' @ model); has = (\<lambda>ws. contains_any ws s)
      in if has [''huawei''] \<or> rx_found no_flags huawei_rx s then ''Huawei''
         else if has [''bulat'', ''bs2500'', ''bs6300''] then ''Bulat''
         else if has [''eltex'', ''mes2324'', ''mes2348'', ''mes2448''] then ''Eltex''
         else if has [''qsw'', ''qtech''] then ''QSW''
         else if has [''3com''] then ''3Com''
         else if has [''hpe''] \<or> rx_found no_flags hp_rx s then ''HPE''
         else if has [''dell'', ''powerconnect''] then ''Dell''
         else if has [''cisco'', ''cat2960'', ''catalyst''] then ''Cisco''
         else if has [''d-link'', ''des1100''] then ''D-Link''
         else if has [''continent''] then ''Continent''
         else if has [''icmp''] then ''ICMP''
         else if has [''unknown snmp''] then ''Unknown SNMP''
         else if str_strip vendor \<noteq> [] then str_strip vendor else ''Unknown'')"

definition normalize_model :: "string \<Rightarrow> string" where
  "normalize_model model =
     (let collapsed = collapse_spaces (str_strip model); lowered = casefold collapsed
      in if sublist ''cisco cat2960'' lowered then ''Cat2960''
         else if sublist ''powerconnect 3524'' lowered then ''PowerConnect 3524''
         else collapsed)"

definition infer_platform :: "string \<Rightarrow> string \<Rightarrow> string" where
  "infer_platform vendor model =
     (let s = casefold (vendor @ '' '' @ model)
      in if vendor = ''Huawei'' then ''vrp''
         else if contains_any [''hpe 1910'', ''hpe 1920'', ''hpe 5130'', ''3com s4210'', ''3com s5500''] s then ''comware''
         else if contains_any [''hpe 2510'', ''hpe 2530''] s then ''procurve''
         else if vendor = ''Cisco'' then ''ios''
         else if vendor = ''Dell'' then ''powerconnect''
         else if vendor = ''Bulat'' then ''bulat-bs''
         else if vendor = ''Eltex'' then ''eltex-mes''
         else if vendor = ''ICMP'' then ''icmp-only''
         else if vendor = ''Unknown'' \<or> vendor = ''Unknown SNMP'' then ''unknown''
         else str_replace '' '' ''-'' (casefold vendor))"

section \<open>Tags\<close>

definition split_fields :: "string \<Rightarrow> string list" where
  "split_fields s = concat (map (split_on (CHR '';'')) (split_on (CHR '','') s))"

definition tag_list :: "string list \<Rightarrow> string list" where
  "tag_list xs = sorted_set (filter (\<lambda>t. t \<noteq> []) (map str_strip xs))"

definition normalize_tag_text :: "(string \<Rightarrow> json option) \<Rightarrow> string \<Rightarrow> string list" where
  "normalize_tag_text loads s =
     (let stripped = str_strip s
      in case (if prefix ''['' stripped then loads stripped else None) of
           Some (JList xs) \<Rightarrow> tag_list (map py_str xs)
         | _ \<Rightarrow> if stripped = [] then [] else tag_list (split_fields stripped))"

text \<open>The labels of an object are normalized in turn.  A JSON text that starts with a bracket is a list.\<close>

fun normalize_tags :: "(string \<Rightarrow> json option) \<Rightarrow> json \<Rightarrow> string list" where
  "normalize_tags loads JNull = []"
| "normalize_tags loads (JStr s) = normalize_tag_text loads s"
| "normalize_tags loads (JList xs) = tag_list (map py_str xs)"
| "normalize_tags loads (JObj []) = []"
| "normalize_tags loads (JObj ((k, v) # kvs)) =
     (if k = ''labels'' then normalize_tags loads v else normalize_tags loads (JObj kvs))"
| "normalize_tags loads j = [py_str j]"

definition empty_to_none :: "json \<Rightarrow> json" where
  "empty_to_none v = (let s = str_strip (str_or_empty v) in if s = [] then JNull else JStr s)"

section \<open>A record\<close>

record normalized_record =
  nr_valid :: bool
  nr_data :: jobj
  nr_errors :: "string list"
  nr_warnings :: "string list"

definition NO_VENDOR_WARNING :: string where
  "NO_VENDOR_WARNING = ''vendor/model are empty; driver resolution will use GenericSSHDriver''"

definition column :: "jobj \<Rightarrow> string \<Rightarrow> string" where
  "column canonical k = str_strip (str_or_empty (jget canonical k))"

text \<open>The columns with the address in its canonical form, or what is wrong with it.\<close>

definition addressed :: "jobj \<Rightarrow> jobj \<times> string list" where
  "addressed canonical =
     (let ip = column canonical ''management_ip''
      in if ip = [] then (canonical, [''management_ip is required''])
         else case ip_address ip of
                None \<Rightarrow> (canonical, [''Invalid management_ip: '' @ ip])
              | Some v \<Rightarrow> (AList.update ''ip_address'' (JStr (ip_text v))
                           (AList.update ''management_ip'' (JStr (ip_text v)) canonical), []))"

definition record_warnings :: "jobj \<Rightarrow> string list" where
  "record_warnings canonical =
     (if column canonical ''vendor'' = [] \<and> column canonical ''model'' = [] then [NO_VENDOR_WARNING] else []) @
     (if column canonical ''hostname'' = [] then [''hostname is empty''] else [])"

definition record_data :: "(string \<Rightarrow> json option) \<Rightarrow> jobj \<Rightarrow> jobj" where
  "record_data loads canonical =
     (let columns = fst (addressed canonical);
          vendor = column canonical ''vendor'';
          model = column canonical ''model'';
          hostname = column canonical ''hostname'';
          platform = column canonical ''platform'';
          normalized_vendor = normalize_vendor vendor model;
          normalized_model = normalize_model model
      in [(''hostname'', if hostname = [] then JNull else JStr hostname),
          (''management_ip'', jget columns ''management_ip''), (''ip_address'', jget columns ''ip_address''),
          (''vendor'', JStr vendor), (''model'', JStr model), (''normalized_vendor'', JStr normalized_vendor),
          (''normalized_model'', JStr normalized_model),
          (''platform'', JStr (if platform \<noteq> [] then platform else infer_platform normalized_vendor normalized_model)),
          (''site'', empty_to_none (jget canonical ''site'')), (''location'', empty_to_none (jget canonical ''location'')),
          (''rack'', empty_to_none (jget canonical ''rack'')), (''role'', empty_to_none (jget canonical ''role'')),
          (''tags'', JList (map JStr (normalize_tags loads (jget canonical ''tags'')))),
          (''credential_name'', empty_to_none (jget canonical ''credential_name'')),
          (''warnings'', JList (map JStr (record_warnings canonical)))])"

definition normalize_inventory_record :: "(string \<Rightarrow> json option) \<Rightarrow> jobj \<Rightarrow> normalized_record" where
  "normalize_inventory_record loads rec =
     (let canonical = canonicalize_record rec
      in \<lparr>nr_valid = (snd (addressed canonical) = []), nr_data = record_data loads canonical,
          nr_errors = snd (addressed canonical), nr_warnings = record_warnings canonical\<rparr>)"

end
