(* ===== verification/Credentials.thy ===== *)
theory Credentials
  imports DeviceBackups LabValidationService
begin

text \<open>
  The credentials devices are assigned (app/repositories/credentials.py, app/services/credential_service.py and
  app/api/v1/credentials.py): passwords are stored encrypted and no read shows them.
\<close>

section \<open>The repository\<close>

definition create_credential_row ::
  "int \<Rightarrow> string \<Rightarrow> string \<Rightarrow> string \<Rightarrow> string option \<Rightarrow> string \<Rightarrow> (db, credential) action" where
  "create_credential_row now name user encrypted_password encrypted_enable auth_type =
     andThen fresh_id (\<lambda>i.
       let c = \<lparr>cr_id = i, cr_name = name, cr_username = user, cr_encrypted_password = encrypted_password,
             cr_encrypted_enable_password = encrypted_enable, cr_auth_type = auth_type,
             cr_created_at = Aware now, cr_updated_at = Aware now\<rparr>
       in andThen (change (\<lambda>d. d\<lparr>t_credential := t_credential d @ [c]\<rparr>)) (\<lambda>_. ret c))"

definition list_credential_rows :: "db \<Rightarrow> credential list" where
  "list_credential_rows d = by_time cr_created_at (sort_key cr_name (t_credential d))"

definition credential_of_name :: "string \<Rightarrow> db \<Rightarrow> credential option" where
  "credential_of_name name d =
     (case by_time cr_created_at (filter (\<lambda>c. cr_name c = name) (t_credential d)) of [] \<Rightarrow> None | c # cs \<Rightarrow> Some c)"

definition credential_by_ref :: "ref \<Rightarrow> (db, credential) action" where
  "credential_by_ref = get_by_ref find_credential ''Credential''"

definition create_assignment ::
  "int \<Rightarrow> ref \<Rightarrow> ref option \<Rightarrow> string option \<Rightarrow> string option \<Rightarrow> int \<Rightarrow> (db, credential_assignment) action" where
  "create_assignment now cred device vendor site priority =
     andThen (query (\<lambda>_. coerce_ref ''Credential'' cred)) (\<lambda>c.
     andThen (query (\<lambda>_. optional_ref ''Device'' device)) (\<lambda>dev.
     andThen fresh_id (\<lambda>i.
       let a = \<lparr>ca_id = i, ca_credential_id = c, ca_device_id = dev, ca_vendor = vendor, ca_site = site,
             ca_priority = priority, ca_created_at = Aware now\<rparr>
       in andThen (change (\<lambda>d. d\<lparr>t_credential_assignment := t_credential_assignment d @ [a]\<rparr>)) (\<lambda>_. ret a))))"

definition delete_credential_row :: "credential \<Rightarrow> (db, unit) action" where
  "delete_credential_row c = change (\<lambda>d. d\<lparr>t_credential := filter (\<lambda>r. cr_id r \<noteq> cr_id c) (t_credential d)\<rparr>)"

section \<open>The service\<close>

record credential_create =
  cc_name :: string
  cc_username :: string
  cc_password :: string
  cc_enable_password :: "string option"

record credential_read =
  cd_id :: string
  cd_name :: string
  cd_username :: string
  cd_auth_type :: string
  cd_has_enable_password :: bool
  cd_created_at :: string
  cd_updated_at :: string

record credential_created = credential_read +
  cd_password :: string
  cd_enable_password :: "string option"

definition read_credential :: "credential \<Rightarrow> credential_read" where
  "read_credential c =
     \<lparr>cd_id = uuid_str (cr_id c), cd_name = cr_name c, cd_username = cr_username c, cd_auth_type = cr_auth_type c,
      cd_has_enable_password = (cr_encrypted_enable_password c \<noteq> None),
      cd_created_at = isoformat (cr_created_at c), cd_updated_at = isoformat (cr_updated_at c)\<rparr>"

text \<open>The reply to a creation adds the defaults of \<open>CredentialCreated\<close>.\<close>

definition created_reply :: "credential_read \<Rightarrow> credential_created" where
  "created_reply r =
     \<lparr>cd_id = cd_id r, cd_name = cd_name r, cd_username = cd_username r, cd_auth_type = cd_auth_type r,
      cd_has_enable_password = cd_has_enable_password r, cd_created_at = cd_created_at r,
      cd_updated_at = cd_updated_at r, cd_password = ''<redacted>'', cd_enable_password = None\<rparr>"

text \<open>The enable password, when it is not empty, is encrypted after the password.\<close>

definition encrypted_enable :: "world \<Rightarrow> string option \<Rightarrow> (db, string option) action" where
  "encrypted_enable w p =
     (if or_empty p = [] then ret None
      else query (\<lambda>d. case service_cipher w of
        Inl e \<Rightarrow> Inl e
      | Inr k \<Rightarrow> (case cipher_encrypt (w_enc w) k (w_nonce w (Suc (db_next_id d))) (or_empty p) of
                   Inl e \<Rightarrow> Inl e
                 | Inr v \<Rightarrow> Inr (Some v))))"

definition create_credential :: "world \<Rightarrow> credential_create \<Rightarrow> string \<Rightarrow> (db, credential_created) action" where
  "create_credential w p actr =
     andThen (encrypted w (cc_password p)) (\<lambda>password.
     andThen (encrypted_enable w (cc_enable_password p)) (\<lambda>enable.
     andThen (create_credential_row (w_now w) (cc_name p) (cc_username p) password enable ''password'') (\<lambda>c.
     andThen (audit_write (w_now w) actr ''credential.created'' ''credential'' (uuid_str (cr_id c)) None None None
       (Some [(''name'', JStr (cr_name c)), (''username'', JStr (cr_username c)),
              (''has_enable_password'', JBool (or_empty (cr_encrypted_enable_password c) \<noteq> []))]) None) (\<lambda>_.
     ret (created_reply (read_credential c))))))"

definition list_credentials :: "(db, credential_read list) action" where
  "list_credentials = asks (\<lambda>d. map read_credential (list_credential_rows d))"

definition get_credential :: "string \<Rightarrow> (db, credential_read) action" where
  "get_credential i = andThen (credential_by_ref (RefText i)) (\<lambda>c. ret (read_credential c))"

definition delete_credential :: "world \<Rightarrow> string \<Rightarrow> string \<Rightarrow> (db, unit) action" where
  "delete_credential w i actr =
     andThen (credential_by_ref (RefText i)) (\<lambda>c.
     andThen (audit_write (w_now w) actr ''credential.deleted'' ''credential'' i None None
       (Some [(''name'', JStr (cr_name c)), (''username'', JStr (cr_username c))]) None None) (\<lambda>_.
     delete_credential_row c))"

definition decrypt_password_for_execution :: "world \<Rightarrow> string \<Rightarrow> (db, string) action" where
  "decrypt_password_for_execution w i =
     andThen (credential_by_ref (RefText i)) (\<lambda>c. query (\<lambda>_. decrypted w (cr_encrypted_password c)))"

definition sanitize_created :: "world \<Rightarrow> credential_create \<Rightarrow> (db, credential_read) action" where
  "sanitize_created w p =
     andThen (create_credential w p ''system'') (\<lambda>r.
     ret \<lparr>cd_id = cd_id r, cd_name = cd_name r, cd_username = cd_username r, cd_auth_type = cd_auth_type r,
          cd_has_enable_password = cd_has_enable_password r, cd_created_at = cd_created_at r,
          cd_updated_at = cd_updated_at r\<rparr>)"

section \<open>The endpoints\<close>

text \<open>Building the service builds the cipher.\<close>

definition credential_service :: "world \<Rightarrow> (db, 'a) action \<Rightarrow> (db, 'a) action" where
  "credential_service w m = andThen (query (\<lambda>_. service_cipher w)) (\<lambda>_. m)"

definition api_create_credential :: "world \<Rightarrow> credential_create \<Rightarrow> actor \<Rightarrow> (db, credential_created) action" where
  "api_create_credential w p a =
     fits (cc_password p \<noteq> []) (endpoint Perm_manage_credentials a (credential_service w (create_credential w p (username a))))"

definition api_list_credentials :: "world \<Rightarrow> actor \<Rightarrow> (db, credential_read list) action" where
  "api_list_credentials w a = endpoint Perm_manage_credentials a (credential_service w list_credentials)"

definition api_get_credential :: "world \<Rightarrow> string \<Rightarrow> actor \<Rightarrow> (db, credential_read) action" where
  "api_get_credential w i a =
     endpoint Perm_manage_credentials a (catching not_found_404 (credential_service w (get_credential i)))"

definition api_delete_credential :: "world \<Rightarrow> string \<Rightarrow> actor \<Rightarrow> (db, unit) action" where
  "api_delete_credential w i a =
     endpoint Perm_manage_credentials a
       (catching not_found_404 (credential_service w (delete_credential w i (username a))))"

end
