(* ===== verification/ImportRepository.thy ===== *)
theory ImportRepository
  imports DeviceInventory
begin

text \<open>
  app/repositories/inventory_imports.py: the batches of inventory imports with their rows.  A batch is closed with counters
  over the final statuses of its rows.
\<close>

definition create_import_batch :: "int \<Rightarrow> string \<Rightarrow> string option \<Rightarrow> string option \<Rightarrow> (db, import_batch) action" where
  "create_import_batch now source_type filename requested_by =
     andThen fresh_id (\<lambda>i.
       let b = \<lparr>ib_id = i, ib_filename = filename, ib_source_type = source_type, ib_status = ''pending'',
             ib_requested_by = requested_by, ib_total_rows = 0, ib_valid_rows = 0, ib_invalid_rows = 0,
             ib_created_devices = 0, ib_updated_devices = 0, ib_skipped_rows = 0, ib_error_summary = None,
             ib_created_at = Aware now, ib_finished_at = None\<rparr>
       in andThen (change (\<lambda>d. d\<lparr>t_import_batch := t_import_batch d @ [b]\<rparr>)) (\<lambda>_. ret b))"

definition get_import_batch :: "ref \<Rightarrow> (db, import_batch) action" where
  "get_import_batch = get_by_ref find_import_batch ''Inventory import batch''"

definition upd_import_batch :: "uuid \<Rightarrow> (import_batch \<Rightarrow> import_batch) \<Rightarrow> db \<Rightarrow> db" where
  "upd_import_batch i f d = d\<lparr>t_import_batch := upd_row ib_id i f (t_import_batch d)\<rparr>"

definition upd_import_row :: "uuid \<Rightarrow> (import_row \<Rightarrow> import_row) \<Rightarrow> db \<Rightarrow> db" where
  "upd_import_row i f d = d\<lparr>t_import_row := upd_row ir_id i f (t_import_row d)\<rparr>"

definition create_import_row :: "int \<Rightarrow> uuid \<Rightarrow> int \<times> jobj \<Rightarrow> (db, import_row) action" where
  "create_import_row now batch p =
     andThen fresh_id (\<lambda>i.
       let r = \<lparr>ir_id = i, ir_batch_id = batch, ir_row_index = fst p, ir_raw_data = snd p, ir_normalized_data = None,
             ir_status = ''valid'', ir_error_message = None, ir_device_id = None, ir_created_at = Aware now\<rparr>
       in andThen (change (\<lambda>d. d\<lparr>t_import_row := t_import_row d @ [r]\<rparr>)) (\<lambda>_. ret r))"

definition add_import_rows :: "int \<Rightarrow> ref \<Rightarrow> jobj list \<Rightarrow> (db, import_row list) action" where
  "add_import_rows now batch rows =
     andThen (query (\<lambda>_. coerce_ref ''Inventory import batch'' batch)) (\<lambda>i.
     andThen (for_each (create_import_row now i) (zip (map int [1..<Suc (length rows)]) rows)) (\<lambda>created.
     andThen (get_import_batch (RefId i)) (\<lambda>b.
     andThen (change (upd_import_batch (ib_id b) (\<lambda>b. b\<lparr>ib_total_rows := int (length created)\<rparr>))) (\<lambda>_.
     ret created))))"

definition list_import_batches :: "string option \<Rightarrow> db \<Rightarrow> import_batch list" where
  "list_import_batches status d =
     rev (by_time ib_created_at (filter (\<lambda>b. status = None \<or> status = Some (ib_status b)) (t_import_batch d)))"

definition get_import_row :: "ref \<Rightarrow> (db, import_row) action" where
  "get_import_row = get_by_ref find_import_row ''Inventory import row''"

definition rows_of_batch :: "uuid \<Rightarrow> db \<Rightarrow> import_row list" where
  "rows_of_batch i d = sort_key ir_row_index (filter (\<lambda>r. ir_batch_id r = i) (t_import_row d))"

definition list_import_rows :: "ref \<Rightarrow> (db, import_row list) action" where
  "list_import_rows r =
     andThen (query (\<lambda>_. coerce_ref ''Inventory import batch'' r)) (\<lambda>i. asks (rows_of_batch i))"

definition update_import_status :: "ref \<Rightarrow> string \<Rightarrow> string option \<Rightarrow> (db, import_batch) action" where
  "update_import_status r status error_summary =
     andThen (get_import_batch r) (\<lambda>b.
     let f = (\<lambda>b. b\<lparr>ib_status := status, ib_error_summary := given_opt error_summary (ib_error_summary b)\<rparr>)
     in andThen (change (upd_import_batch (ib_id b) f)) (\<lambda>_. ret (f b)))"

definition mark_import_row ::
  "ref \<Rightarrow> string \<Rightarrow> jobj option \<Rightarrow> string option \<Rightarrow> ref option \<Rightarrow> (db, import_row) action" where
  "mark_import_row r status normalized err device =
     andThen (get_import_row r) (\<lambda>row.
     andThen (query (\<lambda>_. optional_ref ''Device'' device)) (\<lambda>dev.
     let f = (\<lambda>row. row\<lparr>ir_status := status, ir_normalized_data := given_opt normalized (ir_normalized_data row),
               ir_error_message := err, ir_device_id := given_opt dev (ir_device_id row)\<rparr>)
     in andThen (change (upd_import_row (ir_id row) f)) (\<lambda>_. ret (f row))))"

definition mark_row_valid :: "ref \<Rightarrow> jobj \<Rightarrow> (db, import_row) action" where
  "mark_row_valid r data = mark_import_row r ''valid'' (Some data) None None"

definition mark_row_invalid :: "ref \<Rightarrow> string \<Rightarrow> jobj option \<Rightarrow> (db, import_row) action" where
  "mark_row_invalid r err data = mark_import_row r ''invalid'' data (Some err) None"

definition mark_row_created :: "ref \<Rightarrow> ref \<Rightarrow> (db, import_row) action" where
  "mark_row_created r device = mark_import_row r ''created'' None None (Some device)"

definition mark_row_updated :: "ref \<Rightarrow> ref \<Rightarrow> (db, import_row) action" where
  "mark_row_updated r device = mark_import_row r ''updated'' None None (Some device)"

definition mark_row_skipped :: "ref \<Rightarrow> string option \<Rightarrow> (db, import_row) action" where
  "mark_row_skipped r reason = mark_import_row r ''skipped'' None reason None"

definition mark_row_failed :: "ref \<Rightarrow> string \<Rightarrow> (db, import_row) action" where
  "mark_row_failed r reason = mark_import_row r ''failed'' None (Some reason) None"

definition count_rows :: "string list \<Rightarrow> import_row list \<Rightarrow> int" where
  "count_rows statuses rows = int (length (filter (\<lambda>r. ir_status r \<in> set statuses) rows))"

definition finished_batch :: "int \<Rightarrow> import_row list \<Rightarrow> string \<Rightarrow> string option \<Rightarrow> import_batch \<Rightarrow> import_batch" where
  "finished_batch now rows status error_summary b =
     b\<lparr>ib_status := status, ib_total_rows := int (length rows),
       ib_valid_rows := count_rows [''valid'', ''created'', ''updated'', ''skipped''] rows,
       ib_invalid_rows := count_rows [''invalid'', ''failed''] rows,
       ib_created_devices := count_rows [''created''] rows, ib_updated_devices := count_rows [''updated''] rows,
       ib_skipped_rows := count_rows [''skipped''] rows, ib_error_summary := error_summary,
       ib_finished_at := Some (Aware now)\<rparr>"

definition finish_import_batch :: "int \<Rightarrow> ref \<Rightarrow> string \<Rightarrow> string option \<Rightarrow> (db, import_batch) action" where
  "finish_import_batch now r status error_summary =
     andThen (get_import_batch r) (\<lambda>b.
     andThen (list_import_rows r) (\<lambda>rows.
     let f = finished_batch now rows status error_summary
     in andThen (change (upd_import_batch (ib_id b) f)) (\<lambda>_. ret (f b))))"

section \<open>The tables as row stores\<close>

interpretation import_batch_rows: row_store find_import_batch upd_import_batch ib_id
  by unfold_locales (auto simp: upd_import_batch_def get_upd_row dest: get_row_key)

interpretation import_row_rows: row_store find_import_row upd_import_row ir_id
  by unfold_locales (auto simp: upd_import_row_def get_upd_row dest: get_row_key)

end
