(* ===== verification/InventoryImports.thy ===== *)
theory InventoryImports
  imports Credentials DeviceNormalizer ImportRepository VlanChangePlans
begin

text \<open>
  app/services/inventory_validation_service.py: an import normalizes every record, resolves its driver and credential,
  refuses what collides with the inventory and, unless it is a dry run, creates or updates the device.
\<close>

section \<open>Reading values of a stored dictionary\<close>

text \<open>A field of type \<open>str | None\<close> of a payload class; any other value is a \<open>ValidationError\<close>, which is a \<open>ValueError\<close>.\<close>

definition opt_field :: "json \<Rightarrow> error + string option" where
  "opt_field v =
     (case v of JNull \<Rightarrow> Inr None | JStr s \<Rightarrow> Inr (Some s) | _ \<Rightarrow> Inl (ValueError ''Input should be a valid string''))"

text \<open>\<open>a or b\<close>\<close>

definition or_else :: "json \<Rightarrow> json \<Rightarrow> json" where
  "or_else a b = (if truthy a then a else b)"

text \<open>The strings of a list of warnings.\<close>

definition listed_texts :: "json \<Rightarrow> string list" where
  "listed_texts v = (case v of JList xs \<Rightarrow> map py_str xs | _ \<Rightarrow> [])"

section \<open>Drivers and credentials of a record\<close>

record driver_item =
  dm_row_id :: "string option"
  dm_device_id :: "string option"
  dm_hostname :: "string option"
  dm_management_ip :: "string option"
  dm_vendor :: string
  dm_model :: string
  dm_normalized_vendor :: string
  dm_normalized_model :: string
  dm_driver_name :: string
  dm_driver_resolution_status :: string
  dm_apply_supported :: bool
  dm_supported_capabilities :: "string list"
  dm_unsupported_reason :: "string option"
  dm_warnings :: "string list"

definition supported_capabilities :: "device_capabilities \<Rightarrow> string list" where
  "supported_capabilities c =
     map snd (filter (\<lambda>(has, _). has c)
       [(supports_ssh, ''ssh''), (supports_telnet, ''telnet''), (supports_snmp, ''snmp''), (supports_vlan, ''vlan''),
        (supports_acl, ''acl''), (supports_trunk, ''trunk''), (supports_password_change, ''password_change''),
        (supports_interface_description, ''interface_description''), (supports_lldp, ''lldp''),
        (supports_cdp, ''cdp''), (supports_stp, ''stp'')])"

definition data_input :: "jobj \<Rightarrow> error + device_input" where
  "data_input data =
     (case (opt_field (jget data ''hostname''), opt_field (jget data ''site''), opt_field (jget data ''role'')) of
        (Inr hostname, Inr site, Inr role) \<Rightarrow>
          Inr \<lparr>di_hostname = hostname,
            di_ip_address = (let ip = or_else (jget data ''management_ip'') (jget data ''ip_address'')
                             in if truthy ip then py_str ip else ''0.0.0.0''),
            di_vendor = str_or_empty (or_else (jget data ''normalized_vendor'') (jget data ''vendor'')),
            di_model = str_or_empty (or_else (jget data ''normalized_model'') (jget data ''model'')),
            di_site = site, di_role = role,
            di_tags = [(''labels'', case map_of data ''tags'' of None \<Rightarrow> JList [] | Some v \<Rightarrow> v)]\<rparr>
      | _ \<Rightarrow> Inl (ValueError ''Input should be a valid string''))"

definition UNCONFIRMED_DRIVER_WARNING :: string where
  "UNCONFIRMED_DRIVER_WARNING = ''Driver template is not confirmed for destructive apply''"

definition unsupported_driver :: "driver_class \<Rightarrow> bool" where
  "unsupported_driver k \<longleftrightarrow> dr_name k \<in> {dr_name GenericSSHDriver, dr_name ReadOnlyICMPDriver}"

definition resolve_item :: "jobj \<Rightarrow> string option \<Rightarrow> string option \<Rightarrow> error + driver_item" where
  "resolve_item data row_id device_id =
     (case data_input data of
        Inl e \<Rightarrow> Inl e
      | Inr p \<Rightarrow>
          (let (k, reason) = resolve_driver p;
               c = dr_capabilities k;
               weak = unsupported_driver k;
               warnings = listed_texts (jget data ''warnings'') @
                 (if weak then [reason] else if \<not> destructive_apply_confirmed c then [UNCONFIRMED_DRIVER_WARNING] else [])
           in case opt_field (or_else (jget data ''management_ip'') (jget data ''ip_address'')) of
                Inl e \<Rightarrow> Inl e
              | Inr ip \<Rightarrow>
                  Inr \<lparr>dm_row_id = row_id, dm_device_id = device_id, dm_hostname = di_hostname p, dm_management_ip = ip,
                    dm_vendor = str_or_empty (jget data ''vendor''), dm_model = str_or_empty (jget data ''model''),
                    dm_normalized_vendor = di_vendor p, dm_normalized_model = di_model p, dm_driver_name = dr_name k,
                    dm_driver_resolution_status = (if weak then ''unsupported'' else ''resolved''),
                    dm_apply_supported = destructive_apply_confirmed c,
                    dm_supported_capabilities = supported_capabilities c,
                    dm_unsupported_reason = (if weak then Some reason else None),
                    dm_warnings = sorted_set warnings\<rparr>))"

definition capabilities_for_item :: "driver_item \<Rightarrow> jobj" where
  "capabilities_for_item m =
     capabilities_json (dr_capabilities (fst (resolve_driver
       \<lparr>di_hostname = None, di_ip_address = (if or_empty (dm_management_ip m) = [] then ''0.0.0.0'' else or_empty (dm_management_ip m)),
        di_vendor = dm_normalized_vendor m, di_model = dm_normalized_model m, di_site = None, di_role = None,
        di_tags = []\<rparr>)))"

record credential_metadata =
  cm_id :: "string option"
  cm_name :: "string option"
  cm_username :: "string option"
  cm_status :: string

definition credential_metadata :: "json \<Rightarrow> db \<Rightarrow> credential_metadata" where
  "credential_metadata name d =
     (if \<not> truthy name then \<lparr>cm_id = None, cm_name = None, cm_username = None, cm_status = ''missing''\<rparr>
      else case credential_of_name (py_str name) d of
             None \<Rightarrow> \<lparr>cm_id = None, cm_name = Some (py_str name), cm_username = None, cm_status = ''missing''\<rparr>
           | Some c \<Rightarrow> \<lparr>cm_id = Some (uuid_str (cr_id c)), cm_name = Some (cr_name c), cm_username = Some (cr_username c),
                        cm_status = ''assigned''\<rparr>)"

definition metadata_json :: "credential_metadata \<Rightarrow> jobj" where
  "metadata_json m =
     [(''id'', str_opt (cm_id m)), (''name'', str_opt (cm_name m)), (''username'', str_opt (cm_username m)),
      (''status'', JStr (cm_status m))]"

definition metadata_of_json :: "jobj \<Rightarrow> error + credential_metadata" where
  "metadata_of_json d =
     (case (opt_field (jget d ''id''), opt_field (jget d ''name''), opt_field (jget d ''username''), jget d ''status'') of
        (Inr i, Inr n, Inr u, JStr s) \<Rightarrow> Inr \<lparr>cm_id = i, cm_name = n, cm_username = u, cm_status = s\<rparr>
      | _ \<Rightarrow> Inl (ValueError ''Input should be a valid string''))"

section \<open>One row\<close>

definition item_fields :: "driver_item \<Rightarrow> jobj" where
  "item_fields m =
     [(''driver_name'', JStr (dm_driver_name m)), (''driver_resolution_status'', JStr (dm_driver_resolution_status m)),
      (''capabilities'', JObj (capabilities_for_item m)), (''apply_supported'', JBool (dm_apply_supported m)),
      (''supported_capabilities'', strings (dm_supported_capabilities m)),
      (''unsupported_reason'', str_opt (dm_unsupported_reason m))]"

definition update_dict :: "jobj \<Rightarrow> jobj \<Rightarrow> jobj" where
  "update_dict data kvs = foldl (\<lambda>d (k, v). AList.update k v d) data kvs"

definition with_driver :: "driver_item \<Rightarrow> jobj \<Rightarrow> jobj" where
  "with_driver m data =
     update_dict data (item_fields m @
       [(''warnings'', strings (sorted_set (listed_texts (jget data ''warnings'') @ dm_warnings m)))])"

definition with_credential :: "credential_metadata \<Rightarrow> jobj \<Rightarrow> jobj" where
  "with_credential c data =
     (let data' = update_dict data [(''credential'', JObj (metadata_json c)), (''credential_assignment_status'', JStr (cm_status c))]
      in if cm_status c = ''missing'' \<and> truthy (jget data' ''credential_name'')
         then update_dict data' [(''warnings'', strings (sorted_set (listed_texts (jget data' ''warnings'') @
                [''Credential '' @ py_repr (jget data' ''credential_name'') @ '' not found''])))]
         else data')"

text \<open>The keys of the dictionary that \<open>upsert_device\<close> reads.\<close>

definition data_text :: "jobj \<Rightarrow> string \<Rightarrow> string option" where
  "data_text data k = (case jget data k of JStr s \<Rightarrow> Some s | _ \<Rightarrow> None)"

definition device_data_of :: "jobj \<Rightarrow> device_data" where
  "device_data_of data =
     \<lparr>dd_management_ip = data_text data ''management_ip'', dd_ip_address = data_text data ''ip_address'',
      dd_hostname = data_text data ''hostname'', dd_vendor = data_text data ''vendor'', dd_model = data_text data ''model'',
      dd_normalized_vendor = data_text data ''normalized_vendor'', dd_normalized_model = data_text data ''normalized_model'',
      dd_platform = data_text data ''platform'', dd_site = data_text data ''site'', dd_location = data_text data ''location'',
      dd_rack = data_text data ''rack'', dd_role = data_text data ''role'', dd_driver_name = data_text data ''driver_name'',
      dd_driver_resolution_status = data_text data ''driver_resolution_status'',
      dd_credential_assignment_status = data_text data ''credential_assignment_status'',
      dd_capabilities = as_obj (jget data ''capabilities''), dd_tags = jget data ''tags''\<rparr>"

definition assign_credential :: "int \<Rightarrow> string \<Rightarrow> device \<Rightarrow> (db, unit) action" where
  "assign_credential now cred dev =
     andThen (create_assignment now (RefText cred) (Some (RefId (dev_id dev))) (Some (dev_vendor dev)) (dev_site dev) 100) (\<lambda>_.
     andThen (update_credential_assignment_status now (RefId (dev_id dev)) ''assigned'') (\<lambda>_. ret ()))"

definition settle_credential :: "int \<Rightarrow> credential_metadata \<Rightarrow> device \<Rightarrow> (db, unit) action" where
  "settle_credential now c dev =
     (case cm_id c of
        Some i \<Rightarrow> assign_credential now i dev
      | None \<Rightarrow> andThen (update_credential_assignment_status now (RefId (dev_id dev)) ''missing'') (\<lambda>_. ret ()))"

text \<open>Only this part of an import writes to the inventory.\<close>

definition store_row :: "int \<Rightarrow> import_row \<Rightarrow> jobj \<Rightarrow> credential_metadata \<Rightarrow> (db, unit) action" where
  "store_row now row data c =
     andThen (change (upd_import_row (ir_id row) (\<lambda>r. r\<lparr>ir_normalized_data := Some data\<rparr>))) (\<lambda>_.
     andThen (upsert_device now (device_data_of data)) (\<lambda>p.
     andThen (settle_credential now c (fst p)) (\<lambda>_.
     andThen ((if snd p then mark_row_created else mark_row_updated) (RefId (ir_id row)) (RefId (dev_id (fst p)))) (\<lambda>_. ret ()))))"

definition hostname_taken :: "jobj \<Rightarrow> db \<Rightarrow> bool" where
  "hostname_taken data d =
     (let by_name = (if truthy (jget data ''hostname'') then find_by_hostname (py_str (jget data ''hostname'')) d else None);
          by_ip = find_by_management_ip (py_str (jget data ''management_ip'')) d
      in case by_name of
           None \<Rightarrow> False
         | Some dev \<Rightarrow> (case by_ip of None \<Rightarrow> True | Some dev' \<Rightarrow> dev_id dev \<noteq> dev_id dev'))"

definition mark_valid :: "import_row \<Rightarrow> jobj \<Rightarrow> (db, unit) action" where
  "mark_valid row data = andThen (mark_row_valid (RefId (ir_id row)) data) (\<lambda>_. ret ())"

definition mark_invalid :: "import_row \<Rightarrow> string \<Rightarrow> jobj \<Rightarrow> (db, unit) action" where
  "mark_invalid row err data = andThen (mark_row_invalid (RefId (ir_id row)) err (Some data)) (\<lambda>_. ret ())"

definition process_row ::
  "(string \<Rightarrow> json option) \<Rightarrow> int \<Rightarrow> bool \<Rightarrow> bool \<Rightarrow> import_row \<Rightarrow> (db, unit) action" where
  "process_row loads now strict dryrun row =
     (let normalized = normalize_inventory_record loads (ir_raw_data row) in
      if \<not> nr_valid normalized then mark_invalid row (str_join ''; '' (nr_errors normalized)) (nr_data normalized)
      else andThen (query (\<lambda>_. resolve_item (nr_data normalized) (Some (uuid_str (ir_id row))) None)) (\<lambda>m.
           andThen (asks (credential_metadata (jget (nr_data normalized) ''credential_name''))) (\<lambda>c.
           let data = with_credential c (with_driver m (nr_data normalized))
           in andThen (asks (hostname_taken data)) (\<lambda>taken.
              if taken then mark_invalid row ''hostname already exists with a different management_ip'' data
              else if strict \<and> cm_status c = ''missing'' then mark_invalid row ''Credential not found'' data
              else if dryrun then mark_valid row data
              else store_row now row data c))))"

section \<open>Reports\<close>

text \<open>\<open>row.normalized_data or normalize_inventory_record(row.raw_data).data\<close>\<close>

definition driver_item_of_row :: "(string \<Rightarrow> json option) \<Rightarrow> import_row \<Rightarrow> error + driver_item" where
  "driver_item_of_row loads row =
     (let stored = or_nil (ir_normalized_data row);
          data = (if stored \<noteq> [] then stored else nr_data (normalize_inventory_record loads (ir_raw_data row)))
      in resolve_item data (Some (uuid_str (ir_id row))) (map_option uuid_str (ir_device_id row)))"

record validation_item =
  vi_item :: driver_item
  vi_credential :: credential_metadata
  vi_row_status :: string
  vi_error_message :: "string option"

definition validation_item_of_row :: "(string \<Rightarrow> json option) \<Rightarrow> import_row \<Rightarrow> (db, validation_item) action" where
  "validation_item_of_row loads row =
     andThen (query (\<lambda>_. driver_item_of_row loads row)) (\<lambda>m.
     let stored = or_nil (ir_normalized_data row)
     in andThen (query (\<lambda>d. case jget stored ''credential'' of
                          JObj payload \<Rightarrow> metadata_of_json payload
                        | _ \<Rightarrow> Inr (credential_metadata (jget stored ''credential_name'') d))) (\<lambda>c.
        ret \<lparr>vi_item = m, vi_credential = c, vi_row_status = ir_status row, vi_error_message = ir_error_message row\<rparr>))"

record import_report =
  vp_batch_id :: string
  vp_total_rows :: int
  vp_valid_rows :: int
  vp_invalid_rows :: int
  vp_created_devices :: int
  vp_updated_devices :: int
  vp_dry_run :: bool
  vp_items :: "validation_item list"
  vp_warnings :: "string list"

definition build_import_report ::
  "(string \<Rightarrow> json option) \<Rightarrow> string \<Rightarrow> bool option \<Rightarrow> (db, import_report) action" where
  "build_import_report loads i dryrun =
     andThen (get_import_batch (RefText i)) (\<lambda>b.
     andThen (list_import_rows (RefText i)) (\<lambda>rows.
     andThen (for_each (validation_item_of_row loads) rows) (\<lambda>items.
     ret \<lparr>vp_batch_id = uuid_str (ib_id b), vp_total_rows = ib_total_rows b, vp_valid_rows = ib_valid_rows b,
       vp_invalid_rows = ib_invalid_rows b, vp_created_devices = ib_created_devices b,
       vp_updated_devices = ib_updated_devices b,
       vp_dry_run = (case dryrun of None \<Rightarrow> ib_status b \<noteq> ''imported'' | Some v \<Rightarrow> v), vp_items = items,
       vp_warnings = sorted_set (concat (map (\<lambda>v. dm_warnings (vi_item v)) items))\<rparr>)))"

record import_request =
  iq_source_type :: string
  iq_filename :: "string option"
  iq_items :: "jobj list"
  iq_strict :: bool
  iq_dry_run :: bool

record import_batch_read =
  by_id :: string
  by_filename :: "string option"
  by_source_type :: string
  by_status :: string
  by_requested_by :: "string option"
  by_total_rows :: int
  by_valid_rows :: int
  by_invalid_rows :: int
  by_created_devices :: int
  by_updated_devices :: int
  by_skipped_rows :: int
  by_error_summary :: "string option"
  by_created_at :: string
  by_finished_at :: "string option"

definition read_import_batch :: "import_batch \<Rightarrow> import_batch_read" where
  "read_import_batch b =
     \<lparr>by_id = uuid_str (ib_id b), by_filename = ib_filename b, by_source_type = ib_source_type b, by_status = ib_status b,
      by_requested_by = ib_requested_by b, by_total_rows = ib_total_rows b, by_valid_rows = ib_valid_rows b,
      by_invalid_rows = ib_invalid_rows b, by_created_devices = ib_created_devices b,
      by_updated_devices = ib_updated_devices b, by_skipped_rows = ib_skipped_rows b,
      by_error_summary = ib_error_summary b, by_created_at = isoformat (ib_created_at b),
      by_finished_at = map_option isoformat (ib_finished_at b)\<rparr>"

record import_row_read =
  ry_id :: string
  ry_batch_id :: string
  ry_row_index :: int
  ry_raw_data :: jobj
  ry_normalized_data :: "jobj option"
  ry_status :: string
  ry_error_message :: "string option"
  ry_device_id :: "string option"
  ry_created_at :: string

definition read_import_row :: "import_row \<Rightarrow> import_row_read" where
  "read_import_row r =
     \<lparr>ry_id = uuid_str (ir_id r), ry_batch_id = uuid_str (ir_batch_id r), ry_row_index = ir_row_index r,
      ry_raw_data = ir_raw_data r, ry_normalized_data = ir_normalized_data r, ry_status = ir_status r,
      ry_error_message = ir_error_message r, ry_device_id = map_option uuid_str (ir_device_id r),
      ry_created_at = isoformat (ir_created_at r)\<rparr>"

record import_response =
  is_batch :: import_batch_read
  is_dry_run :: bool
  is_validation_report :: import_report

section \<open>Imports\<close>

definition import_inventory ::
  "(string \<Rightarrow> json option) \<Rightarrow> int \<Rightarrow> import_request \<Rightarrow> string \<Rightarrow> (db, import_response) action" where
  "import_inventory loads now p actr =
     andThen (create_import_batch now (iq_source_type p) (iq_filename p) (Some actr)) (\<lambda>b.
     andThen (add_import_rows now (RefId (ib_id b)) (parse_items (iq_items p))) (\<lambda>rows.
     andThen (update_import_status (RefId (ib_id b)) ''parsed'' None) (\<lambda>_.
     andThen (for_each (process_row loads now (iq_strict p) (iq_dry_run p)) rows) (\<lambda>_.
     andThen (finish_import_batch now (RefId (ib_id b)) (if iq_dry_run p then ''validated'' else ''imported'') None) (\<lambda>b.
     andThen (build_import_report loads (uuid_str (ib_id b)) (Some (iq_dry_run p))) (\<lambda>report.
     ret \<lparr>is_batch = read_import_batch b, is_dry_run = iq_dry_run p, is_validation_report = report\<rparr>))))))"

definition validate_import_batch :: "(string \<Rightarrow> json option) \<Rightarrow> int \<Rightarrow> string \<Rightarrow> (db, import_report) action" where
  "validate_import_batch loads now i =
     andThen (list_import_rows (RefText i)) (\<lambda>rows.
     andThen (for_each (process_row loads now False True)
       (filter (\<lambda>r. ir_status r \<noteq> ''created'' \<and> ir_status r \<noteq> ''updated'') rows)) (\<lambda>_.
     andThen (finish_import_batch now (RefText i) ''validated'' None) (\<lambda>_.
     build_import_report loads i (Some True))))"

definition resolve_drivers_for_batch ::
  "(string \<Rightarrow> json option) \<Rightarrow> int \<Rightarrow> string \<Rightarrow> (db, driver_item list) action" where
  "resolve_drivers_for_batch loads now i =
     andThen (list_import_rows (RefText i)) (\<lambda>rows.
     andThen (for_each (\<lambda>r. query (\<lambda>_. driver_item_of_row loads r)) rows) (\<lambda>items.
     andThen (for_each (\<lambda>m. case dm_device_id m of
                 None \<Rightarrow> ret ()
               | Some dev \<Rightarrow> andThen (update_driver_resolution now (RefText dev) (dm_driver_name m)
                   (dm_driver_resolution_status m) (Some (capabilities_for_item m))) (\<lambda>_. ret ())) items) (\<lambda>_.
     ret items)))"

definition validate_credentials_of_row :: "bool \<Rightarrow> import_row \<Rightarrow> (db, unit) action" where
  "validate_credentials_of_row strict row =
     (let normalized = or_nil (ir_normalized_data row)
      in andThen (asks (credential_metadata (jget normalized ''credential_name''))) (\<lambda>c.
         let data = update_dict normalized [(''credential'', JObj (metadata_json c))]
         in if strict \<and> cm_status c = ''missing'' \<and> ir_status row \<noteq> ''invalid''
            then mark_invalid row ''Credential not found'' data
            else mark_valid row data))"

definition validate_credentials_for_batch ::
  "(string \<Rightarrow> json option) \<Rightarrow> int \<Rightarrow> string \<Rightarrow> bool \<Rightarrow> (db, import_report) action" where
  "validate_credentials_for_batch loads now i strict =
     andThen (list_import_rows (RefText i)) (\<lambda>rows.
     andThen (for_each (validate_credentials_of_row strict) rows) (\<lambda>_.
     andThen (finish_import_batch now (RefText i) ''validated'' None) (\<lambda>_.
     build_import_report loads i (Some True))))"

definition build_driver_resolution_report ::
  "(string \<Rightarrow> json option) \<Rightarrow> string \<Rightarrow> (db, driver_item list) action" where
  "build_driver_resolution_report loads i =
     andThen (list_import_rows (RefText i)) (\<lambda>rows. for_each (\<lambda>r. query (\<lambda>_. driver_item_of_row loads r)) rows)"

end
