(* ===== verification/InventoryRequests.thy ===== *)
theory InventoryRequests
  imports InventoryImports JobExecution
begin

text \<open>
  The rest of the inventory: reading and patching devices (inventory_validation_service.py), the simulated discovery
  (device_discovery_service.py), the older import (inventory_import_service.py, device_service.py) and the endpoints of
  app/api/v1/inventory.py and app/api/v1/devices.py.
\<close>

section \<open>Devices of the inventory\<close>

record inventory_device_read =
  iv_id :: string
  iv_hostname :: "string option"
  iv_management_ip :: string
  iv_ip_address :: string
  iv_vendor :: string
  iv_model :: string
  iv_normalized_vendor :: "string option"
  iv_normalized_model :: "string option"
  iv_platform :: string
  iv_site :: "string option"
  iv_location :: "string option"
  iv_rack :: "string option"
  iv_role :: "string option"
  iv_tags :: "string list"
  iv_driver_name :: string
  iv_driver_resolution_status :: string
  iv_credential_assignment_status :: string
  iv_discovery_status :: string
  iv_discovery_error :: "string option"
  iv_discovery_last_checked_at :: "string option"
  iv_last_seen_at :: "string option"
  iv_serial_number :: "string option"
  iv_os_version :: "string option"
  iv_capabilities :: jobj

text \<open>\<open>str(device.management_ip or device.ip_address)\<close>\<close>

definition device_address :: "device \<Rightarrow> string" where
  "device_address dev =
     (if or_empty (dev_management_ip dev) = [] then dev_ip_address dev else or_empty (dev_management_ip dev))"

definition read_inventory_device :: "device \<Rightarrow> inventory_device_read" where
  "read_inventory_device dev =
     \<lparr>iv_id = uuid_str (dev_id dev), iv_hostname = dev_hostname dev, iv_management_ip = device_address dev,
      iv_ip_address = dev_ip_address dev, iv_vendor = dev_vendor dev, iv_model = dev_model dev,
      iv_normalized_vendor = dev_normalized_vendor dev, iv_normalized_model = dev_normalized_model dev,
      iv_platform = dev_platform dev, iv_site = dev_site dev, iv_location = dev_location dev, iv_rack = dev_rack dev,
      iv_role = dev_role dev, iv_tags = tag_labels (JObj (dev_tags dev)), iv_driver_name = dev_driver_name dev,
      iv_driver_resolution_status = dev_driver_resolution_status dev,
      iv_credential_assignment_status = dev_credential_assignment_status dev,
      iv_discovery_status = dev_discovery_status dev, iv_discovery_error = dev_discovery_error dev,
      iv_discovery_last_checked_at = map_option isoformat (dev_discovery_last_checked_at dev),
      iv_last_seen_at = map_option isoformat (dev_last_seen_at dev), iv_serial_number = dev_serial_number dev,
      iv_os_version = dev_os_version dev, iv_capabilities = dev_capabilities dev\<rparr>"

definition list_inventory :: "string option \<Rightarrow> string option \<Rightarrow> (db, inventory_device_read list) action" where
  "list_inventory site tag =
     asks (\<lambda>d. map read_inventory_device
       (case site of
          Some s \<Rightarrow> list_by_site s d
        | None \<Rightarrow> (case tag of Some t \<Rightarrow> list_by_tag t d | None \<Rightarrow> list_devices d)))"

definition get_inventory_device :: "string \<Rightarrow> (db, inventory_device_read) action" where
  "get_inventory_device i = andThen (get_device_row (RefText i)) (\<lambda>dev. ret (read_inventory_device dev))"

record device_patch =
  pt_site :: "string option"
  pt_location :: "string option"
  pt_rack :: "string option"
  pt_role :: "string option"
  pt_tags :: "string list option"
  pt_credential_name :: "string option"

definition patch_device_metadata :: "int \<Rightarrow> string \<Rightarrow> device_patch \<Rightarrow> (db, inventory_device_read) action" where
  "patch_device_metadata now i p =
     andThen (patch_metadata now (RefText i) (pt_site p) (pt_location p) (pt_rack p) (pt_role p) (pt_tags p)) (\<lambda>dev.
     andThen (case pt_credential_name p of
                None \<Rightarrow> ret ()
              | Some name \<Rightarrow> andThen (asks (credential_of_name name)) (\<lambda>c.
                  case c of
                    None \<Rightarrow> andThen (update_credential_assignment_status now (RefId (dev_id dev)) ''invalid'') (\<lambda>_. ret ())
                  | Some c \<Rightarrow>
                      andThen (create_assignment now (RefId (cr_id c)) (Some (RefId (dev_id dev))) (Some (dev_vendor dev))
                        (dev_site dev) 100) (\<lambda>_.
                      andThen (update_credential_assignment_status now (RefId (dev_id dev)) ''assigned'') (\<lambda>_. ret ())))) (\<lambda>_.
     andThen (get_device_row (RefId (dev_id dev))) (\<lambda>dev. ret (read_inventory_device dev))))"

section \<open>Discovery\<close>

definition simulate_reachability :: "device \<Rightarrow> string \<times> string option" where
  "simulate_reachability dev =
     (let labels = tag_labels (JObj (dev_tags dev))
      in if ''unreachable'' \<in> set labels then (''unreachable'', Some ''Simulated unreachable device'')
         else if ''auth_failed'' \<in> set labels then (''auth_failed'', Some ''Simulated authentication failure'')
         else if ''unsupported'' \<in> set labels
         then (''unsupported'', Some ''Simulated unsupported read-only discovery profile'')
         else if dev_driver_name dev = ''ReadOnlyICMPDriver'' then (''reachable'', None)
         else let (result, t) = dummy_send ''show version'' (dummy_open dummy_transport)
              in if \<not> er_success result
                 then (''error'', Some (if or_empty (er_error result) = [] then ''Read-only discovery command failed''
                                        else or_empty (er_error result)))
                 else (''reachable'', None))"

definition safe_discovery_facts :: "device \<Rightarrow> jobj" where
  "safe_discovery_facts dev =
     (let fragment = str_replace ''.'' ''-'' (device_address dev);
          known = (\<lambda>v default. JStr (if or_empty v = [] then default else or_empty v))
      in [(''hostname'', known (dev_hostname dev) (''discovered-'' @ fragment)),
          (''serial_number'', known (dev_serial_number dev) (''SIM-'' @ fragment)),
          (''os_version'', known (dev_os_version dev) ''unknown''),
          (''platform'', known (Some (dev_platform dev)) ''unknown'')])"

record reachability =
  rc_device_id :: string
  rc_hostname :: "string option"
  rc_management_ip :: string
  rc_status :: string
  rc_error :: "string option"
  rc_checked_at :: string

definition read_reachability :: "int \<Rightarrow> device \<Rightarrow> reachability" where
  "read_reachability now dev =
     \<lparr>rc_device_id = uuid_str (dev_id dev), rc_hostname = dev_hostname dev, rc_management_ip = device_address dev,
      rc_status = dev_discovery_status dev, rc_error = dev_discovery_error dev,
      rc_checked_at = isoformat (case dev_discovery_last_checked_at dev of None \<Rightarrow> Aware now | Some t \<Rightarrow> t)\<rparr>"

definition check_device_reachability :: "int \<Rightarrow> ref \<Rightarrow> (db, reachability) action" where
  "check_device_reachability now r =
     andThen (get_device_row r) (\<lambda>dev.
     let (status, err) = simulate_reachability dev
     in andThen (update_discovery_status now (RefId (dev_id dev)) status err
          (if status = ''reachable'' then Some (safe_discovery_facts dev) else None)) (\<lambda>dev.
        ret (read_reachability now dev)))"

definition device_rows :: "import_row list \<Rightarrow> uuid list" where
  "device_rows rows = List.map_filter ir_device_id rows"

definition check_batch_reachability :: "int \<Rightarrow> string \<Rightarrow> (db, reachability list) action" where
  "check_batch_reachability now i =
     andThen (list_import_rows (RefText i)) (\<lambda>rows.
     for_each (\<lambda>dev. check_device_reachability now (RefText (uuid_str dev))) (device_rows rows))"

definition build_discovery_report :: "int \<Rightarrow> string \<Rightarrow> (db, reachability list) action" where
  "build_discovery_report now i =
     andThen (list_import_rows (RefText i)) (\<lambda>rows.
     for_each (\<lambda>dev. andThen (get_device_row (RefId dev)) (\<lambda>row. ret (read_reachability now row))) (device_rows rows))"

section \<open>The older import\<close>

definition HEADER_ALIASES :: "(string \<times> string) list" where
  "HEADER_ALIASES =
     [(''hostname'', ''hostname''), (''name'', ''hostname''), (''ip'', ''ip_address''), (''ip address'', ''ip_address''),
      (''management ip'', ''ip_address''), (''vendor'', ''vendor''), (''manufacturer'', ''vendor''),
      (''model'', ''model''), (''site'', ''site''), (''location'', ''site''), (''role'', ''role'')]"

definition normalize_header_record :: "jobj \<Rightarrow> jobj" where
  "normalize_header_record rec =
     (let named = foldl (\<lambda>d (k, v). case map_of HEADER_ALIASES (casefold (str_strip k)) of
            None \<Rightarrow> d | Some t \<Rightarrow> AList.update t (JStr (str_strip (str_or_empty v))) d) [] rec;
          setdefault = (\<lambda>k d. if has_key d k then d else d @ [(k, JStr [])])
      in setdefault ''model'' (setdefault ''vendor'' named))"

text \<open>The records of a request are device inputs already, those of a file are dictionaries.\<close>

definition devices_from_records :: "(jobj + device_input) list \<Rightarrow> device_input list" where
  "devices_from_records records =
     concat (map (\<lambda>r. case r of
         Inr p \<Rightarrow> [p]
       | Inl rec \<Rightarrow>
           (let n = normalize_header_record rec; given = data_text n
            in if or_empty (given ''ip_address'') = [] then []
               else [\<lparr>di_hostname = given ''hostname'', di_ip_address = or_empty (given ''ip_address''),
                      di_vendor = or_empty (given ''vendor''), di_model = or_empty (given ''model''),
                      di_site = given ''site'', di_role = given ''role'', di_tags = []\<rparr>])) records)"

definition import_devices :: "int \<Rightarrow> device_input list \<Rightarrow> (db, device list) action" where
  "import_devices now devices =
     for_each (\<lambda>p. let k = fst (resolve_driver p)
                   in create_or_update_from_input now p (dr_name k) (Some (capabilities_json (dr_capabilities k)))) devices"

record device_read =
  vx_input :: device_input
  vx_platform :: string
  vx_driver_name :: string
  vx_status :: string
  vx_capabilities :: jobj

definition read_device :: "device \<Rightarrow> device_read" where
  "read_device dev =
     \<lparr>vx_input = \<lparr>di_hostname = dev_hostname dev, di_ip_address = dev_ip_address dev, di_vendor = dev_vendor dev,
        di_model = dev_model dev, di_site = dev_site dev, di_role = dev_role dev, di_tags = dev_tags dev\<rparr>,
      vx_platform = dev_platform dev, vx_driver_name = dev_driver_name dev, vx_status = dev_status dev,
      vx_capabilities = dev_capabilities dev\<rparr>"

text \<open>These two endpoints read no actor and check no permission.\<close>

definition api_import_devices :: "int \<Rightarrow> device_input list \<Rightarrow> (db, device_read list) action" where
  "api_import_devices now records =
     committed (let devices = devices_from_records (map Inr records)
       in andThen (unless (devices \<noteq> []) (HTTPException 400 ''No valid devices found in payload'')) (\<lambda>_.
          andThen (import_devices now devices) (\<lambda>imported. ret (map read_device imported))))"

definition api_list_devices :: "(db, device_read list) action" where
  "api_list_devices = committed (asks (\<lambda>d. map read_device (devices_by_ip d)))"

section \<open>The endpoints of the inventory\<close>

definition valid_import :: "import_request \<Rightarrow> bool" where
  "valid_import p \<longleftrightarrow> iq_source_type p \<in> {''csv'', ''xlsx'', ''json'', ''api''}"

definition api_import_inventory ::
  "(string \<Rightarrow> json option) \<Rightarrow> int \<Rightarrow> import_request \<Rightarrow> actor \<Rightarrow> (db, import_response) action" where
  "api_import_inventory loads now p a =
     fits (valid_import p) (endpoint Perm_manage_inventory a (import_inventory loads now p (username a)))"

definition api_list_import_batches :: "actor \<Rightarrow> (db, import_batch_read list) action" where
  "api_list_import_batches a =
     endpoint Perm_read_inventory a (asks (\<lambda>d. map read_import_batch (list_import_batches None d)))"

definition api_get_import_batch :: "string \<Rightarrow> actor \<Rightarrow> (db, import_batch_read) action" where
  "api_get_import_batch i a =
     endpoint Perm_read_inventory a
       (catching not_found_404 (andThen (get_import_batch (RefText i)) (\<lambda>b. ret (read_import_batch b))))"

definition api_list_import_rows :: "string \<Rightarrow> actor \<Rightarrow> (db, import_row_read list) action" where
  "api_list_import_rows i a =
     endpoint Perm_read_inventory a
       (catching not_found_404 (andThen (list_import_rows (RefText i)) (\<lambda>rows. ret (map read_import_row rows))))"

definition api_get_import_report ::
  "(string \<Rightarrow> json option) \<Rightarrow> string \<Rightarrow> actor \<Rightarrow> (db, import_report) action" where
  "api_get_import_report loads i a =
     endpoint Perm_read_inventory a (catching not_found_404 (build_import_report loads i None))"

definition api_get_driver_resolution_report ::
  "(string \<Rightarrow> json option) \<Rightarrow> string \<Rightarrow> actor \<Rightarrow> (db, driver_item list) action" where
  "api_get_driver_resolution_report loads i a =
     endpoint Perm_read_inventory a (catching not_found_404 (build_driver_resolution_report loads i))"

definition api_list_inventory_devices ::
  "string option \<Rightarrow> string option \<Rightarrow> actor \<Rightarrow> (db, inventory_device_read list) action" where
  "api_list_inventory_devices site tag a = endpoint Perm_read_inventory a (list_inventory site tag)"

definition api_get_inventory_device :: "string \<Rightarrow> actor \<Rightarrow> (db, inventory_device_read) action" where
  "api_get_inventory_device i a = endpoint Perm_read_inventory a (catching not_found_404 (get_inventory_device i))"

definition api_patch_inventory_device ::
  "int \<Rightarrow> string \<Rightarrow> device_patch \<Rightarrow> actor \<Rightarrow> (db, inventory_device_read) action" where
  "api_patch_inventory_device now i p a =
     endpoint Perm_manage_inventory a (catching not_found_404 (patch_device_metadata now i p))"

definition api_check_device_reachability :: "int \<Rightarrow> string \<Rightarrow> actor \<Rightarrow> (db, reachability) action" where
  "api_check_device_reachability now i a =
     endpoint Perm_run_discovery a (catching not_found_404 (check_device_reachability now (RefText i)))"

definition api_check_batch_reachability :: "int \<Rightarrow> string \<Rightarrow> actor \<Rightarrow> (db, reachability list) action" where
  "api_check_batch_reachability now i a =
     endpoint Perm_run_discovery a (catching not_found_404 (check_batch_reachability now i))"

definition api_get_discovery_report :: "int \<Rightarrow> string \<Rightarrow> actor \<Rightarrow> (db, reachability list) action" where
  "api_get_discovery_report now i a =
     endpoint Perm_read_inventory a (catching not_found_404 (build_discovery_report now i))"

end
