(* ===== verification/InventoryRuns.thy ===== *)
theory InventoryRuns
  imports InventoryRequests
begin

text \<open>
  What imports guarantee: devices stay apart (no address and no host name twice), a dry run leaves the inventory
  alone, every row of the batch is counted once, and addresses are stored in their canonical form.
\<close>

section \<open>Normalized data\<close>

lemma strip_id: "s \<noteq> [] \<Longrightarrow> \<not> is_space (hd s) \<Longrightarrow> \<not> is_space (last s) \<Longrightarrow> str_strip s = s"
proof -
  assume a: "s \<noteq> []" "\<not> is_space (hd s)" "\<not> is_space (last s)"
  then have "dropWhile is_space s = s" by (cases s) simp_all
  moreover have "dropWhile is_space (rev s) = rev s" using a(1,3) by (cases s rule: rev_cases) simp_all
  ultimately show ?thesis by (simp add: str_strip_def)
qed

lemma dropWhile_hd: "dropWhile p s \<noteq> [] \<Longrightarrow> \<not> p (hd (dropWhile p s))"
  by (induction s) auto

lemma last_dropWhile: "dropWhile p s \<noteq> [] \<Longrightarrow> last (dropWhile p s) = last s"
  by (induction s) auto

lemma stripped_ends: "str_strip s \<noteq> [] \<Longrightarrow> \<not> is_space (last (str_strip s))"
proof -
  assume a: "str_strip s \<noteq> []"
  then have "dropWhile is_space (rev (dropWhile is_space s)) \<noteq> []" by (simp add: str_strip_def)
  from dropWhile_hd [OF this] this show ?thesis by (simp add: str_strip_def last_rev)
qed

text \<open>The text of an address that was read from a stripped text needs no stripping.\<close>

lemma address_no_space: "c \<in> set (str_join '':'' (compress_hextets (map hex_str gs))) \<Longrightarrow> \<not> is_space c"
proof -
  assume c: "c \<in> set (str_join '':'' (compress_hextets (map hex_str gs)))"
  have "c \<notin> set h" if "is_space c" "h \<in> set (compress_hextets (map hex_str gs))" for h
  proof -
    have "h = [] \<or> h \<in> set (map hex_str gs)"
      using that(2) by (cases "map hex_str gs" rule: compress_cases) (auto split: if_splits)
    then obtain g where "h = [] \<or> h = hex_str g" by auto
    with hex_str_chars [of g] have "set h \<subseteq> set ''0123456789abcdef''" by (elim disjE) simp_all
    moreover have "list_all (\<lambda>x. \<not> is_space x) ''0123456789abcdef''" by (simp add: is_space_def)
    ultimately show ?thesis using that(1) unfolding list_all_iff by blast
  qed
  moreover have "\<not> is_space (CHR '':'')" by (simp add: is_space_def)
  then have "is_space c \<Longrightarrow> c \<notin> set '':''" by auto
  ultimately show ?thesis using c str_join_avoids [of "compress_hextets (map hex_str gs)" c "'':''"] by blast
qed

lemma str_join_two: "1 < length xs \<Longrightarrow> sep \<noteq> [] \<Longrightarrow> str_join sep xs \<noteq> []"
  by (induction sep xs rule: str_join.induct) auto

lemma address_not_Nil: "length gs = 8 \<Longrightarrow> str_join '':'' (compress_hextets (map hex_str gs)) \<noteq> []"
proof (rule str_join_two)
  show "length gs = 8 \<Longrightarrow> 1 < length (compress_hextets (map hex_str gs))"
    by (cases "map hex_str gs" rule: compress_cases) (auto simp: Suc_le_eq)
qed simp

lemma ip_text_strip:
  assumes "ip_address (str_strip s) = Some v" shows "str_strip (ip_text v) = ip_text v \<and> ip_text v \<noteq> []"
proof (cases v)
  case (IPv4 os)
  have "length os = 4" using ip_address_valid [OF assms] IPv4 by simp
  then obtain a b os' where os: "os = a # b # os'" by (auto simp: numeral_eq_Suc length_Suc_conv)
  have "c \<notin> set (ip_text v)" if "is_space c" for c
    unfolding IPv4 ip_text.simps
  proof (rule str_join_avoids)
    show "\<forall>x\<in>set (map nat_str os). c \<notin> set x" using that nat_str_digits digit_not_special by fastforce
    have "\<not> is_space (CHR ''.'')" by (simp add: is_space_def)
    with that show "c \<notin> set ''.''" by auto
  qed
  then show ?thesis using str_strip_no_space [of "ip_text v"] os IPv4 by auto
next
  case (IPv6 gs scope)
  have eight: "length gs = 8" using ip_address_valid [OF assms] IPv6 by simp
  note addr = address_not_Nil [OF eight] address_no_space [of _ gs]
  show ?thesis
  proof (cases scope)
    case None
    then show ?thesis using addr str_strip_no_space [of "ip_text v"] IPv6 by auto
  next
    case (Some z)
    have split: "split_scope (str_strip s) = Some (takeWhile (\<lambda>c. c \<noteq> CHR ''%'') (str_strip s), Some z)"
      using assms IPv6 Some by (auto simp: ip_address_def split_scope_def Let_def split: option.splits if_splits)
    then have z: "z = tl (dropWhile (\<lambda>c. c \<noteq> CHR ''%'') (str_strip s))" "z \<noteq> []"
      by (auto simp: split_scope_def Let_def split: if_splits)
    then have "dropWhile (\<lambda>c. c \<noteq> CHR ''%'') (str_strip s) \<noteq> []" by (metis list.sel(2))
    then have "last z = last (str_strip s)" using z last_dropWhile [of "\<lambda>c. c \<noteq> CHR ''%''" "str_strip s"]
      by (metis last_tl)
    moreover have "str_strip s \<noteq> []" using z by auto
    ultimately have "\<not> is_space (last z)" using stripped_ends by simp
    then show ?thesis using addr z(2) IPv6 Some by (intro conjI strip_id) auto
  qed
qed

lemma jget_update: "jget (AList.update k v d) j = (if j = k then v else jget d j)"
  by (simp add: jget_def update_conv')

lemma jget_update_dict: "j \<notin> fst ` set kvs \<Longrightarrow> jget (update_dict d kvs) j = jget d j"
  unfolding update_dict_def
  by (induction kvs arbitrary: d) (auto simp: jget_update split: prod.splits)

lemma record_data_keys:
  "jget (record_data loads canonical) ''hostname'' =
     (if column canonical ''hostname'' = [] then JNull else JStr (column canonical ''hostname''))"
  "jget (record_data loads canonical) ''management_ip'' = jget (fst (addressed canonical)) ''management_ip''"
  "jget (record_data loads canonical) ''site'' = empty_to_none (jget canonical ''site'')"
  "jget (record_data loads canonical) ''role'' = empty_to_none (jget canonical ''role'')"
  by (simp_all add: record_data_def Let_def jget_def)

lemma normalized_address:
  assumes "snd (addressed canonical) = []"
  obtains v where "ip_address (column canonical ''management_ip'') = Some v"
    "jget (fst (addressed canonical)) ''management_ip'' = JStr (ip_text v)"
  using assms by (auto simp: addressed_def Let_def jget_update split: if_splits option.splits)

text \<open>What the driver and the credential add leaves the address and the host name alone.\<close>

lemma jget_enriched:
  assumes "k \<in> {''management_ip'', ''hostname''}"
  shows "jget (with_credential c (with_driver m data)) k = jget data k"
  using assms unfolding with_credential_def with_driver_def Let_def
  by (auto simp: jget_update_dict item_fields_def)

section \<open>Actions that leave the inventory alone\<close>

definition inventory_quiet :: "db \<Rightarrow> db \<Rightarrow> bool" where
  "inventory_quiet d d' \<longleftrightarrow>
     t_device d' = t_device d \<and> t_credential d' = t_credential d \<and>
     t_credential_assignment d' = t_credential_assignment d \<and> db_next_id d \<le> db_next_id d'"

interpretation quiet_steps: progress inventory_quiet
  by unfold_locales (auto simp: inventory_quiet_def)

lemma quiet_basic:
  "within inventory_quiet fresh_id" "within inventory_quiet (get_by_ref look name r)"
  "within inventory_quiet (change (upd_import_row i f))" "within inventory_quiet (change (upd_import_batch i g))"
  "within inventory_quiet (change (\<lambda>d. d\<lparr>t_import_batch := t_import_batch d @ bs\<rparr>))"
  "within inventory_quiet (change (\<lambda>d. d\<lparr>t_import_row := t_import_row d @ rs\<rparr>))"
  by (auto simp: within_def fresh_id_def change_def inventory_quiet_def upd_import_row_def upd_import_batch_def
      get_by_ref_def query_def)

lemmas quiet_intros = quiet_steps.within_intros quiet_basic

lemma quiet_repository:
  "within inventory_quiet (create_import_batch now src file who)" "within inventory_quiet (add_import_rows now r items)"
  "within inventory_quiet (update_import_status r st err)" "within inventory_quiet (finish_import_batch now r st err)"
  "within inventory_quiet (list_import_rows r)" "within inventory_quiet (mark_import_row r st data err dev)"
  unfolding create_import_batch_def add_import_rows_def create_import_row_def update_import_status_def finish_import_batch_def
    list_import_rows_def mark_import_row_def get_import_batch_def get_import_row_def Let_def
  by (intro quiet_intros)+

lemma quiet_marks:
  "within inventory_quiet (mark_valid row data)" "within inventory_quiet (mark_invalid row err data)"
  "within inventory_quiet (mark_row_created r i)" "within inventory_quiet (mark_row_updated r i)"
  unfolding mark_valid_def mark_invalid_def mark_row_valid_def mark_row_invalid_def mark_row_created_def mark_row_updated_def
  by (intro quiet_intros quiet_repository)+

lemma quiet_dry_row: "within inventory_quiet (process_row loads now strict True row)"
  unfolding process_row_def Let_def if_True by (intro quiet_intros quiet_marks)

lemma quiet_report: "within inventory_quiet (build_import_report loads i b)"
  unfolding build_import_report_def validation_item_of_row_def get_import_batch_def Let_def
  by (intro quiet_intros quiet_repository)

lemma dry_import_quiet: "iq_dry_run p \<Longrightarrow> within inventory_quiet (import_inventory loads now p actr)"
  unfolding import_inventory_def
  by (rule ssubst [of "iq_dry_run p" True], simp) (intro quiet_intros quiet_repository quiet_report quiet_dry_row)

section \<open>Devices stay apart\<close>

definition addresses :: "device \<Rightarrow> string set" where
  "addresses dev = insert (dev_ip_address dev) (set_option (dev_management_ip dev))"

definition devices_apart :: "device \<Rightarrow> device \<Rightarrow> bool" where
  "devices_apart a b \<longleftrightarrow> addresses a \<inter> addresses b = {} \<and> (dev_hostname a = None \<or> dev_hostname a \<noteq> dev_hostname b)"

definition inventory_apart :: "db \<Rightarrow> bool" where
  "inventory_apart d \<longleftrightarrow>
     distinct (map dev_id (t_device d)) \<and> (\<forall>dev\<in>set (t_device d). dev_id dev < db_next_id d) \<and>
     (\<forall>a\<in>set (t_device d). \<forall>b\<in>set (t_device d). dev_id a \<noteq> dev_id b \<longrightarrow> devices_apart a b)"

lemma apart_sym: "devices_apart a b \<Longrightarrow> devices_apart b a"
  by (auto simp: devices_apart_def)

lemma has_address: "has_management_ip ip dev \<longleftrightarrow> ip \<in> addresses dev"
  by (auto simp: has_management_ip_def addresses_def)

lemma apart_quiet: "inventory_quiet d d' \<Longrightarrow> inventory_apart d \<Longrightarrow> inventory_apart d'"
  by (force simp: inventory_quiet_def inventory_apart_def)

lemma triple_quiet: "within inventory_quiet m \<Longrightarrow> triple inventory_apart m (\<lambda>_. inventory_apart)"
  using apart_quiet withinD by (metis tripleI)

lemma flushed_identity [simp]:
  "addresses (flushed_device now f dev) = addresses (f dev)" "dev_hostname (flushed_device now f dev) = dev_hostname (f dev)"
  by (simp_all add: flushed_device_def addresses_def)

lemma apart_update:
  assumes "inventory_apart d" "dev \<in> set (t_device d)" "\<And>x. dev_id (f x) = dev_id x"
    and "\<And>x. x \<in> set (t_device d) \<Longrightarrow> dev_id x \<noteq> dev_id dev \<Longrightarrow> devices_apart (f dev) x"
  shows "inventory_apart (upd_device (dev_id dev) f d)"
proof -
  have ids: "map dev_id (upd_row dev_id (dev_id dev) f (t_device d)) = map dev_id (t_device d)"
    using assms(3) by (rule map_upd_row)
  have own: "x = dev" if "x \<in> set (t_device d)" "dev_id x = dev_id dev" for x
    using assms(1,2) that by (auto simp: inventory_apart_def distinct_map dest: inj_onD)
  have "devices_apart a b"
    if "a \<in> set (upd_row dev_id (dev_id dev) f (t_device d))" "b \<in> set (upd_row dev_id (dev_id dev) f (t_device d))"
      "dev_id a \<noteq> dev_id b" for a b
    using that own assms(1,3,4) apart_sym by (auto simp: upd_row_def inventory_apart_def split: if_splits) blast+
  moreover have "\<forall>x\<in>set (upd_row dev_id (dev_id dev) f (t_device d)). dev_id x < db_next_id d"
    using assms(1,3) by (auto simp: upd_row_def inventory_apart_def)
  ultimately show ?thesis using assms(1) ids by (simp add: inventory_apart_def upd_device_def)
qed

lemma apart_same: "addresses a' = addresses a \<Longrightarrow> dev_hostname a' = dev_hostname a \<Longrightarrow> devices_apart a' b = devices_apart a b"
  by (simp add: devices_apart_def)

lemma addresses_status: "addresses (dev\<lparr>dev_credential_assignment_status := st\<rparr>) = addresses dev"
  by (simp add: addresses_def)

lemma apart_status:
  "triple inventory_apart (update_credential_assignment_status now r st) (\<lambda>_. inventory_apart)"
proof (rule tripleI)
  fix d x d' assume d: "inventory_apart d" and u: "update_credential_assignment_status now r st d = (Inr x, d')"
  let ?f = "flushed_device now (\<lambda>dev. dev\<lparr>dev_credential_assignment_status := st\<rparr>)"
  from u obtain dev where dev: "get_device_row r d = (Inr dev, d)" "d' = upd_device (dev_id dev) ?f d"
    by (auto simp: update_credential_assignment_status_def update_device_row_Inr)
  then have "dev \<in> set (t_device d)" by (auto simp: get_device_row_def get_by_ref_Inr dest: get_row_key)
  moreover have "devices_apart (?f dev) x = devices_apart dev x" for x by (rule apart_same) (simp_all add: addresses_status)
  ultimately show "inventory_apart d'"
    unfolding dev(2) using d by (intro apart_update) (auto simp: inventory_apart_def)
qed

lemma apart_assignment: "triple inventory_apart (create_assignment now c r v st n) (\<lambda>_. inventory_apart)"
  unfolding triple_def create_assignment_def
  by (auto simp: andThen_Inr Let_def inventory_apart_def less_Suc_eq)

text \<open>A device is stored under an address nobody else has and a host name nobody else has.\<close>

lemma find_hostname_sound:
  "find_by_hostname h d = Some dev \<Longrightarrow> dev \<in> set (t_device d) \<and> dev_hostname dev = Some h"
  by (auto simp: find_by_hostname_def find_Some_iff)

lemma find_address_sound:
  "find_by_management_ip ip d = Some dev \<Longrightarrow> dev \<in> set (t_device d) \<and> ip \<in> addresses dev"
  by (auto simp: find_by_management_ip_def find_Some_iff has_address)

lemma find_address_None: "find_by_management_ip ip d = None \<Longrightarrow> dev \<in> set (t_device d) \<Longrightarrow> ip \<notin> addresses dev"
  by (auto simp: find_by_management_ip_def find_None_iff has_address)

lemma find_hostname_None: "find_by_hostname h d = None \<Longrightarrow> dev \<in> set (t_device d) \<Longrightarrow> dev_hostname dev \<noteq> Some h"
  by (auto simp: find_by_hostname_def find_None_iff)

lemma metadata_identity:
  assumes "data_ip data \<noteq> []"
  shows "addresses (apply_metadata data dev) = {data_ip data}"
    "dev_hostname (apply_metadata data dev) = given_opt (dd_hostname data) (dev_hostname dev)"
    "dev_id (apply_metadata data dev) = dev_id dev"
  using assms by (simp_all add: apply_metadata_def Let_def addresses_def)

definition name_free :: "string option \<Rightarrow> string \<Rightarrow> db \<Rightarrow> bool" where
  "name_free hostname ip d \<longleftrightarrow>
     (\<forall>h dev. hostname = Some h \<and> find_by_hostname h d = Some dev \<longrightarrow>
        (\<exists>dev'. find_by_management_ip ip d = Some dev' \<and> dev_id dev' = dev_id dev))"

lemma upsert_apart:
  assumes "inventory_apart d" "name_free (dd_hostname data) ip d" "data_ip data = ip" "str_strip ip = ip" "ip \<noteq> []"
    and "upsert_device now data d = (Inr (dev, created), d')"
  shows "inventory_apart d'"
proof (cases "find_by_management_ip ip d")
  case (Some old)
  let ?f = "flushed_device now (apply_metadata data)"
  note found = find_address_sound [OF Some]
  have d': "d' = upd_device (dev_id old) ?f d"
    using assms(3-6) Some by (auto simp: upsert_device_def Let_def andThen_Inr)
  have "devices_apart (?f old) x" if x: "x \<in> set (t_device d)" "dev_id x \<noteq> dev_id old" for x
  proof -
    have devices_apart: "devices_apart old x" using assms(1) found x by (auto simp: inventory_apart_def)
    then have "ip \<notin> addresses x" using found by (auto simp: devices_apart_def)
    moreover have "dev_hostname x \<noteq> Some h" if h: "dd_hostname data = Some h" for h
    proof
      assume n: "dev_hostname x = Some h"
      then obtain y where y: "find_by_hostname h d = Some y" using x(1) find_hostname_None by (cases "find_by_hostname h d") auto
      with assms(2) h Some have "dev_id y = dev_id old" by (auto simp: name_free_def)
      moreover have "y \<in> set (t_device d)" "dev_hostname y = Some h" using find_hostname_sound [OF y] by simp_all
      ultimately have "devices_apart y x" using assms(1) x by (auto simp: inventory_apart_def)
      with n \<open>dev_hostname y = Some h\<close> show False by (simp add: devices_apart_def)
    qed
    then have "dev_hostname (?f old) = None \<or> dev_hostname (?f old) \<noteq> dev_hostname x"
      using devices_apart assms(3,5) by (cases "dd_hostname data") (auto simp: devices_apart_def metadata_identity)
    ultimately show ?thesis using assms(3,5) by (simp add: devices_apart_def metadata_identity)
  qed
  with assms(1,3,5) found show ?thesis
    unfolding d' by (intro apart_update) (simp_all add: metadata_identity flushed_device_id)
next
  case None
  let ?dev = "apply_metadata data (new_device now (db_next_id d) ip data)"
  have d': "t_device d' = t_device d @ [?dev]" "db_next_id d' = db_next_id d + 1"
    using assms(3-6) None by (auto simp: upsert_device_def Let_def andThen_Inr)
  have dev: "addresses ?dev = {ip}" "dev_hostname ?dev = dd_hostname data" "dev_id ?dev = db_next_id d"
    using assms(3,5) by (simp_all add: metadata_identity new_device_def split: option.splits)
  have "devices_apart ?dev x" if x: "x \<in> set (t_device d)" for x
  proof -
    have "dev_hostname x \<noteq> Some h" if "dd_hostname data = Some h" for h
      using assms(2) None that x find_hostname_None [of h d x] by (auto simp: name_free_def)
    then have "dev_hostname ?dev = None \<or> dev_hostname ?dev \<noteq> dev_hostname x"
      unfolding dev by (cases "dd_hostname data") auto
    then show ?thesis using find_address_None [OF None x] dev(1) by (simp add: devices_apart_def)
  qed
  then show ?thesis
    using assms(1) d' dev apart_sym by (auto simp: inventory_apart_def less_Suc_eq)
qed

lemma store_row_apart:
  assumes "jget data ''management_ip'' = JStr ip" "str_strip ip = ip" "ip \<noteq> []"
    and "jget data ''hostname'' = JNull \<or> (\<exists>h. h \<noteq> [] \<and> jget data ''hostname'' = JStr h)"
    and "inventory_apart d" "\<not> hostname_taken data d" "store_row now row data c d = (Inr (), d')"
  shows "inventory_apart d'"
proof -
  let ?d1 = "upd_import_row (ir_id row) (\<lambda>r. r\<lparr>ir_normalized_data := Some data\<rparr>) d"
  obtain p d2 where u: "upsert_device now (device_data_of data) ?d1 = (Inr p, d2)"
    and rest: "andThen (settle_credential now c (fst p)) (\<lambda>_.
      andThen ((if snd p then mark_row_created else mark_row_updated) (RefId (ir_id row)) (RefId (dev_id (fst p)))) (\<lambda>_. ret ())) d2
       = (Inr (), d')"
    using assms(7) unfolding store_row_def andThen_Inr [of "change _"] andThen_Inr [of "upsert_device _ _"] change_Inr by blast
  have "inventory_quiet d ?d1" by (simp add: inventory_quiet_def upd_import_row_def)
  then have d1: "inventory_apart ?d1" using assms(5) by (rule apart_quiet)
  have same: "find_by_hostname h ?d1 = find_by_hostname h d" "find_by_management_ip ip ?d1 = find_by_management_ip ip d" for h
    by (simp_all add: find_by_hostname_def find_by_management_ip_def upd_import_row_def)
  have "name_free (dd_hostname (device_data_of data)) ip ?d1"
    using assms(1,4,6)
    by (auto simp: name_free_def same device_data_of_def data_text_def hostname_taken_def Let_def split: option.splits)
  moreover have "data_ip (device_data_of data) = ip"
    using assms(1,3) by (simp add: data_ip_def device_data_of_def data_text_def or_empty_def)
  ultimately have d2: "inventory_apart d2" using upsert_apart [OF d1 _ _ assms(2,3)] u by (cases p) blast
  have settle: "triple inventory_apart (settle_credential now c (fst p)) (\<lambda>_. inventory_apart)"
    unfolding settle_credential_def
    by (cases "cm_id c") (auto simp: assign_credential_def intro!: triple_seq apart_status apart_assignment triple_ret)
  have mark: "triple inventory_apart ((if snd p then mark_row_created else mark_row_updated) r i) (\<lambda>_. inventory_apart)" for r i
    by (simp add: quiet_marks triple_quiet)
  have "triple inventory_apart (andThen (settle_credential now c (fst p)) (\<lambda>_.
      andThen ((if snd p then mark_row_created else mark_row_updated) (RefId (ir_id row)) (RefId (dev_id (fst p)))) (\<lambda>_. ret ())))
      (\<lambda>_. inventory_apart)"
    by (intro triple_seq settle mark triple_ret)
  then show ?thesis using d2 rest by (rule tripleD)
qed

lemma process_row_apart:
  "triple inventory_apart (process_row loads now strict b row) (\<lambda>_. inventory_apart)"
proof (rule tripleI)
  fix d x d' assume d: "inventory_apart d" and p: "process_row loads now strict b row d = (Inr x, d')"
  let ?canonical = "canonicalize_record (ir_raw_data row)"
  let ?data = "record_data loads ?canonical"
  let ?n = "normalize_inventory_record loads (ir_raw_data row)"
  have n: "nr_data ?n = ?data" "nr_valid ?n \<longleftrightarrow> snd (addressed ?canonical) = []" by (simp_all add: normalize_inventory_record_def Let_def)
  note marks = tripleD [OF triple_quiet [OF quiet_marks(1)] d] tripleD [OF triple_quiet [OF quiet_marks(2)] d]
  show "inventory_apart d'"
  proof (cases "nr_valid ?n")
    case False
    with p marks show ?thesis by (auto simp: process_row_def Let_def)
  next
    case True
    from n True obtain v where v: "ip_address (column ?canonical ''management_ip'') = Some v"
      "jget (fst (addressed ?canonical)) ''management_ip'' = JStr (ip_text v)" by (auto elim: normalized_address)
    have ip: "str_strip (ip_text v) = ip_text v" "ip_text v \<noteq> []" using v(1) ip_text_strip by (simp_all add: column_def)
    obtain m c where p': "(let data = with_credential c (with_driver m ?data) in
        if hostname_taken data d then mark_invalid row ''hostname already exists with a different management_ip'' data
        else if strict \<and> cm_status c = ''missing'' then mark_invalid row ''Credential not found'' data
        else if b then mark_valid row data else store_row now row data c) d = (Inr x, d')"
      using p True by (auto simp: process_row_def Let_def n andThen_Inr)
    let ?e = "with_credential c (with_driver m ?data)"
    have e: "jget ?e ''management_ip'' = JStr (ip_text v)"
      "jget ?e ''hostname'' = JNull \<or> (\<exists>h. h \<noteq> [] \<and> jget ?e ''hostname'' = JStr h)"
      by (simp_all add: jget_enriched record_data_keys v)
    from p' marks store_row_apart [OF e(1) ip e(2) d, of now row c d'] show ?thesis
      by (auto simp: Let_def split: if_splits)
  qed
qed

lemma import_apart:
  "triple inventory_apart (import_inventory loads now p actr) (\<lambda>_. inventory_apart)"
  unfolding import_inventory_def
  by (intro triple_seq triple_for_each process_row_apart triple_ret triple_quiet quiet_repository quiet_report)

lemma committed_triple:
  "triple P m (\<lambda>_. P) \<Longrightarrow> P d \<Longrightarrow> P (snd (committed m d))"
  by (auto simp: committed_state triple_def split: prod.splits sum.splits)

section \<open>Every row is counted once\<close>

text \<open>The batch has \<open>n\<close> rows, all with a status in \<open>S\<close>.\<close>

definition settled :: "uuid \<Rightarrow> nat \<Rightarrow> string set \<Rightarrow> db \<Rightarrow> bool" where
  "settled b n S d \<longleftrightarrow>
     length (filter (\<lambda>r. ir_batch_id r = b) (t_import_row d)) = n \<and>
     (\<forall>r\<in>set (t_import_row d). ir_batch_id r = b \<longrightarrow> ir_status r \<in> S)"

abbreviation stays_settled :: "uuid \<Rightarrow> nat \<Rightarrow> string set \<Rightarrow> db \<Rightarrow> db \<Rightarrow> bool" where
  "stays_settled b n S d d' \<equiv> (settled b n S d \<longrightarrow> settled b n S d')"

interpretation settling: progress "stays_settled b n S" for b n S
  by unfold_locales auto

lemma settled_update:
  assumes "\<And>r. ir_batch_id (f r) = ir_batch_id r" "\<And>r. ir_status (f r) = ir_status r \<or> ir_status (f r) \<in> S"
  shows "stays_settled b n S d (upd_import_row i f d)"
proof -
  have "length (filter (\<lambda>r. ir_batch_id r = b) (upd_row ir_id i f rows)) = length (filter (\<lambda>r. ir_batch_id r = b) rows)" for rows
    by (induction rows) (auto simp: upd_row_def assms(1))
  moreover have "ir_status r \<in> S" if "r \<in> set (upd_row ir_id i f (t_import_row d))" "ir_batch_id r = b" "settled b n S d" for r
    using that assms by (auto simp: settled_def upd_row_def split: if_splits) metis
  ultimately show ?thesis by (simp add: settled_def upd_import_row_def)
qed

lemma settling_basic:
  "within (stays_settled b n S) fresh_id" "within (stays_settled b n S) (get_by_ref look name r)"
  "within (stays_settled b n S) (change (upd_import_batch i g))" "within (stays_settled b n S) (change (upd_device j h))"
  "within (stays_settled b n S) (change (\<lambda>d. d\<lparr>t_credential_assignment := t_credential_assignment d @ as\<rparr>))"
  "within (stays_settled b n S) (change (\<lambda>d. d\<lparr>t_device := t_device d @ ds\<rparr>))"
  by (auto simp: within_def fresh_id_def change_def settled_def upd_import_batch_def upd_device_def get_by_ref_def query_def)

lemmas settling_intros = settling.within_intros settling_basic

lemma settling_mark: "st \<in> S \<Longrightarrow> within (stays_settled b n S) (mark_import_row r st data err dev)"
  unfolding mark_import_row_def get_import_row_def Let_def
  by (intro settling_intros within_change settled_update) simp_all

lemma settling_marks:
  "''valid'' \<in> S \<Longrightarrow> within (stays_settled b n S) (mark_valid row data)"
  "''invalid'' \<in> S \<Longrightarrow> within (stays_settled b n S) (mark_invalid row err data)"
  "''created'' \<in> S \<Longrightarrow> within (stays_settled b n S) (mark_row_created r i)"
  "''updated'' \<in> S \<Longrightarrow> within (stays_settled b n S) (mark_row_updated r i)"
  unfolding mark_valid_def mark_invalid_def mark_row_valid_def mark_row_invalid_def mark_row_created_def mark_row_updated_def
  by (auto intro!: settling.within_andThen settling.within_basic settling_mark)

lemma settling_devices:
  "within (stays_settled b n S) (update_device_row now r f)" "within (stays_settled b n S) (upsert_device now data)"
  unfolding update_device_row_def upsert_device_def get_device_row_def Let_def by (intro settling_intros)+

lemma settling_store:
  assumes "{''created'', ''updated''} \<subseteq> S" shows "within (stays_settled b n S) (store_row now row data c)"
proof -
  have "within (stays_settled b n S) (settle_credential now c dev)" for dev
    unfolding settle_credential_def assign_credential_def create_assignment_def update_credential_assignment_status_def Let_def
    by (intro settling_intros settling_devices)
  moreover have "within (stays_settled b n S) (change (upd_import_row i (\<lambda>r. r\<lparr>ir_normalized_data := Some data\<rparr>)))" for i
    by (intro within_change settled_update) simp_all
  moreover have "within (stays_settled b n S) ((if x then mark_row_created else mark_row_updated) r i)" for x r i
    using assms by (simp add: settling_marks)
  ultimately show ?thesis unfolding store_row_def by (intro settling_intros settling_devices)
qed

definition row_statuses :: "bool \<Rightarrow> string set" where
  "row_statuses dry = (if dry then {''valid'', ''invalid''} else {''valid'', ''invalid'', ''created'', ''updated''})"

lemma settling_row: "within (stays_settled b n (row_statuses dry)) (process_row loads now strict dry row)"
proof -
  have S: "''valid'' \<in> row_statuses dry" "''invalid'' \<in> row_statuses dry" "{''created'', ''updated''} \<subseteq> row_statuses False"
    by (simp_all add: row_statuses_def)
  have "within (stays_settled b n (row_statuses dry)) (if dry then mark_valid row data else store_row now row data c)" for data c
    using S settling_store [OF S(3)] by (cases dry) (simp_all add: settling_marks)
  note last_step = this
  show ?thesis unfolding process_row_def Let_def
    by (rule settling.within_if [OF settling_marks(2) [OF S(2)]])
      (rule settling.within_andThen [OF settling.within_basic(4)] settling.within_andThen [OF settling.within_basic(3)]
         settling.within_if settling_marks(2) S(2) last_step)+
qed

lemma created_rows:
  "for_each (create_import_row now b) ps d = (Inr rows, d') \<Longrightarrow>
   t_import_row d' = t_import_row d @ rows \<and> length rows = length ps \<and>
   (\<forall>r\<in>set rows. ir_batch_id r = b \<and> ir_status r = ''valid'')"
proof (induction ps arbitrary: d rows)
  case (Cons p ps)
  then obtain row rest d1 where row: "create_import_row now b p d = (Inr row, d1)"
    and rest: "for_each (create_import_row now b) ps d1 = (Inr rest, d')" and "rows = row # rest"
    by (auto simp: andThen_Inr)
  moreover from row have "t_import_row d1 = t_import_row d @ [row]" "ir_batch_id row = b" "ir_status row = ''valid''"
    by (auto simp: create_import_row_def andThen_Inr Let_def)
  ultimately show ?case using Cons.IH [OF rest] by simp
qed simp

lemma import_settles:
  assumes fresh: "\<forall>r\<in>set (t_import_row d). ir_batch_id r < db_next_id d"
    and run: "import_inventory loads now p actr d = (Inr res, d')"
  obtains rows b0 where "is_batch res = read_import_batch (finished_batch now rows (if iq_dry_run p then ''validated'' else ''imported'') None b0)"
    "length rows = length (iq_items p)" "\<forall>r\<in>set rows. ir_status r \<in> row_statuses (iq_dry_run p)"
proof -
  let ?b = "db_next_id d" and ?S = "row_statuses (iq_dry_run p)" and ?n = "length (iq_items p)"
  obtain b d1 rows d2 b2 d3 xs d4 b5 d5 where
    b: "create_import_batch now (iq_source_type p) (iq_filename p) (Some actr) d = (Inr b, d1)" and
    rows: "add_import_rows now (RefId (ib_id b)) (parse_items (iq_items p)) d1 = (Inr rows, d2)" and
    parsed: "update_import_status (RefId (ib_id b)) ''parsed'' None d2 = (Inr b2, d3)" and
    done': "for_each (process_row loads now (iq_strict p) (iq_dry_run p)) rows d3 = (Inr xs, d4)" and
    fin: "finish_import_batch now (RefId (ib_id b)) (if iq_dry_run p then ''validated'' else ''imported'') None d4 = (Inr b5, d5)" and
    res: "is_batch res = read_import_batch b5"
    using run unfolding import_inventory_def andThen_Inr ret_Inr by (elim exE conjE) simp
  from b have b': "ib_id b = ?b" "t_import_row d1 = t_import_row d"
    by (auto simp: create_import_batch_def andThen_Inr Let_def)
  have "settled ?b ?n ?S d2"
  proof -
    from rows obtain d2' where c: "for_each (create_import_row now ?b) (zip (map int [1..<Suc ?n]) (parse_items (iq_items p))) d1 = (Inr rows, d2')"
      and same: "t_import_row d2 = t_import_row d2'"
      by (auto simp: add_import_rows_def b' andThen_Inr parse_items_def upd_import_batch_def get_import_batch_def get_by_ref_Inr)
    from created_rows [OF c] same b'(2) have "t_import_row d2 = t_import_row d @ rows" "length rows = ?n"
      "\<forall>r\<in>set rows. ir_batch_id r = ?b \<and> ir_status r = ''valid''" by (simp_all add: parse_items_def del: upt_Suc)
    moreover have "filter (\<lambda>r. ir_batch_id r = ?b) (t_import_row d) = []" using fresh by (auto simp: filter_empty_conv)
    ultimately show ?thesis using fresh by (auto simp: settled_def row_statuses_def filter_id_conv)
  qed
  moreover have status: "within (stays_settled ?b ?n ?S) (update_import_status r st e)" for r st e
    unfolding update_import_status_def get_import_batch_def Let_def by (intro settling_intros)
  ultimately have "settled ?b ?n ?S d3" using withinD [OF status parsed] by simp
  moreover have process: "within (stays_settled ?b ?n ?S) (for_each (process_row loads now (iq_strict p) (iq_dry_run p)) rows)"
    by (intro settling_intros settling_row)
  ultimately have "settled ?b ?n ?S d4" using withinD [OF process done'] by simp
  moreover from fin obtain b4 where "b5 = finished_batch now (rows_of_batch ?b d4) (if iq_dry_run p then ''validated'' else ''imported'') None b4"
    by (auto simp: finish_import_batch_def andThen_Inr list_import_rows_def b' Let_def get_import_batch_def get_by_ref_Inr)
  ultimately show ?thesis using res by (intro that) (auto simp: settled_def rows_of_batch_def)
qed

lemma count_partition:
  "\<forall>r\<in>set rows. ir_status r \<in> set (A @ B) \<Longrightarrow> set A \<inter> set B = {} \<Longrightarrow> count_rows A rows + count_rows B rows = int (length rows)"
  by (induction rows) (auto simp: count_rows_def)

lemma count_none: "\<forall>r\<in>set rows. ir_status r \<notin> set A \<Longrightarrow> count_rows A rows = 0"
  by (simp add: count_rows_def filter_empty_conv)

lemma count_union: "set A \<inter> set B = {} \<Longrightarrow> set A \<union> set B \<subseteq> set C \<Longrightarrow> count_rows A rows + count_rows B rows \<le> count_rows C rows"
  by (induction rows) (auto simp: count_rows_def)

section \<open>A dry run always returns\<close>

definition textual :: "json \<Rightarrow> bool" where
  "textual v \<longleftrightarrow> (\<exists>x. opt_field v = Inr x)"

lemma textual_simps [simp]: "textual JNull" "textual (JStr s)" "textual (empty_to_none v)"
  by (simp_all add: textual_def opt_field_def empty_to_none_def Let_def)

lemma textual_or_else: "textual a \<Longrightarrow> textual b \<Longrightarrow> textual (or_else a b)"
  by (simp add: or_else_def)

lemma resolve_item_returns:
  assumes "textual (jget data ''hostname'')" "textual (jget data ''site'')" "textual (jget data ''role'')"
    and "textual (jget data ''management_ip'')" "textual (jget data ''ip_address'')"
  shows "\<exists>m. resolve_item data a b = Inr m"
  using assms textual_or_else [OF assms(4,5)]
  by (auto simp: resolve_item_def data_input_def textual_def Let_def split: prod.splits)

text \<open>Data of a row that a report can show.\<close>

definition readable :: "jobj \<Rightarrow> bool" where
  "readable data \<longleftrightarrow> data \<noteq> [] \<and> (\<forall>a b. \<exists>m. resolve_item data a b = Inr m) \<and>
     (\<forall>payload. jget data ''credential'' = JObj payload \<longrightarrow> (\<exists>c. metadata_of_json payload = Inr c))"

lemma metadata_round: "metadata_of_json (metadata_json c) = Inr c"
  by (cases "cm_id c"; cases "cm_name c"; cases "cm_username c")
    (simp_all add: metadata_of_json_def metadata_json_def jget_def opt_field_def str_opt_def)

text \<open>A text, or nothing, in the column of the address.\<close>

definition text_address :: "jobj \<Rightarrow> bool" where
  "text_address rec \<longleftrightarrow> textual (jget (canonicalize_record rec) ''management_ip'')"

lemma column_targets: "column_of k \<noteq> Some ''ip_address''"
proof -
  have "''ip_address'' \<notin> set (map snd CANONICAL_FIELD_ALIASES)" by (simp add: CANONICAL_FIELD_ALIASES_def)
  then have "map_of CANONICAL_FIELD_ALIASES x \<noteq> Some ''ip_address''" for x by (force dest: map_of_SomeD)
  then show ?thesis by (auto simp: column_of_def Let_def split: option.splits)
qed

lemma no_second_address: "jget (canonicalize_record rec) ''ip_address'' = JNull"
proof -
  have "jget d ''ip_address'' = JNull \<Longrightarrow>
      jget (foldl (\<lambda>canonical (k, v). case column_of k of None \<Rightarrow> canonical | Some t \<Rightarrow> AList.update t v canonical) d rec) ''ip_address'' = JNull" for d
    using column_targets by (induction rec arbitrary: d) (auto simp: jget_update split: option.splits prod.splits)
  from this [of "[]"] show ?thesis by (simp add: canonicalize_record_def jget_def)
qed

lemma addressed_textual:
  assumes "text_address rec"
  shows "textual (jget (fst (addressed (canonicalize_record rec))) ''management_ip'')"
    "textual (jget (fst (addressed (canonicalize_record rec))) ''ip_address'')"
  using assms by (auto simp: addressed_def Let_def text_address_def no_second_address jget_update split: option.splits)

lemma record_data_textual:
  assumes "text_address rec" "k \<in> {''hostname'', ''site'', ''role'', ''management_ip'', ''ip_address''}"
  shows "textual (jget (record_data loads (canonicalize_record rec)) k)"
proof -
  have "jget (record_data loads c) ''ip_address'' = jget (fst (addressed c)) ''ip_address''" for c
    by (simp add: record_data_def Let_def jget_def)
  then show ?thesis using assms(2) addressed_textual [OF assms(1)] by (auto simp: record_data_keys)
qed

lemma jget_enriched_more:
  assumes "k \<in> {''hostname'', ''site'', ''role'', ''management_ip'', ''ip_address''}"
  shows "jget (with_credential c (with_driver m data)) k = jget data k"
  using assms unfolding with_credential_def with_driver_def Let_def
  by (auto simp: jget_update_dict item_fields_def)

lemma enriched_credential: "jget (with_credential c data) ''credential'' = JObj (metadata_json c)"
  by (simp add: with_credential_def Let_def update_dict_def jget_update)

lemma jget_not_Nil: "jget data k = JObj x \<Longrightarrow> data \<noteq> []"
  by (auto simp: jget_def)

lemma readable_record: "text_address rec \<Longrightarrow> readable (record_data loads (canonicalize_record rec))"
proof -
  assume "text_address rec"
  note t = record_data_textual [OF this]
  have "record_data loads c \<noteq> []" "jget (record_data loads c) ''credential'' = JNull" for c
    by (simp_all add: record_data_def Let_def jget_def)
  then show ?thesis using resolve_item_returns t by (simp add: readable_def)
qed

lemma readable_enriched: "text_address rec \<Longrightarrow> readable (with_credential c (with_driver m (record_data loads (canonicalize_record rec))))"
proof -
  assume "text_address rec"
  note t = record_data_textual [OF this]
  show ?thesis
    using resolve_item_returns t jget_not_Nil [OF enriched_credential] metadata_round
    by (simp add: readable_def jget_enriched_more enriched_credential)
qed

definition marked :: "string \<Rightarrow> jobj \<Rightarrow> string option \<Rightarrow> import_row \<Rightarrow> import_row" where
  "marked st data err r = r\<lparr>ir_status := st, ir_normalized_data := Some data, ir_error_message := err\<rparr>"

lemma mark_row_returns:
  assumes "find_import_row d (ir_id row) = Some r"
  shows "mark_valid row data d = (Inr (), upd_import_row (ir_id row) (marked ''valid'' data None) d)"
    "mark_invalid row e data d = (Inr (), upd_import_row (ir_id row) (marked ''invalid'' data (Some e)) d)"
proof -
  have id: "ir_id r = ir_id row" using get_row_key [OF assms] by simp
  show "mark_valid row data d = (Inr (), upd_import_row (ir_id row) (marked ''valid'' data None) d)"
    "mark_invalid row e data d = (Inr (), upd_import_row (ir_id row) (marked ''invalid'' data (Some e)) d)"
    using assms id
    by (simp_all add: mark_valid_def mark_row_valid_def mark_invalid_def mark_row_invalid_def mark_import_row_def
        get_import_row_def get_by_ref_def andThen_def query_def change_def ret_def optional_ref_def marked_def [abs_def])
qed

text \<open>A dry run of a stored row marks it, with data that can be shown.\<close>

lemma dry_row_marks:
  assumes "text_address (ir_raw_data row)" "find_import_row d (ir_id row) \<noteq> None"
  shows "\<exists>st data err. process_row loads now strict True row d = (Inr (), upd_import_row (ir_id row) (marked st data err) d) \<and> readable data"
proof -
  let ?n = "normalize_inventory_record loads (ir_raw_data row)" and ?data = "record_data loads (canonicalize_record (ir_raw_data row))"
  have n: "nr_data ?n = ?data" by (simp add: normalize_inventory_record_def Let_def)
  from assms(2) obtain r where r: "find_import_row d (ir_id row) = Some r" by auto
  note marks = mark_row_returns [OF r]
  have pick: "\<exists>st err. (if A then mark_invalid row e data else if B then mark_invalid row e' data else mark_valid row data) d
      = (Inr (), upd_import_row (ir_id row) (marked st data err) d)" for A B e e' data
    using marks by auto
  show ?thesis
  proof (cases "nr_valid ?n")
    case False
    then show ?thesis using marks readable_record [OF assms(1), of loads] by (force simp: process_row_def Let_def n)
  next
    case True
    obtain m where m: "resolve_item ?data (Some (uuid_str (ir_id row))) None = Inr m"
      using readable_record [OF assms(1), of loads] by (force simp: readable_def)
    let ?c = "credential_metadata (jget ?data ''credential_name'') d"
    let ?e = "with_credential ?c (with_driver m ?data)"
    let ?step = "if hostname_taken ?e d then mark_invalid row ''hostname already exists with a different management_ip'' ?e
         else if strict \<and> cm_status ?c = ''missing'' then mark_invalid row ''Credential not found'' ?e
         else mark_valid row ?e"
    have "process_row loads now strict True row d = ?step d"
      using True m by (simp add: process_row_def Let_def n andThen_def query_def asks_def)
    moreover have "\<exists>st err. ?step d = (Inr (), upd_import_row (ir_id row) (marked st ?e err) d)" by (rule pick)
    moreover have "readable ?e" by (rule readable_enriched [OF assms(1)])
    ultimately show ?thesis by metis
  qed
qed

lemma marked_keeps [simp]:
  "ir_id (marked st data err r) = ir_id r" "ir_batch_id (marked st data err r) = ir_batch_id r"
  "ir_raw_data (marked st data err r) = ir_raw_data r" "ir_normalized_data (marked st data err r) = Some data"
  by (simp_all add: marked_def)

definition showable :: "(string \<Rightarrow> json option) \<Rightarrow> import_row \<Rightarrow> bool" where
  "showable loads r \<longleftrightarrow>
     (case ir_normalized_data r of None \<Rightarrow> text_address (ir_raw_data r) | Some data \<Rightarrow> readable data)"

lemma showable_item:
  assumes "showable loads r" shows "\<exists>v. validation_item_of_row loads r d = (Inr v, d)"
proof -
  have "\<exists>m. driver_item_of_row loads r = Inr m"
    using assms readable_record [of "ir_raw_data r" loads]
    by (auto simp: showable_def driver_item_of_row_def Let_def or_nil_def readable_def normalize_inventory_record_def split: option.splits)
  moreover have "\<exists>c. metadata_of_json payload = Inr c" if "jget (or_nil (ir_normalized_data r)) ''credential'' = JObj payload" for payload
    using that assms by (auto simp: showable_def readable_def or_nil_def jget_def split: option.splits)
  ultimately show ?thesis
    by (cases "jget (or_nil (ir_normalized_data r)) ''credential''")
      (auto simp: validation_item_of_row_def andThen_def query_def ret_def Let_def)
qed

lemma for_each_returns: "\<forall>x\<in>set xs. \<exists>y. f x d = (Inr y, d) \<Longrightarrow> \<exists>ys. for_each f xs d = (Inr ys, d)"
  by (induction xs) (auto simp: andThen_def ret_def)

lemma dry_rows_return:
  assumes "\<forall>row\<in>set rows. text_address (ir_raw_data row) \<and> find_import_row d (ir_id row) \<noteq> None"
    and "\<forall>r\<in>set (t_import_row d). ir_batch_id r = b \<longrightarrow> showable loads r"
  shows "\<exists>xs d'. for_each (process_row loads now strict True) rows d = (Inr xs, d') \<and> t_import_batch d' = t_import_batch d \<and>
    (\<forall>r\<in>set (t_import_row d'). ir_batch_id r = b \<longrightarrow> showable loads r)"
  using assms
proof (induction rows arbitrary: d)
  case (Cons row rows)
  obtain st data err where step: "process_row loads now strict True row d = (Inr (), upd_import_row (ir_id row) (marked st data err) d)"
    and read: "readable data" using dry_row_marks [of row d loads now strict] Cons.prems(1) by auto
  let ?d = "upd_import_row (ir_id row) (marked st data err) d"
  have "find_import_row ?d i \<noteq> None" if "find_import_row d i \<noteq> None" for i
    using that by (auto simp: import_row_rows.get_upd split: if_splits)
  moreover have "showable loads r" if "r \<in> set (t_import_row ?d)" "ir_batch_id r = b" for r
    using that read Cons.prems(2) by (auto simp: upd_import_row_def upd_row_def showable_def split: if_splits)
  ultimately obtain xs d' where rest: "for_each (process_row loads now strict True) rows ?d = (Inr xs, d')"
    "t_import_batch d' = t_import_batch ?d" "\<forall>r\<in>set (t_import_row d'). ir_batch_id r = b \<longrightarrow> showable loads r"
    using Cons.IH [of ?d] Cons.prems(1) by auto
  then show ?case using step by (auto simp: andThen_def ret_def upd_import_row_def)
qed (auto simp: ret_def)

lemma create_rows_return:
  "\<exists>rows d'. for_each (create_import_row now b) ps d = (Inr rows, d') \<and> t_import_batch d' = t_import_batch d \<and>
     (\<forall>row\<in>set rows. \<exists>p\<in>set ps. ir_raw_data row = snd p \<and> ir_normalized_data row = None)"
proof (induction ps arbitrary: d)
  case (Cons p ps)
  obtain row d1 where step: "create_import_row now b p d = (Inr row, d1)" "ir_raw_data row = snd p" "ir_normalized_data row = None"
    "t_import_batch d1 = t_import_batch d"
    by (simp add: create_import_row_def andThen_def fresh_id_def change_def ret_def Let_def)
  from Cons.IH [of d1] obtain rows d' where "for_each (create_import_row now b) ps d1 = (Inr rows, d')"
    "t_import_batch d' = t_import_batch d1" "\<forall>row\<in>set rows. \<exists>p\<in>set ps. ir_raw_data row = snd p \<and> ir_normalized_data row = None"
    by blast
  with step show ?case
    by (intro exI [of _ "row # rows"] exI [of _ d']) (auto simp: andThen_def ret_def)
qed (simp add: ret_def)

lemma stored_row_found: "row \<in> set (t_import_row d) \<Longrightarrow> find_import_row d (ir_id row) \<noteq> None"
  by (auto simp: get_row_None)

lemma batch_found:
  assumes "t_import_batch d = bs @ [b]" shows "\<exists>b'. get_import_batch (RefId (ib_id b)) d = (Inr b', d) \<and> ib_id b' = ib_id b"
proof -
  have "find_import_batch d (ib_id b) \<noteq> None" using assms by (auto simp: get_row_None)
  then obtain b' where "find_import_batch d (ib_id b) = Some b'" by auto
  then show ?thesis using get_row_key by (fastforce simp: get_import_batch_def get_by_ref_def query_def)
qed

lemma add_rows_return:
  assumes "t_import_batch d = bs @ [b]" "\<forall>r\<in>set (t_import_row d). ir_batch_id r \<noteq> ib_id b"
    and "\<forall>item\<in>set items. text_address item"
  shows "\<exists>rows d'. add_import_rows now (RefId (ib_id b)) items d = (Inr rows, d') \<and>
    (\<forall>row\<in>set rows. text_address (ir_raw_data row) \<and> find_import_row d' (ir_id row) \<noteq> None) \<and>
    (\<forall>r\<in>set (t_import_row d'). ir_batch_id r = ib_id b \<longrightarrow> showable loads r) \<and>
    find_import_batch d' (ib_id b) \<noteq> None"
proof -
  let ?ps = "zip (map int [1..<Suc (length items)]) items"
  obtain rows d1 where run: "for_each (create_import_row now (ib_id b)) ?ps d = (Inr rows, d1)"
    and kept: "t_import_batch d1 = bs @ [b]" and raw: "\<forall>row\<in>set rows. \<exists>p\<in>set ?ps. ir_raw_data row = snd p \<and> ir_normalized_data row = None"
    using create_rows_return [of now "ib_id b" ?ps d] assms(1) by auto
  from raw assms(3) have good: "text_address (ir_raw_data row) \<and> ir_normalized_data row = None" if "row \<in> set rows" for row
    using that by (fastforce dest: set_zip_rightD)
  from created_rows [OF run] have table: "t_import_row d1 = t_import_row d @ rows" by simp
  obtain b' where b': "get_import_batch (RefId (ib_id b)) d1 = (Inr b', d1)" "ib_id b' = ib_id b" using batch_found [OF kept] by auto
  let ?d = "upd_import_batch (ib_id b) (\<lambda>b. b\<lparr>ib_total_rows := int (length rows)\<rparr>) d1"
  have "add_import_rows now (RefId (ib_id b)) items d = (Inr rows, ?d)"
    using run b' by (simp add: add_import_rows_def andThen_def query_def change_def ret_def)
  moreover have same: "t_import_row ?d = t_import_row d @ rows" by (simp add: upd_import_batch_def table)
  moreover have "\<forall>row\<in>set rows. find_import_row ?d (ir_id row) \<noteq> None"
    using same by (intro ballI stored_row_found) simp
  moreover have "\<forall>r\<in>set (t_import_row ?d). ir_batch_id r = ib_id b \<longrightarrow> showable loads r"
    using assms(2) good unfolding same by (auto simp: showable_def)
  moreover have "find_import_batch ?d (ib_id b) \<noteq> None"
    using kept by (auto simp: get_row_None upd_import_batch_def upd_row_def)
  ultimately show ?thesis using good by blast
qed

lemma dry_import_runs:
  assumes "iq_dry_run p" "\<forall>item\<in>set (iq_items p). text_address (canonicalize_record item)"
    and "\<forall>r\<in>set (t_import_row d). ir_batch_id r < db_next_id d" "db_next_id d < 2 ^ 128"
  shows "\<exists>res d'. import_inventory loads now p actr d = (Inr res, d')"
proof -
  let ?B = "db_next_id d" and ?create = "create_import_batch now (iq_source_type p) (iq_filename p) (Some actr) d"
  obtain b where b: "?create = (Inr b, d\<lparr>db_next_id := Suc ?B, t_import_batch := t_import_batch d @ [b]\<rparr>)" "ib_id b = ?B"
    by (simp add: create_import_batch_def andThen_def fresh_id_def change_def ret_def Let_def)
  let ?d1 = "d\<lparr>db_next_id := Suc ?B, t_import_batch := t_import_batch d @ [b]\<rparr>"
  have "\<forall>r\<in>set (t_import_row d). ir_batch_id r \<noteq> ?B" using assms(3) by auto
  then obtain rows d2 where rows: "add_import_rows now (RefId (ib_id b)) (parse_items (iq_items p)) ?d1 = (Inr rows, d2)"
    and good: "\<forall>row\<in>set rows. text_address (ir_raw_data row) \<and> find_import_row d2 (ir_id row) \<noteq> None"
    and shown: "\<forall>r\<in>set (t_import_row d2). ir_batch_id r = ?B \<longrightarrow> showable loads r"
    and found: "find_import_batch d2 ?B \<noteq> None"
    using add_rows_return [of ?d1 "t_import_batch d" b "parse_items (iq_items p)" now loads] assms(2) b(2)
    by (auto simp: parse_items_def)
  from found obtain b2 where b2: "find_import_batch d2 ?B = Some b2" by auto
  let ?f = "\<lambda>b. b\<lparr>ib_status := ''parsed'', ib_error_summary := given_opt None (ib_error_summary b)\<rparr>"
  let ?d3 = "upd_import_batch ?B ?f d2"
  have status: "update_import_status (RefId ?B) ''parsed'' None d2 = (Inr (?f b2), ?d3)"
    using b2 get_row_key [OF b2]
    by (simp add: update_import_status_def get_import_batch_def get_by_ref_def andThen_def query_def change_def ret_def Let_def)
  have "t_import_row ?d3 = t_import_row d2" by (simp add: upd_import_batch_def)
  then obtain xs d4 where run: "for_each (process_row loads now (iq_strict p) True) rows ?d3 = (Inr xs, d4)"
    and batches: "t_import_batch d4 = t_import_batch ?d3" and show4: "\<forall>r\<in>set (t_import_row d4). ir_batch_id r = ?B \<longrightarrow> showable loads r"
    using dry_rows_return [of rows ?d3 ?B loads now "iq_strict p"] good shown by auto
  have "find_import_batch ?d3 ?B = Some (?f b2)" using b2 by (simp add: import_batch_rows.get_upd)
  then have b4: "find_import_batch d4 ?B = Some (?f b2)" using batches by simp
  let ?g = "finished_batch now (rows_of_batch ?B d4) ''validated'' None" let ?d5 = "upd_import_batch ?B ?g d4"
  have fin: "finish_import_batch now (RefId ?B) ''validated'' None d4 = (Inr (?g (?f b2)), ?d5)"
    using b4 get_row_key [OF b4]
    by (simp add: finish_import_batch_def get_import_batch_def list_import_rows_def get_by_ref_def andThen_def query_def asks_def change_def ret_def Let_def)
  have id: "ib_id (?g (?f b2)) = ?B" using get_row_key [OF b2] by (simp add: finished_batch_def)
  have b5: "find_import_batch ?d5 ?B = Some (?g (?f b2))" using b4 by (simp add: import_batch_rows.get_upd finished_batch_def)
  have rows5: "rows_of_batch ?B ?d5 = rows_of_batch ?B d4" by (simp add: rows_of_batch_def upd_import_batch_def)
  have "\<forall>r\<in>set (rows_of_batch ?B d4). \<exists>v. validation_item_of_row loads r ?d5 = (Inr v, ?d5)"
    using show4 showable_item by (auto simp: rows_of_batch_def)
  then obtain items where items: "for_each (validation_item_of_row loads) (rows_of_batch ?B d4) ?d5 = (Inr items, ?d5)"
    using for_each_returns [of "rows_of_batch ?B d4" "validation_item_of_row loads" ?d5] by auto
  have report: "\<exists>rep. build_import_report loads (uuid_str ?B) (Some True) ?d5 = (Inr rep, ?d5)"
    using b5 items coerce_ref_text [OF assms(4)]
    by (simp add: build_import_report_def get_import_batch_def list_import_rows_def get_by_ref_def andThen_def query_def
        asks_def ret_def rows5 del: coerce_ref.simps)
  then show ?thesis
    using assms(1) b rows status run fin id by (auto simp: import_inventory_def andThen_def ret_def)
qed

section \<open>Properties\<close>

text \<open>
  C29.  Imports keep the devices apart: if no two devices of the inventory share an address or a host name, then none do
  after the import endpoint has answered, whatever it was sent and whether it succeeded, refused or failed.
\<close>

theorem import_keeps_inventory_apart:
  assumes "inventory_apart d"
  shows "inventory_apart (snd (api_import_inventory loads now p a d))"
proof -
  have "triple inventory_apart (andThen (query (\<lambda>_. require_permission a Perm_manage_inventory)) (\<lambda>_. import_inventory loads now p (username a)))
      (\<lambda>_. inventory_apart)"
    by (intro triple_seq triple_query import_apart) simp
  from committed_triple [OF this assms] assms show ?thesis
    by (simp add: api_import_inventory_def fits_def endpoint_def raise_def)
qed

text \<open>
  C30.  A dry run of an import always returns, and it neither adds nor changes a device, a credential or an assignment:
  when the column of the address holds text or nothing in every record, the reply counts every record exactly once, as valid or
  as invalid, and no device as created or updated.
\<close>

theorem dry_import_reports:
  assumes "iq_dry_run p" "list_all (\<lambda>item. text_address (canonicalize_record item)) (iq_items p)"
    and "list_all (\<lambda>r. ir_batch_id r < db_next_id d) (t_import_row d)" "db_next_id d < 2 ^ 128"
  shows "\<exists>res d'. import_inventory loads now p actr d = (Inr res, d') \<and>
    t_device d' = t_device d \<and> t_credential d' = t_credential d \<and> t_credential_assignment d' = t_credential_assignment d \<and>
    by_total_rows (is_batch res) = int (length (iq_items p)) \<and>
    by_valid_rows (is_batch res) + by_invalid_rows (is_batch res) = by_total_rows (is_batch res) \<and>
    by_created_devices (is_batch res) = 0 \<and> by_updated_devices (is_batch res) = 0"
proof -
  obtain res d' where run: "import_inventory loads now p actr d = (Inr res, d')"
    using dry_import_runs [of p d loads now actr] assms by (auto simp: list_all_iff)
  have "inventory_quiet d d'" using dry_import_quiet [OF assms(1)] run by (rule withinD)
  moreover obtain rows b0 where "is_batch res = read_import_batch (finished_batch now rows ''validated'' None b0)"
    "length rows = length (iq_items p)" "\<forall>r\<in>set rows. ir_status r \<in> {''valid'', ''invalid''}"
    using import_settles [OF _ run] assms(1,3) by (auto simp: list_all_iff row_statuses_def)
  moreover from this(3) have "count_rows [''valid'', ''created'', ''updated'', ''skipped''] rows
      + count_rows [''invalid'', ''failed''] rows = int (length rows)" by (intro count_partition) auto
  moreover from \<open>\<forall>r\<in>set rows. _\<close> have "count_rows [''created''] rows = 0" "count_rows [''updated''] rows = 0"
    by (auto intro!: count_none)
  ultimately show ?thesis using run by (auto simp: inventory_quiet_def read_import_batch_def finished_batch_def)
qed

theorem dry_import_reports_witness:
  "\<exists>res d'. import_inventory (\<lambda>_. None) 0 \<lparr>iq_source_type = ''api'', iq_filename = None,
      iq_items = [[(''ip'', JStr ''10.0.0.1''), (''host'', JStr ''sw1'')], [(''host'', JStr ''sw2'')]], iq_strict = False, iq_dry_run = True\<rparr>
      ''planner'' empty_db = (Inr res, d') \<and> by_total_rows (is_batch res) = 2"
proof -
  let ?p = "\<lparr>iq_source_type = ''api'', iq_filename = None,
      iq_items = [[(''ip'', JStr ''10.0.0.1''), (''host'', JStr ''sw1'')], [(''host'', JStr ''sw2'')]], iq_strict = False, iq_dry_run = True\<rparr>"
  have "list_all (\<lambda>item. text_address (canonicalize_record item)) (iq_items ?p)"
    by (simp add: text_address_def canonicalize_record_def column_of_def Let_def str_strip_def casefold_def collapse_spaces_def
        split_words_def is_space_def str_replace_def CANONICAL_FIELD_ALIASES_def jget_def)
  then show ?thesis using dry_import_reports [of ?p empty_db "\<lambda>_. None" 0 "''planner''"] by (auto simp: empty_db_def)
qed

theorem import_keeps_inventory_apart_witness:
  "inventory_apart (snd (api_import_inventory (\<lambda>_. None) 0 \<lparr>iq_source_type = ''api'', iq_filename = None,
      iq_items = [[(''ip'', JStr ''10.0.0.1''), (''host'', JStr ''sw1'')], [(''ip'', JStr ''10.0.0.2''), (''host'', JStr ''sw1'')]],
      iq_strict = False, iq_dry_run = False\<rparr> \<lparr>username = ''planner'', roles = {Role_admin}\<rparr> empty_db))"
  by (rule import_keeps_inventory_apart) (simp add: inventory_apart_def empty_db_def)

text \<open>
  C31.  A record is valid exactly when the text in the column of its address reads as an IP address; then the stored address is its
  canonical text, and that text reads as the same address.
\<close>

theorem normalized_address_reads_back:
  "(case ip_address (column (canonicalize_record rec) ''management_ip'') of
      None \<Rightarrow> nr_valid (normalize_inventory_record loads rec) = False
    | Some v \<Rightarrow> nr_valid (normalize_inventory_record loads rec) = True \<and>
        jget (nr_data (normalize_inventory_record loads rec)) ''management_ip'' = JStr (ip_text v) \<and>
        ip_address (ip_text v) = Some v)"
proof -
  have "ip_address [] = None"
    by (simp add: ip_address_def ipv4_octets_def split_scope_def ipv6_groups_def ipv6_parts_def)
  then show ?thesis
    using ip_address_valid ip_address_text
    by (auto simp: normalize_inventory_record_def Let_def record_data_keys addressed_def jget_update split: option.splits)
qed

section \<open>Two defects\<close>

text \<open>The header \<open>IP Address\<close> names no column; written with an underscore or without \<open>Address\<close> it does.\<close>

lemma ip_address_header_lost:
  "column_of ''IP Address'' = None" "column_of ''IP_Address'' = Some ''management_ip''" "column_of ''IP'' = Some ''management_ip''"
  by (simp_all add: column_of_def Let_def str_strip_def casefold_def collapse_spaces_def split_words_def is_space_def
      str_replace_def CANONICAL_FIELD_ALIASES_def)

text \<open>A number in the column of the address makes the row invalid, and then the report of the import raises.\<close>

lemma number_address_fails_report:
  assumes "jget (canonicalize_record rec) ''management_ip'' = JInt i" "i \<noteq> 0" "ip_address (int_str i) = None"
  shows "nr_valid (normalize_inventory_record loads rec) = False"
    "\<exists>e. resolve_item (nr_data (normalize_inventory_record loads rec)) a b = Inl e"
proof -
  have col: "column (canonicalize_record rec) ''management_ip'' = int_str i"
    using assms(1,2) by (simp add: column_def str_or_empty_def str_strip_no_space int_str_no_space)
  moreover have "int_str i \<noteq> []" by (simp add: int_str_def)
  ultimately have "fst (addressed (canonicalize_record rec)) = canonicalize_record rec" "snd (addressed (canonicalize_record rec)) \<noteq> []"
    using assms(3) by (simp_all add: addressed_def Let_def)
  then show "nr_valid (normalize_inventory_record loads rec) = False"
    "\<exists>e. resolve_item (nr_data (normalize_inventory_record loads rec)) a b = Inl e"
    using assms(1,2)
    by (auto simp: normalize_inventory_record_def Let_def resolve_item_def data_input_def record_data_keys or_else_def opt_field_def
        split: sum.splits prod.splits)
qed

text \<open>The older import looks at addresses only: two devices can get the same host name.\<close>

definition named_input :: "string \<Rightarrow> string \<Rightarrow> device_input" where
  "named_input ip name =
     \<lparr>di_hostname = Some name, di_ip_address = ip, di_vendor = ''Huawei'', di_model = [], di_site = None, di_role = None, di_tags = []\<rparr>"

lemma older_import_repeats_hostname:
  "inventory_apart empty_db" "\<not> inventory_apart (snd (api_import_devices 0 [named_input ''10.0.0.1'' ''sw1'', named_input ''10.0.0.2'' ''sw1''] empty_db))"
  by (simp_all add: inventory_apart_def empty_db_def api_import_devices_def committed_def devices_from_records_def Let_def andThen_def
      unless_def ret_def import_devices_def create_or_update_from_input_def asks_def device_of_ip_def fresh_id_def change_def
      device_from_input_def blank_device_def named_input_def devices_apart_def)

end
