(* ===== verification/Spec2Isabelle.thy ===== *)
theory Spec2Isabelle
  imports Prelude PyValues Uuid Tables VlanRanges Rbac Regex Masking TransportStrategy VendorContracts
    CapabilityMatrix CommandTemplates TransportRuntime Actions Db Endpoints HeaderActors Config LabValidations
    Progress ReportSanitizer AuditTrail DeviceLocks PurePaths Vault LabValidationService SafetyKernel LabApply
    ChangeRepository ChangeValidation ChangePlan ChangeSimulation ChangeService ChangeRequests ChangeLifecycle
    ChangeRuns ChangeLocks ChangeSafety DeviceInventory Snapshots VlanRepository VlanCommands VlanChecks
    VlanImpact VlanPlanning VlanWorkflow VlanRuns Difflib ConfigDiff
    BackupRepository BackupTimes ConfigBackups RestorePlans BackupRequests BackupRuns
    Drivers VlanChangePlans JobStore DeviceBackups VlanJobs JobExecution PasswordChanges PasswordRollout
    JobRequests JobRuns PasswordPlans
    IpAddresses DeviceNormalizer Credentials ImportRepository InventoryImports InventoryRequests
    InventoryRuns
begin

text \<open>
  The switch fleet automation platform (src/app), a FastAPI service that plans changes to network
  switches and, behind many gates, applies them to lab devices.

  PARTS AND HOW THEY INTERACT.  A request enters through an endpoint of app/api/v1.  The dependencies of
  the endpoint read the actor from the request's headers (app/api/deps.py, and the five \<open>get_*_actor\<close> functions of the
  endpoint modules) and open a database session that is committed when the handler returns and rolled back when it
  raises.  The handler checks one permission of the table in app/core/rbac.py and calls a service of
  app/services; the services work on ORM rows through the repositories of app/repositories.  Pure tables and
  functions say what a device family is, what may be sent to it and how secrets are hidden (app/core,
  app/utils, app/services/driver_capability_matrix.py, vendor_command_templates.py).  Three parts keep the dangerous
  operations apart: the change executions, which only ever simulate; the transport runtime, whose sessions refuse every
  device operation; and the lab apply endpoint, where apply_safety_kernel.py decides by fifteen gates over the
  rows the other parts have left (backup snapshots, lab validations, approvals, locks, simulated steps, vault
  secrets) whether commands are handed to a runner.

  LANGUAGE LAYER.  \<open>Prelude\<close> has the exceptions as one datatype \<open>error\<close> (fallible functions return
  \<open>error + 'a\<close>), Python's string functions on ASCII text and the rule collections.  \<open>PyValues\<close> has JSON values,
  truth, \<open>str\<close>, \<open>repr\<close> and the \<open>str\<close> of an exception.  \<open>Uuid\<close> is \<open>uuid.UUID(text)\<close> with \<open>coerce_uuid\<close> of
  app/repositories/__init__.py.  \<open>Regex\<close> gives the patterns of the sources as terms with the backtracking order
  of \<open>re\<close>; \<open>PurePaths\<close> is pathlib's reading of POSIX and Windows paths.

  STATE LAYER.  \<open>Db\<close> has one record per ORM class of app/db/models and the record \<open>db\<close> of all the tables.  \<open>Tables\<close>
  has keyed tables and the locale \<open>row_store\<close>, the contract of finding and updating a row by its key, interpreted on the
  tables of executions, lab validations, vault secrets and VLAN requests.  \<open>Actions\<close> is the state
  and error monad of the services (a raise keeps the writes flushed so far; \<open>committed\<close> undoes them).  \<open>Progress\<close> has the locale
  \<open>progress\<close>, a preorder on states that every action respects, interpreted once per invariant.  \<open>Endpoints\<close>
  has the shared shape of a handler (\<open>endpoint\<close>) and the exception handlers of app/main.py.

  PURE PARTS.  \<open>VlanRanges\<close> (app/utils/vlan_ranges.py), \<open>Rbac\<close> (app/core/rbac.py, app/api/deps.py,
  approval_service.py), \<open>HeaderActors\<close>, \<open>Config\<close> (app/core/config.py), \<open>Masking\<close> (app/utils/masking.py,
  transcript_sanitizer.py, config_sanitizer.py, interface_normalizer.py), \<open>ReportSanitizer\<close>
  (report_sanitizer.py), \<open>TransportStrategy\<close> (app/core/transport_strategy.py), \<open>VendorContracts\<close>
  (app/core/vendor_driver_contracts.py), \<open>CapabilityMatrix\<close> (driver_capability_matrix.py), \<open>CommandTemplates\<close>
  (vendor_command_templates.py), \<open>TransportRuntime\<close> (transport_runtime.py).  Their theorems say: VLAN lists are parsed
  exactly and parsing undoes printing; which roles a request gets and which combinations can both
  approve and apply; explicit secrets are gone from masked text; secret keys are recognised and masked at
  every depth; what is rendered is the contract's commands for a supported operation, one per template, never one the
  contract blocks, and carries no control character of a scalar parameter; a transport decision is taken from one
  listed profile, which the device's own words fix first, and never permits configuration; a session refuses every
  operation whatever the calls.

  AUDIT, LOCKS, VAULT.  \<open>AuditTrail\<close> (audit_service.py, repositories/audit.py): a write adds exactly one sanitized row.
  \<open>DeviceLocks\<close> (lock_service.py, repositories/locks.py) states the lease table as the locale \<open>lease_table\<close>, interpreted
  on the table of locks: a lease excludes every other until it is released or expires, and is obtainable
  exactly when none is unexpired.  \<open>Vault\<close> (credential_vault_service.py, repositories/credential_vault.py,
  core/crypto.py, core/secret_crypto.py and the API) is refined to an abstract key ring, a partial map from
  identifiers to a secret and an enabled flag: requests take the key ring one step or change nothing, and decrypting
  gives what the key ring holds.

  LAB APPLY.  \<open>LabValidations\<close> and \<open>LabValidationService\<close> (repositories/lab_validations.py and its siblings,
  lab_validation_service.py, the API): the query for an approved validation is exact, and so is the gate before a real change.
  \<open>SafetyKernel\<close> (apply_safety_kernel.py): \<open>evaluate\<close> runs the gates in the code's order over a verdict;
  \<open>gate_conditions\<close> names the condition of every gate, \<open>settles\<close> is the invariant that ties the verdict to them, and from it
  follow the theorems: every gate is listed exactly once, and a request is allowed exactly when all conditions hold.
  \<open>LabApply\<close> (lab_apply_service.py, the fake transport, the factory, the API): what execution does is decided by
  the kernel alone, a failure of the runner is reported without the secret.

  CHANGE EXECUTIONS.  \<open>ChangeRepository\<close>, \<open>ChangeValidation\<close>, \<open>ChangePlan\<close>, \<open>ChangeSimulation\<close>, \<open>ChangeService\<close> and
  \<open>ChangeRequests\<close> are repositories/change_executions.py, the four change_execution services and
  app/api/v1/change_executions.py.  \<open>ChangeLifecycle\<close> gives the abstract life-cycle machine, labelled with the
  requests, and the proof that an answered request is the move of its label and a refused one changes nothing;
  \<open>ChangeRuns\<close> (the machine in every reached state, approval comes before readiness, permissions), \<open>ChangeLocks\<close> (reservations exclude each other, the
  audit trail only grows) and \<open>ChangeSafety\<close> (the gates of readiness, simulation is harmless, two defects) hold
  of every run of requests from the empty database.

  INVENTORY AND SNAPSHOTS.  \<open>IpAddresses\<close> is what the code uses of the standard library's ipaddress, with the proof that
  the canonical text of an address reads as the same address; \<open>DeviceNormalizer\<close> (device_normalizer.py, inventory_parser.py),
  \<open>DeviceInventory\<close> (repositories/device_inventory.py), \<open>Credentials\<close> (credential_service.py with its repository and
  API), \<open>ImportRepository\<close> and \<open>InventoryImports\<close> (inventory_validation_service.py) and \<open>InventoryRequests\<close> (the
  endpoints, the simulated discovery, the older import) model how devices come into the inventory.  \<open>InventoryRuns\<close> proves that an
  import keeps addresses and host names unique, and that a dry run always returns, counts every record once and
  changes no device.  \<open>Snapshots\<close> (repositories/config_snapshots.py): the retention policy keeps the newest
  snapshots of every device.

  CONFIGURATION DIFFS.  \<open>Difflib\<close> is what the code uses of the standard library's difflib (the matcher with its heuristics,
  opcodes, groups and the unified format) with the proof that any diff it makes is a patch; \<open>ConfigDiff\<close>
  (config_diff_service.py) has the normalisation, the stored diffs with their summary and the drift report.  Its theorems say
  that the text of a diff, read by a patch program, rebuilds the new configuration, and that the summary balances.

  BACKUPS.  \<open>BackupRepository\<close> (repositories/config_backups.py), \<open>BackupTimes\<close> (when a schedule runs next) and
  \<open>ConfigBackups\<close> (config_backup_service.py), \<open>RestorePlans\<close> (config_restore_service.py and its repository) and
  \<open>BackupRequests\<close> (app/api/v1/config_backups.py).  \<open>BackupRuns\<close> proves that a job always comes to its end, with counters
  and a status that tell the outcome; the next run of a schedule is the first clock time it names.

  VLAN WORKFLOW.  \<open>VlanRepository\<close> (repositories/vlan_workflows.py), \<open>VlanCommands\<close> and \<open>VlanPlanning\<close>
  (vlan_plan_service.py), \<open>VlanChecks\<close> (vlan_validation_service.py), \<open>VlanImpact\<close> (vlan_impact_service.py) and
  \<open>VlanWorkflow\<close> (vlan_workflow_service.py and the API).  \<open>VlanRuns\<close> has the abstract machine of a request (its status and
  whether it was approved), labelled with the calls, and the proof that an accepted call is the move of its label and a
  refused one changes nothing; a ready request was approved, and an approval rests on validated devices with plan
  and rollback.  The other theories say which devices pass validation, what characters a planned command can
  have, and where the reading of configurations goes wrong.

  DRIVERS AND DEVICE JOBS.  \<open>Drivers\<close> (app/drivers, driver_resolver.py): a driver class is a record of its
  attributes and methods, a subclass an update of its base class's record, and an inherited method calls what the
  record holds, as \<open>self\<close> does.  \<open>VlanChangePlans\<close> proves that no driver is marked as confirmed for real changes,
  that every change operation only returns its command list, and how the renderings of a VLAN by a
  driver and by the VLAN workflow compare.  \<open>JobStore\<close> (repositories of jobs, job tasks, devices and
  rollouts), \<open>DeviceBackups\<close> (backup_service.py and its endpoints), \<open>VlanJobs\<close> (the planning service, approval_service.py and
  the job services), \<open>JobExecution\<close> (app/jobs/executors.py), \<open>PasswordChanges\<close> and \<open>PasswordRollout\<close>
  (password_change_service.py, password_rollout_service.py) and \<open>JobRequests\<close> (the endpoints) model the jobs that change devices:
  they are planned as a dry run, approved, and then run task by task under a lease, with a backup before and a check
  after.  \<open>JobRuns\<close> proves that a task ends in a final status and leaves every lease it did not take, that
  success rests on a confirmed driver, a check and a stored backup that the task refers to, and that a job runs
  exactly when it was approved and is no password change, every task of it attempted once; \<open>PasswordPlans\<close> that the
  canary batches split the tasks of a rollout, and which lines stored for review can contain the new password.

  CONVENTIONS AND BOUNDS.  Text is ASCII.  Instants are integers, in microseconds.  A request reads the clock once
  (\<open>now\<close>); the code reads it a few times within a request.  \<open>uuid4\<close> is the next number of a counter, so identifiers never
  repeat (where a text form of an identifier is parsed again, they are bounded by 2^128).  Rows with equal creation times keep their insertion order where the database leaves the order
  open.  Requests are served one after the other: a run is a list of requests, and the interleaving of two
  sessions inside the database is not modelled; nor are foreign keys and column lengths.  SHA-256,
  HMAC, Fernet (with a nonce for its random bytes), \<open>json.loads\<close> of tag texts, the iteration order of a set of placeholder names and the runner
  that talks to devices are parameters; the only assumption made of one is \<open>working_cipher\<close> (a token decrypts to
  its text and is not empty), which the toy cipher of \<open>Vault\<close> meets.  Recursion is structural or has a measure, so there
  is no fuel; every definition is total.

  NOT MODELLED.  What opens network sessions: the lab runners, the driver runtime and the transports (netmiko, scrapli); the
  job executor is modelled with the dummy transport that its factory gives it.  The reading of CSV files and spreadsheets
  (csv, openpyxl), the read-only aggregations of observability and operator console, the spreadsheet front end and the
  scripts, the legacy command line tool under src/netops_orchestrator, FastAPI routing, the Celery workers, SQLAlchemy sessions
  and migrations.
\<close>

end
